(* ===== verification/Godwit_Prelude.thy ===== *)
theory Godwit_Prelude
  imports Main "HOL-Library.Word"
begin

text \<open>
  Shared vocabulary of the Godwit development: Rust's \<open>Result\<close> as a sum, machine
  integers at their width, instants and durations in nanoseconds, the part of the standard
  library's string API the sources use (on UTF-8 byte strings), the entry-or-insert access
  to concurrent maps, and the generic lemmas that the component theories rely on.
\<close>

section \<open>Types\<close>

type_synonym ('e, 'a) result = "'e + 'a"

abbreviation Ok :: "'a \<Rightarrow> ('e, 'a) result" where
  "Ok \<equiv> Inr"

abbreviation Err :: "'e \<Rightarrow> ('e, 'a) result" where
  "Err \<equiv> Inl"

type_synonym u16 = "16 word"
type_synonym u32 = "32 word"
type_synonym u64 = "64 word"
type_synonym usize = "64 word"
type_synonym uuid = "128 word"

text \<open>A signed integer is its two's-complement word, read with \<open>sint\<close>.\<close>

type_synonym i32 = "32 word"
type_synonym i64 = "64 word"

text \<open>Monotonic instants and durations, in nanoseconds.\<close>

type_synonym instant = nat
type_synonym duration = nat

named_theorems godwit_ops \<open>unfolding equations of the operations of a component\<close>
named_theorems godwit_inv \<open>preservation of a component's invariant by its operations\<close>

section \<open>Time\<close>

text \<open>\<open>Instant::elapsed\<close> and \<open>Instant::duration_since\<close> saturate at zero.\<close>

definition elapsed_since :: "instant \<Rightarrow> instant \<Rightarrow> duration" where
  "elapsed_since now earlier = now - earlier"

definition secs :: "nat \<Rightarrow> duration" where
  "secs n = n * 1000000000"

definition millis :: "nat \<Rightarrow> duration" where
  "millis n = n * 1000000"

section \<open>Results and options\<close>

fun is_ok :: "('e, 'a) result \<Rightarrow> bool" where
  "is_ok (Inr _) = True"
| "is_ok (Inl _) = False"

fun unwrap_or :: "'a \<Rightarrow> 'a option \<Rightarrow> 'a" where
  "unwrap_or d None = d"
| "unwrap_or d (Some x) = x"

fun ok_or :: "'e \<Rightarrow> 'a option \<Rightarrow> ('e, 'a) result" where
  "ok_or e None = Inl e"
| "ok_or e (Some x) = Inr x"

fun bind_result :: "('e, 'a) result \<Rightarrow> ('a \<Rightarrow> ('e, 'b) result) \<Rightarrow> ('e, 'b) result" where
  "bind_result (Inl e) f = Inl e"
| "bind_result (Inr x) f = f x"

fun map_err :: "('e \<Rightarrow> 'f) \<Rightarrow> ('e, 'a) result \<Rightarrow> ('f, 'a) result" where
  "map_err f (Inl e) = Inl (f e)"
| "map_err f (Inr x) = Inr x"

lemma bind_result_ok_iff:
  "bind_result r f = Inr y \<longleftrightarrow> (\<exists>x. r = Inr x \<and> f x = Inr y)"
  by (cases r) auto

lemma unwrap_or_case: "unwrap_or d x = (case x of None \<Rightarrow> d | Some y \<Rightarrow> y)"
  by (cases x) auto

section \<open>Concurrent maps\<close>

text \<open>
  \<open>DashMap::entry(k).or_insert_with(d)\<close>: the entry of the key, created from the default
  when the key is new.
\<close>

definition entry_or_insert :: "'k \<Rightarrow> 'v \<Rightarrow> ('k \<rightharpoonup> 'v) \<Rightarrow> 'v \<times> ('k \<rightharpoonup> 'v)" where
  "entry_or_insert k d m =
     (case m k of Some v \<Rightarrow> (v, m) | None \<Rightarrow> (d, m(k \<mapsto> d)))"

lemma entry_or_insert_fst: "fst (entry_or_insert k d m) = unwrap_or d (m k)"
  by (simp add: entry_or_insert_def split: option.splits)

lemma entry_or_insert_lookup:
  "snd (entry_or_insert k d m) k = Some (fst (entry_or_insert k d m))"
  by (simp add: entry_or_insert_def split: option.splits)

lemma entry_or_insert_frame:
  "j \<noteq> k \<Longrightarrow> snd (entry_or_insert k d m) j = m j"
  by (simp add: entry_or_insert_def split: option.splits)

lemma entry_or_insert_upd:
  "(snd (entry_or_insert k d m))(k \<mapsto> v) = m(k \<mapsto> v)"
  by (auto simp add: entry_or_insert_def split: option.splits)

text \<open>
  The interface of a registry that creates its entries on demand: \<open>fetch\<close> returns the
  entry of a key (created from \<open>fresh\<close> when absent), \<open>store\<close> writes it back. The circuit
  breaker registry, the load balancer and the login limiter provide it.
\<close>

locale keyed_store =
  fixes lookup :: "'m \<Rightarrow> 'k \<Rightarrow> 'v option"
    and fetch :: "'k \<Rightarrow> 'm \<Rightarrow> 'v \<times> 'm"
    and store :: "'k \<Rightarrow> 'v \<Rightarrow> 'm \<Rightarrow> 'm"
    and fresh :: "'m \<Rightarrow> 'v"
  assumes fetch_value: "fst (fetch k m) = unwrap_or (fresh m) (lookup m k)"
    and fetch_self: "lookup (snd (fetch k m)) k = Some (fst (fetch k m))"
    and fetch_other: "j \<noteq> k \<Longrightarrow> lookup (snd (fetch k m)) j = lookup m j"
    and fetch_fresh: "fresh (snd (fetch k m)) = fresh m"
    and store_lookup: "lookup (store k v m) j = (if j = k then Some v else lookup m j)"
    and store_fresh: "fresh (store k v m) = fresh m"
begin

lemma fetch_idem: "fst (fetch k (snd (fetch j m))) = fst (fetch k m)"
  by (cases "k = j") (auto simp: fetch_value fetch_self fetch_other fetch_fresh)

lemma modify_self:
  "fst (fetch k (store k (f (fst (fetch k m))) (snd (fetch k m)))) =
     f (unwrap_or (fresh m) (lookup m k))"
  by (simp add: fetch_value store_lookup store_fresh)

lemma modify_other:
  "j \<noteq> k \<Longrightarrow> lookup (store k v (snd (fetch k m))) j = lookup m j"
  by (simp add: store_lookup fetch_other)

lemma modify_other_fetch:
  "j \<noteq> k \<Longrightarrow> fst (fetch j (store k v (snd (fetch k m)))) = fst (fetch j m)"
  by (simp add: fetch_value modify_other store_fresh fetch_fresh)

end

section \<open>Lists\<close>

text \<open>\<open>Iterator::find_map\<close>.\<close>

fun find_map :: "('a \<Rightarrow> 'b option) \<Rightarrow> 'a list \<Rightarrow> 'b option" where
  "find_map f [] = None"
| "find_map f (x # xs) = (case f x of Some y \<Rightarrow> Some y | None \<Rightarrow> find_map f xs)"

text \<open>\<open>Iterator::filter_map\<close> is \<open>List.map_filter\<close>; a fallible \<open>collect\<close> is \<open>collect_results\<close>.\<close>

fun collect_results :: "('e, 'a) result list \<Rightarrow> ('e, 'a list) result" where
  "collect_results [] = Inr []"
| "collect_results (Inl e # rs) = Inl e"
| "collect_results (Inr x # rs) =
     (case collect_results rs of Inl e \<Rightarrow> Inl e | Inr xs \<Rightarrow> Inr (x # xs))"

lemma collect_results_map_Inr [simp]: "collect_results (map Inr xs) = Inr xs"
  by (induction xs) auto

lemma collect_results_Inr: "collect_results rs = Inr xs \<Longrightarrow> rs = map Inr xs"
  by (induction rs arbitrary: xs rule: collect_results.induct) (auto split: sum.splits)

lemma collect_results_Inr_all:
  "collect_results (map f ys) = Inr xs \<Longrightarrow> \<forall>y \<in> set ys. \<exists>x. f y = Inr x"
  by (drule collect_results_Inr) (metis in_set_conv_nth length_map nth_map)

lemma find_map_Some:
  "find_map f xs = Some y \<Longrightarrow> \<exists>x \<in> set xs. f x = Some y"
  by (induction xs) (auto split: option.splits)

lemma find_map_None: "find_map f xs = None \<longleftrightarrow> (\<forall>x \<in> set xs. f x = None)"
  by (induction xs) (auto split: option.splits)

lemma length_filter_compl:
  "length (filter P xs) + length (filter (\<lambda>x. \<not> P x) xs) = length xs"
  by (induction xs) auto

lemma mod_shift_le:
  assumes "(s + a) mod n = (s + b) mod (n::nat)" "a \<le> b" "b < n"
  shows "a = b"
proof -
  have "n dvd (s + b) - (s + a)"
    using assms(1,2) mod_eq_dvd_iff_nat [of "s + a" "s + b" n] by simp
  then have "n dvd b - a" by simp
  with assms(2,3) show ?thesis by (auto dest: dvd_imp_le)
qed

lemma mod_shift_inj:
  "(s + a) mod n = (s + b) mod (n::nat) \<Longrightarrow> a < n \<Longrightarrow> b < n \<Longrightarrow> a = b"
  using mod_shift_le [of s a n b] mod_shift_le [of s b n a] by (cases "a \<le> b") auto

section \<open>Byte strings\<close>

text \<open>
  A Rust \<open>String\<close> is its UTF-8 bytes, so \<open>length\<close> is \<open>str::len\<close>. Slicing outside the
  string panics; \<open>str_slice\<close> returns \<open>None\<close> there.
\<close>

definition starts_with :: "string \<Rightarrow> string \<Rightarrow> bool" where
  "starts_with p s \<longleftrightarrow> take (length p) s = p"

definition strip_prefix :: "string \<Rightarrow> string \<Rightarrow> string option" where
  "strip_prefix p s = (if starts_with p s then Some (drop (length p) s) else None)"

fun str_contains :: "string \<Rightarrow> string \<Rightarrow> bool" where
  "str_contains p [] = (p = [])"
| "str_contains p (c # s) = (starts_with p (c # s) \<or> str_contains p s)"

definition str_slice :: "string \<Rightarrow> nat \<Rightarrow> nat \<Rightarrow> string option" where
  "str_slice s a b =
     (if a \<le> b \<and> b \<le> length s then Some (take (b - a) (drop a s)) else None)"

fun split_once :: "char \<Rightarrow> string \<Rightarrow> (string \<times> string) option" where
  "split_once d [] = None"
| "split_once d (c # s) =
     (if c = d then Some ([], s)
      else map_option (\<lambda>(a, b). (c # a, b)) (split_once d s))"

fun split_on :: "char \<Rightarrow> string \<Rightarrow> string list" where
  "split_on d [] = [[]]"
| "split_on d (c # s) =
     (if c = d then [] # split_on d s
      else (case split_on d s of [] \<Rightarrow> [[c]] | w # ws \<Rightarrow> (c # w) # ws))"

fun join_with :: "string \<Rightarrow> string list \<Rightarrow> string" where
  "join_with sep [] = []"
| "join_with sep [w] = w"
| "join_with sep (w # v # ws) = w @ sep @ join_with sep (v # ws)"

lemma starts_with_iff: "starts_with p s \<longleftrightarrow> (\<exists>t. s = p @ t)"
  unfolding starts_with_def by (metis append_eq_conv_conj append_take_drop_id)

lemma strip_prefix_Some_iff: "strip_prefix p s = Some t \<longleftrightarrow> s = p @ t"
  by (auto simp: strip_prefix_def starts_with_iff)

lemma split_once_Some:
  "split_once d s = Some (a, b) \<longleftrightarrow> s = a @ d # b \<and> d \<notin> set a"
proof (induction s arbitrary: a)
  case Nil
  then show ?case by simp
next
  case (Cons c s)
  then show ?case
    by (cases a) (auto split: if_splits)
qed

lemma split_once_None: "split_once d s = None \<longleftrightarrow> d \<notin> set s"
  by (induction s) auto

lemma split_on_ne [simp]: "split_on d s \<noteq> []"
  by (induction s) (auto split: list.splits)

lemma join_with_Cons:
  "ws \<noteq> [] \<Longrightarrow> join_with sep (w # ws) = w @ sep @ join_with sep ws"
  by (cases ws) auto

lemma join_with_Cons_head: "join_with sep ((c # w) # ws) = c # join_with sep (w # ws)"
  by (cases ws) auto

lemma join_split_on: "join_with [d] (split_on d s) = s"
proof (induction s)
  case (Cons c s)
  obtain w ws where "split_on d s = w # ws" by (cases "split_on d s") auto
  with Cons show ?case by (auto simp: join_with_Cons join_with_Cons_head)
qed simp

section \<open>Printing numbers\<close>

text \<open>\<open>Display\<close> of unsigned and signed integers.\<close>

definition digit_char :: "nat \<Rightarrow> char" where
  "digit_char d = char_of (48 + d)"

fun show_nat :: "nat \<Rightarrow> string" where
  "show_nat n =
     (if n < 10 then [digit_char n] else show_nat (n div 10) @ [digit_char (n mod 10)])"

declare show_nat.simps [simp del]

definition show_int :: "int \<Rightarrow> string" where
  "show_int i = (if i < 0 then ''-'' @ show_nat (nat (- i)) else show_nat (nat i))"

text \<open>\<open>str::parse\<close> of an unsigned number: digits only (one leading plus sign allowed), at least one.\<close>

definition is_digit :: "char \<Rightarrow> bool" where
  "is_digit c \<longleftrightarrow> 48 \<le> (of_char c :: nat) \<and> (of_char c :: nat) \<le> 57"

definition digit_val :: "char \<Rightarrow> nat" where
  "digit_val c = of_char c - 48"

definition digits_val :: "string \<Rightarrow> nat" where
  "digits_val s = foldl (\<lambda>n c. n * 10 + digit_val c) 0 s"

lemma is_digit_digit_char: "d < 10 \<Longrightarrow> is_digit (digit_char d)"
  by (simp add: is_digit_def digit_char_def)

lemma digit_val_digit_char: "d < 10 \<Longrightarrow> digit_val (digit_char d) = d"
  by (simp add: digit_val_def digit_char_def)

lemma show_nat_digits: "show_nat n \<noteq> [] \<and> (\<forall>c \<in> set (show_nat n). is_digit c)"
proof (induction n rule: show_nat.induct)
  case (1 n)
  then show ?case by (auto simp: show_nat.simps [of n] is_digit_digit_char)
qed

lemma digits_val_show_nat: "digits_val (show_nat n) = n"
proof (induction n rule: show_nat.induct)
  case (1 n)
  then show ?case
    by (auto simp: show_nat.simps [of n] digits_val_def digit_val_digit_char)
qed

section \<open>ASCII case and character replacement\<close>

definition ascii_lower :: "char \<Rightarrow> char" where
  "ascii_lower c =
     (let n = of_char c :: nat in if 65 \<le> n \<and> n \<le> 90 then char_of (n + 32) else c)"

definition replace_char :: "char \<Rightarrow> string \<Rightarrow> string \<Rightarrow> string" where
  "replace_char d r s = concat (map (\<lambda>c. if c = d then r else [c]) s)"

section \<open>Trimming\<close>

text \<open>
  \<open>str::trim\<close> removes the characters with the \<open>White_Space\<close> property at both ends: six of
  one byte, two of two bytes and the others of three bytes in UTF-8.
\<close>

definition byte :: "char \<Rightarrow> nat" where
  "byte c = of_char c"

definition ws1 :: "char \<Rightarrow> bool" where
  "ws1 a \<longleftrightarrow> (9 \<le> byte a \<and> byte a \<le> 13) \<or> byte a = 32"

definition ws2 :: "char \<Rightarrow> char \<Rightarrow> bool" where
  "ws2 a b \<longleftrightarrow> byte a = 0xC2 \<and> (byte b = 0x85 \<or> byte b = 0xA0)"

definition ws3 :: "char \<Rightarrow> char \<Rightarrow> char \<Rightarrow> bool" where
  "ws3 a b c \<longleftrightarrow>
     (byte a = 0xE1 \<and> byte b = 0x9A \<and> byte c = 0x80) \<or>
     (byte a = 0xE2 \<and> byte b = 0x80 \<and>
        ((0x80 \<le> byte c \<and> byte c \<le> 0x8A) \<or> byte c = 0xA8 \<or> byte c = 0xA9 \<or> byte c = 0xAF)) \<or>
     (byte a = 0xE2 \<and> byte b = 0x81 \<and> byte c = 0x9F) \<or>
     (byte a = 0xE3 \<and> byte b = 0x80 \<and> byte c = 0x80)"

fun trim_start :: "string \<Rightarrow> string" where
  "trim_start (a # b # c # s) =
     (if ws1 a then trim_start (b # c # s)
      else if ws2 a b then trim_start (c # s)
      else if ws3 a b c then trim_start s
      else a # b # c # s)"
| "trim_start [a, b] = (if ws1 a then trim_start [b] else if ws2 a b then [] else [a, b])"
| "trim_start [a] = (if ws1 a then [] else [a])"
| "trim_start [] = []"

text \<open>The same from the end, on the reversed bytes.\<close>

fun trim_rev :: "string \<Rightarrow> string" where
  "trim_rev (c # b # a # s) =
     (if ws1 c then trim_rev (b # a # s)
      else if ws2 b c then trim_rev (a # s)
      else if ws3 a b c then trim_rev s
      else c # b # a # s)"
| "trim_rev [b, a] = (if ws1 b then trim_rev [a] else if ws2 a b then [] else [b, a])"
| "trim_rev [a] = (if ws1 a then [] else [a])"
| "trim_rev [] = []"

definition trim_end :: "string \<Rightarrow> string" where
  "trim_end s = rev (trim_rev (rev s))"

definition trim :: "string \<Rightarrow> string" where
  "trim s = trim_end (trim_start s)"

lemma trim_start_suffix: "\<exists>w. s = w @ trim_start s"
  by (induction s rule: trim_start.induct) (auto, (metis append_Cons append_Nil)+)

lemma trim_rev_suffix: "\<exists>w. s = w @ trim_rev s"
  by (induction s rule: trim_rev.induct) (auto, (metis append_Cons append_Nil)+)

lemma trim_end_prefix: "\<exists>w. s = trim_end s @ w"
  using trim_rev_suffix [of "rev s"] unfolding trim_end_def by (metis rev_append rev_rev_ident)

text \<open>The trimmed string is a contiguous part of the string.\<close>

lemma trim_infix: "\<exists>u w. s = u @ trim s @ w"
  using trim_start_suffix [of s] trim_end_prefix [of "trim_start s"] unfolding trim_def
  by (metis append.assoc)

lemma trim_rev_length: "length (trim_rev s) \<le> length s"
  using trim_rev_suffix [of s] by (metis le_add2 length_append)

end
