(* ===== verification/Circuit_Breaker.thy ===== *)
theory Circuit_Breaker
  imports Godwit_Prelude
begin

text \<open>
  The circuit breaker of \<open>crates/godwit-api/src/circuit_breaker.rs\<close>: the breaker's state
  and methods, the registry of breakers per provider, and an interleaving model of the
  methods' atomic accesses. A method that reads the clock takes the instants it reads; the
  methods are sequential functions here and are split into their atomic accesses in the
  second half of the theory.
\<close>

section \<open>The breaker\<close>

datatype circuit_state = Closed | Open | HalfOpen

record circuit_breaker =
  cb_failures :: usize
  cb_successes :: usize
  cb_last_failure :: "instant option"
  cb_current :: circuit_state
  cb_threshold :: usize
  cb_timeout :: duration
  cb_half_open_max :: usize
  cb_half_open_requests :: usize

definition cb_new :: "usize \<Rightarrow> duration \<Rightarrow> usize \<Rightarrow> circuit_breaker" where
  "cb_new threshold timeout half_open_max =
     \<lparr>cb_failures = 0, cb_successes = 0, cb_last_failure = None, cb_current = Closed,
      cb_threshold = threshold, cb_timeout = timeout, cb_half_open_max = half_open_max,
      cb_half_open_requests = 0\<rparr>"

text \<open>\<open>state()\<close>: an open breaker whose timeout has elapsed becomes half-open when it is read.\<close>

definition cb_state :: "instant \<Rightarrow> circuit_breaker \<Rightarrow> circuit_state \<times> circuit_breaker" where
  "cb_state now cb =
     (let current = cb_current cb
      in if current = Open
         then (case cb_last_failure cb of
                 Some t \<Rightarrow>
                   if cb_timeout cb \<le> elapsed_since now t
                   then (HalfOpen, cb\<lparr>cb_current := HalfOpen\<rparr>)
                   else (current, cb)
               | None \<Rightarrow> (current, cb))
         else (current, cb))"

text \<open>\<open>can_execute\<close> reads the clock in \<open>state()\<close> and once more in its open branch.\<close>

definition cb_can_execute ::
  "instant \<Rightarrow> instant \<Rightarrow> circuit_breaker \<Rightarrow> bool \<times> circuit_breaker" where
  "cb_can_execute now1 now2 cb =
     (case cb_state now1 cb of (current, cb) \<Rightarrow>
        (case current of
           Closed \<Rightarrow> (True, cb)
         | Open \<Rightarrow>
             (case cb_last_failure cb of
                Some t \<Rightarrow> (cb_timeout cb \<le> elapsed_since now2 t, cb)
              | None \<Rightarrow> (True, cb))
         | HalfOpen \<Rightarrow>
             (let reserved = cb_half_open_requests cb;
                  cb = cb\<lparr>cb_half_open_requests := reserved + 1\<rparr>
              in if reserved < cb_half_open_max cb then (True, cb)
                 else (False,
                       cb\<lparr>cb_half_open_requests := cb_half_open_requests cb - 1\<rparr>))))"

definition cb_record_success :: "circuit_breaker \<Rightarrow> circuit_breaker" where
  "cb_record_success cb =
     (let cb = cb\<lparr>cb_successes := cb_successes cb + 1\<rparr>
      in case cb_current cb of
           HalfOpen \<Rightarrow>
             cb\<lparr>cb_current := Closed, cb_failures := 0, cb_half_open_requests := 0\<rparr>
         | Closed \<Rightarrow> cb\<lparr>cb_failures := 0\<rparr>
         | Open \<Rightarrow> cb)"

definition cb_record_failure :: "instant \<Rightarrow> circuit_breaker \<Rightarrow> circuit_breaker" where
  "cb_record_failure now cb =
     (let cb = cb\<lparr>cb_failures := cb_failures cb + 1, cb_last_failure := Some now\<rparr>
      in case cb_current cb of
           Closed \<Rightarrow>
             (if cb_threshold cb \<le> cb_failures cb then cb\<lparr>cb_current := Open\<rparr> else cb)
         | HalfOpen \<Rightarrow> cb\<lparr>cb_current := Open, cb_half_open_requests := 0\<rparr>
         | Open \<Rightarrow> cb)"

lemmas cb_op_defs [godwit_ops] =
  cb_state_def cb_can_execute_def cb_record_success_def cb_record_failure_def Let_def

section \<open>The registry\<close>

record breaker_registry =
  reg_breakers :: "string \<rightharpoonup> circuit_breaker"
  reg_threshold :: usize
  reg_timeout :: duration
  reg_half_open_max :: usize

definition reg_new :: "usize \<Rightarrow> duration \<Rightarrow> usize \<Rightarrow> breaker_registry" where
  "reg_new threshold timeout half_open_max =
     \<lparr>reg_breakers = Map.empty, reg_threshold = threshold, reg_timeout = timeout,
      reg_half_open_max = half_open_max\<rparr>"

definition reg_fresh :: "breaker_registry \<Rightarrow> circuit_breaker" where
  "reg_fresh r = cb_new (reg_threshold r) (reg_timeout r) (reg_half_open_max r)"

definition reg_get :: "string \<Rightarrow> breaker_registry \<Rightarrow> circuit_breaker \<times> breaker_registry" where
  "reg_get provider_id r =
     (case entry_or_insert provider_id (reg_fresh r) (reg_breakers r) of
        (b, m) \<Rightarrow> (b, r\<lparr>reg_breakers := m\<rparr>))"

text \<open>The registry hands out shared references: a method called on one is seen by all.\<close>

definition reg_put :: "string \<Rightarrow> circuit_breaker \<Rightarrow> breaker_registry \<Rightarrow> breaker_registry" where
  "reg_put provider_id b r = r\<lparr>reg_breakers := (reg_breakers r)(provider_id \<mapsto> b)\<rparr>"

definition reg_record_success :: "string \<Rightarrow> breaker_registry \<Rightarrow> breaker_registry" where
  "reg_record_success provider_id r =
     (case reg_get provider_id r of
        (breaker, r) \<Rightarrow> reg_put provider_id (cb_record_success breaker) r)"

definition reg_record_failure :: "instant \<Rightarrow> string \<Rightarrow> breaker_registry \<Rightarrow> breaker_registry" where
  "reg_record_failure now provider_id r =
     (case reg_get provider_id r of
        (breaker, r) \<Rightarrow> reg_put provider_id (cb_record_failure now breaker) r)"

text \<open>\<open>all_states\<close> visits the entries in the map's iteration order, given by the keys.\<close>

fun reg_all_states ::
  "instant \<Rightarrow> string list \<Rightarrow> breaker_registry \<Rightarrow>
     (string \<times> circuit_state) list \<times> breaker_registry" where
  "reg_all_states now [] r = ([], r)"
| "reg_all_states now (k # ks) r =
     (case reg_breakers r k of
        None \<Rightarrow> reg_all_states now ks r
      | Some b \<Rightarrow>
          (case cb_state now b of (s, b') \<Rightarrow>
             (case reg_all_states now ks (reg_put k b' r) of
                (out, r') \<Rightarrow> ((k, s) # out, r'))))"

interpretation cbreg: keyed_store reg_breakers reg_get reg_put reg_fresh
  by unfold_locales
    (auto simp: reg_get_def reg_put_def reg_fresh_def entry_or_insert_def split: option.splits)

section \<open>Facts on single methods\<close>

lemma word_less_add_one: "(a :: 'a::len word) < b \<Longrightarrow> unat (a + 1) = unat a + 1"
proof -
  assume "a < b"
  moreover have "unat b < 2 ^ LENGTH('a)" by (rule unsigned_less)
  ultimately have "unat a + 1 < 2 ^ LENGTH('a)" unfolding word_less_nat_alt by linarith
  then show ?thesis by (simp add: unat_word_ariths)
qed

lemma cb_state_not_open: "cb_current cb \<noteq> Open \<Longrightarrow> cb_state now cb = (cb_current cb, cb)"
  by (simp add: cb_state_def Let_def)

lemma cb_state_current: "cb_current (snd (cb_state now cb)) = fst (cb_state now cb)"
  by (simp add: cb_state_def Let_def split: option.splits)

lemma cb_can_execute_half_open:
  assumes "cb_current cb = HalfOpen"
  shows "cb_can_execute n1 n2 cb =
    (if cb_half_open_requests cb < cb_half_open_max cb
     then (True, cb\<lparr>cb_half_open_requests := cb_half_open_requests cb + 1\<rparr>)
     else (False, cb))"
  using assms by (simp add: cb_can_execute_def cb_state_not_open Let_def)

section \<open>Sequential histories\<close>

datatype cb_op =
    CanExecute instant instant
  | RecordSuccess
  | RecordFailure instant
  | ReadState instant

fun cb_apply :: "cb_op \<Rightarrow> circuit_breaker \<Rightarrow> circuit_breaker" where
  "cb_apply (CanExecute n1 n2) cb = snd (cb_can_execute n1 n2 cb)"
| "cb_apply RecordSuccess cb = cb_record_success cb"
| "cb_apply (RecordFailure now) cb = cb_record_failure now cb"
| "cb_apply (ReadState now) cb = snd (cb_state now cb)"

text \<open>The verdicts of a run of admission checks.\<close>

fun cb_admissions ::
  "(instant \<times> instant) list \<Rightarrow> circuit_breaker \<Rightarrow> bool list \<times> circuit_breaker" where
  "cb_admissions [] cb = ([], cb)"
| "cb_admissions ((n1, n2) # ts) cb =
     (case cb_can_execute n1 n2 cb of (b, cb') \<Rightarrow>
        (case cb_admissions ts cb' of (bs, cb'') \<Rightarrow> (b # bs, cb'')))"

text \<open>
  What holds between calls: the probe counter never passes its limit and is zero outside the
  half-open state, a breaker that has left the closed state has a recorded failure, and the
  configuration never changes.
\<close>

definition cb_inv :: "circuit_breaker \<Rightarrow> bool" where
  "cb_inv cb \<longleftrightarrow>
     cb_half_open_requests cb \<le> cb_half_open_max cb \<and>
     (cb_current cb \<noteq> HalfOpen \<longrightarrow> cb_half_open_requests cb = 0) \<and>
     (cb_current cb \<noteq> Closed \<longrightarrow> cb_last_failure cb \<noteq> None)"

lemma cb_inv_new [godwit_inv]: "cb_inv (cb_new t d m)"
  by (simp add: cb_inv_def cb_new_def)

lemma cb_inv_state [godwit_inv]: "cb_inv cb \<Longrightarrow> cb_inv (snd (cb_state now cb))"
  by (auto simp: cb_inv_def cb_state_def Let_def split: option.splits)

lemma cb_inv_can_execute [godwit_inv]:
  "cb_inv cb \<Longrightarrow> cb_inv (snd (cb_can_execute n1 n2 cb))"
  using cb_inv_state [of cb n1] cb_state_current [of n1 cb]
  by (auto simp: cb_can_execute_def cb_inv_def Let_def inc_le
      split: prod.splits circuit_state.splits option.splits)

lemma cb_inv_record_success [godwit_inv]: "cb_inv cb \<Longrightarrow> cb_inv (cb_record_success cb)"
  by (auto simp: cb_inv_def cb_record_success_def Let_def split: circuit_state.splits)

lemma cb_inv_record_failure [godwit_inv]: "cb_inv cb \<Longrightarrow> cb_inv (cb_record_failure now cb)"
  by (auto simp: cb_inv_def cb_record_failure_def Let_def split: circuit_state.splits)

lemma cb_inv_apply: "cb_inv cb \<Longrightarrow> cb_inv (cb_apply op cb)"
  by (cases op) (auto intro: godwit_inv)

lemma cb_inv_fold: "cb_inv cb \<Longrightarrow> cb_inv (fold cb_apply ops cb)"
  by (induction ops arbitrary: cb) (auto intro: cb_inv_apply)

lemma cb_inv_reachable: "cb_inv (fold cb_apply ops (cb_new t d m))"
  by (rule cb_inv_fold) (rule cb_inv_new)

section \<open>What the breaker promises its callers\<close>

text \<open>Consecutive failures without a success in between.\<close>

definition cb_fail_run :: "instant list \<Rightarrow> circuit_breaker \<Rightarrow> circuit_breaker" where
  "cb_fail_run ts cb = fold cb_record_failure ts cb"

lemma cb_fail_run_open:
  "cb_current cb = Open \<Longrightarrow> cb_current (cb_fail_run ts cb) = Open"
  unfolding cb_fail_run_def
  by (induction ts arbitrary: cb) (simp_all add: cb_record_failure_def Let_def)

lemma cb_fail_run_closed:
  assumes "cb_current cb = Closed" "cb_failures cb < cb_threshold cb"
    "unat (cb_failures cb) + length ts < 2 ^ 64"
  shows "cb_current (cb_fail_run ts cb) =
    (if unat (cb_threshold cb) \<le> unat (cb_failures cb) + length ts then Open else Closed)"
  using assms
proof (induction ts arbitrary: cb)
  case Nil
  then show ?case by (simp add: cb_fail_run_def word_less_nat_alt)
next
  case (Cons t ts)
  define cb' where "cb' = cb_record_failure t cb"
  have n: "unat (cb_failures cb + 1) = unat (cb_failures cb) + 1"
    using Cons.prems(2) by (rule word_less_add_one)
  have run: "cb_fail_run (t # ts) cb = cb_fail_run ts cb'"
    by (simp add: cb_fail_run_def cb'_def)
  have fields: "cb_failures cb' = cb_failures cb + 1" "cb_threshold cb' = cb_threshold cb"
    "cb_current cb' = (if cb_threshold cb \<le> cb_failures cb + 1 then Open else Closed)"
    using Cons.prems(1) by (simp_all add: cb'_def cb_record_failure_def Let_def)
  show ?case
  proof (cases "cb_threshold cb \<le> cb_failures cb + 1")
    case True
    then have "cb_current (cb_fail_run ts cb') = Open" using fields by (intro cb_fail_run_open) simp
    moreover have "unat (cb_threshold cb) \<le> unat (cb_failures cb) + 1"
      using True n by (simp add: word_le_nat_alt)
    ultimately show ?thesis using run by simp
  next
    case False
    then have "cb_current (cb_fail_run ts cb') =
      (if unat (cb_threshold cb') \<le> unat (cb_failures cb') + length ts then Open else Closed)"
      using fields Cons.prems(3) n by (intro Cons.IH) (auto simp: not_le)
    then show ?thesis using run fields n by simp
  qed
qed

lemma cb_admissions_half_open:
  assumes "cb_current cb = HalfOpen" "cb_half_open_requests cb \<le> cb_half_open_max cb"
  shows "count_list (fst (cb_admissions ts cb)) True =
    min (length ts) (unat (cb_half_open_max cb) - unat (cb_half_open_requests cb))"
  using assms
proof (induction ts arbitrary: cb)
  case Nil
  then show ?case by simp
next
  case (Cons t ts)
  obtain n1 n2 where t: "t = (n1, n2)" by fastforce
  show ?case
  proof (cases "cb_half_open_requests cb < cb_half_open_max cb")
    case True
    define cb' where "cb' = cb\<lparr>cb_half_open_requests := cb_half_open_requests cb + 1\<rparr>"
    have n: "unat (cb_half_open_requests cb + 1) = unat (cb_half_open_requests cb) + 1"
      using True by (rule word_less_add_one)
    have le: "cb_half_open_requests cb + 1 \<le> cb_half_open_max cb" using True by (rule inc_le)
    have "count_list (fst (cb_admissions ts cb')) True =
      min (length ts) (unat (cb_half_open_max cb') - unat (cb_half_open_requests cb'))"
      using Cons.prems le by (intro Cons.IH) (simp_all add: cb'_def)
    moreover obtain bs c where rest: "cb_admissions ts cb' = (bs, c)" by fastforce
    moreover have "cb_can_execute n1 n2 cb = (True, cb')"
      using Cons.prems(1) True by (simp add: cb_can_execute_half_open cb'_def)
    moreover have "cb_half_open_max cb' = cb_half_open_max cb"
      "unat (cb_half_open_requests cb') = unat (cb_half_open_requests cb) + 1"
      using n by (simp_all add: cb'_def)
    ultimately show ?thesis using True by (simp add: t word_less_nat_alt)
  next
    case False
    then have eq: "cb_half_open_requests cb = cb_half_open_max cb" using Cons.prems(2) by simp
    have "cb_can_execute n1 n2 cb = (False, cb)"
      using Cons.prems(1) False by (simp add: cb_can_execute_half_open)
    then show ?thesis
      using Cons.IH [OF Cons.prems] eq by (auto simp: t split: prod.split)
  qed
qed

section \<open>Interleavings of the atomic accesses\<close>

text \<open>
  Requests run concurrently, and the methods are sequences of atomic accesses. A task in
  \<open>can_execute\<close> is first in \<open>state()\<close>, one critical section of the state lock; in the
  half-open branch it then does the \<open>fetch_add\<close> of the probe counter, and if the value it
  got is no longer below the limit, the \<open>fetch_sub\<close>. \<open>record_success\<close> increments its counter
  and then does everything else under the state lock; \<open>record_failure\<close> increments the
  failure counter, writes the instant, and then takes the lock. The probe counter is written
  under the lock by the two recording methods but without it by \<open>can_execute\<close>.
\<close>

datatype cb_pc =
    Idle
  | CheckedState circuit_state
  | Reserved usize
  | Verdict bool
  | SuccessCounted
  | FailureCounted
  | FailureStamped

record cb_system =
  sys_cb :: circuit_breaker
  sys_pc :: "nat \<Rightarrow> cb_pc"
  sys_now :: instant

definition cb_sys_init :: "usize \<Rightarrow> duration \<Rightarrow> usize \<Rightarrow> cb_system" where
  "cb_sys_init threshold timeout half_open_max =
     \<lparr>sys_cb = cb_new threshold timeout half_open_max, sys_pc = (\<lambda>_. Idle), sys_now = 0\<rparr>"

definition cb_locked_success :: "circuit_breaker \<Rightarrow> circuit_breaker" where
  "cb_locked_success cb =
     (case cb_current cb of
        HalfOpen \<Rightarrow> cb\<lparr>cb_current := Closed, cb_failures := 0, cb_half_open_requests := 0\<rparr>
      | Closed \<Rightarrow> cb\<lparr>cb_failures := 0\<rparr>
      | Open \<Rightarrow> cb)"

definition cb_locked_failure :: "circuit_breaker \<Rightarrow> circuit_breaker" where
  "cb_locked_failure cb =
     (case cb_current cb of
        Closed \<Rightarrow> (if cb_threshold cb \<le> cb_failures cb then cb\<lparr>cb_current := Open\<rparr> else cb)
      | HalfOpen \<Rightarrow> cb\<lparr>cb_current := Open, cb_half_open_requests := 0\<rparr>
      | Open \<Rightarrow> cb)"

inductive cb_step :: "cb_system \<Rightarrow> cb_system \<Rightarrow> bool" where
  tick: "sys_now s \<le> t \<Longrightarrow> cb_step s (s\<lparr>sys_now := t\<rparr>)"
| check_state: "sys_pc s i = Idle \<Longrightarrow> cb_state (sys_now s) (sys_cb s) = (c, cb) \<Longrightarrow>
    cb_step s (s\<lparr>sys_cb := cb, sys_pc := (sys_pc s)(i := CheckedState c)\<rparr>)"
| admit_closed: "sys_pc s i = CheckedState Closed \<Longrightarrow>
    cb_step s (s\<lparr>sys_pc := (sys_pc s)(i := Verdict True)\<rparr>)"
| judge_open: "sys_pc s i = CheckedState Open \<Longrightarrow>
    cb_step s (s\<lparr>sys_pc := (sys_pc s)(i := Verdict
      (case cb_last_failure (sys_cb s) of
         Some t \<Rightarrow> cb_timeout (sys_cb s) \<le> elapsed_since (sys_now s) t
       | None \<Rightarrow> True))\<rparr>)"
| reserve: "sys_pc s i = CheckedState HalfOpen \<Longrightarrow>
    cb_step s (s\<lparr>sys_cb := (sys_cb s)\<lparr>cb_half_open_requests := cb_half_open_requests (sys_cb s) + 1\<rparr>,
                 sys_pc := (sys_pc s)(i := Reserved (cb_half_open_requests (sys_cb s)))\<rparr>)"
| admit_probe: "sys_pc s i = Reserved r \<Longrightarrow> r < cb_half_open_max (sys_cb s) \<Longrightarrow>
    cb_step s (s\<lparr>sys_pc := (sys_pc s)(i := Verdict True)\<rparr>)"
| give_back: "sys_pc s i = Reserved r \<Longrightarrow> \<not> r < cb_half_open_max (sys_cb s) \<Longrightarrow>
    cb_step s (s\<lparr>sys_cb := (sys_cb s)\<lparr>cb_half_open_requests := cb_half_open_requests (sys_cb s) - 1\<rparr>,
                 sys_pc := (sys_pc s)(i := Verdict False)\<rparr>)"
| return_verdict: "sys_pc s i = Verdict b \<Longrightarrow>
    cb_step s (s\<lparr>sys_pc := (sys_pc s)(i := Idle)\<rparr>)"
| count_success: "sys_pc s i = Idle \<Longrightarrow>
    cb_step s (s\<lparr>sys_cb := (sys_cb s)\<lparr>cb_successes := cb_successes (sys_cb s) + 1\<rparr>,
                 sys_pc := (sys_pc s)(i := SuccessCounted)\<rparr>)"
| lock_success: "sys_pc s i = SuccessCounted \<Longrightarrow>
    cb_step s (s\<lparr>sys_cb := cb_locked_success (sys_cb s), sys_pc := (sys_pc s)(i := Idle)\<rparr>)"
| count_failure: "sys_pc s i = Idle \<Longrightarrow>
    cb_step s (s\<lparr>sys_cb := (sys_cb s)\<lparr>cb_failures := cb_failures (sys_cb s) + 1\<rparr>,
                 sys_pc := (sys_pc s)(i := FailureCounted)\<rparr>)"
| stamp_failure: "sys_pc s i = FailureCounted \<Longrightarrow>
    cb_step s (s\<lparr>sys_cb := (sys_cb s)\<lparr>cb_last_failure := Some (sys_now s)\<rparr>,
                 sys_pc := (sys_pc s)(i := FailureStamped)\<rparr>)"
| lock_failure: "sys_pc s i = FailureStamped \<Longrightarrow>
    cb_step s (s\<lparr>sys_cb := cb_locked_failure (sys_cb s), sys_pc := (sys_pc s)(i := Idle)\<rparr>)"

inductive cb_reach :: "cb_system \<Rightarrow> cb_system \<Rightarrow> bool" where
  reach_refl: "cb_reach s s"
| reach_step: "cb_reach s t \<Longrightarrow> cb_step t u \<Longrightarrow> cb_reach s u"

inductive_cases cb_step_cases: "cb_step s t"

text \<open>The methods of the first half are the uninterrupted runs of these steps.\<close>

lemma cb_record_success_steps:
  "cb_record_success cb = cb_locked_success (cb\<lparr>cb_successes := cb_successes cb + 1\<rparr>)"
  by (simp add: cb_record_success_def cb_locked_success_def Let_def split: circuit_state.split)

lemma cb_record_failure_steps:
  "cb_record_failure now cb =
     cb_locked_failure (cb\<lparr>cb_failures := cb_failures cb + 1\<rparr>\<lparr>cb_last_failure := Some now\<rparr>)"
  by (simp add: cb_record_failure_def cb_locked_failure_def Let_def split: circuit_state.split)

lemma cb_step_config:
  "cb_step s t \<Longrightarrow> cb_half_open_max (sys_cb t) = cb_half_open_max (sys_cb s)"
  by (induction rule: cb_step.induct)
    (auto simp: cb_state_def Let_def cb_locked_success_def cb_locked_failure_def
      split: option.splits if_splits circuit_state.splits)

text \<open>
  A breaker whose probe counter has wrapped below zero while it is half-open. No task is in
  the middle of a method.
\<close>

definition cb_wedged :: "circuit_breaker \<Rightarrow> bool" where
  "cb_wedged cb \<longleftrightarrow> cb_current cb = HalfOpen \<and> \<not> cb_half_open_requests cb < cb_half_open_max cb"

lemma cb_wedged_can_execute:
  "cb_wedged cb \<Longrightarrow> cb_can_execute n1 n2 cb = (False, cb)"
  by (simp add: cb_wedged_def cb_can_execute_half_open)

lemma cb_wedged_admissions: "cb_wedged cb \<Longrightarrow> cb_admissions ts cb = (replicate (length ts) False, cb)"
  by (induction ts) (auto simp: cb_wedged_can_execute)

text \<open>Schedules: the moves of the tasks in the order they happen, as an executable function.\<close>

datatype cb_move = Tick instant | Check nat | Succeed nat | Fail nat | Continue nat

fun cb_exec :: "cb_move \<Rightarrow> cb_system \<Rightarrow> cb_system option" where
  "cb_exec (Tick t) s = (if sys_now s \<le> t then Some (s\<lparr>sys_now := t\<rparr>) else None)"
| "cb_exec (Check i) s =
     (if sys_pc s i = Idle
      then (case cb_state (sys_now s) (sys_cb s) of (c, cb) \<Rightarrow>
              Some (s\<lparr>sys_cb := cb, sys_pc := (sys_pc s)(i := CheckedState c)\<rparr>))
      else None)"
| "cb_exec (Succeed i) s =
     (if sys_pc s i = Idle
      then Some (s\<lparr>sys_cb := (sys_cb s)\<lparr>cb_successes := cb_successes (sys_cb s) + 1\<rparr>,
                   sys_pc := (sys_pc s)(i := SuccessCounted)\<rparr>)
      else None)"
| "cb_exec (Fail i) s =
     (if sys_pc s i = Idle
      then Some (s\<lparr>sys_cb := (sys_cb s)\<lparr>cb_failures := cb_failures (sys_cb s) + 1\<rparr>,
                   sys_pc := (sys_pc s)(i := FailureCounted)\<rparr>)
      else None)"
| "cb_exec (Continue i) s =
     (let cb = sys_cb s
      in case sys_pc s i of
           Idle \<Rightarrow> None
         | CheckedState Closed \<Rightarrow> Some (s\<lparr>sys_pc := (sys_pc s)(i := Verdict True)\<rparr>)
         | CheckedState Open \<Rightarrow>
             Some (s\<lparr>sys_pc := (sys_pc s)(i := Verdict
               (case cb_last_failure cb of
                  Some t \<Rightarrow> cb_timeout cb \<le> elapsed_since (sys_now s) t | None \<Rightarrow> True))\<rparr>)
         | CheckedState HalfOpen \<Rightarrow>
             Some (s\<lparr>sys_cb := cb\<lparr>cb_half_open_requests := cb_half_open_requests cb + 1\<rparr>,
                     sys_pc := (sys_pc s)(i := Reserved (cb_half_open_requests cb))\<rparr>)
         | Reserved r \<Rightarrow>
             (if r < cb_half_open_max cb
              then Some (s\<lparr>sys_pc := (sys_pc s)(i := Verdict True)\<rparr>)
              else Some (s\<lparr>sys_cb := cb\<lparr>cb_half_open_requests := cb_half_open_requests cb - 1\<rparr>,
                           sys_pc := (sys_pc s)(i := Verdict False)\<rparr>))
         | Verdict b \<Rightarrow> Some (s\<lparr>sys_pc := (sys_pc s)(i := Idle)\<rparr>)
         | SuccessCounted \<Rightarrow>
             Some (s\<lparr>sys_cb := cb_locked_success cb, sys_pc := (sys_pc s)(i := Idle)\<rparr>)
         | FailureCounted \<Rightarrow>
             Some (s\<lparr>sys_cb := cb\<lparr>cb_last_failure := Some (sys_now s)\<rparr>,
                     sys_pc := (sys_pc s)(i := FailureStamped)\<rparr>)
         | FailureStamped \<Rightarrow>
             Some (s\<lparr>sys_cb := cb_locked_failure cb, sys_pc := (sys_pc s)(i := Idle)\<rparr>))"

lemma cb_exec_step: "cb_exec m s = Some t \<Longrightarrow> cb_step s t"
  by (cases m)
    (auto split: if_splits prod.splits cb_pc.splits circuit_state.splits simp: Let_def
      intro: cb_step.intros)

fun cb_schedule :: "cb_move list \<Rightarrow> cb_system \<Rightarrow> cb_system option" where
  "cb_schedule [] s = Some s"
| "cb_schedule (m # ms) s = (case cb_exec m s of None \<Rightarrow> None | Some t \<Rightarrow> cb_schedule ms t)"

lemma cb_reach_trans: "cb_reach s t \<Longrightarrow> cb_reach t u \<Longrightarrow> cb_reach s u"
  by (rotate_tac 1, induction rule: cb_reach.induct) (auto intro: cb_reach.intros)

lemma cb_schedule_reach: "cb_schedule ms s = Some t \<Longrightarrow> cb_reach s t"
proof (induction ms arbitrary: s)
  case Nil
  then show ?case by (simp add: reach_refl)
next
  case (Cons m ms)
  then obtain u where u: "cb_exec m s = Some u" "cb_schedule ms u = Some t"
    by (auto split: option.splits)
  have "cb_reach s u" using cb_exec_step [OF u(1)] by (blast intro: cb_reach.intros)
  with Cons.IH [OF u(2)] show ?case by (blast intro: cb_reach_trans)
qed

text \<open>
  Two tasks and a limit of one probe: task 1 has overshot the counter and is about to give
  its slot back when task 0's success resets the counter to zero.
\<close>

definition cb_wedge_schedule :: "cb_move list" where
  "cb_wedge_schedule =
     [Fail 0, Continue 0, Continue 0, Tick 1,
      Check 0, Continue 0, Continue 0, Continue 0,
      Check 1, Continue 1,
      Succeed 0, Continue 0,
      Continue 1, Continue 1,
      Fail 0, Continue 0, Continue 0, Tick 2,
      Check 0, Continue 0, Continue 0, Continue 0]"

lemma cb_wedge_run:
  "\<exists>s. cb_schedule cb_wedge_schedule (cb_sys_init 1 1 1) = Some s \<and>
       (\<forall>i. sys_pc s i = Idle) \<and> cb_half_open_requests (sys_cb s) = - 1 \<and>
       cb_wedged (sys_cb s)"
  by (simp add: cb_wedge_schedule_def cb_sys_init_def cb_new_def cb_state_def
      cb_locked_failure_def cb_locked_success_def elapsed_since_def cb_wedged_def)

text \<open>
  Between calls the probe counter is at most \<open>half_open_max\<close>, it is zero outside the
  half-open state, and a breaker that is not closed has a recorded failure, after any
  sequence of method calls on a new breaker.
\<close>

lemma cb_history_invariant:
  "cb_inv (fold cb_apply ops (cb_new threshold timeout half_open_max))"
  by (rule cb_inv_reachable)

text \<open>
  A new breaker is open after a run of failures exactly when the run has reached the
  threshold (a run of at least one failure and fewer than \<open>2 ^ 64\<close>).
\<close>

lemma cb_opens_at_threshold:
  assumes "0 < threshold" and "length ts < 2 ^ 64"
  shows "cb_current (cb_fail_run ts (cb_new threshold timeout half_open_max)) =
    (if unat threshold \<le> length ts then Open else Closed)"
  using cb_fail_run_closed [of "cb_new threshold timeout half_open_max" ts] assms
  by (simp add: cb_new_def)

theorem cb_opens_at_threshold_witness:
  "cb_current (cb_fail_run [1, 2, 3] (cb_new 3 (secs 60) 2)) = Open"
  using cb_opens_at_threshold [of 3 "[1, 2, 3]" "secs 60" 2] by simp

text \<open>
  C5. A half-open breaker admits exactly as many of the following checks as there are probe
  slots left, and rejects the rest.
\<close>

theorem cb_half_open_quota:
  assumes "cb_current cb = HalfOpen" and "cb_inv cb"
  shows "count_list (fst (cb_admissions ts cb)) True =
    min (length ts) (unat (cb_half_open_max cb) - unat (cb_half_open_requests cb))"
  using assms by (intro cb_admissions_half_open) (simp_all add: cb_inv_def)

theorem cb_half_open_quota_witness:
  "count_list (fst (cb_admissions [(9, 9), (9, 9), (9, 9)]
     \<lparr>cb_failures = 2, cb_successes = 0, cb_last_failure = Some 1, cb_current = HalfOpen,
      cb_threshold = 2, cb_timeout = 5, cb_half_open_max = 2, cb_half_open_requests = 0\<rparr>)) True = 2"
  by (subst cb_half_open_quota) (simp_all add: cb_inv_def)

text \<open>
  An open breaker whose last failure is at \<open>t\<close>: a check made once the timeout has
  elapsed is a half-open probe, admitted when at least one probe is allowed; before that the
  check is rejected and changes nothing, unless the timeout elapses between its two clock
  reads, in which case it is admitted without taking a probe slot.
\<close>

lemma cb_open_until_timeout:
  assumes "cb_inv cb" and "cb_current cb = Open" and "cb_last_failure cb = Some t"
  shows "cb_can_execute now1 now2 cb =
    (if cb_timeout cb \<le> now1 - t
     then (if 0 < cb_half_open_max cb
           then (True, cb\<lparr>cb_current := HalfOpen, cb_half_open_requests := 1\<rparr>)
           else (False, cb\<lparr>cb_current := HalfOpen\<rparr>))
     else (cb_timeout cb \<le> now2 - t, cb))"
  using assms by (auto simp: cb_can_execute_def cb_state_def cb_inv_def elapsed_since_def Let_def)

theorem cb_open_until_timeout_witness:
  "cb_can_execute 7 7
     \<lparr>cb_failures = 2, cb_successes = 0, cb_last_failure = Some 3, cb_current = Open,
      cb_threshold = 2, cb_timeout = 5, cb_half_open_max = 2, cb_half_open_requests = 0\<rparr> =
   (False,
     \<lparr>cb_failures = 2, cb_successes = 0, cb_last_failure = Some 3, cb_current = Open,
      cb_threshold = 2, cb_timeout = 5, cb_half_open_max = 2, cb_half_open_requests = 0\<rparr>)"
  by (subst cb_open_until_timeout [where t = 3]) (simp_all add: cb_inv_def)

text \<open>
  Recording an outcome for one provider changes what the registry holds for that
  provider only, and what it holds is the outcome applied to the provider's breaker, a new
  closed one if the provider was not known.
\<close>

lemma reg_record_isolated:
  "reg_breakers (reg_record_failure now p r) p =
     Some (cb_record_failure now (unwrap_or (reg_fresh r) (reg_breakers r p))) \<and>
   reg_breakers (reg_record_success p r) p =
     Some (cb_record_success (unwrap_or (reg_fresh r) (reg_breakers r p))) \<and>
   (\<forall>q. q = p \<or> (reg_breakers (reg_record_failure now p r) q = reg_breakers r q \<and>
                  reg_breakers (reg_record_success p r) q = reg_breakers r q))"
  using cbreg.fetch_value [of p r] cbreg.modify_other [of _ p _ r]
  by (auto simp: reg_record_failure_def reg_record_success_def cbreg.store_lookup
      split: prod.splits)

text \<open>
  The probe counter is not protected by the state lock: some interleaving of two tasks
  over a breaker that allows one probe leaves every task idle, the breaker half-open and its
  probe counter wrapped to \<open>2 ^ 64 - 1\<close>, and from then on every admission check is
  rejected and changes nothing.
\<close>

lemma cb_interleaving_wedges:
  "\<exists>s. cb_reach (cb_sys_init 1 1 1) s \<and> (\<forall>i. sys_pc s i = Idle) \<and>
       cb_half_open_requests (sys_cb s) = - 1 \<and>
       (\<forall>ts. cb_admissions ts (sys_cb s) = (replicate (length ts) False, sys_cb s))"
  using cb_wedge_run cb_schedule_reach cb_wedged_admissions by blast

end
