(* ===== verification/F64_Rounding.thy ===== *)
theory F64_Rounding
  imports Complex_Main Godwit_Prelude
begin

text \<open>
  Rust's \<open>f64\<close> arithmetic. A finite double is the rational it denotes; every operation is
  the exact rational operation followed by rounding to 53 significant bits, ties to even.
  The exponent range is not bounded here: the quantities the sources compute with (token
  counts below \<open>2 ^ 32\<close>, seconds, milliseconds and their products) are far from the
  overflow threshold and, where they are not zero, far above the subnormal range.
  The locale \<open>f64_arith\<close> states what the client theories use of the rounding function.
\<close>

section \<open>Rounding to nearest, ties to even\<close>

type_synonym f64 = rat

definition round_half_even :: "rat \<Rightarrow> int" where
  "round_half_even y =
     (let f = \<lfloor>y\<rfloor>; d = y - of_int f
      in if d < 1 / 2 then f
         else if 1 / 2 < d then f + 1
         else if even f then f else f + 1)"

text \<open>The binary exponent of a positive rational, from the bit lengths of its two parts.\<close>

fun bit_len :: "nat \<Rightarrow> nat" where
  "bit_len n = (if n = 0 then 0 else Suc (bit_len (n div 2)))"

declare bit_len.simps [simp del]

definition ilog2 :: "rat \<Rightarrow> int" where
  "ilog2 x =
     (let (p, q) = quotient_of x;
          e = int (bit_len (nat p)) - int (bit_len (nat q))
      in if 2 powi e \<le> x then e else e - 1)"

definition f64_round :: "rat \<Rightarrow> f64" where
  "f64_round x =
     (if x = 0 then 0
      else let u = 2 powi (ilog2 \<bar>x\<bar> - 52)
           in u * of_int (round_half_even (x / u)))"

definition f_add :: "f64 \<Rightarrow> f64 \<Rightarrow> f64" where
  "f_add x y = f64_round (x + y)"

definition f_sub :: "f64 \<Rightarrow> f64 \<Rightarrow> f64" where
  "f_sub x y = f64_round (x - y)"

definition f_mul :: "f64 \<Rightarrow> f64 \<Rightarrow> f64" where
  "f_mul x y = f64_round (x * y)"

definition f_div :: "f64 \<Rightarrow> f64 \<Rightarrow> f64" where
  "f_div x y = f64_round (x / y)"

text \<open>\<open>n as f64\<close> for an unsigned and a signed integer.\<close>

definition f_of_nat :: "nat \<Rightarrow> f64" where
  "f_of_nat n = f64_round (of_nat n)"

definition f_of_int :: "int \<Rightarrow> f64" where
  "f_of_int n = f64_round (of_int n)"

text \<open>\<open>x as u64\<close> truncates towards zero and saturates at both ends.\<close>

definition f_to_u64 :: "f64 \<Rightarrow> u64" where
  "f_to_u64 x = (if x \<le> 0 then 0 else of_nat (min (nat \<lfloor>x\<rfloor>) (2 ^ 64 - 1)))"

definition f_ceil :: "f64 \<Rightarrow> f64" where
  "f_ceil x = of_int \<lceil>x\<rceil>"

text \<open>\<open>Duration::as_secs_f64\<close>: the whole seconds plus the sub-second nanoseconds over 1e9.\<close>

definition as_secs_f64 :: "duration \<Rightarrow> f64" where
  "as_secs_f64 d =
     f_add (f_of_nat (d div 1000000000)) (f_div (f_of_nat (d mod 1000000000)) 1000000000)"

section \<open>Facts on the rounding of integers\<close>

lemma round_half_even_of_int [simp]: "round_half_even (of_int n) = n"
  by (simp add: round_half_even_def)

lemma round_half_even_floor:
  "\<lfloor>y\<rfloor> \<le> round_half_even y \<and> round_half_even y \<le> \<lfloor>y\<rfloor> + 1"
  by (simp add: round_half_even_def Let_def)

lemma round_half_even_mono:
  assumes "x \<le> y"
  shows "round_half_even x \<le> round_half_even y"
proof (cases "\<lfloor>x\<rfloor> = \<lfloor>y\<rfloor>")
  case True
  with assms show ?thesis by (auto simp: round_half_even_def Let_def)
next
  case False
  with assms have "\<lfloor>x\<rfloor> + 1 \<le> \<lfloor>y\<rfloor>" using floor_mono [of x y] by linarith
  with round_half_even_floor [of x] round_half_even_floor [of y] show ?thesis by linarith
qed

lemma round_half_even_le_int: "x \<le> of_int n \<Longrightarrow> round_half_even x \<le> n"
  using round_half_even_mono [of x "of_int n"] by simp

lemma round_half_even_ge_int: "of_int n \<le> x \<Longrightarrow> n \<le> round_half_even x"
  using round_half_even_mono [of "of_int n" x] by simp

lemma round_half_even_minus: "round_half_even (- y) = - round_half_even y"
proof (cases "y = of_int \<lfloor>y\<rfloor>")
  case True
  then obtain n where "y = of_int n" by blast
  then show ?thesis by (metis of_int_minus round_half_even_of_int)
next
  case False
  define f where "f = \<lfloor>y\<rfloor>"
  from False have lt: "of_int f < y" unfolding f_def using of_int_floor_le [of y] by linarith
  have "y < of_int f + 1" unfolding f_def by linarith
  with lt have fl: "\<lfloor>- y\<rfloor> = - f - 1" by (intro floor_unique) auto
  show ?thesis
    unfolding round_half_even_def Let_def fl f_def [symmetric]
    using lt \<open>y < of_int f + 1\<close> by (auto simp: algebra_simps)
qed

section \<open>The binary exponent\<close>

lemma bit_len_bounds: "0 < n \<Longrightarrow> 2 ^ (bit_len n - 1) \<le> n \<and> n < 2 ^ bit_len n \<and> 0 < bit_len n"
proof (induction n rule: bit_len.induct)
  case (1 n)
  show ?case
  proof (cases "n div 2 = 0")
    case True
    with "1.prems" have "n = 1" by linarith
    then show ?thesis by (simp add: bit_len.simps)
  next
    case False
    with "1" have IH: "2 ^ (bit_len (n div 2) - 1) \<le> n div 2 \<and> n div 2 < 2 ^ bit_len (n div 2)
       \<and> 0 < bit_len (n div 2)" by auto
    have step: "bit_len n = Suc (bit_len (n div 2))"
      using "1.prems" by (subst bit_len.simps) simp
    from IH obtain k where k: "bit_len (n div 2) = Suc k" by (cases "bit_len (n div 2)") auto
    from IH k have h: "2 ^ k \<le> n div 2" "n div 2 < 2 ^ Suc k" by simp_all
    then have "2 ^ Suc k \<le> n" by (simp add: less_eq_div_iff_mult_less_eq mult.commute)
    moreover have "n < 2 ^ Suc (Suc k)"
      using h(2) by (simp add: div_less_iff_less_mult mult.commute)
    ultimately show ?thesis using step k by simp
  qed
qed

lemma ilog2_bounds:
  assumes "0 < x"
  shows "2 powi (ilog2 x) \<le> x \<and> x < 2 powi (ilog2 x + 1)"
proof -
  obtain p q where pq: "quotient_of x = (p, q)" by fastforce
  have q: "0 < q" using quotient_of_denom_pos [OF pq] .
  have x: "x = of_int p / of_int q" using quotient_of_div [OF pq] .
  have p: "0 < p" using assms q unfolding x by (simp add: zero_less_divide_iff)
  define a b where "a = bit_len (nat p)" and "b = bit_len (nat q)"
  have A: "2 ^ (a - 1) \<le> nat p" "nat p < 2 ^ a" "0 < a"
    using bit_len_bounds [of "nat p"] p a_def by auto
  have B: "2 ^ (b - 1) \<le> nat q" "nat q < 2 ^ b" "0 < b"
    using bit_len_bounds [of "nat q"] q b_def by auto
  have nat_rat: "of_nat (nat p) = (of_int p :: rat)" "of_nat (nat q) = (of_int q :: rat)"
    using p q by (simp_all add: of_nat_nat)
  have Ar: "(2::rat) ^ (a - 1) \<le> of_int p" "of_int p < (2::rat) ^ a"
    using A(1,2) nat_rat(1) by (metis of_nat_le_iff of_nat_numeral of_nat_power,
        metis of_nat_less_iff of_nat_numeral of_nat_power)
  have Br: "(2::rat) ^ (b - 1) \<le> of_int q" "of_int q < (2::rat) ^ b"
    using B(1,2) nat_rat(2) by (metis of_nat_le_iff of_nat_numeral of_nat_power,
        metis of_nat_less_iff of_nat_numeral of_nat_power)
  have up: "x < 2 powi (int a - int b + 1)"
  proof -
    have "x * of_int q = of_int p" using q x by simp
    then have "x * 2 ^ (b - 1) \<le> of_int p"
      using Br(1) assms by (metis less_imp_le mult_left_mono)
    then have "x * 2 ^ (b - 1) < 2 ^ a" using Ar(2) by linarith
    then have "x < 2 ^ a / 2 ^ (b - 1)" by (simp add: pos_less_divide_eq)
    also have "\<dots> = 2 powi (int a) / 2 powi (int b - 1)"
      using B(3) by (simp add: power_int_def nat_diff_distrib)
    also have "\<dots> = 2 powi (int a - int b + 1)"
      by (subst power_int_diff [symmetric]) (simp_all add: algebra_simps)
    finally show ?thesis .
  qed
  have lo: "2 powi (int a - int b - 1) \<le> x"
  proof -
    have "x * of_int q = of_int p" using q x by simp
    then have "of_int p \<le> x * 2 ^ b"
      using Br(2) assms by (metis less_imp_le mult_left_mono)
    then have "2 ^ (a - 1) \<le> x * 2 ^ b" using Ar(1) by linarith
    then have "2 ^ (a - 1) / 2 ^ b \<le> x" by (simp add: pos_divide_le_eq)
    moreover have "(2::rat) ^ (a - 1) / 2 ^ b = 2 powi (int a - 1) / 2 powi (int b)"
      using A(3) by (simp add: power_int_def nat_diff_distrib)
    moreover have "(2::rat) powi (int a - 1) / 2 powi (int b) = 2 powi (int a - int b - 1)"
      by (subst power_int_diff [symmetric]) (simp_all add: algebra_simps)
    ultimately show ?thesis by simp
  qed
  show ?thesis
    using up lo by (auto simp: ilog2_def pq Let_def a_def [symmetric] b_def [symmetric])
qed

lemma ilog2_mono:
  assumes "0 < x" "x \<le> y"
  shows "ilog2 x \<le> ilog2 y"
proof (rule ccontr)
  assume "\<not> ilog2 x \<le> ilog2 y"
  then have "ilog2 y + 1 \<le> ilog2 x" by simp
  then have "(2::rat) powi (ilog2 y + 1) \<le> 2 powi (ilog2 x)" by (simp add: power_int_increasing)
  with ilog2_bounds [of x] ilog2_bounds [of y] assms show False by linarith
qed

section \<open>Rounding is monotone, exact on small integers and keeps the sign\<close>

lemma ulp_pos: "(0::rat) < 2 powi k"
  by simp

lemma f64_round_pos_eq:
  assumes "0 < x"
  shows "f64_round x =
    2 powi (ilog2 x - 52) * of_int (round_half_even (x / 2 powi (ilog2 x - 52)))"
  using assms by (simp add: f64_round_def Let_def)

lemma f64_round_pos_bounds:
  assumes "0 < x"
  shows "2 powi (ilog2 x) \<le> f64_round x \<and> f64_round x \<le> 2 powi (ilog2 x + 1)"
proof -
  define u :: rat where "u = 2 powi (ilog2 x - 52)"
  have u: "0 < u" by (simp add: u_def)
  have lo: "2 powi (ilog2 x) = u * of_int (2 ^ 52)"
    unfolding u_def by (subst power_int_diff) simp_all
  have hi: "2 powi (ilog2 x + 1) = u * of_int (2 ^ 53)"
    using lo by (simp add: power_int_add)
  have "of_int (2 ^ 52) \<le> x / u"
    using ilog2_bounds [OF assms] lo u by (simp add: pos_le_divide_eq mult.commute)
  then have a: "2 ^ 52 \<le> round_half_even (x / u)" by (rule round_half_even_ge_int)
  have "x / u \<le> of_int (2 ^ 53)"
    using ilog2_bounds [OF assms] hi u by (simp add: pos_divide_le_eq mult.commute)
  then have b: "round_half_even (x / u) \<le> 2 ^ 53" by (rule round_half_even_le_int)
  have r: "f64_round x = u * of_int (round_half_even (x / u))"
    using f64_round_pos_eq [OF assms] by (simp only: u_def)
  have "u * of_int (2 ^ 52) \<le> f64_round x" "f64_round x \<le> u * of_int (2 ^ 53)"
    unfolding r using a b u by (intro mult_left_mono; simp only: of_int_le_iff less_imp_le)+
  then show ?thesis using lo hi by simp
qed

lemma f64_round_0 [simp]: "f64_round 0 = 0"
  by (simp add: f64_round_def)

lemma f64_round_pos: "0 < x \<Longrightarrow> 0 < f64_round x"
  using f64_round_pos_bounds [of x] ulp_pos [of "ilog2 x"] by linarith

lemma f64_round_minus: "f64_round (- x) = - f64_round x"
  by (simp add: f64_round_def Let_def round_half_even_minus)

lemma f64_round_mono_pos:
  assumes "0 < x" "x \<le> y"
  shows "f64_round x \<le> f64_round y"
proof (cases "ilog2 x = ilog2 y")
  case True
  have "round_half_even (x / 2 powi (ilog2 y - 52)) \<le> round_half_even (y / 2 powi (ilog2 y - 52))"
    using assms by (intro round_half_even_mono divide_right_mono) simp_all
  then have "2 powi (ilog2 y - 52) * of_int (round_half_even (x / 2 powi (ilog2 y - 52)))
      \<le> (2 powi (ilog2 y - 52) * of_int (round_half_even (y / 2 powi (ilog2 y - 52))) :: rat)"
    by (intro mult_left_mono) simp_all
  with True assms show ?thesis by (simp add: f64_round_pos_eq)
next
  case False
  with ilog2_mono [OF assms] have "ilog2 x + 1 \<le> ilog2 y" by simp
  then have "(2::rat) powi (ilog2 x + 1) \<le> 2 powi (ilog2 y)" by (simp add: power_int_increasing)
  with f64_round_pos_bounds [of x] f64_round_pos_bounds [of y] assms show ?thesis by linarith
qed

lemma f64_round_mono: "x \<le> y \<Longrightarrow> f64_round x \<le> f64_round y"
proof -
  assume le: "x \<le> y"
  consider "0 < x" | "x \<le> 0" "0 \<le> y" | "y < 0" using le by linarith
  then show ?thesis
  proof cases
    case 1
    then show ?thesis using le by (rule f64_round_mono_pos)
  next
    case 2
    have "f64_round x \<le> 0"
      using 2 f64_round_pos [of "- x"] f64_round_minus [of x] by (cases "x = 0") auto
    moreover have "0 \<le> f64_round y" using 2 f64_round_pos [of y] by (cases "y = 0") auto
    ultimately show ?thesis by simp
  next
    case 3
    then have "f64_round (- y) \<le> f64_round (- x)" using le by (intro f64_round_mono_pos) auto
    then show ?thesis by (simp add: f64_round_minus)
  qed
qed

lemma ilog2_less: "0 < x \<Longrightarrow> x < 2 ^ n \<Longrightarrow> ilog2 x < int n"
proof (rule ccontr)
  assume x: "0 < x" "x < 2 ^ n" and "\<not> ilog2 x < int n"
  then have "(2::rat) powi int n \<le> 2 powi (ilog2 x)" by (intro power_int_increasing) simp_all
  with ilog2_bounds [OF x(1)] x(2) show False by simp
qed

lemma f64_round_of_int_pos:
  assumes "0 < n" "n < 2 ^ 53"
  shows "f64_round (of_int n) = of_int n"
proof -
  have n: "(0::rat) < of_int n" using assms by simp
  have "(of_int n :: rat) < of_int (2 ^ 53)" using assms(2) by (simp only: of_int_less_iff)
  then have "ilog2 (of_int n) < int 53" by (intro ilog2_less n) simp
  then have k: "52 - ilog2 (of_int n) = int k" if "k = nat (52 - ilog2 (of_int n))" for k
    using that by simp
  define k where "k = nat (52 - ilog2 (of_int n :: rat))"
  define u :: rat where "u = 2 powi (ilog2 (of_int n) - 52)"
  have "ilog2 (of_int n) - 52 = - int k" using k [OF k_def] by simp
  then have u: "u = inverse (2 ^ k)" unfolding u_def by (simp add: power_int_minus)
  then have "of_int n / u = of_int (n * 2 ^ k)" by (simp add: divide_inverse)
  then have "round_half_even (of_int n / u) = n * 2 ^ k" by (metis round_half_even_of_int)
  then have "f64_round (of_int n) = u * of_int (n * 2 ^ k)"
    using f64_round_pos_eq [OF n] by (simp only: u_def)
  also have "\<dots> = of_int n" using u by simp
  finally show ?thesis .
qed

lemma f64_round_of_int: "\<bar>n\<bar> < 2 ^ 53 \<Longrightarrow> f64_round (of_int n) = of_int n"
proof -
  assume n: "\<bar>n\<bar> < 2 ^ 53"
  consider "0 < n" | "n = 0" | "n < 0" by linarith
  then show ?thesis
  proof cases
    case 3
    then have "f64_round (of_int (- n)) = of_int (- n)"
      using n by (intro f64_round_of_int_pos) auto
    then show ?thesis by (simp add: f64_round_minus)
  qed (use n in \<open>auto simp: f64_round_of_int_pos\<close>)
qed

lemma ilog2_unique:
  assumes "0 < x" "2 powi e \<le> x" "x < 2 powi (e + 1)"
  shows "ilog2 x = e"
proof (rule ccontr)
  assume "ilog2 x \<noteq> e"
  then consider "ilog2 x + 1 \<le> e" | "e + 1 \<le> ilog2 x" by linarith
  then show False
  proof cases
    case 1
    then have "(2::rat) powi (ilog2 x + 1) \<le> 2 powi e" by (simp add: power_int_increasing)
    with ilog2_bounds [OF assms(1)] assms(2) show False by linarith
  next
    case 2
    then have "(2::rat) powi (e + 1) \<le> 2 powi (ilog2 x)" by (simp add: power_int_increasing)
    with ilog2_bounds [OF assms(1)] assms(3) show False by linarith
  qed
qed

text \<open>A multiple of its own unit in the last place is a double.\<close>

lemma f64_round_ulp_multiple:
  assumes "0 < x" "x / 2 powi (ilog2 x - 52) = of_int k"
  shows "f64_round x = x"
proof -
  have "f64_round x = 2 powi (ilog2 x - 52) * of_int k"
    using f64_round_pos_eq [OF assms(1)] assms(2) by (metis round_half_even_of_int)
  also have "\<dots> = x" using assms(2) by (simp add: field_simps)
  finally show ?thesis .
qed

lemma f64_round_idem_pos:
  assumes "0 < x"
  shows "f64_round (f64_round x) = f64_round x"
proof -
  define e where "e = ilog2 x"
  define k where "k = round_half_even (x / 2 powi (e - 52))"
  have r: "f64_round x = 2 powi (e - 52) * of_int k"
    using f64_round_pos_eq [OF assms] by (simp add: e_def k_def)
  have pos: "0 < f64_round x" by (rule f64_round_pos [OF assms])
  have b: "2 powi e \<le> f64_round x" "f64_round x \<le> 2 powi (e + 1)"
    using f64_round_pos_bounds [OF assms] by (simp_all add: e_def)
  show ?thesis
  proof (cases "f64_round x = 2 powi (e + 1)")
    case True
    have "2 powi (e + 1) < (2::rat) powi (e + 1 + 1)" by (simp add: power_int_strict_increasing)
    with True pos have "ilog2 (f64_round x) = e + 1" by (intro ilog2_unique) simp_all
    moreover have "(2::rat) powi (e + 1) / 2 powi (e + 1 - 52) = of_int (2 ^ 52)"
      by (subst power_int_diff [symmetric]) simp_all
    ultimately show ?thesis using True pos by (metis f64_round_ulp_multiple)
  next
    case False
    with b pos have "ilog2 (f64_round x) = e" by (intro ilog2_unique) simp_all
    moreover have "f64_round x / 2 powi (e - 52) = of_int k" by (simp add: r)
    ultimately show ?thesis using pos by (metis f64_round_ulp_multiple)
  qed
qed

lemma f64_round_idem: "f64_round (f64_round x) = f64_round x"
proof -
  consider "0 < x" | "x = 0" | "0 < - x" by linarith
  then show ?thesis
  proof cases
    case 3
    then have "f64_round (f64_round (- x)) = f64_round (- x)" by (rule f64_round_idem_pos)
    then show ?thesis by (simp add: f64_round_minus)
  qed (simp_all add: f64_round_idem_pos)
qed

section \<open>The interface of floating-point clients\<close>

locale f64_arith =
  fixes rnd :: "rat \<Rightarrow> rat"
  assumes rnd_mono: "x \<le> y \<Longrightarrow> rnd x \<le> rnd y"
    and rnd_int: "\<bar>n\<bar> < 2 ^ 53 \<Longrightarrow> rnd (of_int n) = of_int n"
    and rnd_pos: "0 < x \<Longrightarrow> 0 < rnd x"
    and rnd_idem: "rnd (rnd x) = rnd x"
begin

lemma rnd_zero: "rnd 0 = 0"
  using rnd_int [of 0] by simp

lemma rnd_nonneg: "0 \<le> x \<Longrightarrow> 0 \<le> rnd x"
  using rnd_mono [of 0 x] by (simp add: rnd_zero)

lemma rnd_nonpos_iff: "rnd x \<le> 0 \<longleftrightarrow> x \<le> 0"
proof
  assume "rnd x \<le> 0"
  then show "x \<le> 0" using rnd_pos [of x] by linarith
next
  assume "x \<le> 0"
  then show "rnd x \<le> 0" using rnd_mono [of x 0] by (simp add: rnd_zero)
qed

lemma rnd_le_int: "\<bar>n\<bar> < 2 ^ 53 \<Longrightarrow> x \<le> of_int n \<Longrightarrow> rnd x \<le> of_int n"
  using rnd_mono [of x "of_int n"] by (simp add: rnd_int)

lemma rnd_ge_int: "\<bar>n\<bar> < 2 ^ 53 \<Longrightarrow> of_int n \<le> x \<Longrightarrow> of_int n \<le> rnd x"
  using rnd_mono [of "of_int n" x] by (simp add: rnd_int)

lemma rnd_ge: "rnd y = y \<Longrightarrow> y \<le> x \<Longrightarrow> y \<le> rnd x"
  using rnd_mono [of y x] by simp

lemma rnd_nat: "n < 2 ^ 53 \<Longrightarrow> rnd (of_nat n) = of_nat n"
  using rnd_int [of "int n"] by simp

end

interpretation ieee: f64_arith f64_round
  by unfold_locales (auto intro: f64_round_mono f64_round_pos f64_round_of_int f64_round_idem)

end
