(* ===== verification/Json_Value.thy ===== *)
theory Json_Value
  imports F64_Rounding "HOL-Library.Char_ord" "HOL-Library.List_Lexorder" "HOL-Library.Countable"
begin

text \<open>
  \<open>serde_json::Value\<close> as the sources use it: the value type, the accessors, and objects as
  association lists in key order (the map behind \<open>Value::Object\<close> is ordered by key). The
  JSON text parser and printer belong to \<open>serde_json\<close> and are parameters wherever a component
  calls them.
\<close>

datatype json =
    JNull
  | JBool bool
  | JInt int
  | JFloat f64
  | JString string
  | JArray "json list"
  | JObject "(string \<times> json) list"

section \<open>Objects\<close>

fun obj_insert :: "string \<Rightarrow> json \<Rightarrow> (string \<times> json) list \<Rightarrow> (string \<times> json) list" where
  "obj_insert k v [] = [(k, v)]"
| "obj_insert k v ((j, w) # m) =
     (if k = j then (k, v) # m
      else if k < j then (k, v) # (j, w) # m
      else (j, w) # obj_insert k v m)"

text \<open>\<open>json!({ ... })\<close> inserts its members one after the other.\<close>

definition json_obj :: "(string \<times> json) list \<Rightarrow> json" where
  "json_obj kvs = JObject (foldl (\<lambda>m (k, v). obj_insert k v m) [] kvs)"

definition obj_ok :: "(string \<times> json) list \<Rightarrow> bool" where
  "obj_ok m \<longleftrightarrow> sorted_wrt (<) (map fst m)"

lemma map_of_obj_insert [simp]: "map_of (obj_insert k v m) = (map_of m)(k \<mapsto> v)"
  by (induction k v m rule: obj_insert.induct) (auto simp: fun_eq_iff)

lemma obj_insert_keys: "fst ` set (obj_insert k v m) = insert k (fst ` set m)"
  by (induction k v m rule: obj_insert.induct) auto

lemma obj_ok_insert: "obj_ok m \<Longrightarrow> obj_ok (obj_insert k v m)"
proof (induction k v m rule: obj_insert.induct)
  case (2 k v j w m)
  have "\<forall>x \<in> fst ` set (obj_insert k v m). j < x" if "\<not> k < j" "k \<noteq> j"
    using 2 that by (auto simp: obj_insert_keys obj_ok_def)
  with 2 show ?case by (auto simp: obj_ok_def)
qed (simp add: obj_ok_def)

lemma json_obj_fold:
  "map_of (foldl (\<lambda>m (k, v). obj_insert k v m) m kvs) = map_of m ++ map_of (rev kvs)"
proof (induction kvs arbitrary: m)
  case (Cons kv kvs)
  then show ?case by (cases kv) (simp add: map_add_upd_left fun_eq_iff map_add_def split: option.splits)
qed simp

section \<open>Accessors\<close>

fun json_get :: "string \<Rightarrow> json \<Rightarrow> json option" where
  "json_get k (JObject m) = map_of m k"
| "json_get k _ = None"

text \<open>\<open>value["key"]\<close> is \<open>Null\<close> when the key is missing.\<close>

definition json_index :: "string \<Rightarrow> json \<Rightarrow> json" where
  "json_index k v = unwrap_or JNull (json_get k v)"

fun as_str :: "json \<Rightarrow> string option" where
  "as_str (JString s) = Some s"
| "as_str _ = None"

fun as_array :: "json \<Rightarrow> json list option" where
  "as_array (JArray xs) = Some xs"
| "as_array _ = None"

fun as_object :: "json \<Rightarrow> (string \<times> json) list option" where
  "as_object (JObject m) = Some m"
| "as_object _ = None"

fun as_bool :: "json \<Rightarrow> bool option" where
  "as_bool (JBool b) = Some b"
| "as_bool _ = None"

text \<open>Integers of a \<open>Value\<close> are in the union of the \<open>i64\<close> and \<open>u64\<close> ranges.\<close>

fun as_i64 :: "json \<Rightarrow> i64 option" where
  "as_i64 (JInt i) = (if - (2 ^ 63) \<le> i \<and> i < 2 ^ 63 then Some (word_of_int i) else None)"
| "as_i64 _ = None"

fun as_u64 :: "json \<Rightarrow> u64 option" where
  "as_u64 (JInt i) = (if 0 \<le> i \<and> i < 2 ^ 64 then Some (word_of_int i) else None)"
| "as_u64 _ = None"

fun as_f64 :: "json \<Rightarrow> f64 option" where
  "as_f64 (JInt i) = Some (f_of_int i)"
| "as_f64 (JFloat x) = Some x"
| "as_f64 _ = None"

fun is_null :: "json \<Rightarrow> bool" where
  "is_null JNull = True"
| "is_null _ = False"

lemma json_get_obj:
  "json_get k (json_obj kvs) = map_of (rev kvs) k"
  using json_obj_fold [of "[]" kvs] by (simp add: json_obj_def)

lemma as_i64_sint:
  assumes "as_i64 v = Some w"
  shows "v = JInt (sint w)"
  using assms
  by (cases v) (auto simp: signed_of_int signed_take_bit_int_eq_self split: if_splits)

lemma as_u64_uint:
  assumes "as_u64 v = Some w"
  shows "v = JInt (uint w)"
  using assms by (cases v) (auto simp: unsigned_of_int take_bit_int_eq_self split: if_splits)

section \<open>Printing and parsing\<close>

text \<open>The values \<open>serde_json\<close> can hold: integers and doubles in range, objects in key order.\<close>

fun json_wf :: "json \<Rightarrow> bool" where
  "json_wf (JInt i) \<longleftrightarrow> - (2 ^ 63) \<le> i \<and> i < 2 ^ 64"
| "json_wf (JFloat x) \<longleftrightarrow> f64_round x = x"
| "json_wf (JArray vs) \<longleftrightarrow> list_all json_wf vs"
| "json_wf (JObject m) \<longleftrightarrow> obj_ok m \<and> list_all (\<lambda>kv. json_wf (snd kv)) m"
| "json_wf _ \<longleftrightarrow> True"

text \<open>What the sources rely on: a printed value is read back.\<close>

definition json_codec :: "(string \<Rightarrow> json option) \<Rightarrow> (json \<Rightarrow> string) \<Rightarrow> bool" where
  "json_codec parse print \<longleftrightarrow> (\<forall>v. json_wf v \<longrightarrow> parse (print v) = Some v)"

lemma json_codecD: "json_codec parse print \<Longrightarrow> json_wf v \<Longrightarrow> parse (print v) = Some v"
  by (simp add: json_codec_def)

lemma obj_insert_wf:
  "list_all (\<lambda>kv. json_wf (snd kv)) m \<Longrightarrow> json_wf v \<Longrightarrow>
     list_all (\<lambda>kv. json_wf (snd kv)) (obj_insert k v m)"
  by (induction k v m rule: obj_insert.induct) auto

lemma json_obj_wf [intro]:
  assumes "list_all (\<lambda>kv. json_wf (snd kv)) kvs"
  shows "json_wf (json_obj kvs)"
proof -
  have "obj_ok m \<and> list_all (\<lambda>kv. json_wf (snd kv)) m \<Longrightarrow>
      obj_ok (foldl (\<lambda>m (k, v). obj_insert k v m) m kvs) \<and>
      list_all (\<lambda>kv. json_wf (snd kv)) (foldl (\<lambda>m (k, v). obj_insert k v m) m kvs)" for m
    using assms by (induction kvs arbitrary: m) (auto simp: obj_ok_insert obj_insert_wf)
  from this [of "[]"] show ?thesis by (simp add: json_obj_def obj_ok_def)
qed

lemma json_wf_sint64 [simp]: "json_wf (JInt (sint (w :: 64 word)))"
  using sint_ge [of w] sint_lt [of w] by simp

text \<open>Values are countable, so printers and parsers that satisfy the law exist.\<close>

instance json :: countable
  by countable_datatype

definition coded_print :: "json \<Rightarrow> string" where
  "coded_print v = show_nat (to_nat v)"

definition coded_parse :: "string \<Rightarrow> json option" where
  "coded_parse s =
     (if s \<noteq> [] \<and> list_all is_digit s \<and> show_nat (digits_val s) = s \<and>
         to_nat (from_nat (digits_val s) :: json) = digits_val s
      then Some (from_nat (digits_val s)) else None)"

lemma coded_codec: "json_codec coded_parse coded_print"
  using show_nat_digits
  by (auto simp: json_codec_def coded_parse_def coded_print_def digits_val_show_nat list_all_iff)

end
