(* ===== verification/Core_Types.thy ===== *)
theory Core_Types
  imports Json_Value
begin

text \<open>
  The data model shared by the components: \<open>crates/godwit-core/src/lib.rs\<close> (requests,
  responses, errors, capabilities, protocols), \<open>crates/godwit-providers/src/adapter.rs\<close>
  (what an adapter returns) and \<open>crates/godwit-api/src/error.rs\<close> (the errors of the HTTP
  layer and the responses they become), with the functions of these files.
\<close>

text \<open>Single-precision fields are only passed along; their values are rationals.\<close>

type_synonym f32 = rat

text \<open>UTC timestamps, in nanoseconds since the epoch, and exact decimal amounts.\<close>

type_synonym datetime = int
type_synonym decimal = rat

section \<open>Errors of the core\<close>

datatype pasteur_error =
    PE_Config string
  | PE_Auth string
  | PE_Forbidden string
  | PE_NotFound
  | PE_Provider string
  | PE_Database string
  | PE_Validation string
  | PE_RateLimited

fun pasteur_error_display :: "pasteur_error \<Rightarrow> string" where
  "pasteur_error_display (PE_Config m) = ''configuration error: '' @ m"
| "pasteur_error_display (PE_Auth m) = ''authentication error: '' @ m"
| "pasteur_error_display (PE_Forbidden m) = ''authorization error: '' @ m"
| "pasteur_error_display PE_NotFound = ''not found''"
| "pasteur_error_display (PE_Provider m) = ''provider error: '' @ m"
| "pasteur_error_display (PE_Database m) = ''database error: '' @ m"
| "pasteur_error_display (PE_Validation m) = ''validation error: '' @ m"
| "pasteur_error_display PE_RateLimited = ''rate limited''"

datatype guardrails_error = GE_Moderation string | GE_Internal string

datatype provider_error =
    PErr_Http u16 string
  | PErr_Serialization string
  | PErr_Provider string
  | PErr_CapabilityNotSupported string

fun provider_error_display :: "provider_error \<Rightarrow> string" where
  "provider_error_display (PErr_Http status m) =
     ''http error: '' @ show_nat (unat status) @ '': '' @ m"
| "provider_error_display (PErr_Serialization m) = ''serialization error: '' @ m"
| "provider_error_display (PErr_Provider m) = ''provider error: '' @ m"
| "provider_error_display (PErr_CapabilityNotSupported m) = ''capability not supported: '' @ m"

section \<open>Errors of the HTTP layer\<close>

datatype api_error =
    AE_Unauthorized
  | AE_Forbidden
  | AE_NotFound
  | AE_BadRequest string
  | AE_RateLimited "u64 option"
  | AE_BudgetExceeded
  | AE_Internal
  | AE_Core pasteur_error
  | AE_Database string
  | AE_ModerationBlocked "string list"
  | AE_GuardrailsError guardrails_error

fun api_error_from :: "pasteur_error \<Rightarrow> api_error" where
  "api_error_from PE_NotFound = AE_NotFound"
| "api_error_from (PE_Auth _) = AE_Unauthorized"
| "api_error_from (PE_Forbidden _) = AE_Unauthorized"
| "api_error_from (PE_Validation msg) = AE_BadRequest msg"
| "api_error_from PE_RateLimited = AE_RateLimited None"
| "api_error_from err = AE_Core err"

record http_error =
  he_status :: nat
  he_retry_after :: "string option"
  he_body :: json

definition problem_body :: "nat \<Rightarrow> string \<Rightarrow> string \<Rightarrow> json" where
  "problem_body status title detail = json_obj
     [(''type'', JString (''https://api.godwit.local/errors/'' @
        replace_char (CHR '' '') ''-'' (map ascii_lower title))),
      (''title'', JString title),
      (''status'', JInt (int status)),
      (''detail'', JString detail),
      (''instance'', JString ''/'')]"

definition problem :: "nat \<Rightarrow> string \<Rightarrow> string \<Rightarrow> u64 option \<Rightarrow> http_error" where
  "problem status title detail retry_after =
     \<lparr>he_status = status,
      he_retry_after = map_option (\<lambda>s. show_nat (unat s)) retry_after,
      he_body = problem_body status title detail\<rparr>"

text \<open>
  \<open>IntoResponse for ApiError\<close>. \<open>debug_strings\<close> is Rust's \<open>{:?}\<close> rendering of a list of
  strings, which only the detail of a blocked request shows.
\<close>

fun into_response :: "(string list \<Rightarrow> string) \<Rightarrow> api_error \<Rightarrow> http_error" where
  "into_response debug_strings AE_Unauthorized =
     problem 401 ''Unauthorized'' ''Authentication required.'' None"
| "into_response debug_strings AE_Forbidden =
     problem 403 ''Forbidden'' ''Insufficient permissions.'' None"
| "into_response debug_strings AE_NotFound =
     problem 404 ''Not Found'' ''Resource not found.'' None"
| "into_response debug_strings (AE_BadRequest msg) =
     problem 400 ''Bad Request'' msg None"
| "into_response debug_strings (AE_RateLimited retry_after) =
     problem 429 ''Too Many Requests'' ''Rate limit exceeded.'' retry_after"
| "into_response debug_strings AE_BudgetExceeded =
     problem 429 ''Budget Exceeded'' ''End-user budget has been exceeded.'' None"
| "into_response debug_strings (AE_ModerationBlocked categories) =
     \<lparr>he_status = 400, he_retry_after = None, he_body = json_obj
       [(''type'', JString ''https://api.godwit.local/errors/moderation-blocked''),
        (''title'', JString ''Moderation Blocked''),
        (''status'', JInt 400),
        (''detail'', JString (''Content flagged by moderation: '' @ debug_strings categories)),
        (''instance'', JString ''/''),
        (''categories'', JArray (map JString categories))]\<rparr>"
| "into_response debug_strings _ =
     problem 500 ''Internal Server Error'' ''An unexpected error occurred.'' None"

section \<open>Capabilities and protocols\<close>

datatype capability =
    Chat | ImageGeneration | ImageEdit | VideoGeneration | AudioTts | AudioStt | Embedding

fun capability_as_str :: "capability \<Rightarrow> string" where
  "capability_as_str Chat = ''chat''"
| "capability_as_str ImageGeneration = ''image_generation''"
| "capability_as_str ImageEdit = ''image_edit''"
| "capability_as_str VideoGeneration = ''video_generation''"
| "capability_as_str AudioTts = ''audio_tts''"
| "capability_as_str AudioStt = ''audio_stt''"
| "capability_as_str Embedding = ''embedding''"

definition capability_from_str :: "string \<Rightarrow> (string, capability) result" where
  "capability_from_str s =
     (if s = ''chat'' then Ok Chat
      else if s = ''image_generation'' then Ok ImageGeneration
      else if s = ''image_edit'' then Ok ImageEdit
      else if s = ''video_generation'' then Ok VideoGeneration
      else if s = ''audio_tts'' then Ok AudioTts
      else if s = ''audio_stt'' then Ok AudioStt
      else if s = ''embedding'' then Ok Embedding
      else Err (''unknown capability: '' @ s))"

datatype multimodal_capability = MM_ImageGeneration | MM_AudioTts | MM_AudioStt | MM_Embedding

fun capability_from_multimodal :: "multimodal_capability \<Rightarrow> capability" where
  "capability_from_multimodal MM_ImageGeneration = ImageGeneration"
| "capability_from_multimodal MM_AudioTts = AudioTts"
| "capability_from_multimodal MM_AudioStt = AudioStt"
| "capability_from_multimodal MM_Embedding = Embedding"

type_synonym protocol = string

lemma capability_from_as_str [simp]: "capability_from_str (capability_as_str c) = Ok c"
  by (cases c) (simp_all add: capability_from_str_def)

lemma capability_as_from_str: "capability_from_str s = Ok c \<Longrightarrow> capability_as_str c = s"
  by (auto simp: capability_from_str_def split: if_splits)

lemma capability_as_str_inj: "capability_as_str c = capability_as_str d \<longleftrightarrow> c = d"
  by (metis capability_from_as_str sum.inject(2))

section \<open>Chat requests and responses\<close>

record image_url =
  iu_url :: string
  iu_detail :: "string option"

datatype chat_content_part = CP_Text string | CP_ImageUrl image_url

datatype chat_content = CC_Text string | CC_Parts "chat_content_part list"

record function_call =
  fc_name :: string
  fc_arguments :: string

record tool_call =
  tc_id :: string
  tc_type :: string
  tc_function :: function_call

record function_definition =
  fd_name :: string
  fd_description :: "string option"
  fd_parameters :: "json option"

record tool =
  tool_type :: string
  tool_function :: function_definition

datatype tool_choice = TC_None | TC_Auto | TC_Required | TC_Function string

record json_schema =
  js_name :: string
  js_schema :: "json option"
  js_strict :: "bool option"

datatype response_format = RF_Text | RF_JsonObject | RF_JsonSchema json_schema

datatype stop = Stop_String string | Stop_Array "string list"

record thinking_config =
  th_type :: string
  th_budget_tokens :: i32

record reasoning_config =
  rc_effort :: "string option"
  rc_thinking :: "thinking_config option"

type_synonym cache_control = string

record chat_message =
  cm_role :: string
  cm_content :: "chat_content list option"
  cm_name :: "string option"
  cm_tool_calls :: "tool_call list option"
  cm_tool_call_id :: "string option"
  cm_cache_control :: "cache_control option"

record chat_completion_request =
  cr_model :: string
  cr_messages :: "chat_message list"
  cr_stream :: "bool option"
  cr_temperature :: "f32 option"
  cr_max_tokens :: "i32 option"
  cr_top_p :: "f32 option"
  cr_top_k :: "i32 option"
  cr_frequency_penalty :: "f32 option"
  cr_presence_penalty :: "f32 option"
  cr_repetition_penalty :: "f32 option"
  cr_stop :: "stop option"
  cr_seed :: "i64 option"
  cr_n :: "i32 option"
  cr_logprobs :: "bool option"
  cr_top_logprobs :: "i32 option"
  cr_logit_bias :: "(string \<times> i32) list option"
  cr_user :: "string option"
  cr_tools :: "tool list option"
  cr_tool_choice :: "tool_choice option"
  cr_parallel_tool_calls :: "bool option"
  cr_response_format :: "response_format option"
  cr_reasoning :: "reasoning_config option"

record token_details =
  td_cached_tokens :: "i32 option"
  td_audio_tokens :: "i32 option"
  td_image_tokens :: "i32 option"

record usage =
  us_prompt_tokens :: i32
  us_completion_tokens :: i32
  us_total_tokens :: i32
  us_prompt_tokens_details :: "token_details option"
  us_completion_tokens_details :: "token_details option"

record chat_completion_choice =
  ch_index :: i32
  ch_message :: chat_message
  ch_finish_reason :: "string option"
  ch_logprobs :: "json option"
  ch_tool_calls :: "tool_call list option"

record chat_completion_response =
  cp_id :: string
  cp_object :: string
  cp_created :: i64
  cp_model :: string
  cp_choices :: "chat_completion_choice list"
  cp_usage :: "usage option"

section \<open>Text of a message\<close>

fun part_text :: "chat_content_part \<Rightarrow> string option" where
  "part_text (CP_Text text) = Some text"
| "part_text (CP_ImageUrl _) = None"

fun as_text :: "chat_content \<Rightarrow> string option" where
  "as_text (CC_Text t) = Some t"
| "as_text (CC_Parts parts) =
     (let text = List.map_filter part_text parts
      in if text = [] then None else Some (concat text))"

fun is_image :: "chat_content_part \<Rightarrow> bool" where
  "is_image (CP_ImageUrl _) = True"
| "is_image (CP_Text _) = False"

fun has_images :: "chat_content \<Rightarrow> bool" where
  "has_images (CC_Text _) = False"
| "has_images (CC_Parts parts) = list_ex is_image parts"

definition content_as_text :: "chat_message \<Rightarrow> string option" where
  "content_as_text msg =
     (case cm_content msg of
        None \<Rightarrow> None
      | Some contents \<Rightarrow>
          (let s = concat (List.map_filter as_text contents) in if s = [] then None else Some s))"

section \<open>JSON form of a message's content\<close>

text \<open>
  \<open>serialize_chat_content\<close> and \<open>deserialize_chat_content\<close>. The derived conversions of a
  single part (\<open>ser_part\<close>, \<open>de_part\<close>) are parameters; the untagged enum \<open>ChatContent\<close> is a
  string or an array of parts, and reading it tries the two in that order.
\<close>

fun chat_content_ser :: "(chat_content_part \<Rightarrow> json) \<Rightarrow> chat_content \<Rightarrow> json" where
  "chat_content_ser ser_part (CC_Text s) = JString s"
| "chat_content_ser ser_part (CC_Parts ps) = JArray (map ser_part ps)"

definition untagged_mismatch :: string where
  "untagged_mismatch = ''data did not match any variant of untagged enum ChatContent''"

fun chat_content_de ::
  "(json \<Rightarrow> (string, chat_content_part) result) \<Rightarrow> json \<Rightarrow> (string, chat_content) result" where
  "chat_content_de de_part (JString s) = Ok (CC_Text s)"
| "chat_content_de de_part (JArray vs) =
     (case collect_results (map de_part vs) of
        Inr ps \<Rightarrow> Ok (CC_Parts ps) | Inl _ \<Rightarrow> Err untagged_mismatch)"
| "chat_content_de de_part _ = Err untagged_mismatch"

fun serialize_chat_content ::
  "(chat_content_part \<Rightarrow> json) \<Rightarrow> chat_content list option \<Rightarrow> json" where
  "serialize_chat_content ser_part None = JNull"
| "serialize_chat_content ser_part (Some contents) =
     (case contents of
        [CC_Text text] \<Rightarrow> JString text
      | _ \<Rightarrow> JArray (map (chat_content_ser ser_part) contents))"

fun content_element_de ::
  "(json \<Rightarrow> (string, chat_content_part) result) \<Rightarrow> json \<Rightarrow> (string, chat_content) result" where
  "content_element_de de_part (JString s) = Ok (CC_Text s)"
| "content_element_de de_part (JObject m) =
     bind_result (de_part (JObject m)) (\<lambda>part. Ok (CC_Parts [part]))"
| "content_element_de de_part _ = Err ''array element must be string or object''"

fun deserialize_chat_content ::
  "(json \<Rightarrow> (string, chat_content_part) result) \<Rightarrow> json \<Rightarrow>
     (string, chat_content list option) result" where
  "deserialize_chat_content de_part JNull = Ok None"
| "deserialize_chat_content de_part (JString s) = Ok (Some [CC_Text s])"
| "deserialize_chat_content de_part (JArray arr) =
     bind_result (collect_results (map (content_element_de de_part) arr)) (\<lambda>cs. Ok (Some cs))"
| "deserialize_chat_content de_part (JObject m) =
     bind_result (chat_content_de de_part (JObject m)) (\<lambda>c. Ok (Some [c]))"
| "deserialize_chat_content de_part _ = Err ''content must be a string, array, or object''"

fun is_text_content :: "chat_content \<Rightarrow> bool" where
  "is_text_content (CC_Text _) = True"
| "is_text_content (CC_Parts _) = False"

lemma element_de_ser_text:
  "is_text_content c \<Longrightarrow> content_element_de de_part (chat_content_ser ser_part c) = Ok c"
  by (cases c) auto

lemma element_de_ser_Ok:
  "content_element_de de_part (chat_content_ser ser_part c) = Ok d \<Longrightarrow> is_text_content c"
  by (cases c) auto

lemma collect_elements:
  "collect_results (map (\<lambda>c. content_element_de de_part (chat_content_ser ser_part c)) cs) = Inr ds
     \<longleftrightarrow> ds = cs \<and> list_all is_text_content cs"
proof (cases "list_all is_text_content cs")
  case True
  then have "map (\<lambda>c. content_element_de de_part (chat_content_ser ser_part c)) cs = map Inr cs"
    by (auto simp: list_all_iff element_de_ser_text)
  with True show ?thesis by (metis collect_results_map_Inr sum.inject(2))
next
  case False
  then obtain c where c: "c \<in> set cs" "\<not> is_text_content c" by (auto simp: list_all_iff)
  then have "\<And>d. content_element_de de_part (chat_content_ser ser_part c) \<noteq> Inr d"
    by (auto dest: element_de_ser_Ok)
  with c(1) False show ?thesis by (auto dest!: collect_results_Inr_all)
qed

lemma deserialize_array_Ok_iff:
  "deserialize_chat_content de_part (JArray (map (chat_content_ser ser_part) cs)) = Ok r
     \<longleftrightarrow> r = Some cs \<and> list_all is_text_content cs"
  using collect_elements [of de_part ser_part cs] by (auto simp: bind_result_ok_iff comp_def)

text \<open>
  Writing a message's content as JSON and reading it back gives the content exactly when
  every element of the content is plain text: an element made of parts (text or image parts)
  is written as a nested array, which the reader refuses.
\<close>

lemma chat_content_roundtrip_iff:
  "deserialize_chat_content de_part (serialize_chat_content ser_part content) = Ok content
     \<longleftrightarrow> list_all is_text_content (unwrap_or [] content)"
proof (cases content)
  case (Some cs)
  show ?thesis
  proof (cases "\<exists>t. cs = [CC_Text t]")
    case False
    then have "serialize_chat_content ser_part (Some cs) = JArray (map (chat_content_ser ser_part) cs)"
      by (auto split: list.splits chat_content.splits)
    with Some show ?thesis by (simp only: deserialize_array_Ok_iff) simp
  qed (use Some in auto)
qed simp

section \<open>What adapters exchange with the gateway\<close>

record image_generation_request =
  igr_model :: string
  igr_prompt :: string
  igr_n :: "i32 option"
  igr_size :: "string option"
  igr_quality :: "string option"
  igr_style :: "string option"

record image_edit_request =
  ier_model :: string
  ier_prompt :: string
  ier_n :: "i32 option"
  ier_size :: "string option"
  ier_response_format :: "string option"

record audio_tts_request =
  atr_model :: string
  atr_input :: string
  atr_voice :: string
  atr_response_format :: "string option"

record audio_stt_request =
  asr_model :: string
  asr_language :: "string option"
  asr_response_format :: "string option"

record embedding_request =
  er_model :: string
  er_input :: "string list"

record video_generation_request =
  vgr_model :: string
  vgr_prompt :: string
  vgr_duration :: "f32 option"
  vgr_size :: "string option"

record image_data =
  imd_url :: "string option"
  imd_b64_json :: "string option"
  imd_revised_prompt :: "string option"

record image_generation_response =
  igp_created :: i64
  igp_data :: "image_data list"

record video_data =
  vd_url :: "string option"
  vd_b64_json :: "string option"

record video_generation_response =
  vgp_created :: i64
  vgp_data :: "video_data list"

record embedding_data =
  ed_object :: string
  ed_embedding :: "f32 list"
  ed_index :: i32

record embedding_response =
  ep_object :: string
  ep_data :: "embedding_data list"
  ep_model :: string
  ep_usage :: usage

datatype provider_response =
    PR_Chat chat_completion_response
  | PR_Image image_generation_response
  | PR_Video video_generation_response
  | PR_AudioStt string
  | PR_Embedding embedding_response
  | PR_Bytes string string
  | PR_Json json

record usage_report =
  ur_prompt_tokens :: "i32 option"
  ur_completion_tokens :: "i32 option"
  ur_image_count :: "i64 option"
  ur_audio_seconds :: "f64 option"
  ur_video_seconds :: "f64 option"
  ur_tts_characters :: "i64 option"
  ur_embedding_tokens :: "i64 option"
  ur_cache_read_tokens :: "i32 option"
  ur_cache_write_tokens :: "i32 option"

definition usage_report_default :: usage_report where
  "usage_report_default =
     \<lparr>ur_prompt_tokens = None, ur_completion_tokens = None, ur_image_count = None,
      ur_audio_seconds = None, ur_video_seconds = None, ur_tts_characters = None,
      ur_embedding_tokens = None, ur_cache_read_tokens = None, ur_cache_write_tokens = None\<rparr>"

record resolved_profile =
  rp_base_url :: string
  rp_api_key :: "string option"

end
