(* ===== verification/Db_Models.thy ===== *)
theory Db_Models
  imports Core_Types
begin

text \<open>
  The rows of the database (\<open>crates/godwit-db/src/models.rs\<close>) and the repositories of models,
  model aliases and provider profiles (\<open>crates/godwit-db/src/repositories\<close>). A table is the
  list of its rows. A query has a possible fault, the message of the error the database
  driver reports for it; a query without fault returns the rows its SQL selects. The values
  the database itself generates for an inserted row (id, timestamp) are arguments.
\<close>

section \<open>Rows\<close>

record organization =
  og_id :: uuid
  og_name :: string
  og_rpm :: "i32 option"
  og_tpm :: "i32 option"
  og_created_at :: datetime

record user =
  usr_id :: uuid
  usr_organization_id :: "uuid option"
  usr_email :: string
  usr_name :: "string option"
  usr_role :: string
  usr_sso_provider :: "string option"
  usr_sso_subject :: "string option"
  usr_password_hash :: "string option"
  usr_password_changed_at :: "datetime option"
  usr_password_expires_at :: "datetime option"
  usr_must_change_password :: bool
  usr_created_at :: datetime

datatype user_role = SuperAdmin | OrgAdmin | TeamAdmin | PlainUser

fun user_role_as_str :: "user_role \<Rightarrow> string" where
  "user_role_as_str SuperAdmin = ''super_admin''"
| "user_role_as_str OrgAdmin = ''org_admin''"
| "user_role_as_str TeamAdmin = ''team_admin''"
| "user_role_as_str PlainUser = ''user''"

definition user_role_from_str :: "string \<Rightarrow> user_role option" where
  "user_role_from_str s =
     (if s = ''super_admin'' then Some SuperAdmin
      else if s = ''org_admin'' then Some OrgAdmin
      else if s = ''team_admin'' then Some TeamAdmin
      else if s = ''user'' then Some PlainUser
      else None)"

record api_key =
  ak_id :: uuid
  ak_user_id :: uuid
  ak_team_id :: "uuid option"
  ak_organization_id :: uuid
  ak_name :: string
  ak_key_prefix :: string
  ak_key_hash :: string
  ak_scopes :: "string list"
  ak_allowed_models :: "string list"
  ak_budget_limit_usd :: "decimal option"
  ak_budget_spent_usd :: decimal
  ak_rpm :: "i32 option"
  ak_tpm :: "i32 option"
  ak_expires_at :: "datetime option"
  ak_disabled :: bool
  ak_created_at :: datetime

record model =
  m_id :: uuid
  m_public_id :: string
  m_provider :: string
  m_provider_profile_id :: uuid
  m_provider_model_id :: string
  m_capabilities :: "string list"
  m_pricing :: json
  m_config :: json
  m_created_at :: datetime

definition has_capability :: "model \<Rightarrow> capability \<Rightarrow> bool" where
  "has_capability m capability = list_ex (\<lambda>c. c = capability_as_str capability) (m_capabilities m)"

record provider_profile =
  pp_id :: uuid
  pp_name :: string
  pp_protocol :: string
  pp_base_url :: "string option"
  pp_allow_wildcard :: bool
  pp_auth :: json
  pp_config :: json
  pp_enabled :: bool
  pp_created_at :: datetime

record team =
  tm_id :: uuid
  tm_organization_id :: uuid
  tm_name :: string
  tm_budget_usd :: "decimal option"
  tm_max_budget_usd :: "decimal option"
  tm_created_at :: datetime

record team_membership =
  mb_user_id :: uuid
  mb_team_id :: uuid
  mb_role :: string

record refresh_token =
  rt_id :: uuid
  rt_user_id :: uuid
  rt_token_hash :: string
  rt_expires_at :: datetime
  rt_created_at :: datetime

record password_reset_token =
  prt_id :: uuid
  prt_user_id :: uuid
  prt_token_hash :: string
  prt_expires_at :: datetime
  prt_created_at :: datetime
  prt_used_at :: "datetime option"

record end_user =
  eu_id :: uuid
  eu_organization_id :: uuid
  eu_user_id :: uuid
  eu_budget_usd :: "decimal option"
  eu_max_budget_usd :: "decimal option"
  eu_created_at :: datetime
  eu_updated_at :: datetime

record request_log =
  lg_id :: uuid
  lg_api_key_id :: "uuid option"
  lg_user_id :: "uuid option"
  lg_organization_id :: uuid
  lg_team_id :: "uuid option"
  lg_model :: string
  lg_provider :: string
  lg_provider_model_id :: string
  lg_capability :: string
  lg_duration_ms :: i32
  lg_streamed :: bool
  lg_status :: string
  lg_cost_usd :: "decimal option"
  lg_tags :: "string list"
  lg_created_at :: datetime
  lg_tool_calls_count :: "i32 option"
  lg_agentic_iteration :: "i32 option"

record model_alias =
  al_id :: uuid
  al_alias :: string
  al_target_model_id :: uuid
  al_created_at :: datetime

section \<open>Queries\<close>

type_synonym fault = "string option"

definition fetch_all :: "fault \<Rightarrow> 'r list \<Rightarrow> (pasteur_error, 'r list) result" where
  "fetch_all flt rows = (case flt of Some e \<Rightarrow> Err (PE_Database e) | None \<Rightarrow> Ok rows)"

text \<open>
  A column of type \<open>NUMERIC(p, s)\<close> holds its value rounded to \<open>s\<close> digits after the point, ties away from zero; a value
  with more than \<open>p - s\<close> digits before the point is refused.
\<close>

definition numeric_round :: "nat \<Rightarrow> decimal \<Rightarrow> decimal" where
  "numeric_round s x = sgn x * of_int \<lfloor>\<bar>x\<bar> * 10 ^ s + 1 / 2\<rfloor> / 10 ^ s"

definition numeric_fits :: "nat \<Rightarrow> nat \<Rightarrow> decimal \<Rightarrow> bool" where
  "numeric_fits p s x \<longleftrightarrow> \<bar>numeric_round s x\<bar> < 10 ^ (p - s)"

abbreviation usd4 :: "decimal option \<Rightarrow> decimal option" where
  "usd4 \<equiv> map_option (numeric_round 4)"

text \<open>\<open>fetch_one\<close> with \<open>RowNotFound\<close> reported as \<open>NotFound\<close>.\<close>

definition fetch_one :: "fault \<Rightarrow> 'r list \<Rightarrow> (pasteur_error, 'r) result" where
  "fetch_one flt rows =
     (case flt of
        Some e \<Rightarrow> Err (PE_Database e)
      | None \<Rightarrow> (case rows of [] \<Rightarrow> Err PE_NotFound | r # _ \<Rightarrow> Ok r))"

text \<open>\<open>fetch_one\<close> with every error reported as \<open>Database\<close>.\<close>

definition fetch_one_db :: "fault \<Rightarrow> 'r list \<Rightarrow> (pasteur_error, 'r) result" where
  "fetch_one_db flt rows =
     (case flt of
        Some e \<Rightarrow> Err (PE_Database e)
      | None \<Rightarrow>
          (case rows of
             [] \<Rightarrow> Err (PE_Database
                     ''no rows returned by a query that expected to return at least one row'')
           | r # _ \<Rightarrow> Ok r))"

lemma fetch_one_Ok_iff:
  "fetch_one flt rows = Ok r \<longleftrightarrow> flt = None \<and> (\<exists>rs. rows = r # rs)"
  by (auto simp: fetch_one_def split: option.splits list.splits)

lemma fetch_one_filter_Ok:
  "fetch_one flt (filter P rows) = Ok r \<Longrightarrow> r \<in> set rows \<and> P r"
  by (auto simp: fetch_one_Ok_iff filter_eq_Cons_iff)

lemma fetch_one_NotFound_iff:
  "fetch_one flt rows = Err PE_NotFound \<longleftrightarrow> flt = None \<and> rows = []"
  by (auto simp: fetch_one_def split: option.splits list.splits)

section \<open>The catalog\<close>

text \<open>
  The tables of the catalog and the constraints the migrations put on them. A statement that
  violates a constraint fails as a whole; \<open>violation\<close> is the driver's message for it.
\<close>

record catalog =
  ct_profiles :: "provider_profile list"
  ct_models :: "model list"
  ct_aliases :: "model_alias list"

definition model_providers :: "string list" where
  "model_providers =
     [''openai'', ''anthropic'', ''gemini'', ''vllm'', ''sglang'', ''llama_cpp'', ''ollama'']"

definition model_capabilities :: "string list" where
  "model_capabilities =
     [''chat'', ''image_generation'', ''image_edit'', ''video_generation'', ''audio_tts'',
      ''audio_stt'', ''embedding'']"

definition model_key :: "model \<Rightarrow> uuid \<times> string" where
  "model_key m = (m_provider_profile_id m, m_public_id m)"

definition model_row_ok :: "provider_profile list \<Rightarrow> model \<Rightarrow> bool" where
  "model_row_ok profiles m \<longleftrightarrow>
     m_provider m \<in> set model_providers \<and> set (m_capabilities m) \<subseteq> set model_capabilities \<and>
     m_provider_profile_id m \<in> pp_id ` set profiles"

definition models_ok :: "provider_profile list \<Rightarrow> model list \<Rightarrow> bool" where
  "models_ok profiles models \<longleftrightarrow>
     distinct (map m_id models) \<and> distinct (map model_key models) \<and>
     list_all (model_row_ok profiles) models"

definition profiles_ok :: "provider_profile list \<Rightarrow> bool" where
  "profiles_ok profiles \<longleftrightarrow> distinct (map pp_id profiles) \<and> distinct (map pp_name profiles)"

definition aliases_ok :: "model list \<Rightarrow> model_alias list \<Rightarrow> bool" where
  "aliases_ok models aliases \<longleftrightarrow>
     distinct (map al_id aliases) \<and> distinct (map al_alias aliases) \<and>
     list_all (\<lambda>a. al_target_model_id a \<in> m_id ` set models) aliases"

definition catalog_ok :: "catalog \<Rightarrow> bool" where
  "catalog_ok ct \<longleftrightarrow> profiles_ok (ct_profiles ct) \<and> models_ok (ct_profiles ct) (ct_models ct) \<and>
     aliases_ok (ct_models ct) (ct_aliases ct)"

text \<open>A statement's effect: refused on a fault or a violated constraint, else committed.\<close>

definition run_stmt ::
  "fault \<Rightarrow> string \<Rightarrow> (catalog \<Rightarrow> bool) \<Rightarrow> 'r list \<Rightarrow> catalog \<Rightarrow> catalog \<Rightarrow>
     (pasteur_error, 'r) result \<times> catalog" where
  "run_stmt flt violation constraint rows ct' ct =
     (case flt of
        Some e \<Rightarrow> (Err (PE_Database e), ct)
      | None \<Rightarrow>
          if constraint ct' then (fetch_one_db None rows, ct')
          else (Err (PE_Database violation), ct))"

section \<open>The model repository\<close>

definition parse_capabilities :: "string \<Rightarrow> string list" where
  "parse_capabilities capabilities =
     (let caps = filter (\<lambda>s. s \<noteq> []) (map trim (split_on (CHR '','') capabilities))
      in if caps = [] then [''chat''] else caps)"

definition validate_pricing :: "json \<Rightarrow> (pasteur_error, unit) result" where
  "validate_pricing pricing =
     (if json_get ''input_price_per_million'' pricing = None \<or>
         json_get ''output_price_per_million'' pricing = None
      then Err (PE_Validation
        ''pricing must include input_price_per_million and output_price_per_million'')
      else Ok ())"

definition models_create ::
  "fault \<Rightarrow> string \<Rightarrow> uuid \<Rightarrow> datetime \<Rightarrow> string \<Rightarrow> string \<Rightarrow> uuid \<Rightarrow> string \<Rightarrow> string \<Rightarrow> json \<Rightarrow>
     catalog \<Rightarrow> (pasteur_error, model) result \<times> catalog" where
  "models_create flt violation new_id now public_id provider provider_profile_id
     provider_model_id capabilities pricing ct =
     (case validate_pricing pricing of
        Inl e \<Rightarrow> (Err e, ct)
      | Inr _ \<Rightarrow>
          (let row = \<lparr>m_id = new_id, m_public_id = public_id, m_provider = provider,
               m_provider_profile_id = provider_profile_id,
               m_provider_model_id = provider_model_id,
               m_capabilities = parse_capabilities capabilities,
               m_pricing = pricing, m_config = JObject [], m_created_at = now\<rparr>
           in run_stmt flt violation catalog_ok [row]
                (ct\<lparr>ct_models := ct_models ct @ [row]\<rparr>) ct))"

text \<open>\<open>ORDER BY public_id\<close>; the order of rows with the same key is that of the table.\<close>

definition models_list :: "fault \<Rightarrow> catalog \<Rightarrow> (pasteur_error, model list) result" where
  "models_list flt ct = fetch_all flt (sort_key m_public_id (ct_models ct))"

definition models_get :: "fault \<Rightarrow> uuid \<Rightarrow> catalog \<Rightarrow> (pasteur_error, model) result" where
  "models_get flt mid ct = fetch_one flt (filter (\<lambda>m. m_id m = mid) (ct_models ct))"

definition models_get_by_public_id ::
  "fault \<Rightarrow> string \<Rightarrow> catalog \<Rightarrow> (pasteur_error, model) result" where
  "models_get_by_public_id flt public_id ct =
     fetch_one flt (filter (\<lambda>m. m_public_id m = public_id) (ct_models ct))"

definition models_get_by_profile_and_public_id ::
  "fault \<Rightarrow> uuid \<Rightarrow> string \<Rightarrow> catalog \<Rightarrow> (pasteur_error, model) result" where
  "models_get_by_profile_and_public_id flt provider_profile_id public_id ct =
     fetch_one flt
       (filter (\<lambda>m. m_provider_profile_id m = provider_profile_id \<and> m_public_id m = public_id)
          (ct_models ct))"

text \<open>\<open>update\<close> reads the row, then writes it: two queries.\<close>

definition models_update ::
  "fault \<Rightarrow> fault \<Rightarrow> string \<Rightarrow> uuid \<Rightarrow> string option \<Rightarrow> string option \<Rightarrow> catalog \<Rightarrow>
     (pasteur_error, model) result \<times> catalog" where
  "models_update flt1 flt2 violation mid public_id capabilities ct =
     (case models_get flt1 mid ct of
        Inl e \<Rightarrow> (Err e, ct)
      | Inr current \<Rightarrow>
          (let upd = (\<lambda>m. m\<lparr>m_public_id := unwrap_or (m_public_id current) public_id,
                 m_capabilities := unwrap_or (m_capabilities current)
                   (map_option parse_capabilities capabilities)\<rparr>)
           in run_stmt flt2 violation catalog_ok
                (map upd (filter (\<lambda>m. m_id m = mid) (ct_models ct)))
                (ct\<lparr>ct_models := map (\<lambda>m. if m_id m = mid then upd m else m) (ct_models ct)\<rparr>) ct))"

text \<open>Deleting a model deletes its aliases (\<open>ON DELETE CASCADE\<close>).\<close>

definition models_delete ::
  "fault \<Rightarrow> uuid \<Rightarrow> catalog \<Rightarrow> (pasteur_error, unit) result \<times> catalog" where
  "models_delete flt mid ct =
     (case flt of
        Some e \<Rightarrow> (Err (PE_Database e), ct)
      | None \<Rightarrow>
          (Ok (), ct\<lparr>ct_models := filter (\<lambda>m. m_id m \<noteq> mid) (ct_models ct),
                     ct_aliases := filter (\<lambda>a. al_target_model_id a \<noteq> mid) (ct_aliases ct)\<rparr>))"

section \<open>The provider profile repository\<close>

definition profiles_create ::
  "fault \<Rightarrow> string \<Rightarrow> uuid \<Rightarrow> datetime \<Rightarrow> string \<Rightarrow> string \<Rightarrow> string option \<Rightarrow> bool \<Rightarrow>
     catalog \<Rightarrow> (pasteur_error, provider_profile) result \<times> catalog" where
  "profiles_create flt violation new_id now name protocol base_url allow_wildcard ct =
     (let row = \<lparr>pp_id = new_id, pp_name = name, pp_protocol = protocol, pp_base_url = base_url,
          pp_allow_wildcard = allow_wildcard, pp_auth = JObject [], pp_config = JObject [],
          pp_enabled = True, pp_created_at = now\<rparr>
      in run_stmt flt violation catalog_ok [row]
           (ct\<lparr>ct_profiles := ct_profiles ct @ [row]\<rparr>) ct)"

definition profiles_list :: "fault \<Rightarrow> catalog \<Rightarrow> (pasteur_error, provider_profile list) result" where
  "profiles_list flt ct = fetch_all flt (sort_key pp_name (ct_profiles ct))"

definition profiles_get ::
  "fault \<Rightarrow> uuid \<Rightarrow> catalog \<Rightarrow> (pasteur_error, provider_profile) result" where
  "profiles_get flt pid ct = fetch_one flt (filter (\<lambda>p. pp_id p = pid) (ct_profiles ct))"

definition profiles_get_by_name ::
  "fault \<Rightarrow> string \<Rightarrow> catalog \<Rightarrow> (pasteur_error, provider_profile) result" where
  "profiles_get_by_name flt name ct = fetch_one flt (filter (\<lambda>p. pp_name p = name) (ct_profiles ct))"

definition profile_rows_update ::
  "uuid \<Rightarrow> (provider_profile \<Rightarrow> provider_profile) \<Rightarrow> catalog \<Rightarrow> catalog" where
  "profile_rows_update pid upd ct =
     ct\<lparr>ct_profiles := map (\<lambda>p. if pp_id p = pid then upd p else p) (ct_profiles ct)\<rparr>"

definition profiles_update ::
  "fault \<Rightarrow> fault \<Rightarrow> string \<Rightarrow> uuid \<Rightarrow> string option \<Rightarrow> bool option \<Rightarrow> bool option \<Rightarrow>
     catalog \<Rightarrow> (pasteur_error, provider_profile) result \<times> catalog" where
  "profiles_update flt1 flt2 violation pid base_url allow_wildcard enabled ct =
     (case profiles_get flt1 pid ct of
        Inl e \<Rightarrow> (Err e, ct)
      | Inr current \<Rightarrow>
          (let upd = (\<lambda>p. p\<lparr>pp_base_url := (case base_url of Some u \<Rightarrow> Some u
                                               | None \<Rightarrow> pp_base_url current),
                 pp_allow_wildcard := unwrap_or (pp_allow_wildcard current) allow_wildcard,
                 pp_enabled := unwrap_or (pp_enabled current) enabled\<rparr>)
           in run_stmt flt2 violation catalog_ok
                (map upd (filter (\<lambda>p. pp_id p = pid) (ct_profiles ct)))
                (profile_rows_update pid upd ct) ct))"

text \<open>The stored form of an encrypted secret is the JSON object of its two fields.\<close>

record encrypted_secret =
  es_ciphertext :: string
  es_nonce :: string

definition encrypted_secret_to_value :: "encrypted_secret \<Rightarrow> json" where
  "encrypted_secret_to_value secret =
     json_obj [(''ciphertext'', JString (es_ciphertext secret)),
               (''nonce'', JString (es_nonce secret))]"

definition profiles_set_auth ::
  "fault \<Rightarrow> string \<Rightarrow> uuid \<Rightarrow> encrypted_secret \<Rightarrow> catalog \<Rightarrow>
     (pasteur_error, provider_profile) result \<times> catalog" where
  "profiles_set_auth flt violation pid secret ct =
     (let upd = (\<lambda>p. p\<lparr>pp_auth := encrypted_secret_to_value secret\<rparr>)
      in run_stmt flt violation catalog_ok
           (map upd (filter (\<lambda>p. pp_id p = pid) (ct_profiles ct)))
           (profile_rows_update pid upd ct) ct)"

section \<open>The alias repository\<close>

definition aliases_create ::
  "fault \<Rightarrow> string \<Rightarrow> uuid \<Rightarrow> datetime \<Rightarrow> string \<Rightarrow> uuid \<Rightarrow> catalog \<Rightarrow>
     (pasteur_error, model_alias) result \<times> catalog" where
  "aliases_create flt violation new_id now alias target_model_id ct =
     (let row = \<lparr>al_id = new_id, al_alias = alias, al_target_model_id = target_model_id,
                 al_created_at = now\<rparr>
      in run_stmt flt violation catalog_ok [row]
           (ct\<lparr>ct_aliases := ct_aliases ct @ [row]\<rparr>) ct)"

definition aliases_get_by_alias ::
  "fault \<Rightarrow> string \<Rightarrow> catalog \<Rightarrow> (pasteur_error, model_alias) result" where
  "aliases_get_by_alias flt alias ct = fetch_one flt (filter (\<lambda>a. al_alias a = alias) (ct_aliases ct))"

definition aliases_list :: "fault \<Rightarrow> catalog \<Rightarrow> (pasteur_error, model_alias list) result" where
  "aliases_list flt ct = fetch_all flt (sort_key al_alias (ct_aliases ct))"

definition aliases_delete ::
  "fault \<Rightarrow> uuid \<Rightarrow> catalog \<Rightarrow> (pasteur_error, unit) result \<times> catalog" where
  "aliases_delete flt aid ct =
     (case flt of
        Some e \<Rightarrow> (Err (PE_Database e), ct)
      | None \<Rightarrow> (Ok (), ct\<lparr>ct_aliases := filter (\<lambda>a. al_id a \<noteq> aid) (ct_aliases ct)\<rparr>))"

section \<open>Histories of the catalog\<close>

text \<open>One write of the catalog, with what the database answers to each of its queries.\<close>

datatype catalog_op =
    CreateModel fault string uuid datetime string string uuid string string json
  | UpdateModel fault fault string uuid "string option" "string option"
  | DeleteModel fault uuid
  | CreateProfile fault string uuid datetime string string "string option" bool
  | UpdateProfile fault fault string uuid "string option" "bool option" "bool option"
  | SetAuth fault string uuid encrypted_secret
  | CreateAlias fault string uuid datetime string uuid
  | DeleteAlias fault uuid

fun catalog_apply :: "catalog_op \<Rightarrow> catalog \<Rightarrow> catalog" where
  "catalog_apply (CreateModel f v i n a b c d e g) ct = snd (models_create f v i n a b c d e g ct)"
| "catalog_apply (UpdateModel f g v i a b) ct = snd (models_update f g v i a b ct)"
| "catalog_apply (DeleteModel f i) ct = snd (models_delete f i ct)"
| "catalog_apply (CreateProfile f v i n a b c d) ct = snd (profiles_create f v i n a b c d ct)"
| "catalog_apply (UpdateProfile f g v i a b c) ct = snd (profiles_update f g v i a b c ct)"
| "catalog_apply (SetAuth f v i s) ct = snd (profiles_set_auth f v i s ct)"
| "catalog_apply (CreateAlias f v i n a t) ct = snd (aliases_create f v i n a t ct)"
| "catalog_apply (DeleteAlias f i) ct = snd (aliases_delete f i ct)"

definition catalog_empty :: catalog where
  "catalog_empty = \<lparr>ct_profiles = [], ct_models = [], ct_aliases = []\<rparr>"

lemma run_stmt_keeps: "P ct \<Longrightarrow> P (snd (run_stmt flt violation P rows ct' ct))"
  by (simp add: run_stmt_def split: option.splits)

lemma models_delete_ok:
  assumes "catalog_ok ct"
  shows "catalog_ok (snd (models_delete flt mid ct))"
proof -
  have "catalog_ok (ct\<lparr>ct_models := filter (\<lambda>m. m_id m \<noteq> mid) (ct_models ct),
      ct_aliases := filter (\<lambda>a. al_target_model_id a \<noteq> mid) (ct_aliases ct)\<rparr>)"
    using assms by (fastforce simp: catalog_ok_def models_ok_def aliases_ok_def list_all_iff
        distinct_map_filter)
  with assms show ?thesis by (simp add: models_delete_def split: option.splits)
qed

lemma aliases_delete_ok: "catalog_ok ct \<Longrightarrow> catalog_ok (snd (aliases_delete flt aid ct))"
  by (auto simp: aliases_delete_def catalog_ok_def aliases_ok_def list_all_iff distinct_map_filter
      split: option.splits)

lemmas catalog_write_defs = models_create_def models_update_def profiles_create_def
  profiles_update_def profiles_set_auth_def aliases_create_def

lemma catalog_apply_ok: "catalog_ok ct \<Longrightarrow> catalog_ok (catalog_apply opn ct)"
  by (cases opn) (auto simp: catalog_write_defs Let_def models_delete_ok aliases_delete_ok
      run_stmt_keeps split: sum.splits)

text \<open>
  Whatever writes the repositories perform and whatever the database answers (faults and
  refused statements included), the catalog keeps its constraints: identifiers are unique,
  profile names and aliases are unique, a profile has at most one model of a public id, and
  every model has an existing profile and every alias an existing model.
\<close>

lemma catalog_history_ok: "catalog_ok (foldl (\<lambda>ct opn. catalog_apply opn ct) catalog_empty ops)"
proof (induction ops rule: rev_induct)
  case Nil
  then show ?case
    by (simp add: catalog_empty_def catalog_ok_def profiles_ok_def models_ok_def aliases_ok_def)
qed (simp add: catalog_apply_ok)

text \<open>
  After a model is created, looking it up by its profile and public id, or by its id,
  finds exactly that model, whatever else the catalog holds, and its capabilities are the
  parsed ones.
\<close>

lemma models_create_lookup:
  assumes "models_create None violation new_id now public_id provider pid provider_model_id caps
           pricing ct = (Ok row, ct')"
  shows "models_get_by_profile_and_public_id None pid public_id ct' = Ok row \<and>
    models_get None new_id ct' = Ok row \<and> m_capabilities row = parse_capabilities caps"
proof -
  from assms have ct': "ct' = ct\<lparr>ct_models := ct_models ct @ [row]\<rparr>" and ok: "catalog_ok ct'"
    and row: "m_id row = new_id" "model_key row = (pid, public_id)"
      "m_capabilities row = parse_capabilities caps"
    by (auto simp: models_create_def run_stmt_def fetch_one_db_def Let_def model_key_def
        split: sum.splits if_splits)
  have "\<forall>m \<in> set (ct_models ct). m_id m \<noteq> new_id \<and> model_key m \<noteq> (pid, public_id)"
    using ok row unfolding ct' by (auto simp: catalog_ok_def models_ok_def image_iff)
  then have "filter (\<lambda>m. m_id m = new_id) (ct_models ct) = []"
    "filter (\<lambda>m. m_provider_profile_id m = pid \<and> m_public_id m = public_id) (ct_models ct) = []"
    by (auto simp: filter_empty_conv model_key_def)
  with row show ?thesis
    unfolding ct' models_get_def models_get_by_profile_and_public_id_def
    by (simp add: model_key_def fetch_one_def)
qed

definition sample_profile :: provider_profile where
  "sample_profile = \<lparr>pp_id = 1, pp_name = ''acme'', pp_protocol = ''openai'',
     pp_base_url = Some ''https://acme'', pp_allow_wildcard = True, pp_auth = JObject [],
     pp_config = JObject [], pp_enabled = True, pp_created_at = 0\<rparr>"

definition sample_catalog :: catalog where
  "sample_catalog = \<lparr>ct_profiles = [sample_profile], ct_models = [], ct_aliases = []\<rparr>"

definition sample_pricing :: json where
  "sample_pricing = JObject [(''input_price_per_million'', JInt 1),
     (''output_price_per_million'', JInt 2)]"

lemma models_create_lookup_witness:
  "\<exists>row ct'. models_create None [] 7 0 ''gpt'' ''openai'' 1 ''gpt-4'' '' chat , embedding''
      sample_pricing sample_catalog = (Ok row, ct') \<and>
    models_get_by_profile_and_public_id None 1 ''gpt'' ct' = Ok row \<and>
    m_capabilities row = [''chat'', ''embedding'']"
proof -
  have caps: "parse_capabilities '' chat , embedding'' = [''chat'', ''embedding'']"
    by code_simp
  have "\<exists>row ct'. models_create None [] 7 0 ''gpt'' ''openai'' 1 ''gpt-4'' '' chat , embedding''
      sample_pricing sample_catalog = (Ok row, ct')"
    by (simp add: models_create_def caps validate_pricing_def sample_pricing_def run_stmt_def
        catalog_ok_def profiles_ok_def models_ok_def aliases_ok_def model_row_ok_def
        model_providers_def model_capabilities_def sample_catalog_def sample_profile_def
        fetch_one_db_def Let_def)
  then show ?thesis using models_create_lookup caps by metis
qed

end
