(* ===== verification/Rate_Limit.thy ===== *)
theory Rate_Limit
  imports Db_Models
begin

text \<open>
  Rate limiting: \<open>crates/godwit-api/src/rate_limit.rs\<close> (the token bucket and the limiter
  with its check-then-commit over four buckets, the token estimate of a request and the
  budget checks) and \<open>crates/godwit-api/src/login_rate_limit.rs\<close>. Every read of the clock is
  an argument.
\<close>

section \<open>The token bucket\<close>

record token_bucket =
  tb_capacity :: u32
  tb_tokens :: f64
  tb_last_refill :: instant

definition cap_f64 :: "u32 \<Rightarrow> f64" where
  "cap_f64 c = f_of_nat (unat c)"

definition tb_new :: "instant \<Rightarrow> u32 \<Rightarrow> token_bucket" where
  "tb_new now capacity =
     \<lparr>tb_capacity = capacity, tb_tokens = cap_f64 capacity, tb_last_refill = now\<rparr>"

definition tb_refill :: "instant \<Rightarrow> token_bucket \<Rightarrow> token_bucket" where
  "tb_refill now b =
     (if tb_capacity b = 0 then b
      else let elapsed = as_secs_f64 (elapsed_since now (tb_last_refill b));
               rate = f_div (cap_f64 (tb_capacity b)) 60
           in b\<lparr>tb_tokens := min (f_add (tb_tokens b) (f_mul elapsed rate)) (cap_f64 (tb_capacity b)),
                tb_last_refill := now\<rparr>)"

definition deficit_retry_after ::
  "instant \<Rightarrow> u32 \<Rightarrow> token_bucket \<Rightarrow> u64 option \<times> token_bucket" where
  "deficit_retry_after now amount b =
     (let b = tb_refill now b
      in if tb_capacity b = 0 then (None, b)
         else let deficit = f_sub (cap_f64 amount) (tb_tokens b)
              in if deficit \<le> 0 then (None, b)
                 else let rate = f_div (cap_f64 (tb_capacity b)) 60
                      in if rate \<le> 0 then (None, b)
                         else (Some (f_to_u64 (f_ceil (f_div deficit rate))), b))"

definition tb_debit :: "u32 \<Rightarrow> token_bucket \<Rightarrow> token_bucket" where
  "tb_debit amount b = b\<lparr>tb_tokens := f_sub (tb_tokens b) (cap_f64 amount)\<rparr>"

section \<open>The limiter\<close>

type_synonym bucket_key = "uuid \<times> string"
type_synonym bucket_map = "bucket_key \<rightharpoonup> token_bucket"

record rate_limiter =
  rl_rpm_buckets :: bucket_map
  rl_tpm_buckets :: bucket_map

definition rl_new :: rate_limiter where
  "rl_new = \<lparr>rl_rpm_buckets = Map.empty, rl_tpm_buckets = Map.empty\<rparr>"

text \<open>A limit is an \<open>i32\<close>; the limiter only uses positive ones, cast to \<open>u32\<close>.\<close>

definition positive_limit :: "i32 option \<Rightarrow> u32 option" where
  "positive_limit limit =
     (case limit of Some l \<Rightarrow> if 0 < sint l then Some l else None | None \<Rightarrow> None)"

definition sync_capacity :: "u32 \<Rightarrow> token_bucket \<Rightarrow> token_bucket" where
  "sync_capacity limit b =
     (if tb_capacity b \<noteq> limit
      then b\<lparr>tb_capacity := limit, tb_tokens := min (tb_tokens b) (cap_f64 limit)\<rparr>
      else b)"

text \<open>
  \<open>check_bucket\<close> reads the clock when it creates the bucket (\<open>now0\<close>) and when it checks it
  (\<open>now\<close>).
\<close>

definition check_bucket ::
  "instant \<Rightarrow> instant \<Rightarrow> bucket_map \<Rightarrow> bucket_key \<Rightarrow> i32 option \<Rightarrow> u32 \<Rightarrow> bool \<Rightarrow>
     u64 option \<times> bucket_map" where
  "check_bucket now0 now buckets key limit amount debit =
     (case positive_limit limit of
        None \<Rightarrow> (None, buckets)
      | Some limit \<Rightarrow>
          (case entry_or_insert key (tb_new now0 limit) buckets of (bucket, buckets) \<Rightarrow>
             (case deficit_retry_after now amount (sync_capacity limit bucket) of
                (retry_after, bucket) \<Rightarrow>
                  (let bucket = (if retry_after = None \<and> debit then tb_debit amount bucket
                                 else bucket)
                   in (retry_after, buckets(key \<mapsto> bucket))))))"

datatype bucket_kind = Rpm | Tpm

type_synonym limit_check = "bucket_kind \<times> bucket_key \<times> i32 option \<times> u32"

fun get_buckets :: "bucket_kind \<Rightarrow> rate_limiter \<Rightarrow> bucket_map" where
  "get_buckets Rpm rl = rl_rpm_buckets rl"
| "get_buckets Tpm rl = rl_tpm_buckets rl"

fun put_buckets :: "bucket_kind \<Rightarrow> bucket_map \<Rightarrow> rate_limiter \<Rightarrow> rate_limiter" where
  "put_buckets Rpm m rl = rl\<lparr>rl_rpm_buckets := m\<rparr>"
| "put_buckets Tpm m rl = rl\<lparr>rl_tpm_buckets := m\<rparr>"

definition limit_checks ::
  "uuid \<Rightarrow> uuid \<Rightarrow> string \<Rightarrow> i32 option \<Rightarrow> i32 option \<Rightarrow> i32 option \<Rightarrow> i32 option \<Rightarrow> u32 \<Rightarrow>
     limit_check list" where
  "limit_checks api_key_id org_id model rpm_limit_key tpm_limit_key rpm_limit_org tpm_limit_org
     estimated_tokens =
     [(Rpm, (api_key_id, model), rpm_limit_key, 1),
      (Tpm, (api_key_id, model), tpm_limit_key, estimated_tokens),
      (Rpm, (org_id, model), rpm_limit_org, 1),
      (Tpm, (org_id, model), tpm_limit_org, estimated_tokens)]"

text \<open>
  Pass 1: a check without debit of every bucket, keeping the largest wait. The clock reads
  of the pass are given, two per bucket.
\<close>

fun check_pass ::
  "(instant \<times> instant) list \<Rightarrow> limit_check list \<Rightarrow> u64 option \<Rightarrow> rate_limiter \<Rightarrow>
     u64 option \<times> rate_limiter" where
  "check_pass ((n0, n1) # ns) ((kind, key, limit, amount) # cs) slowest rl =
     (case check_bucket n0 n1 (get_buckets kind rl) key limit amount False of (r, m) \<Rightarrow>
        check_pass ns cs
          (case r of
             None \<Rightarrow> slowest
           | Some retry_after \<Rightarrow>
               Some (case slowest of None \<Rightarrow> retry_after | Some w \<Rightarrow> max w retry_after))
          (put_buckets kind m rl))"
| "check_pass _ _ slowest rl = (slowest, rl)"

text \<open>Pass 2: every bucket again, now debiting; the results are ignored.\<close>

fun commit_pass ::
  "(instant \<times> instant) list \<Rightarrow> limit_check list \<Rightarrow> rate_limiter \<Rightarrow> rate_limiter" where
  "commit_pass ((n0, n1) # ns) ((kind, key, limit, amount) # cs) rl =
     commit_pass ns cs
       (put_buckets kind
          (snd (check_bucket n0 n1 (get_buckets kind rl) key limit amount True)) rl)"
| "commit_pass _ _ rl = rl"

definition check_and_consume ::
  "(instant \<times> instant) list \<Rightarrow> (instant \<times> instant) list \<Rightarrow>
   uuid \<Rightarrow> uuid \<Rightarrow> string \<Rightarrow> i32 option \<Rightarrow> i32 option \<Rightarrow> i32 option \<Rightarrow> i32 option \<Rightarrow> u32 \<Rightarrow>
   rate_limiter \<Rightarrow> (pasteur_error \<times> u64 option, unit) result \<times> rate_limiter" where
  "check_and_consume ns1 ns2 api_key_id org_id model rpm_limit_key tpm_limit_key rpm_limit_org
     tpm_limit_org estimated_tokens rl =
     (let cs = limit_checks api_key_id org_id model rpm_limit_key tpm_limit_key rpm_limit_org
                 tpm_limit_org estimated_tokens
      in case check_pass ns1 cs None rl of (slowest, rl) \<Rightarrow>
           (case slowest of
              Some retry_after \<Rightarrow> (Err (PE_RateLimited, Some retry_after), rl)
            | None \<Rightarrow> (Ok (), commit_pass ns2 cs rl)))"

section \<open>The login limiter\<close>

record login_limiter =
  ll_capacity :: u32
  ll_buckets :: "string \<rightharpoonup> token_bucket"

definition ll_new :: "u32 \<Rightarrow> login_limiter" where
  "ll_new capacity =
     \<lparr>ll_capacity = (if 0 < capacity then capacity else 0), ll_buckets = Map.empty\<rparr>"

definition ll_entry :: "instant \<Rightarrow> string \<Rightarrow> login_limiter \<Rightarrow> token_bucket \<times> login_limiter" where
  "ll_entry now ip l =
     (case entry_or_insert ip (tb_new now (ll_capacity l)) (ll_buckets l) of
        (b, m) \<Rightarrow> (b, l\<lparr>ll_buckets := m\<rparr>))"

definition ll_put :: "string \<Rightarrow> token_bucket \<Rightarrow> login_limiter \<Rightarrow> login_limiter" where
  "ll_put ip b l = l\<lparr>ll_buckets := (ll_buckets l)(ip \<mapsto> b)\<rparr>"

definition attempt_allowed ::
  "instant \<Rightarrow> instant \<Rightarrow> string \<Rightarrow> bool \<Rightarrow> login_limiter \<Rightarrow> u64 option \<times> login_limiter" where
  "attempt_allowed now0 now ip debit_on_fail l =
     (if ll_capacity l = 0 then (None, l)
      else case ll_entry now0 ip l of (bucket, l) \<Rightarrow>
        (case deficit_retry_after now 1 bucket of (retry_after, bucket) \<Rightarrow>
           (let bucket = (if retry_after = None \<and> debit_on_fail then tb_debit 1 bucket
                          else bucket)
            in (retry_after, ll_put ip bucket l))))"

interpretation loginreg: keyed_store ll_buckets "ll_entry now" ll_put
    "\<lambda>l. tb_new now (ll_capacity l)" for now
  by unfold_locales
    (auto simp: ll_entry_def ll_put_def entry_or_insert_def split: option.splits)

section \<open>Token estimate\<close>

fun part_len :: "chat_content_part \<Rightarrow> usize" where
  "part_len (CP_Text text) = of_nat (length text)"
| "part_len (CP_ImageUrl image_url) = of_nat (length (iu_url image_url))"

fun content_len :: "chat_content \<Rightarrow> usize" where
  "content_len (CC_Text t) = of_nat (length t)"
| "content_len (CC_Parts parts) = sum_list (map part_len parts)"

definition message_len :: "chat_message \<Rightarrow> usize" where
  "message_len m =
     (case cm_content m of None \<Rightarrow> 0 | Some contents \<Rightarrow> sum_list (map content_len contents)) +
     of_nat (length (cm_role m))"

definition estimate_request_tokens :: "chat_completion_request \<Rightarrow> u32" where
  "estimate_request_tokens req =
     (let total = sum_list (map message_len (cr_messages req)) div 4;
          total = (case cr_max_tokens req of
                     Some max_tokens \<Rightarrow> total + word_of_int (max (sint max_tokens) 0)
                   | None \<Rightarrow> total)
      in ucast (max total 1))"

section \<open>Budgets\<close>

text \<open>\<open>SELECT COALESCE(SUM(cost_usd), 0) FROM request_logs WHERE ...\<close>\<close>

definition logged_cost :: "(request_log \<Rightarrow> bool) \<Rightarrow> request_log list \<Rightarrow> decimal" where
  "logged_cost sel logs = sum_list (List.map_filter lg_cost_usd (filter sel logs))"

definition db_api_error :: "string \<Rightarrow> api_error" where
  "db_api_error e = AE_Core (PE_Database e)"

text \<open>The comparison both checks end with; the two queries of a check may fault.\<close>

definition within_budget :: "decimal option \<Rightarrow> fault \<Rightarrow> decimal \<Rightarrow> (api_error, unit) result" where
  "within_budget limit flt spent =
     (case limit of
        None \<Rightarrow> Ok ()
      | Some max_budget \<Rightarrow>
          (case flt of
             Some e \<Rightarrow> Err (db_api_error e)
           | None \<Rightarrow> if max_budget \<le> spent then Err AE_BudgetExceeded else Ok ()))"

definition check_end_user_budget ::
  "fault \<Rightarrow> fault \<Rightarrow> uuid \<Rightarrow> uuid \<Rightarrow> end_user list \<Rightarrow> request_log list \<Rightarrow>
     (api_error, unit) result" where
  "check_end_user_budget flt1 flt2 user_id oid end_users logs =
     (case flt1 of
        Some e \<Rightarrow> Err (db_api_error e)
      | None \<Rightarrow>
          (case filter (\<lambda>u. eu_user_id u = user_id \<and> eu_organization_id u = oid) end_users of
             [] \<Rightarrow> Ok ()
           | u # _ \<Rightarrow>
               within_budget (eu_max_budget_usd u) flt2
                 (logged_cost (\<lambda>l. lg_user_id l = Some user_id \<and> lg_organization_id l = oid)
                    logs)))"

definition check_team_budget ::
  "fault \<Rightarrow> fault \<Rightarrow> uuid \<Rightarrow> team list \<Rightarrow> request_log list \<Rightarrow> (api_error, unit) result" where
  "check_team_budget flt1 flt2 team_id teams logs =
     (case flt1 of
        Some e \<Rightarrow> Err (db_api_error e)
      | None \<Rightarrow>
          (case filter (\<lambda>t. tm_id t = team_id) teams of
             [] \<Rightarrow> Ok ()
           | t # _ \<Rightarrow>
               within_budget (tm_max_budget_usd t) flt2
                 (logged_cost (\<lambda>l. lg_team_id l = Some team_id) logs)))"

section \<open>Bucket invariant\<close>

text \<open>A 32-bit count is exact as a double.\<close>

lemma uint_u32_small: "\<bar>uint (c :: u32)\<bar> < 2 ^ 53"
  using uint_lt2p [of c] by simp

lemma cap_f64_int: "cap_f64 c = of_int (uint c)"
proof -
  have "cap_f64 c = f64_round (of_int (uint c))" by (simp add: cap_f64_def f_of_nat_def)
  then show ?thesis by (simp only: ieee.rnd_int [OF uint_u32_small])
qed

lemma cap_f64_nonneg: "0 \<le> cap_f64 c"
  unfolding cap_f64_int by (metis of_int_0_le_iff uint_ge_0)

lemma cap_f64_le: "cap_f64 a \<le> cap_f64 b \<longleftrightarrow> a \<le> b"
  unfolding cap_f64_int by (simp only: of_int_le_iff word_le_def)

lemma cap_f64_0: "cap_f64 0 = 0"
  by (simp add: cap_f64_int)

lemma cap_f64_pos: "c \<noteq> 0 \<Longrightarrow> 0 < cap_f64 c"
  using cap_f64_le [of c 0] by (simp add: cap_f64_0 not_le [symmetric])

text \<open>
  A bucket never holds a negative number of tokens nor more than its capacity, and what it
  holds is a double.
\<close>

definition tb_ok :: "token_bucket \<Rightarrow> bool" where
  "tb_ok b \<longleftrightarrow> 0 \<le> tb_tokens b \<and> tb_tokens b \<le> cap_f64 (tb_capacity b) \<and>
     f64_round (tb_tokens b) = tb_tokens b"

lemma cap_f64_round [simp]: "f64_round (cap_f64 c) = cap_f64 c"
  unfolding cap_f64_int by (rule ieee.rnd_int [OF uint_u32_small])

lemma as_secs_f64_nonneg: "0 \<le> as_secs_f64 d"
  by (auto simp: as_secs_f64_def f_add_def f_div_def f_of_nat_def
      intro!: ieee.rnd_nonneg add_nonneg_nonneg divide_nonneg_nonneg)

lemma tb_ok_new [godwit_inv]: "tb_ok (tb_new now c)"
  by (simp add: tb_ok_def tb_new_def cap_f64_nonneg)

lemma tb_refill_capacity [simp]: "tb_capacity (tb_refill now b) = tb_capacity b"
  by (simp add: tb_refill_def Let_def)

lemma tb_ok_refill [godwit_inv]: "tb_ok b \<Longrightarrow> tb_ok (tb_refill now b)"
  using as_secs_f64_nonneg
  by (auto simp: tb_ok_def tb_refill_def Let_def f_add_def f_mul_def f_div_def cap_f64_nonneg
      min_def ieee.rnd_idem
      intro!: ieee.rnd_nonneg add_nonneg_nonneg mult_nonneg_nonneg divide_nonneg_nonneg)

lemma tb_ok_sync [godwit_inv]: "tb_ok b \<Longrightarrow> tb_ok (sync_capacity c b)"
  by (auto simp: tb_ok_def sync_capacity_def cap_f64_nonneg min_def)

lemma deficit_retry_after_bucket: "snd (deficit_retry_after now amount b) = tb_refill now b"
  by (simp add: deficit_retry_after_def Let_def)

lemma bucket_rate_pos: "tb_capacity b \<noteq> 0 \<Longrightarrow> 0 < f_div (cap_f64 (tb_capacity b)) 60"
  by (simp add: f_div_def ieee.rnd_pos cap_f64_pos)

lemma deficit_retry_after_None_iff:
  "fst (deficit_retry_after now amount b) = None \<longleftrightarrow>
     tb_capacity b = 0 \<or> cap_f64 amount \<le> tb_tokens (tb_refill now b)"
proof (cases "tb_capacity b = 0")
  case False
  then have "\<not> f_div (cap_f64 (tb_capacity b)) 60 \<le> 0" using bucket_rate_pos by (simp add: not_le)
  with False show ?thesis
    by (simp add: deficit_retry_after_def Let_def f_sub_def ieee.rnd_nonpos_iff)
qed (simp add: deficit_retry_after_def Let_def)

lemma tb_ok_debit [godwit_inv]:
  assumes "tb_ok b" "cap_f64 amount \<le> tb_tokens b"
  shows "tb_ok (tb_debit amount b)"
proof -
  have "tb_tokens b - cap_f64 amount \<le> of_int (uint (tb_capacity b))"
    using assms(1) cap_f64_nonneg [of amount] by (simp add: tb_ok_def cap_f64_int)
  then have "f_sub (tb_tokens b) (cap_f64 amount) \<le> cap_f64 (tb_capacity b)"
    unfolding f_sub_def cap_f64_int [of "tb_capacity b"]
    by (intro ieee.rnd_le_int uint_u32_small)
  moreover have "0 \<le> f_sub (tb_tokens b) (cap_f64 amount)"
    using assms by (simp add: f_sub_def ieee.rnd_nonneg)
  moreover have "f64_round (f_sub (tb_tokens b) (cap_f64 amount)) = f_sub (tb_tokens b) (cap_f64 amount)"
    by (simp add: f_sub_def ieee.rnd_idem)
  ultimately show ?thesis by (simp add: tb_ok_def tb_debit_def)
qed

lemma tb_capacity_0_tokens: "tb_ok b \<Longrightarrow> tb_capacity b = 0 \<Longrightarrow> tb_tokens b = 0"
  by (simp add: tb_ok_def cap_f64_0)

section \<open>Limiter invariant\<close>

definition bm_ok :: "('k \<rightharpoonup> token_bucket) \<Rightarrow> bool" where
  "bm_ok m \<longleftrightarrow> (\<forall>b \<in> ran m. tb_ok b)"

definition rl_ok :: "rate_limiter \<Rightarrow> bool" where
  "rl_ok rl \<longleftrightarrow> bm_ok (rl_rpm_buckets rl) \<and> bm_ok (rl_tpm_buckets rl)"

lemma bm_okD: "bm_ok m \<Longrightarrow> m k = Some b \<Longrightarrow> tb_ok b"
  by (auto simp: bm_ok_def ran_def)

lemma bm_ok_upd: "bm_ok m \<Longrightarrow> tb_ok b \<Longrightarrow> bm_ok (m(k \<mapsto> b))"
  by (auto simp: bm_ok_def ran_def)

lemma bm_ok_entry:
  assumes "bm_ok m" "tb_ok d" "entry_or_insert k d m = (b, m')"
  shows "tb_ok b \<and> bm_ok m'"
  using assms by (auto simp: entry_or_insert_def bm_okD bm_ok_upd split: option.splits)

lemma positive_limit_pos: "positive_limit l = Some c \<Longrightarrow> c \<noteq> 0"
  by (auto simp: positive_limit_def split: option.splits if_splits)

lemma sync_capacity_capacity [simp]: "tb_capacity (sync_capacity c b) = c"
  by (simp add: sync_capacity_def)

lemma check_bucket_ok [godwit_inv]:
  assumes "bm_ok m"
  shows "bm_ok (snd (check_bucket n0 n1 m key limit amount debit))"
proof (cases "positive_limit limit")
  case (Some c)
  obtain b m' where e: "entry_or_insert key (tb_new n0 c) m = (b, m')" by fastforce
  have bm: "tb_ok b" "bm_ok m'" using bm_ok_entry [OF assms tb_ok_new e] by auto
  obtain r b' where d: "deficit_retry_after n1 amount (sync_capacity c b) = (r, b')" by fastforce
  have b': "b' = tb_refill n1 (sync_capacity c b)"
    using deficit_retry_after_bucket [of n1 amount "sync_capacity c b"] d by simp
  have ok: "tb_ok b'" unfolding b' using bm(1) by (intro tb_ok_refill tb_ok_sync)
  have "r = None \<Longrightarrow> cap_f64 amount \<le> tb_tokens b'"
    using deficit_retry_after_None_iff [of n1 amount "sync_capacity c b"] d b'
      positive_limit_pos [OF Some] by simp
  then show ?thesis
    using Some e d ok bm(2) tb_ok_debit [OF ok] by (auto simp: check_bucket_def Let_def bm_ok_upd)
qed (use assms in \<open>simp add: check_bucket_def\<close>)

lemma put_buckets_ok: "rl_ok rl \<Longrightarrow> bm_ok m \<Longrightarrow> rl_ok (put_buckets kind m rl)"
  by (cases kind) (auto simp: rl_ok_def)

lemma get_buckets_ok: "rl_ok rl \<Longrightarrow> bm_ok (get_buckets kind rl)"
  by (cases kind) (auto simp: rl_ok_def)

lemma check_pass_ok: "rl_ok rl \<Longrightarrow> rl_ok (snd (check_pass ns cs w rl))"
proof (induction ns cs w rl rule: check_pass.induct)
  case (1 n0 n1 ns kind key limit amount cs w rl)
  obtain r m where c: "check_bucket n0 n1 (get_buckets kind rl) key limit amount False = (r, m)"
    by fastforce
  then have "bm_ok m" using check_bucket_ok [OF get_buckets_ok [OF "1.prems"]] by (metis snd_conv)
  then have "rl_ok (put_buckets kind m rl)" by (rule put_buckets_ok [OF "1.prems"])
  then show ?case using "1.IH" [OF c [symmetric]] by (simp add: c)
qed auto

lemma commit_pass_ok: "rl_ok rl \<Longrightarrow> rl_ok (commit_pass ns cs rl)"
proof (induction ns cs rl rule: commit_pass.induct)
  case (1 n0 n1 ns kind key limit amount cs rl)
  then show ?case by (simp add: put_buckets_ok check_bucket_ok get_buckets_ok)
qed auto

lemma check_and_consume_ok:
  "rl_ok rl \<Longrightarrow>
     rl_ok (snd (check_and_consume ns1 ns2 key org model rk tk ro to est rl))"
  using check_pass_ok [of rl ns1 "limit_checks key org model rk tk ro to est" None]
  by (auto simp: check_and_consume_def Let_def commit_pass_ok split: prod.splits option.splits)

lemma rl_ok_new: "rl_ok rl_new"
  by (simp add: rl_ok_def rl_new_def bm_ok_def)

section \<open>Buckets that are checked but not debited\<close>

text \<open>What a bucket goes through without a debit: limit changes and refills.\<close>

inductive tb_idle :: "token_bucket \<Rightarrow> token_bucket \<Rightarrow> bool" where
  idle_refl: "tb_idle b b"
| idle_sync: "tb_idle b b' \<Longrightarrow> tb_idle b (sync_capacity c b')"
| idle_refill: "tb_idle b b' \<Longrightarrow> tb_idle b (tb_refill now b')"

lemma tb_idle_trans: "tb_idle b c \<Longrightarrow> tb_idle a b \<Longrightarrow> tb_idle a c"
  by (induction rule: tb_idle.induct) (auto intro: tb_idle.intros)

definition bm_idle :: "bucket_map \<Rightarrow> bucket_map \<Rightarrow> bool" where
  "bm_idle m m' \<longleftrightarrow> (\<forall>k b. m k = Some b \<longrightarrow> (\<exists>b'. m' k = Some b' \<and> tb_idle b b'))"

lemma bm_idle_refl: "bm_idle m m"
  by (auto simp: bm_idle_def intro: idle_refl)

lemma bm_idle_trans: "bm_idle m m' \<Longrightarrow> bm_idle m' m'' \<Longrightarrow> bm_idle m m''"
  unfolding bm_idle_def by (meson tb_idle_trans)

lemma check_bucket_idle: "bm_idle m (snd (check_bucket n0 n1 m key limit amount False))"
  using deficit_retry_after_bucket [of n1 amount]
  by (auto simp: check_bucket_def bm_idle_def entry_or_insert_def Let_def
      intro!: tb_idle.intros split: option.splits prod.splits) (metis idle_refill idle_sync
      idle_refl snd_conv)

lemma check_pass_idle: "bm_idle (get_buckets kd rl) (get_buckets kd (snd (check_pass ns cs w rl)))"
proof (induction ns cs w rl rule: check_pass.induct)
  case (1 n0 n1 ns kind key limit amount cs w rl)
  obtain r m where c: "check_bucket n0 n1 (get_buckets kind rl) key limit amount False = (r, m)"
    by fastforce
  have "bm_idle (get_buckets kind rl) m"
    using check_bucket_idle [of "get_buckets kind rl" n0 n1 key limit amount] c by simp
  then have "bm_idle (get_buckets kd rl) (get_buckets kd (put_buckets kind m rl))"
    by (cases kd; cases kind) (auto intro: bm_idle_refl)
  with "1.IH" [OF c [symmetric]] show ?case by (simp add: c) (blast intro: bm_idle_trans)
qed (auto intro: bm_idle_refl)

section \<open>Requests at one instant\<close>

lemma as_secs_f64_0: "as_secs_f64 0 = 0"
  by (simp add: as_secs_f64_def f_add_def f_div_def f_of_nat_def)

lemma tb_refill_same:
  "tb_ok b \<Longrightarrow> tb_last_refill b = now \<Longrightarrow> tb_refill now b = b"
  by (auto simp: tb_refill_def tb_ok_def Let_def elapsed_since_def as_secs_f64_0 f_mul_def f_add_def
      min_def)

definition bucket_or_new :: "instant \<Rightarrow> u32 \<Rightarrow> token_bucket option \<Rightarrow> token_bucket" where
  "bucket_or_new now c ob = unwrap_or (tb_new now c) ob"

lemma check_bucket_now:
  fixes buckets :: bucket_map
  assumes "0 < sint l" "b = bucket_or_new now l (buckets key)"
    "tb_ok b" "tb_last_refill b = now" "tb_capacity b = l"
  shows "\<exists>w. check_bucket now now buckets key (Some l) amount debit =
    (if cap_f64 amount \<le> tb_tokens b
     then (None, buckets(key \<mapsto> (if debit then tb_debit amount b else b)))
     else (Some w, buckets(key \<mapsto> b)))"
proof -
  have e: "\<exists>m. entry_or_insert key (tb_new now l) buckets = (b, m) \<and>
      (\<forall>v. m(key \<mapsto> v) = buckets(key \<mapsto> v))"
    using assms(2) by (auto simp: entry_or_insert_def bucket_or_new_def split: option.splits)
  have "sync_capacity l b = b" using assms(5) by (simp add: sync_capacity_def)
  moreover obtain r where d: "deficit_retry_after now amount b = (r, b)"
    using deficit_retry_after_bucket [of now amount b] tb_refill_same [OF assms(3,4)]
    by (metis prod.collapse)
  moreover have "r = None \<longleftrightarrow> cap_f64 amount \<le> tb_tokens b"
    using deficit_retry_after_None_iff [of now amount b] d tb_refill_same [OF assms(3,4)]
      assms(1,5) by auto
  ultimately show ?thesis
    using e assms(1) by (cases r) (auto simp: check_bucket_def positive_limit_def Let_def)
qed

definition at_instant :: "instant \<Rightarrow> (instant \<times> instant) list" where
  "at_instant now = replicate 4 (now, now)"

text \<open>
  \<open>n\<close> requests of one key at one instant, with a requests-per-minute limit on the key and
  no other limit: the verdicts.
\<close>

fun rpm_burst ::
  "nat \<Rightarrow> instant \<Rightarrow> uuid \<Rightarrow> uuid \<Rightarrow> string \<Rightarrow> i32 \<Rightarrow> u32 \<Rightarrow> rate_limiter \<Rightarrow> bool list" where
  "rpm_burst 0 now key org model l est rl = []"
| "rpm_burst (Suc n) now key org model l est rl =
     (case check_and_consume (at_instant now) (at_instant now) key org model (Some l) None None None
             est rl of
        (r, rl') \<Rightarrow> is_ok r # rpm_burst n now key org model l est rl')"

lemma check_bucket_None [simp]: "check_bucket n0 n1 m key None amount debit = (None, m)"
  by (simp add: check_bucket_def positive_limit_def)

lemma put_get_buckets [simp]: "put_buckets kind (get_buckets kind rl) rl = rl"
  by (cases kind) simp_all

lemma check_and_consume_rpm_now:
  assumes "0 < sint l" "b = bucket_or_new now l (rl_rpm_buckets rl (key, model))"
    "tb_ok b" "tb_last_refill b = now" "tb_capacity b = l"
  shows "\<exists>r rl'. check_and_consume (at_instant now) (at_instant now) key org model (Some l)
        None None None est rl = (r, rl') \<and>
      (is_ok r \<longleftrightarrow> 1 \<le> tb_tokens b) \<and>
      rl_rpm_buckets rl' (key, model) = Some (if 1 \<le> tb_tokens b then tb_debit 1 b else b)"
proof -
  have one: "cap_f64 1 = 1" by (simp add: cap_f64_int)
  obtain w where w: "check_bucket now now (rl_rpm_buckets rl) (key, model) (Some l) 1 False =
    (if 1 \<le> tb_tokens b then (None, (rl_rpm_buckets rl)((key, model) \<mapsto> b))
     else (Some w, (rl_rpm_buckets rl)((key, model) \<mapsto> b)))"
    using check_bucket_now [where buckets = "rl_rpm_buckets rl" and debit = False and amount = 1,
        OF assms] unfolding one if_False by blast
  let ?m = "(rl_rpm_buckets rl)((key, model) \<mapsto> b)"
  have b2: "b = bucket_or_new now l (?m (key, model))" by (simp add: bucket_or_new_def)
  obtain w' where "check_bucket now now ?m (key, model) (Some l) 1 True =
    (if 1 \<le> tb_tokens b then (None, ?m((key, model) \<mapsto> tb_debit 1 b))
     else (Some w', ?m((key, model) \<mapsto> b)))"
    using check_bucket_now [where buckets = ?m and debit = True and amount = 1,
        OF assms(1) b2 assms(3-5)] unfolding one if_True by blast
  with w show ?thesis
    by (auto simp: check_and_consume_def limit_checks_def at_instant_def numeral_eq_Suc Let_def)
qed

lemma rpm_burst_count:
  assumes "0 < sint l" "b = bucket_or_new now l (rl_rpm_buckets rl (key, model))"
    "tb_ok b" "tb_last_refill b = now" "tb_capacity b = l" "tb_tokens b = of_nat t"
  shows "count_list (rpm_burst n now key org model l est rl) True = min n t"
  using assms(2-)
proof (induction n arbitrary: rl b t)
  case (Suc n)
  obtain r rl' where s: "check_and_consume (at_instant now) (at_instant now) key org model (Some l)
      None None None est rl = (r, rl')" "is_ok r \<longleftrightarrow> 1 \<le> tb_tokens b"
      "rl_rpm_buckets rl' (key, model) = Some (if 1 \<le> tb_tokens b then tb_debit 1 b else b)"
    using check_and_consume_rpm_now [OF assms(1) Suc.prems(1-4)] by blast
  show ?case
  proof (cases t)
    case 0
    then have "bucket_or_new now l (rl_rpm_buckets rl' (key, model)) = b" "\<not> is_ok r"
      using s Suc.prems(5) by (simp_all add: bucket_or_new_def)
    then show ?thesis using Suc.IH [of b rl' t] Suc.prems s(1) 0 by simp
  next
    case (Suc u)
    have le: "1 \<le> tb_tokens b" using Suc Suc.prems(5) by simp
    have small: "u < 2 ^ 53"
    proof -
      have "(of_nat t :: rat) \<le> of_int (uint l)"
        using Suc.prems(2,4,5) by (simp add: tb_ok_def cap_f64_int)
      then have "int t \<le> uint l" by (metis of_int_le_iff of_int_of_nat_eq)
      then show ?thesis using uint_u32_small [of l] Suc by simp
    qed
    have tok: "tb_tokens (tb_debit 1 b) = of_nat u"
      using Suc Suc.prems(5) ieee.rnd_nat [OF small]
      by (simp add: tb_debit_def f_sub_def cap_f64_int)
    have ok: "tb_ok (tb_debit 1 b)"
      using Suc.prems(2) le by (intro tb_ok_debit) (simp_all add: cap_f64_int)
    have "bucket_or_new now l (rl_rpm_buckets rl' (key, model)) = tb_debit 1 b"
      using s(3) le by (simp add: bucket_or_new_def)
    moreover have "tb_last_refill (tb_debit 1 b) = now" "tb_capacity (tb_debit 1 b) = l"
      using Suc.prems(3,4) by (simp_all add: tb_debit_def)
    ultimately show ?thesis
      using Suc.IH [of "tb_debit 1 b" rl' u] tok ok s(1,2) le Suc by simp
  qed
qed simp

section \<open>Concurrent requests\<close>

text \<open>
  The two passes lock one bucket at a time, so other requests run between them. Here \<open>n\<close>
  requests run their first pass before any of them runs its second.
\<close>

fun check_phase_run ::
  "nat \<Rightarrow> instant \<Rightarrow> limit_check list \<Rightarrow> rate_limiter \<Rightarrow> bool list \<times> rate_limiter" where
  "check_phase_run 0 now cs rl = ([], rl)"
| "check_phase_run (Suc n) now cs rl =
     (case check_pass (at_instant now) cs None rl of (w, rl') \<Rightarrow>
        (case check_phase_run n now cs rl' of (vs, rl'') \<Rightarrow> ((w = None) # vs, rl'')))"

lemma check_pass_rpm_now:
  assumes "0 < sint l" "b = bucket_or_new now l (rl_rpm_buckets rl (key, model))"
    "tb_ok b" "tb_last_refill b = now" "tb_capacity b = l" "1 \<le> tb_tokens b"
  shows "check_pass (at_instant now) (limit_checks key org model (Some l) None None None est) None rl
    = (None, rl\<lparr>rl_rpm_buckets := (rl_rpm_buckets rl)((key, model) \<mapsto> b)\<rparr>)"
proof -
  have one: "cap_f64 1 = 1" by (simp add: cap_f64_int)
  have "check_bucket now now (rl_rpm_buckets rl) (key, model) (Some l) 1 False =
      (None, (rl_rpm_buckets rl)((key, model) \<mapsto> b))"
    using check_bucket_now [where buckets = "rl_rpm_buckets rl" and debit = False and amount = 1,
        OF assms(1-5)] assms(6) by (auto simp: one)
  then show ?thesis
    by (simp add: limit_checks_def at_instant_def numeral_eq_Suc)
qed

lemma tb_new_now: "tb_ok (tb_new now l)" "tb_last_refill (tb_new now l) = now"
  "tb_capacity (tb_new now l) = l" "tb_tokens (tb_new now l) = of_nat (unat l)"
  by (rule tb_ok_new) (simp_all add: tb_new_def cap_f64_int)

lemma sint_pos_unat:
  assumes "0 < sint (l :: 32 word)"
  shows "int (unat l) = sint l"
proof -
  have "uint l = take_bit 32 (sint l)" using uint_sint [of l] by simp
  then show ?thesis using assms sint_lt [of l] by (simp add: take_bit_int_eq_self)
qed

lemma check_phase_run_pass:
  assumes "0 < sint l" "b = bucket_or_new now l (rl_rpm_buckets rl (key, model))"
    "tb_ok b" "tb_last_refill b = now" "tb_capacity b = l" "1 \<le> tb_tokens b"
  shows "fst (check_phase_run n now (limit_checks key org model (Some l) None None None est) rl) =
    replicate n True"
  using assms(2)
proof (induction n arbitrary: rl)
  case (Suc n)
  let ?rl = "rl\<lparr>rl_rpm_buckets := (rl_rpm_buckets rl)((key, model) \<mapsto> b)\<rparr>"
  have "fst (check_phase_run n now (limit_checks key org model (Some l) None None None est) ?rl) =
      replicate n True"
    by (rule Suc.IH) (simp add: bucket_or_new_def)
  then show ?case
    by (simp add: check_pass_rpm_now [OF assms(1) Suc.prems assms(3-6)] case_prod_beta)
qed simp

section \<open>Requests that cannot fit\<close>

lemma check_bucket_oversized:
  assumes "bm_ok m" "positive_limit limit = Some c" "c < amount"
  shows "\<exists>w m'. check_bucket n0 n1 m key limit amount debit = (Some w, m')"
proof -
  obtain b m' where e: "entry_or_insert key (tb_new n0 c) m = (b, m')" by fastforce
  obtain r b' where d: "deficit_retry_after n1 amount (sync_capacity c b) = (r, b')" by fastforce
  have "tb_ok (tb_refill n1 (sync_capacity c b))"
    using bm_ok_entry [OF assms(1) tb_ok_new e] by (simp add: tb_ok_refill tb_ok_sync)
  then have "tb_tokens (tb_refill n1 (sync_capacity c b)) < cap_f64 amount"
    using assms(3) cap_f64_le [of amount c] by (auto simp: tb_ok_def)
  then have "r \<noteq> None"
    using deficit_retry_after_None_iff [of n1 amount "sync_capacity c b"] d
      positive_limit_pos [OF assms(2)] by auto
  then show ?thesis using assms(2) e d by (auto simp: check_bucket_def Let_def)
qed

lemma check_pass_Some: "w \<noteq> None \<Longrightarrow> fst (check_pass ns cs w rl) \<noteq> None"
  by (induction ns cs w rl rule: check_pass.induct)
    (auto simp del: not_None_eq split: prod.splits option.splits)

lemma check_pass_oversized:
  assumes "rl_ok rl" "(kind, key, limit, amount) \<in> set cs" "positive_limit limit = Some c"
    "c < amount" "length ns = length cs"
  shows "fst (check_pass ns cs w rl) \<noteq> None"
  using assms(1,2,5)
proof (induction ns cs w rl rule: check_pass.induct)
  case (1 n0 n1 ns k kk li am cs w rl)
  obtain r m where c: "check_bucket n0 n1 (get_buckets k rl) kk li am False = (r, m)" by fastforce
  have ok: "rl_ok (put_buckets k m rl)"
    using put_buckets_ok [OF "1.prems"(1)] check_bucket_ok [OF get_buckets_ok [OF "1.prems"(1)]] c
    by (metis snd_conv)
  show ?case
  proof (cases "(kind, key, limit, amount) = (k, kk, li, am)")
    case True
    then have "r \<noteq> None"
      using check_bucket_oversized [OF get_buckets_ok [OF "1.prems"(1)] assms(3,4)] c
      by (metis Pair_inject option.distinct(1))
    then show ?thesis by (auto simp: c simp del: not_None_eq intro!: check_pass_Some)
  next
    case False
    then have "(kind, key, limit, amount) \<in> set cs" "length ns = length cs"
      using "1.prems" by auto
    with "1.IH" [OF c [symmetric] ok] show ?thesis by (simp add: c)
  qed
qed auto

section \<open>Budget histories\<close>

text \<open>
  Requests of one team one after the other: each is checked, and an admitted one is logged
  with its cost before the next is checked.
\<close>

fun team_run :: "uuid \<Rightarrow> team list \<Rightarrow> request_log list \<Rightarrow> request_log list \<Rightarrow> request_log list" where
  "team_run tid teams logs [] = logs"
| "team_run tid teams logs (r # rs) =
     team_run tid teams
       (if is_ok (check_team_budget None None tid teams logs) then logs @ [r] else logs) rs"

definition team_spent :: "uuid \<Rightarrow> request_log list \<Rightarrow> decimal" where
  "team_spent tid logs = logged_cost (\<lambda>l. lg_team_id l = Some tid) logs"

lemma logged_cost_snoc:
  "logged_cost sel (logs @ [r]) =
     logged_cost sel logs + (if sel r then unwrap_or 0 (lg_cost_usd r) else 0)"
  by (auto simp: logged_cost_def List.map_filter_def split: option.splits)

section \<open>Properties\<close>

text \<open>A request: its clock reads, key, organisation, model, limits and token estimate.\<close>

datatype rl_request = RlRequest "(instant \<times> instant) list" "(instant \<times> instant) list" uuid uuid string
  "i32 option" "i32 option" "i32 option" "i32 option" u32

fun rl_apply :: "rate_limiter \<Rightarrow> rl_request \<Rightarrow> rate_limiter" where
  "rl_apply rl (RlRequest ns1 ns2 key org model rk tk ro to est) =
     snd (check_and_consume ns1 ns2 key org model rk tk ro to est rl)"

text \<open>
  After any history of requests, with any limits (changing ones included) and any clock
  readings, every bucket holds between zero tokens and its capacity.
\<close>

lemma limiter_history_ok: "rl_ok (foldl rl_apply rl_new reqs)"
proof (induction reqs rule: rev_induct)
  case (snoc r reqs)
  then show ?case by (cases r) (simp add: check_and_consume_ok)
qed (simp add: rl_ok_new)



text \<open>
  C3. The burst bound: of \<open>n\<close> requests of one key at one instant on a fresh limiter with a
  requests-per-minute limit \<open>l\<close>, exactly \<open>min n l\<close> are admitted.
\<close>

theorem rpm_burst_bound:
  assumes "0 < sint l"
  shows "int (count_list (rpm_burst n now key org model l est rl_new) True) = min (int n) (sint l)"
proof -
  have "count_list (rpm_burst n now key org model l est rl_new) True = min n (unat l)"
    using assms tb_new_now [of now l]
    by (intro rpm_burst_count [where b = "tb_new now l"])
      (simp_all add: bucket_or_new_def rl_new_def)
  then show ?thesis using sint_pos_unat [OF assms] by (metis of_nat_min)
qed

theorem rpm_burst_bound_witness:
  "int (count_list (rpm_burst 5 0 1 2 ''m'' 3 10 rl_new) True) = 3"
  using rpm_burst_bound [of 3 5 0 1 2 "''m''" 10] by simp

text \<open>
  A request whose token estimate exceeds the tokens-per-minute limit of its key is
  rejected in every reachable state and at every time, and each rejection still reports a
  finite number of seconds to wait.
\<close>

lemma oversized_never_admitted:
  assumes "rl_ok rl" and "0 < sint lt" and "lt < est" and "length ns1 = 4"
  shows "\<exists>w. fst (check_and_consume ns1 ns2 key org model rk (Some lt) ro to est rl) =
    Err (PE_RateLimited, Some w)"
proof -
  have "fst (check_pass ns1 (limit_checks key org model rk (Some lt) ro to est) None rl) \<noteq> None"
    by (rule check_pass_oversized [OF assms(1), where kind = Tpm and key = "(key, model)" and
          limit = "Some lt" and amount = est and c = lt])
      (use assms in \<open>simp_all add: limit_checks_def positive_limit_def\<close>)
  then show ?thesis
    by (auto simp: check_and_consume_def Let_def split: prod.splits option.splits)
qed

theorem oversized_never_admitted_witness:
  "\<exists>w. fst (check_and_consume (at_instant 0) (at_instant 0) 1 2 ''m'' None (Some 5) None None 6 rl_new) =
    Err (PE_RateLimited, Some w)"
  using oversized_never_admitted [OF rl_ok_new, of 5 6 "at_instant 0"]
  by (simp add: at_instant_def)

text \<open>
  The check and the commit are not one atomic step: when \<open>n\<close> requests of a key run their
  check pass before any of them commits, all \<open>n\<close> are admitted, whatever the
  requests-per-minute limit.
\<close>

lemma concurrent_checks_all_pass:
  assumes "0 < sint l"
  shows "fst (check_phase_run n now (limit_checks key org model (Some l) None None None est) rl_new) =
    replicate n True"
proof (rule check_phase_run_pass [OF assms, where b = "tb_new now l"])
  have "1 \<le> int (unat l)" using sint_pos_unat [OF assms] assms by simp
  then have "(of_nat 1 :: rat) \<le> of_nat (unat l)" unfolding of_nat_le_iff by linarith
  then show "1 \<le> tb_tokens (tb_new now l)" by (simp add: tb_new_now(4) del: of_nat_unat)
qed (simp_all add: tb_new_now bucket_or_new_def rl_new_def)

theorem concurrent_checks_all_pass_witness:
  "fst (check_phase_run 3 0 (limit_checks 1 2 ''m'' (Some 1) None None None 10) rl_new) =
    [True, True, True]"
  using concurrent_checks_all_pass [of 1 3 0 1 2 "''m''" 10] by (simp add: numeral_3_eq_3)

text \<open>
  A team's budget bounds its spending when requests are checked and logged one after
  the other: the total never exceeds the larger of what was already spent and the budget
  plus the cost of one request.
\<close>

lemma team_budget_overshoot:
  assumes "filter (\<lambda>t. tm_id t = tid) teams = t # ts" and "tm_max_budget_usd t = Some b"
    and "\<forall>r \<in> set reqs. unwrap_or 0 (lg_cost_usd r) \<le> c" and "0 \<le> c"
  shows "team_spent tid (team_run tid teams logs reqs) \<le> max (team_spent tid logs) (b + c)"
  using assms(3)
proof (induction reqs arbitrary: logs)
  case (Cons r rs)
  let ?logs = "if is_ok (check_team_budget None None tid teams logs) then logs @ [r] else logs"
  have "team_spent tid ?logs \<le> max (team_spent tid logs) (b + c)"
    using assms(1,2,4) Cons.prems
    by (auto simp: check_team_budget_def within_budget_def team_spent_def logged_cost_snoc)
  moreover have "team_spent tid (team_run tid teams ?logs rs) \<le> max (team_spent tid ?logs) (b + c)"
    by (rule Cons.IH) (use Cons.prems in simp)
  ultimately show ?case unfolding team_run.simps by linarith
qed simp

definition sample_team :: team where
  "sample_team = \<lparr>tm_id = 3, tm_organization_id = 1, tm_name = ''t'', tm_budget_usd = None,
     tm_max_budget_usd = Some 10, tm_created_at = 0\<rparr>"

definition sample_log :: "decimal \<Rightarrow> request_log" where
  "sample_log c = \<lparr>lg_id = 0, lg_api_key_id = None, lg_user_id = None, lg_organization_id = 1,
     lg_team_id = Some 3, lg_model = ''m'', lg_provider = ''p'', lg_provider_model_id = ''m'',
     lg_capability = ''chat'', lg_duration_ms = 0, lg_streamed = False, lg_status = ''ok'',
     lg_cost_usd = Some c, lg_tags = [], lg_created_at = 0, lg_tool_calls_count = None,
     lg_agentic_iteration = None\<rparr>"

theorem team_budget_overshoot_witness:
  "team_spent 3 (team_run 3 [sample_team] [] [sample_log 6, sample_log 6, sample_log 6]) \<le> 16"
  using team_budget_overshoot [of 3 "[sample_team]" sample_team "[]" 10
      "[sample_log 6, sample_log 6, sample_log 6]" 6 "[]"]
  by (simp add: sample_team_def sample_log_def team_spent_def logged_cost_def)

end
