(* ===== verification/Credentials.thy ===== *)
theory Credentials
  imports Db_Models
begin

text \<open>
  Provider credentials at rest: \<open>crates/godwit-auth/src/credentials.rs\<close>. Base64 and
  AES-256-GCM are library code and enter as the functions of a \<open>crypto\<close> record; the random
  nonce and the environment are arguments.
\<close>

record crypto =
  b64_encode :: "string \<Rightarrow> string"
  b64_decode :: "string \<Rightarrow> (string, string) result"
  gcm_encrypt :: "string \<Rightarrow> string \<Rightarrow> string \<Rightarrow> string"
  gcm_decrypt :: "string \<Rightarrow> string \<Rightarrow> string \<Rightarrow> string option"
  utf8_error_msg :: "string \<Rightarrow> string"

text \<open>What the code relies on: decoding inverts encoding, decryption inverts encryption.\<close>

definition crypto_laws :: "crypto \<Rightarrow> bool" where
  "crypto_laws c \<longleftrightarrow> (\<forall>s. b64_decode c (b64_encode c s) = Ok s) \<and>
     (\<forall>k n p. gcm_decrypt c k n (gcm_encrypt c k n p) = Some p)"

section \<open>UTF-8\<close>

text \<open>The byte sequences \<open>String::from_utf8\<close> accepts.\<close>

definition utf8_cont :: "char \<Rightarrow> bool" where
  "utf8_cont c \<longleftrightarrow> 0x80 \<le> byte c \<and> byte c \<le> 0xBF"

fun utf8_valid :: "string \<Rightarrow> bool" where
  "utf8_valid [] = True"
| "utf8_valid (a # s) =
     (if byte a < 0x80 then utf8_valid s
      else (case s of
              [] \<Rightarrow> False
            | b # s1 \<Rightarrow>
                if 0xC2 \<le> byte a \<and> byte a \<le> 0xDF then utf8_cont b \<and> utf8_valid s1
                else (case s1 of
                        [] \<Rightarrow> False
                      | c # s2 \<Rightarrow>
                          if 0xE0 \<le> byte a \<and> byte a \<le> 0xEF
                          then utf8_cont b \<and> utf8_cont c \<and>
                               (byte a = 0xE0 \<longrightarrow> 0xA0 \<le> byte b) \<and>
                               (byte a = 0xED \<longrightarrow> byte b \<le> 0x9F) \<and> utf8_valid s2
                          else (case s2 of
                                  [] \<Rightarrow> False
                                | d # s3 \<Rightarrow>
                                    0xF0 \<le> byte a \<and> byte a \<le> 0xF4 \<and> utf8_cont b \<and> utf8_cont c \<and> utf8_cont d \<and>
                                    (byte a = 0xF0 \<longrightarrow> 0x90 \<le> byte b) \<and>
                                    (byte a = 0xF4 \<longrightarrow> byte b \<le> 0x8F) \<and> utf8_valid s3))))"

section \<open>Encryption and decryption\<close>

definition encrypt_api_key :: "crypto \<Rightarrow> string \<Rightarrow> string \<Rightarrow> string \<Rightarrow> encrypted_secret" where
  "encrypt_api_key c master_key nonce plaintext =
     \<lparr>es_ciphertext = b64_encode c (gcm_encrypt c master_key nonce plaintext),
      es_nonce = b64_encode c nonce\<rparr>"

definition decrypt_api_key ::
  "crypto \<Rightarrow> string \<Rightarrow> encrypted_secret \<Rightarrow> (pasteur_error, string) result" where
  "decrypt_api_key c master_key secret =
     bind_result
       (map_err (\<lambda>e. PE_Auth (''invalid credential nonce encoding: '' @ e))
          (b64_decode c (es_nonce secret))) (\<lambda>nonce_bytes.
     bind_result
       (map_err (\<lambda>e. PE_Auth (''invalid credential ciphertext encoding: '' @ e))
          (b64_decode c (es_ciphertext secret))) (\<lambda>ciphertext.
     if length nonce_bytes \<noteq> 12 then Err (PE_Auth ''invalid credential nonce length'')
     else bind_result
       (ok_or (PE_Auth ''failed to decrypt provider credential'')
          (gcm_decrypt c master_key nonce_bytes ciphertext)) (\<lambda>plaintext.
     if utf8_valid plaintext then Ok plaintext
     else Err (PE_Auth (utf8_error_msg c plaintext)))))"

definition load_master_key_from_env ::
  "crypto \<Rightarrow> (string \<rightharpoonup> string) \<Rightarrow> string \<Rightarrow> (pasteur_error, string) result" where
  "load_master_key_from_env c env var =
     bind_result (ok_or (PE_Config (var @ '' is not set'')) (env var)) (\<lambda>encoded.
     bind_result
       (map_err (\<lambda>e. PE_Config (var @ '' is not valid base64: '' @ e)) (b64_decode c encoded))
       (\<lambda>bytes.
     if length bytes = 32 then Ok bytes
     else Err (PE_Config (var @ '' must decode to exactly 32 bytes, got '' @
                 show_nat (length bytes)))))"

section \<open>Properties\<close>

text \<open>
  A provider key stored encrypted is read back as it was, for every UTF-8 key, every
  master key and every 12-byte nonce.
\<close>

lemma credential_roundtrip:
  assumes "crypto_laws c" and "length nonce = 12" and "utf8_valid plaintext"
  shows "decrypt_api_key c master_key (encrypt_api_key c master_key nonce plaintext) = Ok plaintext"
  using assms by (simp add: decrypt_api_key_def encrypt_api_key_def crypto_laws_def)

definition plain_crypto :: crypto where
  "plain_crypto = \<lparr>b64_encode = (\<lambda>s. s), b64_decode = Ok,
     gcm_encrypt = (\<lambda>k n p. rev p), gcm_decrypt = (\<lambda>k n s. Some (rev s)),
     utf8_error_msg = (\<lambda>_. ''invalid utf-8'')\<rparr>"

lemma plain_crypto_laws: "crypto_laws plain_crypto"
  by (simp add: crypto_laws_def plain_crypto_def)

lemma credential_roundtrip_witness:
  "decrypt_api_key plain_crypto ''k'' (encrypt_api_key plain_crypto ''k'' ''abcdefghijkl'' ''sk-1'') =
     Ok ''sk-1''"
  by (rule credential_roundtrip [OF plain_crypto_laws]) (simp_all add: byte_def)

lemma load_master_key_length:
  "load_master_key_from_env c env var = Ok k \<Longrightarrow> length k = 32"
  by (auto simp: load_master_key_from_env_def bind_result_ok_iff split: if_splits)

end
