(* ===== verification/Load_Balancer.thy ===== *)
theory Load_Balancer
  imports F64_Rounding "HOL-Library.Multiset"
begin

text \<open>
  The load balancer of \<open>crates/godwit-api/src/load_balancer.rs\<close>: per-model state (round-robin
  index, requests in flight, latency average), the three selection strategies, and the guard
  that counts a request while it is in flight.
\<close>

section \<open>State of one model\<close>

record lb_state =
  lb_rr_index :: usize
  lb_in_flight :: usize
  lb_latency_ewma :: f64

definition lb_state_new :: lb_state where
  "lb_state_new = \<lparr>lb_rr_index = 0, lb_in_flight = 0, lb_latency_ewma = 0\<rparr>"

definition get_ewma :: "lb_state \<Rightarrow> f64" where
  "get_ewma st = lb_latency_ewma st"

text \<open>
  The stored bits are zero exactly when the average is \<open>+0.0\<close>; the sources only store
  sums of non-negative products, which are never \<open>-0.0\<close>.
\<close>

definition update_ewma :: "f64 \<Rightarrow> lb_state \<Rightarrow> lb_state" where
  "update_ewma duration_ms st =
     (let alpha = f64_round (2 / 10);
          old = lb_latency_ewma st;
          new = (if old = 0 then duration_ms
                 else f_add (f_mul alpha duration_ms) (f_mul (f_sub 1 alpha) old))
      in st\<lparr>lb_latency_ewma := new\<rparr>)"

section \<open>The balancer\<close>

type_synonym load_balancer = "uuid \<rightharpoonup> lb_state"

datatype lb_strategy = RoundRobin | LeastBusy | Latency

definition lb_new :: load_balancer where
  "lb_new = Map.empty"

definition lb_get_state :: "uuid \<Rightarrow> load_balancer \<Rightarrow> lb_state \<times> load_balancer" where
  "lb_get_state model_id lb = entry_or_insert model_id lb_state_new lb"

definition lb_put :: "uuid \<Rightarrow> lb_state \<Rightarrow> load_balancer \<Rightarrow> load_balancer" where
  "lb_put model_id st lb = lb(model_id \<mapsto> st)"

text \<open>The scan of the least-busy branch: position, best index and best count so far.\<close>

fun least_busy_scan ::
  "uuid list \<Rightarrow> nat \<Rightarrow> nat \<Rightarrow> usize \<Rightarrow> load_balancer \<Rightarrow> nat \<times> load_balancer" where
  "least_busy_scan [] i min_idx min_in_flight lb = (min_idx, lb)"
| "least_busy_scan (mid # ids) i min_idx min_in_flight lb =
     (case lb_get_state mid lb of (st, lb) \<Rightarrow>
        (let in_flight = lb_in_flight st
         in if in_flight < min_in_flight then least_busy_scan ids (Suc i) i in_flight lb
            else least_busy_scan ids (Suc i) min_idx min_in_flight lb))"

text \<open>The scan of the latency branch; \<open>None\<close> is the initial \<open>f64::INFINITY\<close>.\<close>

fun latency_scan ::
  "uuid list \<Rightarrow> nat \<Rightarrow> nat \<Rightarrow> f64 option \<Rightarrow> load_balancer \<Rightarrow> nat \<times> load_balancer" where
  "latency_scan [] i min_idx min_ewma lb = (min_idx, lb)"
| "latency_scan (mid # ids) i min_idx min_ewma lb =
     (case lb_get_state mid lb of (st, lb) \<Rightarrow>
        (let ewma = get_ewma st
         in if (case min_ewma of None \<Rightarrow> True | Some m \<Rightarrow> ewma < m)
            then latency_scan ids (Suc i) i (Some ewma) lb
            else latency_scan ids (Suc i) min_idx min_ewma lb))"

definition select_provider ::
  "lb_strategy \<Rightarrow> uuid list \<Rightarrow> load_balancer \<Rightarrow> nat option \<times> load_balancer" where
  "select_provider strategy model_ids lb =
     (case model_ids of
        [] \<Rightarrow> (None, lb)
      | first_id # _ \<Rightarrow>
          (case strategy of
             RoundRobin \<Rightarrow>
               (case lb_get_state first_id lb of (first_state, lb) \<Rightarrow>
                  (let idx = unat (lb_rr_index first_state) mod length model_ids
                   in (Some idx,
                       lb_put first_id
                         (first_state\<lparr>lb_rr_index := lb_rr_index first_state + 1\<rparr>) lb)))
           | LeastBusy \<Rightarrow>
               (case least_busy_scan model_ids 0 0 (- 1) lb of (idx, lb) \<Rightarrow> (Some idx, lb))
           | Latency \<Rightarrow>
               (case latency_scan model_ids 0 0 None lb of (idx, lb) \<Rightarrow> (Some idx, lb))))"

text \<open>The guard remembers whose counter it has to decrement.\<close>

definition increment_in_flight :: "uuid \<Rightarrow> load_balancer \<Rightarrow> uuid \<times> load_balancer" where
  "increment_in_flight model_id lb =
     (case lb_get_state model_id lb of (st, lb) \<Rightarrow>
        (model_id, lb_put model_id (st\<lparr>lb_in_flight := lb_in_flight st + 1\<rparr>) lb))"

definition drop_guard :: "uuid \<Rightarrow> load_balancer \<Rightarrow> load_balancer" where
  "drop_guard guard lb =
     (case lb_get_state guard lb of (st, lb) \<Rightarrow>
        lb_put guard (st\<lparr>lb_in_flight := lb_in_flight st - 1\<rparr>) lb)"

definition lb_record_latency :: "uuid \<Rightarrow> f64 \<Rightarrow> load_balancer \<Rightarrow> load_balancer" where
  "lb_record_latency model_id duration_ms lb =
     (case lb_get_state model_id lb of (st, lb) \<Rightarrow>
        lb_put model_id (update_ewma duration_ms st) lb)"

interpretation lbs: keyed_store "\<lambda>lb. lb" lb_get_state lb_put "\<lambda>_. lb_state_new"
  by unfold_locales (auto simp: lb_get_state_def lb_put_def entry_or_insert_def split: option.splits)

text \<open>What the balancer knows of a model: its entry, or the initial state.\<close>

definition lb_view :: "load_balancer \<Rightarrow> uuid \<Rightarrow> lb_state" where
  "lb_view lb mid = unwrap_or lb_state_new (lb mid)"

lemma lb_get_state_view [simp]: "fst (lb_get_state mid lb) = lb_view lb mid"
  by (simp add: lb_view_def lbs.fetch_value)

lemma lb_view_get_state [simp]: "lb_view (snd (lb_get_state mid lb)) = lb_view lb"
proof
  fix k
  show "lb_view (snd (lb_get_state mid lb)) k = lb_view lb k"
    using lbs.fetch_idem [of k mid lb] by simp
qed

lemma lb_view_put [simp]:
  "lb_view (lb_put mid st lb) k = (if k = mid then st else lb_view lb k)"
  by (simp add: lb_view_def lb_put_def)

lemma lb_get_state_cases: "lb_get_state mid lb = (lb_view lb mid, snd (lb_get_state mid lb))"
  by (simp add: prod_eq_iff)

lemma lb_get_stateD:
  "lb_get_state mid lb = (st, lb') \<Longrightarrow> st = lb_view lb mid \<and> lb_view lb' = lb_view lb"
  using lb_get_state_view [of mid lb] lb_view_get_state [of mid lb] by (metis fst_conv snd_conv)

section \<open>Selection\<close>

text \<open>Both scans look for the first position of a least value.\<close>

fun scan_min :: "'b::linorder list \<Rightarrow> nat \<Rightarrow> nat \<Rightarrow> 'b option \<Rightarrow> nat" where
  "scan_min [] i mi m = mi"
| "scan_min (x # xs) i mi m =
     (if (case m of None \<Rightarrow> True | Some y \<Rightarrow> x < y)
      then scan_min xs (Suc i) i (Some x) else scan_min xs (Suc i) mi m)"

definition first_min :: "'b::linorder list \<Rightarrow> nat \<Rightarrow> bool" where
  "first_min xs r \<longleftrightarrow>
     r < length xs \<and> (\<forall>x \<in> set xs. xs ! r \<le> x) \<and> (\<forall>k < r. xs ! r < xs ! k)"

lemma scan_min_Some:
  "(scan_min xs i mi (Some y) = mi \<and> (\<forall>x \<in> set xs. y \<le> x)) \<or>
   (\<exists>j. scan_min xs i mi (Some y) = i + j \<and> xs ! j < y \<and> first_min xs j)"
proof (induction xs arbitrary: i mi y)
  case Nil
  then show ?case by simp
next
  case (Cons x xs)
  show ?case
  proof (cases "x < y")
    case True
    from Cons [of "Suc i" i x] show ?thesis
    proof (elim disjE exE conjE)
      assume "scan_min xs (Suc i) i (Some x) = i" "\<forall>z \<in> set xs. x \<le> z"
      then have "scan_min (x # xs) i mi (Some y) = i + 0 \<and> (x # xs) ! 0 < y \<and>
          first_min (x # xs) 0"
        using True by (simp add: first_min_def)
      then show ?thesis by blast
    next
      fix j
      assume j: "scan_min xs (Suc i) i (Some x) = Suc i + j" "xs ! j < x" "first_min xs j"
      then have "first_min (x # xs) (Suc j)"
        by (auto simp: first_min_def less_Suc_eq_0_disj)
      then show ?thesis using True j by (intro disjI2 exI [of _ "Suc j"]) auto
    qed
  next
    case False
    from Cons [of "Suc i" mi y] show ?thesis
    proof (elim disjE exE conjE)
      assume "scan_min xs (Suc i) mi (Some y) = mi" "\<forall>z \<in> set xs. y \<le> z"
      then show ?thesis using False by auto
    next
      fix j
      assume j: "scan_min xs (Suc i) mi (Some y) = Suc i + j" "xs ! j < y" "first_min xs j"
      then have "first_min (x # xs) (Suc j)"
        using False by (auto simp: first_min_def less_Suc_eq_0_disj)
      then show ?thesis using False j by (intro disjI2 exI [of _ "Suc j"]) auto
    qed
  qed
qed

lemma scan_min_first: "xs \<noteq> [] \<Longrightarrow> first_min xs (scan_min xs 0 0 None)"
proof (cases xs)
  case (Cons x ys)
  from scan_min_Some [of ys "Suc 0" 0 x] show ?thesis
  proof (elim disjE exE conjE)
    fix j
    assume "scan_min ys (Suc 0) 0 (Some x) = Suc 0 + j" "ys ! j < x" "first_min ys j"
    then show ?thesis using Cons by (auto simp: first_min_def less_Suc_eq_0_disj)
  qed (auto simp: Cons first_min_def)
qed simp

lemma scan_min_top:
  assumes "xs \<noteq> []" "\<forall>x \<in> set xs. x \<le> y"
  shows "first_min xs (scan_min xs 0 0 (Some y))"
  using scan_min_Some [of xs 0 0 y]
proof (elim disjE exE conjE)
  assume "scan_min xs 0 0 (Some y) = 0" "\<forall>x \<in> set xs. y \<le> x"
  then show ?thesis
    using assms by (auto simp: first_min_def intro: order_trans [of _ y])
qed simp

lemma least_busy_scan_eq:
  "fst (least_busy_scan ids i mi mf lb) =
     scan_min (map (\<lambda>mid. lb_in_flight (lb_view lb mid)) ids) i mi (Some mf) \<and>
   lb_view (snd (least_busy_scan ids i mi mf lb)) = lb_view lb"
proof (induction ids arbitrary: i mi mf lb)
  case (Cons mid ids)
  obtain lb' where g: "lb_get_state mid lb = (lb_view lb mid, lb')" and v: "lb_view lb' = lb_view lb"
    using lb_get_state_cases [of mid lb] lb_view_get_state [of mid lb] by metis
  show ?case using Cons [of _ _ _ lb'] by (simp add: g v Let_def)
qed simp

lemma latency_scan_eq:
  "fst (latency_scan ids i mi me lb) =
     scan_min (map (\<lambda>mid. get_ewma (lb_view lb mid)) ids) i mi me \<and>
   lb_view (snd (latency_scan ids i mi me lb)) = lb_view lb"
proof (induction ids arbitrary: i mi me lb)
  case (Cons mid ids)
  obtain lb' where g: "lb_get_state mid lb = (lb_view lb mid, lb')" and v: "lb_view lb' = lb_view lb"
    using lb_get_state_cases [of mid lb] lb_view_get_state [of mid lb] by metis
  show ?case using Cons [of _ _ _ lb'] by (simp add: g v Let_def)
qed simp

section \<open>Requests in flight\<close>

text \<open>
  The life of the guards: a request takes a guard for its model and drops it when it ends.
  The second component is the multiset of guards alive.
\<close>

inductive lb_trace :: "load_balancer \<Rightarrow> uuid multiset \<Rightarrow> bool" where
  start: "lb_trace lb_new {#}"
| acquire: "lb_trace lb gs \<Longrightarrow> increment_in_flight mid lb = (g, lb') \<Longrightarrow>
    lb_trace lb' (add_mset g gs)"
| release: "lb_trace lb (add_mset g gs) \<Longrightarrow> lb_trace (drop_guard g lb) gs"
| select: "lb_trace lb gs \<Longrightarrow> select_provider strategy ids lb = (r, lb') \<Longrightarrow> lb_trace lb' gs"
| latency: "lb_trace lb gs \<Longrightarrow> lb_trace (lb_record_latency mid d lb) gs"

lemma increment_in_flight_view:
  "increment_in_flight mid lb = (g, lb') \<Longrightarrow>
     g = mid \<and> lb_in_flight (lb_view lb' k) =
       lb_in_flight (lb_view lb k) + (if k = mid then 1 else 0)"
  by (auto simp: increment_in_flight_def split: prod.splits dest!: lb_get_stateD)

lemma drop_guard_view:
  "lb_in_flight (lb_view (drop_guard g lb) k) =
     lb_in_flight (lb_view lb k) - (if k = g then 1 else 0)"
  by (auto simp: drop_guard_def split: prod.splits dest!: lb_get_stateD)

lemma record_latency_view:
  "lb_in_flight (lb_view (lb_record_latency mid d lb) k) = lb_in_flight (lb_view lb k)"
  by (auto simp: lb_record_latency_def update_ewma_def Let_def split: prod.splits
      dest!: lb_get_stateD)

lemma select_provider_view:
  assumes "select_provider strategy ids lb = (r, lb')"
  shows "lb_in_flight (lb_view lb' k) = lb_in_flight (lb_view lb k)"
proof (cases strategy)
  case RoundRobin
  with assms show ?thesis
    by (auto simp: select_provider_def Let_def split: list.splits prod.splits dest!: lb_get_stateD)
next
  case LeastBusy
  with assms have "lb' = lb \<or> lb' = snd (least_busy_scan ids 0 0 (- 1) lb)"
    by (cases ids) (auto simp: select_provider_def simp del: least_busy_scan.simps
        split: prod.splits)
  then show ?thesis using least_busy_scan_eq [of ids 0 0 "- 1" lb] by metis
next
  case Latency
  with assms have "lb' = lb \<or> lb' = snd (latency_scan ids 0 0 None lb)"
    by (cases ids) (auto simp: select_provider_def simp del: latency_scan.simps
        split: prod.splits)
  then show ?thesis using latency_scan_eq [of ids 0 0 None lb] by metis
qed

lemma lb_trace_in_flight:
  "lb_trace lb gs \<Longrightarrow> lb_in_flight (lb_view lb k) = of_nat (count gs k)"
proof (induction rule: lb_trace.induct)
  case start
  then show ?case by (simp add: lb_new_def lb_view_def lb_state_new_def)
next
  case (acquire lb gs mid g lb')
  then show ?case using increment_in_flight_view [of mid lb g lb' k] by auto
next
  case (release lb g gs)
  then show ?case by (simp add: drop_guard_view)
next
  case (select lb gs strategy ids r lb')
  then show ?case using select_provider_view [of strategy ids lb r lb' k] by simp
next
  case (latency lb gs mid d)
  then show ?case by (simp add: record_latency_view)
qed

section \<open>Round robin\<close>

fun rr_run :: "nat \<Rightarrow> uuid list \<Rightarrow> load_balancer \<Rightarrow> nat list" where
  "rr_run 0 ids lb = []"
| "rr_run (Suc n) ids lb =
     (case select_provider RoundRobin ids lb of
        (None, lb') \<Rightarrow> []
      | (Some i, lb') \<Rightarrow> i # rr_run n ids lb')"

lemma rr_step:
  assumes "ids \<noteq> []"
  shows "\<exists>lb'. select_provider RoundRobin ids lb =
      (Some (unat (lb_rr_index (lb_view lb (hd ids))) mod length ids), lb') \<and>
    lb_rr_index (lb_view lb' (hd ids)) = lb_rr_index (lb_view lb (hd ids)) + 1"
proof (cases ids)
  case (Cons a as)
  then show ?thesis
    by (auto simp: select_provider_def Let_def split: prod.splits dest!: lb_get_stateD)
qed (use assms in simp)

lemma rr_run_indices:
  assumes "ids \<noteq> []" "unat (lb_rr_index (lb_view lb (hd ids))) + n \<le> 2 ^ 64"
  shows "rr_run n ids lb =
    map (\<lambda>k. (unat (lb_rr_index (lb_view lb (hd ids))) + k) mod length ids) [0..<n]"
  using assms(2)
proof (induction n arbitrary: lb)
  case (Suc n)
  let ?r = "lb_rr_index (lb_view lb (hd ids))"
  obtain lb' where lb': "select_provider RoundRobin ids lb = (Some (unat ?r mod length ids), lb')"
    "lb_rr_index (lb_view lb' (hd ids)) = ?r + 1"
    using rr_step [OF assms(1), of lb] by blast
  show ?case
  proof (cases "n = 0")
    case False
    then have "unat ?r + 1 < 2 ^ 64" using Suc.prems by simp
    then have u: "unat (?r + 1) = unat ?r + 1" by (simp add: unat_word_ariths)
    have "rr_run n ids lb' = map (\<lambda>k. (unat ?r + 1 + k) mod length ids) [0..<n]"
      using Suc.IH [of lb'] Suc.prems lb' u by simp
    then show ?thesis
      using lb' by (simp add: upt_conv_Cons map_Suc_upt [symmetric] del: upt_Suc)
  qed (use lb' in simp)
qed simp

section \<open>Properties\<close>

text \<open>
  Round robin is fair: while the index counter does not wrap, the next \<open>n\<close> selections
  among \<open>n\<close> candidates pick every candidate exactly once.
\<close>

lemma round_robin_fair:
  assumes "ids \<noteq> []" and "unat (lb_rr_index (lb_view lb (hd ids))) + length ids \<le> 2 ^ 64"
  shows "mset (rr_run (length ids) ids lb) = mset [0..<length ids]"
proof -
  let ?s = "unat (lb_rr_index (lb_view lb (hd ids)))" and ?n = "length ids"
  have run: "rr_run ?n ids lb = map (\<lambda>k. (?s + k) mod ?n) [0..<?n]"
    by (rule rr_run_indices [OF assms])
  have inj: "inj_on (\<lambda>k. (?s + k) mod ?n) {0..<?n}"
    by (rule inj_onI) (auto dest: mod_shift_inj)
  have "distinct (rr_run ?n ids lb)" using inj by (simp add: run distinct_map)
  moreover have "set (rr_run ?n ids lb) = {0..<?n}"
  proof (rule card_subset_eq)
    show "set (rr_run ?n ids lb) \<subseteq> {0..<?n}" using assms(1) by (auto simp: run)
    show "card (set (rr_run ?n ids lb)) = card {0..<?n}"
      using inj by (simp add: run card_image)
  qed simp
  ultimately show ?thesis by (intro set_eq_iff_mset_eq_distinct [THEN iffD1]) simp_all
qed

theorem round_robin_fair_witness:
  "mset (rr_run 3 [5, 6, 7] lb_new) = mset [0..<3]"
  using round_robin_fair [of "[5, 6, 7]" lb_new]
  by (simp add: lb_new_def lb_view_def lb_state_new_def numeral_3_eq_3)

text \<open>
  On a non-empty candidate list every strategy selects an index inside the list, so
  indexing the candidates with it cannot panic; on an empty one nothing is selected.
\<close>

lemma select_provider_in_range:
  "fst (select_provider strategy [] lb) = None \<and>
   (\<exists>i < length (c # cs). fst (select_provider strategy (c # cs) lb) = Some i)"
proof (cases strategy)
  case RoundRobin
  then show ?thesis using rr_step [of "c # cs" lb] by (auto simp: select_provider_def)
next
  case LeastBusy
  have "first_min (map (\<lambda>m. lb_in_flight (lb_view lb m)) (c # cs))
      (fst (least_busy_scan (c # cs) 0 0 (- 1) lb))"
    unfolding least_busy_scan_eq [THEN conjunct1] by (rule scan_min_top) (auto intro: max_word_max)
  then show ?thesis using LeastBusy
    by (auto simp: select_provider_def first_min_def simp del: least_busy_scan.simps
        split: prod.splits)
next
  case Latency
  have "first_min (map (\<lambda>m. get_ewma (lb_view lb m)) (c # cs))
      (fst (latency_scan (c # cs) 0 0 None lb))"
    unfolding latency_scan_eq [THEN conjunct1] by (rule scan_min_first) simp
  then show ?thesis using Latency
    by (auto simp: select_provider_def first_min_def simp del: latency_scan.simps
        split: prod.splits)
qed

text \<open>
  The least-busy strategy selects the first candidate with the fewest requests in
  flight, the latency strategy the first one with the lowest average (a model without
  samples counts as zero), and neither changes what the balancer knows of any model.
\<close>

lemma select_provider_minimal:
  assumes "ids \<noteq> []"
  shows "(\<exists>i lb'. select_provider LeastBusy ids lb = (Some i, lb') \<and>
           first_min (map (\<lambda>m. lb_in_flight (lb_view lb m)) ids) i \<and> lb_view lb' = lb_view lb) \<and>
    (\<exists>i lb'. select_provider Latency ids lb = (Some i, lb') \<and>
           first_min (map (\<lambda>m. lb_latency_ewma (lb_view lb m)) ids) i \<and> lb_view lb' = lb_view lb)"
    (is "?busy \<and> ?lat")
proof -
  obtain i lb' where i: "least_busy_scan ids 0 0 (- 1) lb = (i, lb')" by fastforce
  have "first_min (map (\<lambda>m. lb_in_flight (lb_view lb m)) ids) i"
    using scan_min_top [of "map (\<lambda>m. lb_in_flight (lb_view lb m)) ids" "- 1"] assms
      least_busy_scan_eq [of ids 0 0 "- 1" lb] i by (auto intro: max_word_max)
  then have busy: ?busy
    using i assms least_busy_scan_eq [of ids 0 0 "- 1" lb]
    by (cases ids) (auto simp: select_provider_def simp del: least_busy_scan.simps)
  obtain j lb'' where j: "latency_scan ids 0 0 None lb = (j, lb'')" by fastforce
  have "first_min (map (\<lambda>m. lb_latency_ewma (lb_view lb m)) ids) j"
    using scan_min_first [of "map (\<lambda>m. get_ewma (lb_view lb m)) ids"] assms
      latency_scan_eq [of ids 0 0 None lb] j by (simp add: get_ewma_def)
  then have ?lat
    using j assms latency_scan_eq [of ids 0 0 None lb]
    by (cases ids) (auto simp: select_provider_def simp del: latency_scan.simps)
  with busy show ?thesis by blast
qed

theorem select_provider_minimal_witness:
  "\<exists>i lb'. select_provider LeastBusy [5, 6] lb_new = (Some i, lb') \<and>
     first_min (map (\<lambda>m. lb_in_flight (lb_view lb_new m)) [5, 6]) i \<and> lb_view lb' = lb_view lb_new"
  using select_provider_minimal [of "[5, 6]" lb_new] by blast

text \<open>
  After any history of selections, latency reports, acquired and dropped guards, the
  in-flight count of a model is the number of its guards alive (modulo \<open>2 ^ 64\<close>): guards
  neither leak nor double-count.
\<close>

lemma in_flight_counts_guards:
  assumes "lb_trace lb gs"
  shows "lb_in_flight (lb_view lb mid) = of_nat (count gs mid)"
  using assms by (rule lb_trace_in_flight)

theorem in_flight_counts_guards_witness:
  "lb_in_flight (lb_view (snd (increment_in_flight 5 lb_new)) 5) = of_nat (count {#5::uuid#} 5)"
  by (rule in_flight_counts_guards, rule lb_trace.acquire [OF lb_trace.start, where mid = 5])
    (simp add: increment_in_flight_def split: prod.split)

text \<open>
  The latency average never becomes negative when the samples are not, so a model
  without samples (average zero) is never passed over for being slower.
\<close>

lemma ewma_nonneg:
  assumes "0 \<le> lb_latency_ewma st" and "0 \<le> d"
  shows "0 \<le> lb_latency_ewma (update_ewma d st)"
proof -
  have "f64_round (2 / 10) \<le> f64_round (of_int 1)" by (rule ieee.rnd_mono) simp
  then have "f64_round (1 / 5) \<le> 1" using ieee.rnd_int [of 1] by simp
  moreover have "0 \<le> f64_round (1 / 5)" by (rule ieee.rnd_nonneg) simp
  ultimately have "0 \<le> f_mul (f64_round (1 / 5)) d" "0 \<le> f_sub 1 (f64_round (1 / 5))"
    using assms by (auto simp: f_mul_def f_sub_def intro!: ieee.rnd_nonneg)
  then show ?thesis
    using assms by (auto simp: update_ewma_def Let_def f_add_def f_mul_def intro!: ieee.rnd_nonneg
        add_nonneg_nonneg)
qed

end
