(* ===== verification/Model_Router.thy ===== *)
theory Model_Router
  imports Credentials Load_Balancer
begin

text \<open>
  Model resolution: \<open>crates/godwit-api/src/model_router.rs\<close>. A model reference is resolved
  to a model row, its enabled provider profile, decrypted credentials, the adapter of the
  profile's protocol and an in-flight guard. The adapter registry and the derived decoder of
  stored secrets are parameters; the two database queries of a resolution may fault.
\<close>

section \<open>Strategy of a model\<close>

definition lb_strategy_from_config :: "json \<Rightarrow> lb_strategy option" where
  "lb_strategy_from_config config =
     (case json_get ''load_balance'' config of
        None \<Rightarrow> None
      | Some v \<Rightarrow>
          (case as_str v of
             None \<Rightarrow> None
           | Some s \<Rightarrow>
               if s = ''round_robin'' then Some RoundRobin
               else if s = ''least_busy'' then Some LeastBusy
               else if s = ''latency'' then Some Latency
               else None))"

definition strategy_for :: "model list \<Rightarrow> lb_strategy" where
  "strategy_for candidates =
     unwrap_or RoundRobin
       (case candidates of [] \<Rightarrow> None | m # _ \<Rightarrow> lb_strategy_from_config (m_config m))"

definition fallback_chain :: "model \<Rightarrow> string list" where
  "fallback_chain m =
     (case json_get ''fallbacks'' (m_config m) of
        None \<Rightarrow> []
      | Some v \<Rightarrow> (case as_array v of None \<Rightarrow> [] | Some arr \<Rightarrow> List.map_filter as_str arr))"

section \<open>The router\<close>

record 'ad router =
  ro_registry :: "protocol \<Rightarrow> 'ad option"
  ro_master_key :: string
  ro_crypto :: crypto
  ro_de_secret :: "json \<Rightarrow> (string, encrypted_secret) result"

record 'ad resolved_model =
  rm_model :: model
  rm_profile :: provider_profile
  rm_credentials :: resolved_profile
  rm_adapter :: 'ad
  rm_in_flight :: "uuid option"

definition resolve_credentials ::
  "'ad router \<Rightarrow> provider_profile \<Rightarrow> (pasteur_error, resolved_profile) result" where
  "resolve_credentials ro profile =
     bind_result
       (ok_or (PE_Provider (''provider profile '' @ [CHR 0x27] @ pp_name profile @ [CHR 0x27] @
                 '' has no base_url configured'')) (pp_base_url profile)) (\<lambda>base_url.
     if is_null (pp_auth profile) \<or> pp_auth profile = JObject []
     then Ok \<lparr>rp_base_url = base_url, rp_api_key = None\<rparr>
     else bind_result
       (map_err (\<lambda>e. PE_Provider (''malformed stored credentials: '' @ e))
          (ro_de_secret ro (pp_auth profile))) (\<lambda>secret.
     bind_result
       (map_err (\<lambda>e. PE_Provider (''failed to decrypt stored provider credentials: '' @
             pasteur_error_display e))
          (decrypt_api_key (ro_crypto ro) (ro_master_key ro) secret)) (\<lambda>api_key.
     Ok \<lparr>rp_base_url = base_url, rp_api_key = Some api_key\<rparr>)))"

definition ensure_enabled :: "provider_profile \<Rightarrow> (pasteur_error, provider_profile) result" where
  "ensure_enabled profile = (if pp_enabled profile then Ok profile else Err PE_NotFound)"

text \<open>\<open>candidates[idx]\<close>; the index is in range whenever there is a candidate.\<close>

definition select_load_balanced ::
  "model list \<Rightarrow> lb_strategy \<Rightarrow> load_balancer \<Rightarrow> model \<times> load_balancer" where
  "select_load_balanced candidates strategy lb =
     (case select_provider strategy (map m_id candidates) lb of
        (idx, lb) \<Rightarrow> (candidates ! unwrap_or 0 idx, lb))"

definition wildcard_model :: "string \<Rightarrow> string \<Rightarrow> capability \<Rightarrow> provider_profile \<Rightarrow> model" where
  "wildcard_model model_ref suffix cap profile =
     \<lparr>m_id = 0, m_public_id = model_ref, m_provider = pp_protocol profile,
      m_provider_profile_id = pp_id profile, m_provider_model_id = suffix,
      m_capabilities = [capability_as_str cap], m_pricing = JObject [], m_config = JObject [],
      m_created_at = pp_created_at profile\<rparr>"

text \<open>A reference \<open>name/suffix\<close>: the profile is named, the model is looked up in it.\<close>

definition resolve_qualified ::
  "fault \<Rightarrow> fault \<Rightarrow> string \<Rightarrow> string \<Rightarrow> string \<Rightarrow> capability \<Rightarrow> catalog \<Rightarrow>
     (pasteur_error, model \<times> provider_profile) result" where
  "resolve_qualified flt1 flt2 model_ref name suffix cap ct =
     bind_result (bind_result (profiles_get_by_name flt1 name ct) ensure_enabled) (\<lambda>profile.
     case models_get_by_profile_and_public_id flt2 (pp_id profile) suffix ct of
       Inr m \<Rightarrow> Ok (m, profile)
     | Inl e \<Rightarrow>
         if e = PE_NotFound \<and> pp_allow_wildcard profile
         then Ok (wildcard_model model_ref suffix cap profile, profile)
         else Err e)"

text \<open>A bare reference: one of the models with this public id.\<close>

definition resolve_bare ::
  "fault \<Rightarrow> fault \<Rightarrow> string \<Rightarrow> catalog \<Rightarrow> load_balancer \<Rightarrow>
     (pasteur_error, model \<times> provider_profile) result \<times> load_balancer" where
  "resolve_bare flt1 flt2 suffix ct lb =
     (let with_profile = (\<lambda>m.
            bind_result (bind_result (profiles_get flt2 (m_provider_profile_id m) ct)
              ensure_enabled) (\<lambda>profile. Ok (m, profile)))
      in case models_list flt1 ct of
           Inl e \<Rightarrow> (Err e, lb)
         | Inr models \<Rightarrow>
             (case filter (\<lambda>m. m_public_id m = suffix) models of
                [] \<Rightarrow> (Err PE_NotFound, lb)
              | [m] \<Rightarrow> (with_profile m, lb)
              | candidates \<Rightarrow>
                  (case select_load_balanced candidates (strategy_for candidates) lb of
                     (m, lb) \<Rightarrow> (with_profile m, lb))))"

text \<open>
  The second half: capability check, in-flight guard, credentials and adapter. The guard of a
  resolution that fails after taking it is dropped.
\<close>

definition resolve_finish ::
  "'ad router \<Rightarrow> capability \<Rightarrow> model \<Rightarrow> provider_profile \<Rightarrow> load_balancer \<Rightarrow>
     (pasteur_error, 'ad resolved_model) result \<times> load_balancer" where
  "resolve_finish ro cap m profile lb =
     (if \<not> has_capability m cap
      then (Err (PE_Validation (''model '' @ m_public_id m @ '' does not support '' @
              capability_as_str cap)), lb)
      else
        (case (if m_id m = 0 then (None, lb)
               else case increment_in_flight (m_id m) lb of (g, lb) \<Rightarrow> (Some g, lb)) of
           (guard, lb) \<Rightarrow>
             (case bind_result (resolve_credentials ro profile) (\<lambda>creds.
                     bind_result
                       (ok_or (PE_Provider (''unknown protocol: '' @ pp_protocol profile))
                          (ro_registry ro (pp_protocol profile))) (\<lambda>adapter.
                     Ok \<lparr>rm_model = m, rm_profile = profile, rm_credentials = creds,
                         rm_adapter = adapter, rm_in_flight = guard\<rparr>)) of
                Inr r \<Rightarrow> (Ok r, lb)
              | Inl e \<Rightarrow>
                  (Err e, (case guard of None \<Rightarrow> lb | Some g \<Rightarrow> drop_guard g lb)))))"

definition resolve ::
  "'ad router \<Rightarrow> fault \<Rightarrow> fault \<Rightarrow> string \<Rightarrow> capability \<Rightarrow> catalog \<Rightarrow> load_balancer \<Rightarrow>
     (pasteur_error, 'ad resolved_model) result \<times> load_balancer" where
  "resolve ro flt1 flt2 model_ref cap ct lb =
     (case (case split_once (CHR ''/'') model_ref of
              Some (name, rest) \<Rightarrow> (resolve_qualified flt1 flt2 model_ref name rest cap ct, lb)
            | None \<Rightarrow> resolve_bare flt1 flt2 model_ref ct lb) of
        (Inl e, lb) \<Rightarrow> (Err e, lb)
      | (Inr (m, profile), lb) \<Rightarrow> resolve_finish ro cap m profile lb)"

definition router_record_latency :: "uuid \<Rightarrow> i32 \<Rightarrow> load_balancer \<Rightarrow> load_balancer" where
  "router_record_latency model_id duration_ms lb =
     lb_record_latency model_id (f_of_int (sint duration_ms)) lb"

section \<open>What a resolution returns\<close>

text \<open>The routing decision is right for a model and its profile.\<close>

definition routed :: "catalog \<Rightarrow> string \<Rightarrow> capability \<Rightarrow> model \<Rightarrow> provider_profile \<Rightarrow> bool" where
  "routed ct model_ref cap m p \<longleftrightarrow>
     p \<in> set (ct_profiles ct) \<and> pp_enabled p \<and> m_provider_profile_id m = pp_id p \<and>
     (case split_once (CHR ''/'') model_ref of
        None \<Rightarrow> m \<in> set (ct_models ct) \<and> m_public_id m = model_ref
      | Some (name, suffix) \<Rightarrow>
          pp_name p = name \<and>
          ((m \<in> set (ct_models ct) \<and> m_public_id m = suffix) \<or>
           (pp_allow_wildcard p \<and> m = wildcard_model model_ref suffix cap p \<and>
            (\<forall>m' \<in> set (ct_models ct). model_key m' \<noteq> (pp_id p, suffix)))))"

lemma ensure_enabled_Ok: "ensure_enabled p = Ok q \<longleftrightarrow> q = p \<and> pp_enabled p"
  by (auto simp: ensure_enabled_def)

lemma resolve_qualified_routed:
  assumes "resolve_qualified flt1 flt2 model_ref name suffix cap ct = Ok (m, p)"
    and "split_once (CHR ''/'') model_ref = Some (name, suffix)"
  shows "routed ct model_ref cap m p"
proof -
  let ?look = "models_get_by_profile_and_public_id flt2 (pp_id p) suffix ct"
  obtain q where q: "profiles_get_by_name flt1 name ct = Ok q" "pp_enabled q"
    and rest: "(case models_get_by_profile_and_public_id flt2 (pp_id q) suffix ct of
       Inr m \<Rightarrow> Ok (m, q)
     | Inl e \<Rightarrow> if e = PE_NotFound \<and> pp_allow_wildcard q
         then Ok (wildcard_model model_ref suffix cap q, q) else Err e) = Ok (m, p)"
    using assms(1) unfolding resolve_qualified_def bind_result_ok_iff ensure_enabled_Ok by blast
  from rest have "q = p" and m: "?look = Ok m \<or>
      (?look = Err PE_NotFound \<and> pp_allow_wildcard p \<and> m = wildcard_model model_ref suffix cap p)"
    by (auto split: sum.splits if_splits)
  with q have p: "profiles_get_by_name flt1 name ct = Ok p" "pp_enabled p" by simp_all
  have "p \<in> set (ct_profiles ct) \<and> pp_name p = name"
    using p(1) unfolding profiles_get_by_name_def by (rule fetch_one_filter_Ok)
  moreover have "?look = Ok m \<Longrightarrow> m \<in> set (ct_models ct) \<and> m_provider_profile_id m = pp_id p \<and>
      m_public_id m = suffix"
    unfolding models_get_by_profile_and_public_id_def by (drule fetch_one_filter_Ok)
  moreover have "?look = Err PE_NotFound \<Longrightarrow> \<forall>m' \<in> set (ct_models ct). model_key m' \<noteq> (pp_id p, suffix)"
    by (auto simp: models_get_by_profile_and_public_id_def fetch_one_NotFound_iff
        filter_empty_conv model_key_def)
  ultimately show ?thesis using p(2) m assms(2) by (auto simp: routed_def wildcard_model_def)
qed

lemma select_load_balanced_in:
  assumes "select_load_balanced (c # cs) strategy lb = (m, lb')"
  shows "m \<in> set (c # cs) \<and> (\<forall>k. lb_in_flight (lb_view lb' k) = lb_in_flight (lb_view lb k))"
proof -
  obtain idx where sel: "select_provider strategy (map m_id (c # cs)) lb = (idx, lb')"
    and m: "m = (c # cs) ! unwrap_or 0 idx"
    using assms by (auto simp: select_load_balanced_def split: prod.splits)
  obtain i where "i < length (map m_id (c # cs))" "idx = Some i"
    using select_provider_in_range [of strategy lb "m_id c" "map m_id cs"] sel by auto
  then show ?thesis using m select_provider_view [OF sel] by (metis length_map nth_mem unwrap_or.simps(2))
qed

lemma with_profile_Ok:
  assumes "bind_result (bind_result (profiles_get flt pid ct) ensure_enabled)
      (\<lambda>profile. Ok (m, profile)) = Ok (n, p)"
  shows "n = m \<and> p \<in> set (ct_profiles ct) \<and> pp_id p = pid \<and> pp_enabled p"
  using assms unfolding profiles_get_def
  by (auto simp: bind_result_ok_iff ensure_enabled_Ok dest: fetch_one_filter_Ok)

lemma resolve_bare_routed:
  assumes "resolve_bare flt1 flt2 model_ref ct lb = (r, lb')"
    and "split_once (CHR ''/'') model_ref = None"
  shows "(\<forall>k. lb_in_flight (lb_view lb' k) = lb_in_flight (lb_view lb k)) \<and>
    (\<forall>m p. r = Ok (m, p) \<longrightarrow> routed ct model_ref cap m p)"
proof (cases "models_list flt1 ct")
  case (Inr models)
  then have models: "set models = set (ct_models ct)"
    by (auto simp: models_list_def fetch_all_def split: option.splits)
  let ?cs = "filter (\<lambda>m. m_public_id m = model_ref) models"
  have step: "routed ct model_ref cap m p" if "n \<in> set ?cs" and
    "bind_result (bind_result (profiles_get flt2 (m_provider_profile_id n) ct) ensure_enabled)
       (\<lambda>profile. Ok (n, profile)) = Ok (m, p)" for n m p
    using that(1) with_profile_Ok [OF that(2)] models assms(2) by (auto simp: routed_def)
  consider "?cs = []" | n where "?cs = [n]" | a b cs where "?cs = a # b # cs"
    by (metis list.exhaust)
  then show ?thesis
  proof cases
    case 1
    then show ?thesis using assms(1) Inr by (auto simp: resolve_bare_def)
  next
    case (2 n)
    then have "n \<in> set ?cs" by simp
    moreover have "lb' = lb" "r = bind_result (bind_result
        (profiles_get flt2 (m_provider_profile_id n) ct) ensure_enabled) (\<lambda>profile. Ok (n, profile))"
      using assms(1) Inr 2 by (simp_all add: resolve_bare_def)
    ultimately show ?thesis using step by (metis (no_types, lifting))
  next
    case (3 a b cs)
    obtain n where n: "select_load_balanced (a # b # cs) (strategy_for (a # b # cs)) lb = (n, lb')"
      and r: "r = bind_result (bind_result (profiles_get flt2 (m_provider_profile_id n) ct)
        ensure_enabled) (\<lambda>profile. Ok (n, profile))"
      using assms(1) Inr 3 by (auto simp: resolve_bare_def split: prod.splits)
    with select_load_balanced_in [OF n] 3 have "n \<in> set ?cs" by metis
    then show ?thesis using select_load_balanced_in [OF n] r step by (metis (no_types, lifting))
  qed
qed (use assms in \<open>auto simp: resolve_bare_def\<close>)

definition guard_of :: "model \<Rightarrow> uuid option" where
  "guard_of m = (if m_id m = 0 then None else Some (m_id m))"

lemma increment_in_flight_views:
  "increment_in_flight mid lb = (g, lb') \<Longrightarrow> g = mid \<and>
     (\<forall>k. lb_in_flight (lb_view lb' k) = lb_in_flight (lb_view lb k) + (if k = mid then 1 else 0))"
  using increment_in_flight_view by blast

lemma resolve_finish_Ok:
  assumes "resolve_finish ro cap m p lb = (Ok r, lb')"
  shows "has_capability m cap \<and> rm_model r = m \<and> rm_profile r = p \<and>
    resolve_credentials ro p = Ok (rm_credentials r) \<and>
    ro_registry ro (pp_protocol p) = Some (rm_adapter r) \<and> rm_in_flight r = guard_of m \<and>
    (\<forall>k. lb_in_flight (lb_view lb' k) =
       lb_in_flight (lb_view lb k) + (if guard_of m = Some k then 1 else 0))"
  using assms
  by (auto simp: resolve_finish_def guard_of_def bind_result_ok_iff
      split: if_splits prod.splits sum.splits option.splits
      dest!: increment_in_flight_views elim!: ok_or.elims)

lemma resolve_finish_Err:
  assumes "resolve_finish ro cap m p lb = (Err e, lb')"
  shows "lb_in_flight (lb_view lb' k) = lb_in_flight (lb_view lb k)"
  using assms
  by (auto simp: resolve_finish_def drop_guard_view split: if_splits prod.splits sum.splits
      dest!: increment_in_flight_view [where k = k])

lemma resolve_cases:
  assumes "resolve ro flt1 flt2 model_ref cap ct lb = (r, lb')"
  obtains (fail) e where "r = Err e"
      "\<And>k. lb_in_flight (lb_view lb' k) = lb_in_flight (lb_view lb k)"
  | (finish) m p lb1 where "routed ct model_ref cap m p"
      "\<And>k. lb_in_flight (lb_view lb1 k) = lb_in_flight (lb_view lb k)"
      "resolve_finish ro cap m p lb1 = (r, lb')"
proof (cases "split_once (CHR ''/'') model_ref")
  case None
  obtain r1 lb1 where b: "resolve_bare flt1 flt2 model_ref ct lb = (r1, lb1)" by fastforce
  show ?thesis
  proof (cases r1)
    case (Inl e)
    with assms b None resolve_bare_routed [OF b None] fail [of e] show ?thesis
      by (auto simp: resolve_def)
  next
    case (Inr mp)
    with assms b None resolve_bare_routed [OF b None] finish [of "fst mp" "snd mp" lb1]
    show ?thesis by (cases mp) (auto simp: resolve_def)
  qed
next
  case (Some ns)
  obtain name suffix where ns: "ns = (name, suffix)" by fastforce
  show ?thesis
  proof (cases "resolve_qualified flt1 flt2 model_ref name suffix cap ct")
    case (Inl e)
    with assms Some ns fail [of e] show ?thesis by (auto simp: resolve_def)
  next
    case (Inr mp)
    with assms Some ns resolve_qualified_routed finish [of "fst mp" "snd mp" lb] show ?thesis
      by (cases mp) (auto simp: resolve_def)
  qed
qed

section \<open>Properties\<close>

text \<open>
  C6. A resolved model is the right one: it has the requested capability, its profile is an
  enabled row that the model belongs to, it is a row of the catalog under the reference (or,
  only in a profile that allows wildcards and has no such model, the synthesised one), and
  credentials and adapter are those of the profile.
\<close>

theorem resolve_sound:
  assumes "resolve ro flt1 flt2 model_ref cap ct lb = (Ok r, lb')"
  shows "routed ct model_ref cap (rm_model r) (rm_profile r) \<and> has_capability (rm_model r) cap \<and>
    resolve_credentials ro (rm_profile r) = Ok (rm_credentials r) \<and>
    ro_registry ro (pp_protocol (rm_profile r)) = Some (rm_adapter r)"
  using assms
proof (cases rule: resolve_cases)
  case (finish m p lb1)
  then show ?thesis using resolve_finish_Ok [OF finish(3)] by simp
qed simp

text \<open>
  Resolution keeps the in-flight accounts: a successful one counts one request more for
  the returned model (none for a wildcard one), carried by the returned guard, and a failed
  one leaves every count as it was.
\<close>

lemma resolve_in_flight:
  assumes "resolve ro flt1 flt2 model_ref cap ct lb = (r, lb')"
  shows "lb_in_flight (lb_view lb' k) = lb_in_flight (lb_view lb k) +
    (case r of Inl _ \<Rightarrow> 0 | Inr rm \<Rightarrow> if rm_in_flight rm = Some k then 1 else 0)"
  using assms
proof (cases rule: resolve_cases)
  case (finish m p lb1)
  then show ?thesis
    by (cases r) (auto dest: resolve_finish_Ok resolve_finish_Err [where k = k])
qed simp

definition sample_router :: "string router" where
  "sample_router = \<lparr>ro_registry = (\<lambda>p. if p = ''openai'' then Some ''adapter'' else None),
     ro_master_key = [], ro_crypto = plain_crypto, ro_de_secret = (\<lambda>_. Err ''none'')\<rparr>"

theorem resolve_sound_witness:
  "\<exists>r lb'. resolve sample_router None None ''acme/gpt'' Chat sample_catalog lb_new = (Ok r, lb') \<and>
     routed sample_catalog ''acme/gpt'' Chat (rm_model r) (rm_profile r) \<and>
     has_capability (rm_model r) Chat"
proof -
  have "\<exists>r lb'. resolve sample_router None None ''acme/gpt'' Chat sample_catalog lb_new = (Ok r, lb')"
    by (simp add: resolve_def resolve_qualified_def profiles_get_by_name_def fetch_one_def
        sample_catalog_def sample_profile_def ensure_enabled_def
        models_get_by_profile_and_public_id_def wildcard_model_def resolve_finish_def
        has_capability_def resolve_credentials_def sample_router_def)
  then show ?thesis using resolve_sound by metis
qed

definition sample_model :: "uuid \<Rightarrow> uuid \<Rightarrow> model" where
  "sample_model mid pid = \<lparr>m_id = mid, m_public_id = ''gpt'', m_provider = ''openai'',
     m_provider_profile_id = pid, m_provider_model_id = ''gpt-4'', m_capabilities = [''chat''],
     m_pricing = sample_pricing, m_config = JObject [], m_created_at = 0\<rparr>"

definition two_provider_catalog :: catalog where
  "two_provider_catalog = \<lparr>ct_profiles = [sample_profile,
       sample_profile\<lparr>pp_id := 2, pp_name := ''spare'', pp_enabled := False\<rparr>],
     ct_models = [sample_model 7 1, sample_model 8 2], ct_aliases = []\<rparr>"

lemmas router_eval = resolve_def resolve_bare_def models_list_def fetch_all_def fetch_one_def
  select_load_balanced_def strategy_for_def lb_strategy_from_config_def select_provider_def
  lb_get_state_def lb_put_def entry_or_insert_def lb_state_new_def lb_new_def profiles_get_def
  ensure_enabled_def resolve_finish_def has_capability_def resolve_credentials_def
  increment_in_flight_def two_provider_catalog_def sample_model_def sample_profile_def
  sample_router_def

theorem resolve_in_flight_witness:
  "lb_in_flight (lb_view (snd (resolve sample_router None None ''gpt'' Chat two_provider_catalog
     lb_new)) 7) = 1"
proof -
  obtain r lb' where e: "resolve sample_router None None ''gpt'' Chat two_provider_catalog lb_new =
      (r, lb')" by fastforce
  moreover have "(case fst (resolve sample_router None None ''gpt'' Chat two_provider_catalog lb_new)
      of Inl _ \<Rightarrow> False | Inr rm \<Rightarrow> rm_in_flight rm = Some 7)"
    by (simp add: router_eval Let_def)
  ultimately show ?thesis
    using resolve_in_flight [OF e, of 7]
    by (cases r) (simp_all add: lb_new_def lb_view_def lb_state_new_def)
qed

text \<open>
  The balancer chooses before the profile is checked: with two providers of a model, one
  of them disabled, two resolutions in a row give the enabled provider once and fail with
  \<open>NotFound\<close> once, although the enabled provider could serve both.
\<close>

lemma resolve_hits_disabled_provider:
  "\<exists>r lb1 lb2. resolve sample_router None None ''gpt'' Chat two_provider_catalog lb_new = (Ok r, lb1) \<and>
     rm_profile r = sample_profile \<and>
     resolve sample_router None None ''gpt'' Chat two_provider_catalog lb1 = (Err PE_NotFound, lb2)"
  by (simp add: router_eval Let_def)

end
