(* ===== verification/Failover.thy ===== *)
theory Failover
  imports Godwit_Prelude
begin

text \<open>
  Trying targets in order until one succeeds: the abstract loop \<open>failover\<close> and the interface
  of the loops that implement it (the model chain of a chat request, the provider chains of
  the moderation and rerank endpoints). An attempt is a function on an explicit state, so the
  laws say which attempts are made and in which order.
\<close>

section \<open>Trying in order\<close>

text \<open>
  \<open>failover att cont ts i err s\<close>: the outcome of the first target that succeeds, with its
  position counted from \<open>i\<close>; an error that \<open>cont\<close> does not accept ends the search; with no
  target left the last error (\<open>err\<close> before any attempt).
\<close>

fun failover ::
  "('t \<Rightarrow> 's \<Rightarrow> ('e, 'a) result \<times> 's) \<Rightarrow> ('e \<Rightarrow> bool) \<Rightarrow> 't list \<Rightarrow> nat \<Rightarrow> 'e option \<Rightarrow> 's \<Rightarrow>
     ('e option, nat \<times> 't \<times> 'a) result \<times> 's" where
  "failover att cont [] i err s = (Err err, s)"
| "failover att cont (t # ts) i err s =
     (case att t s of
        (Inr v, s') \<Rightarrow> (Ok (i, t, v), s')
      | (Inl e, s') \<Rightarrow>
          if cont e then failover att cont ts (Suc i) (Some e) s' else (Err (Some e), s'))"

text \<open>The targets \<open>ts\<close> fail one after the other, each with an error that lets the search go on.\<close>

fun all_fail ::
  "('t \<Rightarrow> 's \<Rightarrow> ('e, 'a) result \<times> 's) \<Rightarrow> ('e \<Rightarrow> bool) \<Rightarrow> 't list \<Rightarrow> 's \<Rightarrow> ('e list \<times> 's) option" where
  "all_fail att cont [] s = Some ([], s)"
| "all_fail att cont (t # ts) s =
     (case att t s of
        (Inr v, s') \<Rightarrow> None
      | (Inl e, s') \<Rightarrow>
          if cont e
          then map_option (\<lambda>(es, s''). (e # es, s'')) (all_fail att cont ts s')
          else None)"

definition final_error :: "'e option \<Rightarrow> 'e list \<Rightarrow> 'e option" where
  "final_error err es = (if es = [] then err else Some (last es))"

lemma failover_append:
  "all_fail att cont pre s = Some (es, s') \<Longrightarrow>
     failover att cont (pre @ ts) i err s = failover att cont ts (i + length pre) (final_error err es) s'"
proof (induction pre arbitrary: i err s es)
  case (Cons t pre)
  then obtain e s1 es1 where "att t s = (Inl e, s1)" "cont e"
    "all_fail att cont pre s1 = Some (es1, s')" "es = e # es1"
    by (auto split: prod.splits sum.splits if_splits)
  with Cons.IH [of s1 es1 "Suc i" "Some e"] show ?case
    by (simp add: final_error_def)
qed (simp add: final_error_def)

lemma failover_first_success:
  assumes "all_fail att cont pre s = Some (es, s')" "att t s' = (Inr v, s'')"
  shows "failover att cont (pre @ t # post) 0 err s = (Ok (length pre, t, v), s'')"
  using failover_append [OF assms(1), of "t # post" 0 err] assms(2) by simp

lemma failover_stops:
  assumes "all_fail att cont pre s = Some (es, s')" "att t s' = (Inl e, s'')"
    "\<not> cont e \<or> post = []"
  shows "failover att cont (pre @ t # post) 0 err s = (Err (Some e), s'')"
  using failover_append [OF assms(1), of "t # post" 0 err] assms(2,3) by auto

text \<open>Every search ends at one target: the first that succeeds, or one that ends it.\<close>

lemma failover_split:
  assumes "ts \<noteq> []"
  shows "\<exists>pre t post es s' r s''. ts = pre @ t # post \<and> all_fail att cont pre s = Some (es, s') \<and>
    att t s' = (r, s'') \<and> (case r of Inr _ \<Rightarrow> True | Inl e \<Rightarrow> post = [] \<or> \<not> cont e)"
  using assms
proof (induction ts arbitrary: s)
  case (Cons t ts)
  obtain r s1 where a: "att t s = (r, s1)" by fastforce
  show ?case
  proof (cases "ts \<noteq> [] \<and> (\<exists>e. r = Inl e \<and> cont e)")
    case True
    with Cons.IH [of s1] obtain e pre u post es s' r' s'' where "r = Inl e" "cont e"
      "ts = pre @ u # post" "all_fail att cont pre s1 = Some (es, s')" "att u s' = (r', s'')"
      "case r' of Inr _ \<Rightarrow> True | Inl e \<Rightarrow> post = [] \<or> \<not> cont e" by blast
    with a show ?thesis by (intro exI [of _ "t # pre"] exI [of _ u] exI [of _ post] exI) auto
  next
    case False
    with a show ?thesis
      by (intro exI [of _ "[]"] exI [of _ t] exI [of _ ts] exI) (auto split: sum.splits)
  qed
qed simp

lemma failover_Ok:
  "failover att cont ts i err s = (Ok (j, t, v), s') \<Longrightarrow> i \<le> j \<and> j < i + length ts \<and> ts ! (j - i) = t"
proof (induction ts arbitrary: i err s)
  case (Cons u ts)
  then show ?case
    by (auto split: prod.splits sum.splits if_splits dest!: Cons.IH simp: nth_Cons')
qed simp

section \<open>The interface\<close>

text \<open>How a loop reports what \<open>failover\<close> finds; \<open>none\<close> is its error when there is no target.\<close>

definition failover_report ::
  "(nat \<Rightarrow> 't \<Rightarrow> 'a \<Rightarrow> 'r) \<Rightarrow> 'e \<Rightarrow> ('e option, nat \<times> 't \<times> 'a) result \<times> 's \<Rightarrow> ('e, 'r) result \<times> 's" where
  "failover_report out none rs =
     (case rs of
        (Inl err, s) \<Rightarrow> (Err (unwrap_or none err), s)
      | (Inr (i, t, v), s) \<Rightarrow> (Ok (out i t v), s))"

locale failover_loop =
  fixes run :: "'t list \<Rightarrow> 's \<Rightarrow> ('e, 'r) result \<times> 's"
    and att :: "'t \<Rightarrow> 's \<Rightarrow> ('e, 'a) result \<times> 's"
    and cont :: "'e \<Rightarrow> bool"
    and out :: "nat \<Rightarrow> 't \<Rightarrow> 'a \<Rightarrow> 'r"
    and none :: 'e
    and fits :: "'t list \<Rightarrow> bool"
  assumes run_failover: "fits ts \<Longrightarrow> run ts s = failover_report out none (failover att cont ts 0 None s)"
begin

lemma run_Nil: "fits [] \<Longrightarrow> run [] s = (Err none, s)"
  by (simp add: run_failover failover_report_def)

text \<open>
  The loop ends at one target: those before it fail with errors that let it go on, none after
  it is tried, and its outcome is the outcome of the loop.
\<close>

lemma run_exact:
  assumes "fits ts" "ts \<noteq> []"
  shows "\<exists>pre t post es s' r s''. ts = pre @ t # post \<and> all_fail att cont pre s = Some (es, s') \<and>
    att t s' = (r, s'') \<and>
    (case r of Inr v \<Rightarrow> run ts s = (Ok (out (length pre) t v), s'')
     | Inl e \<Rightarrow> run ts s = (Err e, s'') \<and> (post = [] \<or> \<not> cont e))"
proof -
  obtain pre t post es s' r s'' where c: "ts = pre @ t # post"
    "all_fail att cont pre s = Some (es, s')" "att t s' = (r, s'')"
    "case r of Inr _ \<Rightarrow> True | Inl e \<Rightarrow> post = [] \<or> \<not> cont e"
    using failover_split [OF assms(2), of att cont s] by blast
  have "case r of Inr v \<Rightarrow> run ts s = (Ok (out (length pre) t v), s'')
     | Inl e \<Rightarrow> run ts s = (Err e, s'') \<and> (post = [] \<or> \<not> cont e)"
  proof (cases r)
    case (Inl e)
    then have "failover att cont ts 0 None s = (Err (Some e), s'')"
      unfolding c(1) using c(3,4) by (intro failover_stops [OF c(2)]) auto
    then show ?thesis using Inl c(4) by (simp add: run_failover [OF assms(1)] failover_report_def)
  next
    case (Inr v)
    then have "failover att cont ts 0 None s = (Ok (length pre, t, v), s'')"
      unfolding c(1) using c(3) by (intro failover_first_success [OF c(2)]) simp
    then show ?thesis using Inr by (simp add: run_failover [OF assms(1)] failover_report_def)
  qed
  with c(1-3) show ?thesis by blast
qed

end

end
