(* ===== verification/Resilience.thy ===== *)
theory Resilience
  imports Model_Router Failover
begin

text \<open>
  Retries and fallbacks: \<open>crates/godwit-api/src/resilience.rs\<close> (retry of one provider call
  with exponential backoff) and \<open>crates/godwit-api/src/fallback.rs\<close> (the chain of models of a
  chat request). A call to the outside is a function on an explicit state, so that a theorem
  can say which calls were made and in which order. The chain of models implements the
  abstract \<open>failover\<close> of the theory \<open>Failover\<close>.
\<close>

section \<open>Retry\<close>

record retry_policy =
  po_max_retries :: u32
  po_base_delay_ms :: u64
  po_max_delay_ms :: u64
  po_retryable_statuses :: "u16 list"

definition retry_policy_default :: retry_policy where
  "retry_policy_default = \<lparr>po_max_retries = 2, po_base_delay_ms = 500, po_max_delay_ms = 8000,
     po_retryable_statuses = [429, 502, 503, 504]\<rparr>"

fun retryable :: "retry_policy \<Rightarrow> provider_error \<Rightarrow> bool" where
  "retryable policy (PErr_Http status m) =
     (status = 0 \<or> status \<in> set (po_retryable_statuses policy))"
| "retryable policy _ = False"

text \<open>\<open>min(base_delay_ms * 2u64.pow(attempt), max_delay_ms)\<close>, wrapping at 64 bits.\<close>

definition retry_delay :: "retry_policy \<Rightarrow> nat \<Rightarrow> u64" where
  "retry_delay policy attempt = min (po_base_delay_ms policy * 2 ^ attempt) (po_max_delay_ms policy)"

text \<open>
  The loop from \<open>attempt\<close> on, \<open>n\<close> retries being left. The second component of the result is
  the list of delays slept.
\<close>

fun retry_loop ::
  "retry_policy \<Rightarrow> ('s \<Rightarrow> (provider_error, 'a) result \<times> 's) \<Rightarrow> nat \<Rightarrow> nat \<Rightarrow> 's \<Rightarrow>
     (provider_error, 'a) result \<times> u64 list \<times> 's" where
  "retry_loop policy f attempt n s =
     (case f s of
        (Inr v, s') \<Rightarrow> (Ok v, [], s')
      | (Inl e, s') \<Rightarrow>
          (case n of
             0 \<Rightarrow> (Err e, [], s')
           | Suc n' \<Rightarrow>
               if \<not> retryable policy e then (Err e, [], s')
               else (case retry_loop policy f (Suc attempt) n' s' of
                       (r, ds, s'') \<Rightarrow> (r, retry_delay policy attempt # ds, s''))))"

declare retry_loop.simps [simp del]

definition with_retry ::
  "retry_policy \<Rightarrow> ('s \<Rightarrow> (provider_error, 'a) result \<times> 's) \<Rightarrow> 's \<Rightarrow>
     (provider_error, 'a) result \<times> u64 list \<times> 's" where
  "with_retry policy f s = retry_loop policy f 0 (unat (po_max_retries policy)) s"

lemma retry_loop_exact:
  "\<exists>k es s' r s''. k \<le> n \<and>
     all_fail (\<lambda>_. f) (retryable policy) (replicate k ()) s = Some (es, s') \<and> f s' = (r, s'') \<and>
     retry_loop policy f attempt n s = (r, map (retry_delay policy) [attempt..<attempt + k], s'') \<and>
     (case r of Inr _ \<Rightarrow> True | Inl e \<Rightarrow> k = n \<or> \<not> retryable policy e)"
proof (induction n arbitrary: attempt s)
  case 0
  obtain r s' where "f s = (r, s')" by fastforce
  then show ?case by (cases r) (auto simp: retry_loop.simps [of policy f attempt 0 s])
next
  case (Suc n)
  obtain r s1 where f: "f s = (r, s1)" by fastforce
  note step = retry_loop.simps [of policy f attempt "Suc n" s]
  show ?case
  proof (cases "\<exists>e. r = Inl e \<and> retryable policy e")
    case True
    then obtain e where e: "r = Inl e" "retryable policy e" by blast
    from Suc [of s1 "Suc attempt"] obtain k es s' r' s'' where k: "k \<le> n"
      "all_fail (\<lambda>_. f) (retryable policy) (replicate k ()) s1 = Some (es, s')" "f s' = (r', s'')"
      "retry_loop policy f (Suc attempt) n s1 =
         (r', map (retry_delay policy) [Suc attempt..<Suc attempt + k], s'')"
      "case r' of Inr _ \<Rightarrow> True | Inl e \<Rightarrow> k = n \<or> \<not> retryable policy e"
      by blast
    have "all_fail (\<lambda>_. f) (retryable policy) (replicate (Suc k) ()) s = Some (e # es, s')"
      using f e k(2) by simp
    moreover have "retry_loop policy f attempt (Suc n) s =
        (r', map (retry_delay policy) [attempt..<attempt + Suc k], s'')"
      using f e k(4) by (simp add: step upt_conv_Cons del: upt_Suc)
    ultimately show ?thesis using k(1,3,5)
      by (intro exI [of _ "Suc k"] exI [of _ "e # es"] exI [of _ s'] exI [of _ r'] exI [of _ s''])
        (auto simp del: replicate_Suc upt_Suc split: sum.splits)
  next
    case False
    then have "retry_loop policy f attempt (Suc n) s = (r, [], s1)"
      using f by (cases r) (auto simp: step)
    then show ?thesis using f False by (intro exI [of _ 0]) (auto split: sum.splits)
  qed
qed

section \<open>Fallback configuration\<close>

record fallback_config =
  fb_models :: "string list"
  fb_max_attempts :: u32
  fb_timeout_per_attempt :: duration

definition from_model_config :: "json \<Rightarrow> fallback_config option" where
  "from_model_config config =
     (case json_get ''fallbacks'' config of
        None \<Rightarrow> None
      | Some v \<Rightarrow>
          map_option (\<lambda>arr.
            \<lparr>fb_models = List.map_filter as_str arr,
             fb_max_attempts = ucast (unwrap_or 3
               (Option.bind (json_get ''max_fallback_attempts'' config) as_u64)),
             fb_timeout_per_attempt = secs (unat (unwrap_or 30
               (Option.bind (json_get ''timeout_per_attempt_secs'' config) as_u64)))\<rparr>)
            (as_array v))"

definition get_fallback_chain :: "fault \<Rightarrow> catalog \<Rightarrow> string \<Rightarrow> string list" where
  "get_fallback_chain flt ct model_ref =
     (case models_get_by_public_id flt model_ref ct of
        Inl _ \<Rightarrow> [model_ref]
      | Inr m \<Rightarrow>
          (case from_model_config (m_config m) of
             Some config \<Rightarrow> model_ref # fb_models config
           | None \<Rightarrow> [model_ref]))"

fun is_retryable_error :: "provider_error \<Rightarrow> bool" where
  "is_retryable_error (PErr_Http status m) = (500 \<le> status \<or> status = 429)"
| "is_retryable_error (PErr_Provider msg) =
     (str_contains ''timeout'' msg \<or> str_contains ''timed out'' msg)"
| "is_retryable_error _ = False"

section \<open>The fallback chain\<close>

record 'resp fallback_result =
  fr_response :: 'resp
  fr_usage :: usage_report
  fr_model_used :: string
  fr_model_pricing :: json
  fr_attempts_made :: u32
  fr_fallback_triggered :: bool

text \<open>
  One attempt: resolve the reference, call the model. The resolution works on the load
  balancer; \<open>call_chat\<close> acts on the rest of the state. The in-flight guard of the resolution
  is dropped when the attempt is over.
\<close>

definition call_chat_attempt ::
  "'ad router \<Rightarrow> fault \<Rightarrow> fault \<Rightarrow> catalog \<Rightarrow>
   ('ad resolved_model \<Rightarrow> 'q \<Rightarrow> 's \<Rightarrow> (provider_error, 'resp \<times> usage_report option) result \<times> 's) \<Rightarrow>
   'q \<Rightarrow> string \<Rightarrow> load_balancer \<times> 's \<Rightarrow>
     (provider_error, 'resp \<times> usage_report \<times> json) result \<times> load_balancer \<times> 's" where
  "call_chat_attempt ro flt1 flt2 ct call_chat req model_ref st =
     (case st of (lb, s) \<Rightarrow>
        (case resolve ro flt1 flt2 model_ref Chat ct lb of
           (Inl e, lb) \<Rightarrow> (Err (PErr_Provider (pasteur_error_display e)), lb, s)
         | (Inr resolved, lb) \<Rightarrow>
             (case call_chat resolved req s of (r, s) \<Rightarrow>
                (bind_result r (\<lambda>(resp, usage_opt).
                   Ok (resp, unwrap_or usage_report_default usage_opt, m_pricing (rm_model resolved))),
                 (case rm_in_flight resolved of None \<Rightarrow> lb | Some g \<Rightarrow> drop_guard g lb), s))))"

fun fallback_loop ::
  "(string \<Rightarrow> 's \<Rightarrow> (provider_error, 'resp \<times> usage_report \<times> json) result \<times> 's) \<Rightarrow> u32 \<Rightarrow>
   string list \<Rightarrow> nat \<Rightarrow> provider_error option \<Rightarrow> 's \<Rightarrow>
     (provider_error, 'resp fallback_result) result \<times> 's" where
  "fallback_loop attempt chain_len [] attempt_idx last_error s =
     (Err (unwrap_or (PErr_Provider ''All fallback attempts failed'') last_error), s)"
| "fallback_loop attempt chain_len (model_ref # rest) attempt_idx last_error s =
     (let attempts_made = of_nat attempt_idx + 1
      in case attempt model_ref s of
           (Inr (response, usage, pricing), s') \<Rightarrow>
             (Ok \<lparr>fr_response = response, fr_usage = usage, fr_model_used = model_ref,
                  fr_model_pricing = pricing, fr_attempts_made = attempts_made,
                  fr_fallback_triggered = (0 < attempt_idx)\<rparr>, s')
         | (Inl e, s') \<Rightarrow>
             if chain_len \<le> attempts_made \<or> \<not> is_retryable_error e then (Err e, s')
             else fallback_loop attempt chain_len rest (Suc attempt_idx) (Some e) s')"

definition call_chat_with_fallback ::
  "fault \<Rightarrow> catalog \<Rightarrow>
   (string \<Rightarrow> 's \<Rightarrow> (provider_error, 'resp \<times> usage_report \<times> json) result \<times> 's) \<Rightarrow>
   string \<Rightarrow> 's \<Rightarrow> (provider_error, 'resp fallback_result) result \<times> 's" where
  "call_chat_with_fallback flt ct attempt initial_model s =
     (let chain = get_fallback_chain flt ct initial_model
      in fallback_loop attempt (of_nat (length chain)) chain 0 None s)"

text \<open>How the code reports the model that worked.\<close>

definition fallback_report ::
  "nat \<Rightarrow> string \<Rightarrow> 'resp \<times> usage_report \<times> json \<Rightarrow> 'resp fallback_result" where
  "fallback_report i model_ref v =
     (case v of (response, usage, pricing) \<Rightarrow>
        \<lparr>fr_response = response, fr_usage = usage, fr_model_used = model_ref,
         fr_model_pricing = pricing, fr_attempts_made = of_nat i + 1,
         fr_fallback_triggered = (0 < i)\<rparr>)"

abbreviation no_attempt :: provider_error where
  "no_attempt \<equiv> PErr_Provider ''All fallback attempts failed''"

lemma of_nat_Suc_le_u32:
  assumes "n < 2 ^ 32" "i < n"
  shows "(of_nat n :: u32) \<le> of_nat i + 1 \<longleftrightarrow> n = Suc i"
proof -
  have "unat (of_nat n :: u32) = n" "unat (of_nat (Suc i) :: u32) = Suc i"
    using assms by (simp_all add: unat_of_nat del: of_nat_Suc)
  then have "(of_nat n :: u32) \<le> of_nat (Suc i) \<longleftrightarrow> n \<le> Suc i" by (simp add: word_le_nat_alt)
  then show ?thesis using assms(2) by (auto simp: add.commute)
qed

lemma fallback_loop_refines:
  assumes "n < 2 ^ 32" "i + length ts = n"
  shows "fallback_loop attempt (of_nat n) ts i err s =
    failover_report fallback_report no_attempt (failover attempt is_retryable_error ts i err s)"
  using assms(2)
proof (induction ts arbitrary: i err s)
  case (Cons t ts)
  have len: "(of_nat n :: u32) \<le> of_nat i + 1 \<longleftrightarrow> ts = []"
    using of_nat_Suc_le_u32 [OF assms(1), of i] Cons.prems by (cases ts) auto
  show ?case
  proof (cases "attempt t s")
    case (Pair r s')
    then show ?thesis
      using Cons.IH [of "Suc i"] Cons.prems len
      by (cases r; cases ts) (auto simp: failover_report_def fallback_report_def Let_def)
  qed
qed (simp add: failover_report_def)

interpretation chat_chain: failover_loop
    "\<lambda>ts. fallback_loop attempt (of_nat (length ts)) ts 0 None" attempt is_retryable_error
    fallback_report no_attempt "\<lambda>ts. length ts < 2 ^ 32" for attempt
  by unfold_locales (simp add: fallback_loop_refines)

section \<open>Properties\<close>

text \<open>
  C25. A retried call makes \<open>k + 1\<close> attempts for some \<open>k\<close> up to the configured number of
  retries: the first \<open>k\<close> fail with retryable errors, a capped exponential delay is slept
  after each of them, and the outcome of the last attempt is returned, which is a success, a
  non-retryable error, or the error of the last retry.
\<close>

theorem with_retry_exact:
  "\<exists>k es s' r s''. k \<le> unat (po_max_retries policy) \<and>
     all_fail (\<lambda>_. f) (retryable policy) (replicate k ()) s = Some (es, s') \<and> f s' = (r, s'') \<and>
     with_retry policy f s = (r, map (retry_delay policy) [0..<k], s'') \<and>
     (case r of Inr _ \<Rightarrow> True
      | Inl e \<Rightarrow> k = unat (po_max_retries policy) \<or> \<not> retryable policy e)"
  using retry_loop_exact [of "unat (po_max_retries policy)" f policy s 0]
  by (simp add: with_retry_def)

theorem with_retry_exact_witness:
  "with_retry retry_policy_default (\<lambda>n. (Err (PErr_Http 503 []), Suc n)) 0 =
     (Err (PErr_Http 503 []), [500, 1000], 3 :: nat) \<and>
   (\<exists>k es s' r s''. k \<le> unat (po_max_retries retry_policy_default) \<and>
      all_fail (\<lambda>_ n. (Err (PErr_Http 503 []) :: (provider_error, unit) result, Suc n))
        (retryable retry_policy_default) (replicate k ()) 0 = Some (es, s') \<and>
      (Err (PErr_Http 503 []), Suc s') = (r, s'') \<and>
      with_retry retry_policy_default (\<lambda>n. (Err (PErr_Http 503 []), Suc n)) 0 =
        (r :: (provider_error, unit) result, map (retry_delay retry_policy_default) [0..<k], s''))"
proof
  show "with_retry retry_policy_default (\<lambda>n. (Err (PErr_Http 503 []), Suc n)) 0 =
     (Err (PErr_Http 503 []), [500, 1000], 3 :: nat)"
  proof -
    have n: "unat (po_max_retries retry_policy_default) = Suc (Suc 0)"
      by (simp add: retry_policy_default_def)
    have d: "retry_delay retry_policy_default 0 = 500" "retry_delay retry_policy_default (Suc 0) = 1000"
      by (simp_all add: retry_policy_default_def retry_delay_def min_def)
    have r: "retryable retry_policy_default (PErr_Http 503 [])"
      by (simp add: retry_policy_default_def)
    show ?thesis
      unfolding with_retry_def n
      by (simp only: retry_loop.simps [where n = 0] retry_loop.simps [where n = "Suc m" for m]
          prod.case sum.case nat.case r d if_False not_True_eq_False numeral_3_eq_3)
  qed
  show "\<exists>k es s' r s''. k \<le> unat (po_max_retries retry_policy_default) \<and>
      all_fail (\<lambda>_ n. (Err (PErr_Http 503 []) :: (provider_error, unit) result, Suc n))
        (retryable retry_policy_default) (replicate k ()) 0 = Some (es, s') \<and>
      (Err (PErr_Http 503 []), Suc s') = (r, s'') \<and>
      with_retry retry_policy_default (\<lambda>n. (Err (PErr_Http 503 []), Suc n)) 0 =
        (r :: (provider_error, unit) result, map (retry_delay retry_policy_default) [0..<k], s'')"
    using with_retry_exact [of retry_policy_default
        "\<lambda>n. (Err (PErr_Http 503 []) :: (provider_error, unit) result, Suc n)" 0]
    by (elim exE conjE) (intro exI conjI, assumption+)
qed

lemma retry_delay_capped: "retry_delay policy i \<le> po_max_delay_ms policy"
  by (simp add: retry_delay_def)

lemma retry_delays_default:
  "map (retry_delay retry_policy_default) [0, 1, 2, 3, 4, 5] = [500, 1000, 2000, 4000, 8000, 8000]"
  by (simp add: retry_delay_def retry_policy_default_def min_def)



text \<open>
  A provider that cannot be reached (reported as HTTP status 0, which the retry loop
  does treat as retryable) ends the chain at once: no fallback model is called, whatever the
  chain.
\<close>

lemma transport_failure_no_fallback:
  assumes "attempt m s = (Err (PErr_Http 0 msg), s')"
  shows "retryable retry_policy_default (PErr_Http 0 msg) \<and>
    call_chat_with_fallback flt ct attempt m s = (Err (PErr_Http 0 msg), s')"
proof -
  have "\<exists>ms. get_fallback_chain flt ct m = m # ms"
    by (simp add: get_fallback_chain_def split: sum.splits option.splits)
  then obtain ms where "get_fallback_chain flt ct m = m # ms" ..
  then show ?thesis using assms by (simp add: call_chat_with_fallback_def Let_def)
qed

definition fallback_catalog :: catalog where
  "fallback_catalog = \<lparr>ct_profiles = [sample_profile], ct_models =
     [(sample_model 7 1)\<lparr>m_config := JObject [(''fallbacks'', JArray [JString ''spare''])]\<rparr>],
     ct_aliases = []\<rparr>"

theorem transport_failure_no_fallback_witness:
  "get_fallback_chain None fallback_catalog ''gpt'' = [''gpt'', ''spare''] \<and>
   call_chat_with_fallback None fallback_catalog
     (\<lambda>m s. if m = ''gpt'' then (Err (PErr_Http 0 ''refused''), s @ [m])
            else (Ok ((), usage_report_default, JNull), s @ [m])) ''gpt'' [] =
     (Err (PErr_Http 0 ''refused''), [''gpt''])"
proof
  show "get_fallback_chain None fallback_catalog ''gpt'' = [''gpt'', ''spare'']"
    by (simp add: get_fallback_chain_def models_get_by_public_id_def fallback_catalog_def
        sample_model_def fetch_one_def from_model_config_def List.map_filter_def)
  show "call_chat_with_fallback None fallback_catalog
     (\<lambda>m s. if m = ''gpt'' then (Err (PErr_Http 0 ''refused''), s @ [m])
            else (Ok ((), usage_report_default, JNull), s @ [m])) ''gpt'' [] =
     (Err (PErr_Http 0 ''refused''), [''gpt''])"
    using transport_failure_no_fallback [where m = "''gpt''" and s = "[]"
        and msg = "''refused''" and flt = None and ct = fallback_catalog and
        attempt = "\<lambda>m s. if m = ''gpt'' then (Err (PErr_Http 0 ''refused''), s @ [m])
          else (Ok ((), usage_report_default, JNull), s @ [m])" and s' = "[''gpt'']"]
    by simp
qed

end
