(* ===== verification/Provider_Fallback.thy ===== *)
theory Provider_Fallback
  imports Core_Types Failover
begin

text \<open>
  The provider chains of \<open>/v1/moderations\<close> and \<open>/v1/rerank\<close>:
  \<open>crates/godwit-api/src/moderation_fallback.rs\<close>, \<open>rerank_fallback.rs\<close>, \<open>moderation.rs\<close> and
  \<open>rerank.rs\<close>. The two modules have the same code up to constants, which \<open>chain_kind\<close>
  selects. The HTTP exchange with a provider is a parameter: it gets the URL, the bearer
  token and the JSON body, and its outcome is a timeout, a transport error, or a response.
\<close>

section \<open>Configuration\<close>

record chain_provider =
  cv_name :: string
  cv_base_url :: string
  cv_api_key :: "string option"
  cv_model :: string

record chain_config =
  cc_providers :: "chain_provider list"
  cc_timeout :: duration

datatype chain_kind = Moderation | Rerank

fun kind_word :: "chain_kind \<Rightarrow> string" where
  "kind_word Moderation = ''moderation''"
| "kind_word Rerank = ''rerank''"

fun kind_path :: "chain_kind \<Rightarrow> string" where
  "kind_path Moderation = ''/moderations''"
| "kind_path Rerank = ''/rerank''"

definition moderation_config_default :: chain_config where
  "moderation_config_default = \<lparr>cc_providers =
     [\<lparr>cv_name = ''openai'', cv_base_url = ''https://api.openai.com/v1'',
       cv_api_key = None, cv_model = ''text-moderation-latest''\<rparr>,
      \<lparr>cv_name = ''azure'', cv_base_url = ''https://your-resource.openai.azure.com/openai'',
       cv_api_key = None, cv_model = ''text-moderation-latest''\<rparr>,
      \<lparr>cv_name = ''self-hosted'', cv_base_url = ''http://localhost:8000/v1'',
       cv_api_key = None, cv_model = ''moderation-model''\<rparr>],
     cc_timeout = secs 10\<rparr>"

definition rerank_config_default :: chain_config where
  "rerank_config_default = \<lparr>cc_providers =
     [\<lparr>cv_name = ''cohere'', cv_base_url = ''https://api.cohere.ai/v1'',
       cv_api_key = None, cv_model = ''rerank-english-v3.0''\<rparr>,
      \<lparr>cv_name = ''azure'', cv_base_url = ''https://your-resource.openai.azure.com/openai'',
       cv_api_key = None, cv_model = ''rerank-model''\<rparr>,
      \<lparr>cv_name = ''self-hosted'', cv_base_url = ''http://localhost:8000/v1'',
       cv_api_key = None, cv_model = ''rerank-model''\<rparr>],
     cc_timeout = secs 15\<rparr>"

fun config_default :: "chain_kind \<Rightarrow> chain_config" where
  "config_default Moderation = moderation_config_default"
| "config_default Rerank = rerank_config_default"

definition provider_from_value :: "json \<Rightarrow> chain_provider option" where
  "provider_from_value v =
     (case (Option.bind (json_get ''name'' v) as_str, Option.bind (json_get ''base_url'' v) as_str,
            Option.bind (json_get ''model'' v) as_str) of
        (Some name, Some base_url, Some model) \<Rightarrow>
          Some \<lparr>cv_name = name, cv_base_url = base_url,
                cv_api_key = Option.bind (json_get ''api_key'' v) as_str, cv_model = model\<rparr>
      | _ \<Rightarrow> None)"

definition chain_from_config_value :: "chain_kind \<Rightarrow> nat \<Rightarrow> json option \<Rightarrow> chain_config" where
  "chain_from_config_value kind default_secs config =
     \<lparr>cc_providers = unwrap_or (cc_providers (config_default kind))
        (map_option (List.map_filter provider_from_value)
          (Option.bind (Option.bind config (json_get (kind_word kind @ ''_providers''))) as_array)),
      cc_timeout = secs (case Option.bind
          (Option.bind config (json_get (kind_word kind @ ''_timeout_per_provider_secs''))) as_u64 of
        Some n \<Rightarrow> unat n | None \<Rightarrow> default_secs)\<rparr>"

definition moderation_from_config_value :: "json option \<Rightarrow> chain_config" where
  "moderation_from_config_value config = chain_from_config_value Moderation 10 config"

definition rerank_from_config_value :: "json option \<Rightarrow> chain_config" where
  "rerank_from_config_value config = chain_from_config_value Rerank 15 config"

section \<open>One provider\<close>

datatype exchange =
    EX_Timeout
  | EX_SendError string
  | EX_Response nat string "(string, json) result"

type_synonym 's http = "string \<Rightarrow> string option \<Rightarrow> json \<Rightarrow> 's \<Rightarrow> exchange \<times> 's"

definition trim_end_matches :: "char \<Rightarrow> string \<Rightarrow> string" where
  "trim_end_matches d s = rev (dropWhile (\<lambda>c. c = d) (rev s))"

text \<open>\<open>body["model"] = ...\<close>; a body that is no object cannot get here (see \<open>extract_model\<close>).\<close>

fun set_model :: "string \<Rightarrow> json \<Rightarrow> json" where
  "set_model m (JObject kvs) = JObject (obj_insert ''model'' (JString m) kvs)"
| "set_model m JNull = JObject [(''model'', JString m)]"
| "set_model m v = v"

definition normalize_response :: "chain_kind \<Rightarrow> json \<Rightarrow> json" where
  "normalize_response kind response =
     (case as_object response of
        None \<Rightarrow> response
      | Some obj \<Rightarrow> json_obj
          [(''id'', JString (unwrap_or (kind_word kind @ ''-unknown'')
             (Option.bind (map_of obj ''id'') as_str))),
           (''model'', JString (unwrap_or ''unknown'' (Option.bind (map_of obj ''model'') as_str))),
           (''results'', unwrap_or (JArray []) (map_of obj ''results''))])"

definition provider_failure :: "string \<Rightarrow> api_error" where
  "provider_failure m = AE_Core (PE_Provider m)"

text \<open>
  \<open>call_provider\<close> under the timeout of \<open>execute\<close>. \<open>show_duration\<close> is the \<open>{:?}\<close> rendering of a
  \<open>Duration\<close>.
\<close>

definition call_provider ::
  "chain_kind \<Rightarrow> (duration \<Rightarrow> string) \<Rightarrow> duration \<Rightarrow> 's http \<Rightarrow> json \<Rightarrow> chain_provider \<Rightarrow> 's \<Rightarrow>
     (api_error, json) result \<times> 's" where
  "call_provider kind show_duration timeout http body provider s =
     (case http (trim_end_matches (CHR ''/'') (cv_base_url provider) @ kind_path kind)
             (cv_api_key provider) (set_model (cv_model provider) body) s of
        (EX_Timeout, s) \<Rightarrow>
          (Err (provider_failure (kind_word kind @ '' timeout after '' @ show_duration timeout)), s)
      | (EX_SendError e, s) \<Rightarrow> (Err (provider_failure e), s)
      | (EX_Response status text parsed, s) \<Rightarrow>
          (if \<not> (200 \<le> status \<and> status < 300)
           then Err (provider_failure (''HTTP '' @ show_nat status @ '': '' @ text))
           else (case parsed of
                   Inl e \<Rightarrow> Err (provider_failure
                     (''failed to deserialize '' @ kind_word kind @ '' response: '' @ e))
                 | Inr value \<Rightarrow> Ok (normalize_response kind value)), s))"

section \<open>The chain\<close>

fun execute_loop ::
  "(chain_provider \<Rightarrow> 's \<Rightarrow> (api_error, json) result \<times> 's) \<Rightarrow> api_error \<Rightarrow> chain_provider list \<Rightarrow>
     api_error option \<Rightarrow> 's \<Rightarrow> (api_error, json) result \<times> 's" where
  "execute_loop call none [] last_error s = (Err (unwrap_or none last_error), s)"
| "execute_loop call none (provider # ps) last_error s =
     (case call provider s of
        (Inr response, s') \<Rightarrow> (Ok response, s')
      | (Inl e, s') \<Rightarrow> execute_loop call none ps (Some e) s')"

definition all_failed :: "chain_kind \<Rightarrow> api_error" where
  "all_failed kind = provider_failure (''All '' @ kind_word kind @ '' providers failed'')"

definition moderation_execute ::
  "(duration \<Rightarrow> string) \<Rightarrow> chain_config \<Rightarrow> 's http \<Rightarrow> json \<Rightarrow> 's \<Rightarrow> (api_error, json) result \<times> 's" where
  "moderation_execute show_duration config http body s =
     execute_loop (call_provider Moderation show_duration (cc_timeout config) http body)
       (all_failed Moderation) (cc_providers config) None s"

definition rerank_normalize_response :: "json \<Rightarrow> json" where
  "rerank_normalize_response response =
     (case as_object response of
        None \<Rightarrow> response
      | Some obj \<Rightarrow> json_obj
          [(''id'', JString (unwrap_or ''rerank-unknown'' (Option.bind (map_of obj ''id'') as_str))),
           (''model'', JString (unwrap_or ''unknown'' (Option.bind (map_of obj ''model'') as_str))),
           (''results'', unwrap_or (JArray []) (map_of obj ''results''))])"

definition rerank_call_provider ::
  "(duration \<Rightarrow> string) \<Rightarrow> duration \<Rightarrow> 's http \<Rightarrow> json \<Rightarrow> chain_provider \<Rightarrow> 's \<Rightarrow> (api_error, json) result \<times> 's" where
  "rerank_call_provider show_duration timeout http body provider s =
     (case http (trim_end_matches (CHR ''/'') (cv_base_url provider) @ ''/rerank'')
             (cv_api_key provider) (set_model (cv_model provider) body) s of
        (EX_Timeout, s) \<Rightarrow> (Err (provider_failure (''rerank timeout after '' @ show_duration timeout)), s)
      | (EX_SendError e, s) \<Rightarrow> (Err (provider_failure e), s)
      | (EX_Response status text parsed, s) \<Rightarrow>
          (if \<not> (200 \<le> status \<and> status < 300)
           then Err (provider_failure (''HTTP '' @ show_nat status @ '': '' @ text))
           else (case parsed of
                   Inl e \<Rightarrow> Err (provider_failure (''failed to deserialize rerank response: '' @ e))
                 | Inr value \<Rightarrow> Ok (rerank_normalize_response value)), s))"

text \<open>The two chains have the same code for a call, up to the words in it.\<close>

lemma rerank_normalize_response_eq: "rerank_normalize_response = normalize_response Rerank"
  unfolding rerank_normalize_response_def normalize_response_def kind_word.simps append.simps by (rule refl)

lemma rerank_call_provider_eq: "rerank_call_provider = call_provider Rerank"
  unfolding rerank_call_provider_def call_provider_def rerank_normalize_response_eq kind_word.simps kind_path.simps
    append.simps by (rule refl)

definition rerank_execute ::
  "(duration \<Rightarrow> string) \<Rightarrow> chain_config \<Rightarrow> 's http \<Rightarrow> json \<Rightarrow> 's \<Rightarrow> (api_error, json) result \<times> 's" where
  "rerank_execute show_duration config http body s =
     execute_loop (rerank_call_provider show_duration (cc_timeout config) http body)
       (all_failed Rerank) (cc_providers config) None s"

definition extract_model :: "json \<Rightarrow> (api_error, string) result" where
  "extract_model body =
     ok_or (AE_BadRequest (''missing '' @ [CHR 0x27] @ ''model'' @ [CHR 0x27] @ '' field''))
       (Option.bind (json_get ''model'' body) as_str)"

definition moderations ::
  "(duration \<Rightarrow> string) \<Rightarrow> 's http \<Rightarrow> json \<Rightarrow> 's \<Rightarrow> (api_error, json) result \<times> 's" where
  "moderations show_duration http body s =
     (case extract_model body of
        Inl e \<Rightarrow> (Err e, s)
      | Inr _ \<Rightarrow> moderation_execute show_duration moderation_config_default http body s)"

definition rerank ::
  "(duration \<Rightarrow> string) \<Rightarrow> 's http \<Rightarrow> json \<Rightarrow> 's \<Rightarrow> (api_error, json) result \<times> 's" where
  "rerank show_duration http body s =
     (case extract_model body of
        Inl e \<Rightarrow> (Err e, s)
      | Inr _ \<Rightarrow> rerank_execute show_duration rerank_config_default http body s)"

section \<open>Refinement\<close>

lemma execute_loop_failover:
  "execute_loop call none ps err s =
     failover_report (\<lambda>i t v. v) none (failover call (\<lambda>_. True) ps i err s)"
proof (induction ps arbitrary: err s i)
  case (Cons p ps)
  obtain r s1 where "call p s = (r, s1)" by fastforce
  then show ?case
    using Cons [of "Some (projl r)" s1 "Suc i"] by (cases r) (simp_all add: failover_report_def)
qed (simp add: failover_report_def)

interpretation provider_chain: failover_loop "\<lambda>ps. execute_loop call none ps None" call
    "\<lambda>_. True" "\<lambda>i t v. v" none "\<lambda>_. True" for call none
  by unfold_locales (rule execute_loop_failover)

section \<open>Properties\<close>

text \<open>
  A moderation request with at least one configured provider tries the providers in order
  and returns the first answer, normalised; providers after it are not called. When all fail
  the error is that of the last one.
\<close>

lemma moderation_first_answer:
  assumes "cc_providers config \<noteq> []"
  shows "\<exists>pre p post es s' r s''. cc_providers config = pre @ p # post \<and>
    all_fail (call_provider Moderation sd (cc_timeout config) http body) (\<lambda>_. True) pre s = Some (es, s') \<and>
    call_provider Moderation sd (cc_timeout config) http body p s' = (r, s'') \<and>
    moderation_execute sd config http body s = (r, s'') \<and> (is_ok r \<or> post = [])"
proof -
  let ?call = "call_provider Moderation sd (cc_timeout config) http body"
  obtain pre p post es s' r s'' where c: "cc_providers config = pre @ p # post"
    "all_fail ?call (\<lambda>_. True) pre s = Some (es, s')" "?call p s' = (r, s'')"
    "case r of Inr v \<Rightarrow> execute_loop ?call (all_failed Moderation) (cc_providers config) None s =
         (Ok v, s'')
     | Inl e \<Rightarrow> execute_loop ?call (all_failed Moderation) (cc_providers config) None s =
         (Err e, s'') \<and> (post = [] \<or> \<not> True)"
    using provider_chain.run_exact [OF TrueI assms, of ?call s "all_failed Moderation"] by blast
  from c(4) have "moderation_execute sd config http body s = (r, s'') \<and> (is_ok r \<or> post = [])"
    unfolding moderation_execute_def by (cases r) auto
  with c(1-3) show ?thesis by blast
qed

lemma moderation_first_answer_witness:
  "\<exists>r. moderation_execute (\<lambda>_. ''10s'') moderation_config_default
      (\<lambda>url key body n. if n = 0 then (EX_Timeout, Suc n) else (EX_Response 200 [] (Ok (JObject [])), Suc n))
      (JObject []) (0::nat) = (Ok r, 2)"
proof -
  let ?h = "\<lambda>(url::string) (key::string option) (body::json) n.
    if n = 0 then (EX_Timeout, Suc n) else (EX_Response 200 [] (Ok (JObject [])), Suc n)"
  have "cc_providers moderation_config_default \<noteq> []" by (simp add: moderation_config_default_def)
  from moderation_first_answer [OF this, of "\<lambda>_. ''10s''" ?h "JObject []" 0] show ?thesis
    by (auto simp: moderation_config_default_def Cons_eq_append_conv call_provider_def)
qed

text \<open>
  The endpoints never get past \<open>extract_model\<close> with a body that is no object, so replacing
  its model cannot panic, and the chain is tried exactly when the body names a model.
\<close>

lemma extract_model_object: "extract_model body = Ok m \<Longrightarrow> \<exists>kvs. body = JObject kvs"
  by (cases body) (auto simp: extract_model_def)

lemma set_model_get: "json_get ''model'' (set_model m (JObject kvs)) = Some (JString m)"
  by simp

end
