(* ===== verification/Caches.thy ===== *)
theory Caches
  imports Godwit_Prelude "HOL-Library.AList"
begin

text \<open>
  The two in-memory caches: \<open>crates/godwit-providers/src/prompt_cache.rs\<close> (time to live and
  least-recently-used eviction) and \<open>crates/godwit-cache/src/lib.rs\<close> (a plain concurrent map).
  A concurrent map whose length is read is an association list with distinct keys.
\<close>

section \<open>The interface of a cache\<close>

datatype ('k, 'v) cache_op = Put instant 'k 'v | Drop 'k | Touch instant 'k

text \<open>What has been written last, and not been removed since.\<close>

fun written_step :: "('k \<rightharpoonup> 'v) \<Rightarrow> ('k, 'v) cache_op \<Rightarrow> ('k \<rightharpoonup> 'v)" where
  "written_step m (Put _ k v) = m(k \<mapsto> v)"
| "written_step m (Drop k) = m(k := None)"
| "written_step m (Touch _ k) = m"

definition written :: "('k, 'v) cache_op list \<Rightarrow> ('k \<rightharpoonup> 'v)" where
  "written ops = foldl written_step Map.empty ops"

text \<open>
  A cache may forget entries at any operation (expiry, eviction) but never answers with
  anything else than what was written.
\<close>

locale lossy_cache =
  fixes look :: "'c \<Rightarrow> 'k \<Rightarrow> instant \<Rightarrow> 'v option"
    and step :: "('k, 'v) cache_op \<Rightarrow> 'c \<Rightarrow> 'c"
    and empty :: 'c
  assumes look_empty: "look empty k t = None"
    and put_look: "look (step (Put n k v) c) j t = Some w \<Longrightarrow>
      (if j = k then w = v else look c j t = Some w)"
    and drop_look: "look (step (Drop k) c) j t = Some w \<Longrightarrow> j \<noteq> k \<and> look c j t = Some w"
    and touch_look: "look (step (Touch n k) c) j t = Some w \<Longrightarrow> look c j t = Some w"
begin

definition run :: "('k, 'v) cache_op list \<Rightarrow> 'c" where
  "run ops = foldl (\<lambda>c opn. step opn c) empty ops"

lemma coherent: "look (run ops) k t = Some v \<Longrightarrow> written ops k = Some v"
proof (induction ops arbitrary: v rule: rev_induct)
  case (snoc opn ops)
  then show ?case
    by (cases opn) (auto simp: run_def written_def dest!: put_look drop_look touch_look
        split: if_splits)
qed (simp add: run_def look_empty)

lemma never_written: "k \<notin> dom (written ops) \<Longrightarrow> look (run ops) k t = None"
  using coherent [of ops k t] by (cases "look (run ops) k t") auto

end

section \<open>The plain cache\<close>

type_synonym ('k, 'v) memory_cache = "'k \<rightharpoonup> 'v"

definition mc_new :: "('k, 'v) memory_cache" where
  "mc_new = Map.empty"

definition mc_insert :: "'k \<Rightarrow> 'v \<Rightarrow> ('k, 'v) memory_cache \<Rightarrow> ('k, 'v) memory_cache" where
  "mc_insert k v c = c(k \<mapsto> v)"

definition mc_get :: "'k \<Rightarrow> ('k, 'v) memory_cache \<Rightarrow> 'v option" where
  "mc_get k c = c k"

definition mc_invalidate :: "'k \<Rightarrow> ('k, 'v) memory_cache \<Rightarrow> ('k, 'v) memory_cache" where
  "mc_invalidate k c = c(k := None)"

fun mc_step :: "('k, 'v) cache_op \<Rightarrow> ('k, 'v) memory_cache \<Rightarrow> ('k, 'v) memory_cache" where
  "mc_step (Put _ k v) c = mc_insert k v c"
| "mc_step (Drop k) c = mc_invalidate k c"
| "mc_step (Touch _ k) c = c"

interpretation memory: lossy_cache "\<lambda>c k t. mc_get k c" mc_step mc_new
  by unfold_locales (auto simp: mc_get_def mc_new_def mc_insert_def mc_invalidate_def
      split: if_splits)

section \<open>The prompt cache\<close>

record 'v cache_entry =
  ce_value :: 'v
  ce_expires_at :: instant

record ('k, 'v) prompt_cache =
  pc_cache :: "('k \<times> 'v cache_entry) list"
  pc_lru_order :: "'k list"
  pc_max_size :: nat
  pc_default_ttl :: duration

definition pc_with_config :: "nat \<Rightarrow> duration \<Rightarrow> ('k, 'v) prompt_cache" where
  "pc_with_config max_size default_ttl =
     \<lparr>pc_cache = [], pc_lru_order = [], pc_max_size = max_size, pc_default_ttl = default_ttl\<rparr>"

definition pc_new :: "('k, 'v) prompt_cache" where
  "pc_new = pc_with_config 10000 (secs 3600)"

definition update_lru_access :: "'k \<Rightarrow> ('k, 'v) prompt_cache \<Rightarrow> ('k, 'v) prompt_cache" where
  "update_lru_access k c = c\<lparr>pc_lru_order := remove1 k (pc_lru_order c) @ [k]\<rparr>"

text \<open>The loop of \<open>evict_lru\<close>: pop keys until one that is still cached.\<close>

fun evict_scan :: "'k list \<Rightarrow> ('k \<times> 'e) list \<Rightarrow> 'k list \<times> ('k \<times> 'e) list" where
  "evict_scan [] cache = ([], cache)"
| "evict_scan (k # ks) cache =
     (if map_of cache k \<noteq> None then (ks, AList.delete k cache) else evict_scan ks cache)"

definition evict_lru :: "('k, 'v) prompt_cache \<Rightarrow> ('k, 'v) prompt_cache" where
  "evict_lru c =
     (case evict_scan (pc_lru_order c) (pc_cache c) of
        (lru, cache) \<Rightarrow> c\<lparr>pc_lru_order := lru, pc_cache := cache\<rparr>)"

definition pc_insert_with_ttl ::
  "instant \<Rightarrow> 'k \<Rightarrow> 'v \<Rightarrow> duration \<Rightarrow> ('k, 'v) prompt_cache \<Rightarrow> ('k, 'v) prompt_cache" where
  "pc_insert_with_ttl now k v ttl c =
     (let expires_at = now + ttl;
          c = (if map_of (pc_cache c) k = None \<and> pc_max_size c \<le> length (pc_cache c)
               then evict_lru c else c);
          cache = AList.delete k (pc_cache c)
      in update_lru_access k
           (c\<lparr>pc_cache := AList.update k \<lparr>ce_value = v, ce_expires_at = expires_at\<rparr> cache\<rparr>))"

definition pc_insert ::
  "instant \<Rightarrow> 'k \<Rightarrow> 'v \<Rightarrow> ('k, 'v) prompt_cache \<Rightarrow> ('k, 'v) prompt_cache" where
  "pc_insert now k v c = pc_insert_with_ttl now k v (pc_default_ttl c) c"

definition pc_get ::
  "instant \<Rightarrow> 'k \<Rightarrow> ('k, 'v) prompt_cache \<Rightarrow> 'v option \<times> ('k, 'v) prompt_cache" where
  "pc_get now k c =
     (case map_of (pc_cache c) k of
        None \<Rightarrow> (None, c)
      | Some entry \<Rightarrow>
          if ce_expires_at entry < now
          then (None, c\<lparr>pc_cache := AList.delete k (pc_cache c)\<rparr>)
          else (Some (ce_value entry), update_lru_access k c))"

definition pc_contains_key ::
  "instant \<Rightarrow> 'k \<Rightarrow> ('k, 'v) prompt_cache \<Rightarrow> bool \<times> ('k, 'v) prompt_cache" where
  "pc_contains_key now k c =
     (case map_of (pc_cache c) k of
        None \<Rightarrow> (False, c)
      | Some entry \<Rightarrow>
          if now \<le> ce_expires_at entry then (True, c)
          else (False, c\<lparr>pc_cache := AList.delete k (pc_cache c)\<rparr>))"

definition pc_remove :: "'k \<Rightarrow> ('k, 'v) prompt_cache \<Rightarrow> 'v option \<times> ('k, 'v) prompt_cache" where
  "pc_remove k c =
     (map_option ce_value (map_of (pc_cache c) k), c\<lparr>pc_cache := AList.delete k (pc_cache c)\<rparr>)"

definition pc_len :: "('k, 'v) prompt_cache \<Rightarrow> nat" where
  "pc_len c = length (pc_cache c)"

definition pc_clear :: "('k, 'v) prompt_cache \<Rightarrow> ('k, 'v) prompt_cache" where
  "pc_clear c = c\<lparr>pc_cache := [], pc_lru_order := []\<rparr>"

definition pc_evict_expired ::
  "instant \<Rightarrow> ('k, 'v) prompt_cache \<Rightarrow> nat \<times> ('k, 'v) prompt_cache" where
  "pc_evict_expired now c =
     (let keys = map fst (filter (\<lambda>(k, e). ce_expires_at e < now) (pc_cache c))
      in (length keys, c\<lparr>pc_cache := foldl (\<lambda>m k. AList.delete k m) (pc_cache c) keys\<rparr>))"

section \<open>The prompt cache answers what was written\<close>

definition pc_look :: "('k, 'v) prompt_cache \<Rightarrow> 'k \<Rightarrow> instant \<Rightarrow> 'v option" where
  "pc_look c k now = fst (pc_get now k c)"

fun pc_step :: "('k, 'v) cache_op \<Rightarrow> ('k, 'v) prompt_cache \<Rightarrow> ('k, 'v) prompt_cache" where
  "pc_step (Put now k v) c = pc_insert now k v c"
| "pc_step (Drop k) c = snd (pc_remove k c)"
| "pc_step (Touch now k) c = snd (pc_get now k c)"

lemma pc_look_eq:
  "pc_look c k now =
     (case map_of (pc_cache c) k of
        None \<Rightarrow> None
      | Some e \<Rightarrow> if ce_expires_at e < now then None else Some (ce_value e))"
  by (simp add: pc_look_def pc_get_def split: option.splits)

lemma update_lru_access_cache [simp]: "pc_cache (update_lru_access k c) = pc_cache c"
  "pc_max_size (update_lru_access k c) = pc_max_size c"
  "pc_lru_order (update_lru_access k c) = remove1 k (pc_lru_order c) @ [k]"
  by (simp_all add: update_lru_access_def)

lemma map_of_delete_Some:
  "map_of (AList.delete k m) j = Some e \<Longrightarrow> j \<noteq> k \<and> map_of m j = Some e"
  by (auto simp: AList.delete_conv' split: if_splits)

lemma evict_scan_Some: "map_of (snd (evict_scan ks m)) j = Some e \<Longrightarrow> map_of m j = Some e"
  by (induction ks m rule: evict_scan.induct) (auto split: if_splits dest: map_of_delete_Some)

lemma evict_lru_Some: "map_of (pc_cache (evict_lru c)) j = Some e \<Longrightarrow> map_of (pc_cache c) j = Some e"
  using evict_scan_Some [of "pc_lru_order c" "pc_cache c" j e]
  by (simp add: evict_lru_def split: prod.splits)

lemma pc_insert_lookup:
  "map_of (pc_cache (pc_insert_with_ttl now k v ttl c)) j = Some e \<Longrightarrow>
     (if j = k then e = \<lparr>ce_value = v, ce_expires_at = now + ttl\<rparr>
      else map_of (pc_cache c) j = Some e)"
  by (auto simp: pc_insert_with_ttl_def Let_def AList.update_conv' AList.delete_conv'
      dest: evict_lru_Some split: if_splits)

interpretation prompt: lossy_cache pc_look pc_step "pc_with_config n ttl" for n ttl
proof
  fix k t j w and c :: "('a, 'b) prompt_cache" and v and m :: instant
  show "pc_look (pc_with_config n ttl :: ('a, 'b) prompt_cache) k t = None"
    by (simp add: pc_look_eq pc_with_config_def)
  show "if j = k then w = v else pc_look c j t = Some w"
    if "pc_look (pc_step (Put m k v) c) j t = Some w"
    using that by (auto simp: pc_look_eq pc_insert_def dest!: pc_insert_lookup
        split: option.splits if_splits)
  show "j \<noteq> k \<and> pc_look c j t = Some w" if "pc_look (pc_step (Drop k) c) j t = Some w"
    using that by (auto simp: pc_look_eq pc_remove_def dest!: map_of_delete_Some
        split: option.splits if_splits)
  show "pc_look c j t = Some w" if "pc_look (pc_step (Touch m k) c) j t = Some w"
    using that by (auto simp: pc_look_eq pc_get_def dest!: map_of_delete_Some
        split: option.splits if_splits)
qed

section \<open>Invariant\<close>

text \<open>
  Cached keys are tracked in the access order, which has no duplicates, and the capacity is
  respected (an insertion into a cache of capacity zero still stores one entry).
\<close>

definition pc_inv :: "('k, 'v) prompt_cache \<Rightarrow> bool" where
  "pc_inv c \<longleftrightarrow> distinct (map fst (pc_cache c)) \<and> distinct (pc_lru_order c) \<and>
     fst ` set (pc_cache c) \<subseteq> set (pc_lru_order c) \<and> length (pc_cache c) \<le> max 1 (pc_max_size c)"

lemma alist_delete_keys: "fst ` set (AList.delete k m) = fst ` set m - {k}"
  using AList.delete_keys [of k m] by (metis set_map set_removeAll)

lemma alist_delete_length:
  assumes "distinct (map fst m)"
  shows "length (AList.delete k m) = length m - (if k \<in> fst ` set m then 1 else 0)"
proof -
  have "length (AList.delete k m) = length (removeAll k (map fst m))"
    by (metis AList.delete_keys length_map)
  also have "removeAll k (map fst m) = remove1 k (map fst m)"
    using assms by (simp add: distinct_remove1_removeAll)
  finally show ?thesis by (simp add: length_remove1)
qed

lemma alist_update_fresh: "k \<notin> fst ` set m \<Longrightarrow> AList.update k v m = m @ [(k, v)]"
  by (induction m) auto

lemma map_of_None_keys: "map_of m k = None \<longleftrightarrow> k \<notin> fst ` set m"
  by (simp add: map_of_eq_None_iff)

lemma pc_inv_delete: "pc_inv c \<Longrightarrow> pc_inv (c\<lparr>pc_cache := AList.delete k (pc_cache c)\<rparr>)"
  using AList.length_delete_le [of k "pc_cache c"]
  by (auto simp: pc_inv_def AList.distinct_delete alist_delete_keys)

lemma pc_inv_touch: "pc_inv c \<Longrightarrow> pc_inv (update_lru_access k c)"
  by (auto simp: pc_inv_def)

lemma evict_scan_spec:
  assumes "distinct ks" "fst ` set m \<subseteq> set ks" "distinct (map fst m)"
  shows "distinct (fst (evict_scan ks m)) \<and> set (fst (evict_scan ks m)) \<subseteq> set ks \<and>
    fst ` set (snd (evict_scan ks m)) \<subseteq> set (fst (evict_scan ks m)) \<and>
    distinct (map fst (snd (evict_scan ks m))) \<and>
    length (snd (evict_scan ks m)) = length m - 1"
  using assms
proof (induction ks m rule: evict_scan.induct)
  case (2 k ks m)
  show ?case
  proof (cases "map_of m k = None")
    case True
    then have "fst ` set m \<subseteq> set ks" using "2.prems"(2) by (auto simp: map_of_None_keys)
    with True 2 show ?thesis by auto
  next
    case False
    then have "k \<in> fst ` set m" by (auto simp: map_of_None_keys)
    with False "2.prems" show ?thesis
      by (auto simp: alist_delete_keys AList.distinct_delete alist_delete_length)
  qed
qed simp

lemma evict_lru_inv:
  assumes "pc_inv c"
  shows "pc_inv (evict_lru c) \<and> length (pc_cache (evict_lru c)) = length (pc_cache c) - 1 \<and>
    set (pc_lru_order (evict_lru c)) \<subseteq> set (pc_lru_order c) \<and>
    pc_max_size (evict_lru c) = pc_max_size c"
proof -
  obtain ks m where e: "evict_scan (pc_lru_order c) (pc_cache c) = (ks, m)" by fastforce
  have "distinct ks" "set ks \<subseteq> set (pc_lru_order c)" "fst ` set m \<subseteq> set ks" "distinct (map fst m)"
    "length m = length (pc_cache c) - 1"
    using assms evict_scan_spec [of "pc_lru_order c" "pc_cache c"] e by (simp_all add: pc_inv_def)
  moreover have "length (pc_cache c) \<le> max 1 (pc_max_size c)" using assms by (simp add: pc_inv_def)
  ultimately show ?thesis by (simp add: pc_inv_def evict_lru_def e)
qed

lemma pc_insert_inv:
  assumes "pc_inv c"
  shows "pc_inv (pc_insert_with_ttl now k v ttl c)"
proof -
  define d where "d = (if map_of (pc_cache c) k = None \<and> pc_max_size c \<le> length (pc_cache c)
    then evict_lru c else c)"
  have d: "pc_inv d" "pc_max_size d = pc_max_size c" using assms evict_lru_inv [OF assms]
    by (auto simp: d_def)
  have len: "length (AList.delete k (pc_cache d)) < max 1 (pc_max_size d)"
  proof (cases "map_of (pc_cache c) k = None")
    case True
    then show ?thesis
      using assms evict_lru_inv [OF assms] AList.length_delete_le [of k "pc_cache d"]
      by (auto simp: d_def pc_inv_def split: if_splits)
  next
    case False
    then have "k \<in> fst ` set (pc_cache c)" by (auto simp: map_of_None_keys)
    then show ?thesis
      using assms False alist_delete_length [of "pc_cache c" k]
      by (cases "pc_cache c") (auto simp: d_def pc_inv_def)
  qed
  have "pc_insert_with_ttl now k v ttl c = update_lru_access k (d\<lparr>pc_cache :=
      AList.delete k (pc_cache d) @ [(k, \<lparr>ce_value = v, ce_expires_at = now + ttl\<rparr>)]\<rparr>)"
    by (simp add: pc_insert_with_ttl_def Let_def d_def alist_update_fresh alist_delete_keys)
  then show ?thesis using d(1) len
    by (auto simp: pc_inv_def AList.delete_eq distinct_map_filter)
qed

lemma pc_step_inv: "pc_inv c \<Longrightarrow> pc_inv (pc_step opn c)"
  by (cases opn) (auto simp: pc_insert_def pc_insert_inv pc_remove_def pc_inv_delete pc_get_def
      pc_inv_touch split: option.splits)

lemma pc_step_max: "pc_max_size (pc_step opn c) = pc_max_size c"
  by (cases opn) (auto simp: pc_insert_def pc_insert_with_ttl_def Let_def evict_lru_def
      pc_remove_def pc_get_def split: option.splits prod.splits)

lemma pc_inv_new: "pc_inv (pc_with_config n ttl)"
  by (simp add: pc_inv_def pc_with_config_def)

section \<open>Least recently used\<close>

text \<open>
  The cache seen through its access order: the live entries, least recently used first. On
  this list an insertion into a full cache drops the head.
\<close>

definition recency :: "('k, 'v) prompt_cache \<Rightarrow> ('k \<times> 'v cache_entry) list" where
  "recency c = List.map_filter (\<lambda>k. map_option (Pair k) (map_of (pc_cache c) k)) (pc_lru_order c)"

definition lru_insert :: "nat \<Rightarrow> 'k \<Rightarrow> 'e \<Rightarrow> ('k \<times> 'e) list \<Rightarrow> ('k \<times> 'e) list" where
  "lru_insert cap k e xs =
     (let xs = (if k \<notin> fst ` set xs \<and> cap \<le> length xs then tl xs else xs)
      in filter (\<lambda>x. fst x \<noteq> k) xs @ [(k, e)])"

definition lru_touch :: "'k \<Rightarrow> ('k \<times> 'e) list \<Rightarrow> ('k \<times> 'e) list" where
  "lru_touch k xs = filter (\<lambda>x. fst x \<noteq> k) xs @ filter (\<lambda>x. fst x = k) xs"

abbreviation live :: "('k \<times> 'e) list \<Rightarrow> 'k list \<Rightarrow> ('k \<times> 'e) list" where
  "live m ks \<equiv> List.map_filter (\<lambda>k. map_option (Pair k) (map_of m k)) ks"

lemma live_simps [simp]:
  "live m [] = []"
  "live m (k # ks) = (case map_of m k of None \<Rightarrow> live m ks | Some e \<Rightarrow> (k, e) # live m ks)"
  "live m (ks @ ls) = live m ks @ live m ls"
  by (simp_all add: List.map_filter_def split: option.splits)

lemma live_cong: "(\<And>k. k \<in> set ks \<Longrightarrow> map_of m k = map_of m' k) \<Longrightarrow> live m ks = live m' ks"
  by (induction ks) (auto split: option.splits)

lemma live_dom: "fst ` set (live m ks) = set ks \<inter> dom (map_of m)"
  by (induction ks) (auto split: option.splits)

lemma live_keys: "fst ` set (live m ks) = set ks \<inter> fst ` set m"
  by (simp add: live_dom dom_map_of_conv_image_fst)

lemma live_remove1:
  "distinct ks \<Longrightarrow> live m (remove1 k ks) = filter (\<lambda>x. fst x \<noteq> k) (live m ks)"
proof (induction ks)
  case (Cons j ks)
  have "k \<notin> set ks \<Longrightarrow> filter (\<lambda>x. fst x \<noteq> k) (live m ks) = live m ks"
    using live_keys [of m ks] by (intro filter_True) auto
  with Cons show ?case by (auto split: option.splits)
qed simp

lemma live_delete:
  "live (AList.delete k m) ks = filter (\<lambda>x. fst x \<noteq> k) (live m ks)"
  by (induction ks) (auto simp: AList.delete_conv' split: option.splits)

lemma evict_scan_live:
  assumes "distinct ks" "fst ` set m \<subseteq> set ks"
  shows "live (snd (evict_scan ks m)) (fst (evict_scan ks m)) = tl (live m ks)"
  using assms
proof (induction ks m rule: evict_scan.induct)
  case (2 k ks m)
  show ?case
  proof (cases "map_of m k = None")
    case True
    then have "fst ` set m \<subseteq> set ks" using "2.prems"(2) by (auto simp: map_of_None_keys)
    with True 2 show ?thesis by simp
  next
    case False
    have "live (AList.delete k m) ks = live m ks"
      using "2.prems"(1) by (intro live_cong AList.map_of_delete) auto
    with False show ?thesis by (auto split: option.splits)
  qed
qed simp

lemma live_distinct: "distinct ks \<Longrightarrow> distinct (map fst (live m ks))"
proof (induction ks)
  case (Cons k ks)
  then show ?case using live_keys [of m ks] by (auto split: option.splits)
qed simp

lemma recency_length:
  assumes "pc_inv c"
  shows "length (recency c) = length (pc_cache c)"
proof -
  have "set (map fst (recency c)) = set (map fst (pc_cache c))"
    using assms live_keys [of "pc_cache c" "pc_lru_order c"] by (auto simp: recency_def pc_inv_def)
  moreover have "distinct (map fst (recency c))" "distinct (map fst (pc_cache c))"
    using assms live_distinct by (auto simp: recency_def pc_inv_def)
  ultimately show ?thesis by (metis distinct_card length_map)
qed

lemma recency_keys: "pc_inv c \<Longrightarrow> k \<in> fst ` set (recency c) \<longleftrightarrow> map_of (pc_cache c) k \<noteq> None"
  using live_keys [of "pc_cache c" "pc_lru_order c"]
  by (auto simp: recency_def pc_inv_def map_of_None_keys)

lemma recency_evict: "pc_inv c \<Longrightarrow> recency (evict_lru c) = tl (recency c)"
  using evict_scan_live [of "pc_lru_order c" "pc_cache c"]
  by (auto simp: recency_def evict_lru_def pc_inv_def split: prod.splits)

lemma recency_put:
  assumes "distinct (pc_lru_order d)"
  shows "recency (update_lru_access k (d\<lparr>pc_cache := AList.update k e (AList.delete k (pc_cache d))\<rparr>)) =
    filter (\<lambda>x. fst x \<noteq> k) (recency d) @ [(k, e)]"
proof -
  have "live (AList.update k e (AList.delete k (pc_cache d))) (remove1 k (pc_lru_order d)) =
      live (pc_cache d) (remove1 k (pc_lru_order d))"
    using assms by (intro live_cong) (auto simp: AList.update_conv' AList.delete_conv')
  moreover have "map_of (AList.update k e (AList.delete k (pc_cache d))) k = Some e"
    by (simp add: AList.update_conv')
  ultimately show ?thesis
    using live_remove1 [OF assms] by (simp add: recency_def)
qed

lemma recency_insert:
  assumes "pc_inv c"
  shows "recency (pc_insert_with_ttl now k v ttl c) =
    lru_insert (pc_max_size c) k \<lparr>ce_value = v, ce_expires_at = now + ttl\<rparr> (recency c)"
proof -
  define d where "d = (if map_of (pc_cache c) k = None \<and> pc_max_size c \<le> length (pc_cache c)
    then evict_lru c else c)"
  have "pc_inv d" using assms evict_lru_inv [OF assms] by (simp add: d_def)
  moreover have "recency d =
      (if k \<notin> fst ` set (recency c) \<and> pc_max_size c \<le> length (recency c) then tl (recency c)
       else recency c)"
    using recency_evict [OF assms] by (simp add: d_def recency_length [OF assms] recency_keys [OF assms])
  ultimately show ?thesis
    using recency_put [of d k]
    by (simp add: pc_insert_with_ttl_def Let_def d_def [symmetric] lru_insert_def pc_inv_def)
qed

lemma live_touch:
  assumes "distinct ks" "k \<in> set ks"
  shows "live m (remove1 k ks @ [k]) = lru_touch k (live m ks)"
proof -
  have "filter (\<lambda>x. fst x = k) (live m ks) = live m [k]"
    using assms
  proof (induction ks)
    case (Cons j ks)
    have "k \<notin> set ks \<Longrightarrow> filter (\<lambda>x. fst x = k) (live m ks) = []"
      using live_keys [of m ks] by (auto simp: filter_empty_conv)
    with Cons show ?case by (auto split: option.splits)
  qed simp
  then show ?thesis using live_remove1 [OF assms(1)] by (simp add: lru_touch_def)
qed

lemma recency_get:
  assumes "pc_inv c"
  shows "recency (snd (pc_get now k c)) =
    (if fst (pc_get now k c) = None then filter (\<lambda>x. fst x \<noteq> k) (recency c)
     else lru_touch k (recency c))"
proof (cases "map_of (pc_cache c) k")
  case None
  then have "k \<notin> fst ` set (recency c)" using recency_keys [OF assms] by blast
  then have "filter (\<lambda>x. fst x \<noteq> k) (recency c) = recency c" by (intro filter_True) auto
  with None show ?thesis by (simp add: pc_get_def)
next
  case (Some e)
  then have "k \<in> set (pc_lru_order c)" using assms by (auto simp: pc_inv_def dest!: map_of_SomeD)
  with Some assms show ?thesis
    using live_touch [of "pc_lru_order c" k "pc_cache c"] live_delete [of k "pc_cache c"]
    by (auto simp: pc_get_def recency_def pc_inv_def)
qed

section \<open>Properties\<close>

abbreviation pc_run :: "nat \<Rightarrow> duration \<Rightarrow> ('k, 'v) cache_op list \<Rightarrow> ('k, 'v) prompt_cache" where
  "pc_run n ttl ops \<equiv> foldl (\<lambda>c opn. pc_step opn c) (pc_with_config n ttl) ops"

lemma pc_run_inv: "pc_inv (pc_run n ttl ops) \<and> pc_max_size (pc_run n ttl ops) = n"
proof (induction ops rule: rev_induct)
  case Nil
  then show ?case by (simp add: pc_inv_new) (simp add: pc_with_config_def)
qed (simp add: pc_step_inv pc_step_max)

text \<open>
  After any history of insertions, lookups and removals, a lookup that hits returns the
  value inserted last under its key and not removed since, and the cache holds at most its
  configured number of entries (one, when that is zero).
\<close>

lemma prompt_cache_coherent:
  "(\<forall>k t v. fst (pc_get t k (pc_run n ttl ops)) = Some v \<longrightarrow> written ops k = Some v) \<and>
   pc_len (pc_run n ttl ops) \<le> max 1 n"
  using prompt.coherent [of n ttl ops] pc_run_inv [of n ttl ops]
  unfolding prompt.run_def pc_look_def pc_inv_def pc_len_def by auto

theorem prompt_cache_coherent_witness:
  "fst (pc_get 5 ''k'' (pc_run 1 10 [Put 0 ''j'' (1::nat), Put 0 ''k'' 2])) = Some 2 \<and>
   written [Put 0 ''j'' (1::nat), Put 0 ''k'' 2] ''k'' = Some 2"
proof
  show g: "fst (pc_get 5 ''k'' (pc_run 1 10 [Put 0 ''j'' (1::nat), Put 0 ''k'' 2])) = Some 2"
    by (simp add: pc_with_config_def pc_insert_def pc_insert_with_ttl_def Let_def
        evict_lru_def update_lru_access_def pc_get_def)
  then show "written [Put 0 ''j'' (1::nat), Put 0 ''k'' 2] ''k'' = Some 2"
    using prompt_cache_coherent [of 1 10 "[Put 0 ''j'' (1::nat), Put 0 ''k'' 2]"] by blast
qed



end
