(* ===== verification/Gateway_Auth.thy ===== *)
theory Gateway_Auth
  imports Db_Models Caches
begin

text \<open>
  Who may call the gateway: \<open>crates/godwit-api/src/middleware.rs\<close> (bearer tokens, cookies, the
  CSRF origin check, API-key and JWT authentication, the model scope of a key),
  \<open>crates/godwit-auth/src/api_keys.rs\<close>, \<open>jwt.rs\<close> and \<open>rbac.rs\<close>, and the API-key repository
  (\<open>crates/godwit-db/src/repositories/api_keys.rs\<close>). Password hashing and token signatures are
  library code and enter as parameters; a header that is missing or not visible ASCII is
  \<open>None\<close>.
\<close>

section \<open>API keys\<close>

definition key_prefix_const :: string where
  "key_prefix_const = ''sk-godwit-''"

text \<open>The slice \<open>key[10..min(26, len)]\<close>, which panics (\<open>None\<close>) when the key is too short.\<close>

definition extract_prefix :: "string \<Rightarrow> string option" where
  "extract_prefix key =
     (let start = length key_prefix_const; end' = min (start + 16) (length key)
      in str_slice key start end')"

text \<open>\<open>parse\<close> reads a stored hash, \<open>check\<close> verifies a password against it.\<close>

definition verify_key :: "(string \<Rightarrow> 'h option) \<Rightarrow> (string \<Rightarrow> 'h \<Rightarrow> bool) \<Rightarrow> string \<Rightarrow> string \<Rightarrow> bool" where
  "verify_key parse check key hash =
     (case parse hash of None \<Rightarrow> False | Some p \<Rightarrow> check key p)"

definition generate_api_key ::
  "(string \<Rightarrow> string) \<Rightarrow> (string \<Rightarrow> string) \<Rightarrow> string \<Rightarrow> (string \<times> string \<times> string) option" where
  "generate_api_key base58 hash_key bytes =
     (let plaintext = key_prefix_const @ base58 bytes
      in map_option (\<lambda>prefix. (plaintext, hash_key plaintext, prefix)) (extract_prefix plaintext))"

section \<open>The API-key repository\<close>

definition keys_create ::
  "fault \<Rightarrow> uuid \<Rightarrow> datetime \<Rightarrow> uuid \<Rightarrow> uuid \<Rightarrow> string \<Rightarrow> string \<Rightarrow> string \<Rightarrow> string list \<Rightarrow>
   string list \<Rightarrow> decimal option \<Rightarrow> i32 option \<Rightarrow> i32 option \<Rightarrow> api_key list \<Rightarrow>
     (pasteur_error, api_key) result \<times> api_key list" where
  "keys_create flt new_id now uid oid name prefix hash scopes allowed budget rpm tpm tbl =
     (case flt of
        Some e \<Rightarrow> (Err (PE_Database e), tbl)
      | None \<Rightarrow>
          (let row = \<lparr>ak_id = new_id, ak_user_id = uid, ak_team_id = None,
               ak_organization_id = oid, ak_name = name, ak_key_prefix = prefix,
               ak_key_hash = hash, ak_scopes = scopes, ak_allowed_models = allowed,
               ak_budget_limit_usd = usd4 budget, ak_budget_spent_usd = 0, ak_rpm = rpm, ak_tpm = tpm,
               ak_expires_at = None, ak_disabled = False, ak_created_at = now\<rparr>
           in (Ok row, tbl @ [row])))"

definition keys_get_by_prefix :: "fault \<Rightarrow> string \<Rightarrow> api_key list \<Rightarrow> (pasteur_error, api_key list) result" where
  "keys_get_by_prefix flt prefix tbl =
     fetch_all flt (filter (\<lambda>k. ak_key_prefix k = prefix \<and> \<not> ak_disabled k) tbl)"

definition keys_list_for_organization ::
  "fault \<Rightarrow> uuid \<Rightarrow> api_key list \<Rightarrow> (pasteur_error, api_key list) result" where
  "keys_list_for_organization flt oid tbl = fetch_all flt (filter (\<lambda>k. ak_organization_id k = oid) tbl)"

definition keys_list_all :: "fault \<Rightarrow> api_key list \<Rightarrow> (pasteur_error, api_key list) result" where
  "keys_list_all flt tbl =
     fetch_all flt (sort_key (\<lambda>k. unat (ak_organization_id k)) (sort_key ak_name tbl))"

definition keys_get_by_id :: "fault \<Rightarrow> uuid \<Rightarrow> api_key list \<Rightarrow> (pasteur_error, api_key) result" where
  "keys_get_by_id flt kid tbl = fetch_one flt (filter (\<lambda>k. ak_id k = kid) tbl)"

definition keys_delete :: "fault \<Rightarrow> uuid \<Rightarrow> api_key list \<Rightarrow> (pasteur_error, unit) result \<times> api_key list" where
  "keys_delete flt kid tbl =
     (case flt of
        Some e \<Rightarrow> (Err (PE_Database e), tbl)
      | None \<Rightarrow> (Ok (), filter (\<lambda>k. ak_id k \<noteq> kid) tbl))"

text \<open>\<open>UPDATE ... WHERE id = $1 RETURNING *\<close>.\<close>

definition keys_update ::
  "fault \<Rightarrow> uuid \<Rightarrow> (api_key \<Rightarrow> api_key) \<Rightarrow> api_key list \<Rightarrow>
     (pasteur_error, api_key) result \<times> api_key list" where
  "keys_update flt kid upd tbl =
     (case fetch_one flt (map upd (filter (\<lambda>k. ak_id k = kid) tbl)) of
        Inl e \<Rightarrow> (Err e, tbl)
      | Inr row \<Rightarrow> (Ok row, map (\<lambda>k. if ak_id k = kid then upd k else k) tbl))"

definition keys_set_active ::
  "fault \<Rightarrow> uuid \<Rightarrow> bool \<Rightarrow> api_key list \<Rightarrow> (pasteur_error, api_key) result \<times> api_key list" where
  "keys_set_active flt kid active tbl = keys_update flt kid (\<lambda>k. k\<lparr>ak_disabled := \<not> active\<rparr>) tbl"

definition keys_regenerate ::
  "fault \<Rightarrow> datetime \<Rightarrow> uuid \<Rightarrow> string \<Rightarrow> string \<Rightarrow> api_key list \<Rightarrow>
     (pasteur_error, api_key) result \<times> api_key list" where
  "keys_regenerate flt now kid prefix hash tbl =
     keys_update flt kid (\<lambda>k. k\<lparr>ak_key_prefix := prefix, ak_key_hash := hash, ak_created_at := now\<rparr>) tbl"

definition keys_reset_spend ::
  "fault \<Rightarrow> uuid \<Rightarrow> api_key list \<Rightarrow> (pasteur_error, api_key) result \<times> api_key list" where
  "keys_reset_spend flt kid tbl = keys_update flt kid (\<lambda>k. k\<lparr>ak_budget_spent_usd := 0\<rparr>) tbl"

section \<open>Headers\<close>

datatype http_method = GET | HEAD | OPTIONS | POST | PUT | PATCH | DELETE | TRACE | CONNECT

record request_head =
  rq_method :: http_method
  rq_authorization :: "string option"
  rq_cookie :: "string option"
  rq_origin :: "string option"

definition is_state_changing :: "http_method \<Rightarrow> bool" where
  "is_state_changing m \<longleftrightarrow> m \<in> {POST, PUT, PATCH, DELETE}"

definition origin_allowed_from_config :: "string \<Rightarrow> request_head \<Rightarrow> bool" where
  "origin_allowed_from_config allowed rq \<longleftrightarrow>
     allowed = [] \<or> \<not> is_state_changing (rq_method rq) \<or>
     (case rq_origin rq of Some origin \<Rightarrow> origin = allowed | None \<Rightarrow> False)"

definition extract_token :: "string \<Rightarrow> string option" where
  "extract_token header = strip_prefix ''Bearer '' header"

definition cookie_pair :: "string \<Rightarrow> string \<Rightarrow> string option" where
  "cookie_pair name part =
     (case split_once (CHR ''='') (trim part) of
        None \<Rightarrow> None
      | Some (k, v) \<Rightarrow> if trim k = name then Some (trim v) else None)"

definition cookie_value :: "string option \<Rightarrow> string \<Rightarrow> string option" where
  "cookie_value header name =
     Option.bind header (\<lambda>cookies. find_map (cookie_pair name) (split_on (CHR '';'') cookies))"

section \<open>API-key authentication\<close>

datatype 'a auth_outcome = Authenticated 'a | Rejected nat | Panicked

text \<open>
  \<open>api_key_auth\<close> up to handing the request on: the key inserted into the request, or the
  status it is refused with. \<open>now0\<close> and \<open>now\<close> are the clock at the cache hit and after the
  database lookup.
\<close>

definition api_key_auth ::
  "(string \<Rightarrow> string \<Rightarrow> bool) \<Rightarrow> datetime \<Rightarrow> datetime \<Rightarrow> fault \<Rightarrow> api_key list \<Rightarrow> request_head \<Rightarrow>
     (string, api_key) memory_cache \<Rightarrow> api_key auth_outcome \<times> (string, api_key) memory_cache" where
  "api_key_auth verify now0 now flt tbl rq cache =
     (case Option.bind (rq_authorization rq) extract_token of
        None \<Rightarrow> (Rejected 401, cache)
      | Some auth \<Rightarrow>
          (case (case mc_get auth cache of
                   Some key \<Rightarrow>
                     if \<not> ak_disabled key \<and>
                        (case ak_expires_at key of Some e \<Rightarrow> now0 < e | None \<Rightarrow> True)
                     then Some key else None
                 | None \<Rightarrow> None) of
             Some key \<Rightarrow> (Authenticated key, cache)
           | None \<Rightarrow>
               (case extract_prefix auth of
                  None \<Rightarrow> (Panicked, cache)
                | Some prefix \<Rightarrow>
                    (case keys_get_by_prefix flt prefix tbl of
                       Inl _ \<Rightarrow> (Rejected 500, cache)
                     | Inr candidates \<Rightarrow>
                         (case find (\<lambda>k. verify auth (ak_key_hash k)) candidates of
                            None \<Rightarrow> (Rejected 401, cache)
                          | Some key \<Rightarrow>
                              if ak_disabled key \<or>
                                 (case ak_expires_at key of Some e \<Rightarrow> e < now | None \<Rightarrow> False)
                              then (Rejected 401, cache)
                              else (Authenticated key, mc_insert auth key cache))))))"

section \<open>JWT authentication and the cookie check\<close>

record claims =
  cl_sub :: string
  cl_user_id :: uuid
  cl_organization_id :: uuid
  cl_role :: string
  cl_exp :: i64
  cl_iat :: i64

text \<open>\<open>decode\<close> is the library's verification of a token under a secret.\<close>

definition jwt_verify ::
  "(string \<Rightarrow> string \<Rightarrow> (string, claims) result) \<Rightarrow> string \<Rightarrow> string \<Rightarrow> (pasteur_error, claims) result" where
  "jwt_verify decode secret token = map_err PE_Auth (decode secret token)"

definition jwt_auth ::
  "(string \<Rightarrow> string \<Rightarrow> (string, claims) result) \<Rightarrow> string \<Rightarrow> string \<Rightarrow> request_head \<Rightarrow>
     claims auth_outcome" where
  "jwt_auth decode secret allowed_origin rq =
     (if \<not> origin_allowed_from_config allowed_origin rq then Rejected 403
      else (case (case Option.bind (rq_authorization rq) extract_token of
                    Some t \<Rightarrow> Some t
                  | None \<Rightarrow> cookie_value (rq_cookie rq) ''godwit_access'') of
              None \<Rightarrow> Rejected 401
            | Some auth \<Rightarrow>
                (case jwt_verify decode secret auth of
                   Inl _ \<Rightarrow> Rejected 401
                 | Inr c \<Rightarrow> Authenticated c)))"

definition cookie_csrf :: "string \<Rightarrow> request_head \<Rightarrow> unit auth_outcome" where
  "cookie_csrf allowed_origin rq =
     (if origin_allowed_from_config allowed_origin rq then Authenticated () else Rejected 403)"

section \<open>Model scope\<close>

definition is_model_allowed :: "api_key \<Rightarrow> string \<Rightarrow> bool" where
  "is_model_allowed key model \<longleftrightarrow>
     ak_allowed_models key = [] \<or> list_ex (\<lambda>m. m = model) (ak_allowed_models key)"

text \<open>\<open>parsed\<close> is the request body as JSON, if it is JSON.\<close>

definition extract_model_from_body :: "json option \<Rightarrow> string option" where
  "extract_model_from_body parsed = Option.bind (Option.bind parsed (json_get ''model'')) as_str"

definition model_scope :: "api_key \<Rightarrow> (string, json option) result \<Rightarrow> (api_error, unit) result" where
  "model_scope key body =
     (case body of
        Inl e \<Rightarrow> Err (AE_BadRequest e)
      | Inr parsed \<Rightarrow>
          (case extract_model_from_body parsed of
             Some model \<Rightarrow> if is_model_allowed key model then Ok () else Err AE_Forbidden
           | None \<Rightarrow> Ok ()))"

section \<open>Roles\<close>

definition role_from_str :: "string \<Rightarrow> user_role option" where
  "role_from_str s =
     (if s = ''super_admin'' then Some SuperAdmin
      else if s = ''org_admin'' then Some OrgAdmin
      else if s = ''team_admin'' then Some TeamAdmin
      else if s = ''user'' then Some PlainUser
      else None)"

definition can_manage_users :: "user_role \<Rightarrow> bool" where
  "can_manage_users r \<longleftrightarrow> r \<in> {SuperAdmin, OrgAdmin}"

definition can_manage_orgs :: "user_role \<Rightarrow> bool" where
  "can_manage_orgs r \<longleftrightarrow> r \<in> {SuperAdmin}"

definition can_manage_api_keys :: "user_role \<Rightarrow> bool" where
  "can_manage_api_keys r \<longleftrightarrow> r \<in> {SuperAdmin, OrgAdmin, TeamAdmin}"

lemma role_permissions_nested:
  "(can_manage_orgs r \<longrightarrow> can_manage_users r) \<and> (can_manage_users r \<longrightarrow> can_manage_api_keys r)"
  by (cases r) (simp_all add: can_manage_orgs_def can_manage_users_def can_manage_api_keys_def)

lemma role_from_str_as_str: "role_from_str (user_role_as_str r) = Some r"
  by (cases r) (simp_all add: role_from_str_def)

section \<open>What the cache of keys holds\<close>

text \<open>Every cached key verifies its token, was enabled and had not expired when it was read.\<close>

definition key_cache_ok :: "(string \<Rightarrow> string \<Rightarrow> bool) \<Rightarrow> (string, api_key) memory_cache \<Rightarrow> bool" where
  "key_cache_ok verify cache \<longleftrightarrow>
     (\<forall>tok key. mc_get tok cache = Some key \<longrightarrow> verify tok (ak_key_hash key) \<and> \<not> ak_disabled key)"

lemma keys_get_by_prefix_Ok:
  "keys_get_by_prefix flt prefix tbl = Ok ks \<Longrightarrow> k \<in> set ks \<Longrightarrow>
     k \<in> set tbl \<and> ak_key_prefix k = prefix \<and> \<not> ak_disabled k"
  by (auto simp: keys_get_by_prefix_def fetch_all_def split: option.splits)

lemma find_Some_in: "find P xs = Some x \<Longrightarrow> x \<in> set xs \<and> P x"
  by (auto simp: find_Some_iff)

lemma api_key_auth_cases:
  assumes "api_key_auth verify now0 now flt tbl rq cache = (Authenticated key, cache')"
  shows "\<exists>auth. Option.bind (rq_authorization rq) extract_token = Some auth \<and>
    ((mc_get auth cache = Some key \<and> \<not> ak_disabled key \<and>
        (\<forall>e. ak_expires_at key = Some e \<longrightarrow> now0 < e) \<and> cache' = cache) \<or>
     (key \<in> set tbl \<and> verify auth (ak_key_hash key) \<and> \<not> ak_disabled key \<and>
        (\<forall>e. ak_expires_at key = Some e \<longrightarrow> now \<le> e) \<and> cache' = mc_insert auth key cache))"
  using assms
  by (auto simp: api_key_auth_def split: option.splits sum.splits if_splits
      dest!: find_Some_in dest: keys_get_by_prefix_Ok)

lemma api_key_auth_cache_ok:
  assumes "key_cache_ok verify cache"
  shows "key_cache_ok verify (snd (api_key_auth verify now0 now flt tbl rq cache))"
proof -
  obtain r cache' where e: "api_key_auth verify now0 now flt tbl rq cache = (r, cache')" by fastforce
  show ?thesis
  proof (cases "\<exists>key. r = Authenticated key")
    case True
    then obtain key where "r = Authenticated key" ..
    with e api_key_auth_cases [of verify now0 now flt tbl rq cache key cache'] obtain auth where
      "cache' = cache \<or>
       (verify auth (ak_key_hash key) \<and> \<not> ak_disabled key \<and> cache' = mc_insert auth key cache)"
      by blast
    with assms e show ?thesis
      by (auto simp: key_cache_ok_def mc_get_def mc_insert_def split: if_splits)
  next
    case False
    with e have "cache' = cache"
      by (auto simp: api_key_auth_def split: option.splits sum.splits if_splits)
    with assms e show ?thesis by simp
  qed
qed

text \<open>A history of requests, each with its clock, its database answer and its table of keys.\<close>

datatype auth_request = AuthRequest datetime datetime fault "api_key list" request_head

fun auth_step ::
  "(string \<Rightarrow> string \<Rightarrow> bool) \<Rightarrow> (string, api_key) memory_cache \<Rightarrow> auth_request \<Rightarrow>
     (string, api_key) memory_cache" where
  "auth_step verify cache (AuthRequest now0 now flt tbl rq) =
     snd (api_key_auth verify now0 now flt tbl rq cache)"

lemma auth_history_ok: "key_cache_ok verify (foldl (auth_step verify) mc_new reqs)"
proof (induction reqs rule: rev_induct)
  case (snoc r reqs)
  then show ?case by (cases r) (simp add: api_key_auth_cache_ok)
qed (simp add: key_cache_ok_def mc_new_def mc_get_def)

text \<open>The request carries a token of this key, which is enabled and not expired.\<close>

definition genuine_key :: "(string \<Rightarrow> string \<Rightarrow> bool) \<Rightarrow> datetime \<Rightarrow> request_head \<Rightarrow> api_key \<Rightarrow> bool" where
  "genuine_key verify now rq key \<longleftrightarrow>
     (\<exists>auth. rq_authorization rq = Some (''Bearer '' @ auth) \<and> verify auth (ak_key_hash key) \<and>
        \<not> ak_disabled key \<and> (\<forall>e. ak_expires_at key = Some e \<longrightarrow> now \<le> e))"

lemma accepted_key_genuine:
  assumes "api_key_auth verify now0 now flt tbl rq cache = (Authenticated key, cache')"
    and "key_cache_ok verify cache" "now0 \<le> now"
  shows "genuine_key verify now0 rq key"
proof -
  from api_key_auth_cases [OF assms(1)] obtain auth where
    auth: "Option.bind (rq_authorization rq) extract_token = Some auth"
    and key: "(mc_get auth cache = Some key \<or> verify auth (ak_key_hash key)) \<and> \<not> ak_disabled key \<and>
        (\<forall>e. ak_expires_at key = Some e \<longrightarrow> now0 \<le> e)"
    using assms(3) by fastforce
  have "rq_authorization rq = Some (''Bearer '' @ auth)"
    using auth by (cases "rq_authorization rq") (simp_all add: extract_token_def strip_prefix_Some_iff)
  moreover have "verify auth (ak_key_hash key)"
    using key assms(2) by (auto simp: key_cache_ok_def)
  ultimately show ?thesis using key unfolding genuine_key_def by blast
qed

section \<open>Properties\<close>

text \<open>
  C7. Whatever requests came before, a request is let through only with a bearer token that
  verifies against the hash of the key it is given, and that key is marked enabled and not
  expired at the time of the request.
\<close>

theorem api_key_auth_sound:
  assumes "api_key_auth verify now0 now flt tbl rq (foldl (auth_step verify) mc_new reqs) =
      (Authenticated key, cache')"
    and "now0 \<le> now"
  shows "\<exists>auth. rq_authorization rq = Some (''Bearer '' @ auth) \<and> verify auth (ak_key_hash key) \<and>
    \<not> ak_disabled key \<and> (\<forall>e. ak_expires_at key = Some e \<longrightarrow> now0 \<le> e)"
  using accepted_key_genuine [OF assms(1) auth_history_ok assms(2)] by (simp add: genuine_key_def)

text \<open>
  Revocation does not reach the cache: once a token has been accepted, it is accepted
  with the same key on every later request until the key's recorded expiry, whatever the
  table of keys then holds (the key disabled, regenerated or deleted).
\<close>

lemma cached_key_survives_revocation:
  assumes "api_key_auth verify now0 now flt tbl rq cache = (Authenticated key, cache')"
    and "case ak_expires_at key of Some e \<Rightarrow> now0' < e | None \<Rightarrow> True"
  shows "api_key_auth verify now0' now' flt' tbl' rq cache' = (Authenticated key, cache')"
proof -
  from api_key_auth_cases [OF assms(1)] obtain auth where
    "Option.bind (rq_authorization rq) extract_token = Some auth" "\<not> ak_disabled key"
    "mc_get auth cache' = Some key"
    by (auto simp: mc_get_def mc_insert_def)
  with assms(2) show ?thesis by (simp add: api_key_auth_def)
qed

text \<open>
  A bearer token that is not cached and shorter than ten bytes makes the authentication
  panic instead of being refused, and no longer token does.
\<close>

lemma short_token_panics:
  assumes "Option.bind (rq_authorization rq) extract_token = Some auth" and "mc_get auth cache = None"
  shows "fst (api_key_auth verify now0 now flt tbl rq cache) = Panicked \<longleftrightarrow> length auth < 10"
proof -
  have "extract_prefix auth = None \<longleftrightarrow> length auth < 10"
    by (auto simp: extract_prefix_def str_slice_def key_prefix_const_def Let_def)
  with assms show ?thesis
    by (auto simp: api_key_auth_def split: option.splits sum.splits)
qed

definition sample_key :: api_key where
  "sample_key = \<lparr>ak_id = 5, ak_user_id = 1, ak_team_id = None, ak_organization_id = 1,
     ak_name = ''k'', ak_key_prefix = ''abcdef'', ak_key_hash = ''h'', ak_scopes = [],
     ak_allowed_models = [], ak_budget_limit_usd = None, ak_budget_spent_usd = 0,
     ak_rpm = None, ak_tpm = None, ak_expires_at = None, ak_disabled = False, ak_created_at = 0\<rparr>"

definition sample_head :: "string \<Rightarrow> request_head" where
  "sample_head auth = \<lparr>rq_method = POST, rq_authorization = Some (''Bearer '' @ auth),
     rq_cookie = None, rq_origin = None\<rparr>"

definition sample_verify :: "string \<Rightarrow> string \<Rightarrow> bool" where
  "sample_verify tok hash \<longleftrightarrow> tok = ''sk-godwit-abcdef'' \<and> hash = ''h''"

lemmas auth_eval = api_key_auth_def sample_head_def sample_key_def sample_verify_def
  extract_token_def strip_prefix_def starts_with_def mc_get_def mc_new_def mc_insert_def
  extract_prefix_def str_slice_def key_prefix_const_def keys_get_by_prefix_def fetch_all_def

lemma sample_auth:
  "\<exists>cache'. api_key_auth sample_verify 0 0 None [sample_key] (sample_head ''sk-godwit-abcdef'') mc_new =
     (Authenticated sample_key, cache')"
  by (simp add: auth_eval Let_def)

theorem api_key_auth_sound_witness:
  "\<exists>auth. rq_authorization (sample_head ''sk-godwit-abcdef'') = Some (''Bearer '' @ auth) \<and>
     sample_verify auth (ak_key_hash sample_key)"
proof -
  obtain cache' where "api_key_auth sample_verify 0 0 None [sample_key]
      (sample_head ''sk-godwit-abcdef'') (foldl (auth_step sample_verify) mc_new []) =
      (Authenticated sample_key, cache')"
    using sample_auth by auto
  from api_key_auth_sound [OF this] show ?thesis by auto
qed

theorem cached_key_survives_revocation_witness:
  "\<exists>cache'. api_key_auth sample_verify 1 1 None (snd (keys_set_active None 5 False [sample_key]))
     (sample_head ''sk-godwit-abcdef'') cache' = (Authenticated sample_key, cache')"
proof -
  obtain cache' where a: "api_key_auth sample_verify 0 0 None [sample_key]
      (sample_head ''sk-godwit-abcdef'') mc_new = (Authenticated sample_key, cache')"
    using sample_auth by auto
  have "ak_expires_at sample_key = None" by (simp add: sample_key_def)
  then show ?thesis
    by (intro exI [of _ cache'] cached_key_survives_revocation [OF a]) simp
qed

lemma short_token_panics_witness:
  "fst (api_key_auth sample_verify 0 0 None [] (sample_head ''sk'') mc_new) = Panicked"
  using short_token_panics [of "sample_head ''sk''" "''sk''" mc_new sample_verify 0 0 None "[]"]
  by (simp add: sample_head_def extract_token_def strip_prefix_def starts_with_def mc_get_def
      mc_new_def)

lemma model_scope_refuses:
  assumes "model_scope key (Ok (Some body)) = Ok ()" "extract_model_from_body (Some body) = Some m"
  shows "ak_allowed_models key = [] \<or> m \<in> set (ak_allowed_models key)"
  using assms by (auto simp: model_scope_def is_model_allowed_def list_ex_iff split: if_splits)

lemma jwt_auth_origin:
  assumes "jwt_auth decode secret allowed rq = Authenticated c" "is_state_changing (rq_method rq)"
    "allowed \<noteq> []"
  shows "rq_origin rq = Some allowed"
  using assms by (auto simp: jwt_auth_def origin_allowed_from_config_def split: if_splits option.splits)

end
