(* ===== verification/Sse.thy ===== *)
theory Sse
  imports Core_Types
begin

text \<open>
  Server-sent events: \<open>crates/godwit-providers/src/streaming.rs\<close> (parsing of upstream chunks,
  the canonical envelope, normalisation of OpenAI chunks) and
  \<open>crates/godwit-providers/src/sse_egress.rs\<close> (the two translators from the canonical envelope
  to wire frames). The JSON text parser and printer are parameters \<open>parse\<close> and \<open>print\<close>; where a
  theorem needs it, reading back printed JSON is a hypothesis.
\<close>

section \<open>Parsing of chunks\<close>

definition lf :: char where "lf = CHR 0x0A"
definition cr :: char where "cr = CHR 0x0D"

text \<open>\<open>str::lines\<close>: pieces between line feeds, without a final empty one, each ended line
  without the carriage return before its line feed.\<close>

definition strip_cr :: "string \<Rightarrow> string" where
  "strip_cr l = (if l \<noteq> [] \<and> last l = cr then butlast l else l)"

definition str_lines :: "string \<Rightarrow> string list" where
  "str_lines s =
     (let ps = split_on lf s; rest = last ps
      in map strip_cr (butlast ps) @ (if rest = [] then [] else [rest]))"

definition sse_line :: "string \<Rightarrow> string option" where
  "sse_line l =
     (let line = trim l
      in if line = [] \<or> line = '':'' then None
         else (case strip_prefix ''data: '' line of
                 None \<Rightarrow> None
               | Some d \<Rightarrow> if d = ''[DONE]'' then None else Some d))"

definition parse_sse_events :: "string \<Rightarrow> string list" where
  "parse_sse_events chunk = List.map_filter sse_line (str_lines chunk)"

section \<open>The canonical envelope\<close>

definition build_sse_delta :: "(json \<Rightarrow> string) \<Rightarrow> string \<Rightarrow> string" where
  "build_sse_delta print delta = print (json_obj [(''type'', JString ''delta''), (''delta'', JString delta)])"

definition build_sse_finish :: "(json \<Rightarrow> string) \<Rightarrow> i64 \<Rightarrow> i64 \<Rightarrow> string option \<Rightarrow> string" where
  "build_sse_finish print prompt_tokens completion_tokens finish_reason =
     print (json_obj ([(''type'', JString ''finish''),
       (''usage'', json_obj [(''prompt_tokens'', JInt (sint prompt_tokens)),
          (''completion_tokens'', JInt (sint completion_tokens)),
          (''total_tokens'', JInt (sint (prompt_tokens + completion_tokens)))])] @
       (case finish_reason of None \<Rightarrow> [] | Some r \<Rightarrow> [(''finish_reason'', JString r)])))"

definition build_sse_error :: "(json \<Rightarrow> string) \<Rightarrow> string \<Rightarrow> string" where
  "build_sse_error print message =
     print (json_obj [(''type'', JString ''error''), (''message'', JString message)])"

section \<open>Normalisation of OpenAI chunks\<close>

definition token_field :: "string \<Rightarrow> json option \<Rightarrow> i64" where
  "token_field k usage = unwrap_or 0 (Option.bind (Option.bind usage (json_get k)) as_i64)"

definition normalize_choice :: "(json \<Rightarrow> string) \<Rightarrow> json option \<Rightarrow> json \<Rightarrow> string list" where
  "normalize_choice print usage choice =
     (let delta = json_get ''delta'' choice;
          content = (case Option.bind (Option.bind delta (json_get ''content'')) as_str of
                       Some c \<Rightarrow> if c = [] then [] else [build_sse_delta print c]
                     | None \<Rightarrow> []);
          calls = (case Option.bind (Option.bind delta (json_get ''tool_calls'')) as_array of
                     Some tcs \<Rightarrow> map (\<lambda>call. build_sse_delta print (print call)) tcs
                   | None \<Rightarrow> []);
          finish = (case Option.bind (json_get ''finish_reason'' choice) as_str of
                      Some r \<Rightarrow> [build_sse_finish print (token_field ''prompt_tokens'' usage)
                                  (token_field ''completion_tokens'' usage) (Some r)]
                    | None \<Rightarrow> [])
      in content @ calls @ finish)"

definition normalize_openai_sse_event ::
  "(string \<Rightarrow> json option) \<Rightarrow> (json \<Rightarrow> string) \<Rightarrow> string \<Rightarrow> string list" where
  "normalize_openai_sse_event parse print raw =
     (case parse raw of
        None \<Rightarrow> []
      | Some v \<Rightarrow>
          (case Option.bind (json_get ''choices'' v) as_array of
             None \<Rightarrow> []
           | Some choices \<Rightarrow> concat (map (normalize_choice print (json_get ''usage'' v)) choices)))"

section \<open>Canonical events\<close>

datatype canonical_event =
    CE_Delta string
  | CE_ToolCall string
  | CE_Finish i32 i32 "string option"
  | CE_Error string
  | CE_Unknown

definition parse_canonical_event :: "(string \<Rightarrow> json option) \<Rightarrow> string \<Rightarrow> canonical_event" where
  "parse_canonical_event parse data =
     (case parse data of
        None \<Rightarrow> CE_Unknown
      | Some v \<Rightarrow>
          (case Option.bind (json_get ''type'' v) as_str of
             None \<Rightarrow> CE_Unknown
           | Some t \<Rightarrow>
               if t = ''delta'' then
                 (let delta = unwrap_or [] (Option.bind (json_get ''delta'' v) as_str)
                  in if starts_with ''{'' delta then CE_ToolCall delta else CE_Delta delta)
               else if t = ''finish'' then
                 CE_Finish (ucast (token_field ''prompt_tokens'' (json_get ''usage'' v)))
                   (ucast (token_field ''completion_tokens'' (json_get ''usage'' v)))
                   (Option.bind (json_get ''finish_reason'' v) as_str)
               else if t = ''error'' then
                 CE_Error (unwrap_or [] (Option.bind (json_get ''message'' v) as_str))
               else CE_Unknown))"

definition canonical_to_openai_finish :: "string option \<Rightarrow> string" where
  "canonical_to_openai_finish reason =
     (case map_option (map ascii_lower) reason of
        None \<Rightarrow> ''stop''
      | Some r \<Rightarrow>
          if r = ''end_turn'' then ''stop''
          else if r = ''max_tokens'' then ''length''
          else if r = ''tool_use'' then ''tool_calls''
          else if r = ''stop'' then ''stop''
          else if r = ''length'' then ''length''
          else if r = ''tool_calls'' then ''tool_calls''
          else if r = ''content_filter'' then ''content_filter''
          else ''stop'')"

definition canonical_to_anthropic_stop :: "string option \<Rightarrow> string" where
  "canonical_to_anthropic_stop reason =
     (case map_option (map ascii_lower) reason of
        None \<Rightarrow> ''end_turn''
      | Some r \<Rightarrow>
          if r = ''stop'' then ''end_turn''
          else if r = ''length'' then ''max_tokens''
          else if r = ''tool_calls'' then ''tool_use''
          else if r = ''end_turn'' then ''end_turn''
          else if r = ''max_tokens'' then ''max_tokens''
          else if r = ''tool_use'' then ''tool_use''
          else if r = ''content_filter'' then ''end_turn''
          else ''end_turn'')"

section \<open>Frames\<close>

datatype server_sent_frame = SF_Data string | SF_Event string string

fun frame_render :: "server_sent_frame \<Rightarrow> string" where
  "frame_render (SF_Data d) = ''data: '' @ d"
| "frame_render (SF_Event name d) = ''event: '' @ name @ [lf] @ ''data: '' @ d"

section \<open>The OpenAI translator\<close>

record openai_translator =
  ot_id :: string
  ot_model :: string
  ot_created :: i64
  ot_started :: bool
  ot_finished :: bool

definition ot_new :: "string \<Rightarrow> string \<Rightarrow> i64 \<Rightarrow> openai_translator" where
  "ot_new i m c = \<lparr>ot_id = i, ot_model = m, ot_created = c, ot_started = False, ot_finished = False\<rparr>"

definition openai_chunk ::
  "(json \<Rightarrow> string) \<Rightarrow> openai_translator \<Rightarrow> json list \<Rightarrow> server_sent_frame" where
  "openai_chunk print t choices = SF_Data (print (json_obj
     [(''id'', JString (ot_id t)), (''object'', JString ''chat.completion.chunk''),
      (''created'', JInt (sint (ot_created t))), (''model'', JString (ot_model t)),
      (''choices'', JArray choices)]))"

text \<open>\<open>openai_choice_common\<close> with \<open>choice["delta"]\<close> (and the finish reason) set.\<close>

definition openai_choice :: "json \<Rightarrow> json \<Rightarrow> json" where
  "openai_choice finish_reason delta =
     json_obj [(''index'', JInt 0), (''finish_reason'', finish_reason), (''delta'', delta)]"

definition call_fields :: "i64 \<Rightarrow> string \<Rightarrow> json \<Rightarrow> json" where
  "call_fields index i func =
     json_obj ([(''index'', JInt (sint index)), (''type'', JString ''function''), (''function'', func)] @
       (if i = [] then [] else [(''id'', JString i)]))"

definition tool_call_chunks ::
  "(string \<Rightarrow> json option) \<Rightarrow> (json \<Rightarrow> string) \<Rightarrow> openai_translator \<Rightarrow> string \<Rightarrow> server_sent_frame list" where
  "tool_call_chunks parse print t packed =
     (case parse packed of
        None \<Rightarrow> []
      | Some v \<Rightarrow>
          (let index = unwrap_or 0 (Option.bind (json_get ''index'' v) as_i64);
               i = unwrap_or [] (Option.bind (json_get ''id'' v) as_str);
               func = json_get ''function'' v;
               name = unwrap_or [] (Option.bind (Option.bind func (json_get ''name'')) as_str);
               args = unwrap_or [] (Option.bind (Option.bind func (json_get ''arguments'')) as_str);
               chunk = (\<lambda>f. openai_chunk print t [openai_choice JNull
                          (json_obj [(''tool_calls'', JArray [call_fields index i f])])])
           in (if i \<noteq> [] \<or> name \<noteq> []
               then [chunk (json_obj [(''name'', JString name), (''arguments'', JString [])])] else []) @
              (if args \<noteq> [] then [chunk (json_obj [(''arguments'', JString args)])] else [])))"

definition openai_opening :: "(json \<Rightarrow> string) \<Rightarrow> openai_translator \<Rightarrow> server_sent_frame list" where
  "openai_opening print t =
     [openai_chunk print t [openai_choice JNull
        (json_obj [(''role'', JString ''assistant''), (''content'', JString [])])]]"

fun openai_body ::
  "(string \<Rightarrow> json option) \<Rightarrow> (json \<Rightarrow> string) \<Rightarrow> openai_translator \<Rightarrow> canonical_event \<Rightarrow>
     server_sent_frame list" where
  "openai_body parse print t (CE_Delta text) =
     [openai_chunk print t [openai_choice JNull (json_obj [(''content'', JString text)])]]"
| "openai_body parse print t (CE_ToolCall packed) = tool_call_chunks parse print t packed"
| "openai_body parse print t (CE_Finish _ _ finish_reason) =
     [openai_chunk print t [openai_choice
        (JString (canonical_to_openai_finish finish_reason)) (JObject [])]]"
| "openai_body parse print t (CE_Error message) =
     [SF_Data (print (json_obj [(''error'', json_obj
        [(''message'', JString message), (''type'', JString ''server_error''),
         (''param'', JNull), (''code'', JNull)])]))]"
| "openai_body parse print t CE_Unknown = []"

fun is_terminal :: "canonical_event \<Rightarrow> bool" where
  "is_terminal (CE_Finish _ _ _) = True"
| "is_terminal (CE_Error _) = True"
| "is_terminal _ = False"

definition openai_push ::
  "(string \<Rightarrow> json option) \<Rightarrow> (json \<Rightarrow> string) \<Rightarrow> string \<Rightarrow> openai_translator \<Rightarrow>
     server_sent_frame list \<times> openai_translator" where
  "openai_push parse print data t =
     (if ot_finished t then ([], t)
      else (let frames = (if ot_started t then [] else openai_opening print t);
                t = t\<lparr>ot_started := True\<rparr>;
                ev = parse_canonical_event parse data
            in (frames @ openai_body parse print t ev,
                if is_terminal ev then t\<lparr>ot_finished := True\<rparr> else t)))"

section \<open>The Anthropic translator\<close>

record anthropic_translator =
  at_id :: string
  at_model :: string
  at_started :: bool
  at_finished :: bool

definition at_new :: "string \<Rightarrow> string \<Rightarrow> anthropic_translator" where
  "at_new i m = \<lparr>at_id = i, at_model = m, at_started = False, at_finished = False\<rparr>"

definition extract_partial_json :: "(string \<Rightarrow> json option) \<Rightarrow> string \<Rightarrow> string option" where
  "extract_partial_json parse packed =
     (case Option.bind (Option.bind (Option.bind (parse packed) (json_get ''function''))
             (json_get ''arguments'')) as_str of
        None \<Rightarrow> None
      | Some args \<Rightarrow> if args = [] then None else Some args)"

definition anthropic_opening :: "(json \<Rightarrow> string) \<Rightarrow> anthropic_translator \<Rightarrow> server_sent_frame list" where
  "anthropic_opening print t =
     [SF_Event ''message_start'' (print (json_obj [(''type'', JString ''message_start''),
        (''message'', json_obj [(''id'', JString (at_id t)), (''type'', JString ''message''),
           (''role'', JString ''assistant''), (''model'', JString (at_model t)),
           (''content'', JArray []), (''stop_reason'', JNull), (''stop_sequence'', JNull),
           (''usage'', json_obj [(''input_tokens'', JInt 0), (''output_tokens'', JInt 0)])])])),
      SF_Event ''content_block_start'' (print (json_obj [(''type'', JString ''content_block_start''),
        (''index'', JInt 0),
        (''content_block'', json_obj [(''type'', JString ''text''), (''text'', JString [])])]))]"

definition block_delta :: "(json \<Rightarrow> string) \<Rightarrow> json \<Rightarrow> server_sent_frame" where
  "block_delta print delta = SF_Event ''content_block_delta'' (print (json_obj
     [(''type'', JString ''content_block_delta''), (''index'', JInt 0), (''delta'', delta)]))"

fun anthropic_body ::
  "(string \<Rightarrow> json option) \<Rightarrow> (json \<Rightarrow> string) \<Rightarrow> canonical_event \<Rightarrow> server_sent_frame list" where
  "anthropic_body parse print (CE_Delta text) =
     [block_delta print (json_obj [(''type'', JString ''text_delta''), (''text'', JString text)])]"
| "anthropic_body parse print (CE_ToolCall packed) =
     (case extract_partial_json parse packed of
        None \<Rightarrow> []
      | Some p \<Rightarrow> [block_delta print (json_obj
          [(''type'', JString ''input_json_delta''), (''partial_json'', JString p)])])"
| "anthropic_body parse print (CE_Finish _ completion_tokens finish_reason) =
     [SF_Event ''message_delta'' (print (json_obj [(''type'', JString ''message_delta''),
        (''delta'', json_obj [(''stop_reason'', JString (canonical_to_anthropic_stop finish_reason)),
           (''stop_sequence'', JNull)]),
        (''usage'', json_obj [(''output_tokens'', JInt (sint completion_tokens))])]))]"
| "anthropic_body parse print (CE_Error message) =
     [SF_Data (print (json_obj [(''type'', JString ''error''), (''error'', json_obj
        [(''type'', JString ''api_error''), (''message'', JString message)])]))]"
| "anthropic_body parse print CE_Unknown = []"

definition message_stop :: "(json \<Rightarrow> string) \<Rightarrow> server_sent_frame" where
  "message_stop print = SF_Event ''message_stop'' (print (json_obj [(''type'', JString ''message_stop'')]))"

definition anthropic_push ::
  "(string \<Rightarrow> json option) \<Rightarrow> (json \<Rightarrow> string) \<Rightarrow> string \<Rightarrow> anthropic_translator \<Rightarrow>
     server_sent_frame list \<times> anthropic_translator" where
  "anthropic_push parse print data t =
     (if at_finished t then ([], t)
      else (let frames = (if at_started t then [] else anthropic_opening print t);
                t = t\<lparr>at_started := True\<rparr>;
                ev = parse_canonical_event parse data;
                frames = frames @ anthropic_body parse print ev;
                t = (if is_terminal ev then t\<lparr>at_finished := True\<rparr> else t)
            in (if at_finished t then frames @ [message_stop print] else frames, t)))"

section \<open>The interface of a translator\<close>

text \<open>
  Both translators open the stream at the first event, add the frames of each event, and are
  silent once a finish or an error has been pushed. \<open>body\<close> only depends on the translator's
  metadata, which no push changes.
\<close>

fun push_all :: "('e \<Rightarrow> 't \<Rightarrow> 'f list \<times> 't) \<Rightarrow> 'e list \<Rightarrow> 't \<Rightarrow> 'f list \<times> 't" where
  "push_all push [] t = ([], t)"
| "push_all push (e # es) t =
     (case push e t of (fs, t') \<Rightarrow> (case push_all push es t' of (gs, t'') \<Rightarrow> (fs @ gs, t'')))"

text \<open>The events that count: up to the first terminal one, included.\<close>

fun effective :: "('e \<Rightarrow> bool) \<Rightarrow> 'e list \<Rightarrow> 'e list" where
  "effective terminal [] = []"
| "effective terminal (e # es) = (if terminal e then [e] else e # effective terminal es)"

locale stream_translator =
  fixes push :: "'e \<Rightarrow> 't \<Rightarrow> 'f list \<times> 't"
    and started :: "'t \<Rightarrow> bool"
    and finished :: "'t \<Rightarrow> bool"
    and preamble :: "'t \<Rightarrow> 'f list"
    and body :: "'t \<Rightarrow> 'e \<Rightarrow> 'f list"
    and terminal :: "'e \<Rightarrow> bool"
  assumes push_finished: "finished t \<Longrightarrow> push e t = ([], t)"
    and push_frames: "\<not> finished t \<Longrightarrow>
      fst (push e t) = (if started t then [] else preamble t) @ body t e"
    and push_started: "\<not> finished t \<Longrightarrow> started (snd (push e t))"
    and push_terminal: "\<not> finished t \<Longrightarrow> finished (snd (push e t)) \<longleftrightarrow> terminal e"
    and push_body: "body (snd (push e t)) = body t"
begin

lemma push_all_finished: "finished t \<Longrightarrow> push_all push es t = ([], t)"
  by (induction es) (simp_all add: push_finished)

lemma push_all_started:
  "\<not> finished t \<Longrightarrow> started t \<Longrightarrow>
     fst (push_all push es t) = concat (map (body t) (effective terminal es)) \<and>
     finished (snd (push_all push es t)) = list_ex terminal es"
proof (induction es arbitrary: t)
  case (Cons e es)
  obtain fs t' where p: "push e t = (fs, t')" by fastforce
  then have t': "started t'" "finished t' \<longleftrightarrow> terminal e" "body t' = body t" "fs = body t e"
    using Cons.prems push_frames [of t e] push_started [of t e] push_terminal [of t e] push_body [of e t]
    by simp_all
  show ?case
  proof (cases "terminal e")
    case True
    then show ?thesis using p t' push_all_finished [of t' es] by simp
  next
    case False
    then show ?thesis using p t' Cons.IH [of t'] by (simp add: case_prod_beta)
  qed
qed simp

lemma push_all_exact:
  assumes "\<not> finished t" "\<not> started t" "es \<noteq> []"
  shows "fst (push_all push es t) = preamble t @ concat (map (body t) (effective terminal es)) \<and>
    finished (snd (push_all push es t)) = list_ex terminal es"
proof -
  obtain e fs where es: "es = e # fs" using assms(3) by (cases es) auto
  obtain gs t' where p: "push e t = (gs, t')" by fastforce
  then have t': "started t'" "finished t' \<longleftrightarrow> terminal e" "body t' = body t"
    "gs = preamble t @ body t e"
    using assms push_frames [of t e] push_started [of t e] push_terminal [of t e] push_body [of e t]
    by simp_all
  show ?thesis
  proof (cases "terminal e")
    case True
    then show ?thesis using es p t' push_all_finished [of t' fs] by simp
  next
    case False
    then show ?thesis using es p t' push_all_started [of t' fs] by (simp add: case_prod_beta)
  qed
qed

end

interpretation openai: stream_translator "openai_push parse print" ot_started ot_finished
    "openai_opening print" "\<lambda>t data. openai_body parse print t (parse_canonical_event parse data)"
    "\<lambda>data. is_terminal (parse_canonical_event parse data)" for parse print
proof
  fix t data
  have upd: "openai_body parse print (t\<lparr>ot_started := b\<rparr>) ev = openai_body parse print t ev"
    "openai_body parse print (t\<lparr>ot_started := b, ot_finished := c\<rparr>) ev = openai_body parse print t ev"
    for t :: openai_translator and b c ev
    by (cases ev; simp add: openai_chunk_def tool_call_chunks_def cong: option.case_cong)+
  show "ot_finished t \<Longrightarrow> openai_push parse print data t = ([], t)"
    by (simp add: openai_push_def)
  show "\<not> ot_finished t \<Longrightarrow> fst (openai_push parse print data t) =
      (if ot_started t then [] else openai_opening print t) @
      openai_body parse print t (parse_canonical_event parse data)"
    by (simp add: openai_push_def Let_def upd)
  show "\<not> ot_finished t \<Longrightarrow> ot_started (snd (openai_push parse print data t))"
    by (simp add: openai_push_def Let_def)
  show "\<not> ot_finished t \<Longrightarrow> ot_finished (snd (openai_push parse print data t)) \<longleftrightarrow>
      is_terminal (parse_canonical_event parse data)"
    by (simp add: openai_push_def Let_def)
  show "(\<lambda>d. openai_body parse print (snd (openai_push parse print data t)) (parse_canonical_event parse d)) =
      (\<lambda>d. openai_body parse print t (parse_canonical_event parse d))"
    by (simp add: openai_push_def Let_def upd fun_eq_iff)
qed

definition anthropic_frames ::
  "(string \<Rightarrow> json option) \<Rightarrow> (json \<Rightarrow> string) \<Rightarrow> string \<Rightarrow> server_sent_frame list" where
  "anthropic_frames parse print data =
     (let ev = parse_canonical_event parse data
      in anthropic_body parse print ev @ (if is_terminal ev then [message_stop print] else []))"

interpretation anthropic: stream_translator "anthropic_push parse print" at_started at_finished
    "anthropic_opening print" "\<lambda>_. anthropic_frames parse print"
    "\<lambda>data. is_terminal (parse_canonical_event parse data)" for parse print
  by unfold_locales (simp_all add: anthropic_push_def anthropic_frames_def Let_def)

section \<open>Reading the envelope back\<close>

lemma canonical_delta:
  assumes "json_codec parse print"
  shows "parse_canonical_event parse (build_sse_delta print text) =
    (if starts_with ''{'' text then CE_ToolCall text else CE_Delta text)"
proof -
  let ?v = "json_obj [(''type'', JString ''delta''), (''delta'', JString text)]"
  have "parse (print ?v) = Some ?v" by (rule json_codecD [OF assms]) auto
  then show ?thesis
    by (simp add: parse_canonical_event_def build_sse_delta_def json_get_obj Let_def)
qed

lemma canonical_finish:
  assumes "json_codec parse print"
  shows "parse_canonical_event parse (build_sse_finish print p c r) = CE_Finish (ucast p) (ucast c) r"
proof -
  let ?u = "json_obj [(''prompt_tokens'', JInt (sint p)), (''completion_tokens'', JInt (sint c)),
    (''total_tokens'', JInt (sint (p + c)))]"
  let ?v = "json_obj ([(''type'', JString ''finish''), (''usage'', ?u)] @
    (case r of None \<Rightarrow> [] | Some x \<Rightarrow> [(''finish_reason'', JString x)]))"
  have "json_wf ?u" by (rule json_obj_wf) (simp del: json_wf.simps)
  then have "parse (print ?v) = Some ?v"
    by (intro json_codecD [OF assms] json_obj_wf) (auto split: option.splits)
  moreover have "as_i64 (JInt (sint w)) = Some w" for w :: i64
    using sint_ge [of w] sint_lt [of w] by simp
  ultimately show ?thesis
    by (cases r) (simp_all add: parse_canonical_event_def build_sse_finish_def json_get_obj
        token_field_def del: as_i64.simps)
qed

lemma canonical_error:
  assumes "json_codec parse print"
  shows "parse_canonical_event parse (build_sse_error print m) = CE_Error m"
proof -
  let ?v = "json_obj [(''type'', JString ''error''), (''message'', JString m)]"
  have "parse (print ?v) = Some ?v" by (rule json_codecD [OF assms]) auto
  then show ?thesis
    by (simp add: parse_canonical_event_def build_sse_error_def json_get_obj)
qed

text \<open>The text an OpenAI client takes from a frame: \<open>choices[0].delta.content\<close>.\<close>

fun frame_text :: "(string \<Rightarrow> json option) \<Rightarrow> server_sent_frame \<Rightarrow> string" where
  "frame_text parse (SF_Data d) =
     (case Option.bind (Option.bind (parse d) (json_get ''choices'')) as_array of
        Some (choice # _) \<Rightarrow>
          unwrap_or [] (Option.bind (Option.bind (json_get ''delta'' choice) (json_get ''content'')) as_str)
      | _ \<Rightarrow> [])"
| "frame_text parse (SF_Event _ _) = []"

lemma openai_choice_wf: "json_wf r \<Longrightarrow> json_wf d \<Longrightarrow> json_wf (openai_choice r d)"
  by (auto simp: openai_choice_def)

lemma frame_text_chunk:
  assumes "json_codec parse print" "json_wf r" "json_wf d"
  shows "frame_text parse (openai_chunk print t [openai_choice r d]) =
    unwrap_or [] (Option.bind (json_get ''content'' d) as_str)"
proof -
  let ?v = "json_obj [(''id'', JString (ot_id t)), (''object'', JString ''chat.completion.chunk''),
      (''created'', JInt (sint (ot_created t))), (''model'', JString (ot_model t)),
      (''choices'', JArray [openai_choice r d])]"
  have "parse (print ?v) = Some ?v"
    using openai_choice_wf [OF assms(2,3)]
    by (intro json_codecD [OF assms(1)] json_obj_wf) (simp del: json_wf.simps(1))
  then show ?thesis by (simp add: openai_chunk_def json_get_obj openai_choice_def)
qed

lemma frame_text_delta:
  "json_codec parse print \<Longrightarrow> concat (map (frame_text parse) (openai_body parse print t (CE_Delta s))) = s"
  by (simp add: frame_text_chunk json_obj_wf json_get_obj)

lemma frame_text_finish:
  "json_codec parse print \<Longrightarrow>
     concat (map (frame_text parse) (openai_body parse print t (CE_Finish p c r))) = []"
  by (simp add: frame_text_chunk obj_ok_def)

lemma frame_text_opening:
  "json_codec parse print \<Longrightarrow> concat (map (frame_text parse) (openai_opening print t)) = []"
  by (simp add: openai_opening_def frame_text_chunk json_obj_wf json_get_obj)

lemma effective_text:
  assumes "list_all (\<lambda>e. \<not> terminal e) es" "terminal f"
  shows "effective terminal (es @ f # gs) = es @ [f]"
  using assms by (induction es) auto

section \<open>Properties\<close>

text \<open>
  The OpenAI stream of a request is the role chunk, then the chunks of each canonical
  event up to the first finish or error event, and nothing after it: no event before the end
  is lost, doubled or reordered by the translator's state, and events after the end are
  silent.
\<close>

lemma openai_stream_exact:
  assumes "es \<noteq> []"
  shows "fst (push_all (openai_push parse print) es (ot_new i m c)) =
    openai_opening print (ot_new i m c) @
    concat (map (\<lambda>d. openai_body parse print (ot_new i m c) (parse_canonical_event parse d))
      (effective (\<lambda>d. is_terminal (parse_canonical_event parse d)) es))"
  using openai.push_all_exact [of "ot_new i m c" es parse print] assms by (simp add: ot_new_def)

lemma openai_stream_exact_witness:
  "fst (push_all (openai_push (\<lambda>_. None) coded_print) [''x'', ''y''] (ot_new ''i'' ''m'' 7)) =
     openai_opening coded_print (ot_new ''i'' ''m'' 7)"
  using openai_stream_exact [of "[''x'', ''y'']" "\<lambda>_. None" coded_print "''i''" "''m''" 7]
  by (simp add: parse_canonical_event_def)

text \<open>
  The Anthropic stream is framed once: \<open>message_start\<close> and \<open>content_block_start\<close> first,
  then the frames of each event up to the first finish or error, whose frames end with the
  only \<open>message_stop\<close>; it ends with one exactly when the events contain a finish or an error.
\<close>

lemma anthropic_stream_exact:
  assumes "es \<noteq> []"
  shows "fst (push_all (anthropic_push parse print) es (at_new i m)) =
      anthropic_opening print (at_new i m) @
      concat (map (anthropic_frames parse print)
        (effective (\<lambda>d. is_terminal (parse_canonical_event parse d)) es)) \<and>
    at_finished (snd (push_all (anthropic_push parse print) es (at_new i m))) =
      list_ex (\<lambda>d. is_terminal (parse_canonical_event parse d)) es"
  using anthropic.push_all_exact [of "at_new i m" es parse print] assms by (simp add: at_new_def)

theorem anthropic_stream_exact_witness:
  "at_finished (snd (push_all (anthropic_push coded_parse coded_print)
     [build_sse_error coded_print ''e''] (at_new ''i'' ''m'')))"
  using anthropic_stream_exact [of "[build_sse_error coded_print ''e'']" coded_parse coded_print "''i''" "''m''"]
  by (simp add: canonical_error [OF coded_codec])

text \<open>
  Text passes the OpenAI egress unchanged: when no fragment begins with a brace, the
  client reads the concatenation of the fragments the provider sent.
\<close>

lemma openai_text_preserved:
  assumes "json_codec parse print" and "list_all (\<lambda>s. \<not> starts_with ''{'' s) texts"
  shows "concat (map (frame_text parse) (fst (push_all (openai_push parse print)
      (map (build_sse_delta print) texts @ [build_sse_finish print p c r]) (ot_new i m created)))) =
    concat texts"
proof -
  let ?t = "ot_new i m created" and ?es = "map (build_sse_delta print) texts"
  let ?fin = "\<lambda>d. is_terminal (parse_canonical_event parse d)"
  have eff: "effective ?fin (?es @ [build_sse_finish print p c r]) =
      ?es @ [build_sse_finish print p c r]"
    using assms by (intro effective_text)
      (auto simp: list_all_iff canonical_delta canonical_finish)
  have "concat (map (frame_text parse) (concat (map (\<lambda>d. openai_body parse print ?t
      (parse_canonical_event parse d)) ?es))) = concat texts"
    using assms(2)
    by (induction texts) (simp_all add: canonical_delta [OF assms(1)] frame_text_delta [OF assms(1)]
        del: openai_body.simps)
  moreover have "fst (push_all (openai_push parse print) (?es @ [build_sse_finish print p c r]) ?t) =
      openai_opening print ?t @ concat (map (\<lambda>d. openai_body parse print ?t
        (parse_canonical_event parse d)) (?es @ [build_sse_finish print p c r]))"
    using openai.push_all_exact [of ?t "?es @ [build_sse_finish print p c r]" parse print, THEN conjunct1]
    unfolding eff by (simp only: ot_new_def openai_translator.simps) simp
  ultimately show ?thesis
    by (simp add: frame_text_opening [OF assms(1)] canonical_finish [OF assms(1)]
        frame_text_finish [OF assms(1)] del: openai_body.simps)
qed

theorem openai_text_preserved_witness:
  "concat (map (frame_text coded_parse) (fst (push_all (openai_push coded_parse coded_print)
      (map (build_sse_delta coded_print) [''Hel'', ''lo''] @ [build_sse_finish coded_print 1 2 None])
      (ot_new ''i'' ''m'' 0)))) = ''Hello''"
  using openai_text_preserved [OF coded_codec, of "[''Hel'', ''lo'']" 1 2 None "''i''" "''m''" 0]
  by (simp add: starts_with_def)

text \<open>
  A text fragment that begins with a brace is taken for a tool call and disappears: when
  it is not itself JSON, neither translator emits any frame for it.
\<close>

lemma brace_text_lost:
  assumes "json_codec parse print" and "starts_with ''{'' text" and "parse text = None"
    and "ot_started t" and "at_started u"
  shows "fst (openai_push parse print (build_sse_delta print text) t) = [] \<and>
    fst (anthropic_push parse print (build_sse_delta print text) u) = []"
proof -
  have "parse_canonical_event parse (build_sse_delta print text) = CE_ToolCall text"
    using assms(2) by (simp add: canonical_delta [OF assms(1)])
  with assms(3-5) show ?thesis
    by (simp add: openai_push_def anthropic_push_def Let_def tool_call_chunks_def
        extract_partial_json_def)
qed

lemma brace_text_lost_witness:
  "fst (openai_push coded_parse coded_print (build_sse_delta coded_print ''{ a set }'')
      ((ot_new ''i'' ''m'' 0)\<lparr>ot_started := True\<rparr>)) = []"
proof -
  have "coded_parse ''{ a set }'' = None" by (simp add: coded_parse_def is_digit_def)
  then show ?thesis
    using brace_text_lost [OF coded_codec, of "''{ a set }''" "(ot_new ''i'' ''m'' 0)\<lparr>ot_started := True\<rparr>"
        "(at_new ''i'' ''m'')\<lparr>at_started := True\<rparr>"]
    by (simp add: starts_with_def)
qed

lemma finish_reason_translations:
  "canonical_to_openai_finish (Some (canonical_to_anthropic_stop r)) =
     (if canonical_to_openai_finish r = ''content_filter'' then ''stop''
      else canonical_to_openai_finish r)"
  by (cases r) (simp_all add: canonical_to_openai_finish_def canonical_to_anthropic_stop_def
      ascii_lower_def)

end
