(* ===== verification/Guardrails.thy ===== *)
theory Guardrails
  imports Core_Types
begin

text \<open>
  Masking of personal data and moderation around a chat call:
  \<open>crates/godwit-core/src/pii_masking.rs\<close> and \<open>guardrails.rs\<close>. Regular expressions are a
  parameter: a pattern is the function that lists the matches of \<open>find_iter\<close>, as byte
  positions. Offsets are \<open>usize\<close> words; \<open>checks\<close> says whether the build traps overflow (a
  debug build) or wraps (a release build). A panic is \<open>None\<close>. The HTTP exchange with the
  moderation service is a parameter.
\<close>

section \<open>Strings\<close>

text \<open>Ranges of a \<open>str\<close> must lie on character boundaries: no continuation byte may follow.\<close>

definition boundary_before :: "string \<Rightarrow> bool" where
  "boundary_before s = (case s of [] \<Rightarrow> True | c # _ \<Rightarrow> \<not> (0x80 \<le> byte c \<and> byte c < 0xC0))"

definition range_ok :: "string \<Rightarrow> nat \<Rightarrow> nat \<Rightarrow> bool" where
  "range_ok s a b \<longleftrightarrow> a \<le> b \<and> b \<le> length s \<and> boundary_before (drop a s) \<and> boundary_before (drop b s)"

definition slice :: "string \<Rightarrow> nat \<Rightarrow> nat \<Rightarrow> string option" where
  "slice s a b = (if range_ok s a b then Some (take (b - a) (drop a s)) else None)"

definition replace_range :: "string \<Rightarrow> nat \<Rightarrow> nat \<Rightarrow> string \<Rightarrow> string option" where
  "replace_range s a b r = (if range_ok s a b then Some (take a s @ r @ drop b s) else None)"

definition usize_sub :: "bool \<Rightarrow> usize \<Rightarrow> usize \<Rightarrow> usize option" where
  "usize_sub checks x y = (if checks \<and> x < y then None else Some (x - y))"

definition usize_add :: "bool \<Rightarrow> usize \<Rightarrow> usize \<Rightarrow> usize option" where
  "usize_add checks x y = (if checks \<and> x + y < x then None else Some (x + y))"

section \<open>The masker\<close>

record pii_pattern =
  pii_name :: string
  pii_find_iter :: "string \<Rightarrow> (nat \<times> nat) list"
  pii_replacement :: string

type_synonym replacement = "usize \<times> usize \<times> string \<times> string"

record pii_masker =
  pm_patterns :: "pii_pattern list"
  pm_mask_map :: "string \<rightharpoonup> replacement list"

definition pm_new :: "pii_pattern list \<Rightarrow> pii_masker" where
  "pm_new patterns = \<lparr>pm_patterns = patterns, pm_mask_map = Map.empty\<rparr>"

fun mask_matches ::
  "bool \<Rightarrow> string \<Rightarrow> (nat \<times> nat) list \<Rightarrow> usize \<Rightarrow> string \<Rightarrow> replacement list \<Rightarrow>
     (string \<times> replacement list) option" where
  "mask_matches checks placeholder [] offset masked reps = Some (masked, reps)"
| "mask_matches checks placeholder ((match_start, match_end) # ms) offset masked reps =
     Option.bind (usize_sub checks (of_nat match_start) offset) (\<lambda>start.
     Option.bind (usize_sub checks (of_nat match_end) offset) (\<lambda>end.
     Option.bind (slice masked (unat start) (unat end)) (\<lambda>original.
     Option.bind (replace_range masked (unat start) (unat end) placeholder) (\<lambda>masked'.
     Option.bind (usize_sub checks end start) (\<lambda>len.
     Option.bind (usize_sub checks len (of_nat (length placeholder))) (\<lambda>d.
     Option.bind (usize_add checks offset d) (\<lambda>offset'.
     mask_matches checks placeholder ms offset' masked'
       (reps @ [(start, end, original, placeholder)]))))))))"

fun mask_patterns ::
  "bool \<Rightarrow> pii_pattern list \<Rightarrow> string \<Rightarrow> replacement list \<Rightarrow> (string \<times> replacement list) option" where
  "mask_patterns checks [] masked reps = Some (masked, reps)"
| "mask_patterns checks (p # ps) masked reps =
     Option.bind (mask_matches checks (pii_replacement p) (pii_find_iter p masked) 0 masked reps)
       (\<lambda>(masked', reps'). mask_patterns checks ps masked' reps')"

definition pii_mask ::
  "bool \<Rightarrow> string \<Rightarrow> string \<Rightarrow> pii_masker \<Rightarrow> (string \<times> pii_masker) option" where
  "pii_mask checks text request_id pm =
     map_option (\<lambda>(masked, reps). (masked, pm\<lparr>pm_mask_map := (pm_mask_map pm)(request_id \<mapsto> reps)\<rparr>))
       (mask_patterns checks (pm_patterns pm) text [])"

text \<open>
  The offset is an \<open>isize\<close>; a placeholder position is its sum with the recorded start, cast
  to \<open>usize\<close>. Texts are shorter than \<open>2 ^ 63\<close> bytes, so the signed sums do not overflow.
\<close>

fun unmask_loop :: "bool \<Rightarrow> replacement list \<Rightarrow> i64 \<Rightarrow> string \<Rightarrow> string option" where
  "unmask_loop checks [] offset unmasked = Some unmasked"
| "unmask_loop checks ((start, end, original, placeholder) # reps) offset unmasked =
     (let placeholder_start = start + offset; placeholder_len = of_nat (length placeholder)
      in Option.bind (usize_add checks placeholder_start placeholder_len) (\<lambda>placeholder_end.
         Option.bind (replace_range unmasked (unat placeholder_start) (unat placeholder_end) original)
           (unmask_loop checks reps (offset + (of_nat (length original) - placeholder_len)))))"

definition pii_unmask :: "bool \<Rightarrow> string \<Rightarrow> string \<Rightarrow> pii_masker \<Rightarrow> string option \<times> pii_masker" where
  "pii_unmask checks masked_text request_id pm =
     (case pm_mask_map pm request_id of
        Some reps \<Rightarrow>
          (unmask_loop checks reps 0 masked_text,
           pm\<lparr>pm_mask_map := (pm_mask_map pm)(request_id := None)\<rparr>)
      | None \<Rightarrow> (Some masked_text, pm))"

text \<open>
  \<open>regex\<close> compiles an expression to its \<open>find_iter\<close>; in the literals below a tilde stands for
  the backslash.
\<close>

definition re_literal :: "string \<Rightarrow> string" where
  "re_literal s = replace_char (CHR ''~'') [CHR 0x5C] s"

definition default_patterns :: "(string \<Rightarrow> string \<Rightarrow> (nat \<times> nat) list) \<Rightarrow> pii_pattern list" where
  "default_patterns regex =
     [\<lparr>pii_name = ''phone'', pii_find_iter = regex (re_literal ''~b~d{3}-~d{2}-~d{4}~b''),
       pii_replacement = ''[SSN]''\<rparr>,
      \<lparr>pii_name = ''credit_card'',
       pii_find_iter = regex (re_literal ''~b~d{4}[-~s]?~d{4}[-~s]?~d{4}[-~s]?~d{4}~b''),
       pii_replacement = ''[CARD]''\<rparr>,
      \<lparr>pii_name = ''email'',
       pii_find_iter = regex (re_literal ''[a-zA-Z0-9._%+-]+@[a-zA-Z0-9.-]+~.[a-zA-Z]{2,}''),
       pii_replacement = ''[EMAIL]''\<rparr>,
      \<lparr>pii_name = ''phone'',
       pii_find_iter = regex (re_literal ''~b~d{3}[-.~s]?~d{3}[-.~s]?~d{4}~b''),
       pii_replacement = ''[PHONE]''\<rparr>]"

section \<open>What masking does\<close>

text \<open>
  The matches of \<open>find_iter\<close>: in order, without overlap, on character boundaries.
\<close>

fun matches_ok :: "string \<Rightarrow> nat \<Rightarrow> (nat \<times> nat) list \<Rightarrow> bool" where
  "matches_ok text pos [] \<longleftrightarrow> pos \<le> length text"
| "matches_ok text pos ((a, b) # ms) \<longleftrightarrow> pos \<le> a \<and> range_ok text a b \<and> matches_ok text b ms"

text \<open>The text from \<open>pos\<close> on with every match replaced, and what is recorded of it.\<close>

fun redact :: "string \<Rightarrow> string \<Rightarrow> nat \<Rightarrow> (nat \<times> nat) list \<Rightarrow> string" where
  "redact placeholder text pos [] = drop pos text"
| "redact placeholder text pos ((a, b) # ms) =
     take (a - pos) (drop pos text) @ placeholder @ redact placeholder text b ms"

fun records :: "string \<Rightarrow> string \<Rightarrow> nat \<Rightarrow> nat \<Rightarrow> (nat \<times> nat) list \<Rightarrow> replacement list" where
  "records placeholder text pos done [] = []"
| "records placeholder text pos done ((a, b) # ms) =
     (of_nat (done + (a - pos)), of_nat (done + (b - pos)),
      take (b - a) (drop a text), placeholder)
     # records placeholder text b (done + (a - pos) + length placeholder) ms"

definition long_enough :: "string \<Rightarrow> (nat \<times> nat) list \<Rightarrow> bool" where
  "long_enough placeholder ms = list_all (\<lambda>(a, b). length placeholder \<le> b - a) ms"

lemma range_ok_append: "range_ok (p @ s) (length p + a) (length p + b) = range_ok s a b"
  by (simp add: range_ok_def)

lemma slice_append: "slice (p @ s) (length p + a) (length p + b) = slice s a b"
  by (simp add: slice_def range_ok_append)

lemma replace_range_append:
  "replace_range (p @ s) (length p + a) (length p + b) r = map_option ((@) p) (replace_range s a b r)"
  by (simp add: replace_range_def range_ok_append)

lemma range_ok_drop:
  "pos \<le> a \<Longrightarrow> a \<le> b \<Longrightarrow> pos \<le> length text \<Longrightarrow>
     range_ok (drop pos text) (a - pos) (b - pos) = range_ok text a b"
  by (auto simp: range_ok_def)

lemma matches_ok_le: "matches_ok text pos ms \<Longrightarrow> pos \<le> length text"
  by (induction "text" pos ms rule: matches_ok.induct) (auto simp: range_ok_def)

lemma unat_small: "n < 2 ^ 64 \<Longrightarrow> unat (of_nat n :: 64 word) = n"
  by (simp add: unat_of_nat take_bit_nat_eq_self)


lemma word_nat_less: "m < 2 ^ 64 \<Longrightarrow> n < 2 ^ 64 \<Longrightarrow> (of_nat m :: 64 word) < of_nat n \<longleftrightarrow> m < n"
  by (simp add: word_less_nat_alt unat_small)

lemma word_nat_not_less: "n \<le> m \<Longrightarrow> m < 2 ^ 63 \<Longrightarrow> \<not> (of_nat m :: 64 word) < of_nat n"
  by (simp add: word_nat_less)

text \<open>
  The offset after the text up to \<open>pos\<close> became \<open>d\<close> bytes is \<open>pos - d\<close>, as a word: where
  overflow traps, \<open>d \<le> pos\<close> is needed; where it wraps, the subtractions cancel.
\<close>

lemma sub_offset:
  assumes "pos \<le> a" and "a < 2 ^ 63" and "checks \<Longrightarrow> d \<le> pos"
  shows "usize_sub checks (of_nat a) (of_nat pos - of_nat d) = Some (of_nat (d + (a - pos)))"
proof -
  have "\<not> (of_nat a :: 64 word) < of_nat pos - of_nat d" if checks
    unfolding of_nat_diff [OF assms(3) [OF that], symmetric]
    using assms by (intro word_nat_not_less) auto
  then show ?thesis using assms(1) by (auto simp: usize_sub_def of_nat_diff)
qed

lemma sub_nats:
  assumes "checks \<Longrightarrow> s \<le> e" and "s < 2 ^ 63" and "e < 2 ^ 63"
  shows "usize_sub checks (of_nat e) (of_nat s) = Some (of_nat e - of_nat s)"
  using assms by (auto simp: usize_sub_def word_nat_less)

lemma add_offset:
  assumes "pos \<le> a" and "a \<le> b" and "b < 2 ^ 63" and "checks \<Longrightarrow> d \<le> pos \<and> l \<le> b - a"
  shows "usize_add checks (of_nat pos - of_nat d) (of_nat (b - a) - of_nat l) =
    Some (of_nat b - of_nat (d + (a - pos) + l))"
proof -
  have sum: "of_nat pos - of_nat d + (of_nat (b - a) - of_nat l) =
      (of_nat b - of_nat (d + (a - pos) + l) :: usize)"
    using assms(1,2) by (simp add: of_nat_diff)
  have "\<not> of_nat b - of_nat (d + (a - pos) + l) < (of_nat pos - of_nat d :: usize)" if checks
  proof -
    have "d + (a - pos) + l \<le> b" and "d \<le> pos" using assms that by auto
    then have eqs: "of_nat b - of_nat (d + (a - pos) + l) = (of_nat (b - (d + (a - pos) + l)) :: usize)"
      "of_nat pos - of_nat d = (of_nat (pos - d) :: usize)"
      by (simp_all only: of_nat_diff)
    have "pos - d \<le> b - (d + (a - pos) + l)" using assms that by auto
    then show ?thesis unfolding eqs using assms(3) by (intro word_nat_not_less) auto
  qed
  then show ?thesis unfolding usize_add_def sum by auto
qed

lemma mask_matches_exact:
  assumes "matches_ok text pos ms" and "length text < 2 ^ 63"
    and "length done + (length text - pos) + length ms * length placeholder < 2 ^ 63"
    and "checks \<Longrightarrow> length done \<le> pos \<and> long_enough placeholder ms"
  shows "mask_matches checks placeholder ms (of_nat pos - of_nat (length done))
      (done @ drop pos text) reps =
    Some (done @ redact placeholder text pos ms, reps @ records placeholder text pos (length done) ms)"
  using assms
proof (induction ms arbitrary: pos "done" reps)
  case Nil
  then show ?case by simp
next
  case (Cons m ms)
  obtain a b where m: "m = (a, b)" by force
  let ?done = "done @ take (a - pos) (drop pos text) @ placeholder"
  have ord: "pos \<le> a" "a \<le> b" "b \<le> length text" "range_ok text a b" "matches_ok text b ms"
    using Cons.prems(1) by (auto simp: m range_ok_def)
  have len: "length ?done = length done + (a - pos) + length placeholder"
    using ord by simp
  have small: "length done + (b - pos) < 2 ^ 63" "length placeholder < 2 ^ 63"
    "length ?done + (length text - b) + length ms * length placeholder < 2 ^ 63"
    using Cons.prems(3) ord unfolding len by (auto simp: m)
  have rng: "range_ok (done @ drop pos text) (length done + (a - pos)) (length done + (b - pos))"
    using ord matches_ok_le [OF Cons.prems(1)] by (simp only: range_ok_append range_ok_drop)
  have repl: "replace_range (done @ drop pos text) (length done + (a - pos)) (length done + (b - pos))
      placeholder = Some (?done @ drop b text)"
    using rng ord by (simp add: replace_range_def)
  have slc: "slice (done @ drop pos text) (length done + (a - pos)) (length done + (b - pos)) =
      Some (take (b - a) (drop a text))"
    using rng ord by (simp add: slice_def)
  have w: "unat (of_nat (length done + (a - pos)) :: usize) = length done + (a - pos)"
    "unat (of_nat (length done + (b - pos)) :: usize) = length done + (b - pos)"
    using small(1) ord by (intro unat_small, simp, intro unat_small, simp)
  have diff: "of_nat (length done + (b - pos)) - of_nat (length done + (a - pos)) = (of_nat (b - a) :: usize)"
    using ord by (simp add: of_nat_diff)
  have chk: "checks \<Longrightarrow> length done \<le> pos \<and> length placeholder \<le> b - a \<and> long_enough placeholder ms"
    using Cons.prems(4) by (auto simp: m long_enough_def)
  have sub1: "usize_sub checks (of_nat a) (of_nat pos - of_nat (length done)) =
      Some (of_nat (length done + (a - pos)))"
    and sub2: "usize_sub checks (of_nat b) (of_nat pos - of_nat (length done)) =
      Some (of_nat (length done + (b - pos)))"
    using ord Cons.prems(2) chk by (intro sub_offset, simp, simp, blast)+
  have sub3: "usize_sub checks (of_nat (length done + (b - pos))) (of_nat (length done + (a - pos))) =
      Some (of_nat (b - a))"
    unfolding diff [symmetric] using ord small(1) by (intro sub_nats) auto
  have sub4: "usize_sub checks (of_nat (b - a)) (of_nat (length placeholder)) =
      Some (of_nat (b - a) - of_nat (length placeholder))"
    using ord small(2) Cons.prems(2) chk by (intro sub_nats) auto
  have add: "usize_add checks (of_nat pos - of_nat (length done))
      (of_nat (b - a) - of_nat (length placeholder)) = Some (of_nat b - of_nat (length ?done))"
    unfolding len using ord Cons.prems(2) chk by (intro add_offset) auto
  have ih: "mask_matches checks placeholder ms (of_nat b - of_nat (length ?done)) (?done @ drop b text) reps' =
      Some (?done @ redact placeholder text b ms, reps' @ records placeholder text b (length ?done) ms)"
    for reps'
    using ord chk small(3) Cons.prems(2) len by (intro Cons.IH) auto
  show ?case
    unfolding m by (simp only: mask_matches.simps sub1 sub2 sub3 sub4 add w slc repl ih bind.simps)
      (simp add: len del: of_nat_add length_append)
qed


lemma boundary_append:
  "boundary_before (x @ y) \<longleftrightarrow> (if x = [] then boundary_before y else boundary_before x)"
  by (cases x) (auto simp: boundary_before_def)

lemma boundary_take: "boundary_before x \<Longrightarrow> boundary_before (take n x)"
  by (cases x; cases n) (auto simp: boundary_before_def)

lemma boundary_redact:
  assumes "matches_ok text pos ms" and "boundary_before (drop pos text)" and "boundary_before placeholder"
  shows "boundary_before (redact placeholder text pos ms)"
  using assms
proof (induction placeholder "text" pos ms rule: redact.induct)
  case (2 placeholder "text" pos a b ms)
  then have "boundary_before (redact placeholder text b ms)" by (auto simp: range_ok_def)
  with 2 show ?case by (auto simp: boundary_append boundary_take)
qed simp

lemma unmask_loop_exact:
  assumes "matches_ok text pos ms" and "length text < 2 ^ 63" and "length placeholder < 2 ^ 63"
    and "boundary_before placeholder"
  shows "unmask_loop checks (records placeholder text pos d ms) (of_nat pos - of_nat d)
      (take pos text @ redact placeholder text pos ms) = Some text"
  using assms
proof (induction ms arbitrary: pos d)
  case (Cons m ms)
  obtain a b where m: "m = (a, b)" by force
  let ?d = "d + (a - pos) + length placeholder"
  have ord: "pos \<le> a" "a \<le> b" "b \<le> length text" "range_ok text a b" "matches_ok text b ms"
    using Cons.prems(1) by (auto simp: m range_ok_def)
  have start: "of_nat (d + (a - pos)) + (of_nat pos - of_nat d) = (of_nat a :: usize)"
    using ord(1) by (simp add: of_nat_diff)
  have offset: "of_nat pos - of_nat d + (of_nat (b - a) - of_nat (length placeholder)) =
      (of_nat b - of_nat ?d :: usize)"
    using ord(1,2) by (simp add: of_nat_diff)
  have pre: "take pos text @ take (a - pos) (drop pos text) = take a text"
    using ord(1) by (metis take_add le_add_diff_inverse)
  have orig: "take a text @ take (b - a) (drop a text) = take b text"
    using ord(2) by (metis take_add le_add_diff_inverse)
  have "boundary_before (redact placeholder text b ms)"
    using ord Cons.prems(4) by (intro boundary_redact) (auto simp: range_ok_def)
  then have rng: "range_ok (take a text @ placeholder @ redact placeholder text b ms) a (a + length placeholder)"
    using ord Cons.prems(4) by (auto simp: range_ok_def boundary_append)
  have repl: "replace_range (take a text @ placeholder @ redact placeholder text b ms)
      a (a + length placeholder) (take (b - a) (drop a text)) =
    Some (take b text @ redact placeholder text b ms)"
    using rng ord by (simp add: replace_range_def flip: orig)
  have add: "usize_add checks (of_nat a) (of_nat (length placeholder)) = Some (of_nat (a + length placeholder))"
    and w: "unat (of_nat a :: usize) = a" "unat (of_nat (a + length placeholder) :: usize) = a + length placeholder"
    using ord Cons.prems(2,3)
    by (simp_all add: usize_add_def word_nat_less unat_small flip: of_nat_add)
  have len: "length (take (b - a) (drop a text)) = b - a" using ord by simp
  have whole: "take pos text @ redact placeholder text pos ((a, b) # ms) =
      take a text @ placeholder @ redact placeholder text b ms"
    using pre by (simp flip: append_assoc)
  show ?case
    unfolding m whole using Cons.IH [OF ord(5) Cons.prems(2-4), of ?d]
    by (simp only: records.simps unmask_loop.simps Let_def start add w repl bind.simps len offset)
qed simp

text \<open>
  Masking is undone by unmasking: with one pattern, masking replaces every match and
  nothing else, never panics (in a checked build, when no match is shorter than its
  placeholder), and unmasking the masked text returns the original text and forgets the
  request.
\<close>

lemma pii_roundtrip:
  assumes "matches_ok text 0 (pii_find_iter p text)"
    and "length text + length (pii_find_iter p text) * length (pii_replacement p) < 2 ^ 63"
    and "length (pii_replacement p) < 2 ^ 63" and "boundary_before (pii_replacement p)"
    and "checks \<longrightarrow> long_enough (pii_replacement p) (pii_find_iter p text)"
  shows "\<exists>pm. pii_mask checks text rid \<lparr>pm_patterns = [p], pm_mask_map = m\<rparr> =
      Some (redact (pii_replacement p) text 0 (pii_find_iter p text), pm) \<and>
    pii_unmask checks (redact (pii_replacement p) text 0 (pii_find_iter p text)) rid pm =
      (Some text, \<lparr>pm_patterns = [p], pm_mask_map = m(rid := None)\<rparr>)"
  using mask_matches_exact [of "text" 0 "pii_find_iter p text" "[]" "pii_replacement p" checks "[]"]
    unmask_loop_exact [of "text" 0 "pii_find_iter p text" "pii_replacement p" checks 0] assms
  by (simp add: pii_mask_def pii_unmask_def)

definition at_sign_pattern :: pii_pattern where
  "at_sign_pattern = \<lparr>pii_name = ''email'',
     pii_find_iter = (\<lambda>s. if s = ''mail jo@example.org now'' then [(5, 19)] else []),
     pii_replacement = ''[EMAIL]''\<rparr>"

theorem pii_roundtrip_witness:
  "\<exists>pm. pii_mask True ''mail jo@example.org now'' ''r1'' (pm_new [at_sign_pattern]) =
      Some (''mail [EMAIL] now'', pm) \<and>
    fst (pii_unmask True ''mail [EMAIL] now'' ''r1'' pm) = Some ''mail jo@example.org now''"
  using pii_roundtrip [of "''mail jo@example.org now''" at_sign_pattern True "''r1''" Map.empty]
  by (auto simp: at_sign_pattern_def pm_new_def range_ok_def boundary_before_def byte_def long_enough_def)

text \<open>
  Unmasking is applied to the answer of the model, not to the masked request: an answer
  that ends before the position of the first placeholder of the request makes it panic.
\<close>

lemma unmask_short_answer_panics:
  assumes "pm_mask_map pm rid = Some ((start, e, original, placeholder) # reps)"
    and "length answer < unat start + length placeholder"
    and "unat start + length placeholder < 2 ^ 63"
  shows "fst (pii_unmask checks answer rid pm) = None"
proof -
  have "unat (start + of_nat (length placeholder)) = unat start + length placeholder"
    using assms(3) unat_small [of "unat start + length placeholder"] by simp
  with assms show ?thesis
    by (auto simp: pii_unmask_def Let_def usize_add_def replace_range_def range_ok_def)
qed


definition long_text :: string where
  "long_text = ''my long question about jo@example.org''"

definition long_text_pattern :: pii_pattern where
  "long_text_pattern = \<lparr>pii_name = ''email'',
     pii_find_iter = (\<lambda>s. if s = long_text then [(23, 37)] else []), pii_replacement = ''[EMAIL]''\<rparr>"

theorem unmask_short_answer_panics_witness:
  "map_option (\<lambda>(masked, pm). fst (pii_unmask True ''Yes.'' ''r1'' pm))
     (pii_mask True long_text ''r1'' (pm_new [long_text_pattern])) = Some None"
proof -
  have "mask_patterns True [long_text_pattern] long_text [] =
      Some (''my long question about [EMAIL]'', [(23, 37, ''jo@example.org'', ''[EMAIL]'')])"
    using mask_matches_exact [of long_text 0 "[(23, 37)]" "[]" "''[EMAIL]''" True "[]"]
    by (simp add: long_text_def long_text_pattern_def range_ok_def boundary_before_def byte_def
        long_enough_def)
  then show ?thesis
    using unmask_short_answer_panics [of "(pm_new [long_text_pattern])\<lparr>pm_mask_map :=
        [''r1'' \<mapsto> [(23, 37, ''jo@example.org'', ''[EMAIL]'')]]\<rparr>" "''r1''" 23 37 "''jo@example.org''"
        "''[EMAIL]''" "[]" "''Yes.''" True]
    by (simp add: pii_mask_def pm_new_def)
qed

section \<open>The orchestrator\<close>

record guardrails_config =
  gc_pii_enabled :: bool
  gc_moderation_pre :: bool
  gc_moderation_post :: bool
  gc_block_on_moderation_failure :: bool

definition guardrails_config_default :: guardrails_config where
  "guardrails_config_default = \<lparr>gc_pii_enabled = False, gc_moderation_pre = False,
     gc_moderation_post = False, gc_block_on_moderation_failure = True\<rparr>"

record guardrails_orchestrator =
  go_pii_masker :: "pii_masker option"
  go_config :: guardrails_config

record moderation_result =
  mr_flagged :: bool
  mr_categories :: json

datatype call_result = CR_Allowed | CR_Blocked moderation_result

definition go_new :: "(string \<Rightarrow> string \<Rightarrow> (nat \<times> nat) list) \<Rightarrow> guardrails_config \<Rightarrow> guardrails_orchestrator" where
  "go_new regex config =
     \<lparr>go_pii_masker = (if gc_pii_enabled config then Some (pm_new (default_patterns regex)) else None),
      go_config = config\<rparr>"

fun guardrails_error_display :: "guardrails_error \<Rightarrow> string" where
  "guardrails_error_display (GE_Moderation m) = ''moderation failed: '' @ m"
| "guardrails_error_display (GE_Internal m) = ''internal error: '' @ m"

text \<open>
  The exchange with the moderation service: the request failed, or a response with its status
  (number and text), the text of its body and the body read as JSON.
\<close>

datatype moderation_exchange =
    MX_SendError string
  | MX_Response nat string string "(string, json) result"

definition moderation_body :: "string \<Rightarrow> json" where
  "moderation_body text = json_obj
     [(''model'', JString ''text-moderation-latest''), (''input'', JString text)]"

definition moderation_verdict :: "json \<Rightarrow> moderation_result" where
  "moderation_verdict value =
     (let result = Option.bind (Option.bind (json_get ''results'' value) as_array)
            (\<lambda>arr. case arr of [] \<Rightarrow> None | r # _ \<Rightarrow> Some r)
      in \<lparr>mr_flagged = unwrap_or False
            (Option.bind (Option.bind result (json_get ''flagged'')) as_bool),
          mr_categories = unwrap_or (JObject []) (Option.bind result (json_get ''categories''))\<rparr>)"

definition check_moderation ::
  "(json \<Rightarrow> moderation_exchange) \<Rightarrow> string \<Rightarrow> (guardrails_error, moderation_result) result" where
  "check_moderation http text =
     (if trim text = [] then Ok \<lparr>mr_flagged = False, mr_categories = JObject []\<rparr>
      else case http (moderation_body text) of
        MX_SendError e \<Rightarrow> Err (GE_Moderation (''request failed: '' @ e))
      | MX_Response status status_text error_text json \<Rightarrow>
          (if \<not> (200 \<le> status \<and> status < 300)
           then Err (GE_Moderation (''HTTP '' @ status_text @ '': '' @ error_text))
           else case json of
             Inl e \<Rightarrow> Err (GE_Moderation (''parse failed: '' @ e))
           | Inr value \<Rightarrow> Ok (moderation_verdict value)))"

text \<open>What both phases do with a verdict.\<close>

definition moderate ::
  "(json \<Rightarrow> moderation_exchange) \<Rightarrow> bool \<Rightarrow> bool \<Rightarrow> string \<Rightarrow> (guardrails_error, call_result) result" where
  "moderate http enabled block text =
     (if \<not> enabled then Ok CR_Allowed
      else case check_moderation http text of
        Inl e \<Rightarrow> Err (GE_Moderation (guardrails_error_display e))
      | Inr r \<Rightarrow> Ok (if mr_flagged r \<and> block then CR_Blocked r else CR_Allowed))"

fun transform_contents ::
  "(string \<Rightarrow> pii_masker \<Rightarrow> (string \<times> pii_masker) option) \<Rightarrow> chat_content list \<Rightarrow> pii_masker \<Rightarrow>
     (chat_content list \<times> pii_masker) option" where
  "transform_contents f [] pm = Some ([], pm)"
| "transform_contents f (c # cs) pm =
     (case as_text c of
        None \<Rightarrow> map_option (\<lambda>(cs', pm'). (c # cs', pm')) (transform_contents f cs pm)
      | Some text \<Rightarrow>
          Option.bind (f text pm) (\<lambda>(text', pm').
            map_option (\<lambda>(cs', pm''). (CC_Text text' # cs', pm'')) (transform_contents f cs pm')))"

fun transform_messages ::
  "(string \<Rightarrow> pii_masker \<Rightarrow> (string \<times> pii_masker) option) \<Rightarrow> chat_message list \<Rightarrow> pii_masker \<Rightarrow>
     (chat_message list \<times> pii_masker) option" where
  "transform_messages f [] pm = Some ([], pm)"
| "transform_messages f (msg # msgs) pm =
     (case cm_content msg of
        None \<Rightarrow> map_option (\<lambda>(ms, pm'). (msg # ms, pm')) (transform_messages f msgs pm)
      | Some contents \<Rightarrow>
          Option.bind (transform_contents f contents pm) (\<lambda>(contents', pm').
            map_option (\<lambda>(ms, pm''). (msg\<lparr>cm_content := Some contents'\<rparr> # ms, pm''))
              (transform_messages f msgs pm')))"

definition pre_call ::
  "bool \<Rightarrow> (json \<Rightarrow> moderation_exchange) \<Rightarrow> chat_completion_request \<Rightarrow> string \<Rightarrow> guardrails_orchestrator \<Rightarrow>
     ((guardrails_error, call_result) result \<times> chat_completion_request \<times> guardrails_orchestrator) option" where
  "pre_call checks http request request_id go =
     (let cfg = go_config go
      in map_option
           (\<lambda>(msgs, masker).
              let request' = request\<lparr>cr_messages := msgs\<rparr>;
                  combined = join_with '' '' (List.map_filter content_as_text msgs)
              in (moderate http (gc_moderation_pre cfg) (gc_block_on_moderation_failure cfg) combined,
                  request', go\<lparr>go_pii_masker := masker\<rparr>))
           (case (gc_pii_enabled cfg, go_pii_masker go) of
              (True, Some pm) \<Rightarrow>
                map_option (\<lambda>(ms, pm'). (ms, Some pm'))
                  (transform_messages (\<lambda>text. pii_mask checks text request_id) (cr_messages request) pm)
            | (_, masker) \<Rightarrow> Some (cr_messages request, masker)))"

definition unmask_step ::
  "bool \<Rightarrow> string \<Rightarrow> string \<Rightarrow> pii_masker \<Rightarrow> (string \<times> pii_masker) option" where
  "unmask_step checks request_id text pm =
     (case pii_unmask checks text request_id pm of
        (None, _) \<Rightarrow> None | (Some text', pm') \<Rightarrow> Some (text', pm'))"

definition post_call ::
  "bool \<Rightarrow> (json \<Rightarrow> moderation_exchange) \<Rightarrow> chat_completion_response \<Rightarrow> string \<Rightarrow> guardrails_orchestrator \<Rightarrow>
     ((guardrails_error, call_result) result \<times> chat_completion_response \<times> guardrails_orchestrator) option" where
  "post_call checks http response request_id go =
     (let cfg = go_config go;
          text = join_with '' ''
            (List.map_filter (\<lambda>c. content_as_text (ch_message c)) (cp_choices response))
      in case moderate http (gc_moderation_post cfg) (gc_block_on_moderation_failure cfg) text of
           Inr CR_Allowed \<Rightarrow>
             (case (gc_pii_enabled cfg, go_pii_masker go) of
                (True, Some pm) \<Rightarrow>
                  map_option
                    (\<lambda>(msgs, pm').
                       (Ok CR_Allowed,
                        response\<lparr>cp_choices := map2 (\<lambda>c m. c\<lparr>ch_message := m\<rparr>) (cp_choices response) msgs\<rparr>,
                        go\<lparr>go_pii_masker := Some pm'\<rparr>))
                    (transform_messages (unmask_step checks request_id)
                      (map ch_message (cp_choices response)) pm)
              | _ \<Rightarrow> Some (Ok CR_Allowed, response, go))
         | r \<Rightarrow> Some (r, response, go))"

section \<open>What the orchestrator guarantees\<close>

lemma check_moderation_Ok:
  assumes "check_moderation http text = Ok r" and "trim text \<noteq> []"
  shows "\<exists>st sttext body v. http (moderation_body text) = MX_Response st sttext body (Ok v) \<and>
    200 \<le> st \<and> st < 300 \<and> r = moderation_verdict v"
  using assms
  by (auto simp: check_moderation_def split: if_splits moderation_exchange.splits sum.splits)

lemma moderate_allowed:
  "moderate http True True text = Ok CR_Allowed \<longleftrightarrow>
     (\<exists>r. check_moderation http text = Ok r \<and> \<not> mr_flagged r)"
  by (auto simp: moderate_def split: sum.splits if_splits)

lemma pre_call_verdict:
  assumes "pre_call checks http req rid go = Some (r, req', go')"
  shows "r = moderate http (gc_moderation_pre (go_config go))
    (gc_block_on_moderation_failure (go_config go))
    (join_with '' '' (List.map_filter content_as_text (cr_messages req')))"
  using assms by (auto simp: pre_call_def Let_def)


definition plain_message :: "string \<Rightarrow> chat_message" where
  "plain_message s = \<lparr>cm_role = ''user'', cm_content = Some [CC_Text s], cm_name = None,
     cm_tool_calls = None, cm_tool_call_id = None, cm_cache_control = None\<rparr>"

definition plain_request :: "chat_message list \<Rightarrow> chat_completion_request" where
  "plain_request msgs = \<lparr>cr_model = ''m'', cr_messages = msgs, cr_stream = None,
     cr_temperature = None, cr_max_tokens = None, cr_top_p = None, cr_top_k = None,
     cr_frequency_penalty = None, cr_presence_penalty = None, cr_repetition_penalty = None,
     cr_stop = None, cr_seed = None, cr_n = None, cr_logprobs = None, cr_top_logprobs = None,
     cr_logit_bias = None, cr_user = None, cr_tools = None, cr_tool_choice = None,
     cr_parallel_tool_calls = None, cr_response_format = None, cr_reasoning = None\<rparr>"

definition harmless :: json where
  "harmless = json_obj [(''results'', JArray [json_obj [(''flagged'', JBool False)]])]"

definition moderating :: guardrails_orchestrator where
  "moderating = go_new (\<lambda>_ _. []) (guardrails_config_default\<lparr>gc_moderation_pre := True\<rparr>)"

lemma trim_hi: "trim ''hi'' = ''hi''"
  by (simp add: trim_def trim_end_def ws1_def ws2_def byte_def)


text \<open>
  Masking rewrites every content that has text as plain text: the images beside the text of a
  multi-part content are dropped from the request.
\<close>

lemma transform_contents_plain:
  "transform_contents f cs pm = Some (cs', pm') \<Longrightarrow>
     list_all (\<lambda>c. as_text c = None \<or> \<not> has_images c) cs'"
  by (induction f cs pm arbitrary: cs' pm' rule: transform_contents.induct)
    (auto split: option.splits simp: Option.bind_eq_Some_conv)

lemma transform_messages_plain:
  "transform_messages f ms pm = Some (ms', pm') \<Longrightarrow>
     list_all (\<lambda>m. list_all (\<lambda>c. as_text c = None \<or> \<not> has_images c) (unwrap_or [] (cm_content m))) ms'"
  by (induction f ms pm arbitrary: ms' pm' rule: transform_messages.induct)
    (auto split: option.splits simp: Option.bind_eq_Some_conv dest: transform_contents_plain)

lemma masking_drops_images:
  assumes "pre_call checks http req rid go = Some (r, req', go')"
    and "gc_pii_enabled (go_config go)" and "go_pii_masker go = Some pm"
    and "msg \<in> set (cr_messages req')" and "c \<in> set (unwrap_or [] (cm_content msg))"
  shows "as_text c = None \<or> \<not> has_images c"
proof -
  obtain ms pm' where "transform_messages (\<lambda>text. pii_mask checks text rid) (cr_messages req) pm = Some (ms, pm')"
    and "cr_messages req' = ms"
    using assms(1-3) by (auto simp: pre_call_def Let_def)
  with transform_messages_plain assms(4,5) show ?thesis by (fastforce simp: list_all_iff)
qed

text \<open>A disabled orchestrator changes nothing.\<close>

lemma pre_call_disabled:
  "\<not> gc_pii_enabled (go_config go) \<Longrightarrow> \<not> gc_moderation_pre (go_config go) \<Longrightarrow>
     pre_call checks http req rid go = Some (Ok CR_Allowed, req, go)"
  by (simp add: pre_call_def moderate_def)

end
