(* ===== verification/Mcp_Rpc.thy ===== *)
theory Mcp_Rpc
  imports Json_Value
begin

text \<open>
  JSON-RPC over newline-delimited frames, and the two ends of a Model Context Protocol
  connection: \<open>crates/godwit-mcp/src/jsonrpc.rs\<close> (messages, frames, the incremental frame
  reader), \<open>client.rs\<close> (requests to a tool server) and \<open>server.rs\<close> (Godwit as a tool server).
  The JSON text reader and writer are parameters. A pipe is the list of lines the peer sends
  before it closes it; the order of the members of a printed object is not modelled.
\<close>

abbreviation nl :: char where
  "nl \<equiv> CHR 0x0A"

section \<open>Messages\<close>

record rpc_request =
  rq_id :: i64
  rq_method :: string
  rq_params :: "json option"

record rpc_error =
  re_code :: i64
  re_message :: string
  re_data :: "json option"

datatype rpc_response = RR_Result i64 json | RR_Error i64 rpc_error

record rpc_notification =
  rn_method :: string
  rn_params :: "json option"

datatype rpc_message =
    RM_Request rpc_request
  | RM_Response rpc_response
  | RM_Notification rpc_notification

fun response_id :: "rpc_response \<Rightarrow> i64" where
  "response_id (RR_Result i _) = i"
| "response_id (RR_Error i _) = i"

text \<open>The derived JSON forms: absent options are skipped.\<close>

fun opt_field :: "string \<Rightarrow> json option \<Rightarrow> (string \<times> json) list" where
  "opt_field k None = []"
| "opt_field k (Some v) = [(k, v)]"

definition ser_error :: "rpc_error \<Rightarrow> json" where
  "ser_error e = json_obj ([(''code'', JInt (sint (re_code e))), (''message'', JString (re_message e))]
     @ opt_field ''data'' (re_data e))"

fun ser_response :: "rpc_response \<Rightarrow> json" where
  "ser_response (RR_Result i r) = json_obj [(''id'', JInt (sint i)), (''result'', r)]"
| "ser_response (RR_Error i e) = json_obj [(''id'', JInt (sint i)), (''error'', ser_error e)]"

fun ser_message :: "rpc_message \<Rightarrow> json" where
  "ser_message (RM_Request r) = json_obj ([(''id'', JInt (sint (rq_id r))), (''method'', JString (rq_method r))]
     @ opt_field ''params'' (rq_params r))"
| "ser_message (RM_Response r) = ser_response r"
| "ser_message (RM_Notification n) = json_obj ([(''method'', JString (rn_method n))]
     @ opt_field ''params'' (rn_params n))"

text \<open>Reading tries the variants of an untagged enum in order; an optional field may be null.\<close>

fun drop_null :: "json option \<Rightarrow> json option" where
  "drop_null (Some JNull) = None"
| "drop_null x = x"

definition de_opt :: "string \<Rightarrow> json \<Rightarrow> json option" where
  "de_opt k v = drop_null (json_get k v)"

definition de_i64 :: "string \<Rightarrow> json \<Rightarrow> i64 option" where
  "de_i64 k v = Option.bind (json_get k v) as_i64"

definition de_str :: "string \<Rightarrow> json \<Rightarrow> string option" where
  "de_str k v = Option.bind (json_get k v) as_str"

definition de_request :: "json \<Rightarrow> rpc_request option" where
  "de_request v =
     (case (de_i64 ''id'' v, de_str ''method'' v) of
        (Some i, Some m) \<Rightarrow> Some \<lparr>rq_id = i, rq_method = m, rq_params = de_opt ''params'' v\<rparr>
      | _ \<Rightarrow> None)"

definition de_error :: "json \<Rightarrow> rpc_error option" where
  "de_error v =
     (case (de_i64 ''code'' v, de_str ''message'' v) of
        (Some c, Some m) \<Rightarrow> Some \<lparr>re_code = c, re_message = m, re_data = de_opt ''data'' v\<rparr>
      | _ \<Rightarrow> None)"

definition de_response :: "json \<Rightarrow> rpc_response option" where
  "de_response v =
     (case (de_i64 ''id'' v, json_get ''result'' v, Option.bind (json_get ''error'' v) de_error) of
        (Some i, Some r, _) \<Rightarrow> Some (RR_Result i r)
      | (Some i, None, Some e) \<Rightarrow> Some (RR_Error i e)
      | _ \<Rightarrow> None)"

definition de_notification :: "json \<Rightarrow> rpc_notification option" where
  "de_notification v =
     map_option (\<lambda>m. \<lparr>rn_method = m, rn_params = de_opt ''params'' v\<rparr>) (de_str ''method'' v)"

definition de_message :: "json \<Rightarrow> rpc_message option" where
  "de_message v =
     (case de_request v of
        Some r \<Rightarrow> Some (RM_Request r)
      | None \<Rightarrow>
          (case de_response v of
             Some r \<Rightarrow> Some (RM_Response r)
           | None \<Rightarrow> map_option RM_Notification (de_notification v)))"

section \<open>Frames\<close>

datatype frame_error = FE_Io string | FE_Parse string | FE_NotAnObject string

type_synonym json_reader = "string \<Rightarrow> (string, json) result"

definition to_frame :: "(json \<Rightarrow> string) \<Rightarrow> rpc_message \<Rightarrow> string" where
  "to_frame print msg = print (ser_message msg) @ [nl]"

definition no_variant :: string where
  "no_variant = ''data did not match any variant of untagged enum RpcMessage''"

definition from_frame ::
  "json_reader \<Rightarrow> (json \<Rightarrow> string) \<Rightarrow> string \<Rightarrow> (frame_error, rpc_message) result" where
  "from_frame parse print line =
     (case parse line of
        Inl e \<Rightarrow> Err (FE_Parse e)
      | Inr (JObject m) \<Rightarrow> ok_or (FE_Parse no_variant) (de_message (JObject m))
      | Inr v \<Rightarrow> Err (FE_NotAnObject (print v)))"

section \<open>The frame reader\<close>

definition blank :: "char \<Rightarrow> bool" where
  "blank c \<longleftrightarrow> c = CHR '' '' \<or> c = CHR 0x09 \<or> c = CHR 0x0D"

definition trim_buf :: "string \<Rightarrow> string" where
  "trim_buf buf = rev (dropWhile blank (rev (dropWhile blank buf)))"

text \<open>\<open>drain(..=newline)\<close>: the line keeps its newline.\<close>

function drain_frames ::
  "json_reader \<Rightarrow> (json \<Rightarrow> string) \<Rightarrow> string \<Rightarrow> (frame_error, rpc_message) result list \<times> string" where
  "drain_frames parse print buffer =
     (case split_once nl buffer of
        None \<Rightarrow> ([], buffer)
      | Some (before, rest) \<Rightarrow>
          (let trimmed = trim_buf (before @ [nl]); (frames, rest') = drain_frames parse print rest
           in (if trimmed = [] then frames else from_frame parse print trimmed # frames, rest')))"
  by pat_completeness auto

termination
  by (relation "measure (\<lambda>(_, _, buffer). length buffer)") (auto simp: split_once_Some)

declare drain_frames.simps [simp del]

text \<open>\<open>FrameReader::push\<close> on the reader's buffer.\<close>

definition reader_push ::
  "json_reader \<Rightarrow> (json \<Rightarrow> string) \<Rightarrow> string \<Rightarrow> string \<Rightarrow>
     (frame_error, rpc_message) result list \<times> string" where
  "reader_push parse print bytes buffer = drain_frames parse print (buffer @ bytes)"

fun reader_push_all ::
  "json_reader \<Rightarrow> (json \<Rightarrow> string) \<Rightarrow> string list \<Rightarrow> string \<Rightarrow>
     (frame_error, rpc_message) result list \<times> string" where
  "reader_push_all parse print [] buffer = ([], buffer)"
| "reader_push_all parse print (c # cs) buffer =
     (let (fs, b) = reader_push parse print c buffer; (fs', b') = reader_push_all parse print cs b
      in (fs @ fs', b'))"

lemma drain_no_newline: "nl \<notin> set b \<Longrightarrow> drain_frames parse print b = ([], b)"
  by (subst drain_frames.simps) (simp add: split_once_None [THEN iffD2])

lemma drain_line:
  assumes "nl \<notin> set l"
  shows "drain_frames parse print (l @ nl # b) =
    ((if trim_buf (l @ [nl]) = [] then [] else [from_frame parse print (trim_buf (l @ [nl]))])
       @ fst (drain_frames parse print b), snd (drain_frames parse print b))"
proof -
  have "split_once nl (l @ nl # b) = Some (l, b)" using assms by (simp add: split_once_Some)
  then show ?thesis by (subst drain_frames.simps) (simp add: Let_def split: prod.splits)
qed

text \<open>Reading in two parts is reading at once.\<close>

lemma drain_append:
  "drain_frames parse print (a @ b) =
     (fst (drain_frames parse print a) @ fst (drain_frames parse print (snd (drain_frames parse print a) @ b)),
      snd (drain_frames parse print (snd (drain_frames parse print a) @ b)))"
proof (induction "length a" arbitrary: a rule: less_induct)
  case less
  show ?case
  proof (cases "nl \<in> set a")
    case False
    then show ?thesis by (simp add: drain_no_newline)
  next
    case True
    then obtain l r where a: "a = l @ nl # r" and l: "nl \<notin> set l" by (meson split_list_first)
    then have "drain_frames parse print (r @ b) =
        (fst (drain_frames parse print r) @ fst (drain_frames parse print (snd (drain_frames parse print r) @ b)),
         snd (drain_frames parse print (snd (drain_frames parse print r) @ b)))"
      by (intro less) simp
    then show ?thesis using drain_line [OF l, of parse print] by (simp add: a)
  qed
qed

lemma drain_rest: "nl \<notin> set (snd (drain_frames parse print a))"
proof (induction "length a" arbitrary: a rule: less_induct)
  case less
  show ?case
  proof (cases "nl \<in> set a")
    case True
    then obtain l r where a: "a = l @ nl # r" and l: "nl \<notin> set l" by (meson split_list_first)
    with less [of r] show ?thesis by (simp add: drain_line)
  qed (simp add: drain_no_newline)
qed

lemma push_all_concat:
  assumes "nl \<notin> set buffer"
  shows "reader_push_all parse print chunks buffer = drain_frames parse print (buffer @ concat chunks)"
  using assms
proof (induction chunks arbitrary: buffer)
  case Nil
  then show ?case by (simp add: drain_no_newline)
next
  case (Cons c cs)
  have "reader_push_all parse print cs (snd (drain_frames parse print (buffer @ c))) =
      drain_frames parse print (snd (drain_frames parse print (buffer @ c)) @ concat cs)"
    by (intro Cons.IH drain_rest)
  then show ?case
    using drain_append [of parse print "buffer @ c" "concat cs"]
    by (simp add: reader_push_def Let_def case_prod_unfold)
qed

section \<open>Round trips\<close>

text \<open>
  What the code relies on of \<open>serde_json\<close>: a printed value has no newline and no white space
  around it, and is read back, also with a newline after it.
\<close>

definition line_codec :: "json_reader \<Rightarrow> (json \<Rightarrow> string) \<Rightarrow> bool" where
  "line_codec parse print \<longleftrightarrow>
     (\<forall>v. json_wf v \<longrightarrow> parse (print v) = Ok v \<and> parse (print v @ [nl]) = Ok v \<and> nl \<notin> set (print v) \<and>
        print v \<noteq> [] \<and> \<not> blank (hd (print v)) \<and> trim (print v @ [nl]) = print v)"

text \<open>An optional member that holds null is read as absent.\<close>

fun normal :: "rpc_message \<Rightarrow> rpc_message" where
  "normal (RM_Request r) = RM_Request (r\<lparr>rq_params := drop_null (rq_params r)\<rparr>)"
| "normal (RM_Response (RR_Error i e)) = RM_Response (RR_Error i (e\<lparr>re_data := drop_null (re_data e)\<rparr>))"
| "normal (RM_Response r) = RM_Response r"
| "normal (RM_Notification n) = RM_Notification (n\<lparr>rn_params := drop_null (rn_params n)\<rparr>)"

fun opt_wf :: "json option \<Rightarrow> bool" where
  "opt_wf None = True"
| "opt_wf (Some v) = json_wf v"

fun message_wf :: "rpc_message \<Rightarrow> bool" where
  "message_wf (RM_Request r) = opt_wf (rq_params r)"
| "message_wf (RM_Response (RR_Result _ r)) = json_wf r"
| "message_wf (RM_Response (RR_Error _ e)) = opt_wf (re_data e)"
| "message_wf (RM_Notification n) = opt_wf (rn_params n)"

lemma as_i64_JInt [simp]: "as_i64 (JInt (sint (w :: 64 word))) = Some w"
  using sint_ge [of w] sint_lt [of w] by simp

declare as_i64.simps(1) [simp del] json_wf.simps(1) [simp del]

lemmas rpc_read = de_request_def de_response_def de_notification_def de_error_def de_i64_def de_str_def
  de_opt_def json_get_obj

lemma de_ser_error: "de_error (ser_error e) = Some (e\<lparr>re_data := drop_null (re_data e)\<rparr>)"
  by (cases "re_data e") (simp_all add: rpc_read ser_error_def)

lemma de_ser_message: "de_message (ser_message m) = Some (normal m)"
proof (cases m)
  case (RM_Request r)
  then show ?thesis
    by (cases "rq_params r") (simp_all add: rpc_read de_message_def)
next
  case (RM_Response r)
  then show ?thesis
    by (cases r) (simp_all add: de_message_def de_ser_error de_request_def de_response_def de_i64_def
        de_str_def json_get_obj)
next
  case (RM_Notification n)
  then show ?thesis
    by (cases "rn_params n") (simp_all add: rpc_read de_message_def)
qed

lemma ser_message_object: "\<exists>kvs. ser_message m = JObject kvs"
  by (cases m rule: ser_message.cases; cases "case m of RM_Response r \<Rightarrow> r | _ \<Rightarrow> RR_Result 0 JNull")
    (auto simp: json_obj_def)

lemma ser_error_wf: "opt_wf (re_data e) \<Longrightarrow> json_wf (ser_error e)"
  unfolding ser_error_def by (cases "re_data e") auto

lemma ser_message_wf: "message_wf m \<Longrightarrow> json_wf (ser_message m)"
proof (cases m rule: message_wf.cases)
  case (1 r)
  then show "message_wf m \<Longrightarrow> ?thesis" by (cases "rq_params r") auto
next
  case (4 n)
  then show "message_wf m \<Longrightarrow> ?thesis" by (cases "rn_params n") auto
qed (auto simp: ser_error_wf)

lemma trim_buf_line: "s \<noteq> [] \<Longrightarrow> \<not> blank (hd s) \<Longrightarrow> trim_buf (s @ [nl]) = s @ [nl]"
  by (cases s) (simp_all add: trim_buf_def blank_def)

lemma line_codecD:
  assumes "line_codec parse print" and "json_wf v"
  shows "parse (print v) = Ok v" "parse (print v @ [nl]) = Ok v" "nl \<notin> set (print v)"
    "trim_buf (print v @ [nl]) = print v @ [nl]"
  using assms by (auto simp: line_codec_def trim_buf_line)

lemma from_frame_printed:
  assumes "parse line = Ok (ser_message m)"
  shows "from_frame parse print line = Ok (normal m)"
proof -
  obtain kvs where "ser_message m = JObject kvs" using ser_message_object [of m] by blast
  with assms de_ser_message [of m] show ?thesis by (simp add: from_frame_def)
qed

lemma drain_messages:
  assumes "line_codec parse print" and "list_all message_wf msgs"
  shows "drain_frames parse print (concat (map (to_frame print) msgs)) = (map (\<lambda>m. Ok (normal m)) msgs, [])"
  using assms(2)
proof (induction msgs)
  case (Cons m ms)
  note codec = line_codecD [OF assms(1) ser_message_wf, of m]
  show ?case
    using Cons codec from_frame_printed [of parse "print (ser_message m) @ [nl]" m print]
    by (simp add: to_frame_def drain_line)
qed (simp add: drain_no_newline)

text \<open>
  C22. Framing is lossless however the pipe cuts the bytes: messages written as frames and
  read back in chunks of any sizes come out complete, once each and in order, and nothing is
  left in the buffer. (A null \<open>params\<close> or \<open>data\<close> member comes back as an absent one.)
\<close>

theorem frame_stream_exact:
  assumes "line_codec parse print" and "list_all message_wf msgs"
    and "concat chunks = concat (map (to_frame print) msgs)"
  shows "reader_push_all parse print chunks [] = (map (\<lambda>m. Ok (normal m)) msgs, [])"
  using push_all_concat [of "[]" parse print chunks] drain_messages [OF assms(1,2)] assms(3) by simp

definition coded_line_parse :: json_reader where
  "coded_line_parse s = ok_or ''expected value'' (coded_parse (filter (\<lambda>c. c \<noteq> nl) s))"

lemma coded_print_chars: "coded_print v \<noteq> [] \<and> (\<forall>c \<in> set (coded_print v). c \<noteq> nl \<and> \<not> blank c)"
proof -
  have "\<not> is_digit nl" "blank c \<Longrightarrow> \<not> is_digit c" for c
    by (auto simp: is_digit_def blank_def)
  with show_nat_digits [of "to_nat v"] show ?thesis unfolding coded_print_def by metis
qed

lemma digit_not_ws:
  "is_digit c \<Longrightarrow> \<not> ws1 c \<and> \<not> ws2 c d \<and> \<not> ws2 d c \<and> \<not> ws3 c d e \<and> \<not> ws3 d e c"
  by (auto simp: is_digit_def ws1_def ws2_def ws3_def byte_def)

lemma trim_start_digits: "list_all is_digit s \<Longrightarrow> trim_start (s @ [nl]) = s @ [nl] \<or> s = []"
  by (cases s; cases "tl s"; cases "tl (tl s)") (auto simp: digit_not_ws)

lemma trim_rev_digits: "list_all is_digit s \<Longrightarrow> trim_rev s = s"
  by (cases s rule: trim_rev.cases) (auto simp: digit_not_ws)

lemma trim_rev_nl: "trim_rev (nl # s) = trim_rev s"
  by (cases s rule: trim_rev.cases) (auto simp: ws1_def byte_def)

lemma trim_digits: "list_all is_digit s \<Longrightarrow> s \<noteq> [] \<Longrightarrow> trim (s @ [nl]) = s"
  using trim_start_digits [of s]
  by (simp add: trim_def trim_end_def trim_rev_nl trim_rev_digits)

lemma trim_coded_print: "trim (coded_print v @ [nl]) = coded_print v"
  using show_nat_digits [of "to_nat v"] by (simp add: coded_print_def trim_digits list_all_iff)

lemma coded_line_codec: "line_codec coded_line_parse coded_print"
proof -
  have "filter (\<lambda>c. c \<noteq> nl) (coded_print v) = coded_print v" for v
    using coded_print_chars [of v] by (auto simp: filter_id_conv)
  moreover have "\<not> blank (hd (coded_print v))" for v
    using coded_print_chars [of v] by (meson hd_in_set)
  ultimately show ?thesis
    using coded_print_chars coded_codec
    by (auto simp: line_codec_def coded_line_parse_def json_codec_def trim_coded_print)
qed

definition ping :: rpc_message where
  "ping = RM_Request \<lparr>rq_id = 1, rq_method = ''tools/list'', rq_params = None\<rparr>"

definition two_pings :: string where
  "two_pings = to_frame coded_print ping @ to_frame coded_print ping"

theorem frame_stream_exact_witness:
  "reader_push_all coded_line_parse coded_print [take 3 two_pings, drop 3 two_pings] [] =
     ([Ok ping, Ok ping], [])"
proof -
  have wf: "list_all message_wf [ping, ping]" and normal: "normal ping = ping" by (simp_all add: ping_def)
  have "concat [take 3 x, drop 3 x] = x" for x :: string by simp
  then have "concat [take 3 two_pings, drop 3 two_pings] = concat (map (to_frame coded_print) [ping, ping])"
    unfolding two_pings_def list.map concat.simps append_Nil2 .
  from frame_stream_exact [OF coded_line_codec wf this] show ?thesis
    unfolding list.map normal .
qed

text \<open>
  The reader does not skip blank lines: the newline is kept in the line, so that trimming
  never leaves it empty, and a blank line becomes the error of parsing it.
\<close>

lemma blank_line_is_a_frame:
  assumes "list_all blank l"
  shows "drain_frames parse print (l @ [nl]) = ([from_frame parse print [nl]], [])"
proof -
  have nb: "\<not> blank nl" by (simp add: blank_def)
  then have "nl \<notin> set l" using assms unfolding list_all_iff by blast
  moreover have "trim_buf (l @ [nl]) = [nl]"
    using assms nb by (simp add: trim_buf_def list_all_iff dropWhile_append2)
  ultimately show ?thesis by (simp add: drain_line drain_no_newline)
qed

section \<open>The client\<close>

datatype client_error =
    CE_Spawn string string
  | CE_Io string
  | CE_Frame frame_error
  | CE_Remote string i64 string
  | CE_Closed string
  | CE_UnexpectedResponseId i64 i64
  | CE_EmptyToolResult string

text \<open>
  A connection: the lines the server still sends before it closes its output, what was
  written to it, the error of its closed input if it is closed, and the next request id.
\<close>

record mcp_client =
  cl_inbox :: "string list"
  cl_outbox :: "string list"
  cl_write_error :: "string option"
  cl_next_id :: i64

fun read_frame :: "string list \<Rightarrow> (string \<times> string list) option" where
  "read_frame [] = None"
| "read_frame (l # ls) = (if trim l = [] then read_frame ls else Some (trim l, ls))"

lemma read_frame_shorter: "read_frame ls = Some (l, ls') \<Longrightarrow> length ls' < length ls"
  by (induction ls) (auto split: if_splits)

definition write_frame :: "string \<Rightarrow> mcp_client \<Rightarrow> (client_error, unit) result \<times> mcp_client" where
  "write_frame frame cl =
     (case cl_write_error cl of
        Some e \<Rightarrow> (Err (CE_Io e), cl)
      | None \<Rightarrow> (Ok (), cl\<lparr>cl_outbox := cl_outbox cl @ [frame]\<rparr>))"

definition write_request ::
  "(json \<Rightarrow> string) \<Rightarrow> i64 \<Rightarrow> string \<Rightarrow> json option \<Rightarrow> mcp_client \<Rightarrow> (client_error, unit) result \<times> mcp_client" where
  "write_request print i meth params cl =
     write_frame (to_frame print (RM_Request \<lparr>rq_id = i, rq_method = meth, rq_params = params\<rparr>)) cl"

definition write_notification ::
  "(json \<Rightarrow> string) \<Rightarrow> string \<Rightarrow> mcp_client \<Rightarrow> (client_error, unit) result \<times> mcp_client" where
  "write_notification print meth cl =
     write_frame (to_frame print (RM_Notification \<lparr>rn_method = meth, rn_params = None\<rparr>)) cl"

text \<open>
  Waiting for an answer: everything that is not a response is skipped; \<open>check\<close> is the
  identifier the response must carry, if it is checked.
\<close>

function await_response ::
  "json_reader \<Rightarrow> (json \<Rightarrow> string) \<Rightarrow> string \<Rightarrow> i64 option \<Rightarrow> string list \<Rightarrow>
     (client_error, json) result \<times> string list" where
  "await_response parse print meth check inbox =
     (case read_frame inbox of
        None \<Rightarrow> (Err (CE_Closed meth), [])
      | Some (line, rest) \<Rightarrow>
          (case from_frame parse print line of
             Inl e \<Rightarrow> (Err (CE_Frame e), rest)
           | Inr (RM_Response (RR_Result rid r)) \<Rightarrow>
               (case check of
                  Some i \<Rightarrow> if rid \<noteq> i then (Err (CE_UnexpectedResponseId i rid), rest) else (Ok r, rest)
                | None \<Rightarrow> (Ok r, rest))
           | Inr (RM_Response (RR_Error _ e)) \<Rightarrow> (Err (CE_Remote meth (re_code e) (re_message e)), rest)
           | Inr _ \<Rightarrow> await_response parse print meth check rest))"
  by pat_completeness auto

termination
  by (relation "measure (\<lambda>(_, _, _, _, inbox). length inbox)") (auto dest: read_frame_shorter)

declare await_response.simps [simp del]

definition client_request ::
  "json_reader \<Rightarrow> (json \<Rightarrow> string) \<Rightarrow> string \<Rightarrow> json option \<Rightarrow> mcp_client \<Rightarrow>
     (client_error, json) result \<times> mcp_client" where
  "client_request parse print meth params cl =
     (let i = cl_next_id cl; cl' = cl\<lparr>cl_next_id := i + 1\<rparr>
      in case write_request print i meth params cl' of
           (Inl e, cl'') \<Rightarrow> (Err e, cl'')
         | (Inr _, cl'') \<Rightarrow>
             (let (r, rest) = await_response parse print meth (Some i) (cl_inbox cl'')
              in (r, cl''\<lparr>cl_inbox := rest\<rparr>)))"

definition initialize_handshake ::
  "json_reader \<Rightarrow> (json \<Rightarrow> string) \<Rightarrow> string \<Rightarrow> mcp_client \<Rightarrow> (client_error, unit) result \<times> mcp_client" where
  "initialize_handshake parse print version cl =
     (let i = cl_next_id cl; cl' = cl\<lparr>cl_next_id := i + 1\<rparr>;
          params = json_obj [(''protocolVersion'', JString ''2024-11-05''), (''capabilities'', JObject []),
            (''clientInfo'', json_obj [(''name'', JString ''godwit''), (''version'', JString version)])]
      in case write_request print i ''initialize'' (Some params) cl' of
           (Inl e, cl'') \<Rightarrow> (Err e, cl'')
         | (Inr _, cl'') \<Rightarrow>
             (case await_response parse print ''initialize'' None (cl_inbox cl'') of
                (Inl e, rest) \<Rightarrow> (Err e, cl''\<lparr>cl_inbox := rest\<rparr>)
              | (Inr _, rest) \<Rightarrow>
                  write_notification print ''notifications/initialized'' (cl''\<lparr>cl_inbox := rest\<rparr>)))"

record mcp_tool =
  mt_name :: string
  mt_description :: "string option"
  mt_input_schema :: json

text \<open>
  The derived reader of a tool. The text of its errors is \<open>serde_json\<close>'s (parameter \<open>errtext\<close>).
\<close>

definition de_tool :: "json \<Rightarrow> mcp_tool option" where
  "de_tool v =
     (case (de_str ''name'' v, json_get ''inputSchema'' v, de_opt ''description'' v) of
        (Some n, Some schema, None) \<Rightarrow> Some \<lparr>mt_name = n, mt_description = None, mt_input_schema = schema\<rparr>
      | (Some n, Some schema, Some (JString d)) \<Rightarrow>
          Some \<lparr>mt_name = n, mt_description = Some d, mt_input_schema = schema\<rparr>
      | _ \<Rightarrow> None)"

definition de_tools :: "json \<Rightarrow> mcp_tool list option" where
  "de_tools v =
     (case v of
        JArray vs \<Rightarrow> (if list_all (\<lambda>w. de_tool w \<noteq> None) vs then Some (List.map_filter de_tool vs) else None)
      | _ \<Rightarrow> None)"

definition list_tools ::
  "json_reader \<Rightarrow> (json \<Rightarrow> string) \<Rightarrow> (json \<Rightarrow> string) \<Rightarrow> mcp_client \<Rightarrow>
     (client_error, mcp_tool list) result \<times> mcp_client" where
  "list_tools parse print errtext cl =
     (case client_request parse print ''tools/list'' (Some (JObject [])) cl of
        (Inl e, cl') \<Rightarrow> (Err e, cl')
      | (Inr result, cl') \<Rightarrow>
          (ok_or (CE_Remote ''tools/list'' (- 32603)
             (''could not parse tools from server: '' @ errtext (json_index ''tools'' result)))
             (de_tools (json_index ''tools'' result)), cl'))"

fun join_texts :: "string \<Rightarrow> json list \<Rightarrow> string" where
  "join_texts acc [] = acc"
| "join_texts acc (item # items) =
     (case Option.bind (json_get ''text'' item) as_str of
        None \<Rightarrow> join_texts acc items
      | Some t \<Rightarrow> join_texts (if acc = [] then t else acc @ [nl] @ t) items)"

definition call_tool ::
  "json_reader \<Rightarrow> (json \<Rightarrow> string) \<Rightarrow> string \<Rightarrow> json \<Rightarrow> mcp_client \<Rightarrow> (client_error, string) result \<times> mcp_client" where
  "call_tool parse print name arguments cl =
     (case client_request parse print ''tools/call''
         (Some (json_obj [(''name'', JString name), (''arguments'', arguments)])) cl of
        (Inl e, cl') \<Rightarrow> (Err e, cl')
      | (Inr result, cl') \<Rightarrow>
          (let text = join_texts [] (unwrap_or [] (Option.bind (json_get ''content'' result) as_array))
           in (if text = [] then Err (CE_EmptyToolResult name) else Ok text, cl')))"

subsection \<open>Requests and answers\<close>

lemma read_frame_printed:
  assumes "line_codec parse print" and "message_wf m"
  shows "read_frame (to_frame print m # rest) = Some (print (ser_message m), rest)"
  using assms ser_message_wf [OF assms(2)] by (auto simp: line_codec_def to_frame_def)

lemma await_message:
  assumes "line_codec parse print" and "message_wf m"
  shows "await_response parse print meth check (to_frame print m # rest) =
    (case normal m of
       RM_Response (RR_Result rid r) \<Rightarrow>
         (case check of
            Some i \<Rightarrow> if rid \<noteq> i then (Err (CE_UnexpectedResponseId i rid), rest) else (Ok r, rest)
          | None \<Rightarrow> (Ok r, rest))
     | RM_Response (RR_Error _ e) \<Rightarrow> (Err (CE_Remote meth (re_code e) (re_message e)), rest)
     | _ \<Rightarrow> await_response parse print meth check rest)"
  using line_codecD(1) [OF assms(1) ser_message_wf [OF assms(2)]]
  by (subst await_response.simps) (simp add: read_frame_printed [OF assms] from_frame_printed
      del: read_frame.simps)

lemma client_request_answered:
  assumes "line_codec parse print" and "json_wf r" and "cl_write_error cl = None"
    and "cl_inbox cl = to_frame print (RM_Response (RR_Result i r)) # rest"
  shows "client_request parse print meth params cl =
    (if i = cl_next_id cl then Ok r else Err (CE_UnexpectedResponseId (cl_next_id cl) i),
     cl\<lparr>cl_next_id := cl_next_id cl + 1, cl_inbox := rest,
        cl_outbox := cl_outbox cl @ [to_frame print (RM_Request
          \<lparr>rq_id = cl_next_id cl, rq_method = meth, rq_params = params\<rparr>)]\<rparr>)"
  using assms(2-4) await_message [OF assms(1), of "RM_Response (RR_Result i r)"]
  by (simp add: client_request_def write_request_def write_frame_def Let_def)

fun client_requests ::
  "json_reader \<Rightarrow> (json \<Rightarrow> string) \<Rightarrow> (string \<times> json option) list \<Rightarrow> mcp_client \<Rightarrow>
     (client_error, json) result list" where
  "client_requests parse print [] cl = []"
| "client_requests parse print ((m, p) # rs) cl =
     (let (r, cl') = client_request parse print m p cl in r # client_requests parse print rs cl')"

text \<open>The answers of a server that numbers its results from \<open>k\<close> on.\<close>

fun answers :: "(json \<Rightarrow> string) \<Rightarrow> i64 \<Rightarrow> json list \<Rightarrow> string list" where
  "answers print k [] = []"
| "answers print k (v # vs) = to_frame print (RM_Response (RR_Result k v)) # answers print (k + 1) vs"

fun in_step_results :: "i64 \<Rightarrow> i64 \<Rightarrow> json list \<Rightarrow> (client_error, json) result list" where
  "in_step_results d k [] = []"
| "in_step_results d k (v # vs) =
     (if d = 0 then Ok v else Err (CE_UnexpectedResponseId (k + d) k)) # in_step_results d (k + 1) vs"

text \<open>
  C24. A connection to a tool server is in step for good or lost for good: when the answers
  the server sends are those of the requests, every request gets its own result; when one
  answer was left unread (its request was abandoned), the ids are apart by a constant and
  every later request fails with an unexpected id, although the server answers all of them.
\<close>

theorem connection_in_step_or_lost:
  assumes "line_codec parse print" and "list_all json_wf vs" and "length rs = length vs"
    and "cl_write_error cl = None" and "cl_inbox cl = answers print k vs" and "cl_next_id cl = k + d"
  shows "client_requests parse print rs cl = in_step_results d k vs"
  using assms(2-6)
proof (induction vs arbitrary: rs cl k)
  case (Cons v vs)
  then obtain m p rs' where rs: "rs = (m, p) # rs'" by (cases rs) auto
  note head = client_request_answered [OF assms(1), of v cl k "answers print (k + 1) vs" m p]
  have "k = k + d \<longleftrightarrow> d = 0" by simp
  with Cons head show ?case by (simp add: rs add.commute add.left_commute)
qed simp

theorem connection_in_step_or_lost_witness:
  "client_requests coded_line_parse coded_print [(''tools/call'', None), (''tools/call'', None)]
     \<lparr>cl_inbox = answers coded_print 4 [JNull, JBool True], cl_outbox = [], cl_write_error = None, cl_next_id = 5\<rparr> =
   [Err (CE_UnexpectedResponseId 5 4), Err (CE_UnexpectedResponseId 6 5)]"
  using connection_in_step_or_lost [OF coded_line_codec, of "[JNull, JBool True]"
      "[(''tools/call'', None), (''tools/call'', None)]"
      "\<lparr>cl_inbox = answers coded_print 4 [JNull, JBool True], cl_outbox = [], cl_write_error = None,
        cl_next_id = 5\<rparr>" 4 1]
  by (simp del: answers.simps client_requests.simps)

section \<open>The server\<close>

record gateway_config =
  gg_base_url :: string
  gg_api_key :: string
  gg_default_model :: string

text \<open>The call of the gateway: the request failed, or a status, the body, and the body as JSON.\<close>

datatype gateway_exchange =
    GX_SendError string
  | GX_Response nat string "(string, json) result"

type_synonym gateway_http = "string \<Rightarrow> string \<Rightarrow> json \<Rightarrow> gateway_exchange"

definition grant_initialize :: "json option \<Rightarrow> (i64 \<times> string, unit) result" where
  "grant_initialize params =
     (if unwrap_or [] (Option.bind (Option.bind params (json_get ''protocolVersion'')) as_str) = []
      then Err (- 32602, ''missing protocolVersion'') else Ok ())"

definition handle_initialize :: "string \<Rightarrow> rpc_request \<Rightarrow> (i64 \<times> string, json) result" where
  "handle_initialize version req =
     bind_result (grant_initialize (rq_params req)) (\<lambda>_. Ok (json_obj
       [(''protocolVersion'', JString ''2024-11-05''),
        (''capabilities'', json_obj [(''tools'', JObject [])]),
        (''serverInfo'', json_obj [(''name'', JString ''godwit-mcp''), (''version'', JString version)]),
        (''instructions'',
         JString ''Godwit MCP server. Use the godwit_chat tool to call a Godwit model.'')]))"

definition typed :: "string \<Rightarrow> json" where
  "typed t = json_obj [(''type'', JString t)]"

definition chat_tool_schema :: json where
  "chat_tool_schema = json_obj
     [(''type'', JString ''object''),
      (''properties'', json_obj
         [(''model'', json_obj [(''type'', JString ''string''),
            (''description'', JString ''Godwit model identifier (defaults to configured default)'')]),
          (''messages'', json_obj
             [(''type'', JString ''array''),
              (''items'', json_obj
                 [(''type'', JString ''object''),
                  (''properties'', json_obj [(''role'', typed ''string''), (''content'', typed ''string''),
                     (''name'', typed ''string'')]),
                  (''required'', JArray [JString ''role'', JString ''content'']),
                  (''additionalProperties'', JBool True)]),
              (''description'', JString ''OpenAI-style chat messages'')])]),
      (''required'', JArray [JString ''messages''])]"

definition handle_tools_list :: "rpc_request \<Rightarrow> (i64 \<times> string, json) result" where
  "handle_tools_list req = Ok (json_obj [(''tools'', JArray [json_obj
     [(''name'', JString ''godwit_chat''),
      (''description'', JString (''Send a chat completion request to a Godwit model. Takes a `model` '' @
         ''(optional) and a `messages` array of OpenAI-style chat messages.'')),
      (''inputSchema'', chat_tool_schema)]])])"

text \<open>\<open>Value::pointer\<close>: members by name, elements by index.\<close>

fun json_pointer :: "string list \<Rightarrow> json \<Rightarrow> json option" where
  "json_pointer [] v = Some v"
| "json_pointer (t # ts) (JObject m) = Option.bind (map_of m t) (json_pointer ts)"
| "json_pointer (t # ts) (JArray vs) =
     (if t \<noteq> [] \<and> list_all is_digit t \<and> (hd t = CHR ''0'' \<longrightarrow> length t = 1) \<and> digits_val t < length vs
      then json_pointer ts (vs ! digits_val t) else None)"
| "json_pointer (t # ts) v = None"

definition trim_end_slash :: "string \<Rightarrow> string" where
  "trim_end_slash s = rev (dropWhile (\<lambda>c. c = CHR ''/'') (rev s))"

definition quoted :: "string \<Rightarrow> string" where
  "quoted s = [CHR 0x27] @ s @ [CHR 0x27]"

definition handle_tools_call ::
  "gateway_http \<Rightarrow> gateway_config \<Rightarrow> rpc_request \<Rightarrow> (i64 \<times> string, json) result" where
  "handle_tools_call http gw req =
     (let name = unwrap_or [] (Option.bind (Option.bind (rq_params req) (json_get ''name'')) as_str)
      in if name \<noteq> ''godwit_chat''
         then Err (- 32602, ''unknown tool '' @ quoted name @ '' (only '' @ quoted ''godwit_chat'' @ '' is available)'')
         else case Option.bind (rq_params req) (json_get ''arguments'') of
           None \<Rightarrow> Err (- 32602, ''missing '' @ quoted ''arguments'')
         | Some args \<Rightarrow>
             (let model = unwrap_or (gg_default_model gw) (Option.bind (json_get ''model'' args) as_str)
              in case json_get ''messages'' args of
                   None \<Rightarrow> Err (- 32602, ''missing '' @ quoted ''messages'' @ '' argument'')
                 | Some messages \<Rightarrow>
                     (case http (trim_end_slash (gg_base_url gw) @ ''/v1/chat/completions'')
                         (''Bearer '' @ gg_api_key gw)
                         (json_obj [(''model'', JString model), (''messages'', messages)]) of
                        GX_SendError e \<Rightarrow> Err (- 32603, ''gateway request failed: '' @ e)
                      | GX_Response status text body \<Rightarrow>
                          (if \<not> (200 \<le> status \<and> status < 300)
                           then Err (- 32603, ''gateway returned '' @ show_nat status @ '': '' @ text)
                           else case body of
                             Inl e \<Rightarrow> Err (- 32603, ''failed to parse gateway response: '' @ e)
                           | Inr completion \<Rightarrow>
                               (let answer = unwrap_or ''(empty response)'' (Option.bind (json_pointer
                                  [''choices'', ''0'', ''message'', ''content''] completion) as_str)
                                in Ok (json_obj
                                  [(''content'', JArray [json_obj [(''type'', JString ''text''),
                                      (''text'', JString answer)]]),
                                   (''isError'', JBool False)]))))))"

definition handle_request ::
  "gateway_http \<Rightarrow> gateway_config \<Rightarrow> string \<Rightarrow> rpc_request \<Rightarrow> rpc_response" where
  "handle_request http gw version req =
     (let fail = (\<lambda>(code, message). RR_Error (rq_id req) \<lparr>re_code = code, re_message = message, re_data = None\<rparr>);
          result =
            (if rq_method req = ''initialize'' then handle_initialize version req
             else if rq_method req = ''tools/list'' then handle_tools_list req
             else if rq_method req = ''tools/call'' then handle_tools_call http gw req
             else Err (- 32601, ''method not found: '' @ rq_method req))
      in case result of Inr value \<Rightarrow> RR_Result (rq_id req) value | Inl e \<Rightarrow> fail e)"

text \<open>
  The server loop over the lines of its input; notifications and responses are ignored, a
  line that is no message ends the loop with an error. Its output takes every frame.
\<close>

fun serve ::
  "json_reader \<Rightarrow> (json \<Rightarrow> string) \<Rightarrow> (rpc_request \<Rightarrow> rpc_response) \<Rightarrow> string list \<Rightarrow>
     (frame_error, unit) result \<times> string list" where
  "serve parse print handle [] = (Ok (), [])"
| "serve parse print handle (line # lines) =
     (if trim line = [] then serve parse print handle lines
      else case from_frame parse print (trim_end line) of
        Inl e \<Rightarrow> (Err e, [])
      | Inr (RM_Request req) \<Rightarrow>
          (let (r, out) = serve parse print handle lines
           in (r, (print (ser_response (handle req)) @ [nl]) # out))
      | Inr _ \<Rightarrow> serve parse print handle lines)"

lemma handle_request_id: "response_id (handle_request http gw version req) = rq_id req"
  by (simp add: handle_request_def Let_def split: sum.splits prod.splits)

fun the_requests :: "rpc_message list \<Rightarrow> rpc_request list" where
  "the_requests [] = []"
| "the_requests (RM_Request r # ms) = r # the_requests ms"
| "the_requests (_ # ms) = the_requests ms"

definition readable :: "json_reader \<Rightarrow> (json \<Rightarrow> string) \<Rightarrow> string \<Rightarrow> bool" where
  "readable parse print line \<longleftrightarrow> trim line = [] \<or> is_ok (from_frame parse print (trim_end line))"

definition line_message :: "json_reader \<Rightarrow> (json \<Rightarrow> string) \<Rightarrow> string \<Rightarrow> rpc_message option" where
  "line_message parse print line =
     (if trim line = [] then None
      else case from_frame parse print (trim_end line) of Inr m \<Rightarrow> Some m | Inl _ \<Rightarrow> None)"

text \<open>
  The server answers every request it reads, in order and under its id, until the first
  line that is not a message: that line ends the session with an error, without any answer to
  it or to what follows.
\<close>

lemma serve_exact:
  "snd (serve parse print (handle_request http gw version) lines) =
     map (\<lambda>req. print (ser_response (handle_request http gw version req)) @ [nl])
       (the_requests (List.map_filter (line_message parse print) (takeWhile (readable parse print) lines))) \<and>
   is_ok (fst (serve parse print (handle_request http gw version) lines)) =
     list_all (readable parse print) lines \<and>
   (\<forall>req. response_id (handle_request http gw version req) = rq_id req)"
proof (intro conjI)
  show "snd (serve parse print (handle_request http gw version) lines) =
     map (\<lambda>req. print (ser_response (handle_request http gw version req)) @ [nl])
       (the_requests (List.map_filter (line_message parse print) (takeWhile (readable parse print) lines)))"
    by (induction lines)
      (auto simp: readable_def line_message_def map_filter_simps Let_def case_prod_unfold
        split: sum.splits rpc_message.splits)
  show "is_ok (fst (serve parse print (handle_request http gw version) lines)) =
     list_all (readable parse print) lines"
    by (induction lines)
      (auto simp: readable_def Let_def case_prod_unfold split: sum.splits rpc_message.splits)
qed (simp add: handle_request_id)

end
