(* ===== verification/Mcp_Registry.thy ===== *)
theory Mcp_Registry
  imports Mcp_Rpc Core_Types
begin

text \<open>
  The registry of tool servers: \<open>crates/godwit-mcp/src/registry.rs\<close>, \<open>tool.rs\<close> and
  \<open>config.rs\<close>. The table of servers is a list of entries by name, in the order the hash map
  happens to iterate. Starting a server's process is a parameter: it fails, or gives the
  connection on which the handshake is run.
\<close>

section \<open>Names of tools\<close>

definition to_core_tool :: "string \<Rightarrow> mcp_tool \<Rightarrow> tool" where
  "to_core_tool server_name t = \<lparr>tool_type = ''function'',
     tool_function = \<lparr>fd_name = server_name @ ''__'' @ mt_name t, fd_description = mt_description t,
       fd_parameters = Some (mt_input_schema t)\<rparr>\<rparr>"

definition mcp_tools_to_core :: "string \<Rightarrow> mcp_tool list \<Rightarrow> tool list" where
  "mcp_tools_to_core server_name tools = map (to_core_tool server_name) tools"

definition split_namespaced_name :: "string \<Rightarrow> string \<Rightarrow> (string \<times> string) option" where
  "split_namespaced_name server_name tool_name =
     map_option (\<lambda>bare. (server_name, bare)) (strip_prefix (server_name @ ''__'') tool_name)"

text \<open>\<open>str::split_once\<close> with a string pattern.\<close>

fun split_once_str :: "string \<Rightarrow> string \<Rightarrow> (string \<times> string) option" where
  "split_once_str p [] = (if p = [] then Some ([], []) else None)"
| "split_once_str p (c # s) =
     (if starts_with p (c # s) then Some ([], drop (length p) (c # s))
      else map_option (\<lambda>(a, b). (c # a, b)) (split_once_str p s))"

definition split_tool_name :: "string \<Rightarrow> (string \<times> string) option" where
  "split_tool_name tool_name = split_once_str ''__'' tool_name"

section \<open>The registry\<close>

record mcp_server_config =
  ms_name :: string
  ms_command :: string
  ms_args :: "string list"
  ms_env :: "(string \<times> string) list"

definition tool_prefix :: "mcp_server_config \<Rightarrow> string" where
  "tool_prefix cfg = ms_name cfg @ ''__''"

record server_entry =
  se_config :: mcp_server_config
  se_client :: "mcp_client option"

type_synonym registry = "(string \<times> server_entry) list"

datatype mcp_error =
    ME_UnknownServer string
  | ME_InvalidToolName string
  | ME_Client client_error

definition registry_new :: registry where
  "registry_new = []"

fun upsert :: "'k \<Rightarrow> 'v \<Rightarrow> ('k \<times> 'v) list \<Rightarrow> ('k \<times> 'v) list" where
  "upsert k v [] = [(k, v)]"
| "upsert k v ((j, w) # m) = (if j = k then (k, v) # m else (j, w) # upsert k v m)"

definition registry_from_config :: "mcp_server_config list \<Rightarrow> registry" where
  "registry_from_config cfgs =
     foldl (\<lambda>m cfg. upsert (ms_name cfg) \<lparr>se_config = cfg, se_client = None\<rparr> m) registry_new cfgs"

definition server_count :: "registry \<Rightarrow> nat" where
  "server_count reg = length reg"

definition registry_config :: "registry \<Rightarrow> mcp_server_config list" where
  "registry_config reg = sort_key ms_name (map (se_config \<circ> snd) reg)"

text \<open>What the registry needs of its surroundings.\<close>

record mcp_env =
  me_parse :: json_reader
  me_print :: "json \<Rightarrow> string"
  me_errtext :: "json \<Rightarrow> string"
  me_version :: string
  me_spawn :: "mcp_server_config \<Rightarrow> (string, mcp_client) result"

definition mcp_connect :: "mcp_env \<Rightarrow> mcp_server_config \<Rightarrow> (client_error, mcp_client) result" where
  "mcp_connect env cfg =
     (case me_spawn env cfg of
        Inl e \<Rightarrow> Err (CE_Spawn (ms_name cfg) e)
      | Inr cl \<Rightarrow>
          (case initialize_handshake (me_parse env) (me_print env) (me_version env) (cl\<lparr>cl_next_id := 1\<rparr>) of
             (Inl e, _) \<Rightarrow> Err e
           | (Inr _, cl') \<Rightarrow> Ok cl'))"

definition ensure_connected ::
  "mcp_env \<Rightarrow> string \<Rightarrow> registry \<Rightarrow> (mcp_error, unit) result \<times> registry" where
  "ensure_connected env name reg =
     (case map_of reg name of
        None \<Rightarrow> (Err (ME_UnknownServer name), reg)
      | Some e \<Rightarrow>
          (case se_client e of
             Some _ \<Rightarrow> (Ok (), reg)
           | None \<Rightarrow>
               (case mcp_connect env (se_config e) of
                  Inl err \<Rightarrow> (Err (ME_Client err), reg)
                | Inr cl \<Rightarrow> (Ok (), upsert name (e\<lparr>se_client := Some cl\<rparr>) reg))))"

text \<open>
  Run an operation on the connection of a server, connecting first, and keep the connection's
  new state.
\<close>

definition with_client ::
  "mcp_env \<Rightarrow> string \<Rightarrow> (mcp_client \<Rightarrow> (client_error, 'a) result \<times> mcp_client) \<Rightarrow> registry \<Rightarrow>
     (mcp_error, 'a) result \<times> registry" where
  "with_client env name f reg =
     (case ensure_connected env name reg of
        (Inl e, reg') \<Rightarrow> (Err e, reg')
      | (Inr _, reg') \<Rightarrow>
          (case map_of reg' name of
             None \<Rightarrow> (Err (ME_UnknownServer name), reg')
           | Some e \<Rightarrow>
               (case se_client e of
                  None \<Rightarrow> (Err (ME_UnknownServer name), reg')
                | Some cl \<Rightarrow>
                    (let (r, cl') = f cl
                     in (map_err ME_Client r, upsert name (e\<lparr>se_client := Some cl'\<rparr>) reg')))))"

definition tools_for ::
  "mcp_env \<Rightarrow> string \<Rightarrow> registry \<Rightarrow> (mcp_error, mcp_tool list) result \<times> registry" where
  "tools_for env name reg =
     with_client env name (list_tools (me_parse env) (me_print env) (me_errtext env)) reg"

text \<open>Servers that do not connect or answer are skipped.\<close>

fun all_tools_loop :: "mcp_env \<Rightarrow> string list \<Rightarrow> registry \<Rightarrow> tool list \<times> registry" where
  "all_tools_loop env [] reg = ([], reg)"
| "all_tools_loop env (name # names) reg =
     (let (r, reg') = tools_for env name reg; (rest, reg'') = all_tools_loop env names reg'
      in ((case r of Inr tools \<Rightarrow> mcp_tools_to_core name tools | Inl _ \<Rightarrow> []) @ rest, reg''))"

definition all_tools :: "mcp_env \<Rightarrow> registry \<Rightarrow> tool list \<times> registry" where
  "all_tools env reg = all_tools_loop env (map fst reg) reg"

definition registry_call_tool ::
  "mcp_env \<Rightarrow> string \<Rightarrow> json \<Rightarrow> registry \<Rightarrow> (mcp_error, string) result \<times> registry" where
  "registry_call_tool env tool_name arguments reg =
     (case split_tool_name tool_name of
        None \<Rightarrow> (Err (ME_InvalidToolName tool_name), reg)
      | Some (server_name, bare_name) \<Rightarrow>
          (if server_name = [] \<or> bare_name = [] then (Err (ME_InvalidToolName tool_name), reg)
           else with_client env server_name
             (call_tool (me_parse env) (me_print env) bare_name arguments) reg))"

section \<open>Routing\<close>

lemma map_of_upsert [simp]: "map_of (upsert k v m) = (map_of m)(k \<mapsto> v)"
  by (induction k v m rule: upsert.induct) (auto simp: fun_eq_iff)

lemma upsert_keys: "k \<in> fst ` set m \<Longrightarrow> map fst (upsert k v m) = map fst m"
  by (induction k v m rule: upsert.induct) auto

lemma split_once_str_Some:
  "p \<noteq> [] \<Longrightarrow> split_once_str p s = Some (a, b) \<Longrightarrow> s = a @ p @ b"
proof (induction p s arbitrary: a rule: split_once_str.induct)
  case (2 p c s)
  then show ?case
    by (auto simp: starts_with_iff split: if_splits)
qed auto

lemma starts_with_append: "length p \<le> length s \<Longrightarrow> starts_with p (s @ t) = starts_with p s"
  by (simp add: starts_with_def)

text \<open>The first separator of a namespaced name is the one after the server's name, or an earlier one.\<close>

lemma split_namespaced:
  "split_once_str ''__'' (server @ ''__'' @ bare) = Some (server, bare) \<longleftrightarrow>
     \<not> str_contains ''__'' (server @ ''_'')"
proof (induction server)
  case Nil
  then show ?case by (simp add: starts_with_def)
next
  case (Cons c server)
  have "starts_with ''__'' (c # server @ ''__'' @ bare) = starts_with ''__'' (c # server @ ''_'')"
    by (cases server) (auto simp: starts_with_def)
  with Cons show ?case by (auto simp: map_option_case split: option.splits)
qed

text \<open>
  A tool name routes back to its server exactly when the server's name has no double
  underscore and does not end with one underscore: then, and only then, a call of a tool the
  registry advertised reaches the server that offers it under its own name.
\<close>

lemma tool_name_roundtrip_iff:
  "split_tool_name (fd_name (tool_function (to_core_tool server t))) = Some (server, mt_name t) \<longleftrightarrow>
     \<not> str_contains ''__'' (server @ ''_'')"
  using split_namespaced [of server "mt_name t"] by (simp add: split_tool_name_def to_core_tool_def)

lemma call_tool_routes:
  assumes "\<not> str_contains ''__'' (server @ ''_'')" and "server \<noteq> []" and "mt_name t \<noteq> []"
    and "map_of reg server = Some e" and "se_client e = Some cl"
    and "call_tool (me_parse env) (me_print env) (mt_name t) arguments cl = (r, cl')"
  shows "registry_call_tool env (fd_name (tool_function (to_core_tool server t))) arguments reg =
    (map_err ME_Client r, upsert server (e\<lparr>se_client := Some cl'\<rparr>) reg)"
proof -
  have "split_tool_name (fd_name (tool_function (to_core_tool server t))) = Some (server, mt_name t)"
    using assms(1) split_namespaced [of server "mt_name t"]
    by (simp add: split_tool_name_def to_core_tool_def)
  with assms show ?thesis
    by (simp add: registry_call_tool_def with_client_def ensure_connected_def)
qed

text \<open>A server whose name contains the separator is advertised but can never be called.\<close>

lemma separator_in_server_name_misroutes:
  "fst (registry_call_tool env (fd_name (tool_function (to_core_tool ''a__b'' t))) arguments
     [(''a__b'', e)]) = Err (ME_UnknownServer ''a'')"
  by (simp add: registry_call_tool_def to_core_tool_def split_tool_name_def starts_with_def
      with_client_def ensure_connected_def)

text \<open>Calls keep the table of servers: names and configurations.\<close>

lemma upsert_present: "map_of m k = Some w \<Longrightarrow> map fst (upsert k v m) = map fst m"
  by (metis map_of_SomeD upsert_keys image_eqI fst_conv)

lemma ensure_connected_keys: "map fst (snd (ensure_connected env name reg)) = map fst reg"
  by (auto simp: ensure_connected_def upsert_present split: option.splits sum.splits)

lemma with_client_keys: "map fst (snd (with_client env name f reg)) = map fst reg"
proof -
  have "map fst (upsert name e' (snd (ensure_connected env name reg))) = map fst reg"
    if "map_of (snd (ensure_connected env name reg)) name = Some e" for e e'
    using upsert_present [OF that] ensure_connected_keys [of env name reg] by simp
  then show ?thesis
    using ensure_connected_keys [of env name reg]
    by (auto simp: with_client_def Let_def split: prod.splits sum.splits option.splits)
qed

lemma registry_names_stable:
  "map fst (snd (registry_call_tool env name arguments reg)) = map fst reg"
  by (simp add: registry_call_tool_def with_client_keys split: option.splits prod.splits)

end
