(* ===== verification/Agentic_Loop.thy ===== *)
theory Agentic_Loop
  imports Resilience Mcp_Registry
begin

text \<open>
  Server-side tool use: \<open>crates/godwit-api/src/agentic_loop.rs\<close>, the tool handling of
  \<open>proxy.rs\<close> (\<open>merge_agentic_tools\<close>, \<open>resolve_tool_calls\<close>, \<open>web_search_result\<close>),
  \<open>response_validation.rs\<close> and the web-search tool of \<open>crates/godwit-providers\<close>. Parameters:
  the adapter's chat call (on an explicit state), the web-search backend, the JSON reader and
  the compiler of JSON schemas.
\<close>

section \<open>Validation of structured answers\<close>

datatype validation_error = VE_InvalidJson string | VE_SchemaViolation string | VE_NoContent

fun validation_error_display :: "validation_error \<Rightarrow> string" where
  "validation_error_display (VE_InvalidJson m) = ''invalid json: '' @ m"
| "validation_error_display (VE_SchemaViolation m) = ''schema validation failed: '' @ m"
| "validation_error_display VE_NoContent = ''no content to validate''"

text \<open>\<open>compile\<close> reads a schema; the compiled schema lists what a value violates.\<close>

type_synonym schema_compiler = "json \<Rightarrow> (string, json \<Rightarrow> string list) result"

definition validate_response ::
  "json_reader \<Rightarrow> schema_compiler \<Rightarrow> string \<Rightarrow> json_schema \<Rightarrow> (validation_error, unit) result" where
  "validate_response parse compile content schema =
     bind_result (ok_or (VE_SchemaViolation ''schema is required'') (js_schema schema)) (\<lambda>schema_value.
     bind_result (map_err (\<lambda>e. VE_InvalidJson (''failed to parse response as json: '' @ e)) (parse content)) (\<lambda>parsed.
     bind_result (map_err (\<lambda>e. VE_SchemaViolation (''invalid schema definition: '' @ e)) (compile schema_value)) (\<lambda>compiled.
       if compiled parsed \<noteq> []
       then Err (VE_SchemaViolation (''response does not match schema: '' @ join_with ''; '' (compiled parsed)))
       else Ok ())))"

section \<open>Tools\<close>

definition NATIVE_WEB_SEARCH_TOOLS :: "string list" where
  "NATIVE_WEB_SEARCH_TOOLS =
     [''web_search'', ''web_search_20250305'', ''google_search'', ''google_search_grounding'']"

definition is_native_web_search_tool :: "tool \<Rightarrow> bool" where
  "is_native_web_search_tool t \<longleftrightarrow> fd_name (tool_function t) \<in> set NATIVE_WEB_SEARCH_TOOLS"

definition web_search_tool :: tool where
  "web_search_tool = \<lparr>tool_type = ''function'', tool_function =
     \<lparr>fd_name = ''web_search'',
      fd_description = Some ''Search the web for current information using SearXNG'',
      fd_parameters = Some (json_obj
        [(''type'', JString ''object''),
         (''properties'', json_obj [(''query'', json_obj [(''type'', JString ''string''),
            (''description'', JString ''The search query'')])]),
         (''required'', JArray [JString ''query''])])\<rparr>\<rparr>"

text \<open>Which of the registry's tools are added: no native search tool, no name twice.\<close>

fun add_tools :: "tool list \<Rightarrow> string list \<Rightarrow> tool list" where
  "add_tools [] existing = []"
| "add_tools (t # ts) existing =
     (let name = fd_name (tool_function t)
      in if is_native_web_search_tool t \<or> name \<in> set existing then add_tools ts existing
         else t # add_tools ts (name # existing))"

definition merge_agentic_tools ::
  "tool list \<Rightarrow> bool \<Rightarrow> chat_completion_request \<Rightarrow> tool list \<times> chat_completion_request" where
  "merge_agentic_tools mcp_tools searxng req =
     (let own = map (fd_name \<circ> tool_function) (unwrap_or [] (cr_tools req));
          mcp = add_tools mcp_tools own;
          seen = own @ map (fd_name \<circ> tool_function) mcp;
          added = mcp @ (if searxng \<and> ''web_search'' \<notin> set seen then [web_search_tool] else [])
      in (added,
          if added = [] then req else req\<lparr>cr_tools := Some (unwrap_or [] (cr_tools req) @ added)\<rparr>))"

record search_result =
  sr_title :: string
  sr_url :: string
  sr_content :: "string option"

type_synonym search_backend = "(string \<Rightarrow> (string, search_result list) result) option"

definition result_line :: "nat \<Rightarrow> search_result \<Rightarrow> string" where
  "result_line i r = show_nat (i + 1) @ ''. '' @ sr_title r @ '' '' @ [CHR 0xE2, CHR 0x80, CHR 0x94] @ '' '' @
     sr_url r @ [nl] @ ''   '' @ unwrap_or [] (sr_content r)"

definition web_search_result :: "search_backend \<Rightarrow> string \<Rightarrow> json \<Rightarrow> string option" where
  "web_search_result backend tool_name args =
     (case backend of
        None \<Rightarrow> None
      | Some search \<Rightarrow>
          (let arg = (case json_get ''query'' args of Some v \<Rightarrow> Some v | None \<Rightarrow> json_get ''search_query'' args);
               query = trim (unwrap_or [] (Option.bind arg as_str))
           in Some
             (if query = [] then
                ''web search tool denied: no '' @ quoted ''query'' @ '' argument was supplied by the model''
              else case search query of
                Inl e \<Rightarrow> ''web search via SearXNG failed: '' @ e
              | Inr results \<Rightarrow>
                  join_with [nl] ((''web search ('' @ tool_name @ '') results for: '' @ query)
                    # map (\<lambda>(i, r). result_line i r) (zip [0..<length results] results)))))"

fun frame_error_display :: "frame_error \<Rightarrow> string" where
  "frame_error_display (FE_Io m) = ''I/O error: '' @ m"
| "frame_error_display (FE_Parse m) = ''failed to parse JSON-RPC frame: '' @ m"
| "frame_error_display (FE_NotAnObject m) = ''frame is not a JSON object: '' @ m"

fun client_error_display :: "client_error \<Rightarrow> string" where
  "client_error_display (CE_Spawn n e) = ''failed to spawn MCP server '' @ quoted n @ '': '' @ e"
| "client_error_display (CE_Io e) = ''MCP I/O error: '' @ e"
| "client_error_display (CE_Frame e) = ''MCP frame error: '' @ frame_error_display e"
| "client_error_display (CE_Remote m c e) =
     ''MCP server responded with an error for '' @ quoted m @ '': '' @ e"
| "client_error_display (CE_Closed m) =
     ''MCP server closed the connection while awaiting a response to '' @ quoted m"
| "client_error_display (CE_UnexpectedResponseId e a) =
     ''MCP server sent a response with an unexpected id (expected '' @ show_int (sint e) @ '', got '' @
       show_int (sint a) @ '')''"
| "client_error_display (CE_EmptyToolResult n) = ''MCP call '' @ quoted n @ '' returned no text content''"

fun mcp_error_display :: "mcp_error \<Rightarrow> string" where
  "mcp_error_display (ME_UnknownServer s) = ''unknown MCP server '' @ quoted s"
| "mcp_error_display (ME_InvalidToolName n) =
     ''invalid MCP tool name '' @ quoted n @ '' (expected '' @ quoted ''server__tool'' @ '')''"
| "mcp_error_display (ME_Client e) = ''MCP client error: '' @ client_error_display e"

definition tool_message :: "string \<Rightarrow> string \<Rightarrow> chat_message" where
  "tool_message i text = \<lparr>cm_role = ''tool'', cm_content = Some [CC_Text text], cm_name = None,
     cm_tool_calls = None, cm_tool_call_id = Some i, cm_cache_control = None\<rparr>"

definition tool_call_result ::
  "mcp_env \<Rightarrow> search_backend \<Rightarrow> tool_call \<Rightarrow> registry \<Rightarrow> string \<times> registry" where
  "tool_call_result env backend call reg =
     (let name = fc_name (tc_function call);
          args = (case me_parse env (fc_arguments (tc_function call)) of Inr v \<Rightarrow> v | Inl _ \<Rightarrow> JObject [])
      in if str_contains ''__'' name then
           (case registry_call_tool env name args reg of
              (Inr text, reg') \<Rightarrow> (text, reg')
            | (Inl e, reg') \<Rightarrow> (''MCP tool call to '' @ quoted name @ '' failed: '' @ mcp_error_display e, reg'))
         else if name \<in> set NATIVE_WEB_SEARCH_TOOLS then
           (case web_search_result backend name args of
              Some text \<Rightarrow> (text, reg)
            | None \<Rightarrow> (''web search tool '' @ quoted name @
                '' was requested but no SearXNG backend is configured'', reg))
         else (''tool '' @ quoted name @ '' is not provisioned by the gateway'', reg))"

fun resolve_tool_calls ::
  "mcp_env \<Rightarrow> search_backend \<Rightarrow> tool_call list \<Rightarrow> registry \<Rightarrow> chat_message list \<times> registry" where
  "resolve_tool_calls env backend [] reg = ([], reg)"
| "resolve_tool_calls env backend (call # calls) reg =
     (let (text, reg') = tool_call_result env backend call reg;
          (msgs, reg'') = resolve_tool_calls env backend calls reg'
      in (tool_message (tc_id call) text # msgs, reg''))"

lemma resolve_tool_calls_answers:
  "map cm_tool_call_id (fst (resolve_tool_calls env backend calls reg)) = map (Some \<circ> tc_id) calls \<and>
   list_all (\<lambda>m. cm_role m = ''tool'') (fst (resolve_tool_calls env backend calls reg))"
  by (induction calls arbitrary: reg) (simp_all add: Let_def case_prod_unfold tool_message_def)

lemma resolve_tool_calls_Nil: "fst (resolve_tool_calls env backend calls reg) = [] \<longleftrightarrow> calls = []"
  by (cases calls) (simp_all add: Let_def case_prod_unfold)

section \<open>The loop\<close>

record agentic_loop =
  al_max_iterations :: nat
  al_iteration_timeout_secs :: u64

fun add_tokens :: "i32 option \<Rightarrow> i32 option \<Rightarrow> i32 option" where
  "add_tokens (Some x) (Some y) = Some (x + y)"
| "add_tokens a None = a"
| "add_tokens None b = b"

definition accumulate_usage :: "usage_report \<Rightarrow> usage_report \<Rightarrow> usage_report" where
  "accumulate_usage acc report = acc
     \<lparr>ur_prompt_tokens := add_tokens (ur_prompt_tokens acc) (ur_prompt_tokens report),
      ur_completion_tokens := add_tokens (ur_completion_tokens acc) (ur_completion_tokens report)\<rparr>"

text \<open>
  What the loop uses: the adapter's chat call on the state \<open>'s\<close> of the world; \<open>slow\<close>, which
  says of an iteration whether it runs into the timeout, and what the world is then.
\<close>

record 's agent_env =
  ae_chat :: "chat_completion_request \<Rightarrow> 's \<Rightarrow> (provider_error, provider_response \<times> usage_report) result \<times> 's"
  ae_slow :: "nat \<Rightarrow> chat_completion_request \<Rightarrow> 's \<Rightarrow> 's option"
  ae_mcp :: mcp_env
  ae_search :: search_backend
  ae_compile :: schema_compiler

definition run_iteration ::
  "'s agent_env \<Rightarrow> chat_completion_request \<Rightarrow> 's \<Rightarrow>
     (provider_error, chat_completion_response \<times> usage_report) result \<times> 's" where
  "run_iteration env req s =
     (case with_retry retry_policy_default (ae_chat env req) s of
        (Inl e, _, s') \<Rightarrow> (Err e, s')
      | (Inr (PR_Chat completion, u), _, s') \<Rightarrow> (Ok (completion, u), s')
      | (Inr _, _, s') \<Rightarrow>
          (Err (PErr_Provider ''unexpected provider response variant during agentic chat''), s'))"

definition timed_iteration ::
  "agentic_loop \<Rightarrow> 's agent_env \<Rightarrow> nat \<Rightarrow> chat_completion_request \<Rightarrow> 's \<Rightarrow>
     (api_error, chat_completion_response \<times> usage_report) result \<times> 's" where
  "timed_iteration al env i req s =
     (case ae_slow env i req s of
        Some s' \<Rightarrow>
          (Err (AE_Core (PE_Provider (''iteration '' @ show_nat (i + 1) @ '' timed out after '' @
             show_nat (unat (al_iteration_timeout_secs al)) @ ''s''))), s')
      | None \<Rightarrow>
          (case run_iteration env req s of
             (Inl e, s') \<Rightarrow> (Err (AE_Core (PE_Provider (provider_error_display e))), s')
           | (Inr r, s') \<Rightarrow> (Ok r, s')))"

definition first_choice :: "chat_completion_response \<Rightarrow> chat_message list" where
  "first_choice c = (case cp_choices c of [] \<Rightarrow> [] | ch # _ \<Rightarrow> [ch_message ch])"

definition check_schema ::
  "'s agent_env \<Rightarrow> chat_completion_request \<Rightarrow> chat_completion_response \<Rightarrow> (api_error, unit) result" where
  "check_schema env req completion =
     (case (cr_response_format req, first_choice completion) of
        (Some (RF_JsonSchema schema), msg # _) \<Rightarrow>
          (case content_as_text msg of
             None \<Rightarrow> Ok ()
           | Some content \<Rightarrow>
               map_err (\<lambda>e. AE_Core (PE_Provider (''response validation failed: '' @ validation_error_display e)))
                 (validate_response (me_parse (ae_mcp env)) (ae_compile env) content schema))
      | _ \<Rightarrow> Ok ())"

definition completion_tool_calls :: "chat_completion_response \<Rightarrow> tool_call list" where
  "completion_tool_calls c = concat (map (\<lambda>ch. unwrap_or [] (cm_tool_calls (ch_message ch))) (cp_choices c))"

text \<open>The iterations from number \<open>i\<close> on, \<open>n\<close> being left.\<close>

fun agentic_from ::
  "agentic_loop \<Rightarrow> 's agent_env \<Rightarrow> chat_completion_request \<Rightarrow> nat \<Rightarrow> nat \<Rightarrow> chat_message list \<Rightarrow> usage_report \<Rightarrow>
     's \<times> registry \<Rightarrow> (api_error, chat_completion_response \<times> usage_report) result \<times> 's \<times> registry" where
  "agentic_from al env req i 0 msgs acc (s, reg) =
     (Err (AE_Core (PE_Provider (''agentic tool loop exceeded '' @ show_nat (al_max_iterations al) @
        '' iterations without converging''))), s, reg)"
| "agentic_from al env req i (Suc n) msgs acc (s, reg) =
     (case timed_iteration al env i (req\<lparr>cr_messages := msgs\<rparr>) s of
        (Inl e, s') \<Rightarrow> (Err e, s', reg)
      | (Inr (completion, round_usage), s') \<Rightarrow>
          (let acc' = accumulate_usage acc round_usage
           in case check_schema env req completion of
                Inl e \<Rightarrow> (Err e, s', reg)
              | Inr _ \<Rightarrow>
                  (let calls = completion_tool_calls completion
                   in if calls = [] then (Ok (completion, acc'), s', reg)
                      else (let (results, reg') = resolve_tool_calls (ae_mcp env) (ae_search env) calls reg
                            in if results = [] then (Ok (completion, acc'), s', reg')
                               else agentic_from al env req (Suc i) n (msgs @ first_choice completion @ results)
                                      acc' (s', reg')))))"

definition agentic_execute ::
  "agentic_loop \<Rightarrow> 's agent_env \<Rightarrow> chat_completion_request \<Rightarrow> 's \<times> registry \<Rightarrow>
     (api_error, chat_completion_response \<times> usage_report) result \<times> 's \<times> registry" where
  "agentic_execute al env req w =
     agentic_from al env req 0 (al_max_iterations al) (cr_messages req) usage_report_default w"

section \<open>What the loop does\<close>

text \<open>
  The dialogue of a request: after \<open>i\<close> rounds of tool use the conversation is \<open>msgs\<close>, the
  usage \<open>acc\<close> and the world \<open>w\<close>.
\<close>

inductive dialogue ::
  "agentic_loop \<Rightarrow> 's agent_env \<Rightarrow> chat_completion_request \<Rightarrow> 's \<times> registry \<Rightarrow>
     nat \<Rightarrow> chat_message list \<Rightarrow> usage_report \<Rightarrow> 's \<times> registry \<Rightarrow> bool"
  for al env req w0 where
  dialogue_start: "dialogue al env req w0 0 (cr_messages req) usage_report_default w0"
| dialogue_round:
    "dialogue al env req w0 i msgs acc (s, reg) \<Longrightarrow>
     timed_iteration al env i (req\<lparr>cr_messages := msgs\<rparr>) s = (Ok (c, u), s') \<Longrightarrow>
     check_schema env req c = Ok () \<Longrightarrow> completion_tool_calls c \<noteq> [] \<Longrightarrow>
     resolve_tool_calls (ae_mcp env) (ae_search env) (completion_tool_calls c) reg = (results, reg') \<Longrightarrow>
     dialogue al env req w0 (Suc i) (msgs @ first_choice c @ results) (accumulate_usage acc u) (s', reg')"

inductive_cases dialogue_SucE: "dialogue al env req w0 (Suc i) msgs acc w"
inductive_cases dialogue_0E: "dialogue al env req w0 0 msgs acc w"

lemma dialogue_det:
  assumes "dialogue al env req w0 i msgs acc w" and "dialogue al env req w0 i msgs' acc' w'"
  shows "msgs' = msgs \<and> acc' = acc \<and> w' = w"
  using assms
proof (induction i arbitrary: msgs acc w msgs' acc' w')
  case 0
  then show ?case by (auto elim!: dialogue_0E)
next
  case (Suc i)
  from Suc.prems(1) obtain m1 a1 s1 r1 c1 u1 s1' t1 r1' where d1:
    "dialogue al env req w0 i m1 a1 (s1, r1)"
    "timed_iteration al env i (req\<lparr>cr_messages := m1\<rparr>) s1 = (Ok (c1, u1), s1')"
    "resolve_tool_calls (ae_mcp env) (ae_search env) (completion_tool_calls c1) r1 = (t1, r1')"
    "msgs = m1 @ first_choice c1 @ t1" "acc = accumulate_usage a1 u1" "w = (s1', r1')"
    by (elim dialogue_SucE) auto
  from Suc.prems(2) obtain m2 a2 s2 r2 c2 u2 s2' t2 r2' where d2:
    "dialogue al env req w0 i m2 a2 (s2, r2)"
    "timed_iteration al env i (req\<lparr>cr_messages := m2\<rparr>) s2 = (Ok (c2, u2), s2')"
    "resolve_tool_calls (ae_mcp env) (ae_search env) (completion_tool_calls c2) r2 = (t2, r2')"
    "msgs' = m2 @ first_choice c2 @ t2" "acc' = accumulate_usage a2 u2" "w' = (s2', r2')"
    by (elim dialogue_SucE) auto
  from Suc.IH [OF d1(1) d2(1)] d1 d2 show ?case by auto
qed

text \<open>An iteration that does not lead to another round ends the loop with this outcome.\<close>

definition last_iteration ::
  "agentic_loop \<Rightarrow> 's agent_env \<Rightarrow> chat_completion_request \<Rightarrow> nat \<Rightarrow> chat_message list \<Rightarrow> usage_report \<Rightarrow>
     's \<times> registry \<Rightarrow> ((api_error, chat_completion_response \<times> usage_report) result \<times> 's \<times> registry) option" where
  "last_iteration al env req i msgs acc w =
     (case timed_iteration al env i (req\<lparr>cr_messages := msgs\<rparr>) (fst w) of
        (Inl e, s') \<Rightarrow> Some (Err e, s', snd w)
      | (Inr (c, u), s') \<Rightarrow>
          (case check_schema env req c of
             Inl e \<Rightarrow> Some (Err e, s', snd w)
           | Inr _ \<Rightarrow> if completion_tool_calls c = [] then Some (Ok (c, accumulate_usage acc u), s', snd w)
                     else None))"

definition exceeded_error :: "agentic_loop \<Rightarrow> api_error" where
  "exceeded_error al = AE_Core (PE_Provider (''agentic tool loop exceeded '' @ show_nat (al_max_iterations al) @
     '' iterations without converging''))"

lemma agentic_from_reaches:
  assumes "dialogue al env req w0 i msgs acc w"
  shows "\<exists>j msgs' acc' w'. i \<le> j \<and> dialogue al env req w0 j msgs' acc' w' \<and>
    (if j < i + n then last_iteration al env req j msgs' acc' w' = Some (agentic_from al env req i n msgs acc w)
     else j = i + n \<and> agentic_from al env req i n msgs acc w = (Err (exceeded_error al), w'))"
  using assms
proof (induction n arbitrary: i msgs acc w)
  case 0
  then show ?case by (cases w) (force simp: exceeded_error_def)
next
  case (Suc n)
  obtain s reg where w: "w = (s, reg)" by force
  show ?case
  proof (cases "last_iteration al env req i msgs acc w")
    case (Some r)
    then have "agentic_from al env req i (Suc n) msgs acc w = r"
      by (auto simp: w last_iteration_def Let_def split: prod.splits sum.splits if_splits)
    with Some Suc.prems show ?thesis
      by (intro exI [of _ i] exI [of _ msgs] exI [of _ acc] exI [of _ w]) auto
  next
    case None
    then obtain c u s' where it: "timed_iteration al env i (req\<lparr>cr_messages := msgs\<rparr>) s = (Ok (c, u), s')"
      "check_schema env req c = Ok ()" "completion_tool_calls c \<noteq> []"
      by (auto simp: w last_iteration_def split: prod.splits sum.splits if_splits)
    obtain results reg' where res:
      "resolve_tool_calls (ae_mcp env) (ae_search env) (completion_tool_calls c) reg = (results, reg')" by force
    with it(3) have "results \<noteq> []"
      using resolve_tool_calls_Nil [of "ae_mcp env" "ae_search env" "completion_tool_calls c" reg] by simp
    with it res have step: "agentic_from al env req i (Suc n) msgs acc w =
        agentic_from al env req (Suc i) n (msgs @ first_choice c @ results) (accumulate_usage acc u) (s', reg')"
      by (simp add: w Let_def)
    have "dialogue al env req w0 (Suc i) (msgs @ first_choice c @ results) (accumulate_usage acc u) (s', reg')"
      using Suc.prems it res unfolding w by (rule dialogue_round)
    from Suc.IH [OF this] show ?thesis unfolding step by (metis Suc_leD add_Suc_right add_Suc)
  qed
qed


text \<open>The answer that is returned asks for no tool, and satisfies the schema of the request.\<close>

lemma agentic_answer:
  assumes "agentic_execute al env req w0 = (Ok (c, u), w)"
  shows "completion_tool_calls c = [] \<and> check_schema env req c = Ok ()"
  using agentic_from_reaches [OF dialogue_start, of al env req w0 "al_max_iterations al"] assms
  unfolding agentic_execute_def
  by (auto simp: last_iteration_def split: if_splits prod.splits sum.splits)

text \<open>
  The conversation sent to the model: each round adds the message of the first choice and then
  one tool message per tool call of the answer, in order and under the id of its call. (The
  calls of further choices are answered too, although their message is not in the conversation.)
\<close>

fun block_ok :: "chat_completion_response \<times> chat_message list \<Rightarrow> bool" where
  "block_ok (c, results) \<longleftrightarrow> completion_tool_calls c \<noteq> [] \<and>
     map cm_tool_call_id results = map (Some \<circ> tc_id) (completion_tool_calls c) \<and>
     list_all (\<lambda>m. cm_role m = ''tool'') results"

fun block_messages :: "chat_completion_response \<times> chat_message list \<Rightarrow> chat_message list" where
  "block_messages (c, results) = first_choice c @ results"

lemma dialogue_transcript:
  assumes "dialogue al env req w0 i msgs acc w"
  shows "\<exists>blocks. length blocks = i \<and> msgs = cr_messages req @ concat (map block_messages blocks) \<and>
    list_all block_ok blocks"
  using assms
proof (induction rule: dialogue.induct)
  case dialogue_start
  then show ?case by simp
next
  case (dialogue_round i msgs acc s reg c u s' results reg')
  then obtain blocks where "length blocks = i" "msgs = cr_messages req @ concat (map block_messages blocks)"
    "list_all block_ok blocks" by blast
  moreover have "block_ok (c, results)"
    using resolve_tool_calls_answers [of "ae_mcp env" "ae_search env" "completion_tool_calls c" reg]
      dialogue_round(4,5) by auto
  ultimately show ?case
    by (intro exI [of _ "blocks @ [(c, results)]"]) (simp del: block_ok.simps)
qed

text \<open>
  Merging never offers two tools of one name: the tools added have distinct names, none of them
  taken by a tool of the request.
\<close>

lemma add_tools_new:
  "t \<in> set (add_tools ts existing) \<Longrightarrow>
     fd_name (tool_function t) \<notin> set existing \<and> \<not> is_native_web_search_tool t"
proof (induction ts arbitrary: existing)
  case (Cons u ts)
  then show ?case
    using Cons.IH [of existing] Cons.IH [of "fd_name (tool_function u) # existing"]
    by (auto simp: Let_def split: if_splits)
qed simp

lemma add_tools_distinct: "distinct (map (fd_name \<circ> tool_function) (add_tools ts existing))"
proof (induction ts arbitrary: existing)
  case (Cons u ts)
  have "fd_name (tool_function u) \<notin>
      (fd_name \<circ> tool_function) ` set (add_tools ts (fd_name (tool_function u) # existing))"
    by (auto dest: add_tools_new)
  with Cons show ?case by (simp add: Let_def)
qed simp

lemma merge_agentic_tools_names:
  "distinct (map (fd_name \<circ> tool_function) (fst (merge_agentic_tools mcp searxng req))) \<and>
   (\<forall>t \<in> set (fst (merge_agentic_tools mcp searxng req)).
      fd_name (tool_function t) \<notin> (fd_name \<circ> tool_function) ` set (unwrap_or [] (cr_tools req)))"
  using add_tools_distinct [of mcp "map (fd_name \<circ> tool_function) (unwrap_or [] (cr_tools req))"]
    add_tools_new [of _ mcp "map (fd_name \<circ> tool_function) (unwrap_or [] (cr_tools req))"]
  by (auto simp: merge_agentic_tools_def Let_def web_search_tool_def)

end
