(* ===== verification/Usage_Cost.thy ===== *)
theory Usage_Cost
  imports Core_Types
begin

text \<open>
  Cost of a request: \<open>crates/godwit-providers/src/usage.rs\<close>. Decimal arithmetic belongs to
  the \<open>rust_decimal\<close> crate and is a parameter: its operators panic on overflow (\<open>None\<close>),
  and are exact whenever the exact result has a 96-bit mantissa and at most 28 decimals. The
  cost functions return \<open>None\<close> for a panic and \<open>Some\<close> of the code's own option otherwise.
\<close>

record decimal_lib =
  dec_from_str_exact :: "string \<Rightarrow> decimal option"
  dec_from_f64_retain :: "f64 \<Rightarrow> decimal option"
  dec_mul :: "decimal \<Rightarrow> decimal \<Rightarrow> decimal option"
  dec_add :: "decimal \<Rightarrow> decimal \<Rightarrow> decimal option"
  dec_div :: "decimal \<Rightarrow> decimal \<Rightarrow> decimal option"

text \<open>A value with a 96-bit mantissa and a scale of at most 28.\<close>

definition representable :: "decimal \<Rightarrow> bool" where
  "representable q =
     list_ex (\<lambda>s. case quotient_of (q * 10 ^ s) of (n, d) \<Rightarrow> d = 1 \<and> \<bar>n\<bar> < 2 ^ 96) [0..<29]"

definition dec_exact :: "decimal_lib \<Rightarrow> bool" where
  "dec_exact lib \<longleftrightarrow>
     (\<forall>a b. representable a \<longrightarrow> representable b \<longrightarrow>
        (representable (a * b) \<longrightarrow> dec_mul lib a b = Some (a * b)) \<and>
        (representable (a + b) \<longrightarrow> dec_add lib a b = Some (a + b)) \<and>
        (b \<noteq> 0 \<longrightarrow> representable (a / b) \<longrightarrow> dec_div lib a b = Some (a / b)))"

section \<open>Prices\<close>

text \<open>
  A price is a decimal string or a JSON number, whose text is read as a decimal; \<open>print\<close> is
  \<open>Value::to_string\<close>.
\<close>

definition decimal_field ::
  "decimal_lib \<Rightarrow> (json \<Rightarrow> string) \<Rightarrow> json \<Rightarrow> string \<Rightarrow> decimal option" where
  "decimal_field lib print pricing key =
     (case json_get key pricing of
        None \<Rightarrow> None
      | Some v \<Rightarrow>
          (case as_str v of
             Some s \<Rightarrow> dec_from_str_exact lib s
           | None \<Rightarrow> dec_from_str_exact lib (print v)))"

definition INPUT_PRICE_PER_MILLION :: string where
  "INPUT_PRICE_PER_MILLION = ''input_price_per_million''"

definition OUTPUT_PRICE_PER_MILLION :: string where
  "OUTPUT_PRICE_PER_MILLION = ''output_price_per_million''"

definition IMAGE_PRICE_PER_IMAGE :: string where
  "IMAGE_PRICE_PER_IMAGE = ''image_price_per_image''"

definition AUDIO_TTS_PRICE_PER_CHAR :: string where
  "AUDIO_TTS_PRICE_PER_CHAR = ''tts_price_per_character''"

definition AUDIO_STT_PRICE_PER_SEC :: string where
  "AUDIO_STT_PRICE_PER_SEC = ''stt_price_per_second''"

section \<open>Cost of each kind of request\<close>

definition million :: decimal where
  "million = 1000000"

definition compute_chat_cost ::
  "decimal_lib \<Rightarrow> (json \<Rightarrow> string) \<Rightarrow> json \<Rightarrow> usage_report \<Rightarrow> decimal option option" where
  "compute_chat_cost lib print pricing u =
     (case (decimal_field lib print pricing INPUT_PRICE_PER_MILLION,
            decimal_field lib print pricing OUTPUT_PRICE_PER_MILLION,
            ur_prompt_tokens u, ur_completion_tokens u) of
        (Some input_price, Some output_price, Some p, Some c) \<Rightarrow>
          Option.bind (dec_mul lib (of_int (sint p)) input_price) (\<lambda>a.
          Option.bind (dec_mul lib (of_int (sint c)) output_price) (\<lambda>b.
          Option.bind (dec_add lib a b) (\<lambda>s.
          map_option Some (dec_div lib s million))))
      | _ \<Rightarrow> Some None)"

definition compute_embedding_cost ::
  "decimal_lib \<Rightarrow> (json \<Rightarrow> string) \<Rightarrow> json \<Rightarrow> usage_report \<Rightarrow> decimal option option" where
  "compute_embedding_cost lib print pricing u =
     (case (decimal_field lib print pricing INPUT_PRICE_PER_MILLION, ur_embedding_tokens u) of
        (Some input_price, Some t) \<Rightarrow>
          Option.bind (dec_mul lib (of_int (sint t)) input_price)
            (\<lambda>a. map_option Some (dec_div lib a million))
      | _ \<Rightarrow> Some None)"

text \<open>The three costs that are a count times a price.\<close>

definition unit_cost :: "decimal_lib \<Rightarrow> decimal option \<Rightarrow> decimal option \<Rightarrow> decimal option option" where
  "unit_cost lib price count =
     (case (price, count) of
        (Some p, Some n) \<Rightarrow> map_option Some (dec_mul lib n p)
      | _ \<Rightarrow> Some None)"

definition compute_image_cost ::
  "decimal_lib \<Rightarrow> (json \<Rightarrow> string) \<Rightarrow> json \<Rightarrow> usage_report \<Rightarrow> decimal option option" where
  "compute_image_cost lib print pricing u =
     unit_cost lib (decimal_field lib print pricing IMAGE_PRICE_PER_IMAGE)
       (map_option (\<lambda>n. of_int (sint n)) (ur_image_count u))"

definition compute_audio_tts_cost ::
  "decimal_lib \<Rightarrow> (json \<Rightarrow> string) \<Rightarrow> json \<Rightarrow> usage_report \<Rightarrow> decimal option option" where
  "compute_audio_tts_cost lib print pricing u =
     unit_cost lib (decimal_field lib print pricing AUDIO_TTS_PRICE_PER_CHAR)
       (map_option (\<lambda>n. of_int (sint n)) (ur_tts_characters u))"

definition compute_audio_stt_cost ::
  "decimal_lib \<Rightarrow> (json \<Rightarrow> string) \<Rightarrow> json \<Rightarrow> usage_report \<Rightarrow> decimal option option" where
  "compute_audio_stt_cost lib print pricing u =
     unit_cost lib (decimal_field lib print pricing AUDIO_STT_PRICE_PER_SEC)
       (Option.bind (ur_audio_seconds u) (dec_from_f64_retain lib))"

fun compute_cost ::
  "decimal_lib \<Rightarrow> (json \<Rightarrow> string) \<Rightarrow> json \<Rightarrow> capability \<Rightarrow> usage_report \<Rightarrow> decimal option option" where
  "compute_cost lib print pricing Chat u = compute_chat_cost lib print pricing u"
| "compute_cost lib print pricing Embedding u = compute_embedding_cost lib print pricing u"
| "compute_cost lib print pricing ImageGeneration u = compute_image_cost lib print pricing u"
| "compute_cost lib print pricing ImageEdit u = compute_image_cost lib print pricing u"
| "compute_cost lib print pricing AudioTts u = compute_audio_tts_cost lib print pricing u"
| "compute_cost lib print pricing AudioStt u = compute_audio_stt_cost lib print pricing u"
| "compute_cost lib print pricing VideoGeneration u = Some None"

fun chat_usage_report :: "usage option \<Rightarrow> usage_report" where
  "chat_usage_report None = usage_report_default"
| "chat_usage_report (Some u) = usage_report_default
     \<lparr>ur_prompt_tokens := Some (us_prompt_tokens u),
      ur_completion_tokens := Some (us_completion_tokens u),
      ur_cache_read_tokens := Option.bind (us_prompt_tokens_details u) td_cached_tokens\<rparr>"

section \<open>Exactness\<close>

lemma representableI:
  assumes "s \<le> 28" and "\<bar>m\<bar> < 2 ^ 96" and "q = of_int m / 10 ^ s"
  shows "representable q"
proof -
  have "q * 10 ^ s = of_int m" using assms(3) by simp
  then have "quotient_of (q * 10 ^ s) = (m, 1)" by (simp add: quotient_of_int)
  with assms(1,2) show ?thesis
    unfolding representable_def list_ex_iff by (intro bexI [of _ s]) auto
qed

lemma representable_scaled:
  "s \<le> 28 \<Longrightarrow> \<bar>m\<bar> < 2 ^ 96 \<Longrightarrow> representable (of_int m / 10 ^ s)"
  by (rule representableI) auto

lemma representable_int: "\<bar>m\<bar> < 2 ^ 96 \<Longrightarrow> representable (of_int m)"
  by (rule representableI [of 0]) simp_all

lemma i32_abs: "\<bar>sint (w :: 32 word)\<bar> \<le> 2 ^ 31"
  using sint_ge [of w] sint_lt [of w] by simp

lemma dec_exactD:
  assumes "dec_exact lib" and "representable a" and "representable b"
  shows "representable (a * b) \<Longrightarrow> dec_mul lib a b = Some (a * b)"
    and "representable (a + b) \<Longrightarrow> dec_add lib a b = Some (a + b)"
    and "b \<noteq> 0 \<Longrightarrow> representable (a / b) \<Longrightarrow> dec_div lib a b = Some (a / b)"
  using assms by (auto simp: dec_exact_def)

text \<open>An amount of tokens at a price with a 64-bit mantissa.\<close>

lemma count_times_mantissa:
  assumes "\<bar>n\<bar> \<le> 2 ^ 31" and "\<bar>m\<bar> < 2 ^ 64"
  shows "\<bar>n * m\<bar> < (2 :: int) ^ 95"
proof -
  have "\<bar>n * m\<bar> \<le> 2 ^ 31 * \<bar>m\<bar>"
    using assms(1) by (simp add: abs_mult mult_right_mono)
  with assms(2) show ?thesis by simp
qed

lemma mul_scaled:
  assumes "dec_exact lib" and "k \<le> 28" and "\<bar>n\<bar> \<le> 2 ^ 31" and "\<bar>m\<bar> < 2 ^ 64"
  shows "dec_mul lib (of_int n) (of_int m / 10 ^ k) = Some (of_int (n * m) / 10 ^ k)"
proof -
  have "representable (of_int n)" "representable (of_int m / 10 ^ k)"
    "representable (of_int (n * m) / 10 ^ k)"
    using assms(2-4) count_times_mantissa [OF assms(3,4)]
    by (auto intro!: representable_int representable_scaled simp del: of_int_mult)
  then show ?thesis using dec_exactD(1) [OF assms(1)] by fastforce
qed

lemma per_million_scaled:
  assumes "dec_exact lib" and "k \<le> 22" and "\<bar>a\<bar> < 2 ^ 95" and "\<bar>b\<bar> < 2 ^ 95"
  shows "Option.bind (dec_add lib (of_int a / 10 ^ k) (of_int b / 10 ^ k))
      (\<lambda>s. map_option Some (dec_div lib s million)) =
    Some (Some ((of_int a / 10 ^ k + of_int b / 10 ^ k) / 1000000))"
proof -
  have sum: "of_int a / 10 ^ k + of_int b / 10 ^ k = (of_int (a + b) / 10 ^ k :: rat)"
    by (simp add: add_divide_distrib)
  have reps: "representable (of_int a / 10 ^ k)" "representable (of_int b / 10 ^ k)"
    "representable (of_int (a + b) / 10 ^ k)"
    using assms by (auto intro!: representable_scaled simp del: of_int_add)
  have million: "representable million"
    using representable_int [of 1000000] by (simp add: million_def)
  have quot: "of_int (a + b) / 10 ^ k / million = of_int (a + b) / 10 ^ (k + 6)"
    by (simp add: million_def power_add)
  have "representable (of_int (a + b) / 10 ^ k / million)"
    unfolding quot using assms by (intro representable_scaled) auto
  then show ?thesis
    using dec_exactD(2) [OF assms(1) reps(1,2)] dec_exactD(3) [OF assms(1) reps(3) million] reps(3)
    unfolding sum by (simp add: million_def del: of_int_add)
qed

text \<open>
  C26. The cost of a chat request is exact: for prices with at most 22 decimals and a 64-bit
  mantissa and any 32-bit token counts, no step rounds or overflows, and the cost is the
  token counts times their prices per million tokens.
\<close>

theorem chat_cost_exact:
  assumes "dec_exact lib" and "k \<le> 22" and "\<bar>mi\<bar> < 2 ^ 64" and "\<bar>mo\<bar> < 2 ^ 64"
    and "decimal_field lib print pricing INPUT_PRICE_PER_MILLION = Some (of_int mi / 10 ^ k)"
    and "decimal_field lib print pricing OUTPUT_PRICE_PER_MILLION = Some (of_int mo / 10 ^ k)"
    and "ur_prompt_tokens u = Some p" and "ur_completion_tokens u = Some c"
  shows "compute_cost lib print pricing Chat u =
    Some (Some ((of_int (sint p) * (of_int mi / 10 ^ k) + of_int (sint c) * (of_int mo / 10 ^ k))
      / 1000000))"
proof -
  note muls = mul_scaled [OF assms(1) _ i32_abs [of p] assms(3)]
    mul_scaled [OF assms(1) _ i32_abs [of c] assms(4)]
  note sums = per_million_scaled [OF assms(1,2) count_times_mantissa [OF i32_abs [of p] assms(3)]
      count_times_mantissa [OF i32_abs [of c] assms(4)]]
  show ?thesis
    using assms(2,5-8) muls [of k] sums by (simp add: compute_chat_cost_def)
qed

definition exact_lib :: decimal_lib where
  "exact_lib =
     \<lparr>dec_from_str_exact = (\<lambda>s. if s = ''2.50'' then Some (250 / 100)
        else if s = ''10.00'' then Some (1000 / 100) else None),
      dec_from_f64_retain = (\<lambda>x. None),
      dec_mul = (\<lambda>a b. Some (a * b)), dec_add = (\<lambda>a b. Some (a + b)),
      dec_div = (\<lambda>a b. Some (a / b))\<rparr>"

definition sample_prices :: json where
  "sample_prices = json_obj [(INPUT_PRICE_PER_MILLION, JString ''2.50''),
     (OUTPUT_PRICE_PER_MILLION, JString ''10.00'')]"

theorem chat_cost_exact_witness:
  "compute_cost exact_lib coded_print sample_prices Chat
     (usage_report_default\<lparr>ur_prompt_tokens := Some 1000000, ur_completion_tokens := Some 500000\<rparr>) =
   Some (Some (15 / 2))"
proof -
  have "dec_exact exact_lib" by (simp add: dec_exact_def exact_lib_def)
  from chat_cost_exact [OF this, of 2 250 1000 coded_print sample_prices
      "usage_report_default\<lparr>ur_prompt_tokens := Some 1000000, ur_completion_tokens := Some 500000\<rparr>"
      1000000 500000]
  show ?thesis
    by (simp add: decimal_field_def sample_prices_def json_get_obj INPUT_PRICE_PER_MILLION_def
        OUTPUT_PRICE_PER_MILLION_def exact_lib_def)
qed

text \<open>A request without both prices, or whose provider reported no usage, has no cost.\<close>

lemma chat_cost_unpriced:
  "compute_chat_cost lib print pricing u = Some None \<longleftrightarrow>
     decimal_field lib print pricing INPUT_PRICE_PER_MILLION = None \<or>
     decimal_field lib print pricing OUTPUT_PRICE_PER_MILLION = None \<or>
     ur_prompt_tokens u = None \<or> ur_completion_tokens u = None"
  by (auto simp: compute_chat_cost_def Option.bind_eq_Some_conv split: option.splits)

end
