(* ===== verification/Batch_Jobs.thy ===== *)
theory Batch_Jobs
  imports Sse Usage_Cost Resilience "HOL-Library.Signed_Division" "HOL-Library.Sublist"
begin

text \<open>
  Batches of chat requests: \<open>crates/godwit-api/src/batch_parser.rs\<close> (reading a JSONL file and
  estimating its cost), \<open>batch_processor.rs\<close> (running the requests, retrying each) and
  \<open>batch_webhook.rs\<close> (the completion notice). Parameters: the JSON reader with the text of its
  errors, the decimal library, the resolution and the chat call of each attempt, and the HTTP
  exchange of the notice. A panic is \<open>None\<close>; \<open>i32\<close> sums wrap, as in a release build.
\<close>

section \<open>Reading a batch\<close>

datatype batch_parse_error =
    BP_InvalidFormat string
  | BP_MissingField string
  | BP_InvalidModel string
  | BP_CostEstimationFailed string

record batch_request_body =
  bb_model :: string
  bb_messages :: "json list"
  bb_max_tokens :: "i32 option"

record batch_request =
  br_custom_id :: string
  br_method :: string
  br_url :: string
  br_body :: batch_request_body

record parsed_batch_line =
  pl_custom_id :: string
  pl_method :: string
  pl_url :: string
  pl_body :: batch_request_body
  pl_estimated_cost :: decimal

record batch_parse_result =
  bp_lines :: "parsed_batch_line list"
  bp_total_estimated_cost :: decimal

definition validate_request :: "batch_request \<Rightarrow> (batch_parse_error, unit) result" where
  "validate_request request =
     (if br_custom_id request = [] then Err (BP_MissingField ''custom_id'')
      else if br_method request \<noteq> ''POST''
        then Err (BP_InvalidFormat (''method must be POST, got: '' @ br_method request))
      else if \<not> starts_with ''/'' (br_url request)
        then Err (BP_InvalidFormat (''url must start with '' @ [CHR 0x27] @ ''/'' @ [CHR 0x27] @ '', got: '' @ br_url request))
      else if bb_model (br_body request) = [] then Err (BP_MissingField ''model'')
      else Ok ())"

text \<open>
  The derived readers. \<open>messages\<close> and \<open>max_tokens\<close> may be missing, \<open>max_tokens\<close> may be null.
\<close>

definition de_string :: "string \<Rightarrow> json \<Rightarrow> string option" where
  "de_string k v = Option.bind (json_get k v) as_str"

definition as_i32 :: "json \<Rightarrow> i32 option" where
  "as_i32 v = (case v of
     JInt i \<Rightarrow> if - (2 ^ 31) \<le> i \<and> i < 2 ^ 31 then Some (word_of_int i) else None
   | _ \<Rightarrow> None)"

definition de_max_tokens :: "json \<Rightarrow> i32 option option" where
  "de_max_tokens v =
     (case json_get ''max_tokens'' v of
        None \<Rightarrow> Some None
      | Some JNull \<Rightarrow> Some None
      | Some n \<Rightarrow> map_option Some (as_i32 n))"

definition de_batch_body :: "json \<Rightarrow> batch_request_body option" where
  "de_batch_body v =
     (case (de_string ''model'' v,
            (case json_get ''messages'' v of None \<Rightarrow> Some [] | Some m \<Rightarrow> as_array m),
            de_max_tokens v) of
        (Some m, Some ms, Some t) \<Rightarrow> Some \<lparr>bb_model = m, bb_messages = ms, bb_max_tokens = t\<rparr>
      | _ \<Rightarrow> None)"

definition de_batch_request :: "json \<Rightarrow> batch_request option" where
  "de_batch_request v =
     (case (de_string ''custom_id'' v, de_string ''method'' v, de_string ''url'' v,
            Option.bind (json_get ''body'' v) de_batch_body) of
        (Some i, Some m, Some u, Some b) \<Rightarrow>
          Some \<lparr>br_custom_id = i, br_method = m, br_url = u, br_body = b\<rparr>
      | _ \<Rightarrow> None)"

text \<open>\<open>serde_json::from_str::<BatchRequest>\<close>; \<open>mismatch\<close> is the text of a shape error.\<close>

definition batch_request_from_str ::
  "(string \<Rightarrow> (string, json) result) \<Rightarrow> (json \<Rightarrow> string) \<Rightarrow> string \<Rightarrow> (string, batch_request) result" where
  "batch_request_from_str parse mismatch s =
     bind_result (parse s) (\<lambda>v. ok_or (mismatch v) (de_batch_request v))"

fun parse_lines ::
  "(string \<Rightarrow> (string, json) result) \<Rightarrow> (json \<Rightarrow> string) \<Rightarrow> nat \<Rightarrow> string list \<Rightarrow>
     (batch_parse_error, batch_request list) result" where
  "parse_lines parse mismatch line_num [] = Ok []"
| "parse_lines parse mismatch line_num (line # rest) =
     (let trimmed = trim line
      in if trimmed = [] then parse_lines parse mismatch (Suc line_num) rest
         else case batch_request_from_str parse mismatch trimmed of
           Inl e \<Rightarrow> Err (BP_InvalidFormat (''line '' @ show_nat (line_num + 1) @ '': invalid JSON: '' @ e))
         | Inr request \<Rightarrow>
             bind_result (validate_request request) (\<lambda>_.
             bind_result (parse_lines parse mismatch (Suc line_num) rest) (\<lambda>requests.
               Ok (request # requests))))"

definition parse_jsonl ::
  "(string \<Rightarrow> (string, json) result) \<Rightarrow> (json \<Rightarrow> string) \<Rightarrow> string \<Rightarrow>
     (batch_parse_error, batch_request list) result" where
  "parse_jsonl parse mismatch content = parse_lines parse mismatch 0 (str_lines content)"

section \<open>Estimating its cost\<close>

text \<open>\<open>text.len() as i32 / 4\<close>: the length is cut to 32 bits, the division truncates.\<close>

definition estimate_tokens_from_text :: "string \<Rightarrow> i32" where
  "estimate_tokens_from_text text =
     word_of_int (sint (of_nat (length text) :: i32) sdiv 4)"

definition part_tokens :: "json \<Rightarrow> i32" where
  "part_tokens part =
     (case Option.bind (json_get ''text'' part) as_str of
        Some text \<Rightarrow> estimate_tokens_from_text text | None \<Rightarrow> 0)"

definition message_tokens :: "json \<Rightarrow> i32" where
  "message_tokens message =
     (case json_get ''content'' message of
        Some (JString text) \<Rightarrow> estimate_tokens_from_text text
      | Some (JArray parts) \<Rightarrow> sum_list (map part_tokens parts)
      | _ \<Rightarrow> 0)"

text \<open>\<open>(prompt_tokens as f64 * 0.5) as i32\<close>: exact in double precision, truncated.\<close>

definition half_i32 :: "i32 \<Rightarrow> i32" where
  "half_i32 n =
     (let x = f_mul (f_of_int (sint n)) (1 / 2)
      in word_of_int (if 0 \<le> x then \<lfloor>x\<rfloor> else \<lceil>x\<rceil>))"

definition estimate_usage_from_request :: "batch_request \<Rightarrow> usage_report" where
  "estimate_usage_from_request request =
     (let prompt_tokens = sum_list (map message_tokens (bb_messages (br_body request)))
      in usage_report_default
           \<lparr>ur_prompt_tokens := Some prompt_tokens,
            ur_completion_tokens := Some (case bb_max_tokens (br_body request) of
              Some t \<Rightarrow> t | None \<Rightarrow> half_i32 prompt_tokens)\<rparr>)"

fun estimate_loop ::
  "decimal_lib \<Rightarrow> (json \<Rightarrow> string) \<Rightarrow> (string \<rightharpoonup> json) \<Rightarrow> batch_request list \<Rightarrow> parsed_batch_line list \<Rightarrow>
     decimal \<Rightarrow> (batch_parse_error, batch_parse_result) result option" where
  "estimate_loop lib print catalog [] lines cost_sum =
     Some (Ok \<lparr>bp_lines = lines, bp_total_estimated_cost = cost_sum\<rparr>)"
| "estimate_loop lib print catalog (r # rs) lines cost_sum =
     (let model = bb_model (br_body r)
      in case catalog model of
           None \<Rightarrow> Some (Err (BP_InvalidModel (''model '' @ [CHR 0x27] @ model @ [CHR 0x27] @
             '' not found in pricing catalog'')))
         | Some pricing \<Rightarrow>
             Option.bind (compute_cost lib print pricing Chat (estimate_usage_from_request r)) (\<lambda>cost.
             (case cost of
                None \<Rightarrow> Some (Err (BP_CostEstimationFailed (''could not compute cost for model '' @
                  [CHR 0x27] @ model @ [CHR 0x27])))
              | Some c \<Rightarrow>
                  Option.bind (dec_add lib cost_sum c) (\<lambda>sum'.
                    estimate_loop lib print catalog rs
                      (lines @ [\<lparr>pl_custom_id = br_custom_id r, pl_method = br_method r, pl_url = br_url r,
                         pl_body = br_body r, pl_estimated_cost = c\<rparr>]) sum'))))"

definition estimate_cost ::
  "decimal_lib \<Rightarrow> (json \<Rightarrow> string) \<Rightarrow> (string \<rightharpoonup> json) \<Rightarrow> batch_request list \<Rightarrow>
     (batch_parse_error, batch_parse_result) result option" where
  "estimate_cost lib print catalog requests = estimate_loop lib print catalog requests [] 0"

section \<open>Running a batch\<close>

record batch_item_result =
  bi_custom_id :: string
  bi_success :: bool
  bi_estimated_cost :: decimal
  bi_actual_cost :: "decimal option"
  bi_actual_input_tokens :: "i64 option"
  bi_actual_output_tokens :: "i64 option"
  bi_error :: "string option"

record batch_process_result =
  bs_items :: "batch_item_result list"
  bs_total_estimated_cost :: decimal
  bs_total_actual_cost :: "decimal option"
  bs_total_input_tokens :: i64
  bs_total_output_tokens :: i64
  bs_success_count :: nat
  bs_failure_count :: nat

definition convert_message :: "json \<Rightarrow> chat_message option" where
  "convert_message msg =
     map_option (\<lambda>role. \<lparr>cm_role = role,
         cm_content = map_option (\<lambda>s. [CC_Text s]) (Option.bind (json_get ''content'' msg) as_str),
         cm_name = None, cm_tool_calls = None, cm_tool_call_id = None, cm_cache_control = None\<rparr>)
       (de_string ''role'' msg)"

definition convert_to_chat_request :: "batch_request_body \<Rightarrow> chat_completion_request" where
  "convert_to_chat_request body = \<lparr>cr_model = bb_model body,
     cr_messages = List.map_filter convert_message (bb_messages body), cr_stream = None,
     cr_temperature = None, cr_max_tokens = bb_max_tokens body, cr_top_p = None, cr_top_k = None,
     cr_frequency_penalty = None, cr_presence_penalty = None, cr_repetition_penalty = None,
     cr_stop = None, cr_seed = None, cr_n = None, cr_logprobs = None, cr_top_logprobs = None,
     cr_logit_bias = None, cr_user = None, cr_tools = None, cr_tool_choice = None,
     cr_parallel_tool_calls = None, cr_response_format = None, cr_reasoning = None\<rparr>"

definition attempt_item :: "parsed_batch_line \<Rightarrow> string option \<Rightarrow> batch_item_result" where
  "attempt_item line err = \<lparr>bi_custom_id = pl_custom_id line, bi_success = (err = None),
     bi_estimated_cost = pl_estimated_cost line, bi_actual_cost = None, bi_actual_input_tokens = None,
     bi_actual_output_tokens = None, bi_error = err\<rparr>"

text \<open>What an attempt meets: the resolution of the model and, when it succeeds, the chat call.\<close>

type_synonym 'm attempt_world =
  "(string \<Rightarrow> (pasteur_error, 'm) result) \<times>
   ('m \<Rightarrow> chat_completion_request \<Rightarrow> (provider_error, provider_response \<times> usage_report) result)"

definition attempt_request ::
  "'m attempt_world \<Rightarrow> parsed_batch_line \<Rightarrow> batch_item_result \<times> usage_report" where
  "attempt_request world line =
     (case fst world (bb_model (pl_body line)) of
        Inl e \<Rightarrow> (attempt_item line (Some (''Model resolution failed: '' @ pasteur_error_display e)),
                  usage_report_default)
      | Inr m \<Rightarrow>
          (case snd world m (convert_to_chat_request (pl_body line)) of
             Inl e \<Rightarrow> (attempt_item line (Some (''Request failed: '' @ provider_error_display e)),
                       usage_report_default)
           | Inr (_, u) \<Rightarrow> (attempt_item line None, u)))"

definition zero_pricing :: json where
  "zero_pricing = json_obj [(''input_price_per_million'', JInt 0), (''output_price_per_million'', JInt 0)]"

definition build_result ::
  "decimal_lib \<Rightarrow> (json \<Rightarrow> string) \<Rightarrow> parsed_batch_line \<Rightarrow> batch_item_result \<Rightarrow> usage_report option \<Rightarrow>
     batch_item_result option" where
  "build_result lib print line base actual =
     (let item = (\<lambda>cost inp outp. \<lparr>bi_custom_id = bi_custom_id base, bi_success = bi_success base,
        bi_estimated_cost = pl_estimated_cost line, bi_actual_cost = cost, bi_actual_input_tokens = inp,
        bi_actual_output_tokens = outp, bi_error = bi_error base\<rparr>)
      in case actual of
           None \<Rightarrow> Some (item None None None)
         | Some u \<Rightarrow>
             map_option (\<lambda>cost. item (Some (unwrap_or 0 cost))
                 (Some (scast (unwrap_or 0 (ur_prompt_tokens u))))
                 (Some (scast (unwrap_or 0 (ur_completion_tokens u)))))
               (compute_chat_cost lib print zero_pricing u))"

definition MAX_RETRIES :: nat where
  "MAX_RETRIES = 2"

definition exponential_backoff_delay :: "nat \<Rightarrow> duration" where
  "exponential_backoff_delay attempt = millis (1000 * 2 ^ (attempt - 1))"

text \<open>
  The attempts from number \<open>attempt\<close> on, \<open>n\<close> being left; \<open>worlds\<close> gives what each attempt
  meets. The second component lists the delays slept.
\<close>

fun process_attempts ::
  "decimal_lib \<Rightarrow> (json \<Rightarrow> string) \<Rightarrow> (nat \<Rightarrow> 'm attempt_world) \<Rightarrow> parsed_batch_line \<Rightarrow> nat \<Rightarrow> nat \<Rightarrow>
     string option \<Rightarrow> batch_item_result option \<times> duration list" where
  "process_attempts lib print worlds line attempt 0 last_error =
     (build_result lib print line
        (attempt_item line None\<lparr>bi_success := False, bi_error := last_error\<rparr>) None, [])"
| "process_attempts lib print worlds line attempt (Suc n) last_error =
     (let slept = (if 0 < attempt then [exponential_backoff_delay attempt] else []);
          (result, u) = attempt_request (worlds attempt) line
      in if bi_success result then (build_result lib print line result (Some u), slept)
         else (let (r, ds) = process_attempts lib print worlds line (Suc attempt) n (bi_error result)
               in (r, slept @ ds)))"

definition process_single_request ::
  "decimal_lib \<Rightarrow> (json \<Rightarrow> string) \<Rightarrow> (nat \<Rightarrow> 'm attempt_world) \<Rightarrow> parsed_batch_line \<Rightarrow>
     batch_item_result option \<times> duration list" where
  "process_single_request lib print worlds line =
     process_attempts lib print worlds line 0 (MAX_RETRIES + 1) None"

text \<open>\<open>Sum\<close> of decimals adds from zero on.\<close>

definition dec_sum :: "decimal_lib \<Rightarrow> decimal list \<Rightarrow> decimal option" where
  "dec_sum lib xs = foldl (\<lambda>acc x. Option.bind acc (\<lambda>a. dec_add lib a x)) (Some 0) xs"

definition aggregate_results :: "decimal_lib \<Rightarrow> batch_item_result list \<Rightarrow> batch_process_result option" where
  "aggregate_results lib items =
     Option.bind (dec_sum lib (map bi_estimated_cost items)) (\<lambda>estimated.
     Option.bind (dec_sum lib (List.map_filter bi_actual_cost items)) (\<lambda>actual.
       let ok = length (filter bi_success items)
       in Some \<lparr>bs_items = items, bs_total_estimated_cost = estimated,
            bs_total_actual_cost = (if 0 < actual then Some actual else None),
            bs_total_input_tokens = sum_list (List.map_filter bi_actual_input_tokens items),
            bs_total_output_tokens = sum_list (List.map_filter bi_actual_output_tokens items),
            bs_success_count = ok, bs_failure_count = length items - ok\<rparr>))"

text \<open>
  The requests run as tasks, at most \<open>max_concurrent\<close> at a time; their results are collected
  in the order of the requests, so the schedule matters only through what each task's attempts
  meet (\<open>worlds\<close>, by request and attempt). A task that panics makes the whole batch fail.
\<close>

definition process_batch ::
  "decimal_lib \<Rightarrow> (json \<Rightarrow> string) \<Rightarrow> (nat \<Rightarrow> nat \<Rightarrow> 'm attempt_world) \<Rightarrow> parsed_batch_line list \<Rightarrow>
     (api_error, batch_process_result) result option" where
  "process_batch lib print worlds lines =
     (case collect_results (map (\<lambda>(i, line). ok_or AE_Internal
         (fst (process_single_request lib print (worlds i) line))) (zip [0..<length lines] lines)) of
        Inl e \<Rightarrow> Some (Err e)
      | Inr items \<Rightarrow> map_option Ok (aggregate_results lib items))"

section \<open>The completion notice\<close>

record batch_webhook_payload =
  bw_batch_id :: string
  bw_status :: string
  bw_total_requests :: nat
  bw_completed_requests :: nat
  bw_failed_requests :: nat
  bw_total_cost_usd :: decimal
  bw_total_input_tokens :: i64
  bw_total_output_tokens :: i64
  bw_completed_at :: datetime

datatype webhook_error = WE_HttpError string | WE_HttpStatus nat

text \<open>The exchange gives the status of the response or the error of the request.\<close>

definition batch_send_webhook ::
  "(string \<Rightarrow> batch_webhook_payload \<Rightarrow> (string, nat) result) \<Rightarrow> string \<Rightarrow> batch_webhook_payload \<Rightarrow>
     (webhook_error, unit) result" where
  "batch_send_webhook http url payload =
     (case http url payload of
        Inl e \<Rightarrow> Err (WE_HttpError e)
      | Inr status \<Rightarrow> if \<not> (200 \<le> status \<and> status < 300) then Err (WE_HttpStatus status) else Ok ())"

definition completion_payload :: "datetime \<Rightarrow> string \<Rightarrow> batch_process_result \<Rightarrow> batch_webhook_payload" where
  "completion_payload now batch_id r =
     \<lparr>bw_batch_id = batch_id, bw_status = ''completed'', bw_total_requests = length (bs_items r),
      bw_completed_requests = bs_success_count r, bw_failed_requests = bs_failure_count r,
      bw_total_cost_usd = unwrap_or 0 (bs_total_actual_cost r),
      bw_total_input_tokens = bs_total_input_tokens r, bw_total_output_tokens = bs_total_output_tokens r,
      bw_completed_at = now\<rparr>"

definition send_completion_webhook ::
  "(string \<Rightarrow> batch_webhook_payload \<Rightarrow> (string, nat) result) \<Rightarrow> datetime \<Rightarrow> string \<Rightarrow> string \<Rightarrow>
     batch_process_result \<Rightarrow> (webhook_error, unit) result" where
  "send_completion_webhook http now batch_id url r = batch_send_webhook http url (completion_payload now batch_id r)"

section \<open>What a batch returns\<close>

definition attempt_ok :: "'m attempt_world \<Rightarrow> parsed_batch_line \<Rightarrow> bool" where
  "attempt_ok world line \<longleftrightarrow> bi_success (fst (attempt_request world line))"

lemma build_result_fields:
  assumes "build_result lib print line base actual = Some item"
  shows "bi_custom_id item = bi_custom_id base \<and> bi_success item = bi_success base \<and>
    bi_estimated_cost item = pl_estimated_cost line"
  using assms by (auto simp: build_result_def Let_def split: option.splits)

lemma attempt_request_id: "bi_custom_id (fst (attempt_request world line)) = pl_custom_id line"
  by (simp add: attempt_request_def attempt_item_def split: sum.splits prod.splits)

lemma process_attempts_item:
  assumes "fst (process_attempts lib print worlds line attempt n err) = Some item"
  shows "bi_custom_id item = pl_custom_id line \<and> bi_estimated_cost item = pl_estimated_cost line \<and>
    bi_success item = (\<exists>k < n. attempt_ok (worlds (attempt + k)) line)"
  using assms
proof (induction n arbitrary: attempt err)
  case 0
  then show ?case by (auto simp: attempt_item_def dest: build_result_fields)
next
  case (Suc n)
  obtain result u where ar: "attempt_request (worlds attempt) line = (result, u)" by force
  have id: "bi_custom_id result = pl_custom_id line" using attempt_request_id [of "worlds attempt" line] ar by simp
  have ok: "attempt_ok (worlds attempt) line = bi_success result" using ar by (simp add: attempt_ok_def)
  have ex: "(\<exists>k < Suc n. attempt_ok (worlds (attempt + k)) line) \<longleftrightarrow>
      bi_success result \<or> (\<exists>k < n. attempt_ok (worlds (Suc attempt + k)) line)"
    using ok by (auto simp: less_Suc_eq_0_disj)
  show ?case
  proof (cases "bi_success result")
    case True
    then have "build_result lib print line result (Some u) = Some item"
      using Suc.prems by (simp add: ar)
    from build_result_fields [OF this] True id ex show ?thesis by simp
  next
    case False
    then have "fst (process_attempts lib print worlds line (Suc attempt) n (bi_error result)) = Some item"
      using Suc.prems by (simp add: ar Let_def case_prod_unfold)
    from Suc.IH [OF this] False ex show ?thesis by simp
  qed
qed

lemma process_attempts_delays:
  "prefix (snd (process_attempts lib print worlds line attempt n err))
     (map exponential_backoff_delay (filter (\<lambda>a. 0 < a) [attempt..<attempt + n]))"
proof (induction n arbitrary: attempt err)
  case (Suc n)
  have upt: "[attempt..<attempt + Suc n] = attempt # [Suc attempt..<Suc attempt + n]"
    by (simp add: upt_conv_Cons del: upt_Suc)
  obtain result u where ar: "attempt_request (worlds attempt) line = (result, u)" by force
  show ?case
    unfolding upt using Suc [of "Suc attempt" "bi_error result"]
    by (auto simp: ar Let_def case_prod_unfold simp del: upt_Suc)
qed simp

lemma single_request_delays:
  "prefix (snd (process_single_request lib print worlds line)) [millis 1000, millis 2000]"
proof -
  have "map exponential_backoff_delay (filter (\<lambda>a. 0 < a) [0..<0 + (MAX_RETRIES + 1)]) =
      [millis 1000, millis 2000]"
    by (simp add: MAX_RETRIES_def exponential_backoff_delay_def upt_conv_Cons)
  with process_attempts_delays [of lib print worlds line 0 "MAX_RETRIES + 1" None] show ?thesis
    by (simp add: process_single_request_def)
qed

lemma map_ok_or: "map (\<lambda>x. ok_or e (g x)) zs = map Inr ys \<Longrightarrow> map g zs = map Some ys"
proof (induction zs arbitrary: ys)
  case (Cons z zs)
  then show ?case by (cases ys; cases "g z") auto
qed simp

lemma map_Some_transfer:
  assumes "map g zs = map Some ys" and "\<And>z y. g z = Some y \<Longrightarrow> f y = h z"
  shows "map f ys = map h zs"
  using assms(1)
proof (induction zs arbitrary: ys)
  case (Cons z zs)
  then show ?case using assms(2) by (cases ys) auto
qed simp

lemma map_snd_numbered: "map (\<lambda>z. f (snd z)) (zip [0..<length xs] xs) = map f xs"
  using map_map [of f snd "zip [0..<length xs] xs"] by (simp add: comp_def map_snd_zip)

lemma aggregate_fields:
  assumes "aggregate_results lib items = Some r"
  shows "bs_items r = items" and "bs_success_count r = length (filter bi_success items)"
    and "bs_failure_count r = length items - length (filter bi_success items)"
    and "\<exists>a. dec_sum lib (List.map_filter bi_actual_cost items) = Some a \<and>
      bs_total_actual_cost r = (if 0 < a then Some a else None)"
  using assms by (auto simp: aggregate_results_def Let_def Option.bind_eq_Some_conv)

text \<open>The task of a numbered request.\<close>

definition batch_task ::
  "decimal_lib \<Rightarrow> (json \<Rightarrow> string) \<Rightarrow> (nat \<Rightarrow> nat \<Rightarrow> 'm attempt_world) \<Rightarrow> nat \<times> parsed_batch_line \<Rightarrow>
     batch_item_result option" where
  "batch_task lib print worlds z = fst (process_single_request lib print (worlds (fst z)) (snd z))"

lemma process_batch_items:
  assumes "process_batch lib print worlds lines = Some (Ok r)"
  shows "map (batch_task lib print worlds) (zip [0..<length lines] lines) = map Some (bs_items r)"
    and "aggregate_results lib (bs_items r) = Some r"
proof -
  obtain items where items: "collect_results (map (\<lambda>z. ok_or AE_Internal (batch_task lib print worlds z))
      (zip [0..<length lines] lines)) = Inr items" and agg: "aggregate_results lib items = Some r"
    using assms by (auto simp: process_batch_def batch_task_def case_prod_unfold split: sum.splits)
  have "bs_items r = items" using aggregate_fields(1) [OF agg] .
  with map_ok_or [OF collect_results_Inr [OF items]] agg
  show "map (batch_task lib print worlds) (zip [0..<length lines] lines) = map Some (bs_items r)"
    and "aggregate_results lib (bs_items r) = Some r" by simp_all
qed

lemma batch_task_item:
  assumes "batch_task lib print worlds z = Some item"
  shows "bi_custom_id item = pl_custom_id (snd z) \<and> bi_estimated_cost item = pl_estimated_cost (snd z) \<and>
    bi_success item = (\<exists>k < 3. attempt_ok (worlds (fst z) k) (snd z))"
  using process_attempts_item [of lib print "worlds (fst z)" "snd z" 0 "MAX_RETRIES + 1" None item] assms
  by (simp add: batch_task_def process_single_request_def MAX_RETRIES_def numeral_3_eq_3)

text \<open>
  A batch that runs to its end reports one item per request, in the order of the requests
  and under their ids, with the estimated costs; an item succeeds exactly when one of the
  request's three attempts does; and the counts add up to the number of requests.
\<close>

lemma batch_items_exact:
  assumes "process_batch lib print worlds lines = Some (Ok r)"
  shows "map bi_custom_id (bs_items r) = map pl_custom_id lines \<and>
    map bi_estimated_cost (bs_items r) = map pl_estimated_cost lines \<and>
    map bi_success (bs_items r) = map (\<lambda>(i, line). \<exists>k < 3. attempt_ok (worlds i k) line)
      (zip [0..<length lines] lines) \<and>
    bs_success_count r + bs_failure_count r = length lines"
proof -
  note items = process_batch_items [OF assms]
  note fields = map_Some_transfer [OF items(1)]
  have "map bi_custom_id (bs_items r) = map (\<lambda>z. pl_custom_id (snd z)) (zip [0..<length lines] lines)"
    "map bi_estimated_cost (bs_items r) = map (\<lambda>z. pl_estimated_cost (snd z)) (zip [0..<length lines] lines)"
    "map bi_success (bs_items r) =
       map (\<lambda>z. \<exists>k < 3. attempt_ok (worlds (fst z) k) (snd z)) (zip [0..<length lines] lines)"
    by (intro fields; simp add: batch_task_item)+
  moreover have "length (bs_items r) = length lines"
    using arg_cong [OF items(1), of length] by simp
  moreover have "bs_success_count r + bs_failure_count r = length (bs_items r)"
    using aggregate_fields(2,3) [OF items(2)] length_filter_le [of bi_success "bs_items r"] by simp
  ultimately show ?thesis by (simp add: map_snd_numbered case_prod_unfold)
qed

text \<open>The cost of an item that succeeded is computed with prices of zero.\<close>

lemma zero_cost:
  assumes "dec_exact lib" and "dec_from_str_exact lib (print (JInt 0)) = Some 0"
  shows "\<exists>c. compute_chat_cost lib print zero_pricing u = Some c \<and> unwrap_or 0 c = 0"
proof -
  have field: "decimal_field lib print zero_pricing INPUT_PRICE_PER_MILLION = Some 0"
    "decimal_field lib print zero_pricing OUTPUT_PRICE_PER_MILLION = Some 0"
    using assms(2) by (simp_all add: decimal_field_def zero_pricing_def json_get_obj
        INPUT_PRICE_PER_MILLION_def OUTPUT_PRICE_PER_MILLION_def)
  have mul: "dec_mul lib (of_int (sint (w :: 32 word))) 0 = Some 0" for w
    using mul_scaled [OF assms(1) _ i32_abs [of w], of 0 0] by simp
  have rest: "Option.bind (dec_add lib 0 0) (\<lambda>s. map_option Some (dec_div lib s million)) = Some (Some 0)"
    using per_million_scaled [OF assms(1), of 0 0 0] by simp
  show ?thesis
    using mul rest by (auto simp: compute_chat_cost_def field split: option.splits)
qed

lemma dec_sum_zeros:
  assumes "dec_exact lib" and "list_all (\<lambda>x. x = 0) xs"
  shows "dec_sum lib xs = Some 0"
proof -
  have "dec_add lib 0 0 = Some 0"
    using dec_exactD(2) [OF assms(1), of 0 0] representable_int [of 0] by simp
  then have "foldl (\<lambda>acc x. Option.bind acc (\<lambda>a. dec_add lib a x)) (Some 0) xs = Some 0"
    using assms(2) by (induction xs) auto
  then show ?thesis by (simp add: dec_sum_def)
qed

lemma process_attempts_cost:
  assumes "dec_exact lib" and "dec_from_str_exact lib (print (JInt 0)) = Some 0"
    and "fst (process_attempts lib print worlds line attempt n err) = Some item"
  shows "bi_actual_cost item = None \<or> bi_actual_cost item = Some 0"
  using assms(3)
proof (induction n arbitrary: attempt err)
  case (Suc n)
  obtain result u where ar: "attempt_request (worlds attempt) line = (result, u)" by force
  obtain c where "compute_chat_cost lib print zero_pricing u = Some c" "unwrap_or 0 c = 0"
    using zero_cost [of lib print u] assms(1,2) by blast
  with Suc ar show ?case
    by (auto simp: Let_def case_prod_unfold build_result_def split: if_splits)
qed (auto simp: build_result_def)

text \<open>
  The real cost of a batch is never reported: whatever the requests used, the total actual
  cost is absent and the completion notice says zero.
\<close>

lemma batch_cost_lost:
  assumes "dec_exact lib" and "dec_from_str_exact lib (print (JInt 0)) = Some 0"
    and "process_batch lib print worlds lines = Some (Ok r)"
  shows "bs_total_actual_cost r = None \<and> bw_total_cost_usd (completion_payload now batch_id r) = 0"
proof -
  note items = process_batch_items [OF assms(3)]
  have "bi_actual_cost item = None \<or> bi_actual_cost item = Some 0" if "item \<in> set (bs_items r)" for item
  proof -
    have "Some item \<in> set (map (batch_task lib print worlds) (zip [0..<length lines] lines))"
      unfolding items(1) using that by simp
    then obtain z where "batch_task lib print worlds z = Some item" by auto
    then show ?thesis
      unfolding batch_task_def process_single_request_def
      using process_attempts_cost [of lib print] assms(1,2) by blast
  qed
  then have "list_all (\<lambda>x. x = 0) (List.map_filter bi_actual_cost (bs_items r))"
    by (fastforce simp: list_all_iff map_filter_def)
  from dec_sum_zeros [OF assms(1) this] aggregate_fields(4) [OF items(2)] show ?thesis
    by (auto simp: completion_payload_def)
qed

subsection \<open>An example\<close>

definition free_lib :: decimal_lib where
  "free_lib = exact_lib\<lparr>dec_from_str_exact := (\<lambda>_. Some 0)\<rparr>"

definition sample_line :: "string \<Rightarrow> parsed_batch_line" where
  "sample_line i = \<lparr>pl_custom_id = i, pl_method = ''POST'', pl_url = ''/v1/chat/completions'',
     pl_body = \<lparr>bb_model = ''m'', bb_messages = [], bb_max_tokens = None\<rparr>, pl_estimated_cost = 3\<rparr>"

text \<open>The model resolves; the first attempt of the first request fails.\<close>

definition sample_worlds :: "nat \<Rightarrow> nat \<Rightarrow> unit attempt_world" where
  "sample_worlds i k = (\<lambda>_. Ok (), \<lambda>_ _.
     if i = 0 \<and> k = 0 then Err (PErr_Provider ''down'')
     else Ok (PR_Json JNull, usage_report_default\<lparr>ur_prompt_tokens := Some 7, ur_completion_tokens := Some 5\<rparr>))"

definition sample_item :: "string \<Rightarrow> batch_item_result" where
  "sample_item i = \<lparr>bi_custom_id = i, bi_success = True, bi_estimated_cost = 3, bi_actual_cost = Some 0,
     bi_actual_input_tokens = Some 7, bi_actual_output_tokens = Some 5, bi_error = None\<rparr>"

definition sample_outcome :: batch_process_result where
  "sample_outcome = \<lparr>bs_items = [sample_item ''a'', sample_item ''b''], bs_total_estimated_cost = 6,
     bs_total_actual_cost = None, bs_total_input_tokens = 14, bs_total_output_tokens = 10,
     bs_success_count = 2, bs_failure_count = 0\<rparr>"

lemma free_lib_exact: "dec_exact free_lib"
  by (simp add: dec_exact_def free_lib_def exact_lib_def)

lemma sample_task: "fst (process_single_request free_lib coded_print (sample_worlds i) (sample_line j)) = Some (sample_item j)"
  by (simp add: process_single_request_def MAX_RETRIES_def attempt_request_def sample_worlds_def
      sample_line_def attempt_item_def build_result_def compute_chat_cost_def decimal_field_def
      zero_pricing_def json_get_obj INPUT_PRICE_PER_MILLION_def OUTPUT_PRICE_PER_MILLION_def free_lib_def
      exact_lib_def sample_item_def usage_report_default_def Let_def numeral_2_eq_2)

lemma sample_batch:
  "process_batch free_lib coded_print sample_worlds [sample_line ''a'', sample_line ''b''] = Some (Ok sample_outcome)"
  by (simp add: process_batch_def sample_task upt_conv_Cons)
    (simp add: aggregate_results_def dec_sum_def sample_item_def sample_outcome_def free_lib_def
      exact_lib_def map_filter_simps)

theorem batch_items_exact_witness:
  "map bi_custom_id (bs_items sample_outcome) = [''a'', ''b''] \<and> bs_success_count sample_outcome + bs_failure_count sample_outcome = 2"
  using batch_items_exact [OF sample_batch] by (simp add: sample_line_def)

theorem batch_cost_lost_witness:
  "bs_total_actual_cost sample_outcome = None \<and>
   bw_total_cost_usd (completion_payload 0 ''b1'' sample_outcome) = 0"
proof -
  have "dec_from_str_exact free_lib (coded_print (JInt 0)) = Some 0" by (simp add: free_lib_def)
  from batch_cost_lost [OF free_lib_exact this sample_batch] show ?thesis .
qed

end
