(* ===== verification/Alerting.thy ===== *)
theory Alerting
  imports Rate_Limit
begin

text \<open>
  Budget alerts: \<open>crates/godwit-core/src/alerting.rs\<close>, run every five minutes by
  \<open>crates/godwit-api/src/scheduler.rs\<close>. The state holds the tables the service reads and the
  table of webhooks it writes, the faults the database driver will report for the statements
  to come (none when the list is used up), the world behind the HTTP client and the delays
  slept. Two statements name a column; whether the schema has it is a parameter.
\<close>

section \<open>Tables\<close>

record alerting_config =
  ac_id :: i64
  ac_org_id :: "uuid option"
  ac_team_id :: "uuid option"
  ac_api_key_id :: "uuid option"
  ac_budget_threshold_percent :: i32
  ac_webhook_url :: string
  ac_enabled :: bool

record budget_alert_payload =
  ap_event_type :: string
  ap_org_id :: "uuid option"
  ap_team_id :: "uuid option"
  ap_api_key_id :: "uuid option"
  ap_current_spend :: f64
  ap_budget :: f64
  ap_threshold_percent :: u32
  ap_timestamp :: datetime

record webhook_row =
  wr_id :: i64
  wr_event_type :: string
  wr_target_url :: string
  wr_payload :: budget_alert_payload
  wr_status :: string
  wr_retry_count :: i32

datatype alerting_error = AL_Database string | AL_Http string | AL_WebhookFailed string

record 's alert_state =
  as_configs :: "alerting_config list"
  as_webhooks :: "webhook_row list"
  as_next_id :: i64
  as_logs :: "request_log list"
  as_keys :: "api_key list"
  as_teams :: "team list"
  as_orgs :: "organization list"
  as_faults :: "fault list"
  as_world :: 's
  as_slept :: "duration list"

text \<open>The columns \<open>request_logs.org_id\<close> and \<open>organizations.budget_usd\<close>, where they exist.\<close>

record alert_schema =
  sc_logs_org_id :: "(request_log \<Rightarrow> uuid option) option"
  sc_orgs_budget_usd :: "(organization \<Rightarrow> decimal option) option"

text \<open>The migrations create neither of them.\<close>

definition migrated_schema :: alert_schema where
  "migrated_schema = \<lparr>sc_logs_org_id = None, sc_orgs_budget_usd = None\<rparr>"

text \<open>A statement meets the next fault, if any.\<close>

definition stmt :: "'s alert_state \<Rightarrow> (alerting_error, unit) result \<times> 's alert_state" where
  "stmt st =
     (case as_faults st of
        [] \<Rightarrow> (Ok (), st)
      | None # fs \<Rightarrow> (Ok (), st\<lparr>as_faults := fs\<rparr>)
      | Some e # fs \<Rightarrow> (Err (AL_Database e), st\<lparr>as_faults := fs\<rparr>))"

definition query :: "('s alert_state \<Rightarrow> (alerting_error, 'a) result) \<Rightarrow> 's alert_state \<Rightarrow>
    (alerting_error, 'a) result \<times> 's alert_state" where
  "query f st = (case stmt st of (Inl e, st') \<Rightarrow> (Err e, st') | (Inr _, st') \<Rightarrow> (f st', st'))"

definition get_alerting_configs ::
  "'s alert_state \<Rightarrow> (alerting_error, alerting_config list) result \<times> 's alert_state" where
  "get_alerting_configs st = query (\<lambda>st. Ok (filter ac_enabled (as_configs st))) st"

section \<open>Spend and budget\<close>

definition missing_column :: "string \<Rightarrow> alerting_error" where
  "missing_column c = AL_Database (''error returned from database: column '' @ [CHR 0x22] @ c @ [CHR 0x22] @
     '' does not exist'')"

text \<open>\<open>$1 IS NULL OR col = $1\<close>\<close>

definition matches :: "uuid option \<Rightarrow> uuid option \<Rightarrow> bool" where
  "matches param col \<longleftrightarrow> (case param of None \<Rightarrow> True | Some u \<Rightarrow> col = Some u)"

text \<open>A decimal read back from its text as a double.\<close>

definition decimal_as_f64 :: "decimal \<Rightarrow> f64" where
  "decimal_as_f64 d = f64_round d"

definition get_current_spend ::
  "alert_schema \<Rightarrow> uuid option \<Rightarrow> uuid option \<Rightarrow> uuid option \<Rightarrow> 's alert_state \<Rightarrow>
     (alerting_error, f64) result \<times> 's alert_state" where
  "get_current_spend sc oid tid kid st =
     query (\<lambda>st. case sc_logs_org_id sc of
        None \<Rightarrow> Err (missing_column ''org_id'')
      | Some org \<Rightarrow> Ok (decimal_as_f64 (logged_cost
          (\<lambda>l. matches oid (org l) \<and> matches tid (lg_team_id l) \<and> matches kid (lg_api_key_id l)) (as_logs st)))) st"

definition budget_row :: "decimal option list \<Rightarrow> (alerting_error, f64) result" where
  "budget_row rows =
     (case rows of
        [] \<Rightarrow> Err (AL_Database ''no rows returned by a query that expected to return at least one row'')
      | b # _ \<Rightarrow> Ok (decimal_as_f64 (unwrap_or 0 b)))"

definition get_budget ::
  "alert_schema \<Rightarrow> uuid option \<Rightarrow> uuid option \<Rightarrow> uuid option \<Rightarrow> 's alert_state \<Rightarrow>
     (alerting_error, f64) result \<times> 's alert_state" where
  "get_budget sc oid tid kid st =
     (case (kid, tid, oid) of
        (Some k, _, _) \<Rightarrow> query (\<lambda>st. budget_row (map ak_budget_limit_usd (filter (\<lambda>r. ak_id r = k) (as_keys st)))) st
      | (None, Some t, _) \<Rightarrow> query (\<lambda>st. budget_row (map tm_budget_usd (filter (\<lambda>r. tm_id r = t) (as_teams st)))) st
      | (None, None, Some oo) \<Rightarrow>
          query (\<lambda>st. case sc_orgs_budget_usd sc of
             None \<Rightarrow> Err (missing_column ''budget_usd'')
           | Some col \<Rightarrow> budget_row (map col (filter (\<lambda>r. og_id r = oo) (as_orgs st)))) st
      | (None, None, None) \<Rightarrow> (Ok 0, st))"

section \<open>Delivery\<close>

definition record_webhook_attempt ::
  "string \<Rightarrow> string \<Rightarrow> budget_alert_payload \<Rightarrow> string \<Rightarrow> 's alert_state \<Rightarrow>
     (alerting_error, i64) result \<times> 's alert_state" where
  "record_webhook_attempt event_type url payload status st =
     (case stmt st of
        (Inl e, st') \<Rightarrow> (Err e, st')
      | (Inr _, st') \<Rightarrow>
          (Ok (as_next_id st'), st'\<lparr>as_next_id := as_next_id st' + 1,
             as_webhooks := as_webhooks st' @ [\<lparr>wr_id = as_next_id st', wr_event_type = event_type,
               wr_target_url = url, wr_payload = payload, wr_status = status, wr_retry_count = 0\<rparr>]\<rparr>))"

definition update_webhooks ::
  "i64 \<Rightarrow> (webhook_row \<Rightarrow> webhook_row) \<Rightarrow> 's alert_state \<Rightarrow> (alerting_error, unit) result \<times> 's alert_state" where
  "update_webhooks wid f st =
     (case stmt st of
        (Inl e, st') \<Rightarrow> (Err e, st')
      | (Inr _, st') \<Rightarrow>
          (Ok (), st'\<lparr>as_webhooks := map (\<lambda>r. if wr_id r = wid then f r else r) (as_webhooks st')\<rparr>))"

definition update_webhook_status ::
  "i64 \<Rightarrow> string \<Rightarrow> i32 \<Rightarrow> 's alert_state \<Rightarrow> (alerting_error, unit) result \<times> 's alert_state" where
  "update_webhook_status wid status n st =
     update_webhooks wid (\<lambda>r. r\<lparr>wr_status := status, wr_retry_count := n\<rparr>) st"

definition update_webhook_retry ::
  "i64 \<Rightarrow> i32 \<Rightarrow> 's alert_state \<Rightarrow> (alerting_error, unit) result \<times> 's alert_state" where
  "update_webhook_retry wid n st = update_webhooks wid (\<lambda>r. r\<lparr>wr_retry_count := n\<rparr>) st"

type_synonym 's poster = "string \<Rightarrow> budget_alert_payload \<Rightarrow> 's \<Rightarrow> (string, nat) result \<times> 's"

definition delivered :: "(string, nat) result \<Rightarrow> bool" where
  "delivered r = (case r of Inr status \<Rightarrow> 200 \<le> status \<and> status < 300 | Inl _ \<Rightarrow> False)"

definition webhook_delays :: "nat list" where
  "webhook_delays = [30, 120, 600, 3600]"

definition webhook_delay :: "nat \<Rightarrow> duration" where
  "webhook_delay attempt =
     secs (if attempt < length webhook_delays then webhook_delays ! attempt
           else webhook_delays ! (length webhook_delays - 1))"

text \<open>Attempts from number \<open>attempt\<close> on, \<open>n\<close> retries being left.\<close>

fun deliver ::
  "'s poster \<Rightarrow> string \<Rightarrow> budget_alert_payload \<Rightarrow> i64 \<Rightarrow> nat \<Rightarrow> nat \<Rightarrow> 's alert_state \<Rightarrow>
     (alerting_error, unit) result \<times> 's alert_state" where
  "deliver post url payload wid attempt n st =
     (let (r, w) = post url payload (as_world st); st = st\<lparr>as_world := w\<rparr>
      in if delivered r then update_webhook_status wid ''success'' (of_nat attempt) st
         else (case n of
           Suc n' \<Rightarrow>
             (case update_webhook_retry wid (of_nat attempt + 1)
                 (st\<lparr>as_slept := as_slept st @ [webhook_delay attempt]\<rparr>) of
                (Inl e, st') \<Rightarrow> (Err e, st')
              | (Inr _, st') \<Rightarrow> deliver post url payload wid (Suc attempt) n' st')
         | 0 \<Rightarrow>
             (case update_webhook_status wid ''failed'' (of_nat attempt) st of
                (Inl e, st') \<Rightarrow> (Err e, st')
              | (Inr _, st') \<Rightarrow> (Err (AL_WebhookFailed ''Max retries exceeded''), st'))))"

declare deliver.simps [simp del]

definition send_webhook ::
  "'s poster \<Rightarrow> string \<Rightarrow> string \<Rightarrow> budget_alert_payload \<Rightarrow> 's alert_state \<Rightarrow>
     (alerting_error, unit) result \<times> 's alert_state" where
  "send_webhook post event_type url payload st =
     (case record_webhook_attempt event_type url payload ''pending'' st of
        (Inl e, st') \<Rightarrow> (Err e, st')
      | (Inr wid, st') \<Rightarrow> deliver post url payload wid 0 5 st')"

section \<open>Checking the budgets\<close>

definition alert_event :: "f64 \<Rightarrow> f64 \<Rightarrow> string" where
  "alert_event spend budget = (if budget \<le> spend then ''budget_100'' else ''budget_80'')"

definition check_config ::
  "alert_schema \<Rightarrow> 's poster \<Rightarrow> datetime \<Rightarrow> alerting_config \<Rightarrow> 's alert_state \<Rightarrow>
     (alerting_error, unit) result \<times> 's alert_state" where
  "check_config sc post now c st =
     (case get_current_spend sc (ac_org_id c) (ac_team_id c) (ac_api_key_id c) st of
        (Inl e, st) \<Rightarrow> (Err e, st)
      | (Inr spend, st) \<Rightarrow>
          (case get_budget sc (ac_org_id c) (ac_team_id c) (ac_api_key_id c) st of
             (Inl e, st) \<Rightarrow> (Err e, st)
           | (Inr budget, st) \<Rightarrow>
               (if budget \<le> 0 then (Ok (), st)
                else (let threshold = f_mul budget (f_div (f_of_int (sint (ac_budget_threshold_percent c))) 100)
                      in if threshold \<le> spend
                         then send_webhook post (alert_event spend budget) (ac_webhook_url c)
                           \<lparr>ap_event_type = alert_event spend budget, ap_org_id = ac_org_id c,
                            ap_team_id = ac_team_id c, ap_api_key_id = ac_api_key_id c,
                            ap_current_spend = spend, ap_budget = budget,
                            ap_threshold_percent = ac_budget_threshold_percent c, ap_timestamp = now\<rparr> st
                         else (Ok (), st)))))"

fun check_configs ::
  "alert_schema \<Rightarrow> 's poster \<Rightarrow> datetime \<Rightarrow> alerting_config list \<Rightarrow> 's alert_state \<Rightarrow>
     (alerting_error, unit) result \<times> 's alert_state" where
  "check_configs sc post now [] st = (Ok (), st)"
| "check_configs sc post now (c # cs) st =
     (case check_config sc post now c st of
        (Inl e, st') \<Rightarrow> (Err e, st')
      | (Inr _, st') \<Rightarrow> check_configs sc post now cs st')"

definition check_budgets ::
  "alert_schema \<Rightarrow> 's poster \<Rightarrow> datetime \<Rightarrow> 's alert_state \<Rightarrow>
     (alerting_error, unit) result \<times> 's alert_state" where
  "check_budgets sc post now st =
     (case get_alerting_configs st of
        (Inl e, st') \<Rightarrow> (Err e, st')
      | (Inr cs, st') \<Rightarrow> check_configs sc post now cs st')"

section \<open>What is delivered\<close>

text \<open>The world after \<open>k\<close> posts, and whether each of them was delivered.\<close>

fun posts :: "'s poster \<Rightarrow> string \<Rightarrow> budget_alert_payload \<Rightarrow> nat \<Rightarrow> 's \<Rightarrow> bool list \<times> 's" where
  "posts post url payload 0 w = ([], w)"
| "posts post url payload (Suc k) w =
     (let (r, w') = post url payload w; (ds, w'') = posts post url payload k w' in (delivered r # ds, w''))"

lemma webhook_delay_list:
  "map webhook_delay [0..<5] = map secs [30, 120, 600, 3600, 3600]"
  by (simp add: webhook_delay_def webhook_delays_def upt_conv_Cons)

lemma deliver_exact:
  assumes "as_faults st = []"
  shows "\<exists>k \<le> n. \<exists>ds w r. posts post url payload (Suc k) (as_world st) = (ds, w) \<and>
    list_all Not (butlast ds) \<and> length ds = Suc k \<and>
    as_world (snd (deliver post url payload wid attempt n st)) = w \<and>
    as_slept (snd (deliver post url payload wid attempt n st)) =
      as_slept st @ map webhook_delay [attempt..<attempt + k] \<and>
    fst (deliver post url payload wid attempt n st) = r \<and>
    (if last ds then r = Ok () else k = n \<and> r = Err (AL_WebhookFailed ''Max retries exceeded''))"
  using assms
proof (induction n arbitrary: attempt st)
  case 0
  obtain r w where "post url payload (as_world st) = (r, w)" by force
  then show ?case using 0
    by (auto simp: deliver.simps [of post url payload wid attempt 0] update_webhook_status_def
        update_webhooks_def stmt_def Let_def)
next
  case (Suc n)
  obtain r w where p: "post url payload (as_world st) = (r, w)" by force
  let ?st = "st\<lparr>as_world := w, as_slept := as_slept st @ [webhook_delay attempt],
    as_webhooks := map (\<lambda>x. if wr_id x = wid then x\<lparr>wr_retry_count := of_nat attempt + 1\<rparr> else x) (as_webhooks st)\<rparr>"
  show ?case
  proof (cases "delivered r")
    case True
    then show ?thesis using Suc.prems p
      by (intro exI [of _ 0]) (auto simp: deliver.simps [of post url payload wid attempt "Suc n"]
        update_webhook_status_def update_webhooks_def stmt_def Let_def)
  next
    case False
    then have step: "deliver post url payload wid attempt (Suc n) st =
        deliver post url payload wid (Suc attempt) n ?st"
      using Suc.prems p
      by (simp add: deliver.simps [of post url payload wid attempt "Suc n"] update_webhook_retry_def
          update_webhooks_def stmt_def Let_def)
    from Suc.IH [of ?st "Suc attempt"] Suc.prems obtain k ds w' where ih: "k \<le> n"
      "posts post url payload (Suc k) w = (ds, w')" "list_all Not (butlast ds)" "length ds = Suc k"
      "as_world (snd (deliver post url payload wid (Suc attempt) n ?st)) = w'"
      "as_slept (snd (deliver post url payload wid (Suc attempt) n ?st)) =
         as_slept st @ webhook_delay attempt # map webhook_delay [Suc attempt..<Suc attempt + k]"
      "if last ds then fst (deliver post url payload wid (Suc attempt) n ?st) = Ok ()
       else k = n \<and> fst (deliver post url payload wid (Suc attempt) n ?st) = Err (AL_WebhookFailed ''Max retries exceeded'')"
      by (auto simp: Let_def)
    have "ds \<noteq> []" using ih(4) by auto
    then show ?thesis
      unfolding step using ih False p
      by (intro exI [of _ "Suc k"] conjI exI [of _ "False # ds"] exI [of _ w']
          exI [of _ "fst (deliver post url payload wid (Suc attempt) n ?st)"])
        (auto simp: upt_conv_Cons simp del: upt_Suc)
  qed
qed

lemma send_webhook_recorded:
  assumes "as_faults st = []"
  shows "\<exists>st' wid. send_webhook post ev url payload st = deliver post url payload wid 0 5 st' \<and>
    as_faults st' = [] \<and> as_world st' = as_world st \<and> as_slept st' = as_slept st"
proof -
  let ?st = "st\<lparr>as_next_id := as_next_id st + 1, as_webhooks := as_webhooks st @ [\<lparr>wr_id = as_next_id st,
    wr_event_type = ev, wr_target_url = url, wr_payload = payload, wr_status = ''pending'', wr_retry_count = 0\<rparr>]\<rparr>"
  have "send_webhook post ev url payload st = deliver post url payload (as_next_id st) 0 5 ?st"
    using assms by (simp add: send_webhook_def record_webhook_attempt_def stmt_def)
  then show ?thesis using assms by (intro exI [of _ ?st] exI [of _ "as_next_id st"]) simp
qed

text \<open>
  A webhook is posted until the first success, at most six times, with waits of 30 s,
  2 min, 10 min, 1 h and 1 h in between; it reports success exactly when the last post was
  delivered, and otherwise gives up after the sixth.
\<close>

lemma webhook_delivery_exact:
  assumes "as_faults st = []"
  shows "\<exists>k ds. k \<le> 5 \<and>
    posts post url payload (Suc k) (as_world st) = (ds, as_world (snd (send_webhook post ev url payload st))) \<and>
    list_all Not (butlast ds) \<and>
    as_slept (snd (send_webhook post ev url payload st)) =
      as_slept st @ take k (map secs [30, 120, 600, 3600, 3600]) \<and>
    fst (send_webhook post ev url payload st) =
      (if last ds then Ok () else Err (AL_WebhookFailed ''Max retries exceeded'')) \<and>
    (last ds \<or> k = 5)"
proof -
  obtain st' wid where s: "send_webhook post ev url payload st = deliver post url payload wid 0 5 st'"
    "as_faults st' = []" "as_world st' = as_world st" "as_slept st' = as_slept st"
    using send_webhook_recorded [OF assms] by blast
  obtain k ds where k: "k \<le> 5"
    "posts post url payload (Suc k) (as_world st') = (ds, as_world (snd (deliver post url payload wid 0 5 st')))"
    "list_all Not (butlast ds)"
    "as_slept (snd (deliver post url payload wid 0 5 st')) = as_slept st' @ map webhook_delay [0..<0 + k]"
    "if last ds then fst (deliver post url payload wid 0 5 st') = Ok ()
     else k = 5 \<and> fst (deliver post url payload wid 0 5 st') = Err (AL_WebhookFailed ''Max retries exceeded'')"
    using deliver_exact [OF s(2), of 5 post url payload wid 0] by auto
  have "map webhook_delay [0..<k] = take k (map webhook_delay [0..<5])"
    using k(1) by (simp add: take_map min_def)
  with k s show ?thesis
    by (intro exI [of _ k] exI [of _ ds]) (auto simp: webhook_delay_list split: if_splits)
qed

definition quiet_state :: "nat alert_state" where
  "quiet_state = \<lparr>as_configs = [], as_webhooks = [], as_next_id = 1, as_logs = [], as_keys = [], as_teams = [],
     as_orgs = [], as_faults = [], as_world = 0, as_slept = []\<rparr>"

definition sample_payload :: budget_alert_payload where
  "sample_payload = \<lparr>ap_event_type = ''budget_80'', ap_org_id = None, ap_team_id = None, ap_api_key_id = None,
     ap_current_spend = 85, ap_budget = 100, ap_threshold_percent = 80, ap_timestamp = 0\<rparr>"

theorem webhook_delivery_exact_witness:
  "\<exists>k ds. k \<le> 5 \<and>
    posts (\<lambda>_ _ n. (Ok 500, n + 1)) ''u'' sample_payload (Suc k) (0 :: nat) =
      (ds, as_world (snd (send_webhook (\<lambda>_ _ n. (Ok 500, n + 1)) ''budget_80'' ''u'' sample_payload quiet_state))) \<and>
    (last ds \<or> k = 5)"
  using webhook_delivery_exact [of quiet_state "\<lambda>_ _ n. (Ok 500, n + 1)" "''u''" sample_payload "''budget_80''"]
  by (fastforce simp: quiet_state_def simp del: posts.simps)

text \<open>
  With the schema of the migrations no alert is ever sent: a check of the budgets posts
  nothing and records no webhook, and it succeeds only when no alert is configured.
\<close>

lemma budget_alerts_never_sent:
  "as_world (snd (check_budgets migrated_schema post now st)) = as_world st \<and>
   as_webhooks (snd (check_budgets migrated_schema post now st)) = as_webhooks st \<and>
   is_ok (fst (check_budgets migrated_schema post now st)) =
     (is_ok (fst (stmt st)) \<and> filter ac_enabled (as_configs st) = [])"
proof -
  have stmt: "as_world (snd (stmt s)) = as_world s" "as_webhooks (snd (stmt s)) = as_webhooks s"
    "as_configs (snd (stmt s)) = as_configs s" for s :: "'a alert_state"
    by (simp_all add: stmt_def split: list.splits option.splits)
  have cfg: "\<exists>e. fst (check_config migrated_schema post now c s) = Err e"
    "as_world (snd (check_config migrated_schema post now c s)) = as_world s"
    "as_webhooks (snd (check_config migrated_schema post now c s)) = as_webhooks s"
    for c and s :: "'a alert_state"
    using stmt [of s] by (auto simp: check_config_def get_current_spend_def query_def migrated_schema_def
        split: prod.splits sum.splits)
  have cfgs: "as_world (snd (check_configs migrated_schema post now cs s)) = as_world s \<and>
      as_webhooks (snd (check_configs migrated_schema post now cs s)) = as_webhooks s \<and>
      is_ok (fst (check_configs migrated_schema post now cs s)) = (cs = [])"
    for cs and s :: "'a alert_state"
  proof (cases cs)
    case (Cons c cs')
    obtain e s' where "check_config migrated_schema post now c s = (Err e, s')"
      using cfg(1) [of c s] by (metis prod.collapse)
    with cfg(2,3) [of c s] Cons show ?thesis by simp
  qed simp
  obtain r s' where "stmt st = (r, s')" by force
  then show ?thesis
    using stmt [of st] cfgs
    by (cases r) (simp_all add: check_budgets_def get_alerting_configs_def query_def)
qed

end
