(* ===== verification/Accounts.thy ===== *)
theory Accounts
  imports Gateway_Auth
begin

text \<open>
  The tables of organizations, users, teams, sessions and passwords and their repositories
  (\<open>crates/godwit-db/src/repositories\<close>: \<open>organizations.rs\<close>, \<open>users.rs\<close>, \<open>teams.rs\<close>,
  \<open>team_memberships.rs\<close>, \<open>end_users.rs\<close>, \<open>refresh_tokens.rs\<close>, \<open>password_history.rs\<close>,
  \<open>password_reset_tokens.rs\<close>), with the constraints and cascades of the migrations. A
  statement comes with the fault the driver may report and the message it reports for a
  violated constraint; the ids and timestamps the database generates are arguments.
\<close>

section \<open>Tables and constraints\<close>

record password_entry =
  ph_id :: uuid
  ph_user_id :: uuid
  ph_password_hash :: string
  ph_created_at :: datetime

record accounts =
  ac_organizations :: "organization list"
  ac_users :: "user list"
  ac_teams :: "team list"
  ac_memberships :: "team_membership list"
  ac_api_keys :: "api_key list"
  ac_end_users :: "end_user list"
  ac_refresh_tokens :: "refresh_token list"
  ac_reset_tokens :: "password_reset_token list"
  ac_password_history :: "password_entry list"
  ac_request_logs :: "request_log list"

definition refers :: "uuid \<Rightarrow> ('r \<Rightarrow> uuid) \<Rightarrow> 'r list \<Rightarrow> bool" where
  "refers i key rows \<longleftrightarrow> i \<in> key ` set rows"

definition refers_opt :: "uuid option \<Rightarrow> ('r \<Rightarrow> uuid) \<Rightarrow> 'r list \<Rightarrow> bool" where
  "refers_opt i key rows \<longleftrightarrow> (case i of None \<Rightarrow> True | Some j \<Rightarrow> refers j key rows)"

definition sso_identity :: "user \<Rightarrow> (string \<times> string) option" where
  "sso_identity u = (case (usr_sso_provider u, usr_sso_subject u) of
     (Some p, Some s) \<Rightarrow> Some (p, s) | _ \<Rightarrow> None)"

definition users_ok :: "organization list \<Rightarrow> user list \<Rightarrow> bool" where
  "users_ok orgs users \<longleftrightarrow>
     distinct (map usr_id users) \<and> distinct (map usr_email users) \<and>
     distinct (List.map_filter sso_identity users) \<and>
     list_all (\<lambda>u. user_role_from_str (usr_role u) \<noteq> None \<and> refers_opt (usr_organization_id u) og_id orgs) users"

definition memberships_ok :: "user list \<Rightarrow> team list \<Rightarrow> team_membership list \<Rightarrow> bool" where
  "memberships_ok users teams ms \<longleftrightarrow>
     distinct (map (\<lambda>m. (mb_user_id m, mb_team_id m)) ms) \<and>
     list_all (\<lambda>m. refers (mb_user_id m) usr_id users \<and> refers (mb_team_id m) tm_id teams \<and>
       mb_role m \<in> {''team_admin'', ''member''}) ms"

definition api_keys_ok :: "organization list \<Rightarrow> user list \<Rightarrow> team list \<Rightarrow> api_key list \<Rightarrow> bool" where
  "api_keys_ok orgs users teams ks \<longleftrightarrow>
     distinct (map ak_id ks) \<and> distinct (map ak_key_hash ks) \<and>
     list_all (\<lambda>k. refers (ak_user_id k) usr_id users \<and> refers_opt (ak_team_id k) tm_id teams \<and>
       refers (ak_organization_id k) og_id orgs) ks"

definition user_rows_ok :: "user list \<Rightarrow> ('r \<Rightarrow> uuid) \<Rightarrow> ('r \<Rightarrow> 'k) \<Rightarrow> ('r \<Rightarrow> uuid) \<Rightarrow> 'r list \<Rightarrow> bool" where
  "user_rows_ok users rid key uid rows \<longleftrightarrow>
     distinct (map rid rows) \<and> distinct (map key rows) \<and> list_all (\<lambda>r. refers (uid r) usr_id users) rows"

definition accounts_ok :: "accounts \<Rightarrow> bool" where
  "accounts_ok ac \<longleftrightarrow>
     distinct (map og_id (ac_organizations ac)) \<and>
     users_ok (ac_organizations ac) (ac_users ac) \<and>
     distinct (map tm_id (ac_teams ac)) \<and>
     list_all (\<lambda>t. refers (tm_organization_id t) og_id (ac_organizations ac)) (ac_teams ac) \<and>
     memberships_ok (ac_users ac) (ac_teams ac) (ac_memberships ac) \<and>
     api_keys_ok (ac_organizations ac) (ac_users ac) (ac_teams ac) (ac_api_keys ac) \<and>
     user_rows_ok (ac_users ac) eu_id (\<lambda>e. (eu_user_id e, eu_organization_id e)) eu_user_id (ac_end_users ac) \<and>
     list_all (\<lambda>e. refers (eu_organization_id e) og_id (ac_organizations ac)) (ac_end_users ac) \<and>
     user_rows_ok (ac_users ac) rt_id rt_token_hash rt_user_id (ac_refresh_tokens ac) \<and>
     user_rows_ok (ac_users ac) prt_id prt_token_hash prt_user_id (ac_reset_tokens ac) \<and>
     user_rows_ok (ac_users ac) ph_id ph_id ph_user_id (ac_password_history ac) \<and>
     list_all (\<lambda>l. refers_opt (lg_user_id l) usr_id (ac_users ac) \<and>
       refers_opt (lg_api_key_id l) ak_id (ac_api_keys ac) \<and>
       refers (lg_organization_id l) og_id (ac_organizations ac) \<and>
       refers_opt (lg_team_id l) tm_id (ac_teams ac)) (ac_request_logs ac)"

text \<open>
  A statement: the driver's fault, or the message for a violated constraint, or the effect.
  \<open>exec_stmt\<close> runs a statement without a result, \<open>returning\<close> one whose first returned row
  is fetched.
\<close>

type_synonym stmt = "fault \<times> string"

definition exec_stmt :: "stmt \<Rightarrow> accounts \<Rightarrow> accounts \<Rightarrow> (pasteur_error, unit) result \<times> accounts" where
  "exec_stmt st ac' ac =
     (case st of
        (Some e, _) \<Rightarrow> (Err (PE_Database e), ac)
      | (None, violation) \<Rightarrow> if accounts_ok ac' then (Ok (), ac') else (Err (PE_Database violation), ac))"

definition returning ::
  "(fault \<Rightarrow> 'r list \<Rightarrow> (pasteur_error, 'r) result) \<Rightarrow> stmt \<Rightarrow> 'r list \<Rightarrow> accounts \<Rightarrow> accounts \<Rightarrow>
     (pasteur_error, 'r) result \<times> accounts" where
  "returning fetch st rows ac' ac =
     (case exec_stmt st ac' ac of
        (Inl e, ac1) \<Rightarrow> (Err e, ac1)
      | (Inr _, ac1) \<Rightarrow> (fetch None rows, ac1))"

text \<open>A statement that writes these amounts into columns of type \<open>NUMERIC(p, s)\<close>.\<close>

definition numeric_stmt :: "nat \<Rightarrow> nat \<Rightarrow> decimal option list \<Rightarrow> stmt \<Rightarrow> stmt" where
  "numeric_stmt p s amounts st =
     (if fst st = None \<and> \<not> list_all (\<lambda>a. case a of None \<Rightarrow> True | Some x \<Rightarrow> numeric_fits p s x) amounts
      then (Some (snd st), snd st) else st)"

definition update_where :: "('r \<Rightarrow> bool) \<Rightarrow> ('r \<Rightarrow> 'r) \<Rightarrow> 'r list \<Rightarrow> 'r list" where
  "update_where P f rows = map (\<lambda>r. if P r then f r else r) rows"

lemma exec_stmt_ok:
  assumes "accounts_ok ac"
  shows "accounts_ok (snd (exec_stmt st ac' ac))"
  using assms by (auto simp: exec_stmt_def split: prod.splits option.splits)

lemma returning_ok:
  assumes "accounts_ok ac"
  shows "accounts_ok (snd (returning fetch st rows ac' ac))"
  using exec_stmt_ok [OF assms, of st ac'] by (auto simp: returning_def split: prod.splits sum.splits)

lemma exec_stmt_cases:
  "exec_stmt st ac' ac = (r, ac1) \<Longrightarrow> (ac1 = ac' \<and> r = Ok () \<and> accounts_ok ac') \<or> (ac1 = ac \<and> (\<exists>e. r = Err (PE_Database e)))"
  by (auto simp: exec_stmt_def split: prod.splits option.splits if_splits)

lemma returning_cases:
  "returning fetch st rows ac' ac = (r, ac1) \<Longrightarrow>
     (ac1 = ac' \<and> r = fetch None rows \<and> accounts_ok ac') \<or> (ac1 = ac \<and> (\<exists>e. r = Err (PE_Database e)))"
  by (auto simp: returning_def split: prod.splits sum.splits dest!: exec_stmt_cases)

lemma exec_stmt_Ok [simp]:
  "exec_stmt st ac' ac = (Inr u, ac1) \<longleftrightarrow> fst st = None \<and> accounts_ok ac' \<and> ac1 = ac'"
  by (cases st) (auto simp: exec_stmt_def split: option.splits)

lemma returning_Ok [simp]:
  "returning fetch st rows ac' ac = (Inr r, ac1) \<longleftrightarrow>
     fst st = None \<and> accounts_ok ac' \<and> fetch None rows = Inr r \<and> ac1 = ac'"
  by (cases "exec_stmt st ac' ac") (auto simp: returning_def exec_stmt_def split: sum.splits prod.splits option.splits if_splits)

text \<open>A property of the tables after a statement and what follows it, by its outcome.\<close>

lemma stmt_case:
  assumes "\<And>e ac1. m = (Inl e, ac1) \<Longrightarrow> P (snd (f e ac1))" and "\<And>x ac1. m = (Inr x, ac1) \<Longrightarrow> P (snd (g x ac1))"
  shows "P (snd (case m of (Inl e, ac) \<Rightarrow> f e ac | (Inr x, ac) \<Rightarrow> g x ac))"
  using assms by (cases m; cases "fst m") auto

lemma stmt_Ok_iff:
  "(case m of (Inl e, ac) \<Rightarrow> (Inl (f e), ac) | (Inr x, ac) \<Rightarrow> g x ac) = (Inr y, ac') \<longleftrightarrow>
     (\<exists>x ac1. m = (Inr x, ac1) \<and> g x ac1 = (Inr y, ac'))"
  by (cases m; cases "fst m") auto

lemma update_where_all:
  assumes "\<And>r. P r \<Longrightarrow> Q (f r)" and "\<And>r. \<not> P r \<Longrightarrow> Q r"
  shows "\<forall>r \<in> set (update_where P f rows). Q r"
  using assms by (auto simp: update_where_def)

lemma map_update_where:
  "(\<And>r. P r \<Longrightarrow> g (f r) = g r) \<Longrightarrow> map g (update_where P f rows) = map g rows"
  by (induction rows) (auto simp: update_where_def)

section \<open>Organizations\<close>

definition orgs_create_with_limits ::
  "stmt \<Rightarrow> uuid \<Rightarrow> datetime \<Rightarrow> string \<Rightarrow> i32 option \<Rightarrow> i32 option \<Rightarrow> accounts \<Rightarrow>
     (pasteur_error, organization) result \<times> accounts" where
  "orgs_create_with_limits st new_id now name rpm tpm ac =
     (let row = \<lparr>og_id = new_id, og_name = name, og_rpm = rpm, og_tpm = tpm, og_created_at = now\<rparr>
      in returning fetch_one_db st [row] (ac\<lparr>ac_organizations := ac_organizations ac @ [row]\<rparr>) ac)"

definition orgs_create ::
  "stmt \<Rightarrow> uuid \<Rightarrow> datetime \<Rightarrow> string \<Rightarrow> i32 option \<Rightarrow> accounts \<Rightarrow>
     (pasteur_error, organization) result \<times> accounts" where
  "orgs_create st new_id now name rpm ac = orgs_create_with_limits st new_id now name rpm None ac"

definition orgs_get_by_id :: "fault \<Rightarrow> uuid \<Rightarrow> accounts \<Rightarrow> (pasteur_error, organization) result" where
  "orgs_get_by_id flt i ac = fetch_one flt (filter (\<lambda>o'. og_id o' = i) (ac_organizations ac))"

definition orgs_list :: "fault \<Rightarrow> accounts \<Rightarrow> (pasteur_error, organization list) result" where
  "orgs_list flt ac = fetch_all flt (sort_key og_name (ac_organizations ac))"

definition orgs_update_with_limits ::
  "fault \<Rightarrow> stmt \<Rightarrow> uuid \<Rightarrow> string option \<Rightarrow> i32 option \<Rightarrow> i32 option \<Rightarrow> accounts \<Rightarrow>
     (pasteur_error, organization) result \<times> accounts" where
  "orgs_update_with_limits flt st i name rpm tpm ac =
     (case orgs_get_by_id flt i ac of
        Inl e \<Rightarrow> (Err e, ac)
      | Inr current \<Rightarrow>
          (let upd = (\<lambda>r. r\<lparr>og_name := unwrap_or (og_name current) name,
                 og_rpm := (case rpm of None \<Rightarrow> og_rpm current | _ \<Rightarrow> rpm),
                 og_tpm := (case tpm of None \<Rightarrow> og_tpm current | _ \<Rightarrow> tpm)\<rparr>)
           in returning fetch_one_db st (map upd (filter (\<lambda>r. og_id r = i) (ac_organizations ac)))
                (ac\<lparr>ac_organizations := update_where (\<lambda>r. og_id r = i) upd (ac_organizations ac)\<rparr>) ac))"

definition orgs_update ::
  "fault \<Rightarrow> stmt \<Rightarrow> uuid \<Rightarrow> string option \<Rightarrow> i32 option \<Rightarrow> accounts \<Rightarrow>
     (pasteur_error, organization) result \<times> accounts" where
  "orgs_update flt st i name rpm ac = orgs_update_with_limits flt st i name rpm None ac"

text \<open>
  Deleting an organization deletes its end users; any other row that refers to it makes the
  statement fail.
\<close>

definition orgs_delete :: "stmt \<Rightarrow> uuid \<Rightarrow> accounts \<Rightarrow> (pasteur_error, unit) result \<times> accounts" where
  "orgs_delete st i ac =
     exec_stmt st
       (ac\<lparr>ac_organizations := filter (\<lambda>r. og_id r \<noteq> i) (ac_organizations ac),
           ac_end_users := filter (\<lambda>r. eu_organization_id r \<noteq> i) (ac_end_users ac)\<rparr>) ac"

section \<open>Users\<close>

definition users_create ::
  "stmt \<Rightarrow> uuid \<Rightarrow> datetime \<Rightarrow> string \<Rightarrow> string option \<Rightarrow> user_role \<Rightarrow> uuid option \<Rightarrow> accounts \<Rightarrow>
     (pasteur_error, user) result \<times> accounts" where
  "users_create st new_id now email name role oid ac =
     (let row = \<lparr>usr_id = new_id, usr_organization_id = oid, usr_email = email, usr_name = name,
          usr_role = user_role_as_str role, usr_sso_provider = None, usr_sso_subject = None,
          usr_password_hash = None, usr_password_changed_at = None, usr_password_expires_at = None,
          usr_must_change_password = False, usr_created_at = now\<rparr>
      in returning fetch_one_db st [row] (ac\<lparr>ac_users := ac_users ac @ [row]\<rparr>) ac)"

definition users_get_by_id :: "fault \<Rightarrow> uuid \<Rightarrow> accounts \<Rightarrow> (pasteur_error, user) result" where
  "users_get_by_id flt i ac = fetch_one flt (filter (\<lambda>u. usr_id u = i) (ac_users ac))"

definition users_get_by_email :: "fault \<Rightarrow> string \<Rightarrow> accounts \<Rightarrow> (pasteur_error, user) result" where
  "users_get_by_email flt email ac = fetch_one flt (filter (\<lambda>u. usr_email u = email) (ac_users ac))"

definition users_list_for_organization :: "fault \<Rightarrow> uuid \<Rightarrow> accounts \<Rightarrow> (pasteur_error, user list) result" where
  "users_list_for_organization flt oid ac =
     fetch_all flt (filter (\<lambda>u. usr_organization_id u = Some oid) (ac_users ac))"

text \<open>Ascending order puts the rows without organization last.\<close>

definition nulls_last :: "uuid option \<Rightarrow> int" where
  "nulls_last o' = (case o' of None \<Rightarrow> 2 ^ 128 | Some i \<Rightarrow> uint i)"

definition users_list_all :: "fault \<Rightarrow> accounts \<Rightarrow> (pasteur_error, user list) result" where
  "users_list_all flt ac =
     fetch_all flt (sort_key (\<lambda>u. nulls_last (usr_organization_id u)) (sort_key usr_email (ac_users ac)))"

definition users_set ::
  "stmt \<Rightarrow> uuid \<Rightarrow> (user \<Rightarrow> user) \<Rightarrow> accounts \<Rightarrow> (pasteur_error, user) result \<times> accounts" where
  "users_set st i upd ac =
     returning fetch_one_db st (map upd (filter (\<lambda>u. usr_id u = i) (ac_users ac)))
       (ac\<lparr>ac_users := update_where (\<lambda>u. usr_id u = i) upd (ac_users ac)\<rparr>) ac"

definition users_update ::
  "fault \<Rightarrow> stmt \<Rightarrow> uuid \<Rightarrow> string option \<Rightarrow> string option \<Rightarrow> uuid option \<Rightarrow> accounts \<Rightarrow>
     (pasteur_error, user) result \<times> accounts" where
  "users_update flt st i name role oid ac =
     (case users_get_by_id flt i ac of
        Inl e \<Rightarrow> (Err e, ac)
      | Inr current \<Rightarrow>
          users_set st i
            (\<lambda>u. u\<lparr>usr_name := (case name of None \<Rightarrow> usr_name current | _ \<Rightarrow> name),
                   usr_role := unwrap_or (usr_role current) role,
                   usr_organization_id := (case oid of None \<Rightarrow> usr_organization_id current | _ \<Rightarrow> oid)\<rparr>) ac)"

text \<open>
  Deleting a user deletes the memberships, keys, sessions and passwords of the user and
  clears the references of the request log to the user and the deleted keys.
\<close>

definition users_delete :: "stmt \<Rightarrow> uuid \<Rightarrow> accounts \<Rightarrow> (pasteur_error, unit) result \<times> accounts" where
  "users_delete st i ac =
     (let gone = ak_id ` set (filter (\<lambda>k. ak_user_id k = i) (ac_api_keys ac));
          clear = (\<lambda>l. l\<lparr>lg_user_id := (if lg_user_id l = Some i then None else lg_user_id l),
            lg_api_key_id := (case lg_api_key_id l of
               Some k \<Rightarrow> if k \<in> gone then None else Some k | None \<Rightarrow> None)\<rparr>)
      in exec_stmt st
       (ac\<lparr>ac_users := filter (\<lambda>r. usr_id r \<noteq> i) (ac_users ac),
           ac_memberships := filter (\<lambda>r. mb_user_id r \<noteq> i) (ac_memberships ac),
           ac_api_keys := filter (\<lambda>r. ak_user_id r \<noteq> i) (ac_api_keys ac),
           ac_end_users := filter (\<lambda>r. eu_user_id r \<noteq> i) (ac_end_users ac),
           ac_refresh_tokens := filter (\<lambda>r. rt_user_id r \<noteq> i) (ac_refresh_tokens ac),
           ac_reset_tokens := filter (\<lambda>r. prt_user_id r \<noteq> i) (ac_reset_tokens ac),
           ac_password_history := filter (\<lambda>r. ph_user_id r \<noteq> i) (ac_password_history ac),
           ac_request_logs := map clear (ac_request_logs ac)\<rparr>) ac)"

definition users_update_password ::
  "stmt \<Rightarrow> datetime \<Rightarrow> uuid \<Rightarrow> string \<Rightarrow> datetime option \<Rightarrow> accounts \<Rightarrow>
     (pasteur_error, user) result \<times> accounts" where
  "users_update_password st now i hash expires_at ac =
     users_set st i
       (\<lambda>u. u\<lparr>usr_password_hash := Some hash, usr_password_changed_at := Some now,
              usr_password_expires_at := expires_at, usr_must_change_password := False\<rparr>) ac"

definition users_set_must_change ::
  "stmt \<Rightarrow> uuid \<Rightarrow> bool \<Rightarrow> accounts \<Rightarrow> (pasteur_error, user) result \<times> accounts" where
  "users_set_must_change st i must ac = users_set st i (\<lambda>u. u\<lparr>usr_must_change_password := must\<rparr>) ac"

section \<open>Teams and memberships\<close>

definition teams_create ::
  "stmt \<Rightarrow> uuid \<Rightarrow> datetime \<Rightarrow> uuid \<Rightarrow> string \<Rightarrow> decimal option \<Rightarrow> decimal option \<Rightarrow> accounts \<Rightarrow>
     (pasteur_error, team) result \<times> accounts" where
  "teams_create st new_id now oid name budget max_budget ac =
     (let row = \<lparr>tm_id = new_id, tm_organization_id = oid, tm_name = name, tm_budget_usd = usd4 budget,
          tm_max_budget_usd = usd4 max_budget, tm_created_at = now\<rparr>
      in returning fetch_one_db (numeric_stmt 12 4 [budget, max_budget] st) [row] (ac\<lparr>ac_teams := ac_teams ac @ [row]\<rparr>) ac)"

definition teams_get_by_id :: "fault \<Rightarrow> uuid \<Rightarrow> accounts \<Rightarrow> (pasteur_error, team) result" where
  "teams_get_by_id flt i ac = fetch_one flt (filter (\<lambda>t. tm_id t = i) (ac_teams ac))"

definition teams_list_for_organization :: "fault \<Rightarrow> uuid \<Rightarrow> accounts \<Rightarrow> (pasteur_error, team list) result" where
  "teams_list_for_organization flt oid ac =
     fetch_all flt (sort_key tm_name (filter (\<lambda>t. tm_organization_id t = oid) (ac_teams ac)))"

definition teams_list_all :: "fault \<Rightarrow> accounts \<Rightarrow> (pasteur_error, team list) result" where
  "teams_list_all flt ac =
     fetch_all flt (sort_key (\<lambda>t. uint (tm_organization_id t)) (sort_key tm_name (ac_teams ac)))"

definition teams_set ::
  "stmt \<Rightarrow> uuid \<Rightarrow> (team \<Rightarrow> team) \<Rightarrow> accounts \<Rightarrow> (pasteur_error, team) result \<times> accounts" where
  "teams_set st i upd ac =
     returning fetch_one st (map upd (filter (\<lambda>t. tm_id t = i) (ac_teams ac)))
       (ac\<lparr>ac_teams := update_where (\<lambda>t. tm_id t = i) upd (ac_teams ac)\<rparr>) ac"

definition teams_update ::
  "stmt \<Rightarrow> uuid \<Rightarrow> string \<Rightarrow> accounts \<Rightarrow> (pasteur_error, team) result \<times> accounts" where
  "teams_update st i name ac = teams_set st i (\<lambda>t. t\<lparr>tm_name := name\<rparr>) ac"

definition teams_update_with_budget ::
  "stmt \<Rightarrow> uuid \<Rightarrow> string \<Rightarrow> decimal option \<Rightarrow> decimal option \<Rightarrow> accounts \<Rightarrow>
     (pasteur_error, team) result \<times> accounts" where
  "teams_update_with_budget st i name budget max_budget ac =
     teams_set (numeric_stmt 12 4 (if list_ex (\<lambda>t. tm_id t = i) (ac_teams ac) then [budget, max_budget] else []) st) i
       (\<lambda>t. t\<lparr>tm_name := name, tm_budget_usd := usd4 budget, tm_max_budget_usd := usd4 max_budget\<rparr>) ac"

definition teams_delete :: "stmt \<Rightarrow> uuid \<Rightarrow> accounts \<Rightarrow> (pasteur_error, unit) result \<times> accounts" where
  "teams_delete st i ac =
     exec_stmt st
       (ac\<lparr>ac_teams := filter (\<lambda>r. tm_id r \<noteq> i) (ac_teams ac),
           ac_memberships := filter (\<lambda>r. mb_team_id r \<noteq> i) (ac_memberships ac)\<rparr>) ac"

text \<open>\<open>INSERT ... ON CONFLICT (user_id, team_id) DO UPDATE SET role = EXCLUDED.role\<close>.\<close>

definition add_member_row ::
  "stmt \<Rightarrow> uuid \<Rightarrow> uuid \<Rightarrow> string \<Rightarrow> accounts \<Rightarrow> (pasteur_error, team_membership) result \<times> accounts" where
  "add_member_row st team_id uid role ac =
     (let row = \<lparr>mb_user_id = uid, mb_team_id = team_id, mb_role = role\<rparr>;
          same = (\<lambda>m. mb_user_id m = uid \<and> mb_team_id m = team_id);
          ms = (if list_ex same (ac_memberships ac)
                then update_where same (\<lambda>m. m\<lparr>mb_role := role\<rparr>) (ac_memberships ac)
                else ac_memberships ac @ [row])
      in returning fetch_one_db st [row] (ac\<lparr>ac_memberships := ms\<rparr>) ac)"

definition remove_member_row ::
  "stmt \<Rightarrow> uuid \<Rightarrow> uuid \<Rightarrow> accounts \<Rightarrow> (pasteur_error, unit) result \<times> accounts" where
  "remove_member_row st team_id uid ac =
     exec_stmt st (ac\<lparr>ac_memberships :=
       filter (\<lambda>m. \<not> (mb_team_id m = team_id \<and> mb_user_id m = uid)) (ac_memberships ac)\<rparr>) ac"

definition remove_all_for_user ::
  "stmt \<Rightarrow> uuid \<Rightarrow> accounts \<Rightarrow> (pasteur_error, unit) result \<times> accounts" where
  "remove_all_for_user st uid ac =
     exec_stmt st (ac\<lparr>ac_memberships := filter (\<lambda>m. mb_user_id m \<noteq> uid) (ac_memberships ac)\<rparr>) ac"

definition get_membership :: "fault \<Rightarrow> uuid \<Rightarrow> uuid \<Rightarrow> accounts \<Rightarrow> (pasteur_error, team_membership) result" where
  "get_membership flt team_id uid ac =
     fetch_one flt (filter (\<lambda>m. mb_team_id m = team_id \<and> mb_user_id m = uid) (ac_memberships ac))"

section \<open>End users\<close>

definition end_users_create ::
  "stmt \<Rightarrow> uuid \<Rightarrow> datetime \<Rightarrow> uuid \<Rightarrow> uuid \<Rightarrow> decimal option \<Rightarrow> decimal option \<Rightarrow> accounts \<Rightarrow>
     (pasteur_error, end_user) result \<times> accounts" where
  "end_users_create st new_id now oid uid budget max_budget ac =
     (let row = \<lparr>eu_id = new_id, eu_organization_id = oid, eu_user_id = uid, eu_budget_usd = usd4 budget,
          eu_max_budget_usd = usd4 max_budget, eu_created_at = now, eu_updated_at = now\<rparr>
      in returning fetch_one_db (numeric_stmt 12 4 [budget, max_budget] st) [row] (ac\<lparr>ac_end_users := ac_end_users ac @ [row]\<rparr>) ac)"

definition end_users_get_by_user :: "fault \<Rightarrow> uuid \<Rightarrow> uuid \<Rightarrow> accounts \<Rightarrow> (pasteur_error, end_user) result" where
  "end_users_get_by_user flt oid uid ac =
     fetch_one flt (filter (\<lambda>e. eu_organization_id e = oid \<and> eu_user_id e = uid) (ac_end_users ac))"

definition end_users_list :: "fault \<Rightarrow> uuid \<Rightarrow> accounts \<Rightarrow> (pasteur_error, end_user list) result" where
  "end_users_list flt oid ac =
     fetch_all flt (sort_key (\<lambda>e. uint (eu_user_id e)) (filter (\<lambda>e. eu_organization_id e = oid) (ac_end_users ac)))"

definition end_users_update_budgets ::
  "stmt \<Rightarrow> datetime \<Rightarrow> uuid \<Rightarrow> uuid \<Rightarrow> decimal option \<Rightarrow> decimal option \<Rightarrow> accounts \<Rightarrow>
     (pasteur_error, end_user) result \<times> accounts" where
  "end_users_update_budgets st now oid uid budget max_budget ac =
     (let here = (\<lambda>e. eu_organization_id e = oid \<and> eu_user_id e = uid);
          upd = (\<lambda>e. e\<lparr>eu_budget_usd := usd4 budget, eu_max_budget_usd := usd4 max_budget, eu_updated_at := now\<rparr>)
      in returning fetch_one (numeric_stmt 12 4 (if list_ex here (ac_end_users ac) then [budget, max_budget] else []) st) (map upd (filter here (ac_end_users ac)))
           (ac\<lparr>ac_end_users := update_where here upd (ac_end_users ac)\<rparr>) ac)"

definition end_users_delete :: "stmt \<Rightarrow> uuid \<Rightarrow> uuid \<Rightarrow> accounts \<Rightarrow> (pasteur_error, unit) result \<times> accounts" where
  "end_users_delete st oid uid ac =
     exec_stmt st (ac\<lparr>ac_end_users :=
       filter (\<lambda>e. \<not> (eu_organization_id e = oid \<and> eu_user_id e = uid)) (ac_end_users ac)\<rparr>) ac"

section \<open>Sessions\<close>

definition refresh_create ::
  "stmt \<Rightarrow> uuid \<Rightarrow> datetime \<Rightarrow> uuid \<Rightarrow> string \<Rightarrow> datetime \<Rightarrow> accounts \<Rightarrow>
     (pasteur_error, refresh_token) result \<times> accounts" where
  "refresh_create st new_id now uid token_hash expires_at ac =
     (let row = \<lparr>rt_id = new_id, rt_user_id = uid, rt_token_hash = token_hash,
          rt_expires_at = expires_at, rt_created_at = now\<rparr>
      in returning fetch_one_db st [row] (ac\<lparr>ac_refresh_tokens := ac_refresh_tokens ac @ [row]\<rparr>) ac)"

definition refresh_get_by_hash :: "fault \<Rightarrow> string \<Rightarrow> accounts \<Rightarrow> (pasteur_error, refresh_token) result" where
  "refresh_get_by_hash flt token_hash ac =
     fetch_one flt (filter (\<lambda>r. rt_token_hash r = token_hash) (ac_refresh_tokens ac))"

definition refresh_drop ::
  "stmt \<Rightarrow> (refresh_token \<Rightarrow> bool) \<Rightarrow> accounts \<Rightarrow> (pasteur_error, unit) result \<times> accounts" where
  "refresh_drop st P ac =
     exec_stmt st (ac\<lparr>ac_refresh_tokens := filter (\<lambda>r. \<not> P r) (ac_refresh_tokens ac)\<rparr>) ac"

definition refresh_delete :: "stmt \<Rightarrow> uuid \<Rightarrow> accounts \<Rightarrow> (pasteur_error, unit) result \<times> accounts" where
  "refresh_delete st i ac = refresh_drop st (\<lambda>r. rt_id r = i) ac"

definition refresh_delete_by_hash :: "stmt \<Rightarrow> string \<Rightarrow> accounts \<Rightarrow> (pasteur_error, unit) result \<times> accounts" where
  "refresh_delete_by_hash st token_hash ac = refresh_drop st (\<lambda>r. rt_token_hash r = token_hash) ac"

definition refresh_delete_all_for_user ::
  "stmt \<Rightarrow> uuid \<Rightarrow> accounts \<Rightarrow> (pasteur_error, u64) result \<times> accounts" where
  "refresh_delete_all_for_user st uid ac =
     (case refresh_drop st (\<lambda>r. rt_user_id r = uid) ac of
        (Inl e, ac1) \<Rightarrow> (Err e, ac1)
      | (Inr _, ac1) \<Rightarrow> (Ok (of_nat (length (filter (\<lambda>r. rt_user_id r = uid) (ac_refresh_tokens ac)))), ac1))"

lemma refresh_delete_all_snd:
  "snd (refresh_delete_all_for_user st uid ac) = snd (refresh_drop st (\<lambda>r. rt_user_id r = uid) ac)"
  by (auto simp: refresh_delete_all_for_user_def split: prod.splits sum.splits)

section \<open>Password history and reset tokens\<close>

definition history_push ::
  "stmt \<Rightarrow> uuid \<Rightarrow> datetime \<Rightarrow> uuid \<Rightarrow> string \<Rightarrow> accounts \<Rightarrow> (pasteur_error, unit) result \<times> accounts" where
  "history_push st new_id now uid hash ac =
     exec_stmt st (ac\<lparr>ac_password_history := ac_password_history ac @
       [\<lparr>ph_id = new_id, ph_user_id = uid, ph_password_hash = hash, ph_created_at = now\<rparr>]\<rparr>) ac"

text \<open>\<open>ORDER BY created_at DESC, id DESC LIMIT n\<close>.\<close>

definition latest_entries :: "uuid \<Rightarrow> nat \<Rightarrow> accounts \<Rightarrow> password_entry list" where
  "latest_entries uid n ac =
     take n (rev (sort_key ph_created_at (sort_key (\<lambda>h. uint (ph_id h))
       (filter (\<lambda>h. ph_user_id h = uid) (ac_password_history ac)))))"

definition history_get_last_n :: "fault \<Rightarrow> uuid \<Rightarrow> nat \<Rightarrow> accounts \<Rightarrow> (pasteur_error, string list) result" where
  "history_get_last_n flt uid n ac = fetch_all flt (map ph_password_hash (latest_entries uid n ac))"

definition history_purge_older_than ::
  "stmt \<Rightarrow> uuid \<Rightarrow> nat \<Rightarrow> accounts \<Rightarrow> (pasteur_error, unit) result \<times> accounts" where
  "history_purge_older_than st uid keep_n ac =
     (let keep = ph_id ` set (latest_entries uid keep_n ac)
      in exec_stmt st (ac\<lparr>ac_password_history :=
           filter (\<lambda>h. \<not> (ph_user_id h = uid \<and> ph_id h \<notin> keep)) (ac_password_history ac)\<rparr>) ac)"

definition reset_create ::
  "stmt \<Rightarrow> uuid \<Rightarrow> datetime \<Rightarrow> uuid \<Rightarrow> string \<Rightarrow> duration \<Rightarrow> accounts \<Rightarrow>
     (pasteur_error, password_reset_token) result \<times> accounts" where
  "reset_create st new_id now uid token_hash ttl ac =
     (let row = \<lparr>prt_id = new_id, prt_user_id = uid, prt_token_hash = token_hash,
          prt_expires_at = now + int ttl, prt_created_at = now, prt_used_at = None\<rparr>
      in returning fetch_one_db st [row] (ac\<lparr>ac_reset_tokens := ac_reset_tokens ac @ [row]\<rparr>) ac)"

definition reset_get_by_hash :: "fault \<Rightarrow> string \<Rightarrow> accounts \<Rightarrow> (pasteur_error, password_reset_token) result" where
  "reset_get_by_hash flt token_hash ac =
     fetch_one flt (filter (\<lambda>r. prt_token_hash r = token_hash) (ac_reset_tokens ac))"

definition reset_mark_used :: "stmt \<Rightarrow> datetime \<Rightarrow> uuid \<Rightarrow> accounts \<Rightarrow> (pasteur_error, unit) result \<times> accounts" where
  "reset_mark_used st now i ac =
     exec_stmt st (ac\<lparr>ac_reset_tokens :=
       update_where (\<lambda>r. prt_id r = i) (\<lambda>r. r\<lparr>prt_used_at := Some now\<rparr>) (ac_reset_tokens ac)\<rparr>) ac"

definition reset_delete_for_user :: "stmt \<Rightarrow> uuid \<Rightarrow> accounts \<Rightarrow> (pasteur_error, unit) result \<times> accounts" where
  "reset_delete_for_user st uid ac =
     exec_stmt st (ac\<lparr>ac_reset_tokens := filter (\<lambda>r. prt_user_id r \<noteq> uid) (ac_reset_tokens ac)\<rparr>) ac"

end
