(* ===== verification/Sessions.thy ===== *)
theory Sessions
  imports Accounts Rate_Limit
begin

text \<open>
  Sessions of the admin interface: \<open>crates/godwit-api/src/admin/auth.rs\<close> (login, refresh,
  logout, revocation, single sign-on), \<open>crates/godwit-auth/src/refresh_tokens.rs\<close> and the issuing
  half of \<open>crates/godwit-auth/src/jwt.rs\<close>. The cryptographic libraries, the textual form of ids
  and the check of header values are fields of \<open>auth_lib\<close>; the random bytes, clock reads and
  database answers of a request are arguments.
\<close>

section \<open>Configuration and libraries\<close>

record password_policy =
  pw_min_length :: u32
  pw_require_upper :: bool
  pw_require_lower :: bool
  pw_require_digit :: bool
  pw_require_symbol :: bool
  pw_max_reuse :: u32
  pw_days_to_expire :: u64
  pw_block_common :: bool

definition password_policy_default :: password_policy where
  "password_policy_default = \<lparr>pw_min_length = 10, pw_require_upper = True, pw_require_lower = True,
     pw_require_digit = True, pw_require_symbol = True, pw_max_reuse = 5, pw_days_to_expire = 0,
     pw_block_common = False\<rparr>"

record auth_config =
  ag_jwt_secret :: string
  ag_access_token_ttl_minutes :: i64
  ag_refresh_token_ttl_days :: i64
  ag_cookie_secure :: bool
  ag_trust_proxy :: bool
  ag_oidc_providers :: "string list"
  ag_password_policy :: password_policy

record auth_lib =
  ab_sha256_hex :: "string \<Rightarrow> string"
  ab_base58 :: "string \<Rightarrow> string"
  ab_verify_password :: "string \<Rightarrow> string \<Rightarrow> bool"
  ab_hash_password :: "string \<Rightarrow> string \<Rightarrow> string"
  ab_encode :: "string \<Rightarrow> claims \<Rightarrow> (string, string) result"
  ab_uuid_show :: "uuid \<Rightarrow> string"
  ab_uuid_parse :: "string \<Rightarrow> uuid option"
  ab_header_ok :: "string \<Rightarrow> bool"

section \<open>Tokens\<close>

definition hash_refresh_token :: "auth_lib \<Rightarrow> string \<Rightarrow> string" where
  "hash_refresh_token lib token = ab_sha256_hex lib token"

definition generate_refresh_token :: "auth_lib \<Rightarrow> string \<Rightarrow> string \<times> string" where
  "generate_refresh_token lib bytes =
     (let plaintext = ab_base58 lib bytes in (plaintext, hash_refresh_token lib plaintext))"

definition timestamp :: "datetime \<Rightarrow> i64" where
  "timestamp t = word_of_int (t div 1000000000)"

definition minutes :: "i64 \<Rightarrow> int" where
  "minutes n = sint n * 60000000000"

definition days :: "i64 \<Rightarrow> int" where
  "days n = sint n * 86400000000000"

definition claims_new :: "auth_lib \<Rightarrow> datetime \<Rightarrow> uuid \<Rightarrow> uuid \<Rightarrow> string \<Rightarrow> claims" where
  "claims_new lib now uid oid role =
     \<lparr>cl_sub = ab_uuid_show lib uid, cl_user_id = uid, cl_organization_id = oid, cl_role = role,
      cl_exp = timestamp (now + minutes 15), cl_iat = timestamp now\<rparr>"

definition jwt_issue ::
  "auth_lib \<Rightarrow> datetime \<Rightarrow> string \<Rightarrow> claims \<Rightarrow> int \<Rightarrow> (pasteur_error, string) result" where
  "jwt_issue lib now secret c ttl =
     map_err PE_Auth
       (ab_encode lib secret (c\<lparr>cl_iat := timestamp now, cl_exp := timestamp (now + ttl)\<rparr>))"

definition access_cookie :: "auth_config \<Rightarrow> string \<Rightarrow> string" where
  "access_cookie cfg token =
     ''godwit_access='' @ token @ ''; HttpOnly; Path=/; SameSite=Strict; Max-Age='' @
     show_int (sint (ag_access_token_ttl_minutes cfg * 60)) @
     (if ag_cookie_secure cfg then ''; Secure'' else [])"

definition refresh_cookie :: "auth_config \<Rightarrow> string \<Rightarrow> string" where
  "refresh_cookie cfg token =
     ''godwit_refresh='' @ token @ ''; HttpOnly; Path=/api/v1/auth; SameSite=Strict; Max-Age='' @
     show_int (sint (ag_refresh_token_ttl_days cfg * 86400)) @
     (if ag_cookie_secure cfg then ''; Secure'' else [])"

definition refresh_token_from_cookie :: "string option \<Rightarrow> string option" where
  "refresh_token_from_cookie cookie = cookie_value cookie ''godwit_refresh''"

text \<open>
  \<open>xff\<close> is the header \<open>x-forwarded-for\<close> when present, \<open>Some None\<close> when its bytes are not
  visible ASCII; \<open>peer\<close> is the address of the connection.
\<close>

definition client_ip :: "string option option \<Rightarrow> string option \<Rightarrow> bool \<Rightarrow> string" where
  "client_ip xff peer trust_proxy =
     (case (if trust_proxy then xff else None) of
        Some v \<Rightarrow> trim (hd (split_on (CHR '','') (trim (unwrap_or [] v))))
      | None \<Rightarrow> unwrap_or ''unknown'' peer)"

section \<open>Issuing a pair of tokens\<close>

text \<open>The clock reads, random bytes and database answers of one issue.\<close>

record issue_inputs =
  ii_now_claims :: datetime
  ii_now_issue :: datetime
  ii_bytes :: string
  ii_now_expiry :: datetime
  ii_row_id :: uuid
  ii_now_row :: datetime
  ii_stmt :: stmt

type_synonym session_reply = "string list \<times> json"

definition issued_hash :: "auth_lib \<Rightarrow> issue_inputs \<Rightarrow> string" where
  "issued_hash lib ii = snd (generate_refresh_token lib (ii_bytes ii))"

definition issue_token_pair ::
  "auth_lib \<Rightarrow> auth_config \<Rightarrow> issue_inputs \<Rightarrow> user \<Rightarrow> accounts \<Rightarrow>
     (api_error, session_reply) result \<times> accounts" where
  "issue_token_pair lib cfg ii user ac =
     (let claims = claims_new lib (ii_now_claims ii) (usr_id user)
            (unwrap_or 0 (usr_organization_id user)) (usr_role user)
      in case jwt_issue lib (ii_now_issue ii) (ag_jwt_secret cfg) claims
                (minutes (ag_access_token_ttl_minutes cfg)) of
           Inl _ \<Rightarrow> (Err AE_Internal, ac)
         | Inr access_token \<Rightarrow>
             (case generate_refresh_token lib (ii_bytes ii) of (refresh_plaintext, refresh_hash) \<Rightarrow>
                (let expires_at = ii_now_expiry ii + days (ag_refresh_token_ttl_days cfg)
                 in case refresh_create (ii_stmt ii) (ii_row_id ii) (ii_now_row ii) (usr_id user)
                           refresh_hash expires_at ac of
                      (Inl e, ac) \<Rightarrow> (Err (AE_Core e), ac)
                    | (Inr _, ac) \<Rightarrow>
                        (if ab_header_ok lib (access_cookie cfg access_token) \<and>
                            ab_header_ok lib (refresh_cookie cfg refresh_plaintext)
                         then (Ok ([access_cookie cfg access_token, refresh_cookie cfg refresh_plaintext],
                                 json_obj [(''access_token'', JString access_token),
                                           (''refresh_token'', JString refresh_plaintext)]), ac)
                         else (Err AE_Internal, ac)))))"

section \<open>The handlers\<close>

record login_request =
  lr_email :: string
  lr_password :: string

text \<open>A failed login debits the bucket of the address; the answer tells when it is empty.\<close>

definition failed_login ::
  "instant \<Rightarrow> instant \<Rightarrow> string \<Rightarrow> login_limiter \<Rightarrow> api_error \<times> login_limiter" where
  "failed_login now0 now1 ip l =
     (case attempt_allowed now0 now1 ip True l of
        (Some retry_after, l) \<Rightarrow> (AE_RateLimited (Some retry_after), l)
      | (None, l) \<Rightarrow> (AE_Unauthorized, l))"

fun insert_member :: "string \<Rightarrow> json \<Rightarrow> json \<Rightarrow> json" where
  "insert_member k v (JObject m) = JObject (obj_insert k v m)"
| "insert_member k v j = j"

definition login ::
  "auth_lib \<Rightarrow> auth_config \<Rightarrow> fault \<Rightarrow> instant \<times> instant \<Rightarrow> issue_inputs \<Rightarrow> datetime \<Rightarrow> string \<Rightarrow>
   login_request \<Rightarrow> accounts \<times> login_limiter \<Rightarrow>
     (api_error, session_reply) result \<times> accounts \<times> login_limiter" where
  "login lib cfg flt clk ii now ip req st =
     (case st of (ac, l) \<Rightarrow>
        (case users_get_by_email flt (lr_email req) ac of
           Inl _ \<Rightarrow> (case failed_login (fst clk) (snd clk) ip l of (e, l) \<Rightarrow> (Err e, ac, l))
         | Inr user \<Rightarrow>
             (case usr_password_hash user of
                None \<Rightarrow> (Err AE_Unauthorized, ac, l)
              | Some password_hash \<Rightarrow>
                  if \<not> ab_verify_password lib (lr_password req) password_hash
                  then (case failed_login (fst clk) (snd clk) ip l of (e, l) \<Rightarrow> (Err e, ac, l))
                  else (case issue_token_pair lib cfg ii user ac of
                          (Inl e, ac) \<Rightarrow> (Err e, ac, l)
                        | (Inr (cookies, body), ac) \<Rightarrow>
                            (let must_change = usr_must_change_password user \<or>
                                   (case usr_password_expires_at user of Some e \<Rightarrow> e < now | None \<Rightarrow> False)
                             in (Ok (cookies, insert_member ''must_change_password'' (JBool must_change) body),
                                 ac, l))))))"

definition presented_token :: "string option \<Rightarrow> string option \<Rightarrow> string option" where
  "presented_token cookie body_token =
     (case refresh_token_from_cookie cookie of Some t \<Rightarrow> Some t | None \<Rightarrow> body_token)"

record refresh_inputs =
  ri_get :: fault
  ri_now :: datetime
  ri_user :: fault
  ri_delete :: stmt
  ri_issue :: issue_inputs

definition refresh ::
  "auth_lib \<Rightarrow> auth_config \<Rightarrow> refresh_inputs \<Rightarrow> string option \<Rightarrow> accounts \<Rightarrow>
     (api_error, session_reply) result \<times> accounts" where
  "refresh lib cfg ri token ac =
     (case token of
        None \<Rightarrow> (Err AE_Unauthorized, ac)
      | Some t \<Rightarrow>
          (case refresh_get_by_hash (ri_get ri) (hash_refresh_token lib t) ac of
             Inl _ \<Rightarrow> (Err AE_Unauthorized, ac)
           | Inr stored \<Rightarrow>
               if rt_expires_at stored < ri_now ri
               then (Err AE_Unauthorized, snd (refresh_delete (ri_delete ri) (rt_id stored) ac))
               else (case users_get_by_id (ri_user ri) (rt_user_id stored) ac of
                       Inl _ \<Rightarrow> (Err AE_Unauthorized, ac)
                     | Inr user \<Rightarrow>
                         (case refresh_delete (ri_delete ri) (rt_id stored) ac of
                            (Inl e, ac) \<Rightarrow> (Err (AE_Core e), ac)
                          | (Inr _, ac) \<Rightarrow> issue_token_pair lib cfg (ri_issue ri) user ac))))"

definition logout_cookies :: "string list" where
  "logout_cookies = [''godwit_access=; HttpOnly; Path=/; Max-Age=0'',
     ''godwit_refresh=; HttpOnly; Path=/api/v1/auth; Max-Age=0'']"

definition logout ::
  "auth_lib \<Rightarrow> stmt \<Rightarrow> string option \<Rightarrow> accounts \<Rightarrow> (api_error, session_reply) result \<times> accounts" where
  "logout lib st token ac =
     (if \<not> list_all (ab_header_ok lib) logout_cookies then (Err AE_Internal, ac)
      else case token of
        None \<Rightarrow> (Err AE_Unauthorized, ac)
      | Some t \<Rightarrow>
          (case refresh_delete_by_hash st (hash_refresh_token lib t) ac of
             (Inl e, ac) \<Rightarrow> (Err (AE_Core e), ac)
           | (Inr _, ac) \<Rightarrow> (Ok (logout_cookies, json_obj [(''logged_out'', JBool True)]), ac)))"

definition uuid_json :: "auth_lib \<Rightarrow> uuid option \<Rightarrow> json" where
  "uuid_json lib i = (case i of None \<Rightarrow> JNull | Some j \<Rightarrow> JString (ab_uuid_show lib j))"

definition me :: "auth_lib \<Rightarrow> fault \<Rightarrow> claims \<Rightarrow> accounts \<Rightarrow> (api_error, json) result" where
  "me lib flt c ac =
     bind_result (ok_or AE_Unauthorized (ab_uuid_parse lib (cl_sub c))) (\<lambda>uid.
     bind_result (map_err (\<lambda>_. AE_Unauthorized) (users_get_by_id flt uid ac)) (\<lambda>user.
     Ok (json_obj [(''user'', json_obj
       [(''id'', uuid_json lib (Some (usr_id user))), (''email'', JString (usr_email user)),
        (''role'', JString (usr_role user)), (''organization_id'', uuid_json lib (usr_organization_id user))])])))"

definition revoke_all_sessions ::
  "auth_lib \<Rightarrow> stmt \<Rightarrow> claims \<Rightarrow> accounts \<Rightarrow> (api_error, session_reply) result \<times> accounts" where
  "revoke_all_sessions lib st c ac =
     (case ab_uuid_parse lib (cl_sub c) of
        None \<Rightarrow> (Err AE_Unauthorized, ac)
      | Some uid \<Rightarrow>
          (case refresh_delete_all_for_user st uid ac of
             (Inl e, ac) \<Rightarrow> (Err (AE_Core e), ac)
           | (Inr revoked, ac) \<Rightarrow>
               (if list_all (ab_header_ok lib) logout_cookies
                then (Ok (logout_cookies, json_obj [(''revoked'', JInt (uint revoked))]), ac)
                else (Err AE_Internal, ac))))"

text \<open>
  The callback of a single sign-on: \<open>connect\<close> builds the client of the provider, \<open>exchange\<close>
  trades the code for the identity (email, name). A new identity gets an account without
  organization.
\<close>

definition oidc_callback ::
  "auth_lib \<Rightarrow> auth_config \<Rightarrow> (string \<Rightarrow> (string, 'c) result) \<Rightarrow>
   ('c \<Rightarrow> string \<Rightarrow> string \<Rightarrow> string \<Rightarrow> (string, string \<times> string option) result) \<Rightarrow>
   fault \<Rightarrow> stmt \<Rightarrow> uuid \<Rightarrow> datetime \<Rightarrow> issue_inputs \<Rightarrow> string \<Rightarrow> string \<Rightarrow> string \<Rightarrow> accounts \<Rightarrow>
     (api_error, session_reply) result \<times> accounts" where
  "oidc_callback lib cfg connect exchange flt st new_id now ii provider_id code oidc_state ac =
     (if provider_id \<notin> set (ag_oidc_providers cfg) then (Err AE_NotFound, ac)
      else case connect provider_id of
        Inl _ \<Rightarrow> (Err AE_Internal, ac)
      | Inr client \<Rightarrow>
          (case exchange client code oidc_state ''nonce'' of
             Inl _ \<Rightarrow> (Err AE_Unauthorized, ac)
           | Inr (email, name) \<Rightarrow>
               (case users_get_by_email flt email ac of
                  Inr user \<Rightarrow> issue_token_pair lib cfg ii user ac
                | Inl _ \<Rightarrow>
                    (case users_create st new_id now email name PlainUser None ac of
                       (Inl _, ac) \<Rightarrow> (Err AE_Internal, ac)
                     | (Inr user, ac) \<Rightarrow> issue_token_pair lib cfg ii user ac))))"

text \<open>\<open>authorize\<close> is the client's: the address to send the browser to, with a new state and nonce, which are dropped.\<close>

definition oidc_start ::
  "auth_config \<Rightarrow> (string \<Rightarrow> (string, 'c) result) \<Rightarrow> ('c \<Rightarrow> string list \<Rightarrow> string \<times> string \<times> string) \<Rightarrow> string \<Rightarrow>
     (api_error, string) result" where
  "oidc_start cfg connect authorize provider_id =
     (if provider_id \<notin> set (ag_oidc_providers cfg) then Err AE_NotFound
      else case connect provider_id of
        Inl _ \<Rightarrow> Err AE_Internal
      | Inr client \<Rightarrow> (case authorize client [''openid'', ''email'', ''profile''] of (url, csrf, nonce) \<Rightarrow> Ok url))"

definition saml_acs :: "(api_error, session_reply) result" where
  "saml_acs = Err (AE_BadRequest
     ''SAML ACS requires XML signature validation; implement with real IdP metadata'')"

section \<open>What the operations do to the sessions\<close>

definition token_hashes :: "accounts \<Rightarrow> string set" where
  "token_hashes ac = rt_token_hash ` set (ac_refresh_tokens ac)"

lemma refresh_create_hashes:
  "token_hashes (snd (refresh_create st i now uid h e ac)) \<subseteq> insert h (token_hashes ac)"
  by (cases "refresh_create st i now uid h e ac")
    (auto simp: refresh_create_def token_hashes_def Let_def dest!: returning_cases)

lemma refresh_drop_hashes: "token_hashes (snd (refresh_drop st P ac)) \<subseteq> token_hashes ac"
  by (cases "refresh_drop st P ac")
    (auto simp: refresh_drop_def token_hashes_def dest!: exec_stmt_cases)

lemmas refresh_drops = refresh_delete_def refresh_delete_by_hash_def refresh_delete_all_for_user_def

lemma issue_hashes:
  "token_hashes (snd (issue_token_pair lib cfg ii user ac)) \<subseteq> insert (issued_hash lib ii) (token_hashes ac)"
proof (cases "jwt_issue lib (ii_now_issue ii) (ag_jwt_secret cfg)
    (claims_new lib (ii_now_claims ii) (usr_id user) (unwrap_or 0 (usr_organization_id user)) (usr_role user))
    (minutes (ag_access_token_ttl_minutes cfg))")
  case (Inr access)
  then show ?thesis
    using refresh_create_hashes [of "ii_stmt ii" "ii_row_id ii" "ii_now_row ii" "usr_id user"
        "issued_hash lib ii" "ii_now_expiry ii + days (ag_refresh_token_ttl_days cfg)" ac]
    by (auto simp: issue_token_pair_def issued_hash_def Let_def split: prod.splits sum.splits if_splits)
qed (auto simp: issue_token_pair_def)

lemma users_create_refresh:
  "ac_refresh_tokens (snd (users_create st i now email name role oid ac)) = ac_refresh_tokens ac"
  by (cases "users_create st i now email name role oid ac")
    (auto simp: users_create_def Let_def dest!: returning_cases)

lemma users_set_refresh: "ac_refresh_tokens (snd (users_set st i upd ac)) = ac_refresh_tokens ac"
  by (cases "users_set st i upd ac") (auto simp: users_set_def dest!: returning_cases)

lemma login_hashes:
  "token_hashes (fst (snd (login lib cfg flt clk ii now ip req (ac, l)))) \<subseteq>
     insert (issued_hash lib ii) (token_hashes ac)"
  using issue_hashes [of lib cfg ii _ ac]
  by (auto simp: login_def Let_def split: sum.splits prod.splits option.splits; metis snd_conv insert_iff subset_iff)

text \<open>The ways a refresh can change the tables.\<close>

lemma refresh_cases:
  assumes "refresh lib cfg ri token ac = (r, ac')"
  obtains (same) e where "r = Err e" "ac' = ac"
  | (deleted) e i where "r = Err e" "ac' = snd (refresh_delete (ri_delete ri) i ac)"
  | (rotated) t stored user ac2 where "token = Some t"
      "refresh_get_by_hash (ri_get ri) (hash_refresh_token lib t) ac = Inr stored"
      "ri_now ri \<le> rt_expires_at stored" "users_get_by_id (ri_user ri) (rt_user_id stored) ac = Inr user"
      "refresh_delete (ri_delete ri) (rt_id stored) ac = (Inr (), ac2)"
      "issue_token_pair lib cfg (ri_issue ri) user ac2 = (r, ac')"
proof (cases token)
  case (Some t)
  show ?thesis
  proof (cases "refresh_get_by_hash (ri_get ri) (hash_refresh_token lib t) ac")
    case (Inr stored)
    show ?thesis
    proof (cases "rt_expires_at stored < ri_now ri")
      case False
      show ?thesis
      proof (cases "users_get_by_id (ri_user ri) (rt_user_id stored) ac")
        case (Inr user)
        obtain d ac2 where d: "refresh_delete (ri_delete ri) (rt_id stored) ac = (d, ac2)" by fastforce
        note eqs = Some \<open>refresh_get_by_hash _ _ _ = _\<close> False Inr d
        show ?thesis
        proof (cases d)
          case (Inl e)
          with assms eqs have "r = Err (AE_Core e)" "ac' = ac2" by (simp_all add: refresh_def)
          then show ?thesis using deleted [of "AE_Core e" "rt_id stored"] d by simp
        next
          case (Inr u)
          with assms eqs have "issue_token_pair lib cfg (ri_issue ri) user ac2 = (r, ac')"
            by (simp add: refresh_def)
          then show ?thesis using rotated [of t stored user ac2] eqs Inr by simp
        qed
      qed (use assms Some Inr False same [of AE_Unauthorized] in \<open>simp add: refresh_def\<close>)
    qed (use assms Some Inr deleted [of AE_Unauthorized "rt_id stored"] in \<open>simp add: refresh_def\<close>)
  qed (use assms Some same [of AE_Unauthorized] in \<open>simp add: refresh_def\<close>)
qed (use assms same [of AE_Unauthorized] in \<open>simp add: refresh_def\<close>)

lemma refresh_hashes:
  "token_hashes (snd (refresh lib cfg ri token ac)) \<subseteq>
     insert (issued_hash lib (ri_issue ri)) (token_hashes ac)"
proof -
  obtain r ac' where e: "refresh lib cfg ri token ac = (r, ac')" by fastforce
  have del: "token_hashes (snd (refresh_delete (ri_delete ri) i ac)) \<subseteq> token_hashes ac" for i
    using refresh_drop_hashes by (simp add: refresh_drops)
  from e show ?thesis
  proof (cases rule: refresh_cases)
    case (rotated t stored user ac2)
    then have "token_hashes ac2 \<subseteq> token_hashes ac" using del [of "rt_id stored"] by simp
    then show ?thesis using issue_hashes [of lib cfg "ri_issue ri" user ac2] rotated(6) e by auto
  qed (use e del in auto)
qed

lemma logout_hashes: "token_hashes (snd (logout lib st token ac)) \<subseteq> token_hashes ac"
  using refresh_drop_hashes [of st _ ac]
  by (auto simp: logout_def refresh_drops split: option.splits sum.splits prod.splits; metis snd_conv subset_iff)

lemma revoke_hashes: "token_hashes (snd (revoke_all_sessions lib st c ac)) \<subseteq> token_hashes ac"
  using refresh_drop_hashes [of st _ ac]
  by (auto simp: revoke_all_sessions_def refresh_drops split: option.splits sum.splits prod.splits if_splits;
      metis snd_conv subset_iff)

lemma oidc_hashes:
  "token_hashes (snd (oidc_callback lib cfg connect exchange flt st i now ii p code s ac)) \<subseteq>
     insert (issued_hash lib ii) (token_hashes ac)"
proof -
  { fix email name user ac1
    assume "users_create st i now email name PlainUser None ac = (Inr user, ac1)"
    then have "token_hashes ac1 = token_hashes ac"
      using users_create_refresh [of st i now email name PlainUser None ac] by (simp add: token_hashes_def)
    then have "token_hashes (snd (issue_token_pair lib cfg ii user ac1)) \<subseteq> insert (issued_hash lib ii) (token_hashes ac)"
      using issue_hashes [of lib cfg ii user ac1] by simp }
  moreover have "token_hashes ac1 = token_hashes ac"
    if "users_create st i now email name PlainUser None ac = (Inl e, ac1)" for email name e ac1
    using users_create_refresh [of st i now email name PlainUser None ac] that by (simp add: token_hashes_def)
  ultimately show ?thesis using issue_hashes [of lib cfg ii _ ac]
    by (fastforce simp: oidc_callback_def split: sum.splits prod.splits if_splits)
qed

text \<open>A token whose hash is not stored is refused and changes nothing.\<close>

lemma refresh_unknown:
  assumes "hash_refresh_token lib t \<notin> token_hashes ac"
  shows "refresh lib cfg ri (Some t) ac = (Err AE_Unauthorized, ac)"
proof -
  have "filter (\<lambda>r. rt_token_hash r = hash_refresh_token lib t) (ac_refresh_tokens ac) = []"
    using assms by (metis (mono_tags, lifting) filter_False image_eqI token_hashes_def)
  then show ?thesis
    by (auto simp: refresh_def refresh_get_by_hash_def fetch_one_def split: option.splits)
qed

lemma refresh_Ok:
  assumes "refresh lib cfg ri (Some t) ac = (Ok reply, ac1)"
  shows "\<exists>stored user ac2. refresh_get_by_hash (ri_get ri) (hash_refresh_token lib t) ac = Inr stored \<and>
    ri_now ri \<le> rt_expires_at stored \<and> users_get_by_id (ri_user ri) (rt_user_id stored) ac = Inr user \<and>
    refresh_delete (ri_delete ri) (rt_id stored) ac = (Inr (), ac2) \<and>
    issue_token_pair lib cfg (ri_issue ri) user ac2 = (Ok reply, ac1)"
  using assms
proof (cases rule: refresh_cases)
  case (rotated t' stored user ac2)
  then show ?thesis by blast
qed simp_all

text \<open>A successful refresh deletes the presented token.\<close>

lemma refresh_Ok_hashes:
  assumes "accounts_ok ac" and "refresh lib cfg ri (Some t) ac = (Ok reply, ac1)"
    and "issued_hash lib (ri_issue ri) \<noteq> hash_refresh_token lib t"
  shows "hash_refresh_token lib t \<notin> token_hashes ac1"
proof -
  let ?h = "hash_refresh_token lib t"
  obtain stored user ac2 where stored: "refresh_get_by_hash (ri_get ri) ?h ac = Inr stored"
    and del: "refresh_delete (ri_delete ri) (rt_id stored) ac = (Inr (), ac2)"
    and iss: "issue_token_pair lib cfg (ri_issue ri) user ac2 = (Ok reply, ac1)"
    using refresh_Ok [OF assms(2)] by blast
  have mem: "stored \<in> set (ac_refresh_tokens ac)" "rt_token_hash stored = ?h"
    using fetch_one_filter_Ok [OF stored [unfolded refresh_get_by_hash_def]] by simp_all
  have "distinct (map rt_token_hash (ac_refresh_tokens ac))"
    using assms(1) by (simp add: accounts_ok_def user_rows_ok_def)
  then have "r = stored" if "r \<in> set (ac_refresh_tokens ac)" "rt_token_hash r = ?h" for r
    using mem that by (metis distinct_map inj_onD)
  moreover have "set (ac_refresh_tokens ac2) = {r \<in> set (ac_refresh_tokens ac). rt_id r \<noteq> rt_id stored}"
    using del by (auto simp: refresh_drops refresh_drop_def)
  ultimately have "?h \<notin> token_hashes ac2" by (auto simp: token_hashes_def)
  then show ?thesis
    using issue_hashes [of lib cfg "ri_issue ri" user ac2] iss assms(3) by auto
qed

section \<open>A session stays alive\<close>

lemma refers_mem [intro]: "r \<in> set rows \<Longrightarrow> refers (key r) key rows"
  by (simp add: refers_def)

lemma distinct_map_filter: "distinct (map f xs) \<Longrightarrow> distinct (map f (filter P xs))"
  by (induction xs) auto

lemma accounts_ok_filter_refresh:
  "accounts_ok ac \<Longrightarrow> accounts_ok (ac\<lparr>ac_refresh_tokens := filter P (ac_refresh_tokens ac)\<rparr>)"
  by (simp add: accounts_ok_def user_rows_ok_def distinct_map_filter list_all_iff)

lemma accounts_ok_add_refresh:
  assumes "accounts_ok ac" "rt_id row \<notin> rt_id ` set (ac_refresh_tokens ac)"
    "rt_token_hash row \<notin> token_hashes ac" "refers (rt_user_id row) usr_id (ac_users ac)"
  shows "accounts_ok (ac\<lparr>ac_refresh_tokens := ac_refresh_tokens ac @ [row]\<rparr>)"
  using assms by (simp add: accounts_ok_def user_rows_ok_def token_hashes_def)

text \<open>
  What the signing library and the header check promise: every set of claims can be signed,
  and the cookies built from the tokens are legal header values.
\<close>

definition signing_total :: "auth_lib \<Rightarrow> auth_config \<Rightarrow> bool" where
  "signing_total lib cfg \<longleftrightarrow>
     (\<forall>s c. \<exists>t. ab_encode lib s c = Ok t \<and> ab_header_ok lib (access_cookie cfg t)) \<and>
     (\<forall>b. ab_header_ok lib (refresh_cookie cfg (ab_base58 lib b)))"

definition issued_row :: "auth_lib \<Rightarrow> auth_config \<Rightarrow> issue_inputs \<Rightarrow> uuid \<Rightarrow> refresh_token" where
  "issued_row lib cfg ii uid = \<lparr>rt_id = ii_row_id ii, rt_user_id = uid, rt_token_hash = issued_hash lib ii,
     rt_expires_at = ii_now_expiry ii + days (ag_refresh_token_ttl_days cfg), rt_created_at = ii_now_row ii\<rparr>"

lemma issued_row_sel [simp]:
  "rt_id (issued_row lib cfg ii uid) = ii_row_id ii" "rt_user_id (issued_row lib cfg ii uid) = uid"
  "rt_token_hash (issued_row lib cfg ii uid) = issued_hash lib ii"
  "rt_expires_at (issued_row lib cfg ii uid) = ii_now_expiry ii + days (ag_refresh_token_ttl_days cfg)"
  by (simp_all add: issued_row_def)

lemma issued_hash_plain: "hash_refresh_token lib (ab_base58 lib (ii_bytes ii)) = issued_hash lib ii"
  by (simp add: issued_hash_def generate_refresh_token_def Let_def)

definition reply_token :: "json \<Rightarrow> string option" where
  "reply_token body = Option.bind (json_get ''refresh_token'' body) as_str"

lemma issue_Ok:
  assumes "issue_token_pair lib cfg ii user ac = (Ok (cookies, body), ac1)"
  shows "reply_token body = Some (ab_base58 lib (ii_bytes ii)) \<and>
    ac1 = ac\<lparr>ac_refresh_tokens := ac_refresh_tokens ac @ [issued_row lib cfg ii (usr_id user)]\<rparr> \<and> accounts_ok ac1"
  using assms
  by (auto simp: issue_token_pair_def refresh_create_def issued_row_def issued_hash_def reply_token_def
      generate_refresh_token_def Let_def json_obj_def split: sum.splits prod.splits if_splits)

lemma issue_succeeds:
  assumes "signing_total lib cfg" "fst (ii_stmt ii) = None" "accounts_ok ac" "user \<in> set (ac_users ac)"
    "ii_row_id ii \<notin> rt_id ` set (ac_refresh_tokens ac)" "issued_hash lib ii \<notin> token_hashes ac"
  shows "\<exists>cookies body. issue_token_pair lib cfg ii user ac = (Ok (cookies, body),
    ac\<lparr>ac_refresh_tokens := ac_refresh_tokens ac @ [issued_row lib cfg ii (usr_id user)]\<rparr>)"
proof -
  let ?row = "issued_row lib cfg ii (usr_id user)"
  let ?ac1 = "ac\<lparr>ac_refresh_tokens := ac_refresh_tokens ac @ [?row]\<rparr>"
  have "accounts_ok ?ac1"
    using assms(3-6) by (intro accounts_ok_add_refresh) (auto simp: issued_row_def)
  then have create: "refresh_create (ii_stmt ii) (ii_row_id ii) (ii_now_row ii) (usr_id user) (issued_hash lib ii)
      (ii_now_expiry ii + days (ag_refresh_token_ttl_days cfg)) ac = (Ok ?row, ?ac1)"
    using assms(2) by (simp add: refresh_create_def Let_def issued_row_def fetch_one_db_def)
  obtain t where "jwt_issue lib (ii_now_issue ii) (ag_jwt_secret cfg)
      (claims_new lib (ii_now_claims ii) (usr_id user) (unwrap_or 0 (usr_organization_id user)) (usr_role user))
      (minutes (ag_access_token_ttl_minutes cfg)) = Ok t" "ab_header_ok lib (access_cookie cfg t)"
    using assms(1) unfolding signing_total_def jwt_issue_def by (metis map_err.simps(2))
  moreover have "ab_header_ok lib (refresh_cookie cfg (ab_base58 lib (ii_bytes ii)))"
    using assms(1) by (simp add: signing_total_def)
  ultimately show ?thesis
    using create by (simp add: issue_token_pair_def Let_def issued_hash_def generate_refresh_token_def)
qed

text \<open>A client that presents the token of each reply at the next refresh.\<close>

fun refresh_chain ::
  "auth_lib \<Rightarrow> auth_config \<Rightarrow> refresh_inputs list \<Rightarrow> string \<Rightarrow> accounts \<Rightarrow> (api_error, string \<times> accounts) result" where
  "refresh_chain lib cfg [] t ac = Ok (t, ac)"
| "refresh_chain lib cfg (ri # ris) t ac =
     (case refresh lib cfg ri (Some t) ac of
        (Inl e, _) \<Rightarrow> Err e
      | (Inr (_, body), ac') \<Rightarrow>
          (case reply_token body of None \<Rightarrow> Err AE_Internal | Some t' \<Rightarrow> refresh_chain lib cfg ris t' ac'))"

text \<open>
  Each refresh comes before the token expires, its queries succeed, and the generated row id
  and token are new.
\<close>

fun timely ::
  "auth_lib \<Rightarrow> auth_config \<Rightarrow> datetime \<Rightarrow> uuid set \<Rightarrow> string set \<Rightarrow> refresh_inputs list \<Rightarrow> bool" where
  "timely lib cfg expiry ids hs [] \<longleftrightarrow> True"
| "timely lib cfg expiry ids hs (ri # ris) \<longleftrightarrow>
     ri_get ri = None \<and> ri_user ri = None \<and> fst (ri_delete ri) = None \<and> fst (ii_stmt (ri_issue ri)) = None \<and>
     ri_now ri \<le> expiry \<and> ii_row_id (ri_issue ri) \<notin> ids \<and> issued_hash lib (ri_issue ri) \<notin> hs \<and>
     timely lib cfg (ii_now_expiry (ri_issue ri) + days (ag_refresh_token_ttl_days cfg))
       (insert (ii_row_id (ri_issue ri)) ids) (insert (issued_hash lib (ri_issue ri)) hs) ris"

lemma fetch_one_unique:
  assumes "distinct (map key rows)" "r \<in> set rows" "key r = k"
  shows "fetch_one None (filter (\<lambda>x. key x = k) rows) = Ok r"
proof -
  have "filter (\<lambda>x. key x = k) rows = [r]"
    using assms by (induction rows) (auto simp: filter_empty_conv image_iff)
  then show ?thesis by (simp add: fetch_one_def)
qed

lemma refresh_rotates:
  assumes "signing_total lib cfg" "accounts_ok ac" "user \<in> set (ac_users ac)" "row \<in> set (ac_refresh_tokens ac)"
    "rt_token_hash row = hash_refresh_token lib t" "rt_user_id row = usr_id user"
    "timely lib cfg (rt_expires_at row) ids hs (ri # ris)"
    "rt_id ` set (ac_refresh_tokens ac) \<subseteq> ids" "token_hashes ac \<subseteq> hs"
  shows "\<exists>cookies body. refresh lib cfg ri (Some t) ac = (Ok (cookies, body),
    ac\<lparr>ac_refresh_tokens := filter (\<lambda>r. rt_id r \<noteq> rt_id row) (ac_refresh_tokens ac) @
       [issued_row lib cfg (ri_issue ri) (usr_id user)]\<rparr>)"
proof -
  let ?ac1 = "ac\<lparr>ac_refresh_tokens := filter (\<lambda>r. rt_id r \<noteq> rt_id row) (ac_refresh_tokens ac)\<rparr>"
  have d: "distinct (map rt_token_hash (ac_refresh_tokens ac))" "distinct (map usr_id (ac_users ac))"
    using assms(2) by (simp_all add: accounts_ok_def user_rows_ok_def users_ok_def)
  have get: "refresh_get_by_hash (ri_get ri) (hash_refresh_token lib t) ac = Ok row"
    using assms(7) fetch_one_unique [OF d(1) assms(4,5)] by (simp add: refresh_get_by_hash_def)
  have usr: "users_get_by_id (ri_user ri) (rt_user_id row) ac = Ok user"
    using assms(6,7) fetch_one_unique [OF d(2) assms(3)] by (simp add: users_get_by_id_def)
  have ok1: "accounts_ok ?ac1" by (rule accounts_ok_filter_refresh [OF assms(2)])
  then have del: "refresh_delete (ri_delete ri) (rt_id row) ac = (Ok (), ?ac1)"
    using assms(7) by (simp add: refresh_delete_def refresh_drop_def)
  have "\<exists>cookies body. issue_token_pair lib cfg (ri_issue ri) user ?ac1 = (Ok (cookies, body),
      ?ac1\<lparr>ac_refresh_tokens := ac_refresh_tokens ?ac1 @ [issued_row lib cfg (ri_issue ri) (usr_id user)]\<rparr>)"
    using assms(3,7-9) ok1 by (intro issue_succeeds [OF assms(1)]) (auto simp: token_hashes_def)
  then show ?thesis using get usr del assms(7) by (simp add: refresh_def)
qed

lemma refresh_chain_alive:
  assumes "signing_total lib cfg" "accounts_ok ac" "user \<in> set (ac_users ac)" "row \<in> set (ac_refresh_tokens ac)"
    "rt_token_hash row = hash_refresh_token lib t" "rt_user_id row = usr_id user"
    "timely lib cfg (rt_expires_at row) ids hs ris"
    "rt_id ` set (ac_refresh_tokens ac) \<subseteq> ids" "token_hashes ac \<subseteq> hs"
  shows "\<exists>t' ac'. refresh_chain lib cfg ris t ac = Ok (t', ac') \<and> hash_refresh_token lib t' \<in> token_hashes ac'"
  using assms(2-9)
proof (induction ris arbitrary: ac row t ids hs)
  case Nil
  then show ?case by (auto simp: token_hashes_def) (metis image_eqI)
next
  case (Cons ri ris)
  let ?row = "issued_row lib cfg (ri_issue ri) (usr_id user)"
  let ?ac1 = "ac\<lparr>ac_refresh_tokens := filter (\<lambda>r. rt_id r \<noteq> rt_id row) (ac_refresh_tokens ac) @ [?row]\<rparr>"
  obtain cookies body where r: "refresh lib cfg ri (Some t) ac = (Ok (cookies, body), ?ac1)"
    using refresh_rotates [OF assms(1) Cons.prems] by blast
  then obtain user' ac2 where "issue_token_pair lib cfg (ri_issue ri) user' ac2 = (Ok (cookies, body), ?ac1)"
    using refresh_Ok by blast
  then have tok: "reply_token body = Some (ab_base58 lib (ii_bytes (ri_issue ri)))" and ok: "accounts_ok ?ac1"
    using issue_Ok by blast+
  have "\<exists>t' ac'. refresh_chain lib cfg ris (ab_base58 lib (ii_bytes (ri_issue ri))) ?ac1 = Ok (t', ac') \<and>
      hash_refresh_token lib t' \<in> token_hashes ac'"
    using Cons.prems by (intro Cons.IH [of ?ac1 ?row _ "insert (ii_row_id (ri_issue ri)) ids"
          "insert (issued_hash lib (ri_issue ri)) hs"])
      (simp_all add: ok issued_hash_plain, auto simp: token_hashes_def)
  then show ?case using r tok by simp
qed

lemma login_Ok:
  assumes "login lib cfg flt clk ii now ip req (ac, l) = (Ok (cookies, body), ac1, l1)"
  shows "\<exists>user h. users_get_by_email flt (lr_email req) ac = Ok user \<and> usr_password_hash user = Some h \<and>
    ab_verify_password lib (lr_password req) h \<and> reply_token body = Some (ab_base58 lib (ii_bytes ii)) \<and>
    ac1 = ac\<lparr>ac_refresh_tokens := ac_refresh_tokens ac @ [issued_row lib cfg ii (usr_id user)]\<rparr> \<and>
    accounts_ok ac1 \<and> l1 = l"
proof -
  obtain user h where u: "users_get_by_email flt (lr_email req) ac = Ok user" "usr_password_hash user = Some h"
    "ab_verify_password lib (lr_password req) h"
    using assms
    by (cases "users_get_by_email flt (lr_email req) ac")
      (auto simp: login_def split: prod.splits option.splits if_splits)
  obtain r ac2 where i: "issue_token_pair lib cfg ii user ac = (r, ac2)" by fastforce
  with assms u obtain body0 where "r = Ok (cookies, body0)" "ac1 = ac2" "l1 = l"
      "body = insert_member ''must_change_password'' (JBool (usr_must_change_password user \<or>
         (case usr_password_expires_at user of Some e \<Rightarrow> e < now | None \<Rightarrow> False))) body0"
    by (cases r) (auto simp: login_def Let_def)
  moreover have "reply_token (insert_member ''must_change_password'' v b) = reply_token b" for v b
    by (cases b) (auto simp: reply_token_def map_of_obj_insert)
  ultimately show ?thesis using u i issue_Ok [of lib cfg ii user ac cookies body0 ac2] by auto
qed

section \<open>Properties\<close>

text \<open>
  C12. A session stays alive: after a successful login the client can refresh any number of
  times, each time with the token of the previous reply, as long as it refreshes before the
  token expires (and the database answers and new tokens are new); it always ends with a token
  that is stored.
\<close>

theorem session_stays_alive:
  assumes "login lib cfg flt clk ii now ip req (ac, l) = (Ok (cookies, body), ac1, l1)"
    and "signing_total lib cfg"
    and "timely lib cfg (ii_now_expiry ii + days (ag_refresh_token_ttl_days cfg))
           (rt_id ` set (ac_refresh_tokens ac1)) (token_hashes ac1) ris"
  shows "\<exists>t t' ac'. reply_token body = Some t \<and> refresh_chain lib cfg ris t ac1 = Ok (t', ac') \<and>
    hash_refresh_token lib t' \<in> token_hashes ac'"
proof -
  obtain user where u: "users_get_by_email flt (lr_email req) ac = Ok user"
    "reply_token body = Some (ab_base58 lib (ii_bytes ii))" "accounts_ok ac1"
    "ac1 = ac\<lparr>ac_refresh_tokens := ac_refresh_tokens ac @ [issued_row lib cfg ii (usr_id user)]\<rparr>"
    using login_Ok [OF assms(1)] by blast
  have "user \<in> set (ac_users ac1)"
    using fetch_one_filter_Ok [OF u(1) [unfolded users_get_by_email_def]] u(4) by simp
  then have "\<exists>t' ac'. refresh_chain lib cfg ris (ab_base58 lib (ii_bytes ii)) ac1 = Ok (t', ac') \<and>
      hash_refresh_token lib t' \<in> token_hashes ac'"
    using assms(2,3) u
    by (intro refresh_chain_alive [where row = "issued_row lib cfg ii (usr_id user)" and user = user])
      (simp_all add: issued_hash_plain, auto)
  then show ?thesis using u(2) by blast
qed

definition plain_auth :: auth_lib where
  "plain_auth = \<lparr>ab_sha256_hex = id, ab_base58 = id, ab_verify_password = (=), ab_hash_password = (\<lambda>_ p. p),
     ab_encode = (\<lambda>_ _. Ok ''jwt''), ab_uuid_show = (\<lambda>u. show_nat (unat u)),
     ab_uuid_parse = (\<lambda>_. None), ab_header_ok = (\<lambda>_. True)\<rparr>"

definition sample_config :: auth_config where
  "sample_config = \<lparr>ag_jwt_secret = ''s'', ag_access_token_ttl_minutes = 15, ag_refresh_token_ttl_days = 7,
     ag_cookie_secure = True, ag_trust_proxy = False, ag_oidc_providers = [],
     ag_password_policy = password_policy_default\<rparr>"

definition sample_user :: user where
  "sample_user = \<lparr>usr_id = 1, usr_organization_id = None, usr_email = ''a'', usr_name = None,
     usr_role = ''user'', usr_sso_provider = None, usr_sso_subject = None, usr_password_hash = Some ''pw'',
     usr_password_changed_at = None, usr_password_expires_at = None, usr_must_change_password = False,
     usr_created_at = 0\<rparr>"

definition sample_accounts :: accounts where
  "sample_accounts = \<lparr>ac_organizations = [], ac_users = [sample_user], ac_teams = [], ac_memberships = [],
     ac_api_keys = [], ac_end_users = [], ac_refresh_tokens = [], ac_reset_tokens = [],
     ac_password_history = [], ac_request_logs = []\<rparr>"

definition sample_issue :: "string \<Rightarrow> uuid \<Rightarrow> issue_inputs" where
  "sample_issue bytes i = \<lparr>ii_now_claims = 0, ii_now_issue = 0, ii_bytes = bytes, ii_now_expiry = 0,
     ii_row_id = i, ii_now_row = 0, ii_stmt = (None, [])\<rparr>"

definition sample_refresh :: "string \<Rightarrow> uuid \<Rightarrow> refresh_inputs" where
  "sample_refresh bytes i = \<lparr>ri_get = None, ri_now = 5, ri_user = None, ri_delete = (None, []),
     ri_issue = sample_issue bytes i\<rparr>"

definition sample_login :: "(api_error, session_reply) result \<times> accounts \<times> login_limiter" where
  "sample_login = login plain_auth sample_config None (0, 0) (sample_issue ''t1'' 1) 0 ''ip''
     \<lparr>lr_email = ''a'', lr_password = ''pw''\<rparr> (sample_accounts, ll_new 5)"

lemmas sample_auth_defs = plain_auth_def sample_config_def sample_user_def sample_accounts_def
  sample_issue_def sample_refresh_def issued_hash_def generate_refresh_token_def hash_refresh_token_def

lemma plain_signing_total: "signing_total plain_auth sample_config"
  by (simp add: signing_total_def plain_auth_def)

lemma sample_accounts_ok: "accounts_ok sample_accounts"
  by (simp add: accounts_ok_def users_ok_def memberships_ok_def api_keys_ok_def user_rows_ok_def refers_opt_def
      sample_accounts_def sample_user_def user_role_from_str_def List.map_filter_def)

definition sample_row :: refresh_token where
  "sample_row = issued_row plain_auth sample_config (sample_issue ''t1'' 1) 1"

lemma sample_login_Ok:
  "\<exists>cookies body. sample_login = (Ok (cookies, body), sample_accounts\<lparr>ac_refresh_tokens := [sample_row]\<rparr>, ll_new 5)"
proof -
  have "\<exists>cookies body. issue_token_pair plain_auth sample_config (sample_issue ''t1'' 1) sample_user sample_accounts =
      (Ok (cookies, body), sample_accounts\<lparr>ac_refresh_tokens := ac_refresh_tokens sample_accounts @
         [issued_row plain_auth sample_config (sample_issue ''t1'' 1) (usr_id sample_user)]\<rparr>)"
    by (rule issue_succeeds [OF plain_signing_total _ sample_accounts_ok])
      (simp_all add: sample_auth_defs token_hashes_def)
  moreover have "users_get_by_email None ''a'' sample_accounts = Ok sample_user"
    by (simp add: users_get_by_email_def fetch_one_def sample_accounts_def sample_user_def)
  ultimately show ?thesis
    by (auto simp: sample_login_def login_def Let_def sample_row_def)
      (simp_all add: sample_user_def plain_auth_def sample_accounts_def)
qed

theorem session_stays_alive_witness:
  "\<exists>cookies body t t' ac'. fst sample_login = Ok (cookies, body) \<and> reply_token body = Some t \<and>
     refresh_chain plain_auth sample_config [sample_refresh ''t2'' 2, sample_refresh ''t3'' 3] t
       (fst (snd sample_login)) = Ok (t', ac') \<and> hash_refresh_token plain_auth t' \<in> token_hashes ac'"
proof -
  obtain cookies body where l: "sample_login =
      (Ok (cookies, body), sample_accounts\<lparr>ac_refresh_tokens := [sample_row]\<rparr>, ll_new 5)"
    using sample_login_Ok by blast
  have "timely plain_auth sample_config
      (ii_now_expiry (sample_issue ''t1'' 1) + days (ag_refresh_token_ttl_days sample_config))
      (rt_id ` set (ac_refresh_tokens (sample_accounts\<lparr>ac_refresh_tokens := [sample_row]\<rparr>)))
      (token_hashes (sample_accounts\<lparr>ac_refresh_tokens := [sample_row]\<rparr>))
      [sample_refresh ''t2'' 2, sample_refresh ''t3'' 3]"
    by (simp add: sample_auth_defs sample_row_def token_hashes_def days_def Let_def)
  from session_stays_alive [OF l [unfolded sample_login_def] plain_signing_total this]
  show ?thesis by (simp add: l del: refresh_chain.simps)
qed

end
