(* ===== verification/Passwords.thy ===== *)
theory Passwords
  imports Sessions "HOL-Library.Multiset"
begin

text \<open>
  Password management: \<open>crates/godwit-api/src/admin/password.rs\<close> and the caller checks of
  \<open>crates/godwit-api/src/admin/users.rs\<close> it uses. Unicode classes of characters and the list of
  common passwords (\<open>assets/common_passwords.txt\<close>) are parameters; the template engine of the
  mails is one too.
\<close>

section \<open>Password policy\<close>

text \<open>\<open>str::chars\<close>: the code points of a well-formed UTF-8 string.\<close>

definition cont_bits :: "char \<Rightarrow> nat" where
  "cont_bits c = byte c mod 64"

fun utf8_chars :: "string \<Rightarrow> nat list" where
  "utf8_chars [] = []"
| "utf8_chars (a # s) =
     (if byte a < 128 then byte a # utf8_chars s
      else case s of
        b # s1 \<Rightarrow>
          (if byte a < 224 then ((byte a mod 32) * 64 + cont_bits b) # utf8_chars s1
           else case s1 of
             c # s2 \<Rightarrow>
               (if byte a < 240 then ((byte a mod 16) * 4096 + cont_bits b * 64 + cont_bits c) # utf8_chars s2
                else case s2 of
                  d # s3 \<Rightarrow> ((byte a mod 8) * 262144 + cont_bits b * 4096 + cont_bits c * 64 + cont_bits d) #
                      utf8_chars s3
                | [] \<Rightarrow> [])
           | [] \<Rightarrow> [])
      | [] \<Rightarrow> [])"

record unicode =
  uc_uppercase :: "nat \<Rightarrow> bool"
  uc_lowercase :: "nat \<Rightarrow> bool"
  uc_alphanumeric :: "nat \<Rightarrow> bool"

datatype policy_error = TooShort | NeedsUpper | NeedsLower | NeedsDigit | NeedsSymbol | CommonPassword | Reused

fun policy_error_debug :: "policy_error \<Rightarrow> string" where
  "policy_error_debug TooShort = ''TooShort''"
| "policy_error_debug NeedsUpper = ''NeedsUpper''"
| "policy_error_debug NeedsLower = ''NeedsLower''"
| "policy_error_debug NeedsDigit = ''NeedsDigit''"
| "policy_error_debug NeedsSymbol = ''NeedsSymbol''"
| "policy_error_debug CommonPassword = ''CommonPassword''"
| "policy_error_debug Reused = ''Reused''"

definition common_lookup :: "string list \<Rightarrow> string \<Rightarrow> bool" where
  "common_lookup common pw \<longleftrightarrow> map ascii_lower pw \<in> set (map trim common)"

definition validate_password ::
  "unicode \<Rightarrow> string list \<Rightarrow> (string \<Rightarrow> string \<Rightarrow> bool) \<Rightarrow> password_policy \<Rightarrow> string \<Rightarrow> string list \<Rightarrow>
     (policy_error, unit) result" where
  "validate_password uc common verify policy password history =
     (let cs = utf8_chars password
      in if pw_block_common policy \<and> common_lookup common password then Err CommonPassword
         else if (of_nat (length cs) :: u32) < pw_min_length policy then Err TooShort
         else if pw_require_upper policy \<and> \<not> list_ex (uc_uppercase uc) cs then Err NeedsUpper
         else if pw_require_lower policy \<and> \<not> list_ex (uc_lowercase uc) cs then Err NeedsLower
         else if pw_require_digit policy \<and> \<not> list_ex (\<lambda>c. 48 \<le> c \<and> c \<le> 57) cs then Err NeedsDigit
         else if pw_require_symbol policy \<and> \<not> list_ex (\<lambda>c. \<not> uc_alphanumeric uc c) cs then Err NeedsSymbol
         else if list_ex (verify password) history then Err Reused
         else Ok ())"

datatype password_state = PS_Valid | PS_Expired | PS_ForcedChange

definition password_state_of :: "datetime \<Rightarrow> bool \<Rightarrow> datetime option \<Rightarrow> password_state" where
  "password_state_of now must_change expires_at =
     (if must_change then PS_ForcedChange
      else case expires_at of
        Some e \<Rightarrow> if e < now then PS_Expired else PS_Valid
      | None \<Rightarrow> PS_Valid)"

section \<open>Changing a password\<close>

record change_inputs =
  ci_unicode :: unicode
  ci_common :: "string list"
  ci_history :: fault
  ci_salt :: string
  ci_now_expiry :: datetime
  ci_update :: stmt
  ci_now_update :: datetime
  ci_push :: stmt
  ci_push_id :: uuid
  ci_now_push :: datetime
  ci_purge :: stmt
  ci_revoke :: stmt

text \<open>
  Five statements in sequence, not in one transaction: an error of a later one leaves the
  effect of the earlier ones.
\<close>

definition do_password_change ::
  "auth_lib \<Rightarrow> password_policy \<Rightarrow> change_inputs \<Rightarrow> uuid \<Rightarrow> string \<Rightarrow> accounts \<Rightarrow>
     (api_error, unit) result \<times> accounts" where
  "do_password_change lib policy ci uid new_password ac =
     (case history_get_last_n (ci_history ci) uid (unat (pw_max_reuse policy)) ac of
        Inl e \<Rightarrow> (Err (AE_Core e), ac)
      | Inr history \<Rightarrow>
          (case validate_password (ci_unicode ci) (ci_common ci) (ab_verify_password lib) policy
                  new_password history of
             Inl e \<Rightarrow> (Err (AE_BadRequest (policy_error_debug e)), ac)
           | Inr _ \<Rightarrow>
               (let hash = ab_hash_password lib (ci_salt ci) new_password;
                    expires_at = (if 0 < pw_days_to_expire policy
                      then Some (ci_now_expiry ci + days (pw_days_to_expire policy)) else None)
                in case users_update_password (ci_update ci) (ci_now_update ci) uid hash expires_at ac of
                     (Inl e, ac) \<Rightarrow> (Err (AE_Core e), ac)
                   | (Inr _, ac) \<Rightarrow>
                       (case history_push (ci_push ci) (ci_push_id ci) (ci_now_push ci) uid hash ac of
                          (Inl e, ac) \<Rightarrow> (Err (AE_Core e), ac)
                        | (Inr _, ac) \<Rightarrow>
                            (case history_purge_older_than (ci_purge ci) uid (unat (pw_max_reuse policy)) ac of
                               (Inl e, ac) \<Rightarrow> (Err (AE_Core e), ac)
                             | (Inr _, ac) \<Rightarrow>
                                 (case refresh_delete_all_for_user (ci_revoke ci) uid ac of
                                    (Inl e, ac) \<Rightarrow> (Err (AE_Core e), ac)
                                  | (Inr _, ac) \<Rightarrow> (Ok (), ac)))))))"

definition changed_reply :: json where
  "changed_reply = json_obj [(''changed'', JBool True)]"

definition reply_with :: "json \<Rightarrow> (api_error, unit) result \<times> accounts \<Rightarrow> (api_error, json) result \<times> accounts" where
  "reply_with v r = (bind_result (fst r) (\<lambda>_. Ok v), snd r)"

definition change_password ::
  "auth_lib \<Rightarrow> auth_config \<Rightarrow> fault \<Rightarrow> change_inputs \<Rightarrow> claims \<Rightarrow> string \<Rightarrow> string \<Rightarrow> accounts \<Rightarrow>
     (api_error, json) result \<times> accounts" where
  "change_password lib cfg flt ci c current_password new_password ac =
     (case users_get_by_id flt (cl_user_id c) ac of
        Inl e \<Rightarrow> (Err (AE_Core e), ac)
      | Inr user \<Rightarrow>
          (case usr_password_hash user of
             None \<Rightarrow> (Err (AE_BadRequest ''account has no password set''), ac)
           | Some current_hash \<Rightarrow>
               if \<not> ab_verify_password lib current_password current_hash then (Err AE_Unauthorized, ac)
               else reply_with changed_reply
                 (do_password_change lib (ag_password_policy cfg) ci (cl_user_id c) new_password ac)))"

definition change_required ::
  "auth_lib \<Rightarrow> auth_config \<Rightarrow> fault \<Rightarrow> datetime \<Rightarrow> change_inputs \<Rightarrow> claims \<Rightarrow> string \<Rightarrow> accounts \<Rightarrow>
     (api_error, json) result \<times> accounts" where
  "change_required lib cfg flt now ci c new_password ac =
     (case users_get_by_id flt (cl_user_id c) ac of
        Inl e \<Rightarrow> (Err (AE_Core e), ac)
      | Inr user \<Rightarrow>
          (let expired = (case usr_password_expires_at user of Some e \<Rightarrow> e < now | None \<Rightarrow> False)
           in if \<not> usr_must_change_password user \<and> \<not> expired then (Err AE_Forbidden, ac)
              else reply_with changed_reply
                (do_password_change lib (ag_password_policy cfg) ci (cl_user_id c) new_password ac)))"

section \<open>Caller checks\<close>

definition require_role :: "claims \<Rightarrow> user_role list \<Rightarrow> (api_error, user_role) result" where
  "require_role c allowed =
     bind_result (ok_or AE_Forbidden (role_from_str (cl_role c))) (\<lambda>role.
     if role \<in> set allowed then Ok role else Err AE_Forbidden)"

definition check_same_org :: "user_role \<Rightarrow> claims \<Rightarrow> uuid option \<Rightarrow> (api_error, unit) result" where
  "check_same_org role c target_org =
     (if role \<noteq> SuperAdmin \<and> target_org \<noteq> Some (cl_organization_id c) then Err AE_Forbidden else Ok ())"

definition check_not_acting_on_super_admin :: "user_role \<Rightarrow> string \<Rightarrow> (api_error, unit) result" where
  "check_not_acting_on_super_admin role target_role =
     (if role \<noteq> SuperAdmin \<and> target_role = ''super_admin'' then Err AE_Forbidden else Ok ())"

definition admin_reset_password ::
  "auth_lib \<Rightarrow> auth_config \<Rightarrow> fault \<Rightarrow> change_inputs \<Rightarrow> stmt \<Rightarrow> claims \<Rightarrow> uuid \<Rightarrow> string \<Rightarrow> accounts \<Rightarrow>
     (api_error, json) result \<times> accounts" where
  "admin_reset_password lib cfg flt ci st c uid new_password ac =
     (case require_role c [SuperAdmin, OrgAdmin] of
        Inl e \<Rightarrow> (Err e, ac)
      | Inr caller_role \<Rightarrow>
          if cl_user_id c = uid then (Err (AE_BadRequest ''cannot reset your own password''), ac)
          else (case users_get_by_id flt uid ac of
             Inl e \<Rightarrow> (Err (AE_Core e), ac)
           | Inr target \<Rightarrow>
               (case bind_result (check_same_org caller_role c (usr_organization_id target)) (\<lambda>_.
                       check_not_acting_on_super_admin caller_role (usr_role target)) of
                  Inl e \<Rightarrow> (Err e, ac)
                | Inr _ \<Rightarrow>
                    (case do_password_change lib (ag_password_policy cfg) ci (usr_id target) new_password ac of
                       (Inl e, ac) \<Rightarrow> (Err e, ac)
                     | (Inr _, ac) \<Rightarrow>
                         (case users_set_must_change st (usr_id target) True ac of
                            (Inl e, ac) \<Rightarrow> (Err (AE_Core e), ac)
                          | (Inr _, ac) \<Rightarrow> (Ok (json_obj [(''reset'', JBool True)]), ac))))))"

section \<open>Forgotten passwords\<close>

definition trim_end_slash :: "string \<Rightarrow> string" where
  "trim_end_slash s = rev (dropWhile (\<lambda>c. c = CHR ''/'') (rev s))"

definition render_reset_email ::
  "(string \<Rightarrow> string option) \<Rightarrow> (string \<Rightarrow> string option) \<Rightarrow> string \<Rightarrow> string \<Rightarrow> string \<times> string" where
  "render_reset_email html text_of app_url token =
     (let reset_link = trim_end_slash app_url @ ''/reset-password?token='' @ token
      in (unwrap_or (''Reset your Godwit password: '' @ reset_link) (html reset_link),
          unwrap_or [] (text_of reset_link)))"

record mail =
  ml_to :: string
  ml_subject :: string
  ml_html :: string
  ml_text :: string

text \<open>
  \<open>mailer\<close> is the application URL when a mailer is configured. The result is the reply, the
  tables and the mails handed to the mailer.
\<close>

definition forgot_password ::
  "auth_lib \<Rightarrow> (string \<Rightarrow> string option) \<Rightarrow> (string \<Rightarrow> string option) \<Rightarrow> string option \<Rightarrow> fault \<Rightarrow>
   string \<Rightarrow> stmt \<Rightarrow> uuid \<Rightarrow> datetime \<Rightarrow> string \<Rightarrow> accounts \<Rightarrow>
     (api_error, json) result \<times> accounts \<times> mail list" where
  "forgot_password lib html text_of mailer flt bytes st new_id now email ac =
     (let reply = Ok (json_obj [(''ok'', JBool True)])
      in case users_get_by_email flt email ac of
           Inl _ \<Rightarrow> (reply, ac, [])
         | Inr user \<Rightarrow>
             (case generate_refresh_token lib bytes of (plaintext, hash) \<Rightarrow>
                (reply, snd (reset_create st new_id now (usr_id user) hash (secs 1800) ac),
                 (case mailer of
                    None \<Rightarrow> []
                  | Some app_url \<Rightarrow>
                      (case render_reset_email html text_of app_url plaintext of (h, t) \<Rightarrow>
                         [\<lparr>ml_to = email, ml_subject = ''Reset your password'', ml_html = h, ml_text = t\<rparr>])))))"

definition reset_password ::
  "auth_lib \<Rightarrow> auth_config \<Rightarrow> fault \<Rightarrow> datetime \<Rightarrow> change_inputs \<Rightarrow> stmt \<Rightarrow> datetime \<Rightarrow> string \<Rightarrow> string \<Rightarrow>
   accounts \<Rightarrow> (api_error, json) result \<times> accounts" where
  "reset_password lib cfg flt now ci st now_used token new_password ac =
     (case reset_get_by_hash flt (hash_refresh_token lib token) ac of
        Inl _ \<Rightarrow> (Err (AE_BadRequest ''invalid or expired reset token''), ac)
      | Inr t \<Rightarrow>
          if prt_used_at t \<noteq> None then (Err (AE_BadRequest ''reset token already used''), ac)
          else if prt_expires_at t < now then (Err (AE_BadRequest ''reset token expired''), ac)
          else (case do_password_change lib (ag_password_policy cfg) ci (prt_user_id t) new_password ac of
             (Inl e, ac) \<Rightarrow> (Err e, ac)
           | (Inr _, ac) \<Rightarrow>
               (case reset_mark_used st now_used (prt_id t) ac of
                  (Inl e, ac) \<Rightarrow> (Err (AE_Core e), ac)
                | (Inr _, ac) \<Rightarrow> (Ok (json_obj [(''ok'', JBool True)]), ac))))"

section \<open>What a change of password does\<close>

definition add_entry :: "change_inputs \<Rightarrow> uuid \<Rightarrow> string \<Rightarrow> accounts \<Rightarrow> accounts" where
  "add_entry ci uid hash ac = ac\<lparr>ac_password_history := ac_password_history ac @
     [\<lparr>ph_id = ci_push_id ci, ph_user_id = uid, ph_password_hash = hash, ph_created_at = ci_now_push ci\<rparr>]\<rparr>"

lemma do_password_change_Ok:
  assumes "do_password_change lib policy ci uid pw ac = (Ok (), ac')"
  defines "hash \<equiv> ab_hash_password lib (ci_salt ci) pw"
  defines "n \<equiv> unat (pw_max_reuse policy)"
  shows "list_all (\<lambda>e. \<not> ab_verify_password lib pw (ph_password_hash e)) (latest_entries uid n ac) \<and>
    ac_users ac' = update_where (\<lambda>u. usr_id u = uid) (\<lambda>u. u\<lparr>usr_password_hash := Some hash,
        usr_password_changed_at := Some (ci_now_update ci), usr_password_expires_at :=
          (if 0 < pw_days_to_expire policy then Some (ci_now_expiry ci + days (pw_days_to_expire policy)) else None),
        usr_must_change_password := False\<rparr>) (ac_users ac) \<and>
    ac_refresh_tokens ac' = filter (\<lambda>r. rt_user_id r \<noteq> uid) (ac_refresh_tokens ac) \<and>
    ac_password_history ac' = filter (\<lambda>h. \<not> (ph_user_id h = uid \<and>
        ph_id h \<notin> ph_id ` set (latest_entries uid n (add_entry ci uid hash ac))))
      (ac_password_history (add_entry ci uid hash ac)) \<and>
    ac_reset_tokens ac' = ac_reset_tokens ac \<and> accounts_ok ac' \<and>
    distinct (map ph_id (ac_password_history (add_entry ci uid hash ac)))"
proof -
  obtain history where h: "history_get_last_n (ci_history ci) uid n ac = Ok history"
    and v: "validate_password (ci_unicode ci) (ci_common ci) (ab_verify_password lib) policy pw history = Ok ()"
    using assms(1) by (auto simp: do_password_change_def n_def split: sum.splits)
  have "history = map ph_password_hash (latest_entries uid n ac)"
    using h by (auto simp: history_get_last_n_def fetch_all_def split: option.splits)
  moreover have "\<not> list_ex (ab_verify_password lib pw) history"
    using v by (auto simp: validate_password_def Let_def split: if_splits)
  ultimately have reuse: "list_all (\<lambda>e. \<not> ab_verify_password lib pw (ph_password_hash e)) (latest_entries uid n ac)"
    by (auto simp: list_all_iff list_ex_iff)
  let ?exp = "if 0 < pw_days_to_expire policy then Some (ci_now_expiry ci + days (pw_days_to_expire policy)) else None"
  obtain u ac1 ac2 ac3 k where
      upd: "users_update_password (ci_update ci) (ci_now_update ci) uid hash ?exp ac = (Inr u, ac1)"
    and push: "history_push (ci_push ci) (ci_push_id ci) (ci_now_push ci) uid hash ac1 = (Inr (), ac2)"
    and purge: "history_purge_older_than (ci_purge ci) uid n ac2 = (Inr (), ac3)"
    and revoke: "refresh_delete_all_for_user (ci_revoke ci) uid ac3 = (Inr k, ac')"
    using assms(1) h v unfolding do_password_change_def n_def hash_def by (auto simp: stmt_Ok_iff Let_def)
  have ac1: "ac1 = ac\<lparr>ac_users := update_where (\<lambda>u. usr_id u = uid) (\<lambda>u. u\<lparr>usr_password_hash := Some hash,
        usr_password_changed_at := Some (ci_now_update ci), usr_password_expires_at := ?exp,
        usr_must_change_password := False\<rparr>) (ac_users ac)\<rparr>"
    using upd by (simp add: users_update_password_def users_set_def)
  have ac2: "ac2 = add_entry ci uid hash ac1" "accounts_ok ac2"
    using push by (simp_all add: history_push_def add_entry_def)
  have ac3: "ac3 = ac2\<lparr>ac_password_history := filter (\<lambda>h. \<not> (ph_user_id h = uid \<and>
        ph_id h \<notin> ph_id ` set (latest_entries uid n ac2))) (ac_password_history ac2)\<rparr>"
    using purge by (simp add: history_purge_older_than_def Let_def)
  have ac4: "ac' = ac3\<lparr>ac_refresh_tokens := filter (\<lambda>r. rt_user_id r \<noteq> uid) (ac_refresh_tokens ac3)\<rparr>" "accounts_ok ac'"
    using revoke by (auto simp: refresh_delete_all_for_user_def refresh_drop_def split: prod.splits sum.splits)
  have hist: "ac_password_history ac2 = ac_password_history (add_entry ci uid hash ac)"
    by (simp add: ac2(1) ac1 add_entry_def)
  moreover have "distinct (map ph_id (ac_password_history ac2))"
    using ac2(2) by (simp add: accounts_ok_def user_rows_ok_def)
  ultimately have ids: "distinct (map ph_id (ac_password_history (add_entry ci uid hash ac)))" by simp
  from hist have "latest_entries uid n ac2 = latest_entries uid n (add_entry ci uid hash ac)"
    by (simp add: latest_entries_def)
  then have "ac_password_history ac' = filter (\<lambda>h. \<not> (ph_user_id h = uid \<and>
        ph_id h \<notin> ph_id ` set (latest_entries uid n (add_entry ci uid hash ac))))
      (ac_password_history (add_entry ci uid hash ac))"
    using hist by (simp add: ac4(1) ac3)
  moreover have "ac_users ac' = ac_users ac1" "ac_refresh_tokens ac' = filter (\<lambda>r. rt_user_id r \<noteq> uid) (ac_refresh_tokens ac)"
    "ac_reset_tokens ac' = ac_reset_tokens ac"
    by (simp_all add: ac4(1) ac3 ac2(1) ac1 add_entry_def)
  moreover have "ac_users ac1 = update_where (\<lambda>u. usr_id u = uid) (\<lambda>u. u\<lparr>usr_password_hash := Some hash,
        usr_password_changed_at := Some (ci_now_update ci), usr_password_expires_at := ?exp,
        usr_must_change_password := False\<rparr>) (ac_users ac)"
    by (simp add: ac1)
  ultimately show ?thesis using reuse ac4(2) ids by (intro conjI) simp_all
qed

section \<open>The password history is a window\<close>

definition user_entries :: "uuid \<Rightarrow> accounts \<Rightarrow> password_entry list" where
  "user_entries uid ac = filter (\<lambda>h. ph_user_id h = uid) (ac_password_history ac)"

definition newest_first :: "password_entry list \<Rightarrow> password_entry list" where
  "newest_first es = rev (sort_key ph_created_at (sort_key (\<lambda>h. uint (ph_id h)) es))"

lemma latest_entries_eq: "latest_entries uid n ac = take n (newest_first (user_entries uid ac))"
  by (simp add: latest_entries_def newest_first_def user_entries_def)

lemma newest_first_filter: "newest_first (filter P es) = filter P (newest_first es)"
  by (simp add: newest_first_def rev_filter [symmetric] filter_sort)

lemma set_newest_first [simp]: "set (newest_first es) = set es"
  by (simp add: newest_first_def)

lemma distinct_newest_first: "distinct (map f es) \<Longrightarrow> distinct (map f (newest_first es))"
  by (metis mset_map mset_rev mset_sort newest_first_def rev_map mset_eq_imp_distinct_iff)

lemma sort_key_last:
  assumes "\<forall>x \<in> set xs. c x < (c e :: int)"
  shows "sort_key c (sort_key d (xs @ [e])) = sort_key c (sort_key d xs) @ [e]"
proof (rule properties_for_sort_key)
  fix k assume "k \<in> set (sort_key c (sort_key d xs) @ [e])"
  then consider "k \<in> set xs" | "k = e" by auto
  then show "filter (\<lambda>x. c k = c x) (sort_key c (sort_key d xs) @ [e]) =
      filter (\<lambda>x. c k = c x) (sort_key d (xs @ [e]))"
  proof cases
    case 1
    with assms have ne: "c k \<noteq> c e" by auto
    have eq: "(\<lambda>x. c k = c x) = (\<lambda>x. c x = c k)" by auto
    show ?thesis using ne by (simp add: eq sort_key_stable filter_sort)
  next
    case 2
    have "filter (\<lambda>x. c e = c x) xs = []" using assms by (auto simp: filter_empty_conv)
    then show ?thesis using 2 by (simp add: filter_sort)
  qed
qed (use assms in \<open>auto simp: sorted_append\<close>)

lemma newest_first_append:
  assumes "\<forall>h \<in> set es. ph_created_at h < ph_created_at e"
  shows "newest_first (es @ [e]) = e # newest_first es"
  using sort_key_last [OF assms] by (simp add: newest_first_def)

lemma filter_in_take:
  "distinct (map f xs) \<Longrightarrow> filter (\<lambda>x. f x \<in> f ` set (take n xs)) xs = take n xs"
proof (induction xs arbitrary: n)
  case (Cons x xs)
  show ?case
  proof (cases n)
    case (Suc m)
    have "filter (\<lambda>y. f y = f x \<or> f y \<in> f ` set (take m xs)) xs = filter (\<lambda>y. f y \<in> f ` set (take m xs)) xs"
      using Cons.prems by (intro filter_cong) (auto simp: image_iff)
    then show ?thesis using Suc Cons by simp
  qed simp
qed simp

definition recent :: "uuid \<Rightarrow> nat \<Rightarrow> accounts \<Rightarrow> string list" where
  "recent uid n ac = map ph_password_hash (latest_entries uid n ac)"

definition before_now :: "uuid \<Rightarrow> datetime \<Rightarrow> accounts \<Rightarrow> bool" where
  "before_now uid now ac \<longleftrightarrow> list_all (\<lambda>h. ph_created_at h < now) (user_entries uid ac)"

lemma change_user_entries:
  assumes "do_password_change lib policy ci uid pw ac = (Ok (), ac')"
    and "before_now uid (ci_now_push ci) ac"
  shows "newest_first (user_entries uid ac') = take (unat (pw_max_reuse policy))
    (\<lparr>ph_id = ci_push_id ci, ph_user_id = uid,
       ph_password_hash = ab_hash_password lib (ci_salt ci) pw, ph_created_at = ci_now_push ci\<rparr> #
     newest_first (user_entries uid ac))"
    (is "_ = take ?n (?e # _)")
proof -
  define ac1 where "ac1 = add_entry ci uid (ab_hash_password lib (ci_salt ci) pw) ac"
  have ue: "user_entries uid ac1 = user_entries uid ac @ [?e]"
    by (simp add: user_entries_def ac1_def add_entry_def)
  have "\<forall>h \<in> set (user_entries uid ac). ph_created_at h < ph_created_at ?e"
    using assms(2) by (simp add: before_now_def list_all_iff)
  then have zs: "newest_first (user_entries uid ac1) = ?e # newest_first (user_entries uid ac)"
    unfolding ue by (rule newest_first_append)
  note ok = do_password_change_Ok [OF assms(1), folded ac1_def]
  have "distinct (map ph_id (newest_first (user_entries uid ac1)))"
    using ok unfolding user_entries_def by (intro distinct_newest_first) (simp add: distinct_map_filter)
  then have "filter (\<lambda>h. ph_id h \<in> ph_id ` set (take ?n (newest_first (user_entries uid ac1))))
      (newest_first (user_entries uid ac1)) = take ?n (newest_first (user_entries uid ac1))"
    by (rule filter_in_take)
  moreover have "user_entries uid ac' = filter (\<lambda>h. ph_id h \<in> ph_id ` set (latest_entries uid ?n ac1))
      (user_entries uid ac1)"
    using ok by (auto simp: user_entries_def intro!: filter_cong)
  ultimately show ?thesis by (simp only: latest_entries_eq newest_first_filter zs)
qed


lemma change_recent:
  assumes "do_password_change lib policy ci uid pw ac = (Ok (), ac')"
    and "before_now uid (ci_now_push ci) ac"
  defines "n \<equiv> unat (pw_max_reuse policy)"
  shows "recent uid n ac' = take n (ab_hash_password lib (ci_salt ci) pw # recent uid n ac)"
    and "length (user_entries uid ac') \<le> n"
    and "\<And>now. ci_now_push ci < now \<Longrightarrow> before_now uid now ac'"
proof -
  note nf = change_user_entries [OF assms(1,2), folded n_def]
  show "recent uid n ac' = take n (ab_hash_password lib (ci_salt ci) pw # recent uid n ac)"
    by (cases n) (simp_all add: recent_def latest_entries_eq nf take_map min_def)
  have "length (user_entries uid ac') = length (newest_first (user_entries uid ac'))"
    by (simp add: newest_first_def)
  then show "length (user_entries uid ac') \<le> n" by (simp add: nf)
  fix now assume "ci_now_push ci < now"
  moreover have "set (user_entries uid ac') = set (newest_first (user_entries uid ac'))" by simp
  ultimately show "before_now uid now ac'"
    using assms(2) unfolding nf before_now_def list_all_iff by (auto dest!: in_set_takeD) force
qed

text \<open>A run of successful changes of one user's password.\<close>

fun change_run ::
  "auth_lib \<Rightarrow> password_policy \<Rightarrow> uuid \<Rightarrow> (change_inputs \<times> string) list \<Rightarrow> accounts \<Rightarrow> accounts option" where
  "change_run lib policy uid [] ac = Some ac"
| "change_run lib policy uid ((ci, pw) # cs) ac =
     (case do_password_change lib policy ci uid pw ac of
        (Inr _, ac') \<Rightarrow> change_run lib policy uid cs ac'
      | (Inl _, _) \<Rightarrow> None)"

definition change_hashes :: "auth_lib \<Rightarrow> (change_inputs \<times> string) list \<Rightarrow> string list" where
  "change_hashes lib cs = map (\<lambda>(ci, pw). ab_hash_password lib (ci_salt ci) pw) cs"

definition in_order :: "uuid \<Rightarrow> (change_inputs \<times> string) list \<Rightarrow> accounts \<Rightarrow> bool" where
  "in_order uid cs ac \<longleftrightarrow> sorted_wrt (<) (map (ci_now_push \<circ> fst) cs) \<and>
     list_all (\<lambda>c. before_now uid (ci_now_push (fst c)) ac) cs"

lemma in_order_step:
  assumes "in_order uid ((ci, pw) # cs) ac" "do_password_change lib policy ci uid pw ac = (Ok (), ac')"
  shows "before_now uid (ci_now_push ci) ac" "in_order uid cs ac'"
  using assms(1) change_recent(3) [OF assms(2)] by (auto simp: in_order_def list_all_iff)

lemma change_run_append:
  "change_run lib policy uid (cs @ ds) ac =
     (case change_run lib policy uid cs ac of Some ac' \<Rightarrow> change_run lib policy uid ds ac' | None \<Rightarrow> None)"
  by (induction cs arbitrary: ac) (auto split: prod.splits sum.splits)

lemma change_run_recent:
  assumes "change_run lib policy uid cs ac = Some ac'" "in_order uid (cs @ ds) ac"
  defines "n \<equiv> unat (pw_max_reuse policy)"
  shows "recent uid n ac' = take n (rev (change_hashes lib cs) @ recent uid n ac) \<and> in_order uid ds ac'"
  using assms(1,2)
proof (induction cs arbitrary: ac)
  case Nil
  then show ?case by (simp add: change_hashes_def recent_def latest_entries_eq)
next
  case (Cons c cs)
  obtain ci pw where c: "c = (ci, pw)" by fastforce
  with Cons.prems(1) obtain ac1 where ac1: "do_password_change lib policy ci uid pw ac = (Ok (), ac1)"
    "change_run lib policy uid cs ac1 = Some ac'" by (auto split: prod.splits sum.splits)
  note st = in_order_step [OF Cons.prems(2) [unfolded c append_Cons] ac1(1)]
  have r1: "recent uid n ac1 = take n (ab_hash_password lib (ci_salt ci) pw # recent uid n ac)"
    unfolding n_def by (rule change_recent(1) [OF ac1(1) st(1)])
  have "take n (xs @ take n ys) = take n (xs @ ys)" for xs ys :: "string list" by (simp add: take_append)
  then show ?case using Cons.IH [OF ac1(2) st(2)] by (simp add: c r1 change_hashes_def)
qed

text \<open>The next change after a run is checked against the window.\<close>

lemma change_run_checked:
  assumes "change_run lib policy uid (cs @ (ci, pw) # ds) ac = Some ac'" "in_order uid (cs @ (ci, pw) # ds) ac"
    and "h \<in> set (take (unat (pw_max_reuse policy)) (rev (change_hashes lib cs) @
          recent uid (unat (pw_max_reuse policy)) ac))"
  shows "\<not> ab_verify_password lib pw h"
proof -
  obtain ac1 where ac1: "change_run lib policy uid cs ac = Some ac1"
    "change_run lib policy uid ((ci, pw) # ds) ac1 = Some ac'"
    using assms(1) by (auto simp: change_run_append split: option.splits)
  then obtain ac2 where "do_password_change lib policy ci uid pw ac1 = (Ok (), ac2)"
    by (auto split: prod.splits sum.splits)
  from do_password_change_Ok [OF this]
  have "\<forall>h \<in> set (recent uid (unat (pw_max_reuse policy)) ac1). \<not> ab_verify_password lib pw h"
    by (simp add: recent_def list_all_iff)
  then show ?thesis using change_run_recent [OF ac1(1) assms(2)] assms(3) by metis
qed

section \<open>Histories of sessions\<close>

datatype session_op =
    SO_Login fault "instant \<times> instant" issue_inputs datetime string login_request
  | SO_Refresh refresh_inputs "string option"
  | SO_Logout stmt "string option"
  | SO_Revoke stmt claims
  | SO_Oidc "(string, string \<times> string option) result" fault stmt uuid datetime issue_inputs string
  | SO_Change fault change_inputs claims string string
  | SO_Required fault datetime change_inputs claims string
  | SO_AdminReset fault change_inputs stmt claims uuid string
  | SO_Forgot fault string stmt uuid datetime string
  | SO_Reset fault datetime change_inputs stmt datetime string string

fun session_step ::
  "auth_lib \<Rightarrow> auth_config \<Rightarrow> accounts \<times> login_limiter \<Rightarrow> session_op \<Rightarrow> accounts \<times> login_limiter" where
  "session_step lib cfg (ac, l) (SO_Login flt clk ii now ip req) = snd (login lib cfg flt clk ii now ip req (ac, l))"
| "session_step lib cfg (ac, l) (SO_Refresh ri token) = (snd (refresh lib cfg ri token ac), l)"
| "session_step lib cfg (ac, l) (SO_Logout st token) = (snd (logout lib st token ac), l)"
| "session_step lib cfg (ac, l) (SO_Revoke st c) = (snd (revoke_all_sessions lib st c ac), l)"
| "session_step lib cfg (ac, l) (SO_Oidc r flt st i now ii p) =
     (snd (oidc_callback lib cfg (\<lambda>_. Ok ()) (\<lambda>_ _ _ _. r) flt st i now ii p [] [] ac), l)"
| "session_step lib cfg (ac, l) (SO_Change flt ci c old new) = (snd (change_password lib cfg flt ci c old new ac), l)"
| "session_step lib cfg (ac, l) (SO_Required flt now ci c new) = (snd (change_required lib cfg flt now ci c new ac), l)"
| "session_step lib cfg (ac, l) (SO_AdminReset flt ci st c uid new) =
     (snd (admin_reset_password lib cfg flt ci st c uid new ac), l)"
| "session_step lib cfg (ac, l) (SO_Forgot flt bytes st i now email) =
     (fst (snd (forgot_password lib (\<lambda>_. None) (\<lambda>_. None) None flt bytes st i now email ac)), l)"
| "session_step lib cfg (ac, l) (SO_Reset flt now ci st now' token new) =
     (snd (reset_password lib cfg flt now ci st now' token new ac), l)"

text \<open>The hash of the refresh token an operation may store.\<close>

fun issues :: "auth_lib \<Rightarrow> session_op \<Rightarrow> string set" where
  "issues lib (SO_Login flt clk ii now ip req) = {issued_hash lib ii}"
| "issues lib (SO_Refresh ri token) = {issued_hash lib (ri_issue ri)}"
| "issues lib (SO_Oidc r flt st i now ii p) = {issued_hash lib ii}"
| "issues lib _ = {}"

lemma stmt_hashes:
  "token_hashes (snd (users_set st i upd ac)) = token_hashes ac"
  "token_hashes (snd (history_push st i now uid h ac)) = token_hashes ac"
  "token_hashes (snd (history_purge_older_than st uid n ac)) = token_hashes ac"
  "token_hashes (snd (reset_create st i now uid h ttl ac)) = token_hashes ac"
  "token_hashes (snd (reset_mark_used st now i ac)) = token_hashes ac"
  using users_set_refresh [of st i upd ac]
  by (auto simp: token_hashes_def history_push_def history_purge_older_than_def reset_create_def
      reset_mark_used_def exec_stmt_def returning_def Let_def split: prod.splits option.splits sum.splits)

lemma revoke_all_hashes: "token_hashes (snd (refresh_delete_all_for_user st uid ac)) \<subseteq> token_hashes ac"
  by (simp add: refresh_delete_all_snd refresh_drop_hashes)

lemma do_password_change_hashes:
  "token_hashes (snd (do_password_change lib policy ci uid pw ac)) \<subseteq> token_hashes ac"
proof (cases "history_get_last_n (ci_history ci) uid (unat (pw_max_reuse policy)) ac")
  case (Inr history)
  show ?thesis
  proof (cases "validate_password (ci_unicode ci) (ci_common ci) (ab_verify_password lib) policy pw history")
    case ok: (Inr u)
    have set: "users_set st i upd a = (r, a1) \<Longrightarrow> token_hashes a1 = token_hashes a"
      "history_push st i now uid h a = (r', a1) \<Longrightarrow> token_hashes a1 = token_hashes a"
      "history_purge_older_than st uid n a = (r', a1) \<Longrightarrow> token_hashes a1 = token_hashes a"
      "refresh_delete_all_for_user st uid a = (k, a1) \<Longrightarrow> token_hashes a1 \<subseteq> token_hashes a"
      for st i upd a r a1 now h r' n k
      using stmt_hashes(1) [of st i upd a] stmt_hashes(2) [of st i now uid h a]
        stmt_hashes(3) [of st uid n a] revoke_all_hashes [of st uid a] by simp_all
    show ?thesis unfolding do_password_change_def Inr ok Let_def users_update_password_def sum.case
      by (intro stmt_case [where P = "\<lambda>a. token_hashes a \<subseteq> token_hashes ac"]) (auto dest!: set)
  qed (simp add: do_password_change_def Inr)
qed (simp add: do_password_change_def)

lemma password_handlers_hashes:
  "token_hashes (snd (change_password lib cfg flt ci c old new ac)) \<subseteq> token_hashes ac"
  "token_hashes (snd (change_required lib cfg flt now ci c new ac)) \<subseteq> token_hashes ac"
  using do_password_change_hashes [of lib "ag_password_policy cfg" ci "cl_user_id c" new ac]
  by (auto simp: change_password_def change_required_def reply_with_def Let_def
      split: sum.splits option.splits)

lemma admin_reset_hashes:
  "token_hashes (snd (admin_reset_password lib cfg flt ci st c uid new ac)) \<subseteq> token_hashes ac"
proof -
  have "token_hashes (snd (case do_password_change lib (ag_password_policy cfg) ci i new ac of
        (Inl e, ac) \<Rightarrow> (Err e, ac)
      | (Inr _, ac) \<Rightarrow> (case users_set_must_change st i True ac of
            (Inl e, ac) \<Rightarrow> (Err (AE_Core e), ac)
          | (Inr _, ac) \<Rightarrow> (Ok v, ac)))) \<subseteq> token_hashes ac" for i and v :: json
    using do_password_change_hashes [of lib "ag_password_policy cfg" ci i new ac]
      stmt_hashes(1) [of st i "\<lambda>u. u\<lparr>usr_must_change_password := True\<rparr>"]
    by (intro stmt_case [where P = "\<lambda>a. token_hashes a \<subseteq> token_hashes ac"])
      (auto simp: users_set_must_change_def dest!: arg_cong [where f = "\<lambda>r. token_hashes (snd r)"])
  then show ?thesis
    by (auto simp: admin_reset_password_def split: sum.splits)
qed

lemma reset_password_hashes:
  "token_hashes (snd (reset_password lib cfg flt now ci st now' token new ac)) \<subseteq> token_hashes ac"
proof -
  have "token_hashes (snd (case do_password_change lib (ag_password_policy cfg) ci i new ac of
        (Inl e, ac) \<Rightarrow> (Err e, ac)
      | (Inr _, ac) \<Rightarrow> (case reset_mark_used st now' j ac of
            (Inl e, ac) \<Rightarrow> (Err (AE_Core e), ac)
          | (Inr _, ac) \<Rightarrow> (Ok v, ac)))) \<subseteq> token_hashes ac" for i j and v :: json
    using do_password_change_hashes [of lib "ag_password_policy cfg" ci i new ac] stmt_hashes(5) [of st now' j]
    by (intro stmt_case [where P = "\<lambda>a. token_hashes a \<subseteq> token_hashes ac"])
      (auto dest!: arg_cong [where f = "\<lambda>r. token_hashes (snd r)"])
  then show ?thesis
    by (auto simp: reset_password_def split: sum.splits)
qed

lemma session_step_hashes:
  "token_hashes (fst (session_step lib cfg (ac, l) op)) \<subseteq> token_hashes ac \<union> issues lib op"
proof (cases op)
  case (SO_Login flt clk ii now ip req)
  then show ?thesis using login_hashes [of lib cfg flt clk ii now ip req ac l] by auto
next
  case (SO_Refresh ri token)
  then show ?thesis using refresh_hashes [of lib cfg ri token ac] by auto
next
  case (SO_Oidc r flt st i now ii p)
  then show ?thesis
    using oidc_hashes [of lib cfg "\<lambda>_. Ok ()" "\<lambda>_ _ _ _. r" flt st i now ii p "[]" "[]" ac] by auto
next
  case (SO_Forgot flt bytes st i now email)
  then show ?thesis
    using stmt_hashes(4) by (auto simp: forgot_password_def Let_def split: sum.splits prod.splits)
qed (simp_all add: logout_hashes revoke_hashes password_handlers_hashes admin_reset_hashes reset_password_hashes)

lemma session_run_hashes:
  assumes "h \<notin> token_hashes (fst st)" "\<forall>op \<in> set ops. h \<notin> issues lib op"
  shows "h \<notin> token_hashes (fst (foldl (session_step lib cfg) st ops))"
  using assms
proof (induction ops arbitrary: st)
  case (Cons op ops)
  obtain ac l where st: "st = (ac, l)" by fastforce
  then have "h \<notin> token_hashes (fst (session_step lib cfg st op))"
    using Cons.prems session_step_hashes [of lib cfg ac l op] by auto
  then show ?case using Cons by simp
qed simp

section \<open>Properties\<close>

text \<open>
  C11. A refresh token is single-use: once a refresh with it has succeeded, no later refresh
  with it does, whatever logins, refreshes, logouts, revocations and password changes come in
  between, unless the same token is generated again.
\<close>

theorem refresh_single_use:
  assumes "accounts_ok ac" and "refresh lib cfg ri (Some t) ac = (Ok reply, ac1)"
    and "\<forall>op \<in> set (SO_Refresh ri (Some t) # ops). hash_refresh_token lib t \<notin> issues lib op"
  shows "fst (refresh lib cfg ri' (Some t) (fst (foldl (session_step lib cfg) (ac1, l) ops))) = Err AE_Unauthorized"
proof -
  have "hash_refresh_token lib t \<notin> token_hashes ac1"
    using assms by (intro refresh_Ok_hashes [OF assms(1,2)]) auto
  then have "hash_refresh_token lib t \<notin> token_hashes (fst (foldl (session_step lib cfg) (ac1, l) ops))"
    using assms(3) by (intro session_run_hashes) simp_all
  then show ?thesis by (simp add: refresh_unknown)
qed

text \<open>
  C14. No password is reused within the configured window: in a run of successful changes of
  one user's password, made at increasing times, with a window of \<open>n\<close>, a password differs
  from the \<open>n\<close> before it (the password hash accepting the password it was made from).
\<close>

theorem no_password_reuse:
  assumes "change_run lib policy uid cs ac = Some ac'" and "in_order uid cs ac"
    and "\<forall>salt pw. ab_verify_password lib pw (ab_hash_password lib salt pw)"
    and "i < j" "j < length cs" "j \<le> i + unat (pw_max_reuse policy)"
  shows "snd (cs ! i) \<noteq> snd (cs ! j)"
proof -
  let ?n = "unat (pw_max_reuse policy)" and ?hs = "rev (change_hashes lib (take j cs))"
  obtain ci pw where cj: "cs ! j = (ci, pw)" by fastforce
  have split: "cs = take j cs @ (ci, pw) # drop (Suc j) cs"
    using assms(5) cj id_take_nth_drop by metis
  have len: "length ?hs = j" using assms(5) by (simp add: change_hashes_def)
  have "?hs ! (j - Suc i) = change_hashes lib (take j cs) ! i"
    using assms(4,5) by (simp add: rev_nth change_hashes_def)
  also have "\<dots> = ab_hash_password lib (ci_salt (fst (cs ! i))) (snd (cs ! i))"
    using assms(4,5) by (simp add: change_hashes_def case_prod_beta)
  finally have h: "?hs ! (j - Suc i) = ab_hash_password lib (ci_salt (fst (cs ! i))) (snd (cs ! i))" .
  have "j - Suc i < ?n" "j - Suc i < length ?hs" using assms(4,6) len by linarith+
  then have "?hs ! (j - Suc i) \<in> set (take ?n (?hs @ recent uid ?n ac))"
    by (auto simp: in_set_conv_nth intro!: exI [of _ "j - Suc i"] simp del: length_rev)
  then have "\<not> ab_verify_password lib pw (?hs ! (j - Suc i))"
    using split assms(1,2) by (metis change_run_checked)
  then show ?thesis using assms(3) h cj by force
qed

text \<open>
  C13. A changed password ends the sessions of the user: after a successful change every
  refresh token the user had is refused, the new password is stored, and the sessions of
  every other user are as before.
\<close>

theorem password_change_ends_sessions:
  assumes "accounts_ok ac" and "do_password_change lib policy ci uid pw ac = (Ok (), ac')"
  shows "(\<forall>t. hash_refresh_token lib t \<in> rt_token_hash ` {r \<in> set (ac_refresh_tokens ac). rt_user_id r = uid} \<longrightarrow>
            fst (refresh lib cfg ri (Some t) ac') = Err AE_Unauthorized) \<and>
    filter (\<lambda>r. rt_user_id r \<noteq> uid) (ac_refresh_tokens ac') = filter (\<lambda>r. rt_user_id r \<noteq> uid) (ac_refresh_tokens ac) \<and>
    (\<forall>u \<in> set (ac_users ac'). usr_id u = uid \<longrightarrow>
       usr_password_hash u = Some (ab_hash_password lib (ci_salt ci) pw) \<and> \<not> usr_must_change_password u)"
proof (intro conjI allI impI)
  note ok = do_password_change_Ok [OF assms(2)]
  show "filter (\<lambda>r. rt_user_id r \<noteq> uid) (ac_refresh_tokens ac') = filter (\<lambda>r. rt_user_id r \<noteq> uid) (ac_refresh_tokens ac)"
    using ok by simp
  show "\<forall>u \<in> set (ac_users ac'). usr_id u = uid \<longrightarrow>
       usr_password_hash u = Some (ab_hash_password lib (ci_salt ci) pw) \<and> \<not> usr_must_change_password u"
    unfolding ok [THEN conjunct2, THEN conjunct1] by (rule update_where_all) simp_all
  fix t assume "hash_refresh_token lib t \<in> rt_token_hash ` {r \<in> set (ac_refresh_tokens ac). rt_user_id r = uid}"
  then obtain r where r: "r \<in> set (ac_refresh_tokens ac)" "rt_user_id r = uid"
    "rt_token_hash r = hash_refresh_token lib t" by auto
  have "distinct (map rt_token_hash (ac_refresh_tokens ac))"
    using assms(1) by (simp add: accounts_ok_def user_rows_ok_def)
  then have "r' = r" if "r' \<in> set (ac_refresh_tokens ac)" "rt_token_hash r' = rt_token_hash r" for r'
    using r(1) that by (metis distinct_map inj_onD)
  then have "r' = r" if "r' \<in> set (ac_refresh_tokens ac)" "rt_token_hash r' = hash_refresh_token lib t" for r'
    using that r(3) by simp
  moreover have "set (ac_refresh_tokens ac') = {r \<in> set (ac_refresh_tokens ac). rt_user_id r \<noteq> uid}"
    using ok by simp
  ultimately have "hash_refresh_token lib t \<notin> token_hashes ac'"
    unfolding token_hashes_def using r(2) by (metis (mono_tags, lifting) imageE mem_Collect_eq)
  then show "fst (refresh lib cfg ri (Some t) ac') = Err AE_Unauthorized"
    by (simp add: refresh_unknown)
qed

section \<open>Witnesses\<close>

definition sample_change :: "uuid \<Rightarrow> datetime \<Rightarrow> change_inputs" where
  "sample_change i now = \<lparr>ci_unicode = \<lparr>uc_uppercase = (\<lambda>_. True), uc_lowercase = (\<lambda>_. True), uc_alphanumeric = (\<lambda>_. False)\<rparr>,
     ci_common = [], ci_history = None, ci_salt = [], ci_now_expiry = 0, ci_update = (None, []), ci_now_update = 0,
     ci_push = (None, []), ci_push_id = i, ci_now_push = now, ci_purge = (None, []), ci_revoke = (None, [])\<rparr>"

definition sample_policy :: password_policy where
  "sample_policy = password_policy_default\<lparr>pw_min_length := 1, pw_require_digit := False, pw_max_reuse := 2\<rparr>"

lemmas account_checks = accounts_ok_def users_ok_def memberships_ok_def api_keys_ok_def user_rows_ok_def
  refers_def refers_opt_def sso_identity_def user_role_from_str_def List.map_filter_def

lemmas change_steps = do_password_change_def history_get_last_n_def fetch_all_def latest_entries_def
  validate_password_def byte_def users_update_password_def users_set_def update_where_def history_push_def
  history_purge_older_than_def refresh_delete_all_for_user_def refresh_drop_def returning_def exec_stmt_def
  fetch_one_db_def

definition with_session :: accounts where
  "with_session = sample_accounts\<lparr>ac_refresh_tokens := [sample_row]\<rparr>"

definition sample_run :: "(change_inputs \<times> string) list" where
  "sample_run = [(sample_change 1 5, ''a1''), (sample_change 2 6, ''b2'')]"

lemma sample_change_Ok:
  "fst (do_password_change plain_auth sample_policy (sample_change 1 5) 1 ''a1'' with_session) = Ok ()"
  by (simp add: change_steps account_checks sample_change_def sample_policy_def password_policy_default_def
      with_session_def sample_accounts_def sample_user_def plain_auth_def sample_row_def Let_def)

lemma sample_run_Some: "change_run plain_auth sample_policy 1 sample_run with_session \<noteq> None"
  by (simp add: sample_run_def change_steps account_checks sample_change_def sample_policy_def password_policy_default_def
      with_session_def sample_accounts_def sample_user_def plain_auth_def sample_row_def Let_def)

lemma with_session_ok: "accounts_ok with_session"
  by (simp add: account_checks with_session_def sample_accounts_def sample_user_def sample_row_def)

lemma sample_refresh_Ok:
  "\<exists>cookies body. refresh plain_auth sample_config (sample_refresh ''t2'' 2) (Some ''t1'') with_session =
     (Ok (cookies, body), with_session\<lparr>ac_refresh_tokens :=
        filter (\<lambda>r. rt_id r \<noteq> rt_id sample_row) (ac_refresh_tokens with_session) @
        [issued_row plain_auth sample_config (ri_issue (sample_refresh ''t2'' 2)) (usr_id sample_user)]\<rparr>)"
proof (rule refresh_rotates [OF plain_signing_total with_session_ok, where ids = "{1}" and hs = "{''t1''}" and ris = "[]"])
  show "timely plain_auth sample_config (rt_expires_at sample_row) {1} {''t1''} [sample_refresh ''t2'' 2]"
    by (simp add: sample_row_def sample_auth_defs days_def Let_def)
qed (simp_all add: with_session_def sample_row_def sample_auth_defs token_hashes_def Let_def)

theorem refresh_single_use_witness:
  "fst (refresh plain_auth sample_config (sample_refresh ''t9'' 9) (Some ''t1'')
     (fst (foldl (session_step plain_auth sample_config)
        (snd (refresh plain_auth sample_config (sample_refresh ''t2'' 2) (Some ''t1'') with_session), ll_new 5)
        [SO_Refresh (sample_refresh ''t3'' 3) (Some ''t2''), SO_Logout (None, []) (Some ''t3'')]))) =
   Err AE_Unauthorized"
proof -
  let ?r = "refresh plain_auth sample_config (sample_refresh ''t2'' 2) (Some ''t1'') with_session"
  obtain reply where "?r = (Ok reply, snd ?r)" using sample_refresh_Ok by fastforce
  then show ?thesis
    by (rule refresh_single_use [OF with_session_ok]) (simp add: sample_auth_defs Let_def)
qed

theorem no_password_reuse_witness: "snd (sample_run ! 0) \<noteq> snd (sample_run ! 1)"
proof -
  obtain ac' where "change_run plain_auth sample_policy 1 sample_run with_session = Some ac'"
    using sample_run_Some by blast
  then show ?thesis
    by (rule no_password_reuse)
      (simp_all add: in_order_def before_now_def user_entries_def sample_run_def sample_change_def with_session_def
        sample_accounts_def plain_auth_def sample_policy_def)
qed

theorem password_change_ends_sessions_witness:
  "fst (refresh plain_auth sample_config (sample_refresh ''t9'' 9) (Some ''t1'')
     (snd (do_password_change plain_auth sample_policy (sample_change 1 5) 1 ''a1'' with_session))) = Err AE_Unauthorized"
proof -
  let ?c = "do_password_change plain_auth sample_policy (sample_change 1 5) 1 ''a1'' with_session"
  have "?c = (Ok (), snd ?c)" by (simp add: prod_eq_iff sample_change_Ok)
  note all = password_change_ends_sessions [OF with_session_ok this, of sample_config "sample_refresh ''t9'' 9"]
  have "sample_row \<in> {r \<in> set (ac_refresh_tokens with_session). rt_user_id r = 1}"
    "rt_token_hash sample_row = hash_refresh_token plain_auth ''t1''"
    by (simp_all add: with_session_def sample_row_def sample_auth_defs issued_row_def Let_def)
  then have "hash_refresh_token plain_auth ''t1'' \<in>
      rt_token_hash ` {r \<in> set (ac_refresh_tokens with_session). rt_user_id r = 1}"
    by (intro image_eqI [of _ _ sample_row]) (simp_all only:)
  then show ?thesis by (rule all [THEN conjunct1, rule_format])
qed

end
