(* ===== verification/Admin_Access.thy ===== *)
theory Admin_Access
  imports Passwords Credentials Circuit_Breaker
begin

text \<open>
  The handlers of the admin interface over organizations, users, teams, end users, API keys
  and the catalog (\<open>crates/godwit-api/src/admin\<close>: \<open>mod.rs\<close>, \<open>organizations.rs\<close>, \<open>users.rs\<close>,
  \<open>teams.rs\<close>, \<open>end_users.rs\<close>, \<open>api_keys.rs\<close>, \<open>models.rs\<close>, \<open>provider_profiles.rs\<close>,
  \<open>model_aliases.rs\<close>, \<open>circuit_breakers.rs\<close>). A reply \<open>{"data": row}\<close> is the row; a reply that only
  confirms is the unit value.
\<close>

section \<open>Guards\<close>

definition core_err :: "(pasteur_error, 'r) result \<Rightarrow> (api_error, 'r) result" where
  "core_err r = map_err AE_Core r"

definition core_stmt :: "(pasteur_error, 'r) result \<times> 's \<Rightarrow> (api_error, 'r) result \<times> 's" where
  "core_stmt r = (core_err (fst r), snd r)"

text \<open>\<open>check?\<close> followed by the rest of the handler.\<close>

definition guard :: "(api_error, 'a) result \<Rightarrow> 's \<Rightarrow> ('a \<Rightarrow> (api_error, 'r) result \<times> 's) \<Rightarrow> (api_error, 'r) result \<times> 's" where
  "guard r s f = (case r of Inl e \<Rightarrow> (Err e, s) | Inr x \<Rightarrow> f x)"

definition require_super_admin :: "claims \<Rightarrow> (api_error, unit) result" where
  "require_super_admin c =
     bind_result (ok_or AE_Forbidden (role_from_str (cl_role c))) (\<lambda>role.
     if role \<noteq> SuperAdmin then Err AE_Forbidden else Ok ())"

definition require_manage_users :: "claims \<Rightarrow> (api_error, user_role) result" where
  "require_manage_users c =
     bind_result (ok_or AE_Forbidden (role_from_str (cl_role c))) (\<lambda>role.
     if \<not> can_manage_users role then Err AE_Forbidden else Ok role)"

definition require_manage_keys :: "claims \<Rightarrow> (api_error, user_role) result" where
  "require_manage_keys c =
     bind_result (ok_or AE_Forbidden (role_from_str (cl_role c))) (\<lambda>role.
     if \<not> can_manage_api_keys role then Err AE_Forbidden else Ok role)"

definition own_org :: "user_role \<Rightarrow> claims \<Rightarrow> uuid \<Rightarrow> (api_error, unit) result" where
  "own_org role c oid =
     (if role \<noteq> SuperAdmin \<and> oid \<noteq> cl_organization_id c then Err AE_Forbidden else Ok ())"

section \<open>Organizations\<close>

definition get_organization :: "fault \<Rightarrow> claims \<Rightarrow> uuid \<Rightarrow> accounts \<Rightarrow> (api_error, organization) result" where
  "get_organization flt c i ac = bind_result (require_super_admin c) (\<lambda>_. core_err (orgs_get_by_id flt i ac))"

definition list_organizations :: "fault \<Rightarrow> claims \<Rightarrow> accounts \<Rightarrow> (api_error, organization list) result" where
  "list_organizations flt c ac = bind_result (require_super_admin c) (\<lambda>_. core_err (orgs_list flt ac))"

definition create_organization ::
  "stmt \<Rightarrow> uuid \<Rightarrow> datetime \<Rightarrow> claims \<Rightarrow> string \<Rightarrow> i32 option \<Rightarrow> i32 option \<Rightarrow> accounts \<Rightarrow>
     (api_error, organization) result \<times> accounts" where
  "create_organization st i now c name rpm tpm ac =
     guard (require_super_admin c) ac (\<lambda>_. core_stmt (orgs_create_with_limits st i now name rpm tpm ac))"

definition update_organization ::
  "fault \<Rightarrow> stmt \<Rightarrow> claims \<Rightarrow> uuid \<Rightarrow> string option \<Rightarrow> i32 option \<Rightarrow> i32 option \<Rightarrow> accounts \<Rightarrow>
     (api_error, organization) result \<times> accounts" where
  "update_organization flt st c i name rpm tpm ac =
     guard (require_super_admin c) ac (\<lambda>_. core_stmt (orgs_update_with_limits flt st i name rpm tpm ac))"

definition delete_organization :: "stmt \<Rightarrow> claims \<Rightarrow> uuid \<Rightarrow> accounts \<Rightarrow> (api_error, unit) result \<times> accounts" where
  "delete_organization st c i ac = guard (require_super_admin c) ac (\<lambda>_. core_stmt (orgs_delete st i ac))"

section \<open>Users\<close>

definition list_users ::
  "fault \<Rightarrow> claims \<Rightarrow> uuid option \<Rightarrow> accounts \<Rightarrow> (api_error, user list) result" where
  "list_users flt c query_org ac =
     bind_result (require_role c [SuperAdmin, OrgAdmin]) (\<lambda>role.
     core_err
       (if role = SuperAdmin
        then (case query_org of
                Some oid \<Rightarrow> users_list_for_organization flt oid ac
              | None \<Rightarrow> users_list_all flt ac)
        else users_list_for_organization flt (cl_organization_id c) ac))"

definition create_user ::
  "stmt \<Rightarrow> uuid \<Rightarrow> datetime \<Rightarrow> claims \<Rightarrow> string \<Rightarrow> string option \<Rightarrow> string \<Rightarrow> accounts \<Rightarrow>
     (api_error, user) result \<times> accounts" where
  "create_user st i now c email name role_str ac =
     guard (require_role c [SuperAdmin, OrgAdmin]) ac (\<lambda>caller_role.
     guard (ok_or (AE_BadRequest ''invalid role'') (user_role_from_str role_str)) ac (\<lambda>role.
     if role_str = ''super_admin'' \<and> caller_role \<noteq> SuperAdmin then (Err AE_Forbidden, ac)
     else core_stmt (users_create st i now email name role (Some (cl_organization_id c)) ac)))"

definition get_user :: "fault \<Rightarrow> claims \<Rightarrow> uuid \<Rightarrow> accounts \<Rightarrow> (api_error, user) result" where
  "get_user flt c i ac =
     bind_result (require_role c [SuperAdmin, OrgAdmin]) (\<lambda>role.
     bind_result (core_err (users_get_by_id flt i ac)) (\<lambda>user.
     bind_result (check_same_org role c (usr_organization_id user)) (\<lambda>_. Ok user)))"

definition acting_on :: "user_role \<Rightarrow> claims \<Rightarrow> user \<Rightarrow> (api_error, unit) result" where
  "acting_on role c target =
     bind_result (check_same_org role c (usr_organization_id target)) (\<lambda>_.
     check_not_acting_on_super_admin role (usr_role target))"

text \<open>The checks of \<open>update_user\<close> on the fields of the request.\<close>

definition update_allowed ::
  "user_role \<Rightarrow> string option \<Rightarrow> uuid option \<Rightarrow> (api_error, unit) result" where
  "update_allowed role new_role new_org =
     (if new_org \<noteq> None \<and> role \<noteq> SuperAdmin then Err AE_Forbidden
      else case new_role of
        None \<Rightarrow> Ok ()
      | Some role_str \<Rightarrow>
          bind_result (ok_or (AE_BadRequest ''invalid role'') (user_role_from_str role_str)) (\<lambda>_.
          if role_str = ''super_admin'' \<and> role \<noteq> SuperAdmin then Err AE_Forbidden else Ok ()))"

text \<open>The statements of \<open>update_user\<close>: a user moved to another organization leaves every team.\<close>

definition store_user ::
  "fault \<Rightarrow> stmt \<Rightarrow> stmt \<Rightarrow> uuid \<Rightarrow> string option \<Rightarrow> string option \<Rightarrow> uuid option \<Rightarrow> user \<Rightarrow>
   accounts \<Rightarrow> (api_error, user) result \<times> accounts" where
  "store_user flt st1 st2 i name new_role new_org target ac =
     (let reassigning_org = new_org \<noteq> None \<and> new_org \<noteq> usr_organization_id target
      in case users_update flt st1 i name new_role new_org ac of
           (Inl e, ac1) \<Rightarrow> (Err (AE_Core e), ac1)
         | (Inr updated, ac1) \<Rightarrow>
             if reassigning_org
             then (case remove_all_for_user st2 i ac1 of
                     (Inl e, ac2) \<Rightarrow> (Err (AE_Core e), ac2)
                   | (Inr _, ac2) \<Rightarrow> (Ok updated, ac2))
             else (Ok updated, ac1))"

definition update_user ::
  "fault \<Rightarrow> fault \<Rightarrow> stmt \<Rightarrow> stmt \<Rightarrow> claims \<Rightarrow> uuid \<Rightarrow> string option \<Rightarrow> string option \<Rightarrow> uuid option \<Rightarrow>
   accounts \<Rightarrow> (api_error, user) result \<times> accounts" where
  "update_user flt1 flt2 st1 st2 c i name new_role new_org ac =
     guard (require_role c [SuperAdmin, OrgAdmin]) ac (\<lambda>role.
     if new_role \<noteq> None \<and> cl_user_id c = i then (Err (AE_BadRequest ''cannot change your own role''), ac)
     else
     guard (core_err (users_get_by_id flt1 i ac)) ac (\<lambda>target.
     guard (acting_on role c target) ac (\<lambda>_.
     guard (update_allowed role new_role new_org) ac (\<lambda>_.
     store_user flt2 st1 st2 i name new_role new_org target ac))))"

definition delete_user ::
  "fault \<Rightarrow> stmt \<Rightarrow> claims \<Rightarrow> uuid \<Rightarrow> accounts \<Rightarrow> (api_error, unit) result \<times> accounts" where
  "delete_user flt st c i ac =
     guard (require_role c [SuperAdmin, OrgAdmin]) ac (\<lambda>role.
     if cl_user_id c = i then (Err (AE_BadRequest ''cannot delete your own account''), ac)
     else
     guard (core_err (users_get_by_id flt i ac)) ac (\<lambda>target.
     guard (acting_on role c target) ac (\<lambda>_. core_stmt (users_delete st i ac))))"

section \<open>Teams\<close>

definition list_teams ::
  "fault \<Rightarrow> claims \<Rightarrow> uuid option \<Rightarrow> accounts \<Rightarrow> (api_error, team list) result" where
  "list_teams flt c query_org ac =
     bind_result (require_manage_users c) (\<lambda>role.
     core_err
       (if role = SuperAdmin
        then (case query_org of
                Some oid \<Rightarrow> teams_list_for_organization flt oid ac
              | None \<Rightarrow> teams_list_all flt ac)
        else teams_list_for_organization flt (cl_organization_id c) ac))"

definition get_team :: "fault \<Rightarrow> claims \<Rightarrow> uuid \<Rightarrow> accounts \<Rightarrow> (api_error, team) result" where
  "get_team flt c i ac =
     bind_result (require_manage_users c) (\<lambda>role.
     bind_result (core_err (teams_get_by_id flt i ac)) (\<lambda>team.
     bind_result (own_org role c (tm_organization_id team)) (\<lambda>_. Ok team)))"

text \<open>The organization a new row is created in.\<close>

definition target_org :: "user_role \<Rightarrow> claims \<Rightarrow> uuid option \<Rightarrow> (api_error, uuid) result" where
  "target_org role c req_org =
     (if role = SuperAdmin then ok_or (AE_BadRequest ''organization_id is required'') req_org
      else Ok (cl_organization_id c))"

definition create_team ::
  "stmt \<Rightarrow> uuid \<Rightarrow> datetime \<Rightarrow> claims \<Rightarrow> string \<Rightarrow> uuid option \<Rightarrow> decimal option \<Rightarrow> decimal option \<Rightarrow> accounts \<Rightarrow>
     (api_error, team) result \<times> accounts" where
  "create_team st i now c name req_org budget max_budget ac =
     guard (require_manage_users c) ac (\<lambda>role.
     guard (target_org role c req_org) ac (\<lambda>oid.
     core_stmt (teams_create st i now oid name budget max_budget ac)))"

definition or_else :: "'a option \<Rightarrow> 'a option \<Rightarrow> 'a option" where
  "or_else a b = (case a of None \<Rightarrow> b | Some _ \<Rightarrow> a)"

definition update_team ::
  "fault \<Rightarrow> stmt \<Rightarrow> claims \<Rightarrow> uuid \<Rightarrow> string option \<Rightarrow> decimal option \<Rightarrow> decimal option \<Rightarrow> accounts \<Rightarrow>
     (api_error, team) result \<times> accounts" where
  "update_team flt st c i name budget max_budget ac =
     guard (require_manage_users c) ac (\<lambda>role.
     guard (core_err (teams_get_by_id flt i ac)) ac (\<lambda>team.
     guard (own_org role c (tm_organization_id team)) ac (\<lambda>_.
     core_stmt (teams_update_with_budget st i (unwrap_or (tm_name team) name)
       (or_else budget (tm_budget_usd team)) (or_else max_budget (tm_max_budget_usd team)) ac))))"

definition delete_team :: "fault \<Rightarrow> stmt \<Rightarrow> claims \<Rightarrow> uuid \<Rightarrow> accounts \<Rightarrow> (api_error, unit) result \<times> accounts" where
  "delete_team flt st c i ac =
     guard (require_manage_users c) ac (\<lambda>role.
     guard (core_err (teams_get_by_id flt i ac)) ac (\<lambda>team.
     guard (own_org role c (tm_organization_id team)) ac (\<lambda>_. core_stmt (teams_delete st i ac))))"

definition require_team_manage :: "fault \<Rightarrow> fault \<Rightarrow> claims \<Rightarrow> uuid \<Rightarrow> accounts \<Rightarrow> (api_error, unit) result" where
  "require_team_manage flt1 flt2 c team_id ac =
     bind_result (ok_or AE_Forbidden (role_from_str (cl_role c))) (\<lambda>role.
     if role = SuperAdmin then Ok ()
     else bind_result (core_err (teams_get_by_id flt1 team_id ac)) (\<lambda>team.
     if role = OrgAdmin \<and> tm_organization_id team = cl_organization_id c then Ok ()
     else case get_membership flt2 team_id (cl_user_id c) ac of
       Inr m \<Rightarrow> if mb_role m = ''team_admin'' then Ok () else Err AE_Forbidden
     | Inl _ \<Rightarrow> Err AE_Forbidden))"

definition add_member ::
  "fault \<Rightarrow> fault \<Rightarrow> stmt \<Rightarrow> claims \<Rightarrow> uuid \<Rightarrow> uuid \<Rightarrow> string \<Rightarrow> accounts \<Rightarrow>
     (api_error, team_membership) result \<times> accounts" where
  "add_member flt1 flt2 st c team_id uid role ac =
     guard (require_team_manage flt1 flt2 c team_id ac) ac (\<lambda>_.
     if role \<noteq> ''team_admin'' \<and> role \<noteq> ''member''
     then (Err (AE_BadRequest (''role must be '' @ [CHR 0x27] @ ''team_admin'' @ [CHR 0x27] @ '' or '' @
             [CHR 0x27] @ ''member'' @ [CHR 0x27])), ac)
     else core_stmt (add_member_row st team_id uid role ac))"

definition remove_member ::
  "fault \<Rightarrow> fault \<Rightarrow> stmt \<Rightarrow> claims \<Rightarrow> uuid \<Rightarrow> uuid \<Rightarrow> accounts \<Rightarrow> (api_error, unit) result \<times> accounts" where
  "remove_member flt1 flt2 st c team_id uid ac =
     guard (require_team_manage flt1 flt2 c team_id ac) ac (\<lambda>_.
     core_stmt (remove_member_row st team_id uid ac))"

section \<open>End users\<close>

definition list_end_users ::
  "fault \<Rightarrow> claims \<Rightarrow> uuid option \<Rightarrow> accounts \<Rightarrow> (api_error, end_user list) result" where
  "list_end_users flt c query_org ac =
     bind_result (require_manage_users c) (\<lambda>role.
     core_err (end_users_list flt
       (if role = SuperAdmin then unwrap_or (cl_organization_id c) query_org else cl_organization_id c) ac))"

definition get_end_user :: "fault \<Rightarrow> claims \<Rightarrow> uuid \<Rightarrow> accounts \<Rightarrow> (api_error, end_user) result" where
  "get_end_user flt c uid ac =
     bind_result (require_manage_users c) (\<lambda>_. core_err (end_users_get_by_user flt (cl_organization_id c) uid ac))"

definition create_end_user ::
  "stmt \<Rightarrow> uuid \<Rightarrow> datetime \<Rightarrow> claims \<Rightarrow> uuid \<Rightarrow> uuid option \<Rightarrow> decimal option \<Rightarrow> decimal option \<Rightarrow> accounts \<Rightarrow>
     (api_error, end_user) result \<times> accounts" where
  "create_end_user st i now c uid req_org budget max_budget ac =
     guard (require_manage_users c) ac (\<lambda>role.
     guard (target_org role c req_org) ac (\<lambda>oid.
     core_stmt (end_users_create st i now oid uid budget max_budget ac)))"

definition update_end_user ::
  "fault \<Rightarrow> stmt \<Rightarrow> datetime \<Rightarrow> claims \<Rightarrow> uuid \<Rightarrow> decimal option \<Rightarrow> decimal option \<Rightarrow> accounts \<Rightarrow>
     (api_error, end_user) result \<times> accounts" where
  "update_end_user flt st now c uid budget max_budget ac =
     guard (require_manage_users c) ac (\<lambda>role.
     guard (core_err (end_users_get_by_user flt (cl_organization_id c) uid ac)) ac (\<lambda>e.
     guard (own_org role c (eu_organization_id e)) ac (\<lambda>_.
     core_stmt (end_users_update_budgets st now (cl_organization_id c) uid budget max_budget ac))))"

definition delete_end_user :: "fault \<Rightarrow> stmt \<Rightarrow> claims \<Rightarrow> uuid \<Rightarrow> accounts \<Rightarrow> (api_error, unit) result \<times> accounts" where
  "delete_end_user flt st c uid ac =
     guard (require_manage_users c) ac (\<lambda>role.
     guard (core_err (end_users_get_by_user flt (cl_organization_id c) uid ac)) ac (\<lambda>e.
     guard (own_org role c (eu_organization_id e)) ac (\<lambda>_.
     core_stmt (end_users_delete st (cl_organization_id c) uid ac))))"

section \<open>API keys\<close>

text \<open>A statement of the API-key repository inside the tables with their constraints.\<close>

definition keys_stmt ::
  "string \<Rightarrow> (api_key list \<Rightarrow> (pasteur_error, 'r) result \<times> api_key list) \<Rightarrow> accounts \<Rightarrow>
     (pasteur_error, 'r) result \<times> accounts" where
  "keys_stmt violation f ac =
     (case f (ac_api_keys ac) of
        (Inl e, _) \<Rightarrow> (Err e, ac)
      | (Inr r, ks) \<Rightarrow>
          (let ac' = ac\<lparr>ac_api_keys := ks\<rparr>
           in if accounts_ok ac' then (Ok r, ac') else (Err (PE_Database violation), ac)))"

text \<open>Deleting a key clears the references of the request log to it.\<close>

definition keys_delete_row :: "fault \<Rightarrow> uuid \<Rightarrow> accounts \<Rightarrow> (pasteur_error, unit) result \<times> accounts" where
  "keys_delete_row flt i ac =
     (case keys_delete flt i (ac_api_keys ac) of
        (Inl e, _) \<Rightarrow> (Err e, ac)
      | (Inr _, ks) \<Rightarrow>
          (Ok (), ac\<lparr>ac_api_keys := ks, ac_request_logs := map (\<lambda>l. l\<lparr>lg_api_key_id :=
             (if lg_api_key_id l = Some i then None else lg_api_key_id l)\<rparr>) (ac_request_logs ac)\<rparr>))"

definition list_api_keys ::
  "fault \<Rightarrow> claims \<Rightarrow> uuid option \<Rightarrow> accounts \<Rightarrow> (api_error, api_key list) result" where
  "list_api_keys flt c query_org ac =
     bind_result (require_manage_keys c) (\<lambda>role.
     core_err
       (if role = SuperAdmin
        then (case query_org of
                Some oid \<Rightarrow> keys_list_for_organization flt oid (ac_api_keys ac)
              | None \<Rightarrow> keys_list_all flt (ac_api_keys ac))
        else keys_list_for_organization flt (cl_organization_id c) (ac_api_keys ac)))"

definition get_api_key :: "fault \<Rightarrow> claims \<Rightarrow> uuid \<Rightarrow> accounts \<Rightarrow> (api_error, api_key) result" where
  "get_api_key flt c i ac =
     bind_result (require_manage_keys c) (\<lambda>role.
     bind_result (core_err (keys_get_by_id flt i (ac_api_keys ac))) (\<lambda>key.
     bind_result (own_org role c (ak_organization_id key)) (\<lambda>_. Ok key)))"

definition delete_api_key :: "fault \<Rightarrow> fault \<Rightarrow> claims \<Rightarrow> uuid \<Rightarrow> accounts \<Rightarrow> (api_error, unit) result \<times> accounts" where
  "delete_api_key flt1 flt2 c i ac =
     guard (require_manage_keys c) ac (\<lambda>role.
     guard (core_err (keys_get_by_id flt1 i (ac_api_keys ac))) ac (\<lambda>key.
     guard (own_org role c (ak_organization_id key)) ac (\<lambda>_. core_stmt (keys_delete_row flt2 i ac))))"

text \<open>
  The reply of \<open>create_api_key\<close> is the row and the plaintext; \<open>None\<close> is the panic of
  \<open>extract_prefix\<close>, which cannot happen on a generated key.
\<close>

record new_key_request =
  nk_name :: string
  nk_scopes :: "string list"
  nk_allowed_models :: "string list"
  nk_rpm :: "i32 option"
  nk_tpm :: "i32 option"

definition create_api_key ::
  "(string \<Rightarrow> string) \<Rightarrow> (string \<Rightarrow> string) \<Rightarrow> string \<Rightarrow> stmt \<Rightarrow> uuid \<Rightarrow> datetime \<Rightarrow> claims \<Rightarrow> new_key_request \<Rightarrow>
   accounts \<Rightarrow> ((api_error, api_key \<times> string) result \<times> accounts) option" where
  "create_api_key base58 hash_key bytes st i now c req ac =
     (case require_manage_keys c of
        Inl e \<Rightarrow> Some (Err e, ac)
      | Inr _ \<Rightarrow>
          map_option (\<lambda>(plaintext, hash, prefix).
            case keys_stmt (snd st) (keys_create (fst st) i now (cl_user_id c) (cl_organization_id c)
                   (nk_name req) prefix hash (nk_scopes req) (nk_allowed_models req) None (nk_rpm req) (nk_tpm req)) ac of
              (Inl e, ac) \<Rightarrow> (Err (AE_Core e), ac)
            | (Inr key, ac) \<Rightarrow> (Ok (key, plaintext), ac))
            (generate_api_key base58 hash_key bytes))"

text \<open>Blocking, unblocking, regenerating and resetting check the organization only.\<close>

definition own_key ::
  "fault \<Rightarrow> claims \<Rightarrow> uuid \<Rightarrow> accounts \<Rightarrow> (api_error, api_key) result" where
  "own_key flt c i ac =
     bind_result (ok_or AE_Forbidden (role_from_str (cl_role c))) (\<lambda>role.
     bind_result (core_err (keys_get_by_id flt i (ac_api_keys ac))) (\<lambda>key.
     bind_result (own_org role c (ak_organization_id key)) (\<lambda>_. Ok key)))"

definition block_key :: "fault \<Rightarrow> stmt \<Rightarrow> claims \<Rightarrow> uuid \<Rightarrow> accounts \<Rightarrow> (api_error, api_key) result \<times> accounts" where
  "block_key flt st c i ac =
     guard (own_key flt c i ac) ac (\<lambda>_. core_stmt (keys_stmt (snd st) (keys_set_active (fst st) i False) ac))"

definition unblock_key :: "fault \<Rightarrow> stmt \<Rightarrow> claims \<Rightarrow> uuid \<Rightarrow> accounts \<Rightarrow> (api_error, api_key) result \<times> accounts" where
  "unblock_key flt st c i ac =
     guard (own_key flt c i ac) ac (\<lambda>_. core_stmt (keys_stmt (snd st) (keys_set_active (fst st) i True) ac))"

definition reset_spend :: "fault \<Rightarrow> stmt \<Rightarrow> claims \<Rightarrow> uuid \<Rightarrow> accounts \<Rightarrow> (api_error, api_key) result \<times> accounts" where
  "reset_spend flt st c i ac =
     guard (own_key flt c i ac) ac (\<lambda>_. core_stmt (keys_stmt (snd st) (keys_reset_spend (fst st) i) ac))"

definition regenerate_key ::
  "(string \<Rightarrow> string) \<Rightarrow> (string \<Rightarrow> string) \<Rightarrow> string \<Rightarrow> fault \<Rightarrow> stmt \<Rightarrow> datetime \<Rightarrow> claims \<Rightarrow> uuid \<Rightarrow> accounts \<Rightarrow>
     ((api_error, string \<times> uuid \<times> datetime) result \<times> accounts) option" where
  "regenerate_key base58 hash_key bytes flt st now c i ac =
     (case own_key flt c i ac of
        Inl e \<Rightarrow> Some (Err e, ac)
      | Inr _ \<Rightarrow>
          map_option (\<lambda>(plaintext, hash, prefix).
            case keys_stmt (snd st) (keys_regenerate (fst st) now i prefix hash) ac of
              (Inl e, ac) \<Rightarrow> (Err (AE_Core e), ac)
            | (Inr updated, ac) \<Rightarrow> (Ok (plaintext, ak_id updated, ak_created_at updated), ac))
            (generate_api_key base58 hash_key bytes))"

section \<open>The catalog\<close>

definition get_model :: "fault \<Rightarrow> claims \<Rightarrow> uuid \<Rightarrow> catalog \<Rightarrow> (api_error, model) result" where
  "get_model flt c i ct = bind_result (require_super_admin c) (\<lambda>_. core_err (models_get flt i ct))"

definition list_models_admin :: "fault \<Rightarrow> claims \<Rightarrow> catalog \<Rightarrow> (api_error, model list) result" where
  "list_models_admin flt c ct = bind_result (require_super_admin c) (\<lambda>_. core_err (models_list flt ct))"

record new_model_request =
  nm_public_id :: string
  nm_provider :: string
  nm_provider_profile_id :: uuid
  nm_provider_model_id :: string
  nm_capabilities :: string
  nm_pricing :: json

definition create_model ::
  "stmt \<Rightarrow> uuid \<Rightarrow> datetime \<Rightarrow> claims \<Rightarrow> new_model_request \<Rightarrow> catalog \<Rightarrow> (api_error, model) result \<times> catalog" where
  "create_model st i now c req ct =
     guard (require_super_admin c) ct (\<lambda>_.
     core_stmt (models_create (fst st) (snd st) i now (nm_public_id req) (nm_provider req)
       (nm_provider_profile_id req) (nm_provider_model_id req) (nm_capabilities req) (nm_pricing req) ct))"

definition update_model ::
  "fault \<Rightarrow> stmt \<Rightarrow> claims \<Rightarrow> uuid \<Rightarrow> string option \<Rightarrow> string option \<Rightarrow> catalog \<Rightarrow>
     (api_error, model) result \<times> catalog" where
  "update_model flt st c i public_id capabilities ct =
     guard (require_super_admin c) ct (\<lambda>_.
     core_stmt (models_update flt (fst st) (snd st) i public_id capabilities ct))"

definition delete_model :: "fault \<Rightarrow> claims \<Rightarrow> uuid \<Rightarrow> catalog \<Rightarrow> (api_error, unit) result \<times> catalog" where
  "delete_model flt c i ct = guard (require_super_admin c) ct (\<lambda>_. core_stmt (models_delete flt i ct))"

definition list_aliases :: "fault \<Rightarrow> claims \<Rightarrow> catalog \<Rightarrow> (api_error, model_alias list) result" where
  "list_aliases flt c ct = bind_result (require_super_admin c) (\<lambda>_. core_err (aliases_list flt ct))"

definition create_alias ::
  "fault \<Rightarrow> stmt \<Rightarrow> uuid \<Rightarrow> datetime \<Rightarrow> claims \<Rightarrow> string \<Rightarrow> uuid \<Rightarrow> catalog \<Rightarrow>
     (api_error, model_alias) result \<times> catalog" where
  "create_alias flt st i now c alias target ct =
     guard (require_super_admin c) ct (\<lambda>_.
     guard (core_err (models_get flt target ct)) ct (\<lambda>_.
     core_stmt (aliases_create (fst st) (snd st) i now alias target ct)))"

definition delete_alias :: "fault \<Rightarrow> claims \<Rightarrow> uuid \<Rightarrow> catalog \<Rightarrow> (api_error, unit) result \<times> catalog" where
  "delete_alias flt c i ct = guard (require_super_admin c) ct (\<lambda>_. core_stmt (aliases_delete flt i ct))"

definition profile_json :: "(uuid \<Rightarrow> string) \<Rightarrow> (datetime \<Rightarrow> string) \<Rightarrow> provider_profile \<Rightarrow> json" where
  "profile_json show_id show_time p = json_obj
     [(''id'', JString (show_id (pp_id p))), (''name'', JString (pp_name p)), (''protocol'', JString (pp_protocol p)),
      (''base_url'', (case pp_base_url p of None \<Rightarrow> JNull | Some u \<Rightarrow> JString u)),
      (''allow_wildcard'', JBool (pp_allow_wildcard p)), (''enabled'', JBool (pp_enabled p)),
      (''has_credentials'', JBool (\<not> is_null (pp_auth p) \<and> pp_auth p \<noteq> JObject [])),
      (''created_at'', JString (show_time (pp_created_at p)))]"

definition list_profiles ::
  "(uuid \<Rightarrow> string) \<Rightarrow> (datetime \<Rightarrow> string) \<Rightarrow> fault \<Rightarrow> claims \<Rightarrow> catalog \<Rightarrow> (api_error, json) result" where
  "list_profiles show_id show_time flt c ct =
     bind_result (require_super_admin c) (\<lambda>_.
     bind_result (core_err (profiles_list flt ct)) (\<lambda>ps.
     Ok (json_obj [(''data'', JArray (map (profile_json show_id show_time) ps))])))"

text \<open>A key given with the request is stored encrypted by a second statement.\<close>

definition store_key ::
  "crypto \<Rightarrow> string \<Rightarrow> string \<Rightarrow> stmt \<Rightarrow> string option \<Rightarrow> provider_profile \<Rightarrow> catalog \<Rightarrow>
     (api_error, provider_profile) result \<times> catalog" where
  "store_key cr master_key nonce st key profile ct =
     (case key of
        None \<Rightarrow> (Ok profile, ct)
      | Some api_key \<Rightarrow>
          core_stmt (profiles_set_auth (fst st) (snd st) (pp_id profile)
            (encrypt_api_key cr master_key nonce api_key) ct))"

record new_profile_request =
  np_name :: string
  np_protocol :: string
  np_base_url :: "string option"
  np_api_key :: "string option"
  np_allow_wildcard :: bool

definition create_profile ::
  "crypto \<Rightarrow> string \<Rightarrow> string \<Rightarrow> stmt \<Rightarrow> stmt \<Rightarrow> uuid \<Rightarrow> datetime \<Rightarrow> claims \<Rightarrow> new_profile_request \<Rightarrow> catalog \<Rightarrow>
     (api_error, provider_profile) result \<times> catalog" where
  "create_profile cr master_key nonce st1 st2 i now c req ct =
     guard (require_super_admin c) ct (\<lambda>_.
     case core_stmt (profiles_create (fst st1) (snd st1) i now (np_name req) (np_protocol req)
            (np_base_url req) (np_allow_wildcard req) ct) of
       (Inl e, ct1) \<Rightarrow> (Err e, ct1)
     | (Inr profile, ct1) \<Rightarrow> store_key cr master_key nonce st2 (np_api_key req) profile ct1)"

definition update_profile ::
  "crypto \<Rightarrow> string \<Rightarrow> string \<Rightarrow> fault \<Rightarrow> stmt \<Rightarrow> stmt \<Rightarrow> claims \<Rightarrow> uuid \<Rightarrow> string option \<Rightarrow> string option \<Rightarrow>
   bool option \<Rightarrow> bool option \<Rightarrow> catalog \<Rightarrow> (api_error, provider_profile) result \<times> catalog" where
  "update_profile cr master_key nonce flt st1 st2 c i base_url key allow_wildcard enabled ct =
     guard (require_super_admin c) ct (\<lambda>_.
     case core_stmt (profiles_update flt (fst st1) (snd st1) i base_url allow_wildcard enabled ct) of
       (Inl e, ct1) \<Rightarrow> (Err e, ct1)
     | (Inr profile, ct1) \<Rightarrow> store_key cr master_key nonce st2 key profile ct1)"

text \<open>The replies show whether a profile has credentials, never the credentials.\<close>

lemma profile_json_hides_credentials:
  "\<lbrakk>\<not> is_null a; a \<noteq> JObject []; \<not> is_null b; b \<noteq> JObject []\<rbrakk> \<Longrightarrow>
     profile_json si st (p\<lparr>pp_auth := a\<rparr>) = profile_json si st (p\<lparr>pp_auth := b\<rparr>)"
  by (simp add: profile_json_def)

fun circuit_state_name :: "circuit_state \<Rightarrow> string" where
  "circuit_state_name Closed = ''closed''"
| "circuit_state_name Open = ''open''"
| "circuit_state_name HalfOpen = ''half_open''"

definition list_circuit_breakers ::
  "instant \<Rightarrow> string list \<Rightarrow> breaker_registry \<Rightarrow> (string \<times> string) list \<times> breaker_registry" where
  "list_circuit_breakers now ks r =
     (case reg_all_states now ks r of (ss, r') \<Rightarrow> (map (\<lambda>(p, s). (p, circuit_state_name s)) ss, r'))"

section \<open>Isolation of organizations\<close>

text \<open>The writes of the account handlers, with their inputs.\<close>

datatype admin_op =
    AO_CreateOrganization stmt uuid datetime string "i32 option" "i32 option"
  | AO_UpdateOrganization fault stmt uuid "string option" "i32 option" "i32 option"
  | AO_DeleteOrganization stmt uuid
  | AO_CreateUser stmt uuid datetime string "string option" string
  | AO_UpdateUser fault fault stmt stmt uuid "string option" "string option" "uuid option"
  | AO_DeleteUser fault stmt uuid
  | AO_CreateTeam stmt uuid datetime string "uuid option" "decimal option" "decimal option"
  | AO_UpdateTeam fault stmt uuid "string option" "decimal option" "decimal option"
  | AO_DeleteTeam fault stmt uuid
  | AO_AddMember fault fault stmt uuid uuid string
  | AO_RemoveMember fault fault stmt uuid uuid
  | AO_CreateEndUser stmt uuid datetime uuid "uuid option" "decimal option" "decimal option"
  | AO_UpdateEndUser fault stmt datetime uuid "decimal option" "decimal option"
  | AO_DeleteEndUser fault stmt uuid
  | AO_ResetPassword auth_lib auth_config fault change_inputs stmt uuid string

fun admin_step :: "claims \<Rightarrow> accounts \<Rightarrow> admin_op \<Rightarrow> accounts" where
  "admin_step c ac (AO_CreateOrganization st i now name rpm tpm) = snd (create_organization st i now c name rpm tpm ac)"
| "admin_step c ac (AO_UpdateOrganization flt st i name rpm tpm) = snd (update_organization flt st c i name rpm tpm ac)"
| "admin_step c ac (AO_DeleteOrganization st i) = snd (delete_organization st c i ac)"
| "admin_step c ac (AO_CreateUser st i now email name role) = snd (create_user st i now c email name role ac)"
| "admin_step c ac (AO_UpdateUser f1 f2 s1 s2 i name role oid) = snd (update_user f1 f2 s1 s2 c i name role oid ac)"
| "admin_step c ac (AO_DeleteUser flt st i) = snd (delete_user flt st c i ac)"
| "admin_step c ac (AO_CreateTeam st i now name oid b mb) = snd (create_team st i now c name oid b mb ac)"
| "admin_step c ac (AO_UpdateTeam flt st i name b mb) = snd (update_team flt st c i name b mb ac)"
| "admin_step c ac (AO_DeleteTeam flt st i) = snd (delete_team flt st c i ac)"
| "admin_step c ac (AO_AddMember f1 f2 st t u role) = snd (add_member f1 f2 st c t u role ac)"
| "admin_step c ac (AO_RemoveMember f1 f2 st t u) = snd (remove_member f1 f2 st c t u ac)"
| "admin_step c ac (AO_CreateEndUser st i now u oid b mb) = snd (create_end_user st i now c u oid b mb ac)"
| "admin_step c ac (AO_UpdateEndUser flt st now u b mb) = snd (update_end_user flt st now c u b mb ac)"
| "admin_step c ac (AO_DeleteEndUser flt st u) = snd (delete_end_user flt st c u ac)"
| "admin_step c ac (AO_ResetPassword lib cfg flt ci st u pw) = snd (admin_reset_password lib cfg flt ci st c u pw ac)"

text \<open>
  What a caller of an organization may not touch: the organizations, the users outside the
  organization and the super administrators, the teams of other organizations.
\<close>

definition foreign_user :: "uuid \<Rightarrow> user \<Rightarrow> bool" where
  "foreign_user oid u \<longleftrightarrow> usr_organization_id u \<noteq> Some oid \<or> usr_role u = ''super_admin''"

definition foreign :: "uuid \<Rightarrow> accounts \<Rightarrow> organization list \<times> user list \<times> team list" where
  "foreign oid ac = (ac_organizations ac, filter (foreign_user oid) (ac_users ac),
     filter (\<lambda>t. tm_organization_id t \<noteq> oid) (ac_teams ac))"

lemma guard_snd:
  assumes "\<And>x. r = Inr x \<Longrightarrow> foreign oid (snd (f x)) = foreign oid s"
  shows "foreign oid (snd (guard r s f)) = foreign oid s"
  using assms by (cases r) (simp_all add: guard_def)

lemma core_stmt_snd [simp]: "snd (core_stmt r) = snd r"
  by (simp add: core_stmt_def)

lemma exec_foreign:
  "foreign oid ac' = foreign oid ac \<Longrightarrow> foreign oid (snd (exec_stmt st ac' ac)) = foreign oid ac"
  by (cases "exec_stmt st ac' ac") (auto dest!: exec_stmt_cases)

lemma returning_foreign:
  "foreign oid ac' = foreign oid ac \<Longrightarrow> foreign oid (snd (returning fetch st rows ac' ac)) = foreign oid ac"
  by (cases "returning fetch st rows ac' ac") (auto dest!: returning_cases)

lemma filter_update_where:
  assumes "\<And>r. r \<in> set rows \<Longrightarrow> P r \<Longrightarrow> \<not> Q r \<and> \<not> Q (f r)"
  shows "filter Q (update_where P f rows) = filter Q rows"
  using assms by (induction rows) (auto simp: update_where_def)

definition own_user :: "uuid \<Rightarrow> uuid \<Rightarrow> accounts \<Rightarrow> bool" where
  "own_user oid i ac \<longleftrightarrow> list_all (\<lambda>u. usr_id u = i \<longrightarrow> \<not> foreign_user oid u) (ac_users ac)"

definition kept :: "uuid \<Rightarrow> uuid \<Rightarrow> accounts \<Rightarrow> accounts \<Rightarrow> bool" where
  "kept oid i ac ac' \<longleftrightarrow> own_user oid i ac' \<and> foreign oid ac' = foreign oid ac"

lemma kept_same:
  assumes "own_user oid i ac" "ac_users ac' = ac_users ac" "ac_teams ac' = ac_teams ac"
    "ac_organizations ac' = ac_organizations ac"
  shows "kept oid i ac ac'"
  using assms by (simp add: kept_def own_user_def foreign_def)

lemma exec_kept: "\<lbrakk>kept oid i ac ac'; own_user oid i ac\<rbrakk> \<Longrightarrow> kept oid i ac (snd (exec_stmt st ac' ac))"
  by (cases "exec_stmt st ac' ac") (auto simp: kept_def dest!: exec_stmt_cases)

lemma users_set_kept:
  assumes "own_user oid i ac"
    and "\<And>u. u \<in> set (ac_users ac) \<Longrightarrow> usr_id u = i \<Longrightarrow> usr_id (upd u) = i \<and> \<not> foreign_user oid (upd u)"
  shows "kept oid i ac (snd (users_set st i upd ac))"
proof -
  let ?ac1 = "ac\<lparr>ac_users := update_where (\<lambda>u. usr_id u = i) upd (ac_users ac)\<rparr>"
  have "filter (foreign_user oid) (ac_users ?ac1) = filter (foreign_user oid) (ac_users ac)"
    using assms by (auto simp: own_user_def list_all_iff intro!: filter_update_where)
  moreover have "own_user oid i ?ac1"
    using assms by (auto simp: own_user_def list_all_iff update_where_def)
  ultimately have "kept oid i ac ?ac1" by (simp add: kept_def foreign_def)
  then show ?thesis using assms(1)
    by (cases "users_set st i upd ac") (auto simp: users_set_def kept_def dest!: returning_cases)
qed

lemma stmts_kept:
  assumes "own_user oid i ac"
  shows "kept oid i ac (snd (history_push st j now uid h ac))"
    and "kept oid i ac (snd (history_purge_older_than st uid n ac))"
    and "kept oid i ac (snd (refresh_delete_all_for_user st uid ac))"
proof -
  show "kept oid i ac (snd (history_push st j now uid h ac))"
    "kept oid i ac (snd (history_purge_older_than st uid n ac))"
    using assms by (auto simp: history_push_def history_purge_older_than_def Let_def intro!: exec_kept kept_same)
  have "kept oid i ac (snd (refresh_drop st P ac))" for P
    using assms by (auto simp: refresh_drop_def intro!: exec_kept kept_same)
  then show "kept oid i ac (snd (refresh_delete_all_for_user st uid ac))"
    by (simp add: refresh_delete_all_snd)
qed

lemma kept_trans: "kept oid i a b \<Longrightarrow> kept oid i b c \<Longrightarrow> kept oid i a c"
  by (simp add: kept_def)

lemma kept_own: "kept oid i a b \<Longrightarrow> own_user oid i b"
  by (simp add: kept_def)

lemma password_upd_kept:
  assumes "own_user oid i ac"
    and "\<And>u. usr_id (upd u) = usr_id u \<and> usr_role (upd u) = usr_role u \<and> usr_organization_id (upd u) = usr_organization_id u"
  shows "kept oid i ac (snd (users_set st i upd ac))"
  using assms by (intro users_set_kept) (auto simp: own_user_def list_all_iff foreign_user_def)

lemma do_password_change_kept:
  assumes "own_user oid i ac"
  shows "kept oid i ac (snd (do_password_change lib policy ci i pw ac))"
proof (cases "history_get_last_n (ci_history ci) i (unat (pw_max_reuse policy)) ac")
  case (Inr history)
  show ?thesis
  proof (cases "validate_password (ci_unicode ci) (ci_common ci) (ab_verify_password lib) policy pw history")
    case ok: (Inr u)
    let ?h = "ab_hash_password lib (ci_salt ci) pw" and ?n = "unat (pw_max_reuse policy)"
    let ?e = "if 0 < pw_days_to_expire policy then Some (ci_now_expiry ci + days (pw_days_to_expire policy)) else None"
    have 1: "kept oid i ac a1" if "users_update_password (ci_update ci) (ci_now_update ci) i ?h ?e ac = (r, a1)" for r a1
    proof -
      have "kept oid i ac (snd (users_update_password (ci_update ci) (ci_now_update ci) i ?h ?e ac))"
        unfolding users_update_password_def by (rule password_upd_kept [OF assms]) simp
      then show ?thesis using that by simp
    qed
    have 2: "kept oid i ac a2" if "kept oid i ac a1"
        "history_push (ci_push ci) (ci_push_id ci) (ci_now_push ci) i ?h a1 = (r, a2)" for a1 r a2
      using kept_trans [OF that(1)] stmts_kept(1) [OF kept_own [OF that(1)]] that(2) by (metis snd_conv)
    have 3: "kept oid i ac a2" if "kept oid i ac a1"
        "history_purge_older_than (ci_purge ci) i ?n a1 = (r, a2)" for a1 r a2
      using kept_trans [OF that(1)] stmts_kept(2) [OF kept_own [OF that(1)]] that(2) by (metis snd_conv)
    have 4: "kept oid i ac a2" if "kept oid i ac a1"
        "refresh_delete_all_for_user (ci_revoke ci) i a1 = (r, a2)" for a1 r a2
      using kept_trans [OF that(1)] stmts_kept(3) [OF kept_own [OF that(1)]] that(2) by (metis snd_conv)
    show ?thesis unfolding do_password_change_def Inr ok Let_def sum.case
      by (intro stmt_case [where P = "kept oid i ac"]) (auto dest: 1 2 3 4)
  qed (use assms in \<open>simp add: do_password_change_def Inr kept_def\<close>)
qed (use assms in \<open>simp add: do_password_change_def kept_def\<close>)

lemma users_get_own:
  assumes "accounts_ok ac" "users_get_by_id flt i ac = Ok target" "\<not> foreign_user oid target"
  shows "own_user oid i ac" "target \<in> set (ac_users ac)" "usr_id target = i"
proof -
  have t: "target \<in> set (ac_users ac) \<and> usr_id target = i"
    using assms(2) unfolding users_get_by_id_def by (rule fetch_one_filter_Ok)
  then show "target \<in> set (ac_users ac)" "usr_id target = i" by auto
  have "distinct (map usr_id (ac_users ac))"
    using assms(1) by (simp add: accounts_ok_def users_ok_def)
  then have "u = target" if "u \<in> set (ac_users ac)" "usr_id u = i" for u
    using t that by (metis distinct_map inj_onD)
  then show "own_user oid i ac" using assms(3) by (auto simp: own_user_def list_all_iff)
qed

lemma acting_on_Ok:
  "acting_on role c target = Ok u \<Longrightarrow> role \<noteq> SuperAdmin \<Longrightarrow> \<not> foreign_user (cl_organization_id c) target"
  by (auto simp: acting_on_def check_same_org_def check_not_acting_on_super_admin_def foreign_user_def
      bind_result_ok_iff split: if_splits)

lemma require_role_Ok: "require_role c allowed = Ok role \<Longrightarrow> role_from_str (cl_role c) = Some role"
  by (auto simp: require_role_def bind_result_ok_iff split: if_splits elim: ok_or.elims)

lemma require_manage_users_Ok: "require_manage_users c = Ok role \<Longrightarrow> role_from_str (cl_role c) = Some role"
  by (auto simp: require_manage_users_def bind_result_ok_iff split: if_splits elim: ok_or.elims)

lemma require_super_admin_Ok: "require_super_admin c = Ok u \<Longrightarrow> role_from_str (cl_role c) = Some SuperAdmin"
  by (auto simp: require_super_admin_def bind_result_ok_iff split: if_splits elim: ok_or.elims)

lemma users_create_foreign:
  "role \<noteq> SuperAdmin \<Longrightarrow> foreign oid (snd (users_create st i now email name role (Some oid) ac)) = foreign oid ac"
  unfolding users_create_def Let_def
  by (rule returning_foreign) (cases role; simp add: foreign_def foreign_user_def)

lemma create_user_foreign:
  assumes "role_from_str (cl_role c) \<noteq> Some SuperAdmin"
  shows "foreign (cl_organization_id c) (snd (create_user st i now c email name role_str ac)) =
    foreign (cl_organization_id c) ac"
proof -
  have "role_str = ''super_admin''" if "ok_or e (user_role_from_str role_str) = Ok SuperAdmin" for e :: api_error
    using that by (auto simp: user_role_from_str_def split: if_splits)
  moreover have "role \<noteq> SuperAdmin" if "require_role c [SuperAdmin, OrgAdmin] = Ok role" for role
    using that assms by (auto dest: require_role_Ok)
  ultimately show ?thesis unfolding create_user_def
    by (intro guard_snd) (auto intro: users_create_foreign)
qed

lemma update_allowed_Ok:
  "update_allowed role new_role new_org = Ok u \<Longrightarrow> role \<noteq> SuperAdmin \<Longrightarrow>
     new_org = None \<and> new_role \<noteq> Some ''super_admin''"
  by (auto simp: update_allowed_def bind_result_ok_iff split: if_splits option.splits)

lemma users_update_kept:
  assumes "accounts_ok ac" "users_get_by_id flt1 i ac = Ok target" "\<not> foreign_user oid target"
    "new_role \<noteq> Some ''super_admin''"
  shows "kept oid i ac (snd (users_update flt2 st i name new_role None ac))"
proof (cases "users_get_by_id flt2 i ac")
  case (Inr current)
  have own: "own_user oid i ac" by (rule users_get_own [OF assms(1-3)])
  have "current = target"
    using assms(2) Inr by (auto simp: users_get_by_id_def fetch_one_Ok_iff)
  then have "\<not> foreign_user oid (u\<lparr>usr_name := n, usr_role := unwrap_or (usr_role current) new_role,
      usr_organization_id := usr_organization_id current\<rparr>)" for u n
    using assms(3,4) by (cases new_role) (auto simp: foreign_user_def)
  then show ?thesis using own by (auto simp: users_update_def Inr intro!: users_set_kept)
next
  case (Inl e)
  then show ?thesis using users_get_own(1) [OF assms(1-3)] by (simp add: users_update_def kept_def)
qed

lemma core_err_Ok [simp]: "core_err r = Ok x \<longleftrightarrow> r = Ok x"
  by (cases r) (simp_all add: core_err_def)

lemma store_user_foreign:
  assumes "accounts_ok ac" "users_get_by_id f1 i ac = Ok target" "acting_on role c target = Ok u"
    "role \<noteq> SuperAdmin" "update_allowed role new_role new_org = Ok v"
  shows "foreign (cl_organization_id c) (snd (store_user f2 s1 s2 i name new_role new_org target ac)) =
    foreign (cl_organization_id c) ac"
proof -
  let ?oid = "cl_organization_id c"
  have none: "new_org = None" "new_role \<noteq> Some ''super_admin''"
    using update_allowed_Ok [OF assms(5,4)] by auto
  have "kept ?oid i ac (snd (users_update f2 s1 i name new_role None ac))"
    by (rule users_update_kept [OF assms(1,2) acting_on_Ok [OF assms(3,4)] none(2)])
  then show ?thesis
    unfolding Let_def none(1) store_user_def
    by (intro stmt_case [where P = "\<lambda>a. foreign ?oid a = foreign ?oid ac"]) (auto simp: kept_def)
qed

lemma update_user_foreign:
  assumes "accounts_ok ac" "role_from_str (cl_role c) \<noteq> Some SuperAdmin"
  shows "foreign (cl_organization_id c) (snd (update_user f1 f2 s1 s2 c i name new_role new_org ac)) =
    foreign (cl_organization_id c) ac"
proof -
  have role: "role \<noteq> SuperAdmin" if "require_role c [SuperAdmin, OrgAdmin] = Ok role" for role
    using that assms(2) by (auto dest: require_role_Ok)
  show ?thesis unfolding update_user_def
    by (auto intro!: guard_snd store_user_foreign [OF assms(1)] dest: role)
qed

lemma own_org_Ok: "own_org role c oid = Ok u \<Longrightarrow> role \<noteq> SuperAdmin \<Longrightarrow> oid = cl_organization_id c"
  by (simp add: own_org_def split: if_splits)

lemma target_org_Ok: "target_org role c req = Ok oid \<Longrightarrow> role \<noteq> SuperAdmin \<Longrightarrow> oid = cl_organization_id c"
  by (simp add: target_org_def)

lemma delete_user_foreign:
  assumes "accounts_ok ac" "role_from_str (cl_role c) \<noteq> Some SuperAdmin"
  shows "foreign (cl_organization_id c) (snd (delete_user flt st c i ac)) = foreign (cl_organization_id c) ac"
proof -
  have role: "role \<noteq> SuperAdmin" if "require_role c [SuperAdmin, OrgAdmin] = Ok role" for role
    using that assms(2) by (auto dest: require_role_Ok)
  have del: "foreign oid (snd (users_delete st i ac)) = foreign oid ac" if "own_user oid i ac" for oid
    unfolding users_delete_def Let_def using that
    by (intro exec_foreign) (auto simp: foreign_def own_user_def list_all_iff intro!: filter_cong)
  show ?thesis unfolding delete_user_def
    by (auto intro!: guard_snd del dest!: role acting_on_Ok) (rule users_get_own(1) [OF assms(1)])
qed

lemma teams_get_own:
  assumes "accounts_ok ac" "teams_get_by_id flt i ac = Ok t" "u \<in> set (ac_teams ac)" "tm_id u = i"
  shows "u = t"
proof -
  have t: "t \<in> set (ac_teams ac) \<and> tm_id t = i"
    using assms(2) unfolding teams_get_by_id_def by (rule fetch_one_filter_Ok)
  have "distinct (map tm_id (ac_teams ac))"
    using assms(1) by (simp add: accounts_ok_def)
  then show ?thesis using t assms(3,4) by (metis distinct_map inj_onD)
qed

lemma create_team_foreign:
  assumes "role_from_str (cl_role c) \<noteq> Some SuperAdmin"
  shows "foreign (cl_organization_id c) (snd (create_team st i now c name req b mb ac)) =
    foreign (cl_organization_id c) ac"
proof -
  have role: "role \<noteq> SuperAdmin" if "require_manage_users c = Ok role" for role
    using that assms by (auto dest: require_manage_users_Ok)
  have "foreign oid (snd (teams_create st i now oid name b mb ac)) = foreign oid ac" for oid
    unfolding teams_create_def Let_def by (rule returning_foreign) (simp add: foreign_def)
  then show ?thesis unfolding create_team_def
    by (auto intro!: guard_snd dest!: role target_org_Ok)
qed

lemma teams_write_foreign:
  assumes "accounts_ok ac" "teams_get_by_id flt i ac = Ok t"
  shows "foreign (tm_organization_id t) (snd (teams_delete st i ac)) = foreign (tm_organization_id t) ac"
    and "foreign (tm_organization_id t) (snd (teams_update_with_budget st i name b mb ac)) =
      foreign (tm_organization_id t) ac"
proof -
  have own: "tm_organization_id u = tm_organization_id t" if "u \<in> set (ac_teams ac)" "tm_id u = i" for u
    using teams_get_own [OF assms that] by simp
  show "foreign (tm_organization_id t) (snd (teams_delete st i ac)) = foreign (tm_organization_id t) ac"
    unfolding teams_delete_def
    by (intro exec_foreign) (auto simp: foreign_def own intro!: filter_cong)
  show "foreign (tm_organization_id t) (snd (teams_update_with_budget st i name b mb ac)) =
      foreign (tm_organization_id t) ac"
    unfolding teams_update_with_budget_def teams_set_def
    by (intro returning_foreign) (auto simp: foreign_def own intro!: filter_update_where)
qed

lemma team_write_foreign:
  assumes "accounts_ok ac" "role_from_str (cl_role c) \<noteq> Some SuperAdmin"
  shows "foreign (cl_organization_id c) (snd (update_team flt st c i name b mb ac)) =
      foreign (cl_organization_id c) ac"
    and "foreign (cl_organization_id c) (snd (delete_team flt st c i ac)) = foreign (cl_organization_id c) ac"
proof -
  have role: "role \<noteq> SuperAdmin" if "require_manage_users c = Ok role" for role
    using that assms(2) by (auto dest: require_manage_users_Ok)
  have oid: "cl_organization_id c = tm_organization_id t"
    if "require_manage_users c = Ok role" "own_org role c (tm_organization_id t) = Ok u" for role t u
    using own_org_Ok [OF that(2) role [OF that(1)]] by simp
  show "foreign (cl_organization_id c) (snd (update_team flt st c i name b mb ac)) =
      foreign (cl_organization_id c) ac"
    unfolding update_team_def
    by (intro guard_snd) (simp add: teams_write_foreign(2) [OF assms(1)] oid)
  show "foreign (cl_organization_id c) (snd (delete_team flt st c i ac)) = foreign (cl_organization_id c) ac"
    unfolding delete_team_def
    by (intro guard_snd) (simp add: teams_write_foreign(1) [OF assms(1)] oid)
qed

lemma reset_password_foreign:
  assumes "accounts_ok ac" "role_from_str (cl_role c) \<noteq> Some SuperAdmin"
  shows "foreign (cl_organization_id c) (snd (admin_reset_password lib cfg flt ci st c uid pw ac)) =
    foreign (cl_organization_id c) ac"
proof (cases "require_role c [SuperAdmin, OrgAdmin]")
  case req: (Inr role)
  then have role: "role \<noteq> SuperAdmin" using assms(2) by (auto dest: require_role_Ok)
  show ?thesis
  proof (cases "users_get_by_id flt uid ac")
    case get: (Inr target)
    show ?thesis
    proof (cases "acting_on role c target")
      case act: (Inr u)
      let ?oid = "cl_organization_id c" and ?i = "usr_id target"
      let ?m = "do_password_change lib (ag_password_policy cfg) ci ?i pw ac"
      have own: "own_user ?oid ?i ac" using users_get_own [OF assms(1) get acting_on_Ok [OF act role]] by simp
      have k: "kept ?oid ?i ac (snd ?m)" by (rule do_password_change_kept [OF own])
      have k2: "kept ?oid ?i ac (snd (users_set_must_change st ?i True ac1))" if "kept ?oid ?i ac ac1" for ac1
        unfolding users_set_must_change_def
        by (rule kept_trans [OF that password_upd_kept [OF kept_own [OF that]]]) simp
      have "foreign ?oid (snd (case ?m of
          (Inl e, ac) \<Rightarrow> (Err e, ac)
        | (Inr _, ac) \<Rightarrow>
            (case users_set_must_change st ?i True ac of
               (Inl e, ac) \<Rightarrow> (Err (AE_Core e), ac)
             | (Inr _, ac) \<Rightarrow> (Ok (json_obj [(''reset'', JBool True)]), ac)))) = foreign ?oid ac"
        using k k2 by (intro stmt_case [where P = "\<lambda>a. foreign ?oid a = foreign ?oid ac"])
          (metis kept_def snd_conv)+
      then show ?thesis
        using req get act by (simp add: admin_reset_password_def acting_on_def)
    qed (use req get in \<open>simp add: admin_reset_password_def acting_on_def\<close>)
  qed (use req in \<open>simp add: admin_reset_password_def\<close>)
qed (simp add: admin_reset_password_def)

lemma rows_foreign:
  "foreign oid (snd (add_member_row st t u role ac)) = foreign oid ac"
  "foreign oid (snd (remove_member_row st t u ac)) = foreign oid ac"
  "foreign oid (snd (end_users_create st i now o' u b mb ac)) = foreign oid ac"
  "foreign oid (snd (end_users_update_budgets st now o' u b mb ac)) = foreign oid ac"
  "foreign oid (snd (end_users_delete st o' u ac)) = foreign oid ac"
  unfolding add_member_row_def remove_member_row_def end_users_create_def end_users_update_budgets_def
    end_users_delete_def Let_def
  by (rule returning_foreign exec_foreign, simp add: foreign_def)+

lemma row_handlers_foreign:
  "foreign oid (snd (add_member f1 f2 st c t u role ac)) = foreign oid ac"
  "foreign oid (snd (remove_member f1 f2 st c t u ac)) = foreign oid ac"
  "foreign oid (snd (create_end_user st i now c u req b mb ac)) = foreign oid ac"
  "foreign oid (snd (update_end_user flt st now c u b mb ac)) = foreign oid ac"
  "foreign oid (snd (delete_end_user flt st c u ac)) = foreign oid ac"
  unfolding add_member_def remove_member_def create_end_user_def update_end_user_def delete_end_user_def
  by (intro guard_snd, simp add: rows_foreign)+

lemma organization_handlers_denied:
  assumes "role_from_str (cl_role c) \<noteq> Some SuperAdmin"
  shows "snd (create_organization st i now c name rpm tpm ac) = ac"
    and "snd (update_organization flt st c i name' rpm tpm ac) = ac"
    and "snd (delete_organization st c i ac) = ac"
proof -
  obtain e where "require_super_admin c = Inl e"
    using assms by (cases "require_super_admin c") (auto dest: require_super_admin_Ok)
  then show "snd (create_organization st i now c name rpm tpm ac) = ac"
    "snd (update_organization flt st c i name' rpm tpm ac) = ac" "snd (delete_organization st c i ac) = ac"
    by (simp_all add: create_organization_def update_organization_def delete_organization_def guard_def)
qed

lemma admin_step_foreign:
  assumes "accounts_ok ac" "role_from_str (cl_role c) \<noteq> Some SuperAdmin"
  shows "foreign (cl_organization_id c) (admin_step c ac x) = foreign (cl_organization_id c) ac"
  using assms
  by (cases x) (simp_all add: organization_handlers_denied create_user_foreign update_user_foreign
      delete_user_foreign create_team_foreign team_write_foreign row_handlers_foreign reset_password_foreign)

subsection \<open>Every statement keeps the constraints\<close>

named_theorems stmt_ok

declare exec_stmt_ok [stmt_ok] returning_ok [stmt_ok]

lemma guard_ok [stmt_ok]:
  "\<lbrakk>accounts_ok ac; \<And>x. r = Inr x \<Longrightarrow> accounts_ok (snd (f x))\<rbrakk> \<Longrightarrow> accounts_ok (snd (guard r ac f))"
  by (cases r) (simp_all add: guard_def)

lemma stmts_ok [stmt_ok]:
  assumes "accounts_ok ac"
  shows "accounts_ok (snd (orgs_create_with_limits st i now name rpm tpm ac))"
    and "accounts_ok (snd (orgs_update_with_limits flt st i name' rpm tpm ac))"
    and "accounts_ok (snd (orgs_delete st i ac))"
    and "accounts_ok (snd (users_create st i now email name' role oid ac))"
    and "accounts_ok (snd (users_set st i upd ac))"
    and "accounts_ok (snd (users_update flt st i name' role' oid ac))"
    and "accounts_ok (snd (users_delete st i ac))"
    and "accounts_ok (snd (remove_all_for_user st i ac))"
    and "accounts_ok (snd (teams_create st i now o' name b mb ac))"
    and "accounts_ok (snd (teams_update_with_budget st i name b mb ac))"
    and "accounts_ok (snd (teams_delete st i ac))"
    and "accounts_ok (snd (add_member_row st t u role'' ac))"
    and "accounts_ok (snd (remove_member_row st t u ac))"
    and "accounts_ok (snd (end_users_create st i now o' u b mb ac))"
    and "accounts_ok (snd (end_users_update_budgets st now o' u b mb ac))"
    and "accounts_ok (snd (end_users_delete st o' u ac))"
    and "accounts_ok (snd (history_push st i now u name ac))"
    and "accounts_ok (snd (history_purge_older_than st u n ac))"
    and "accounts_ok (snd (refresh_delete_all_for_user st u ac))"
  using assms
  by (auto simp: orgs_create_with_limits_def orgs_update_with_limits_def orgs_delete_def users_create_def
      users_set_def users_update_def users_delete_def remove_all_for_user_def teams_create_def
      teams_update_with_budget_def teams_set_def teams_delete_def add_member_row_def remove_member_row_def
      end_users_create_def end_users_update_budgets_def end_users_delete_def history_push_def
      history_purge_older_than_def refresh_delete_all_snd refresh_drop_def Let_def
      split: sum.splits intro!: exec_stmt_ok returning_ok)

lemma password_steps_ok [stmt_ok]:
  assumes "accounts_ok ac"
  shows "accounts_ok (snd (users_update_password st now i h e ac))"
    and "accounts_ok (snd (users_set_must_change st i b ac))"
  using assms by (simp_all add: users_update_password_def users_set_must_change_def stmt_ok)

lemma do_password_change_ok [stmt_ok]:
  assumes "accounts_ok ac"
  shows "accounts_ok (snd (do_password_change lib policy ci i pw ac))"
proof (cases "history_get_last_n (ci_history ci) i (unat (pw_max_reuse policy)) ac")
  case (Inr history)
  show ?thesis
  proof (cases "validate_password (ci_unicode ci) (ci_common ci) (ab_verify_password lib) policy pw history")
    case ok: (Inr u)
    have step: "accounts_ok a2" if "accounts_ok (snd m)" "m = (r, a2)" for m :: "'r \<times> accounts" and r a2
      using that by simp
    show ?thesis unfolding do_password_change_def Inr ok Let_def sum.case
      by (intro stmt_case [where P = accounts_ok])
        (auto dest!: step [rotated] intro: stmts_ok password_steps_ok assms)
  qed (use assms in \<open>simp add: do_password_change_def Inr\<close>)
qed (use assms in \<open>simp add: do_password_change_def\<close>)

lemma store_user_ok:
  assumes "accounts_ok ac"
  shows "accounts_ok (snd (store_user flt s1 s2 i name role oid target ac))"
proof -
  have step: "accounts_ok a2" if "accounts_ok (snd m)" "m = (r, a2)" for m :: "'r \<times> accounts" and r a2
    using that by simp
  show ?thesis unfolding store_user_def Let_def
    by (intro stmt_case [where P = accounts_ok])
      (auto dest!: step [rotated] intro: stmts_ok stmts_ok(8) [THEN step] assms split: prod.splits sum.splits)
qed

lemma admin_reset_password_ok:
  assumes "accounts_ok ac"
  shows "accounts_ok (snd (admin_reset_password lib cfg flt ci st c uid pw ac))"
proof -
  have step: "accounts_ok a2" if "accounts_ok (snd m)" "m = (r, a2)" for m :: "'r \<times> accounts" and r a2
    using that by simp
  have "accounts_ok (snd (case do_password_change lib policy ci i pw ac of
      (Inl e, ac) \<Rightarrow> (Err e, ac)
    | (Inr _, ac) \<Rightarrow>
        (case users_set_must_change st i True ac of
           (Inl e, ac) \<Rightarrow> (Err (AE_Core e), ac)
         | (Inr _, ac) \<Rightarrow> (Ok (json_obj [(''reset'', JBool True)]), ac))))" for policy i
    by (intro stmt_case [where P = accounts_ok])
      (auto dest!: step [rotated] intro: do_password_change_ok password_steps_ok assms)
  then show ?thesis using assms
    by (simp add: admin_reset_password_def split: sum.split)
qed

lemma admin_step_ok: "accounts_ok ac \<Longrightarrow> accounts_ok (admin_step c ac x)"
  by (cases x)
    (auto simp: create_organization_def update_organization_def delete_organization_def create_user_def
      update_user_def delete_user_def create_team_def update_team_def delete_team_def add_member_def
      remove_member_def create_end_user_def update_end_user_def delete_end_user_def
      intro!: guard_ok stmts_ok store_user_ok admin_reset_password_ok)


section \<open>Keys\<close>

lemma filter_key_unique:
  "\<lbrakk>distinct (map key xs); x \<in> set xs\<rbrakk> \<Longrightarrow> filter (\<lambda>r. key r = key x) xs = [x]"
  by (induction xs) (auto simp: filter_empty_conv image_iff)

lemma keys_row_unique:
  assumes "accounts_ok ac" "k \<in> set (ac_api_keys ac)"
  shows "filter (\<lambda>r. ak_id r = ak_id k) (ac_api_keys ac) = [k]"
  using assms by (intro filter_key_unique) (simp_all add: accounts_ok_def api_keys_ok_def)

lemma accounts_ok_map_keys:
  assumes "accounts_ok ac" "\<And>k. k \<in> set (ac_api_keys ac) \<Longrightarrow> ak_id (f k) = ak_id k \<and> ak_user_id (f k) = ak_user_id k \<and>
      ak_team_id (f k) = ak_team_id k \<and> ak_organization_id (f k) = ak_organization_id k"
    "distinct (map (ak_key_hash \<circ> f) (ac_api_keys ac))"
  shows "accounts_ok (ac\<lparr>ac_api_keys := map f (ac_api_keys ac)\<rparr>)"
proof -
  have ids: "map ak_id (map f (ac_api_keys ac)) = map ak_id (ac_api_keys ac)" using assms(2) by simp
  have "ak_id ` f ` set (ac_api_keys ac) = ak_id ` set (ac_api_keys ac)"
    using arg_cong [OF ids, of set] by (simp add: image_image)
  then have refs: "refers_opt i ak_id (map f (ac_api_keys ac)) = refers_opt i ak_id (ac_api_keys ac)" for i
    by (simp add: refers_opt_def refers_def split: option.split)
  have "api_keys_ok (ac_organizations ac) (ac_users ac) (ac_teams ac) (map f (ac_api_keys ac))"
    unfolding api_keys_ok_def ids using assms by (simp add: accounts_ok_def api_keys_ok_def list_all_iff)
  then show ?thesis using assms(1) by (simp add: accounts_ok_def refs)
qed

lemma distinct_replace_one:
  assumes "distinct (map g xs)" "distinct (map key xs)" "h \<notin> g ` set xs"
  shows "distinct (map (\<lambda>x. if key x = i then h else g x) xs)"
  using assms by (induction xs) (auto simp: image_iff)

text \<open>
  C33. Regenerating needs no permission. A caller whose role may not create API keys can
  regenerate any key of its organization: the reply carries the new plaintext, and from then
  on the row of the owner's key holds its hash, so the caller acts as the owner.
\<close>

theorem plain_user_takes_over_key:
  assumes "accounts_ok ac" "k \<in> set (ac_api_keys ac)" "ak_organization_id k = cl_organization_id c"
    and "role_from_str (cl_role c) = Some role" "\<not> can_manage_api_keys role"
    and "generate_api_key base58 hash_key bytes = Some (plaintext, hash, prefix)"
    and "hash \<notin> ak_key_hash ` set (ac_api_keys ac)"
  shows "create_api_key base58 hash_key bytes st i now c req ac = Some (Err AE_Forbidden, ac) \<and>
    (\<exists>ac'. regenerate_key base58 hash_key bytes None (None, v) now c (ak_id k) ac =
       Some (Ok (plaintext, ak_id k, now), ac') \<and>
     k\<lparr>ak_key_prefix := prefix, ak_key_hash := hash, ak_created_at := now\<rparr> \<in> set (ac_api_keys ac'))"
proof -
  let ?upd = "\<lambda>k. k\<lparr>ak_key_prefix := prefix, ak_key_hash := hash, ak_created_at := now\<rparr>"
  let ?f = "\<lambda>r. if ak_id r = ak_id k then ?upd r else r"
  let ?ac = "ac\<lparr>ac_api_keys := map ?f (ac_api_keys ac)\<rparr>"
  note row = keys_row_unique [OF assms(1,2)]
  have "distinct (map (\<lambda>r. if ak_id r = ak_id k then hash else ak_key_hash r) (ac_api_keys ac))"
    using assms(1,7) by (intro distinct_replace_one) (simp_all add: accounts_ok_def api_keys_ok_def)
  then have "distinct (map (ak_key_hash \<circ> ?f) (ac_api_keys ac))"
    by (simp add: comp_def if_distrib cong: if_cong)
  then have ok: "accounts_ok ?ac"
    using assms(1) by (intro accounts_ok_map_keys) simp_all
  have "own_key None c (ak_id k) ac = Ok k"
    using assms(3,4) row by (simp add: own_key_def own_org_def keys_get_by_id_def fetch_one_def core_err_def)
  moreover have "keys_regenerate None now (ak_id k) prefix hash (ac_api_keys ac) = (Ok (?upd k), map ?f (ac_api_keys ac))"
    by (simp add: keys_regenerate_def keys_update_def row fetch_one_def)
  ultimately have "regenerate_key base58 hash_key bytes None (None, v) now c (ak_id k) ac =
      Some (Ok (plaintext, ak_id k, now), ?ac)"
    using assms(6) ok by (simp add: regenerate_key_def keys_stmt_def Let_def)
  moreover have "?upd k \<in> set (ac_api_keys ?ac)" using assms(2) by force
  moreover have "create_api_key base58 hash_key bytes st i now c req ac = Some (Err AE_Forbidden, ac)"
    using assms(4,5) by (simp add: create_api_key_def require_manage_keys_def)
  ultimately show ?thesis by blast
qed

section \<open>Instances\<close>

definition member_of :: "uuid \<Rightarrow> uuid \<Rightarrow> string \<Rightarrow> string \<Rightarrow> user" where
  "member_of i oid email role = sample_user\<lparr>usr_id := i, usr_organization_id := Some oid, usr_email := email, usr_role := role\<rparr>"

definition claims_of :: "uuid \<Rightarrow> uuid \<Rightarrow> string \<Rightarrow> claims" where
  "claims_of i oid role = \<lparr>cl_sub = ''s'', cl_user_id = i, cl_organization_id = oid, cl_role = role, cl_exp = 0, cl_iat = 0\<rparr>"

definition two_orgs :: accounts where
  "two_orgs = sample_accounts\<lparr>ac_organizations := [\<lparr>og_id = 1, og_name = ''a'', og_rpm = None, og_tpm = None, og_created_at = 0\<rparr>,
       \<lparr>og_id = 2, og_name = ''b'', og_rpm = None, og_tpm = None, og_created_at = 0\<rparr>],
     ac_users := [member_of 1 1 ''root'' ''org_admin'', member_of 2 2 ''bob'' ''user'', member_of 3 1 ''eve'' ''user''],
     ac_api_keys := [\<lparr>ak_id = 7, ak_user_id = 1, ak_team_id = None, ak_organization_id = 1, ak_name = ''k'',
       ak_key_prefix = ''p'', ak_key_hash = ''h'', ak_scopes = [], ak_allowed_models = [], ak_budget_limit_usd = None,
       ak_budget_spent_usd = 0, ak_rpm = None, ak_tpm = None, ak_expires_at = None, ak_disabled = False,
       ak_created_at = 0\<rparr>]\<rparr>"

lemmas two_orgs_defs = two_orgs_def member_of_def claims_of_def sample_accounts_def sample_user_def

lemma two_orgs_ok: "accounts_ok two_orgs"
  by (simp add: account_checks two_orgs_defs)

definition sample_admin_run :: "(claims \<times> admin_op) list" where
  "sample_admin_run =
     [(claims_of 1 1 ''org_admin'', AO_CreateUser (None, []) 4 9 ''new'' None ''user''),
      (claims_of 1 1 ''org_admin'', AO_DeleteUser None (None, []) 2),
      (claims_of 1 1 ''org_admin'', AO_DeleteUser None (None, []) 3)]"

lemma foreign_member: "u \<in> set (fst (snd (foreign oid ac))) \<Longrightarrow> u \<in> set (ac_users ac)"
  by (simp add: foreign_def)


theorem plain_user_takes_over_key_witness:
  "\<exists>ac'. regenerate_key (\<lambda>_. ''abcdefghijklmnop'') (\<lambda>_. ''new'') [] None (None, []) 5 (claims_of 3 1 ''user'') 7 two_orgs =
     Some (Ok (''sk-godwit-abcdefghijklmnop'', 7, 5), ac')"
proof -
  let ?k = "hd (ac_api_keys two_orgs)"
  have gen: "generate_api_key (\<lambda>_. ''abcdefghijklmnop'') (\<lambda>_. ''new'') [] =
      Some (''sk-godwit-abcdefghijklmnop'', ''new'', ''abcdefghijklmnop'')"
    by (simp add: generate_api_key_def key_prefix_const_def extract_prefix_def str_slice_def)
  have k: "ak_id ?k = 7" by (simp add: two_orgs_def)
  have "?k \<in> set (ac_api_keys two_orgs)" "ak_organization_id ?k = cl_organization_id (claims_of 3 1 ''user'')"
    "role_from_str (cl_role (claims_of 3 1 ''user'')) = Some PlainUser" "\<not> can_manage_api_keys PlainUser"
    "''new'' \<notin> ak_key_hash ` set (ac_api_keys two_orgs)"
    by (simp_all add: two_orgs_defs role_from_str_def can_manage_api_keys_def)
  from plain_user_takes_over_key [OF two_orgs_ok this(1-4) gen this(5), where now = 5 and v = "[]"]
  show ?thesis unfolding k by blast
qed

end
