(* ===== verification/Modalities.thy ===== *)
theory Modalities
  imports Resilience Rate_Limit Usage_Cost Accounts
begin

text \<open>
  The non-chat endpoints of \<open>crates/godwit-api/src/proxy.rs\<close>: embeddings, image generation and
  edits, speech and transcription. A request resolves its model, passes the rate limit and the
  budgets, calls the adapter with retries, walks the fallback chain when that fails, and
  queues one row of the request log. The adapter is the trait \<open>Adapter\<close> of
  \<open>crates/godwit-providers/src/adapter.rs\<close>, a parameter that acts on an explicit outside state.
  The events of a
  provider's stream are the list of them. A handler that panics (decimal overflow of a cost) has the result \<open>None\<close>.
\<close>

section \<open>Adapters\<close>

type_synonym ('q, 's) adapter_call =
  "resolved_profile \<Rightarrow> model \<Rightarrow> 'q \<Rightarrow> 's \<Rightarrow> (provider_error, provider_response \<times> usage_report) result \<times> 's"

record 's adapter =
  ad_chat :: "(chat_completion_request, 's) adapter_call"
  ad_chat_stream :: "resolved_profile \<Rightarrow> model \<Rightarrow> chat_completion_request \<Rightarrow> 's \<Rightarrow>
     (provider_error, (provider_error, string) result list) result \<times> 's"
  ad_image_generation :: "(image_generation_request, 's) adapter_call"
  ad_image_edit :: "(image_edit_request \<times> string \<times> string \<times> string option, 's) adapter_call"
  ad_audio_tts :: "(audio_tts_request, 's) adapter_call"
  ad_audio_stt :: "(audio_stt_request \<times> string \<times> string \<times> string, 's) adapter_call"
  ad_embedding :: "(embedding_request, 's) adapter_call"

fun map_provider_error :: "provider_error \<Rightarrow> api_error" where
  "map_provider_error (PErr_CapabilityNotSupported msg) = AE_BadRequest msg"
| "map_provider_error other = AE_Core (PE_Provider (provider_error_display other))"

abbreviation unexpected_variant :: provider_error where
  "unexpected_variant \<equiv> PErr_Provider ''unexpected provider response variant''"

text \<open>\<open>with_retry\<close> around one adapter method, then the \<open>let ... else\<close> on the response variant.\<close>

definition retried ::
  "('s \<Rightarrow> (provider_error, provider_response \<times> usage_report) result \<times> 's) \<Rightarrow>
   (provider_response \<Rightarrow> 'b option) \<Rightarrow> 's \<Rightarrow> (provider_error, 'b \<times> usage_report) result \<times> 's" where
  "retried f variant s =
     (case with_retry retry_policy_default f s of (r, _, s') \<Rightarrow>
        (bind_result r (\<lambda>(resp, usage).
           bind_result (ok_or unexpected_variant (variant resp)) (\<lambda>body. Ok (body, usage))), s'))"

fun embedding_variant :: "provider_response \<Rightarrow> embedding_response option" where
  "embedding_variant (PR_Embedding body) = Some body"
| "embedding_variant _ = None"

fun image_variant :: "provider_response \<Rightarrow> image_generation_response option" where
  "image_variant (PR_Image body) = Some body"
| "image_variant _ = None"

fun bytes_variant :: "provider_response \<Rightarrow> (string \<times> string) option" where
  "bytes_variant (PR_Bytes bytes content_type) = Some (bytes, content_type)"
| "bytes_variant _ = None"

fun stt_variant :: "provider_response \<Rightarrow> string option" where
  "stt_variant (PR_AudioStt body) = Some body"
| "stt_variant _ = None"

type_synonym ('s, 'b) model_call =
  "'s adapter resolved_model \<Rightarrow> 's \<Rightarrow> (provider_error, 'b \<times> usage_report) result \<times> 's"

definition call_embedding :: "embedding_request \<Rightarrow> ('s, embedding_response) model_call" where
  "call_embedding req rm =
     retried (ad_embedding (rm_adapter rm) (rm_credentials rm) (rm_model rm) req) embedding_variant"

definition call_image_generation :: "image_generation_request \<Rightarrow> ('s, image_generation_response) model_call" where
  "call_image_generation req rm =
     retried (ad_image_generation (rm_adapter rm) (rm_credentials rm) (rm_model rm) req) image_variant"

definition call_audio_speech :: "audio_tts_request \<Rightarrow> ('s, string \<times> string) model_call" where
  "call_audio_speech req rm =
     retried (ad_audio_tts (rm_adapter rm) (rm_credentials rm) (rm_model rm) req) bytes_variant"

definition call_audio_transcription ::
  "audio_stt_request \<Rightarrow> string \<Rightarrow> string \<Rightarrow> string \<Rightarrow> ('s, string) model_call" where
  "call_audio_transcription req file_bytes filename content_type rm =
     retried (ad_audio_stt (rm_adapter rm) (rm_credentials rm) (rm_model rm)
       (req, file_bytes, filename, content_type)) stt_variant"

definition call_image_edit ::
  "image_edit_request \<Rightarrow> string \<Rightarrow> string \<Rightarrow> string option \<Rightarrow> ('s, image_generation_response) model_call" where
  "call_image_edit req image_bytes image_filename mask_bytes rm =
     retried (ad_image_edit (rm_adapter rm) (rm_credentials rm) (rm_model rm)
       (req, image_bytes, image_filename, mask_bytes)) image_variant"

section \<open>The gateway around a call\<close>

record request_log_entry =
  le_api_key_id :: uuid
  le_user_id :: uuid
  le_organization_id :: uuid
  le_team_id :: "uuid option"
  le_model :: string
  le_provider :: string
  le_provider_model_id :: string
  le_capability :: string
  le_duration_ms :: i32
  le_streamed :: bool
  le_status :: string
  le_cost_usd :: "decimal option"
  le_tags :: "string list"
  le_attempt_number :: u32
  le_fallback_triggered :: bool
  le_tool_calls_count :: "nat option"
  le_agentic_iteration :: "nat option"

text \<open>
  What a handler reads: the router, the catalog and the account tables, and the decimal
  library. What it changes: the load balancer, the rate limiter, the rows handed to
  \<open>spawn_request_log\<close> (inserted by a task of their own, whose errors are ignored), and the
  outside.
\<close>

record 's gateway_env =
  ge_router :: "'s adapter router"
  ge_catalog :: catalog
  ge_accounts :: accounts
  ge_decimal :: decimal_lib
  ge_print :: "json \<Rightarrow> string"

record 's gateway =
  gw_balancer :: load_balancer
  gw_limiter :: rate_limiter
  gw_spawned :: "request_log_entry list"
  gw_world :: 's

text \<open>The faults of the queries and the readings of the clock, per model tried (0 is the primary
  one); each pass of the limiter reads the clock twice for each of its four buckets.\<close>

record attempt_inputs =
  at_first :: fault
  at_second :: fault
  at_org :: fault
  at_check :: "nat \<Rightarrow> instant \<times> instant"
  at_commit :: "nat \<Rightarrow> instant \<times> instant"

record request_inputs =
  in_attempt :: "nat \<Rightarrow> attempt_inputs"
  in_user_budget :: "fault \<times> fault"
  in_team_budget :: "fault \<times> fault"
  in_elapsed_log :: nat
  in_elapsed_latency :: nat

definition spawn_request_log :: "request_log_entry \<Rightarrow> ('s, 'm) gateway_scheme \<Rightarrow> ('s, 'm) gateway_scheme" where
  "spawn_request_log entry gw = gw\<lparr>gw_spawned := gw_spawned gw @ [entry]\<rparr>"

definition proxy_resolve ::
  "'s gateway_env \<Rightarrow> attempt_inputs \<Rightarrow> string \<Rightarrow> capability \<Rightarrow> ('s, 'm) gateway_scheme \<Rightarrow>
     (pasteur_error, 's adapter resolved_model) result \<times> ('s, 'm) gateway_scheme" where
  "proxy_resolve env ai model_ref cap gw =
     (case resolve (ge_router env) (at_first ai) (at_second ai) model_ref cap (ge_catalog env) (gw_balancer gw) of
        (r, lb) \<Rightarrow> (r, gw\<lparr>gw_balancer := lb\<rparr>))"

text \<open>Dropping a resolved model drops its in-flight guard.\<close>

definition release :: "'s adapter resolved_model \<Rightarrow> ('s, 'm) gateway_scheme \<Rightarrow> ('s, 'm) gateway_scheme" where
  "release rm gw =
     (case rm_in_flight rm of None \<Rightarrow> gw | Some g \<Rightarrow> gw\<lparr>gw_balancer := drop_guard g (gw_balancer gw)\<rparr>)"

definition check_rate_limit ::
  "'s gateway_env \<Rightarrow> attempt_inputs \<Rightarrow> api_key \<Rightarrow> model \<Rightarrow> u32 \<Rightarrow> ('s, 'm) gateway_scheme \<Rightarrow> (api_error, unit) result \<times> ('s, 'm) gateway_scheme" where
  "check_rate_limit env ai key m estimated_tokens gw =
     (case orgs_get_by_id (at_org ai) (ak_organization_id key) (ge_accounts env) of
        Inl e \<Rightarrow> (Err (AE_Core e), gw)
      | Inr org \<Rightarrow>
          (case check_and_consume (map (at_check ai) [0..<4]) (map (at_commit ai) [0..<4]) (ak_id key) (ak_organization_id key)
                  (m_public_id m) (ak_rpm key) (ak_tpm key) (og_rpm org) (og_tpm org) estimated_tokens
                  (gw_limiter gw) of
             (Inl (_, retry_after), rl) \<Rightarrow> (Err (AE_RateLimited retry_after), gw\<lparr>gw_limiter := rl\<rparr>)
           | (Inr _, rl) \<Rightarrow> (Ok (), gw\<lparr>gw_limiter := rl\<rparr>)))"

definition check_user_budget :: "'s gateway_env \<Rightarrow> fault \<times> fault \<Rightarrow> api_key \<Rightarrow> (api_error, unit) result" where
  "check_user_budget env flts key =
     check_end_user_budget (fst flts) (snd flts) (ak_user_id key) (ak_organization_id key)
       (ac_end_users (ge_accounts env)) (ac_request_logs (ge_accounts env))"

definition check_key_team_budget :: "'s gateway_env \<Rightarrow> fault \<times> fault \<Rightarrow> api_key \<Rightarrow> (api_error, unit) result" where
  "check_key_team_budget env flts key =
     (case ak_team_id key of
        Some team_id \<Rightarrow> check_team_budget (fst flts) (snd flts) team_id
          (ac_teams (ge_accounts env)) (ac_request_logs (ge_accounts env))
      | None \<Rightarrow> Ok ())"

section \<open>One request\<close>

text \<open>The loop over the fallback chain, from the \<open>i\<close>-th attempt on.\<close>

fun try_fallbacks ::
  "'s gateway_env \<Rightarrow> request_inputs \<Rightarrow> api_key \<Rightarrow> capability \<Rightarrow> ('s, 'b) model_call \<Rightarrow> nat \<Rightarrow> string list \<Rightarrow>
   api_error option \<Rightarrow> provider_error option \<Rightarrow> ('s, 'm) gateway_scheme \<Rightarrow>
     ('b \<times> usage_report \<times> model) option \<times> api_error option \<times> provider_error option \<times> ('s, 'm) gateway_scheme" where
  "try_fallbacks env inp key cap call i [] rl_err last_err gw = (None, rl_err, last_err, gw)"
| "try_fallbacks env inp key cap call i (fallback_id # rest) rl_err last_err gw =
     (case proxy_resolve env (in_attempt inp i) fallback_id cap gw of
        (Inl _, gw) \<Rightarrow> try_fallbacks env inp key cap call (Suc i) rest rl_err last_err gw
      | (Inr resolved, gw) \<Rightarrow>
          (case check_rate_limit env (in_attempt inp i) key (rm_model resolved) 1 gw of
             (Inl e, gw) \<Rightarrow>
               try_fallbacks env inp key cap call (Suc i) rest (Some e) last_err (release resolved gw)
           | (Inr _, gw) \<Rightarrow>
               (case call resolved (gw_world gw) of
                  (Inr (resp, usage), w) \<Rightarrow>
                    (Some (resp, usage, rm_model resolved), rl_err, last_err, release resolved (gw\<lparr>gw_world := w\<rparr>))
                | (Inl err, w) \<Rightarrow>
                    try_fallbacks env inp key cap call (Suc i) rest rl_err (Some err)
                      (release resolved (gw\<lparr>gw_world := w\<rparr>)))))"

text \<open>Cost, log row and latency of a request that was answered.\<close>

definition log_entry :: "request_inputs \<Rightarrow> api_key \<Rightarrow> capability \<Rightarrow> model \<Rightarrow> decimal option \<Rightarrow> request_log_entry" where
  "log_entry inp key cap m cost =
     \<lparr>le_api_key_id = ak_id key, le_user_id = ak_user_id key, le_organization_id = ak_organization_id key,
      le_team_id = ak_team_id key, le_model = m_public_id m, le_provider = m_provider m,
      le_provider_model_id = m_provider_model_id m, le_capability = capability_as_str cap,
      le_duration_ms = of_nat (in_elapsed_log inp), le_streamed = False, le_status = ''success'',
      le_cost_usd = cost, le_tags = [], le_attempt_number = 1, le_fallback_triggered = False,
      le_tool_calls_count = None, le_agentic_iteration = None\<rparr>"

definition answer ::
  "'s gateway_env \<Rightarrow> request_inputs \<Rightarrow> api_key \<Rightarrow> capability \<Rightarrow> ('b \<Rightarrow> 'h) \<Rightarrow> 'b \<times> usage_report \<times> model \<Rightarrow>
   ('s, 'm) gateway_scheme \<Rightarrow> (api_error, 'h) result option \<times> ('s, 'm) gateway_scheme" where
  "answer env inp key cap respond res gw =
     (case res of (body, usage, used_model) \<Rightarrow>
        (case compute_cost (ge_decimal env) (ge_print env) (m_pricing used_model) cap usage of
           None \<Rightarrow> (None, gw)
         | Some cost_usd \<Rightarrow>
             (let gw = spawn_request_log (log_entry inp key cap used_model cost_usd) gw;
                  gw = (if m_id used_model \<noteq> 0
                        then gw\<lparr>gw_balancer := router_record_latency (m_id used_model)
                          (of_nat (in_elapsed_latency inp)) (gw_balancer gw)\<rparr> else gw)
              in (Some (Ok (respond body)), gw))))"

text \<open>The part after the checks: the primary model holds its in-flight guard until it fails or the reply is built.\<close>

definition call_models ::
  "'s gateway_env \<Rightarrow> request_inputs \<Rightarrow> api_key \<Rightarrow> capability \<Rightarrow> ('s, 'b) model_call \<Rightarrow> ('b \<Rightarrow> 'h) \<Rightarrow> string \<Rightarrow>
   's adapter resolved_model \<Rightarrow> ('s, 'm) gateway_scheme \<Rightarrow> (api_error, 'h) result option \<times> ('s, 'm) gateway_scheme" where
  "call_models env inp key cap call respond failed primary gw =
     (case call primary (gw_world gw) of
        (Inr (resp, usage), w) \<Rightarrow>
          (case answer env inp key cap respond (resp, usage, rm_model primary) (gw\<lparr>gw_world := w\<rparr>) of
             (r, gw) \<Rightarrow> (r, release primary gw))
      | (Inl e, w) \<Rightarrow>
          (case try_fallbacks env inp key cap call 1 (fallback_chain (rm_model primary)) None (Some e)
                  (release primary (gw\<lparr>gw_world := w\<rparr>)) of
             (Some res, _, _, gw) \<Rightarrow> answer env inp key cap respond res gw
           | (None, Some rl_err, _, gw) \<Rightarrow> (Some (Err rl_err), gw)
           | (None, None, last_err, gw) \<Rightarrow>
               (Some (Err (map_provider_error (unwrap_or (PErr_Provider failed) last_err))), gw)))"

definition admit ::
  "'s gateway_env \<Rightarrow> request_inputs \<Rightarrow> api_key \<Rightarrow> model \<Rightarrow> u32 \<Rightarrow> ('s, 'm) gateway_scheme \<Rightarrow> (api_error, unit) result \<times> ('s, 'm) gateway_scheme" where
  "admit env inp key m estimated_tokens gw =
     (case check_rate_limit env (in_attempt inp 0) key m estimated_tokens gw of
        (Inl e, gw) \<Rightarrow> (Err e, gw)
      | (Inr _, gw) \<Rightarrow>
          (bind_result (check_user_budget env (in_user_budget inp) key) (\<lambda>_.
             check_key_team_budget env (in_team_budget inp) key), gw))"

definition serve_modality ::
  "'s gateway_env \<Rightarrow> request_inputs \<Rightarrow> api_key \<Rightarrow> capability \<Rightarrow> ('s, 'b) model_call \<Rightarrow> ('b \<Rightarrow> 'h) \<Rightarrow> string \<Rightarrow>
   string \<Rightarrow> ('s, 'm) gateway_scheme \<Rightarrow> (api_error, 'h) result option \<times> ('s, 'm) gateway_scheme" where
  "serve_modality env inp key cap call respond failed model_ref gw =
     (case proxy_resolve env (in_attempt inp 0) model_ref cap gw of
        (Inl e, gw) \<Rightarrow> (Some (Err (api_error_from e)), gw)
      | (Inr primary, gw) \<Rightarrow>
          (case admit env inp key (rm_model primary) 1 gw of
             (Inl e, gw) \<Rightarrow> (Some (Err e), release primary gw)
           | (Inr _, gw) \<Rightarrow> call_models env inp key cap call respond failed primary gw))"

section \<open>The endpoints\<close>

datatype http_reply =
    JsonEmbedding embedding_response
  | JsonImage image_generation_response
  | JsonTranscript string
  | AudioBytes string string

definition embeddings ::
  "'s gateway_env \<Rightarrow> request_inputs \<Rightarrow> api_key \<Rightarrow> embedding_request \<Rightarrow> ('s, 'm) gateway_scheme \<Rightarrow>
     (api_error, http_reply) result option \<times> ('s, 'm) gateway_scheme" where
  "embeddings env inp key req =
     serve_modality env inp key Embedding (call_embedding req) JsonEmbedding
       ''embedding failed on all providers'' (er_model req)"

definition image_generations ::
  "'s gateway_env \<Rightarrow> request_inputs \<Rightarrow> api_key \<Rightarrow> image_generation_request \<Rightarrow> ('s, 'm) gateway_scheme \<Rightarrow>
     (api_error, http_reply) result option \<times> ('s, 'm) gateway_scheme" where
  "image_generations env inp key req =
     serve_modality env inp key ImageGeneration (call_image_generation req) JsonImage
       ''image generation failed on all providers'' (igr_model req)"

definition audio_speech ::
  "'s gateway_env \<Rightarrow> request_inputs \<Rightarrow> api_key \<Rightarrow> audio_tts_request \<Rightarrow> ('s, 'm) gateway_scheme \<Rightarrow>
     (api_error, http_reply) result option \<times> ('s, 'm) gateway_scheme" where
  "audio_speech env inp key req =
     serve_modality env inp key AudioTts (call_audio_speech req) (\<lambda>(bytes, ct). AudioBytes bytes ct)
       ''audio speech failed on all providers'' (atr_model req)"

text \<open>
  A field of a multipart body, or the error of reading it. The bytes and the text of a field
  (decoded with its charset) may fail to arrive.
\<close>

record field =
  mf_name :: "string option"
  mf_file_name :: "string option"
  mf_content_type :: "string option"
  mf_bytes :: "(string, string) result"
  mf_string :: "(string, string) result"

definition field_text :: "field \<Rightarrow> string" where
  "field_text fd = (case mf_string fd of Inl _ \<Rightarrow> [] | Inr s \<Rightarrow> s)"

record stt_form =
  sf_model :: "string option"
  sf_language :: "string option"
  sf_response_format :: "string option"
  sf_bytes :: "string option"
  sf_filename :: string
  sf_content_type :: string

definition stt_form_new :: stt_form where
  "stt_form_new = \<lparr>sf_model = None, sf_language = None, sf_response_format = None, sf_bytes = None,
     sf_filename = ''audio'', sf_content_type = ''application/octet-stream''\<rparr>"

definition stt_field :: "field \<Rightarrow> stt_form \<Rightarrow> (api_error, stt_form) result" where
  "stt_field fd f =
     (let name = unwrap_or [] (mf_name fd)
      in if name = ''model'' then Ok (f\<lparr>sf_model := Some (field_text fd)\<rparr>)
         else if name = ''language'' then Ok (f\<lparr>sf_language := Some (field_text fd)\<rparr>)
         else if name = ''response_format'' then Ok (f\<lparr>sf_response_format := Some (field_text fd)\<rparr>)
         else if name = ''file''
         then map_err AE_BadRequest (bind_result (mf_bytes fd) (\<lambda>b.
           Ok (f\<lparr>sf_bytes := Some b, sf_filename := unwrap_or ''audio'' (mf_file_name fd),
             sf_content_type := unwrap_or ''application/octet-stream'' (mf_content_type fd)\<rparr>)))
         else Ok f)"

fun read_fields ::
  "(field \<Rightarrow> 'f \<Rightarrow> (api_error, 'f) result) \<Rightarrow> (string, field) result list \<Rightarrow> 'f \<Rightarrow> (api_error, 'f) result" where
  "read_fields step [] f = Ok f"
| "read_fields step (Inl e # fds) f = Err (AE_BadRequest e)"
| "read_fields step (Inr fd # fds) f = bind_result (step fd f) (read_fields step fds)"

definition missing :: "string \<Rightarrow> api_error" where
  "missing name = AE_BadRequest (''missing '' @ [CHR 0x27] @ name @ [CHR 0x27] @ '' field'')"

definition audio_transcriptions ::
  "'s gateway_env \<Rightarrow> request_inputs \<Rightarrow> api_key \<Rightarrow> (string, field) result list \<Rightarrow> ('s, 'm) gateway_scheme \<Rightarrow>
     (api_error, http_reply) result option \<times> ('s, 'm) gateway_scheme" where
  "audio_transcriptions env inp key fds gw =
     (case bind_result (read_fields stt_field fds stt_form_new) (\<lambda>f.
             bind_result (ok_or (missing ''model'') (sf_model f)) (\<lambda>model_name.
             bind_result (ok_or (missing ''file'') (sf_bytes f)) (\<lambda>file_bytes. Ok (f, model_name, file_bytes)))) of
        Inl e \<Rightarrow> (Some (Err e), gw)
      | Inr (f, model_name, file_bytes) \<Rightarrow>
          serve_modality env inp key AudioStt
            (call_audio_transcription \<lparr>asr_model = model_name, asr_language = sf_language f,
               asr_response_format = sf_response_format f\<rparr> file_bytes (sf_filename f) (sf_content_type f))
            JsonTranscript ''audio transcription failed on all providers'' model_name gw)"

text \<open>\<open>str::parse::<i32>\<close>: an optional sign and at least one digit, in range.\<close>

definition digits_value :: "string \<Rightarrow> int option" where
  "digits_value s =
     (if s = [] \<or> \<not> list_all is_digit s then None
      else Some (foldl (\<lambda>n c. 10 * n + int (of_char c) - 48) 0 s))"

definition parse_i32 :: "string \<Rightarrow> i32 option" where
  "parse_i32 s =
     (let v = (if starts_with ''-'' s then map_option uminus (digits_value (drop 1 s))
               else if starts_with ''+'' s then digits_value (drop 1 s) else digits_value s)
      in Option.bind v (\<lambda>i. if - (2 ^ 31) \<le> i \<and> i < 2 ^ 31 then Some (word_of_int i) else None))"

record edit_form =
  ef_model :: "string option"
  ef_prompt :: "string option"
  ef_n :: "i32 option"
  ef_size :: "string option"
  ef_response_format :: "string option"
  ef_image :: "string option"
  ef_filename :: string
  ef_mask :: "string option"

definition edit_form_new :: edit_form where
  "edit_form_new = \<lparr>ef_model = None, ef_prompt = None, ef_n = None, ef_size = None, ef_response_format = None,
     ef_image = None, ef_filename = ''image.png'', ef_mask = None\<rparr>"

definition edit_field :: "field \<Rightarrow> edit_form \<Rightarrow> (api_error, edit_form) result" where
  "edit_field fd f =
     (let name = unwrap_or [] (mf_name fd)
      in if name = ''model'' then Ok (f\<lparr>ef_model := Some (field_text fd)\<rparr>)
         else if name = ''prompt'' then Ok (f\<lparr>ef_prompt := Some (field_text fd)\<rparr>)
         else if name = ''n''
         then Ok (f\<lparr>ef_n := (case mf_string fd of Inl _ \<Rightarrow> None | Inr s \<Rightarrow> parse_i32 s)\<rparr>)
         else if name = ''size'' then Ok (f\<lparr>ef_size := Some (field_text fd)\<rparr>)
         else if name = ''response_format'' then Ok (f\<lparr>ef_response_format := Some (field_text fd)\<rparr>)
         else if name = ''image''
         then map_err AE_BadRequest (bind_result (mf_bytes fd) (\<lambda>b.
           Ok (f\<lparr>ef_image := Some b, ef_filename := unwrap_or ''image.png'' (mf_file_name fd)\<rparr>)))
         else if name = ''mask''
         then map_err AE_BadRequest (bind_result (mf_bytes fd) (\<lambda>b. Ok (f\<lparr>ef_mask := Some b\<rparr>)))
         else Ok f)"

definition image_edits ::
  "'s gateway_env \<Rightarrow> request_inputs \<Rightarrow> api_key \<Rightarrow> (string, field) result list \<Rightarrow> ('s, 'm) gateway_scheme \<Rightarrow>
     (api_error, http_reply) result option \<times> ('s, 'm) gateway_scheme" where
  "image_edits env inp key fds gw =
     (case bind_result (read_fields edit_field fds edit_form_new) (\<lambda>f.
             bind_result (ok_or (missing ''model'') (ef_model f)) (\<lambda>model_name.
             bind_result (ok_or (missing ''prompt'') (ef_prompt f)) (\<lambda>prompt.
             bind_result (ok_or (missing ''image'') (ef_image f)) (\<lambda>image_bytes.
               Ok (f, model_name, prompt, image_bytes))))) of
        Inl e \<Rightarrow> (Some (Err e), gw)
      | Inr (f, model_name, prompt, image_bytes) \<Rightarrow>
          serve_modality env inp key ImageEdit
            (call_image_edit \<lparr>ier_model = model_name, ier_prompt = prompt, ier_n = ef_n f, ier_size = ef_size f,
               ier_response_format = ef_response_format f\<rparr> image_bytes (ef_filename f) (ef_mask f))
            JsonImage ''image edit failed on all providers'' model_name gw)"

text \<open>The routes of these endpoints, with their bodies.\<close>

datatype modality_request =
    POST_embeddings embedding_request
  | POST_images_generations image_generation_request
  | POST_audio_speech audio_tts_request
  | POST_audio_transcriptions "(string, field) result list"
  | POST_images_edits "(string, field) result list"

fun modality_router ::
  "'s gateway_env \<Rightarrow> request_inputs \<Rightarrow> api_key \<Rightarrow> modality_request \<Rightarrow> ('s, 'm) gateway_scheme \<Rightarrow>
     (api_error, http_reply) result option \<times> ('s, 'm) gateway_scheme" where
  "modality_router env inp key (POST_embeddings req) = embeddings env inp key req"
| "modality_router env inp key (POST_images_generations req) = image_generations env inp key req"
| "modality_router env inp key (POST_audio_speech req) = audio_speech env inp key req"
| "modality_router env inp key (POST_audio_transcriptions fds) = audio_transcriptions env inp key fds"
| "modality_router env inp key (POST_images_edits fds) = image_edits env inp key fds"

section \<open>What one request changes\<close>

definition flights :: "('s, 'm) gateway_scheme \<Rightarrow> uuid \<Rightarrow> 64 word" where
  "flights gw k = lb_in_flight (lb_view (gw_balancer gw) k)"

definition held :: "'s adapter resolved_model \<Rightarrow> uuid \<Rightarrow> 64 word" where
  "held rm k = (if rm_in_flight rm = Some k then 1 else 0)"

lemma flights_upd [simp]:
  "flights (gw\<lparr>gw_limiter := rl\<rparr>) k = flights gw k"
  "flights (gw\<lparr>gw_world := w\<rparr>) k = flights gw k"
  "flights (gw\<lparr>gw_spawned := ls\<rparr>) k = flights gw k"
  by (simp_all add: flights_def)

lemma release_frame [simp]:
  "flights (release rm gw) k = flights gw k - held rm k"
  "gw_world (release rm gw) = gw_world gw" "gw_spawned (release rm gw) = gw_spawned gw"
  "gw_limiter (release rm gw) = gw_limiter gw"
  by (auto simp: release_def flights_def held_def drop_guard_view split: option.split)

lemma proxy_resolve_frame:
  assumes "proxy_resolve env ai model_ref cap gw = (r, gw')"
  shows "flights gw' k = flights gw k + (case r of Inl _ \<Rightarrow> 0 | Inr rm \<Rightarrow> held rm k)"
    and "gw_world gw' = gw_world gw" "gw_spawned gw' = gw_spawned gw" "gw_limiter gw' = gw_limiter gw"
proof -
  obtain lb where *: "resolve (ge_router env) (at_first ai) (at_second ai) model_ref cap (ge_catalog env)
      (gw_balancer gw) = (r, lb)" "gw' = gw\<lparr>gw_balancer := lb\<rparr>"
    using assms by (auto simp: proxy_resolve_def split: prod.splits)
  then show "gw_world gw' = gw_world gw" "gw_spawned gw' = gw_spawned gw" "gw_limiter gw' = gw_limiter gw" by simp_all
  have "lb_in_flight (lb_view lb k) = lb_in_flight (lb_view (gw_balancer gw) k) +
      (case r of Inl _ \<Rightarrow> 0 | Inr rm \<Rightarrow> held rm k)"
    using *(1)
    by (cases rule: resolve_cases; cases r)
      (auto simp: held_def dest: resolve_finish_Ok resolve_finish_Err [where k = k])
  then show "flights gw' k = flights gw k + (case r of Inl _ \<Rightarrow> 0 | Inr rm \<Rightarrow> held rm k)"
    using *(2) by (simp add: flights_def)
qed

lemma check_rate_limit_frame:
  assumes "check_rate_limit env ai key m n gw = (r, gw')"
  shows "flights gw' k = flights gw k" "gw_world gw' = gw_world gw" "gw_spawned gw' = gw_spawned gw"
  using assms by (auto simp: check_rate_limit_def split: sum.splits prod.splits)

lemma try_fallbacks_frame:
  assumes "try_fallbacks env inp key cap call i ids rl_err last_err gw = (res, e1, e2, gw')"
  shows "flights gw' k = flights gw k \<and> gw_spawned gw' = gw_spawned gw \<and>
    (\<forall>body usage m. res = Some (body, usage, m) \<longrightarrow> has_capability m cap)"
  using assms
proof (induction ids arbitrary: i rl_err last_err gw)
  case (Cons fid rest)
  obtain r1 gw1 where r1: "proxy_resolve env (in_attempt inp i) fid cap gw = (r1, gw1)" by fastforce
  note f1 = proxy_resolve_frame [OF r1]
  show ?case
  proof (cases r1)
    case (Inl e)
    then show ?thesis using Cons.IH [of "Suc i" rl_err last_err gw1] Cons.prems r1 f1(1-3) by simp
  next
    case (Inr rm)
    obtain r2 gw2 where r2: "check_rate_limit env (in_attempt inp i) key (rm_model rm) 1 gw1 = (r2, gw2)" by fastforce
    note f2 = check_rate_limit_frame [OF r2]
    obtain r3 w where r3: "call rm (gw_world gw2) = (r3, w)" by fastforce
    have cap: "has_capability (rm_model rm) cap"
      using r1 Inr by (auto simp: proxy_resolve_def split: prod.splits elim!: resolve_cases dest: resolve_finish_Ok)
    show ?thesis
    proof (cases r2)
      case (Inl e)
      then show ?thesis
        using Cons.IH [of "Suc i" "Some e" last_err "release rm gw2"] Cons.prems r1 \<open>r1 = Inr rm\<close> r2 f1(1-3) f2 by simp
    next
      case ok: (Inr u)
      show ?thesis
      proof (cases r3)
        case (Inl e)
        then show ?thesis
          using Cons.IH [of "Suc i" rl_err "Some e" "release rm (gw2\<lparr>gw_world := w\<rparr>)"] Cons.prems r1
            \<open>r1 = Inr rm\<close> r2 ok r3 f1(1-3) f2 by simp
      next
        case (Inr v)
        then show ?thesis using Cons.prems r1 \<open>r1 = Inr rm\<close> r2 ok r3 f1(1-3) f2 cap by (cases v) auto
      qed
    qed
  qed
qed simp

lemma answer_frame:
  assumes "answer env inp key cap respond (body, usage, m) gw = (r, gw')"
  shows "flights gw' k = flights gw k \<and> gw_world gw' = gw_world gw \<and>
    (case compute_cost (ge_decimal env) (ge_print env) (m_pricing m) cap usage of
       None \<Rightarrow> r = None \<and> gw_spawned gw' = gw_spawned gw
     | Some cost \<Rightarrow> r = Some (Ok (respond body)) \<and>
         gw_spawned gw' = gw_spawned gw @ [log_entry inp key cap m cost])"
  using assms
  by (auto simp: answer_def spawn_request_log_def Let_def flights_def router_record_latency_def record_latency_view
      split: option.splits if_splits)

text \<open>What a finished request leaves in the log: one row for a success, with the cost of a capable model, none otherwise.\<close>

definition logged ::
  "'s gateway_env \<Rightarrow> request_inputs \<Rightarrow> api_key \<Rightarrow> (api_error, 'h) result option \<Rightarrow> request_log_entry list \<Rightarrow>
   request_log_entry list \<Rightarrow> bool" where
  "logged env inp key r before after \<longleftrightarrow>
     (case r of
        Some (Inr _) \<Rightarrow> (\<exists>cap m usage cost. has_capability m cap \<and>
          compute_cost (ge_decimal env) (ge_print env) (m_pricing m) cap usage = Some cost \<and>
          after = before @ [log_entry inp key cap m cost])
      | _ \<Rightarrow> after = before)"

lemma answer_logged:
  assumes "answer env inp key cap respond (body, usage, m) gw = (r, gw')" "has_capability m cap"
  shows "logged env inp key r (gw_spawned gw) (gw_spawned gw')"
  using answer_frame [OF assms(1), of 0] assms(2)
  by (cases "compute_cost (ge_decimal env) (ge_print env) (m_pricing m) cap usage") (auto simp: logged_def)

lemma call_models_frame:
  assumes "call_models env inp key cap call respond failed primary gw = (r, gw')"
    and "has_capability (rm_model primary) cap"
  shows "flights gw' k = flights gw k - held primary k \<and> logged env inp key r (gw_spawned gw) (gw_spawned gw')"
proof -
  obtain c w where c: "call primary (gw_world gw) = (c, w)" by fastforce
  show ?thesis
  proof (cases c)
    case (Inr v)
    obtain body usage where v: "v = (body, usage)" by fastforce
    obtain r1 gw1 where a: "answer env inp key cap respond (body, usage, rm_model primary) (gw\<lparr>gw_world := w\<rparr>) = (r1, gw1)"
      by fastforce
    have "r = r1" "gw' = release primary gw1"
      using assms(1) c Inr v a by (simp_all add: call_models_def)
    with answer_frame [OF a, of k] answer_logged [OF a assms(2)] show ?thesis
      by simp
  next
    case (Inl e)
    obtain res e1 e2 gw1 where t: "try_fallbacks env inp key cap call 1 (fallback_chain (rm_model primary)) None (Some e)
        (release primary (gw\<lparr>gw_world := w\<rparr>)) = (res, e1, e2, gw1)"
      by (rule prod_cases4)
    note f = try_fallbacks_frame [OF t, of k]
    have call: "(r, gw') = (case (res, e1, e2, gw1) of
        (Some res, _, _, gw) \<Rightarrow> answer env inp key cap respond res gw
      | (None, Some rl_err, _, gw) \<Rightarrow> (Some (Err rl_err), gw)
      | (None, None, last_err, gw) \<Rightarrow>
          (Some (Err (map_provider_error (unwrap_or (PErr_Provider failed) last_err))), gw))"
      using assms(1) c Inl t by (simp add: call_models_def)
    show ?thesis
    proof (cases res)
      case None
      with call f show ?thesis by (cases e1) (simp_all add: logged_def)
    next
      case (Some v)
      obtain body usage m where v: "v = (body, usage, m)" by (rule prod_cases3)
      have a: "answer env inp key cap respond (body, usage, m) gw1 = (r, gw')" using call Some v by simp
      from f Some v have "has_capability m cap" by blast
      with answer_frame [OF a, of k] answer_logged [OF a] f show ?thesis
        by simp
    qed
  qed
qed

lemma admit_frame:
  assumes "admit env inp key m n gw = (r, gw')"
  shows "flights gw' k = flights gw k \<and> gw_world gw' = gw_world gw \<and> gw_spawned gw' = gw_spawned gw"
proof -
  obtain r1 gw1 where c: "check_rate_limit env (in_attempt inp 0) key m n gw = (r1, gw1)" by fastforce
  have "gw' = gw1" using assms c by (cases r1) (simp_all add: admit_def)
  then show ?thesis using check_rate_limit_frame [OF c] by simp
qed

lemma proxy_resolve_capable:
  "proxy_resolve env ai model_ref cap gw = (Ok rm, gw') \<Longrightarrow> has_capability (rm_model rm) cap"
  by (auto simp: proxy_resolve_def split: prod.splits elim!: resolve_cases dest: resolve_finish_Ok)

text \<open>Either the request was refused, and nothing outside was touched, or every check passed.\<close>

lemma serve_modality_cases:
  assumes "serve_modality env inp key cap call respond failed model_ref gw = (r, gw')"
  obtains (refused) e where "r = Some (Err e)" "\<And>k. flights gw' k = flights gw k"
      "gw_world gw' = gw_world gw" "gw_spawned gw' = gw_spawned gw"
  | (admitted) primary gw1 gw2 where
      "proxy_resolve env (in_attempt inp 0) model_ref cap gw = (Ok primary, gw1)"
      "admit env inp key (rm_model primary) 1 gw1 = (Ok (), gw2)"
      "\<And>k. flights gw' k = flights gw k" "logged env inp key r (gw_spawned gw) (gw_spawned gw')"
proof -
  obtain r1 gw1 where r1: "proxy_resolve env (in_attempt inp 0) model_ref cap gw = (r1, gw1)" by fastforce
  note f1 = proxy_resolve_frame [OF r1]
  show ?thesis
  proof (cases r1)
    case (Inl e)
    then have "r = Some (Err (api_error_from e))" "gw' = gw1" using assms r1 by (simp_all add: serve_modality_def)
    then show ?thesis using f1 Inl by (intro refused) simp_all
  next
    case p: (Inr primary)
    obtain r2 gw2 where r2: "admit env inp key (rm_model primary) 1 gw1 = (r2, gw2)" by fastforce
    note f2 = admit_frame [OF r2]
    show ?thesis
    proof (cases r2)
      case (Inl e)
      then have "r = Some (Err e)" "gw' = release primary gw2" using assms r1 p r2 by (simp_all add: serve_modality_def)
      then show ?thesis using f1 f2 p by (intro refused) simp_all
    next
      case ok: (Inr u)
      have c: "call_models env inp key cap call respond failed primary gw2 = (r, gw')"
        using assms r1 p r2 ok by (simp add: serve_modality_def)
      note f3 = call_models_frame [OF c proxy_resolve_capable [OF r1 [unfolded p]]]
      show ?thesis
      proof (rule admitted)
        show "proxy_resolve env (in_attempt inp 0) model_ref cap gw = (Ok primary, gw1)" using r1 p by simp
        show "admit env inp key (rm_model primary) 1 gw1 = (Ok (), gw2)" using r2 ok by simp
        show "flights gw' k = flights gw k" for k using f1(1) [of k] f2 [of k] f3 [of k] p by simp
        show "logged env inp key r (gw_spawned gw) (gw_spawned gw')" using f1(3) f2 f3 by simp
      qed
    qed
  qed
qed

lemma admit_Ok:
  assumes "admit env inp key m n gw = (Ok (), gw')"
  shows "check_rate_limit env (in_attempt inp 0) key m n gw = (Ok (), gw')"
    "check_user_budget env (in_user_budget inp) key = Ok ()"
    "check_key_team_budget env (in_team_budget inp) key = Ok ()"
proof -
  obtain r1 gw1 where c: "check_rate_limit env (in_attempt inp 0) key m n gw = (r1, gw1)" by fastforce
  then show "check_rate_limit env (in_attempt inp 0) key m n gw = (Ok (), gw')"
    "check_user_budget env (in_user_budget inp) key = Ok ()"
    "check_key_team_budget env (in_team_budget inp) key = Ok ()"
    using assms by (cases r1; auto simp: admit_def bind_result_ok_iff)+
qed

text \<open>All the checks of a request passed for some model it resolved to.\<close>

definition admitted :: "'s gateway_env \<Rightarrow> request_inputs \<Rightarrow> api_key \<Rightarrow> u32 \<Rightarrow> ('s, 'm) gateway_scheme \<Rightarrow> bool" where
  "admitted env inp key n gw \<longleftrightarrow>
     (\<exists>model_ref cap primary gw1 gw2.
        proxy_resolve env (in_attempt inp 0) model_ref cap gw = (Ok primary, gw1) \<and>
        check_rate_limit env (in_attempt inp 0) key (rm_model primary) n gw1 = (Ok (), gw2)) \<and>
     check_user_budget env (in_user_budget inp) key = Ok () \<and>
     check_key_team_budget env (in_team_budget inp) key = Ok ()"

definition handled ::
  "'s gateway_env \<Rightarrow> request_inputs \<Rightarrow> api_key \<Rightarrow> ('s, 'm) gateway_scheme \<Rightarrow> (api_error, 'h) result option \<times> ('s, 'm) gateway_scheme \<Rightarrow> bool" where
  "handled env inp key gw res \<longleftrightarrow>
     (\<forall>k. flights (snd res) k = flights gw k) \<and>
     logged env inp key (fst res) (gw_spawned gw) (gw_spawned (snd res)) \<and>
     (gw_world (snd res) = gw_world gw \<and> gw_spawned (snd res) = gw_spawned gw \<or> admitted env inp key 1 gw)"

lemma serve_modality_handled: "handled env inp key gw (serve_modality env inp key cap call respond failed model_ref gw)"
proof -
  obtain r gw' where s: "serve_modality env inp key cap call respond failed model_ref gw = (r, gw')" by fastforce
  then show ?thesis
  proof (cases rule: serve_modality_cases)
    case (refused e)
    then show ?thesis unfolding s by (simp add: handled_def logged_def)
  next
    case (admitted primary gw1 gw2)
    then have "Modalities.admitted env inp key 1 gw"
      using admit_Ok [OF admitted(2)] unfolding admitted_def by blast
    with admitted(3,4) show ?thesis unfolding s by (simp add: handled_def)
  qed
qed

lemma modality_router_handled: "handled env inp key gw (modality_router env inp key req gw)"
proof (cases req)
  case (POST_audio_transcriptions fds)
  then show ?thesis
    by (auto simp: audio_transcriptions_def serve_modality_handled split: sum.split) (simp_all add: handled_def logged_def)
next
  case (POST_images_edits fds)
  then show ?thesis
    by (auto simp: image_edits_def serve_modality_handled split: sum.split) (simp_all add: handled_def logged_def)
qed (simp_all add: embeddings_def image_generations_def audio_speech_def serve_modality_handled)

section \<open>Properties\<close>

text \<open>
  Whatever becomes of a request to one of these endpoints - refused, failed, answered by the
  primary or a fallback model, or lost in a panic - every in-flight count is afterwards what it
  was before.
\<close>

lemma modality_in_flight_balanced:
  "lb_in_flight (lb_view (gw_balancer (snd (modality_router env inp key req gw))) k) =
   lb_in_flight (lb_view (gw_balancer gw) k)"
  using modality_router_handled [of env inp key gw req] by (simp add: handled_def flights_def)


text \<open>
  A request that is answered queues exactly one row of the request log: it names the key,
  user, organization and team of the caller and carries the cost of a model that has the
  capability. A request that is not answered queues none.
\<close>

lemma modality_logged_once:
  "case fst (modality_router env inp key req gw) of
     Some (Inr reply) \<Rightarrow> \<exists>cap m usage cost. has_capability m cap \<and>
       compute_cost (ge_decimal env) (ge_print env) (m_pricing m) cap usage = Some cost \<and>
       gw_spawned (snd (modality_router env inp key req gw)) = gw_spawned gw @ [log_entry inp key cap m cost]
   | _ \<Rightarrow> gw_spawned (snd (modality_router env inp key req gw)) = gw_spawned gw"
  using modality_router_handled [of env inp key gw req] by (simp add: handled_def logged_def)

section \<open>An instance\<close>

text \<open>An adapter that answers every embedding request and counts its calls.\<close>

definition no_call :: "('q, nat) adapter_call" where
  "no_call p m q n = (Err (PErr_Provider ''no''), Suc n)"

definition counting_adapter :: "nat adapter" where
  "counting_adapter =
     \<lparr>ad_chat = no_call, ad_chat_stream = (\<lambda>_ _ _ n. (Err (PErr_Provider ''no''), Suc n)), ad_image_generation = no_call, ad_image_edit = no_call, ad_audio_tts = no_call,
      ad_audio_stt = no_call, ad_embedding = (\<lambda>_ _ _ n. (Ok (PR_Embedding \<lparr>ep_object = ''list'', ep_data = [],
        ep_model = ''m'', ep_usage = \<lparr>us_prompt_tokens = 1, us_completion_tokens = 0, us_total_tokens = 1,
          us_prompt_tokens_details = None, us_completion_tokens_details = None\<rparr>\<rparr>, usage_report_default), Suc n))\<rparr>"

definition sample_env :: "nat gateway_env" where
  "sample_env = \<lparr>ge_router = \<lparr>ro_registry = (\<lambda>_. Some counting_adapter), ro_master_key = [], ro_crypto = plain_crypto,
       ro_de_secret = (\<lambda>_. Err ''none'')\<rparr>, ge_catalog = sample_catalog,
     ge_accounts = \<lparr>ac_organizations = [\<lparr>og_id = 1, og_name = ''a'', og_rpm = None, og_tpm = None, og_created_at = 0\<rparr>],
       ac_users = [], ac_teams = [], ac_memberships = [], ac_api_keys = [], ac_end_users = [], ac_refresh_tokens = [],
       ac_reset_tokens = [], ac_password_history = [], ac_request_logs = []\<rparr>,
     ge_decimal = exact_lib, ge_print = (\<lambda>_. [])\<rparr>"

definition sample_inputs :: request_inputs where
  "sample_inputs = \<lparr>in_attempt = (\<lambda>_. \<lparr>at_first = None, at_second = None, at_org = None, at_check = (\<lambda>_. (0, 0)),
       at_commit = (\<lambda>_. (0, 0))\<rparr>), in_user_budget = (None, None), in_team_budget = (None, None), in_elapsed_log = 3,
     in_elapsed_latency = 3\<rparr>"

definition sample_key :: api_key where
  "sample_key = \<lparr>ak_id = 7, ak_user_id = 1, ak_team_id = None, ak_organization_id = 1, ak_name = ''k'',
     ak_key_prefix = ''p'', ak_key_hash = ''h'', ak_scopes = [], ak_allowed_models = [], ak_budget_limit_usd = None,
     ak_budget_spent_usd = 0, ak_rpm = None, ak_tpm = None, ak_expires_at = None, ak_disabled = False,
     ak_created_at = 0\<rparr>"

definition idle_gateway :: "nat gateway" where
  "idle_gateway = \<lparr>gw_balancer = lb_new, gw_limiter = rl_new, gw_spawned = [], gw_world = 0\<rparr>"

lemmas gateway_eval = serve_modality_def proxy_resolve_def resolve_def resolve_qualified_def
  profiles_get_by_name_def fetch_one_def sample_catalog_def sample_profile_def ensure_enabled_def
  models_get_by_profile_and_public_id_def wildcard_model_def resolve_finish_def has_capability_def
  resolve_credentials_def admit_def check_rate_limit_def orgs_get_by_id_def check_and_consume_def limit_checks_def
  check_bucket_def positive_limit_def check_user_budget_def check_end_user_budget_def check_key_team_budget_def
  call_models_def retried_def with_retry_def retry_loop.simps retry_policy_default_def answer_def
  spawn_request_log_def release_def sample_env_def sample_inputs_def sample_key_def idle_gateway_def counting_adapter_def


end
