(* ===== verification/Tool_Streams.thy ===== *)
theory Tool_Streams
  imports Agentic_Loop Sse
begin

text \<open>
  Tool calls inside a stream: \<open>crates/godwit-api/src/proxy_streaming.rs\<close>. The deltas of a tool
  call are collected in a buffer; when the stream finishes, the collected calls are resolved
  and their results are sent after the finish event. The task that reads the provider's stream
  is a function from the events it receives to the events it sends; \<open>parse\<close> and \<open>print\<close> are
  the JSON library, \<open>ser\<close> the derived serializer of a chat message.
\<close>

section \<open>The buffer\<close>

record current_tool_state =
  ct_index :: u64
  ct_id :: string
  ct_name :: string
  ct_arguments :: string

record tool_call_buffer =
  bf_current :: "current_tool_state option"
  bf_accumulated :: "tool_call list"

definition tool_call_buffer_new :: tool_call_buffer where
  "tool_call_buffer_new = \<lparr>bf_current = None, bf_accumulated = []\<rparr>"

definition complete_tool :: "current_tool_state \<Rightarrow> tool_call" where
  "complete_tool st = \<lparr>tc_id = ct_id st, tc_type = ''function'',
     tc_function = \<lparr>fc_name = ct_name st, fc_arguments = ct_arguments st\<rparr>\<rparr>"

definition delta_str :: "json option \<Rightarrow> string" where
  "delta_str v = unwrap_or [] (Option.bind v as_str)"

definition delta_state :: "json \<Rightarrow> current_tool_state" where
  "delta_state parsed =
     (let function = json_get ''function'' parsed
      in \<lparr>ct_index = unwrap_or 0 (Option.bind (json_get ''index'' parsed) as_u64),
          ct_id = delta_str (json_get ''id'' parsed),
          ct_name = delta_str (Option.bind function (json_get ''name'')),
          ct_arguments = delta_str (Option.bind function (json_get ''arguments''))\<rparr>)"

definition push_state :: "current_tool_state \<Rightarrow> tool_call_buffer \<Rightarrow> tool_call_buffer" where
  "push_state d buf =
     (case bf_current buf of
        None \<Rightarrow> buf\<lparr>bf_current := Some d\<rparr>
      | Some st \<Rightarrow>
          if ct_index st = ct_index d
          then buf\<lparr>bf_current := Some (st\<lparr>ct_name := (if ct_name d \<noteq> [] then ct_name d else ct_name st),
                 ct_arguments := ct_arguments st @ ct_arguments d,
                 ct_id := (if ct_id d \<noteq> [] then ct_id d else ct_id st)\<rparr>)\<rparr>
          else buf\<lparr>bf_accumulated := bf_accumulated buf @ [complete_tool st], bf_current := Some d\<rparr>)"

definition push_delta :: "(string \<Rightarrow> json option) \<Rightarrow> string \<Rightarrow> tool_call_buffer \<Rightarrow> tool_call_buffer" where
  "push_delta parse delta buf =
     (case parse delta of None \<Rightarrow> buf | Some parsed \<Rightarrow> push_state (delta_state parsed) buf)"

definition finish_current_tool :: "tool_call_buffer \<Rightarrow> tool_call option \<times> tool_call_buffer" where
  "finish_current_tool buf = (map_option complete_tool (bf_current buf), buf\<lparr>bf_current := None\<rparr>)"

definition has_complete_tool :: "tool_call_buffer \<Rightarrow> bool" where
  "has_complete_tool buf =
     (case bf_current buf of None \<Rightarrow> False | Some s \<Rightarrow> ct_arguments s \<noteq> [] \<and> ct_name s \<noteq> [])"

definition finish_all :: "tool_call_buffer \<Rightarrow> tool_call list \<times> tool_call_buffer" where
  "finish_all buf =
     (case finish_current_tool (buf\<lparr>bf_accumulated := []\<rparr>) of
        (Some call, buf') \<Rightarrow> (bf_accumulated buf @ [call], buf')
      | (None, buf') \<Rightarrow> (bf_accumulated buf, buf'))"

section \<open>The task\<close>

record stream_env =
  se_parse :: "string \<Rightarrow> json option"
  se_print :: "json \<Rightarrow> string"
  se_ser :: "chat_message \<Rightarrow> json"
  se_mcp :: mcp_env
  se_search :: search_backend

definition result_event :: "stream_env \<Rightarrow> chat_message \<Rightarrow> string" where
  "result_event env msg =
     se_print env (json_obj [(''type'', JString ''tool_result''), (''message'', se_ser env msg)])"

definition error_event :: "stream_env \<Rightarrow> provider_error \<Rightarrow> string" where
  "error_event env e =
     se_print env (json_obj [(''type'', JString ''error''), (''message'', JString (provider_error_display e))])"

text \<open>The calls of a finished stream are resolved one at a time; a call without a name is skipped.\<close>

fun tool_results :: "stream_env \<Rightarrow> tool_call list \<Rightarrow> registry \<Rightarrow> string list \<times> registry" where
  "tool_results env [] reg = ([], reg)"
| "tool_results env (call # calls) reg =
     (if fc_name (tc_function call) = [] then tool_results env calls reg
      else (let (msgs, reg1) = resolve_tool_calls (se_mcp env) (se_search env) [call] reg;
                (evs, reg2) = tool_results env calls reg1
            in (map (result_event env) msgs @ evs, reg2)))"

fun stream_task ::
  "stream_env \<Rightarrow> (provider_error, string) result list \<Rightarrow> tool_call_buffer \<Rightarrow> bool \<Rightarrow> registry \<Rightarrow>
     string list \<times> registry" where
  "stream_task env [] buf detected reg = ([], reg)"
| "stream_task env (Inl e # evs) buf detected reg = ([error_event env e], reg)"
| "stream_task env (Inr ev # evs) buf detected reg =
     (case parse_canonical_event (se_parse env) ev of
        CE_ToolCall packed \<Rightarrow>
          (let (out, reg') = stream_task env evs (push_delta (se_parse env) packed buf) True reg
           in (ev # out, reg'))
      | CE_Finish p c r \<Rightarrow>
          if detected then
            (let (calls, buf') = finish_all buf;
                 (results, reg1) = tool_results env calls reg;
                 (out, reg2) = stream_task env evs buf' detected reg1
             in (ev # results @ out, reg2))
          else (let (out, reg') = stream_task env evs buf detected reg in (ev # out, reg'))
      | _ \<Rightarrow> (let (out, reg') = stream_task env evs buf detected reg in (ev # out, reg')))"

definition process_streaming_tool_calls ::
  "stream_env \<Rightarrow> (provider_error, string) result list \<Rightarrow> registry \<Rightarrow> string list \<times> registry" where
  "process_streaming_tool_calls env evs reg = stream_task env evs tool_call_buffer_new False reg"

section \<open>Reassembly\<close>

text \<open>
  What the deltas of one call stand for: the arguments in one piece, the last identifier and the
  last name that is not empty.
\<close>

definition last_nonempty :: "string list \<Rightarrow> string" where
  "last_nonempty xs = (case rev (filter (\<lambda>x. x \<noteq> []) xs) of [] \<Rightarrow> [] | x # _ \<Rightarrow> x)"

definition assemble :: "current_tool_state list \<Rightarrow> tool_call" where
  "assemble g = \<lparr>tc_id = last_nonempty (map ct_id g), tc_type = ''function'',
     tc_function = \<lparr>fc_name = last_nonempty (map ct_name g), fc_arguments = concat (map ct_arguments g)\<rparr>\<rparr>"

definition one_call :: "current_tool_state list \<Rightarrow> bool" where
  "one_call g \<longleftrightarrow> g \<noteq> [] \<and> list_all (\<lambda>d. ct_index d = ct_index (hd g)) g"

definition calls_apart :: "current_tool_state list list \<Rightarrow> bool" where
  "calls_apart gs \<longleftrightarrow> list_all one_call gs \<and> successively (\<lambda>g h. ct_index (hd g) \<noteq> ct_index (hd h)) gs"

definition push_deltas :: "current_tool_state list \<Rightarrow> tool_call_buffer \<Rightarrow> tool_call_buffer" where
  "push_deltas ds buf = foldl (\<lambda>b d. push_state d b) buf ds"

lemma last_nonempty_snoc [simp]:
  "last_nonempty (xs @ [x]) = (if x \<noteq> [] then x else last_nonempty xs)"
  by (simp add: last_nonempty_def)

lemma last_nonempty_single [simp]: "last_nonempty [x] = x"
  by (cases x) (simp_all add: last_nonempty_def)

text \<open>The buffer while the deltas \<open>g\<close> of one call arrive, the calls before it being complete.\<close>

definition collecting :: "tool_call list \<Rightarrow> current_tool_state list \<Rightarrow> tool_call_buffer" where
  "collecting done g = \<lparr>bf_current = Some \<lparr>ct_index = ct_index (hd g), ct_id = last_nonempty (map ct_id g),
     ct_name = last_nonempty (map ct_name g), ct_arguments = concat (map ct_arguments g)\<rparr>, bf_accumulated = done\<rparr>"

lemma push_same: "\<lbrakk>g \<noteq> []; ct_index d = ct_index (hd g)\<rbrakk> \<Longrightarrow> push_state d (collecting done g) = collecting done (g @ [d])"
  by (simp add: push_state_def collecting_def)

lemma push_next:
  "ct_index d \<noteq> ct_index (hd g) \<Longrightarrow> push_state d (collecting done g) = collecting (done @ [assemble g]) [d]"
  by (auto simp: push_state_def collecting_def assemble_def complete_tool_def)

lemma push_rest:
  "\<lbrakk>g \<noteq> []; list_all (\<lambda>d. ct_index d = ct_index (hd g)) ds\<rbrakk> \<Longrightarrow>
     push_deltas ds (collecting done g) = collecting done (g @ ds)"
  by (induction ds arbitrary: g) (simp_all add: push_deltas_def push_same)

lemma push_calls:
  assumes "calls_apart (g # gs)"
  shows "push_deltas (concat gs) (collecting done g) =
    collecting (done @ map assemble (butlast (g # gs))) (last (g # gs))"
  using assms
proof (induction gs arbitrary: g "done")
  case (Cons h gs)
  obtain d ds where h: "h = d # ds" using Cons.prems by (cases h) (auto simp: calls_apart_def one_call_def)
  have "push_deltas h (collecting done g) = collecting (done @ [assemble g]) h"
  proof -
    have "push_state d (collecting done g) = collecting (done @ [assemble g]) [d]"
      using Cons.prems by (intro push_next) (auto simp: h calls_apart_def)
    then show ?thesis using Cons.prems push_rest [of "[d]" ds "done @ [assemble g]"]
      by (simp add: h calls_apart_def one_call_def push_deltas_def)
  qed
  then show ?case using Cons.IH [of h "done @ [assemble g]"] Cons.prems
    by (simp add: push_deltas_def calls_apart_def)
qed (simp add: push_deltas_def)

lemma finish_collecting: "fst (finish_all (collecting done g)) = done @ [assemble g]"
  by (simp add: finish_all_def finish_current_tool_def collecting_def complete_tool_def assemble_def)

lemma calls_reassembled:
  assumes "calls_apart gs" "gs \<noteq> []"
  shows "fst (finish_all (push_deltas (concat gs) tool_call_buffer_new)) = map assemble gs"
proof -
  obtain g gs' where gs: "gs = g # gs'" using assms(2) by (cases gs) auto
  obtain d ds where g: "g = d # ds" using assms(1) gs by (cases g) (auto simp: calls_apart_def one_call_def)
  have "push_state d tool_call_buffer_new = collecting [] [d]"
    by (simp add: push_state_def tool_call_buffer_new_def collecting_def)
  then have "push_deltas g tool_call_buffer_new = collecting [] g"
    using push_rest [of "[d]" ds "[]"] assms(1) by (simp add: gs g push_deltas_def calls_apart_def one_call_def)
  then have "push_deltas (concat gs) tool_call_buffer_new =
      collecting (map assemble (butlast gs)) (last gs)"
    using push_calls [of g gs' "[]"] assms(1) by (simp add: gs push_deltas_def)
  then have "fst (finish_all (push_deltas (concat gs) tool_call_buffer_new)) =
      map assemble (butlast gs @ [last gs])" by (simp add: finish_collecting)
  then show ?thesis using assms(2) by (metis append_butlast_last_id)
qed

text \<open>The deltas of the tool calls in a stream.\<close>

definition stream_deltas :: "stream_env \<Rightarrow> string list \<Rightarrow> current_tool_state list" where
  "stream_deltas env evs = List.map_filter (\<lambda>ev.
     case parse_canonical_event (se_parse env) ev of
       CE_ToolCall packed \<Rightarrow> map_option delta_state (se_parse env packed)
     | _ \<Rightarrow> None) evs"

fun is_finish :: "canonical_event \<Rightarrow> bool" where
  "is_finish (CE_Finish _ _ _) = True"
| "is_finish _ = False"

fun is_tool_call :: "canonical_event \<Rightarrow> bool" where
  "is_tool_call (CE_ToolCall _) = True"
| "is_tool_call _ = False"

lemma stream_task_pass:
  assumes "list_all (\<lambda>ev. \<not> is_finish (parse_canonical_event (se_parse env) ev)) evs"
  shows "stream_task env (map Inr evs @ rest) buf detected reg =
    (let (out, reg') = stream_task env rest (push_deltas (stream_deltas env evs) buf)
           (detected \<or> list_ex (\<lambda>ev. is_tool_call (parse_canonical_event (se_parse env) ev)) evs) reg
     in (evs @ out, reg'))"
  using assms
proof (induction evs arbitrary: buf detected)
  case Nil
  then show ?case by (simp add: stream_deltas_def push_deltas_def List.map_filter_def)
next
  case (Cons ev evs)
  then show ?case
    by (cases "parse_canonical_event (se_parse env) ev")
      (auto simp: stream_deltas_def push_deltas_def push_delta_def List.map_filter_simps Let_def case_prod_unfold
        split: option.splits)
qed

lemma stream_deltas_tool_call:
  "stream_deltas env evs \<noteq> [] \<Longrightarrow> list_ex (\<lambda>ev. is_tool_call (parse_canonical_event (se_parse env) ev)) evs"
  by (induction evs) (auto simp: stream_deltas_def List.map_filter_simps split: option.splits canonical_event.splits)

text \<open>
  C18. Tool calls in a stream. When the deltas of a stream belong to calls that arrive one after
  the other, every event is passed on unchanged and in order, and after the finish event come
  exactly the results of those calls, each reassembled from its deltas with its arguments in one
  piece.
\<close>

theorem stream_tools_exact:
  assumes "stream_deltas env evs = concat gs" "calls_apart gs" "gs \<noteq> []"
    and "list_all (\<lambda>ev. \<not> is_finish (parse_canonical_event (se_parse env) ev)) evs"
    and "parse_canonical_event (se_parse env) fin = CE_Finish p c r"
  shows "process_streaming_tool_calls env (map Inr (evs @ [fin])) reg =
    (evs @ [fin] @ fst (tool_results env (map assemble gs) reg), snd (tool_results env (map assemble gs) reg))"
proof -
  have "hd gs \<noteq> []" using assms(2,3) by (cases gs) (auto simp: calls_apart_def one_call_def)
  then have "concat gs \<noteq> []" using assms(3) by (cases gs) auto
  then have "list_ex (\<lambda>ev. is_tool_call (parse_canonical_event (se_parse env) ev)) evs"
    using stream_deltas_tool_call assms(1) by metis
  then show ?thesis
    using stream_task_pass [OF assms(4), of "[Inr fin]" tool_call_buffer_new False reg]
      calls_reassembled [OF assms(2,3)] assms(1,5)
    by (simp add: process_streaming_tool_calls_def Let_def case_prod_unfold)
qed

text \<open>Deltas of two calls that alternate are not told apart: the first call is split in two.\<close>

lemma interleaved_calls_split:
  fixes d e :: current_tool_state
  assumes "ct_index d \<noteq> ct_index e"
  shows "map tc_id (fst (finish_all (push_deltas [d, e, d] tool_call_buffer_new))) = [ct_id d, ct_id e, ct_id d]"
  using assms
  by (simp add: push_deltas_def push_state_def tool_call_buffer_new_def finish_all_def finish_current_tool_def
      complete_tool_def)

definition no_servers :: mcp_env where
  "no_servers = \<lparr>me_parse = (\<lambda>_. Err []), me_print = (\<lambda>_. []), me_errtext = (\<lambda>_. []), me_version = [],
     me_spawn = (\<lambda>_. Err [])\<rparr>"

definition sample_stream_env :: stream_env where
  "sample_stream_env = \<lparr>se_parse = (\<lambda>s.
       if s = ''a'' then Some (json_obj [(''type'', JString ''delta''), (''delta'', JString ''{1'')])
       else if s = ''b'' then Some (json_obj [(''type'', JString ''delta''), (''delta'', JString ''{2'')])
       else if s = ''{1'' then Some (json_obj [(''index'', JInt 0), (''id'', JString ''c1''),
         (''function'', json_obj [(''name'', JString ''web_search''), (''arguments'', JString ''x'')])])
       else if s = ''{2'' then Some (json_obj [(''index'', JInt 0),
         (''function'', json_obj [(''arguments'', JString ''y'')])])
       else if s = ''f'' then Some (json_obj [(''type'', JString ''finish'')]) else None),
     se_print = (\<lambda>_. ''r''), se_ser = (\<lambda>_. JNull), se_mcp = no_servers, se_search = None\<rparr>"

lemmas stream_eval = sample_stream_env_def parse_canonical_event_def json_get_obj delta_state_def delta_str_def
  starts_with_def Let_def

theorem stream_tools_exact_witness:
  "fst (process_streaming_tool_calls sample_stream_env (map Inr [''a'', ''b'', ''f'']) []) =
     [''a'', ''b'', ''f'', ''r'']"
proof -
  let ?d = "\<lparr>ct_index = 0, ct_id = ''c1'', ct_name = ''web_search'', ct_arguments = ''x''\<rparr>"
  let ?e = "\<lparr>ct_index = 0, ct_id = [], ct_name = [], ct_arguments = ''y''\<rparr>"
  have ds: "stream_deltas sample_stream_env [''a'', ''b''] = concat [[?d, ?e]]"
    by (simp add: stream_deltas_def List.map_filter_simps stream_eval)
  have apart: "calls_apart [[?d, ?e]]" by (simp add: calls_apart_def one_call_def)
  have nofin: "list_all (\<lambda>ev. \<not> is_finish (parse_canonical_event (se_parse sample_stream_env) ev)) [''a'', ''b'']"
    by (simp add: stream_eval)
  have fin: "parse_canonical_event (se_parse sample_stream_env) ''f'' = CE_Finish 0 0 None"
    by (simp add: stream_eval token_field_def)
  show ?thesis
    using stream_tools_exact [OF ds apart _ nofin fin, of "[]"]
    by (simp add: assemble_def case_prod_unfold Let_def last_nonempty_def result_event_def sample_stream_env_def)
qed

end
