(* ===== verification/Chat_Proxy.thy ===== *)
theory Chat_Proxy
  imports Modalities Tool_Streams Guardrails
begin

text \<open>
  The chat endpoint: \<open>call_chat\<close> and \<open>chat_completions\<close> of \<open>crates/godwit-api/src/proxy.rs\<close>, with the
  collector of \<open>crates/godwit-api/src/metrics.rs\<close>. A request passes the limits, the budgets and
  the guardrails; then either the tool loop runs on the primary model or the fallback chain is
  walked. A handler that panics has the result \<open>None\<close>; unwinding drops the in-flight guard, and
  the guardrails are then left as they were before the call that panicked.
\<close>

section \<open>Metrics\<close>

text \<open>Counters and gauges per label; they hold whole numbers, which doubles represent below \<open>2 ^ 53\<close>.\<close>

record metrics =
  mt_requests :: "string \<times> string \<times> string \<Rightarrow> nat"
  mt_durations :: "(string \<times> string \<times> f64) list"
  mt_tokens :: "string \<times> string \<Rightarrow> nat"
  mt_active :: "string \<times> string \<Rightarrow> int"

definition record_request :: "string \<Rightarrow> string \<Rightarrow> string \<Rightarrow> f64 \<Rightarrow> metrics \<Rightarrow> metrics" where
  "record_request model provider status duration_secs mt =
     mt\<lparr>mt_requests := (mt_requests mt)((model, provider, status) := mt_requests mt (model, provider, status) + 1),
        mt_durations := mt_durations mt @ [(model, provider, duration_secs)]\<rparr>"

definition record_tokens :: "string \<Rightarrow> string \<Rightarrow> u32 \<Rightarrow> metrics \<Rightarrow> metrics" where
  "record_tokens token_type model n mt =
     mt\<lparr>mt_tokens := (mt_tokens mt)((token_type, model) := mt_tokens mt (token_type, model) + unat n)\<rparr>"

definition increment_active :: "string \<Rightarrow> string \<Rightarrow> metrics \<Rightarrow> metrics" where
  "increment_active model provider mt =
     mt\<lparr>mt_active := (mt_active mt)((model, provider) := mt_active mt (model, provider) + 1)\<rparr>"

definition decrement_active :: "string \<Rightarrow> string \<Rightarrow> metrics \<Rightarrow> metrics" where
  "decrement_active model provider mt =
     mt\<lparr>mt_active := (mt_active mt)((model, provider) := mt_active mt (model, provider) - 1)\<rparr>"

lemma active_simps [simp]:
  "mt_active (record_request m p s d mt) = mt_active mt"
  "mt_active (record_tokens t m c mt) = mt_active mt"
  "decrement_active m p (increment_active m p mt) = mt"
  by (simp_all add: record_request_def record_tokens_def increment_active_def decrement_active_def)

section \<open>One model call\<close>

text \<open>What the chat handler uses besides the gateway's environment.\<close>

record 's chat_env = "'s gateway_env" +
  ce_stream :: stream_env
  ce_compile :: schema_compiler
  ce_loop :: agentic_loop
  ce_slow :: "nat \<Rightarrow> chat_completion_request \<Rightarrow> 's \<Rightarrow> 's option"
  ce_openai_wire :: bool
  ce_overflow_checks :: bool
  ce_moderation :: "json \<Rightarrow> moderation_exchange"
  ce_de_request :: "string \<Rightarrow> chat_completion_request option"

datatype chat_reply = ChatJson chat_completion_response | ChatSse "string list"

definition stream_error_payload :: "(json \<Rightarrow> string) \<Rightarrow> bool \<Rightarrow> string" where
  "stream_error_payload print openai_wire =
     print (json_obj [(''error'', json_obj
       ([(''message'', JString ''upstream provider stream error''), (''type'', JString ''server_error'')] @
        (if openai_wire then [(''param'', JNull), (''code'', JNull)] else [])))])"

text \<open>The payloads handed to the SSE response, event by event.\<close>

fun openai_wire_events ::
  "stream_env \<Rightarrow> (provider_error, string) result list \<Rightarrow> openai_translator \<Rightarrow> string list" where
  "openai_wire_events env [] t = []"
| "openai_wire_events env (Inl e # evs) t =
     stream_error_payload (se_print env) True # openai_wire_events env evs t"
| "openai_wire_events env (Inr ev # evs) t =
     (case openai_push (se_parse env) (se_print env) ev t of (frames, t') \<Rightarrow>
        map frame_render frames @ openai_wire_events env evs t')"

definition canonical_wire_events :: "stream_env \<Rightarrow> (provider_error, string) result list \<Rightarrow> string list" where
  "canonical_wire_events env evs =
     map (\<lambda>ev. case ev of Inl _ \<Rightarrow> stream_error_payload (se_print env) False | Inr d \<Rightarrow> d) evs"

definition gateway_tool :: "tool \<Rightarrow> bool" where
  "gateway_tool t \<longleftrightarrow> str_contains ''__'' (fd_name (tool_function t)) \<or>
     fd_name (tool_function t) \<in> set NATIVE_WEB_SEARCH_TOOLS"

definition call_chat_stream ::
  "('s, 'e) chat_env_scheme \<Rightarrow> string \<times> i64 \<Rightarrow> 's adapter resolved_model \<Rightarrow> chat_completion_request \<Rightarrow> 's \<times> registry \<Rightarrow>
     (provider_error, chat_reply \<times> usage_report option) result \<times> 's \<times> registry" where
  "call_chat_stream env stamp rm req w =
     (case w of (s, reg) \<Rightarrow>
        (case with_retry retry_policy_default
                (ad_chat_stream (rm_adapter rm) (rm_credentials rm) (rm_model rm) req) s of
           (Inl e, _, s) \<Rightarrow> (Err e, s, reg)
         | (Inr evs, _, s) \<Rightarrow>
             (let has_tools = list_ex gateway_tool (unwrap_or [] (cr_tools req));
                  (evs, reg) = (if has_tools
                    then (case process_streaming_tool_calls (ce_stream env) evs reg of (out, reg) \<Rightarrow> (map Inr out, reg))
                    else (evs, reg));
                  stream_model = (if m_provider_model_id (rm_model rm) = [] then m_public_id (rm_model rm)
                                  else m_provider_model_id (rm_model rm));
                  out = (if ce_openai_wire env
                         then openai_wire_events (ce_stream env) evs (ot_new (fst stamp) stream_model (snd stamp))
                         else canonical_wire_events (ce_stream env) evs)
              in (Ok (ChatSse out, None), s, reg))))"

definition check_response_format ::
  "('s, 'e) chat_env_scheme \<Rightarrow> response_format option \<Rightarrow> chat_completion_response \<Rightarrow> (provider_error, unit) result" where
  "check_response_format env fmt completion =
     (case (fmt, first_choice completion) of
        (Some (RF_JsonSchema schema), msg # _) \<Rightarrow>
          (case content_as_text msg of
             None \<Rightarrow> Ok ()
           | Some content \<Rightarrow>
               map_err (\<lambda>e. PErr_Provider (''response validation failed: '' @ validation_error_display e))
                 (validate_response (me_parse (se_mcp (ce_stream env))) (ce_compile env) content schema))
      | _ \<Rightarrow> Ok ())"

definition call_chat_plain ::
  "('s, 'e) chat_env_scheme \<Rightarrow> 's adapter resolved_model \<Rightarrow> chat_completion_request \<Rightarrow> 's \<times> registry \<Rightarrow>
     (provider_error, chat_reply \<times> usage_report option) result \<times> 's \<times> registry" where
  "call_chat_plain env rm req w =
     (case w of (s, reg) \<Rightarrow>
        (case with_retry retry_policy_default
                (ad_chat (rm_adapter rm) (rm_credentials rm) (rm_model rm) req) s of
           (r, _, s) \<Rightarrow>
             (bind_result r (\<lambda>(resp, report).
                case resp of
                  PR_Chat completion \<Rightarrow>
                    bind_result (check_response_format env (cr_response_format req) completion) (\<lambda>_.
                    Ok (ChatJson completion, Some report))
                | _ \<Rightarrow> Err unexpected_variant), s, reg)))"

definition call_chat ::
  "('s, 'e) chat_env_scheme \<Rightarrow> string \<times> i64 \<Rightarrow> 's adapter resolved_model \<Rightarrow> chat_completion_request \<Rightarrow> 's \<times> registry \<Rightarrow>
     (provider_error, chat_reply \<times> usage_report option) result \<times> 's \<times> registry" where
  "call_chat env stamp rm req w =
     (if cr_stream req = Some True then call_chat_stream env stamp rm req w else call_chat_plain env rm req w)"

section \<open>The handler\<close>

definition extract_tags_from_header :: "string option \<Rightarrow> string list" where
  "extract_tags_from_header header_value =
     (case header_value of
        None \<Rightarrow> []
      | Some h \<Rightarrow> filter (\<lambda>s. s \<noteq> []) (map trim (split_on (CHR 0x2C) h)))"

record 's chat_gateway = "'s gateway" +
  cg_registry :: registry
  cg_guardrails :: guardrails_orchestrator
  cg_metrics :: metrics

text \<open>
  The inputs of one chat request: the faults of the resolutions of the fallback chain and of the
  lookup of the chain itself, the request's identifier, the identifier and time of a stream, the
  readings of the elapsed time.
\<close>

record chat_inputs = request_inputs +
  ci_request_id :: string
  ci_tags :: "string option"
  ci_chain :: fault
  ci_first :: "string \<Rightarrow> fault"
  ci_second :: "string \<Rightarrow> fault"
  ci_stamp :: "string \<times> i64"
  ci_duration :: f64

definition on_metrics :: "(metrics \<Rightarrow> metrics) \<Rightarrow> 's chat_gateway \<Rightarrow> 's chat_gateway" where
  "on_metrics f gw = gw\<lparr>cg_metrics := f (cg_metrics gw)\<rparr>"

definition blocked_categories :: "moderation_result \<Rightarrow> string list" where
  "blocked_categories r =
     (case as_array (mr_categories r) of None \<Rightarrow> [] | Some vs \<Rightarrow> List.map_filter as_str vs)"

text \<open>The reply, usage, model, pricing, attempts, fallback flag, number of tool calls and iterations.\<close>

record chat_outcome =
  co_response :: chat_reply
  co_usage :: usage_report
  co_model_used :: string
  co_pricing :: json
  co_attempts :: u32
  co_fallback :: bool
  co_tool_calls :: "nat option"
  co_iteration :: "nat option"

definition agent_of :: "'s chat_env \<Rightarrow> 's adapter resolved_model \<Rightarrow> 's agent_env" where
  "agent_of env rm = \<lparr>ae_chat = ad_chat (rm_adapter rm) (rm_credentials rm) (rm_model rm), ae_slow = ce_slow env,
     ae_mcp = se_mcp (ce_stream env), ae_search = se_search (ce_stream env), ae_compile = ce_compile env\<rparr>"

text \<open>The tool loop on the primary model, then the guardrails on its answer. \<open>None\<close> is a panic.\<close>

definition chat_with_tools ::
  "'s chat_env \<Rightarrow> chat_inputs \<Rightarrow> 's adapter resolved_model \<Rightarrow> chat_completion_request \<Rightarrow> string \<Rightarrow> string \<Rightarrow>
   's chat_gateway \<Rightarrow> (api_error, chat_outcome) result option \<times> 's chat_gateway" where
  "chat_with_tools env inp primary req model provider gw =
     (let (mcp_tools, reg) = all_tools (se_mcp (ce_stream env)) (cg_registry gw);
          req = snd (merge_agentic_tools mcp_tools (se_search (ce_stream env) \<noteq> None) req)
      in case agentic_execute (ce_loop env) (agent_of env primary) req (gw_world gw, reg) of
           (Inl e, s, reg) \<Rightarrow>
             (Some (Err e), on_metrics (record_request model provider ''error'' (ci_duration inp) \<circ>
                decrement_active model provider) (gw\<lparr>gw_world := s, cg_registry := reg\<rparr>))
         | (Inr (completion, total_usage), s, reg) \<Rightarrow>
             (let gw = gw\<lparr>gw_world := s, cg_registry := reg\<rparr>
              in case post_call (ce_overflow_checks env) (ce_moderation env) completion (ci_request_id inp) (cg_guardrails gw) of
                   None \<Rightarrow> (None, gw)
                 | Some (Inr (CR_Blocked result), _, go) \<Rightarrow>
                     (Some (Err (AE_ModerationBlocked (blocked_categories result))),
                      on_metrics (decrement_active model provider) (gw\<lparr>cg_guardrails := go\<rparr>))
                 | Some (Inl e, _, go) \<Rightarrow>
                     (Some (Err (AE_GuardrailsError e)),
                      on_metrics (decrement_active model provider) (gw\<lparr>cg_guardrails := go\<rparr>))
                 | Some (Inr CR_Allowed, completion, go) \<Rightarrow>
                     (case compute_cost (ge_decimal env) (ge_print env) (m_pricing (rm_model primary)) Chat total_usage of
                        None \<Rightarrow> (None, gw\<lparr>cg_guardrails := go\<rparr>)
                      | Some _ \<Rightarrow>
                          (Some (Ok \<lparr>co_response = ChatJson completion, co_usage = total_usage,
                             co_model_used = m_provider_model_id (rm_model primary),
                             co_pricing = m_pricing (rm_model primary), co_attempts = 1, co_fallback = False,
                             co_tool_calls = Some (length (completion_tool_calls completion)),
                             co_iteration = Some (al_max_iterations (ce_loop env))\<rparr>), gw\<lparr>cg_guardrails := go\<rparr>))))"

definition chat_with_fallback ::
  "'s chat_env \<Rightarrow> chat_inputs \<Rightarrow> chat_completion_request \<Rightarrow> string \<Rightarrow> string \<Rightarrow> 's chat_gateway \<Rightarrow>
     (api_error, chat_outcome) result option \<times> 's chat_gateway" where
  "chat_with_fallback env inp req model provider gw =
     (case call_chat_with_fallback (ci_chain inp) (ge_catalog env)
             (\<lambda>model_ref. call_chat_attempt (ge_router env) (ci_first inp model_ref) (ci_second inp model_ref)
                (ge_catalog env) (call_chat env (ci_stamp inp)) req model_ref)
             (cr_model req) (gw_balancer gw, gw_world gw, cg_registry gw) of
        (Inl e, lb, s, reg) \<Rightarrow>
          (Some (Err (map_provider_error e)),
           on_metrics (record_request model provider ''error'' (ci_duration inp) \<circ> decrement_active model provider)
             (gw\<lparr>gw_balancer := lb, gw_world := s, cg_registry := reg\<rparr>))
      | (Inr fr, lb, s, reg) \<Rightarrow>
          (Some (Ok \<lparr>co_response = fr_response fr, co_usage = fr_usage fr, co_model_used = fr_model_used fr,
             co_pricing = fr_model_pricing fr, co_attempts = fr_attempts_made fr,
             co_fallback = fr_fallback_triggered fr, co_tool_calls = None, co_iteration = None\<rparr>),
           gw\<lparr>gw_balancer := lb, gw_world := s, cg_registry := reg\<rparr>))"

definition chat_log_entry ::
  "chat_inputs \<Rightarrow> api_key \<Rightarrow> model \<Rightarrow> bool \<Rightarrow> chat_outcome \<Rightarrow> decimal option \<Rightarrow> request_log_entry" where
  "chat_log_entry inp key m streamed out cost =
     \<lparr>le_api_key_id = ak_id key, le_user_id = ak_user_id key, le_organization_id = ak_organization_id key,
      le_team_id = ak_team_id key, le_model = co_model_used out, le_provider = m_provider m,
      le_provider_model_id = m_provider_model_id m, le_capability = capability_as_str Chat,
      le_duration_ms = of_nat (in_elapsed_log inp), le_streamed = streamed, le_status = ''success'',
      le_cost_usd = cost, le_tags = extract_tags_from_header (ci_tags inp), le_attempt_number = co_attempts out,
      le_fallback_triggered = co_fallback out, le_tool_calls_count = co_tool_calls out,
      le_agentic_iteration = co_iteration out\<rparr>"

definition token_metrics :: "chat_outcome \<Rightarrow> metrics \<Rightarrow> metrics" where
  "token_metrics out mt =
     (let mt = (case ur_prompt_tokens (co_usage out) of
                  None \<Rightarrow> mt | Some t \<Rightarrow> record_tokens ''input'' (co_model_used out) (ucast t) mt)
      in case ur_completion_tokens (co_usage out) of
           None \<Rightarrow> mt | Some t \<Rightarrow> record_tokens ''output'' (co_model_used out) (ucast t) mt)"

definition finish_chat ::
  "'s chat_env \<Rightarrow> chat_inputs \<Rightarrow> api_key \<Rightarrow> model \<Rightarrow> string \<Rightarrow> string \<Rightarrow> bool \<Rightarrow> chat_outcome \<Rightarrow> 's chat_gateway \<Rightarrow>
     (api_error, chat_reply) result option \<times> 's chat_gateway" where
  "finish_chat env inp key m model provider streamed out gw =
     (let gw = on_metrics (token_metrics out \<circ> record_request (co_model_used out) provider ''success'' (ci_duration inp) \<circ>
            decrement_active model provider) gw
      in case compute_cost (ge_decimal env) (ge_print env) (co_pricing out) Chat (co_usage out) of
           None \<Rightarrow> (None, gw)
         | Some cost \<Rightarrow>
             (Some (Ok (co_response out)), spawn_request_log (chat_log_entry inp key m streamed out cost) gw))"

text \<open>The part of the handler in which the request is counted as active.\<close>

definition active_chat ::
  "'s chat_env \<Rightarrow> chat_inputs \<Rightarrow> api_key \<Rightarrow> 's adapter resolved_model \<Rightarrow> chat_completion_request \<Rightarrow> string \<Rightarrow> string \<Rightarrow>
   bool \<Rightarrow> 's chat_gateway \<Rightarrow> (api_error, chat_reply) result option \<times> 's chat_gateway" where
  "active_chat env inp key primary req model provider has_tools gw =
     (let streamed = cr_stream req = Some True;
          gw = on_metrics (increment_active model provider) gw
      in case (if has_tools \<and> \<not> streamed then chat_with_tools env inp primary req model provider gw
               else chat_with_fallback env inp req model provider gw) of
           (None, gw) \<Rightarrow> (None, gw)
         | (Some (Inl e), gw) \<Rightarrow> (Some (Err e), gw)
         | (Some (Inr out), gw) \<Rightarrow> finish_chat env inp key (rm_model primary) model provider streamed out gw)"

text \<open>The guardrails before the call; a blocked request shows as active for an instant.\<close>

definition guarded_chat ::
  "'s chat_env \<Rightarrow> chat_inputs \<Rightarrow> api_key \<Rightarrow> 's adapter resolved_model \<Rightarrow> chat_completion_request \<Rightarrow> 's chat_gateway \<Rightarrow>
     (api_error, chat_reply) result option \<times> 's chat_gateway" where
  "guarded_chat env inp key primary req gw =
     (let model = cr_model req; provider = m_provider (rm_model primary);
          has_tools = unwrap_or [] (cr_tools req) \<noteq> [];
          blip = on_metrics (decrement_active model provider \<circ> increment_active model provider)
      in case pre_call (ce_overflow_checks env) (ce_moderation env) req (ci_request_id inp) (cg_guardrails gw) of
           None \<Rightarrow> (None, gw)
         | Some (Inr (CR_Blocked result), _, go) \<Rightarrow>
             (Some (Err (AE_ModerationBlocked (blocked_categories result))), blip (gw\<lparr>cg_guardrails := go\<rparr>))
         | Some (Inl e, _, go) \<Rightarrow> (Some (Err (AE_GuardrailsError e)), blip (gw\<lparr>cg_guardrails := go\<rparr>))
         | Some (Inr CR_Allowed, req, go) \<Rightarrow>
             active_chat env inp key primary req model provider has_tools (gw\<lparr>cg_guardrails := go\<rparr>))"

text \<open>The body arrives or not; a body that does not arrive or is not a chat request panics the handler.\<close>

definition chat_completions ::
  "'s chat_env \<Rightarrow> chat_inputs \<Rightarrow> api_key \<Rightarrow> (string, string) result \<Rightarrow> 's chat_gateway \<Rightarrow>
     (api_error, chat_reply) result option \<times> 's chat_gateway" where
  "chat_completions env inp key body gw =
     (case (case body of Inl _ \<Rightarrow> None | Inr bytes \<Rightarrow> ce_de_request env bytes) of
        None \<Rightarrow> (None, gw)
      | Some req \<Rightarrow>
          (case proxy_resolve (gateway_env.truncate env) (in_attempt inp 0) (cr_model req) Chat gw of
             (Inl e, gw) \<Rightarrow> (Some (Err (api_error_from e)), gw)
           | (Inr primary, gw) \<Rightarrow>
               (case admit (gateway_env.truncate env) (request_inputs.truncate inp) key (rm_model primary)
                       (estimate_request_tokens req) gw of
                  (Inl e, gw) \<Rightarrow> (Some (Err e), release primary gw)
                | (Inr _, gw) \<Rightarrow>
                    (case guarded_chat env inp key primary req gw of (r, gw) \<Rightarrow> (r, release primary gw)))))"

section \<open>What a chat request changes\<close>

lemma call_chat_attempt_flights:
  assumes "call_chat_attempt ro f1 f2 ct call req model_ref (lb, s) = (r, lb', s')"
  shows "lb_in_flight (lb_view lb' k) = lb_in_flight (lb_view lb k)"
proof -
  obtain r1 lb1 where r1: "resolve ro f1 f2 model_ref Chat ct lb = (r1, lb1)" by fastforce
  have v: "lb_in_flight (lb_view lb1 k) = lb_in_flight (lb_view lb k) +
      (case r1 of Inl _ \<Rightarrow> 0 | Inr rm \<Rightarrow> if rm_in_flight rm = Some k then 1 else 0)"
    using r1 by (cases rule: resolve_cases; cases r1) (auto dest: resolve_finish_Ok resolve_finish_Err [where k = k])
  show ?thesis
  proof (cases r1)
    case (Inl e)
    then show ?thesis using assms r1 v by (simp add: call_chat_attempt_def)
  next
    case (Inr rm)
    then show ?thesis using assms r1 v
      by (auto simp: call_chat_attempt_def drop_guard_view split: prod.splits option.splits)
  qed
qed

lemma fallback_loop_keeps:
  assumes "\<And>m s r s'. attempt m s = (r, s') \<Longrightarrow> P s \<Longrightarrow> P s'" "P s"
    and "fallback_loop attempt n ms i err s = (r, s')"
  shows "P s'"
  using assms(2,3)
proof (induction ms arbitrary: i err s)
  case (Cons m ms)
  obtain r1 s1 where a: "attempt m s = (r1, s1)" by fastforce
  then have "P s1" using assms(1) Cons.prems(1) by blast
  then show ?case using Cons a by (cases r1) (auto simp: Let_def split: if_splits prod.splits)
qed simp

lemma chat_fallback_flights:
  assumes "call_chat_with_fallback flt ct (\<lambda>m. call_chat_attempt ro (f1 m) (f2 m) ct call req m) m0 (lb, s) = (r, lb', s')"
  shows "lb_in_flight (lb_view lb' k) = lb_in_flight (lb_view lb k)"
proof -
  let ?P = "\<lambda>st :: load_balancer \<times> _. lb_in_flight (lb_view (fst st) k) = lb_in_flight (lb_view lb k)"
  have step: "?P st'" if "call_chat_attempt ro (f1 m) (f2 m) ct call req m st = (r', st')" "?P st" for m st r' st'
    using that call_chat_attempt_flights [of ro "f1 m" "f2 m" ct call req m "fst st" "snd st" r' "fst st'" "snd st'" k] by simp
  have "?P (lb', s')"
    by (rule fallback_loop_keeps [where P = ?P, OF step _ assms [unfolded call_chat_with_fallback_def Let_def]]) simp_all
  then show ?thesis by simp
qed

lemma on_metrics_frame [simp]:
  "gw_balancer (on_metrics f gw) = gw_balancer gw" "gw_world (on_metrics f gw) = gw_world gw"
  "gw_spawned (on_metrics f gw) = gw_spawned gw" "cg_metrics (on_metrics f gw) = f (cg_metrics gw)"
  "flights (on_metrics f gw) k = flights gw k"
  by (simp_all add: on_metrics_def flights_def)

lemma flights_upd_chat [simp]:
  "flights (gw\<lparr>cg_registry := reg\<rparr>) k = flights gw k" "flights (gw\<lparr>cg_guardrails := go\<rparr>) k = flights gw k"
  by (simp_all add: flights_def)

definition active :: "'s chat_gateway \<Rightarrow> string \<times> string \<Rightarrow> int" where
  "active gw = mt_active (cg_metrics gw)"

text \<open>
  The two ways of answering: the in-flight counts and the log stay as they are; the request is
  taken off the active ones if it failed, and is still counted if it was answered.
\<close>

definition answered_frame ::
  "string \<Rightarrow> string \<Rightarrow> 's chat_gateway \<Rightarrow> (api_error, chat_outcome) result option \<times> 's chat_gateway \<Rightarrow> bool" where
  "answered_frame model provider gw res \<longleftrightarrow>
     (\<forall>k. flights (snd res) k = flights gw k) \<and> gw_spawned (snd res) = gw_spawned gw \<and>
     (case fst res of
        None \<Rightarrow> active (snd res) = active gw
      | Some (Inl _) \<Rightarrow> active (snd res) = (active gw)((model, provider) := active gw (model, provider) - 1)
      | Some (Inr _) \<Rightarrow> active (snd res) = active gw)"

lemma active_simps' [simp]:
  "active (gw\<lparr>gw_world := w\<rparr>) = active gw" "active (gw\<lparr>cg_registry := reg\<rparr>) = active gw"
  "active (gw\<lparr>cg_guardrails := go\<rparr>) = active gw" "active (gw\<lparr>gw_balancer := lb\<rparr>) = active gw"
  "active (gw\<lparr>gw_spawned := ls\<rparr>) = active gw"
  "active (on_metrics f gw) = mt_active (f (cg_metrics gw))"
  by (simp_all add: active_def)

lemma decrement_active_active:
  "mt_active (decrement_active m p mt) = (mt_active mt)((m, p) := mt_active mt (m, p) - 1)"
  "mt_active (increment_active m p mt) = (mt_active mt)((m, p) := mt_active mt (m, p) + 1)"
  by (simp_all add: decrement_active_def increment_active_def)

text \<open>The four answers of the guardrails.\<close>

lemma call_result_cases:
  obtains (panic) "r = None"
  | (error) e c go where "r = Some (Inl e, c, go)"
  | (blocked) m c go where "r = Some (Inr (CR_Blocked m), c, go)"
  | (allowed) c go where "r = Some (Inr CR_Allowed, c, go)"
proof (cases r)
  case (Some t)
  obtain x c go where t: "t = (x, c, go)" by (rule prod_cases3)
  show ?thesis
  proof (cases x)
    case (Inr y)
    then show ?thesis using Some t blocked allowed by (cases y) auto
  qed (use Some t error in auto)
qed (rule panic)

lemma chat_with_tools_frame:
  "answered_frame model provider gw (chat_with_tools env inp primary req model provider gw)"
proof -
  obtain tools reg0 where t: "all_tools (se_mcp (ce_stream env)) (cg_registry gw) = (tools, reg0)" by fastforce
  let ?req = "snd (merge_agentic_tools tools (se_search (ce_stream env) \<noteq> None) req)"
  obtain r s reg where a: "agentic_execute (ce_loop env) (agent_of env primary) ?req (gw_world gw, reg0) = (r, s, reg)"
    by (rule prod_cases3)
  let ?gw = "gw\<lparr>gw_world := s, cg_registry := reg\<rparr>"
  show ?thesis
  proof (cases r)
    case (Inl e)
    then show ?thesis
      by (simp add: chat_with_tools_def t a answered_frame_def decrement_active_active active_def del: not_None_eq)
  next
    case (Inr cu)
    obtain c u where cu: "cu = (c, u)" by fastforce
    note defs = chat_with_tools_def t a Inr cu answered_frame_def decrement_active_active active_def Let_def
    show ?thesis
    proof (cases "post_call (ce_overflow_checks env) (ce_moderation env) c (ci_request_id inp) (cg_guardrails ?gw)"
        rule: call_result_cases)
      case (allowed c' go)
      then show ?thesis
        by (cases "compute_cost (ge_decimal env) (ge_print env) (m_pricing (rm_model primary)) Chat u") (simp_all add: defs del: not_None_eq)
    qed (simp_all add: defs del: not_None_eq)
  qed
qed

lemma chat_with_fallback_frame:
  "answered_frame model provider gw (chat_with_fallback env inp req model provider gw)"
proof -
  obtain r lb s reg where c: "call_chat_with_fallback (ci_chain inp) (ge_catalog env)
      (\<lambda>m. call_chat_attempt (ge_router env) (ci_first inp m) (ci_second inp m) (ge_catalog env)
         (call_chat env (ci_stamp inp)) req m) (cr_model req) (gw_balancer gw, gw_world gw, cg_registry gw) = (r, lb, s, reg)"
    by (rule prod_cases4)
  have "flights (gw\<lparr>gw_balancer := lb, gw_world := s, cg_registry := reg\<rparr>) k = flights gw k" for k
    using chat_fallback_flights [OF c, of k] by (simp add: flights_def)
  then show ?thesis
    by (cases r) (simp_all add: chat_with_fallback_def c answered_frame_def decrement_active_active active_def)
qed

text \<open>
  A request that was not lost in a panic has left the active ones, and the log has one row more
  exactly if it was answered.
\<close>

definition chat_frame ::
  "'s chat_env \<Rightarrow> chat_inputs \<Rightarrow> api_key \<Rightarrow> model \<Rightarrow> 's chat_gateway \<Rightarrow>
     (api_error, chat_reply) result option \<times> 's chat_gateway \<Rightarrow> bool" where
  "chat_frame env inp key m gw res \<longleftrightarrow>
     (\<forall>k. flights (snd res) k = flights gw k) \<and>
     (fst res \<noteq> None \<longrightarrow> active (snd res) = active gw) \<and>
     (case fst res of
        Some (Inr reply) \<Rightarrow> \<exists>streamed out cost. co_response out = reply \<and>
          compute_cost (ge_decimal env) (ge_print env) (co_pricing out) Chat (co_usage out) = Some cost \<and>
          gw_spawned (snd res) = gw_spawned gw @ [chat_log_entry inp key m streamed out cost]
      | _ \<Rightarrow> gw_spawned (snd res) = gw_spawned gw)"

lemma token_metrics_active [simp]: "mt_active (token_metrics out mt) = mt_active mt"
  by (simp add: token_metrics_def Let_def split: option.split)

lemma finish_chat_frame:
  assumes "active gw = (active gw0)((model, provider) := active gw0 (model, provider) + 1)"
    and "\<And>k. flights gw k = flights gw0 k" "gw_spawned gw = gw_spawned gw0"
  shows "chat_frame env inp key m gw0 (finish_chat env inp key m model provider streamed out gw)"
proof -
  have act: "mt_active (decrement_active model provider (cg_metrics gw)) = active gw0"
    using assms(1) by (simp add: decrement_active_active active_def)
  show ?thesis
  proof (cases "compute_cost (ge_decimal env) (ge_print env) (co_pricing out) Chat (co_usage out)")
    case None
    then show ?thesis using assms(2,3) by (simp add: finish_chat_def chat_frame_def)
  next
    case (Some cost)
    then show ?thesis using assms(2,3) act
      by (auto simp: finish_chat_def chat_frame_def spawn_request_log_def Let_def)
  qed
qed

lemma active_chat_frame: "chat_frame env inp key (rm_model primary) gw (active_chat env inp key primary req model provider has_tools gw)"
proof -
  let ?gw1 = "on_metrics (increment_active model provider) gw"
  define res where "res = (if has_tools \<and> \<not> cr_stream req = Some True
    then chat_with_tools env inp primary req model provider ?gw1
    else chat_with_fallback env inp req model provider ?gw1)"
  obtain r gw2 where res2: "res = (r, gw2)" by fastforce
  have f: "answered_frame model provider ?gw1 (r, gw2)"
    unfolding res2 [symmetric] res_def by (simp add: chat_with_tools_frame chat_with_fallback_frame)
  have act: "active ?gw1 = (active gw)((model, provider) := active gw (model, provider) + 1)"
    by (simp add: decrement_active_active active_def)
  have run: "active_chat env inp key primary req model provider has_tools gw = (case (r, gw2) of
      (None, gw) \<Rightarrow> (None, gw)
    | (Some (Inl e), gw) \<Rightarrow> (Some (Err e), gw)
    | (Some (Inr out), gw) \<Rightarrow>
        finish_chat env inp key (rm_model primary) model provider (cr_stream req = Some True) out gw)"
    unfolding active_chat_def Let_def res2 [symmetric] res_def by simp
  show ?thesis
  proof (cases r)
    case None
    then show ?thesis using f run by (simp add: answered_frame_def chat_frame_def)
  next
    case (Some x)
    show ?thesis
    proof (cases x)
      case (Inl e)
      then show ?thesis using f run Some act by (simp add: answered_frame_def chat_frame_def del: active_simps'(6))
    next
      case (Inr out)
      have "chat_frame env inp key (rm_model primary) gw
          (finish_chat env inp key (rm_model primary) model provider (cr_stream req = Some True) out gw2)"
        using f Some Inr act by (intro finish_chat_frame) (simp_all add: answered_frame_def del: active_simps'(6))
      then show ?thesis using run Some Inr by simp
    qed
  qed
qed

lemma chat_frame_cong:
  assumes "\<And>k. flights a k = flights b k" "active a = active b" "gw_spawned a = gw_spawned b"
  shows "chat_frame env inp key m a res = chat_frame env inp key m b res"
  unfolding chat_frame_def assms by (rule refl)

lemma guarded_chat_frame: "chat_frame env inp key (rm_model primary) gw (guarded_chat env inp key primary req gw)"
proof (cases "pre_call (ce_overflow_checks env) (ce_moderation env) req (ci_request_id inp) (cg_guardrails gw)"
    rule: call_result_cases)
  case (allowed req' go)
  show ?thesis
    using active_chat_frame [of env inp key primary "gw\<lparr>cg_guardrails := go\<rparr>" req' "cr_model req"
        "m_provider (rm_model primary)" "unwrap_or [] (cr_tools req) \<noteq> []"]
      chat_frame_cong [of "gw\<lparr>cg_guardrails := go\<rparr>" gw env inp key "rm_model primary"]
    by (simp add: guarded_chat_def allowed Let_def)
qed (simp_all add: guarded_chat_def chat_frame_def Let_def active_def)

lemma chat_resolve_frame:
  fixes gw gw' :: "'s chat_gateway"
  assumes "proxy_resolve env ai model_ref cap gw = (r, gw')"
  shows "cg_metrics gw' = cg_metrics gw" "cg_guardrails gw' = cg_guardrails gw" "cg_registry gw' = cg_registry gw"
  using assms by (auto simp: proxy_resolve_def split: prod.splits)

lemma chat_admit_frame:
  fixes gw gw' :: "'s chat_gateway"
  assumes "admit env inp key m n gw = (r, gw')"
  shows "cg_metrics gw' = cg_metrics gw" "cg_guardrails gw' = cg_guardrails gw" "cg_registry gw' = cg_registry gw"
proof -
  obtain r1 gw1 where c: "check_rate_limit env (in_attempt inp 0) key m n gw = (r1, gw1)" by fastforce
  have "gw' = gw1" using assms c by (cases r1) (simp_all add: admit_def)
  then show "cg_metrics gw' = cg_metrics gw" "cg_guardrails gw' = cg_guardrails gw" "cg_registry gw' = cg_registry gw"
    using c by (auto simp: check_rate_limit_def split: sum.splits prod.splits)
qed

lemma release_chat [simp]:
  "cg_metrics (release rm gw) = cg_metrics gw"
  by (simp add: release_def split: option.split)

lemma active_release [simp]: "active (release rm gw) = active gw"
  by (simp add: active_def)

text \<open>Either the request was turned away before any model was called, or every check passed.\<close>

lemma chat_completions_cases:
  assumes "chat_completions env inp key body gw = (r, gw')"
  obtains (refused) "\<And>v. r \<noteq> Some (Ok v)" "\<And>k. flights gw' k = flights gw k" "active gw' = active gw"
      "gw_world gw' = gw_world gw" "gw_spawned gw' = gw_spawned gw"
  | (admitted) bytes req primary gw1 gw2 gw3 where "body = Ok bytes" "ce_de_request env bytes = Some req"
      "proxy_resolve (gateway_env.truncate env) (in_attempt inp 0) (cr_model req) Chat gw = (Ok primary, gw1)"
      "admit (gateway_env.truncate env) (request_inputs.truncate inp) key (rm_model primary)
         (estimate_request_tokens req) gw1 = (Ok (), gw2)"
      "guarded_chat env inp key primary req gw2 = (r, gw3)" "gw' = release primary gw3"
proof (cases "case body of Inl _ \<Rightarrow> None | Inr bytes \<Rightarrow> ce_de_request env bytes")
  case None
  then show ?thesis using assms by (intro refused) (auto simp: chat_completions_def)
next
  case (Some req)
  then obtain bytes where b: "body = Ok bytes" "ce_de_request env bytes = Some req" by (auto split: sum.splits)
  obtain r1 gw1 where r1: "proxy_resolve (gateway_env.truncate env) (in_attempt inp 0) (cr_model req) Chat gw = (r1, gw1)"
    by fastforce
  note f1 = proxy_resolve_frame [OF r1] chat_resolve_frame [OF r1]
  show ?thesis
  proof (cases r1)
    case (Inl e)
    then have "r = Some (Err (api_error_from e))" "gw' = gw1"
      using assms b r1 by (simp_all add: chat_completions_def)
    then show ?thesis using f1 Inl by (intro refused) (simp_all add: active_def)
  next
    case p: (Inr primary)
    obtain r2 gw2 where r2: "admit (gateway_env.truncate env) (request_inputs.truncate inp) key (rm_model primary)
         (estimate_request_tokens req) gw1 = (r2, gw2)" by fastforce
    note f2 = admit_frame [OF r2] chat_admit_frame [OF r2]
    show ?thesis
    proof (cases r2)
      case (Inl e)
      then have "r = Some (Err e)" "gw' = release primary gw2"
        using assms b r1 p r2 by (simp_all add: chat_completions_def)
      then show ?thesis using f1 f2 p by (intro refused) (simp_all add: active_def)
    next
      case (Inr u)
      obtain r3 gw3 where r3: "guarded_chat env inp key primary req gw2 = (r3, gw3)" by fastforce
      then have "r = r3" "gw' = release primary gw3"
        using assms b r1 p r2 Inr by (simp_all add: chat_completions_def)
      then show ?thesis using admitted [OF b] r1 p r2 Inr r3 by simp
    qed
  qed
qed

lemma chat_completions_frame:
  assumes "chat_completions env inp key body gw = (r, gw')"
  shows "(\<forall>k. flights gw' k = flights gw k) \<and> (r \<noteq> None \<longrightarrow> active gw' = active gw)"
  using assms
proof (cases rule: chat_completions_cases)
  case (admitted bytes req primary gw1 gw2 gw3)
  note f1 = proxy_resolve_frame [OF admitted(3)] chat_resolve_frame [OF admitted(3)]
  note f2 = admit_frame [OF admitted(4)] chat_admit_frame [OF admitted(4)]
  have f3: "chat_frame env inp key (rm_model primary) gw2 (r, gw3)"
    using guarded_chat_frame [of env inp key primary gw2 req] admitted(5) by simp
  have "flights gw' k = flights gw k" for k
    using f1(1) [of k] f2(1) [of k] f3 admitted(6) by (simp add: chat_frame_def)
  moreover have "active gw2 = active gw" using f1(5) f2(2) by (simp add: active_def)
  ultimately show ?thesis using f3 admitted(6) by (simp add: chat_frame_def)
qed simp

text \<open>Nothing outside was touched and nothing queued for the log, or the request passed every check.\<close>

lemma chat_admission:
  "gw_world (snd (chat_completions env inp key body gw)) = gw_world gw \<and>
   gw_spawned (snd (chat_completions env inp key body gw)) = gw_spawned gw \<or>
   (\<exists>bytes req primary gw1 gw2 req' go. body = Ok bytes \<and> ce_de_request env bytes = Some req \<and>
      proxy_resolve (gateway_env.truncate env) (in_attempt inp 0) (cr_model req) Chat gw = (Ok primary, gw1) \<and>
      check_rate_limit (gateway_env.truncate env) (in_attempt inp 0) key (rm_model primary)
        (estimate_request_tokens req) gw1 = (Ok (), gw2) \<and>
      check_user_budget (gateway_env.truncate env) (in_user_budget inp) key = Ok () \<and>
      check_key_team_budget (gateway_env.truncate env) (in_team_budget inp) key = Ok () \<and>
      pre_call (ce_overflow_checks env) (ce_moderation env) req (ci_request_id inp) (cg_guardrails gw) =
        Some (Ok CR_Allowed, req', go))"
proof -
  obtain r gw' where c: "chat_completions env inp key body gw = (r, gw')" by fastforce
  then show ?thesis
  proof (cases rule: chat_completions_cases)
    case refused
    then show ?thesis using c by simp
  next
    case (admitted bytes req primary gw1 gw2 gw3)
    note f1 = proxy_resolve_frame [OF admitted(3)] chat_resolve_frame [OF admitted(3)]
    note f2 = admit_frame [OF admitted(4)] chat_admit_frame [OF admitted(4)]
    note ok = admit_Ok [OF admitted(4)]
    have g: "cg_guardrails gw2 = cg_guardrails gw" and w: "gw_world gw2 = gw_world gw" "gw_spawned gw2 = gw_spawned gw" using f1 f2 by simp_all
    show ?thesis
    proof (cases "pre_call (ce_overflow_checks env) (ce_moderation env) req (ci_request_id inp) (cg_guardrails gw)"
        rule: call_result_cases)
      case (allowed req' go)
      then show ?thesis using admitted(1-3) ok
        by (auto simp: request_inputs.truncate_def)
    qed (use admitted(5,6) c g w in \<open>auto simp: guarded_chat_def Let_def\<close>)
  qed
qed

text \<open>The row a request queues.\<close>

lemma chat_logged_row:
  "case fst (chat_completions env inp key body gw) of
     Some (Inr reply) \<Rightarrow> \<exists>m streamed out cost. co_response out = reply \<and>
       compute_cost (ge_decimal env) (ge_print env) (co_pricing out) Chat (co_usage out) = Some cost \<and>
       gw_spawned (snd (chat_completions env inp key body gw)) =
         gw_spawned gw @ [chat_log_entry inp key m streamed out cost]
   | _ \<Rightarrow> gw_spawned (snd (chat_completions env inp key body gw)) = gw_spawned gw"
proof -
  obtain r gw' where c: "chat_completions env inp key body gw = (r, gw')" by fastforce
  then show ?thesis
  proof (cases rule: chat_completions_cases)
    case refused
    then show ?thesis unfolding c by (auto split: option.split sum.split)
  next
    case (admitted bytes req primary gw1 gw2 gw3)
    have s: "gw_spawned gw2 = gw_spawned gw"
      using proxy_resolve_frame [OF admitted(3)] admit_frame [OF admitted(4)] by simp
    have f: "chat_frame env inp key (rm_model primary) gw2 (r, gw3)"
      using guarded_chat_frame [of env inp key primary gw2 req] admitted(5) by simp
    show ?thesis
    proof (cases "\<exists>reply. r = Some (Inr reply)")
      case True
      then show ?thesis using f s admitted(6) unfolding c by (auto simp: chat_frame_def) blast
    next
      case False
      then show ?thesis using f s admitted(6) unfolding c
        by (auto simp: chat_frame_def split: option.splits sum.splits)
    qed
  qed
qed

section \<open>Properties\<close>

text \<open>
  C15. Whatever becomes of a chat request, panics included, every in-flight count is afterwards what
  it was before; and unless the handler panicked, so is every gauge of active requests.
\<close>

theorem chat_counts_balanced:
  "lb_in_flight (lb_view (gw_balancer (snd (chat_completions env inp key body gw))) k) =
     lb_in_flight (lb_view (gw_balancer gw) k) \<and>
   (fst (chat_completions env inp key body gw) = None \<or>
    mt_active (cg_metrics (snd (chat_completions env inp key body gw))) = mt_active (cg_metrics gw))"
  using chat_completions_frame [of env inp key body gw "fst (chat_completions env inp key body gw)"
      "snd (chat_completions env inp key body gw)"]
  by (auto simp: flights_def active_def)

text \<open>
  A chat request reaches a provider only if it is well formed, its model resolves, the rate
  limits admit its estimated tokens, neither budget is used up, and the guardrails allow it.
\<close>

lemma chat_gate:
  "gw_world (snd (chat_completions env inp key body gw)) = gw_world gw \<or>
   (\<exists>bytes req primary gw1 gw2 req' go. body = Ok bytes \<and> ce_de_request env bytes = Some req \<and>
      proxy_resolve (gateway_env.truncate env) (in_attempt inp 0) (cr_model req) Chat gw = (Ok primary, gw1) \<and>
      check_rate_limit (gateway_env.truncate env) (in_attempt inp 0) key (rm_model primary)
        (estimate_request_tokens req) gw1 = (Ok (), gw2) \<and>
      check_user_budget (gateway_env.truncate env) (in_user_budget inp) key = Ok () \<and>
      check_key_team_budget (gateway_env.truncate env) (in_team_budget inp) key = Ok () \<and>
      pre_call (ce_overflow_checks env) (ce_moderation env) req (ci_request_id inp) (cg_guardrails gw) =
        Some (Ok CR_Allowed, req', go))"
  using chat_admission [of env inp key body gw] by blast


text \<open>The answer of the tool loop is handled while the request counts as active: a panic there leaves it counted.\<close>

lemma tool_answer_panic_leaks_active:
  assumes "fst (chat_with_tools env inp primary req model provider (on_metrics (increment_active model provider) gw)) = None"
    and "cr_stream req \<noteq> Some True"
  shows "active (snd (active_chat env inp key primary req model provider True gw)) (model, provider) =
    active gw (model, provider) + 1"
proof -
  let ?gw = "on_metrics (increment_active model provider) gw"
  obtain gw2 where c: "chat_with_tools env inp primary req model provider ?gw = (None, gw2)"
    using assms(1) by (cases "chat_with_tools env inp primary req model provider ?gw") auto
  have "active gw2 = active ?gw"
    using chat_with_tools_frame [of model provider ?gw env inp primary req] c by (simp add: answered_frame_def)
  then show ?thesis using c assms(2)
    by (simp add: active_chat_def decrement_active_active active_def)
qed

section \<open>The OpenAI stream on the wire\<close>

text \<open>
  The SSE response writes the payload of an event after \<open>data: \<close>, closed by an empty line; this is
  documented for a payload of one line.
\<close>

definition sse_documented :: "(string \<Rightarrow> string) \<Rightarrow> bool" where
  "sse_documented encode \<longleftrightarrow> (\<forall>d. nl \<notin> set d \<longrightarrow> encode d = ''data: '' @ d @ [nl, nl])"

text \<open>
  With OpenAI streaming enabled the payload handed to the SSE response is already rendered, so
  every frame of the translated stream goes out with its prefix doubled: \<open>data: data: \<close>.
\<close>

lemma openai_wire_prefix_doubled:
  assumes "sse_documented encode" "openai_push (se_parse env) (se_print env) ev t = (frames, t')"
    and "SF_Data d \<in> set frames" "nl \<notin> set d"
  shows "''data: data: '' @ d @ [nl, nl] \<in> encode ` set (openai_wire_events env [Inr ev] t)"
proof -
  have "frame_render (SF_Data d) \<in> set (openai_wire_events env [Inr ev] t)"
    using assms(2,3) by (simp del: frame_render.simps)
  moreover have "encode (frame_render (SF_Data d)) = ''data: data: '' @ d @ [nl, nl]"
    using assms(1,4) by (simp add: sse_documented_def)
  ultimately show ?thesis by (metis imageI)
qed

theorem openai_wire_prefix_doubled_witness:
  "''data: data: '' @ ''{}'' @ [nl, nl] \<in> (\<lambda>d. ''data: '' @ d @ [nl, nl]) `
     set (openai_wire_events \<lparr>se_parse = (\<lambda>_. None), se_print = (\<lambda>_. ''{}''), se_ser = (\<lambda>_. JNull),
       se_mcp = no_servers, se_search = None\<rparr> [Inr ''hello''] (ot_new ''id'' ''m'' 0))"
proof -
  let ?env = "\<lparr>se_parse = (\<lambda>_. None), se_print = (\<lambda>_. ''{}''), se_ser = (\<lambda>_. JNull), se_mcp = no_servers, se_search = None\<rparr>"
  obtain frames t' where p: "openai_push (se_parse ?env) (se_print ?env) ''hello'' (ot_new ''id'' ''m'' 0) = (frames, t')"
    by fastforce
  then have "SF_Data ''{}'' \<in> set frames"
    by (auto simp: openai_push_def ot_new_def openai_opening_def openai_chunk_def Let_def)
  with openai_wire_prefix_doubled [OF _ p, of "\<lambda>d. ''data: '' @ d @ [nl, nl]" "''{}''"] show ?thesis
    by (simp add: sse_documented_def)
qed

end
