(* ===== verification/Wire_Json.thy ===== *)
theory Wire_Json
  imports Core_Types "HOL-Library.Monad_Syntax"
begin

text \<open>
  The JSON forms of the types of \<open>crates/godwit-core/src/lib.rs\<close>: what the derived
  \<open>Serialize\<close> and \<open>Deserialize\<close> of each struct and enum write and accept, attribute by
  attribute. A reader gives \<open>None\<close> where \<open>serde\<close> gives an error. A struct is read from an object,
  unknown members ignored, or from an array of its fields in order; a missing or null optional
  field is \<open>None\<close>. The locale \<open>wire_codec\<close> states the round trip of one type; lists and optional
  fields inherit it.
\<close>

section \<open>Readers\<close>

definition de_string :: "json \<Rightarrow> string option" where
  "de_string = as_str"

definition de_bool :: "json \<Rightarrow> bool option" where
  "de_bool = as_bool"

fun de_i32 :: "json \<Rightarrow> i32 option" where
  "de_i32 (JInt i) = (if - (2 ^ 31) \<le> i \<and> i < 2 ^ 31 then Some (word_of_int i) else None)"
| "de_i32 _ = None"

definition de_i64 :: "json \<Rightarrow> i64 option" where
  "de_i64 = as_i64"

text \<open>A single-precision number is read as a double and rounded to 24 significant bits.\<close>

definition f32_round :: "rat \<Rightarrow> f32" where
  "f32_round x =
     (if x = 0 then 0
      else let u = 2 powi (ilog2 \<bar>x\<bar> - 23) in u * of_int (round_half_even (x / u)))"

definition de_f32 :: "json \<Rightarrow> f32 option" where
  "de_f32 v = map_option f32_round (as_f64 v)"

definition de_value :: "json \<Rightarrow> json option" where
  "de_value v = Some v"

fun de_all :: "(json \<Rightarrow> 'a option) \<Rightarrow> json list \<Rightarrow> 'a list option" where
  "de_all de [] = Some []"
| "de_all de (v # vs) = do { x \<leftarrow> de v; xs \<leftarrow> de_all de vs; Some (x # xs) }"

fun de_list :: "(json \<Rightarrow> 'a option) \<Rightarrow> json \<Rightarrow> 'a list option" where
  "de_list de (JArray vs) = de_all de vs"
| "de_list de _ = None"

type_synonym fields = "string \<Rightarrow> json option"

fun de_struct :: "string list \<Rightarrow> json \<Rightarrow> fields option" where
  "de_struct names (JObject m) = Some (map_of m)"
| "de_struct names (JArray vs) =
     (if length vs = length names then Some (map_of (zip names vs)) else None)"
| "de_struct names _ = None"

definition req :: "(json \<Rightarrow> 'a option) \<Rightarrow> fields \<Rightarrow> string \<Rightarrow> 'a option" where
  "req de f k = Option.bind (f k) de"

definition de_opt :: "(json \<Rightarrow> 'a option) \<Rightarrow> json \<Rightarrow> 'a option option" where
  "de_opt de v = (if v = JNull then Some None else map_option Some (de v))"

definition opt :: "(json \<Rightarrow> 'a option) \<Rightarrow> fields \<Rightarrow> string \<Rightarrow> 'a option option" where
  "opt de f k =
     (case f k of None \<Rightarrow> Some None | Some v \<Rightarrow> de_opt de v)"

section \<open>Writers\<close>

definition ser_i32 :: "i32 \<Rightarrow> json" where
  "ser_i32 w = JInt (sint w)"

definition ser_i64 :: "i64 \<Rightarrow> json" where
  "ser_i64 w = JInt (sint w)"

definition ser_list :: "('a \<Rightarrow> json) \<Rightarrow> 'a list \<Rightarrow> json" where
  "ser_list ser xs = JArray (map ser xs)"

text \<open>An optional field without attribute is null when absent; with
  \<open>skip_serializing_if = "Option::is_none"\<close> it is left out.\<close>

fun ser_opt :: "('a \<Rightarrow> json) \<Rightarrow> 'a option \<Rightarrow> json" where
  "ser_opt ser None = JNull"
| "ser_opt ser (Some x) = ser x"

fun skip_none :: "string \<Rightarrow> ('a \<Rightarrow> json) \<Rightarrow> 'a option \<Rightarrow> (string \<times> json) list" where
  "skip_none k ser None = []"
| "skip_none k ser (Some x) = [(k, ser x)]"

section \<open>Round trips\<close>

locale wire_codec =
  fixes ser :: "'a \<Rightarrow> json"
    and de :: "json \<Rightarrow> 'a option"
    and ok :: "'a \<Rightarrow> bool"
  assumes de_ser: "ok x \<Longrightarrow> de (ser x) = Some x"
    and ser_value: "ok x \<Longrightarrow> ser x \<noteq> JNull"
begin

lemma de_all_ser: "list_all ok xs \<Longrightarrow> de_all de (map ser xs) = Some xs"
  by (induction xs) (simp_all add: de_ser)

lemma de_list_ser: "list_all ok xs \<Longrightarrow> de_list de (ser_list ser xs) = Some xs"
  by (simp add: ser_list_def de_all_ser)

lemma opt_ser:
  "pred_option ok x \<Longrightarrow> de_opt de (ser_opt ser x) = Some x"
  by (cases x) (simp_all add: de_opt_def de_ser ser_value)

lemma opt_list_ser:
  "pred_option (list_all ok) x \<Longrightarrow> de_opt (de_list de) (ser_opt (ser_list ser) x) = Some x"
  by (cases x) (simp_all add: de_opt_def de_all_ser ser_list_def)

end

abbreviation any :: "'a \<Rightarrow> bool" where
  "any \<equiv> \<lambda>_. True"

lemma pred_any [simp]: "pred_option any x" "list_all any xs" "pred_option (list_all any) y"
  by (simp_all add: option.pred_True list.pred_True)

interpretation str_wire: wire_codec JString de_string any
  by unfold_locales (simp_all add: de_string_def)

interpretation bool_wire: wire_codec JBool de_bool any
  by unfold_locales (simp_all add: de_bool_def)

lemma de_i32_sint [simp]: "de_i32 (JInt (sint w)) = Some w"
  using sint_ge [of w] sint_lt [of w] by simp

lemma de_i64_sint [simp]: "de_i64 (JInt (sint w)) = Some w"
  using sint_ge [of w] sint_lt [of w] by (simp add: de_i64_def)

interpretation i32_wire: wire_codec ser_i32 de_i32 any
  by unfold_locales (simp_all only: ser_i32_def de_i32_sint json.distinct not_False_eq_True)

interpretation i64_wire: wire_codec ser_i64 de_i64 any
  by unfold_locales (simp_all add: ser_i64_def)

text \<open>A number survives when it is a single-precision one.\<close>

interpretation f32_wire: wire_codec JFloat de_f32 "\<lambda>x. f32_round x = x"
  by unfold_locales (simp_all add: de_f32_def)

interpretation value_wire: wire_codec id de_value "\<lambda>v. v \<noteq> JNull"
  by unfold_locales (simp_all add: de_value_def)

lemmas base_wire =
  req_def opt_def str_wire.de_ser str_wire.opt_ser str_wire.de_list_ser str_wire.opt_list_ser
  bool_wire.de_ser bool_wire.opt_ser i32_wire.de_ser i32_wire.opt_ser i64_wire.de_ser i64_wire.opt_ser
  f32_wire.de_ser f32_wire.opt_ser f32_wire.de_list_ser value_wire.opt_ser

lemma de_struct_obj [simp]: "de_struct names (json_obj kvs) = Some (map_of (rev kvs))"
  using json_obj_fold [of "[]" kvs] by (simp add: json_obj_def)

lemma json_obj_value [simp]: "json_obj kvs \<noteq> JNull"
  by (simp add: json_obj_def)

section \<open>Messages\<close>

text \<open>
  \<open>ChatContentPart\<close> carries \<open>rename_all\<close> and no tag: it is externally tagged, an object whose one
  member is the variant.
\<close>

definition ser_image_url :: "image_url \<Rightarrow> json" where
  "ser_image_url u = json_obj [(''url'', JString (iu_url u)), (''detail'', ser_opt JString (iu_detail u))]"

definition de_image_url :: "json \<Rightarrow> image_url option" where
  "de_image_url v = do {
     f \<leftarrow> de_struct [''url'', ''detail''] v;
     url \<leftarrow> req de_string f ''url'';
     detail \<leftarrow> opt de_string f ''detail'';
     Some \<lparr>iu_url = url, iu_detail = detail\<rparr> }"

fun ser_content_part :: "chat_content_part \<Rightarrow> json" where
  "ser_content_part (CP_Text t) = json_obj [(''text'', json_obj [(''text'', JString t)])]"
| "ser_content_part (CP_ImageUrl u) =
     json_obj [(''image_url'', json_obj [(''image_url'', ser_image_url u)])]"

fun single_member :: "json \<Rightarrow> (string \<times> json) option" where
  "single_member (JObject [kv]) = Some kv"
| "single_member _ = None"

definition de_content_part :: "json \<Rightarrow> chat_content_part option" where
  "de_content_part v = do {
     (variant, body) \<leftarrow> single_member v;
     if variant = ''text'' then do {
       f \<leftarrow> de_struct [''text''] body;
       map_option CP_Text (req de_string f ''text'') }
     else if variant = ''image_url'' then do {
       f \<leftarrow> de_struct [''image_url''] body;
       map_option CP_ImageUrl (req de_image_url f ''image_url'') }
     else None }"

definition part_de :: "json \<Rightarrow> (string, chat_content_part) result" where
  "part_de v = ok_or ''invalid content part'' (de_content_part v)"

definition de_content :: "json \<Rightarrow> chat_content list option option" where
  "de_content v = (case deserialize_chat_content part_de v of Inr c \<Rightarrow> Some c | Inl _ \<Rightarrow> None)"

definition ser_function_call :: "function_call \<Rightarrow> json" where
  "ser_function_call c = json_obj [(''name'', JString (fc_name c)), (''arguments'', JString (fc_arguments c))]"

definition de_function_call :: "json \<Rightarrow> function_call option" where
  "de_function_call v = do {
     f \<leftarrow> de_struct [''name'', ''arguments''] v;
     name \<leftarrow> req de_string f ''name'';
     arguments \<leftarrow> req de_string f ''arguments'';
     Some \<lparr>fc_name = name, fc_arguments = arguments\<rparr> }"

definition ser_tool_call :: "tool_call \<Rightarrow> json" where
  "ser_tool_call c = json_obj
     [(''id'', JString (tc_id c)), (''type'', JString (tc_type c)),
      (''function'', ser_function_call (tc_function c))]"

definition de_tool_call :: "json \<Rightarrow> tool_call option" where
  "de_tool_call v = do {
     f \<leftarrow> de_struct [''id'', ''type'', ''function''] v;
     i \<leftarrow> req de_string f ''id'';
     t \<leftarrow> req de_string f ''type'';
     fn \<leftarrow> req de_function_call f ''function'';
     Some \<lparr>tc_id = i, tc_type = t, tc_function = fn\<rparr> }"

definition ser_cache_control :: "cache_control \<Rightarrow> json" where
  "ser_cache_control c = json_obj [(''type'', JString c)]"

definition de_cache_control :: "json \<Rightarrow> cache_control option" where
  "de_cache_control v = do { f \<leftarrow> de_struct [''type''] v; req de_string f ''type'' }"

definition ser_chat_message :: "chat_message \<Rightarrow> json" where
  "ser_chat_message m = json_obj
     [(''role'', JString (cm_role m)),
      (''content'', serialize_chat_content ser_content_part (cm_content m)),
      (''name'', ser_opt JString (cm_name m)),
      (''tool_calls'', ser_opt (ser_list ser_tool_call) (cm_tool_calls m)),
      (''tool_call_id'', ser_opt JString (cm_tool_call_id m)),
      (''cache_control'', ser_opt ser_cache_control (cm_cache_control m))]"

text \<open>\<open>content\<close> has \<open>default\<close>: a message without it has none.\<close>

definition de_chat_message :: "json \<Rightarrow> chat_message option" where
  "de_chat_message v = do {
     f \<leftarrow> de_struct [''role'', ''content'', ''name'', ''tool_calls'', ''tool_call_id'', ''cache_control''] v;
     role \<leftarrow> req de_string f ''role'';
     content \<leftarrow> (case f ''content'' of None \<Rightarrow> Some None | Some c \<Rightarrow> de_content c);
     name \<leftarrow> opt de_string f ''name'';
     tool_calls \<leftarrow> opt (de_list de_tool_call) f ''tool_calls'';
     tool_call_id \<leftarrow> opt de_string f ''tool_call_id'';
     cache_control \<leftarrow> opt de_cache_control f ''cache_control'';
     Some \<lparr>cm_role = role, cm_content = content, cm_name = name, cm_tool_calls = tool_calls,
           cm_tool_call_id = tool_call_id, cm_cache_control = cache_control\<rparr> }"

interpretation image_url_wire: wire_codec ser_image_url de_image_url any
  by unfold_locales
    (simp_all add: ser_image_url_def de_image_url_def base_wire)

interpretation part_wire: wire_codec ser_content_part de_content_part any
proof unfold_locales
  fix p
  show "de_content_part (ser_content_part p) = Some p"
    by (cases p) (simp_all add: de_content_part_def json_obj_def base_wire image_url_wire.de_ser)
  show "ser_content_part p \<noteq> JNull" by (cases p) simp_all
qed

interpretation function_call_wire: wire_codec ser_function_call de_function_call any
  by unfold_locales (simp_all add: ser_function_call_def de_function_call_def base_wire)

interpretation tool_call_wire: wire_codec ser_tool_call de_tool_call any
  by unfold_locales
    (simp_all add: ser_tool_call_def de_tool_call_def base_wire function_call_wire.de_ser)

interpretation cache_control_wire: wire_codec ser_cache_control de_cache_control any
  by unfold_locales (simp_all add: ser_cache_control_def de_cache_control_def base_wire)

section \<open>Requests\<close>

definition ser_function_definition :: "function_definition \<Rightarrow> json" where
  "ser_function_definition d = json_obj
     [(''name'', JString (fd_name d)), (''description'', ser_opt JString (fd_description d)),
      (''parameters'', ser_opt id (fd_parameters d))]"

definition de_function_definition :: "json \<Rightarrow> function_definition option" where
  "de_function_definition v = do {
     f \<leftarrow> de_struct [''name'', ''description'', ''parameters''] v;
     name \<leftarrow> req de_string f ''name'';
     description \<leftarrow> opt de_string f ''description'';
     parameters \<leftarrow> opt de_value f ''parameters'';
     Some \<lparr>fd_name = name, fd_description = description, fd_parameters = parameters\<rparr> }"

definition ser_tool :: "tool \<Rightarrow> json" where
  "ser_tool t = json_obj
     [(''type'', JString (tool_type t)), (''function'', ser_function_definition (tool_function t))]"

definition de_tool :: "json \<Rightarrow> tool option" where
  "de_tool v = do {
     f \<leftarrow> de_struct [''type'', ''function''] v;
     t \<leftarrow> req de_string f ''type'';
     fn \<leftarrow> req de_function_definition f ''function'';
     Some \<lparr>tool_type = t, tool_function = fn\<rparr> }"

text \<open>\<open>ToolChoice\<close> is externally tagged: a unit variant is its name, or an object from its
  name to null.\<close>

fun ser_tool_choice :: "tool_choice \<Rightarrow> json" where
  "ser_tool_choice TC_None = JString ''none''"
| "ser_tool_choice TC_Auto = JString ''auto''"
| "ser_tool_choice TC_Required = JString ''required''"
| "ser_tool_choice (TC_Function n) =
     json_obj [(''function'', json_obj [(''function'', json_obj [(''name'', JString n)])])]"

definition unit_tool_choice :: "string \<Rightarrow> tool_choice option" where
  "unit_tool_choice s =
     (if s = ''none'' then Some TC_None else if s = ''auto'' then Some TC_Auto
      else if s = ''required'' then Some TC_Required else None)"

definition de_tool_choice :: "json \<Rightarrow> tool_choice option" where
  "de_tool_choice v =
     (case v of
        JString s \<Rightarrow> unit_tool_choice s
      | _ \<Rightarrow> do {
          (variant, body) \<leftarrow> single_member v;
          if variant = ''function'' then do {
            f \<leftarrow> de_struct [''function''] body;
            n \<leftarrow> req (de_struct [''name'']) f ''function'';
            map_option TC_Function (req de_string n ''name'') }
          else if body = JNull then unit_tool_choice variant else None })"

definition ser_json_schema :: "json_schema \<Rightarrow> json" where
  "ser_json_schema s = json_obj
     [(''name'', JString (js_name s)), (''schema'', ser_opt id (js_schema s)),
      (''strict'', ser_opt JBool (js_strict s))]"

definition de_json_schema :: "json \<Rightarrow> json_schema option" where
  "de_json_schema v = do {
     f \<leftarrow> de_struct [''name'', ''schema'', ''strict''] v;
     name \<leftarrow> req de_string f ''name'';
     schema \<leftarrow> opt de_value f ''schema'';
     strict \<leftarrow> opt de_bool f ''strict'';
     Some \<lparr>js_name = name, js_schema = schema, js_strict = strict\<rparr> }"

text \<open>\<open>ResponseFormat\<close> has \<open>tag = "type"\<close>: the tag is a member of the object, or the first
  element of an array whose rest is the variant.\<close>

fun ser_response_format :: "response_format \<Rightarrow> json" where
  "ser_response_format RF_Text = json_obj [(''type'', JString ''text'')]"
| "ser_response_format RF_JsonObject = json_obj [(''type'', JString ''json_object'')]"
| "ser_response_format (RF_JsonSchema s) =
     json_obj [(''type'', JString ''json_schema''), (''json_schema'', ser_json_schema s)]"

fun split_tag :: "json \<Rightarrow> (string \<times> json) option" where
  "split_tag (JObject m) = do { t \<leftarrow> Option.bind (map_of m ''type'') as_str; Some (t, JObject m) }"
| "split_tag (JArray (t # rest)) = map_option (\<lambda>s. (s, JArray rest)) (as_str t)"
| "split_tag _ = None"

definition de_response_format :: "json \<Rightarrow> response_format option" where
  "de_response_format v = do {
     (variant, body) \<leftarrow> split_tag v;
     if variant = ''text'' then Some RF_Text
     else if variant = ''json_object'' then Some RF_JsonObject
     else if variant = ''json_schema'' then do {
       f \<leftarrow> de_struct [''json_schema''] body;
       map_option RF_JsonSchema (req de_json_schema f ''json_schema'') }
     else None }"

fun ser_stop :: "stop \<Rightarrow> json" where
  "ser_stop (Stop_String s) = JString s"
| "ser_stop (Stop_Array ss) = ser_list JString ss"

fun de_stop :: "json \<Rightarrow> stop option" where
  "de_stop (JString s) = Some (Stop_String s)"
| "de_stop v = map_option Stop_Array (de_list de_string v)"

definition ser_thinking :: "thinking_config \<Rightarrow> json" where
  "ser_thinking t = json_obj
     [(''type'', JString (th_type t)), (''budget_tokens'', ser_i32 (th_budget_tokens t))]"

definition de_thinking :: "json \<Rightarrow> thinking_config option" where
  "de_thinking v = do {
     f \<leftarrow> de_struct [''type'', ''budget_tokens''] v;
     t \<leftarrow> req de_string f ''type'';
     b \<leftarrow> req de_i32 f ''budget_tokens'';
     Some \<lparr>th_type = t, th_budget_tokens = b\<rparr> }"

definition ser_reasoning :: "reasoning_config \<Rightarrow> json" where
  "ser_reasoning r = json_obj
     [(''effort'', ser_opt JString (rc_effort r)), (''thinking'', ser_opt ser_thinking (rc_thinking r))]"

definition de_reasoning :: "json \<Rightarrow> reasoning_config option" where
  "de_reasoning v = do {
     f \<leftarrow> de_struct [''effort'', ''thinking''] v;
     effort \<leftarrow> opt de_string f ''effort'';
     thinking \<leftarrow> opt de_thinking f ''thinking'';
     Some \<lparr>rc_effort = effort, rc_thinking = thinking\<rparr> }"

text \<open>\<open>HashMap<String, i32>\<close>: an object of integers.\<close>

definition ser_bias :: "(string \<times> i32) list \<Rightarrow> json" where
  "ser_bias m = json_obj (map (\<lambda>(k, w). (k, ser_i32 w)) m)"

fun de_bias :: "json \<Rightarrow> (string \<times> i32) list option" where
  "de_bias (JObject m) = map_option (zip (map fst m)) (de_all de_i32 (map snd m))"
| "de_bias _ = None"

definition ser_request :: "chat_completion_request \<Rightarrow> json" where
  "ser_request r = json_obj
     [(''model'', JString (cr_model r)),
      (''messages'', ser_list ser_chat_message (cr_messages r)),
      (''stream'', ser_opt JBool (cr_stream r)),
      (''temperature'', ser_opt JFloat (cr_temperature r)),
      (''max_tokens'', ser_opt ser_i32 (cr_max_tokens r)),
      (''top_p'', ser_opt JFloat (cr_top_p r)),
      (''top_k'', ser_opt ser_i32 (cr_top_k r)),
      (''frequency_penalty'', ser_opt JFloat (cr_frequency_penalty r)),
      (''presence_penalty'', ser_opt JFloat (cr_presence_penalty r)),
      (''repetition_penalty'', ser_opt JFloat (cr_repetition_penalty r)),
      (''stop'', ser_opt ser_stop (cr_stop r)),
      (''seed'', ser_opt ser_i64 (cr_seed r)),
      (''n'', ser_opt ser_i32 (cr_n r)),
      (''logprobs'', ser_opt JBool (cr_logprobs r)),
      (''top_logprobs'', ser_opt ser_i32 (cr_top_logprobs r)),
      (''logit_bias'', ser_opt ser_bias (cr_logit_bias r)),
      (''user'', ser_opt JString (cr_user r)),
      (''tools'', ser_opt (ser_list ser_tool) (cr_tools r)),
      (''tool_choice'', ser_opt ser_tool_choice (cr_tool_choice r)),
      (''parallel_tool_calls'', ser_opt JBool (cr_parallel_tool_calls r)),
      (''response_format'', ser_opt ser_response_format (cr_response_format r)),
      (''reasoning'', ser_opt ser_reasoning (cr_reasoning r))]"

definition request_fields :: "string list" where
  "request_fields =
     [''model'', ''messages'', ''stream'', ''temperature'', ''max_tokens'', ''top_p'', ''top_k'',
      ''frequency_penalty'', ''presence_penalty'', ''repetition_penalty'', ''stop'', ''seed'', ''n'',
      ''logprobs'', ''top_logprobs'', ''logit_bias'', ''user'', ''tools'', ''tool_choice'',
      ''parallel_tool_calls'', ''response_format'', ''reasoning'']"

definition de_request :: "json \<Rightarrow> chat_completion_request option" where
  "de_request v = do {
     f \<leftarrow> de_struct request_fields v;
     model \<leftarrow> req de_string f ''model'';
     messages \<leftarrow> req (de_list de_chat_message) f ''messages'';
     stream \<leftarrow> opt de_bool f ''stream'';
     temperature \<leftarrow> opt de_f32 f ''temperature'';
     max_tokens \<leftarrow> opt de_i32 f ''max_tokens'';
     top_p \<leftarrow> opt de_f32 f ''top_p'';
     top_k \<leftarrow> opt de_i32 f ''top_k'';
     frequency_penalty \<leftarrow> opt de_f32 f ''frequency_penalty'';
     presence_penalty \<leftarrow> opt de_f32 f ''presence_penalty'';
     repetition_penalty \<leftarrow> opt de_f32 f ''repetition_penalty'';
     stop \<leftarrow> opt de_stop f ''stop'';
     seed \<leftarrow> opt de_i64 f ''seed'';
     n \<leftarrow> opt de_i32 f ''n'';
     logprobs \<leftarrow> opt de_bool f ''logprobs'';
     top_logprobs \<leftarrow> opt de_i32 f ''top_logprobs'';
     logit_bias \<leftarrow> opt de_bias f ''logit_bias'';
     user \<leftarrow> opt de_string f ''user'';
     tools \<leftarrow> opt (de_list de_tool) f ''tools'';
     tool_choice \<leftarrow> opt de_tool_choice f ''tool_choice'';
     parallel_tool_calls \<leftarrow> opt de_bool f ''parallel_tool_calls'';
     response_format \<leftarrow> opt de_response_format f ''response_format'';
     reasoning \<leftarrow> opt de_reasoning f ''reasoning'';
     Some \<lparr>cr_model = model, cr_messages = messages, cr_stream = stream, cr_temperature = temperature,
           cr_max_tokens = max_tokens, cr_top_p = top_p, cr_top_k = top_k,
           cr_frequency_penalty = frequency_penalty, cr_presence_penalty = presence_penalty,
           cr_repetition_penalty = repetition_penalty, cr_stop = stop, cr_seed = seed, cr_n = n,
           cr_logprobs = logprobs, cr_top_logprobs = top_logprobs, cr_logit_bias = logit_bias,
           cr_user = user, cr_tools = tools, cr_tool_choice = tool_choice,
           cr_parallel_tool_calls = parallel_tool_calls, cr_response_format = response_format,
           cr_reasoning = reasoning\<rparr> }"

section \<open>Responses\<close>

definition de_token_details :: "json \<Rightarrow> token_details option" where
  "de_token_details v = do {
     f \<leftarrow> de_struct [''cached_tokens'', ''audio_tokens'', ''image_tokens''] v;
     c \<leftarrow> opt de_i32 f ''cached_tokens'';
     a \<leftarrow> opt de_i32 f ''audio_tokens'';
     i \<leftarrow> opt de_i32 f ''image_tokens'';
     Some \<lparr>td_cached_tokens = c, td_audio_tokens = a, td_image_tokens = i\<rparr> }"

definition ser_token_details :: "token_details \<Rightarrow> json" where
  "ser_token_details d = json_obj
     [(''cached_tokens'', ser_opt ser_i32 (td_cached_tokens d)),
      (''audio_tokens'', ser_opt ser_i32 (td_audio_tokens d)),
      (''image_tokens'', ser_opt ser_i32 (td_image_tokens d))]"

definition de_usage :: "json \<Rightarrow> usage option" where
  "de_usage v = do {
     f \<leftarrow> de_struct [''prompt_tokens'', ''completion_tokens'', ''total_tokens'',
            ''prompt_tokens_details'', ''completion_tokens_details''] v;
     p \<leftarrow> req de_i32 f ''prompt_tokens'';
     c \<leftarrow> req de_i32 f ''completion_tokens'';
     t \<leftarrow> req de_i32 f ''total_tokens'';
     pd \<leftarrow> opt de_token_details f ''prompt_tokens_details'';
     cd \<leftarrow> opt de_token_details f ''completion_tokens_details'';
     Some \<lparr>us_prompt_tokens = p, us_completion_tokens = c, us_total_tokens = t,
           us_prompt_tokens_details = pd, us_completion_tokens_details = cd\<rparr> }"

definition ser_usage :: "usage \<Rightarrow> json" where
  "ser_usage u = json_obj
     [(''prompt_tokens'', ser_i32 (us_prompt_tokens u)),
      (''completion_tokens'', ser_i32 (us_completion_tokens u)),
      (''total_tokens'', ser_i32 (us_total_tokens u)),
      (''prompt_tokens_details'', ser_opt ser_token_details (us_prompt_tokens_details u)),
      (''completion_tokens_details'', ser_opt ser_token_details (us_completion_tokens_details u))]"

definition de_choice :: "json \<Rightarrow> chat_completion_choice option" where
  "de_choice v = do {
     f \<leftarrow> de_struct [''index'', ''message'', ''finish_reason'', ''logprobs'', ''tool_calls''] v;
     i \<leftarrow> req de_i32 f ''index'';
     m \<leftarrow> req de_chat_message f ''message'';
     fr \<leftarrow> opt de_string f ''finish_reason'';
     lp \<leftarrow> opt de_value f ''logprobs'';
     tcs \<leftarrow> opt (de_list de_tool_call) f ''tool_calls'';
     Some \<lparr>ch_index = i, ch_message = m, ch_finish_reason = fr, ch_logprobs = lp, ch_tool_calls = tcs\<rparr> }"

definition ser_choice :: "chat_completion_choice \<Rightarrow> json" where
  "ser_choice c = json_obj
     [(''index'', ser_i32 (ch_index c)), (''message'', ser_chat_message (ch_message c)),
      (''finish_reason'', ser_opt JString (ch_finish_reason c)),
      (''logprobs'', ser_opt id (ch_logprobs c)),
      (''tool_calls'', ser_opt (ser_list ser_tool_call) (ch_tool_calls c))]"

definition de_chat_response :: "json \<Rightarrow> chat_completion_response option" where
  "de_chat_response v = do {
     f \<leftarrow> de_struct [''id'', ''object'', ''created'', ''model'', ''choices'', ''usage''] v;
     i \<leftarrow> req de_string f ''id'';
     ob \<leftarrow> req de_string f ''object'';
     created \<leftarrow> req de_i64 f ''created'';
     model \<leftarrow> req de_string f ''model'';
     choices \<leftarrow> req (de_list de_choice) f ''choices'';
     usage \<leftarrow> opt de_usage f ''usage'';
     Some \<lparr>cp_id = i, cp_object = ob, cp_created = created, cp_model = model,
           cp_choices = choices, cp_usage = usage\<rparr> }"

definition ser_chat_response :: "chat_completion_response \<Rightarrow> json" where
  "ser_chat_response r = json_obj
     [(''id'', JString (cp_id r)), (''object'', JString (cp_object r)),
      (''created'', ser_i64 (cp_created r)), (''model'', JString (cp_model r)),
      (''choices'', ser_list ser_choice (cp_choices r)),
      (''usage'', ser_opt ser_usage (cp_usage r))]"

section \<open>Images, speech and embeddings\<close>

definition ser_image_generation_request :: "image_generation_request \<Rightarrow> json" where
  "ser_image_generation_request r = json_obj
     [(''model'', JString (igr_model r)), (''prompt'', JString (igr_prompt r)),
      (''n'', ser_opt ser_i32 (igr_n r)), (''size'', ser_opt JString (igr_size r)),
      (''quality'', ser_opt JString (igr_quality r)), (''style'', ser_opt JString (igr_style r))]"

definition de_image_data :: "json \<Rightarrow> image_data option" where
  "de_image_data v = do {
     f \<leftarrow> de_struct [''url'', ''b64_json'', ''revised_prompt''] v;
     u \<leftarrow> opt de_string f ''url'';
     b \<leftarrow> opt de_string f ''b64_json'';
     p \<leftarrow> opt de_string f ''revised_prompt'';
     Some \<lparr>imd_url = u, imd_b64_json = b, imd_revised_prompt = p\<rparr> }"

definition de_image_response :: "json \<Rightarrow> image_generation_response option" where
  "de_image_response v = do {
     f \<leftarrow> de_struct [''created'', ''data''] v;
     created \<leftarrow> req de_i64 f ''created'';
     data \<leftarrow> req (de_list de_image_data) f ''data'';
     Some \<lparr>igp_created = created, igp_data = data\<rparr> }"

definition ser_tts_request :: "audio_tts_request \<Rightarrow> json" where
  "ser_tts_request r = json_obj
     [(''model'', JString (atr_model r)), (''input'', JString (atr_input r)),
      (''voice'', JString (atr_voice r)),
      (''response_format'', ser_opt JString (atr_response_format r))]"

definition de_stt_response :: "json \<Rightarrow> string option" where
  "de_stt_response v = do { f \<leftarrow> de_struct [''text''] v; req de_string f ''text'' }"

definition ser_embedding_request :: "embedding_request \<Rightarrow> json" where
  "ser_embedding_request r = json_obj
     [(''model'', JString (er_model r)), (''input'', ser_list JString (er_input r))]"

definition de_embedding_data :: "json \<Rightarrow> embedding_data option" where
  "de_embedding_data v = do {
     f \<leftarrow> de_struct [''object'', ''embedding'', ''index''] v;
     ob \<leftarrow> req de_string f ''object'';
     e \<leftarrow> req (de_list de_f32) f ''embedding'';
     i \<leftarrow> req de_i32 f ''index'';
     Some \<lparr>ed_object = ob, ed_embedding = e, ed_index = i\<rparr> }"

definition de_embedding_response :: "json \<Rightarrow> embedding_response option" where
  "de_embedding_response v = do {
     f \<leftarrow> de_struct [''object'', ''data'', ''model'', ''usage''] v;
     ob \<leftarrow> req de_string f ''object'';
     data \<leftarrow> req (de_list de_embedding_data) f ''data'';
     model \<leftarrow> req de_string f ''model'';
     usage \<leftarrow> req de_usage f ''usage'';
     Some \<lparr>ep_object = ob, ep_data = data, ep_model = model, ep_usage = usage\<rparr> }"

section \<open>Batches\<close>

record upstream_batch_request =
  ubr_input_file_id :: string
  ubr_endpoint :: string
  ubr_completion_window :: string
  ubr_metadata :: "json option"

definition ser_batch_request :: "upstream_batch_request \<Rightarrow> json" where
  "ser_batch_request r = json_obj
     ([(''input_file_id'', JString (ubr_input_file_id r)), (''endpoint'', JString (ubr_endpoint r)),
       (''completion_window'', JString (ubr_completion_window r))] @
      skip_none ''metadata'' id (ubr_metadata r))"

record batch_error =
  be_code :: string
  be_message :: string
  be_param :: "string option"
  be_line :: "i32 option"

record batch_errors =
  bes_object :: string
  bes_data :: "batch_error list"

record batch_request_counts =
  brc_total :: i32
  brc_completed :: i32
  brc_failed :: i32

record upstream_batch =
  ub_id :: string
  ub_object :: string
  ub_endpoint :: string
  ub_errors :: "batch_errors option"
  ub_input_file_id :: string
  ub_completion_window :: string
  ub_status :: string
  ub_output_file_id :: "string option"
  ub_error_file_id :: "string option"
  ub_created_at :: i64
  ub_in_progress_at :: "i64 option"
  ub_expires_at :: "i64 option"
  ub_finalizing_at :: "i64 option"
  ub_completed_at :: "i64 option"
  ub_failed_at :: "i64 option"
  ub_expired_at :: "i64 option"
  ub_cancelling_at :: "i64 option"
  ub_cancelled_at :: "i64 option"
  ub_request_counts :: "batch_request_counts option"
  ub_metadata :: "json option"

definition de_batch_error :: "json \<Rightarrow> batch_error option" where
  "de_batch_error v = do {
     f \<leftarrow> de_struct [''code'', ''message'', ''param'', ''line''] v;
     c \<leftarrow> req de_string f ''code'';
     m \<leftarrow> req de_string f ''message'';
     p \<leftarrow> opt de_string f ''param'';
     l \<leftarrow> opt de_i32 f ''line'';
     Some \<lparr>be_code = c, be_message = m, be_param = p, be_line = l\<rparr> }"

definition de_batch_errors :: "json \<Rightarrow> batch_errors option" where
  "de_batch_errors v = do {
     f \<leftarrow> de_struct [''object'', ''data''] v;
     ob \<leftarrow> req de_string f ''object'';
     data \<leftarrow> req (de_list de_batch_error) f ''data'';
     Some \<lparr>bes_object = ob, bes_data = data\<rparr> }"

definition de_batch_request_counts :: "json \<Rightarrow> batch_request_counts option" where
  "de_batch_request_counts v = do {
     f \<leftarrow> de_struct [''total'', ''completed'', ''failed''] v;
     t \<leftarrow> req de_i32 f ''total'';
     c \<leftarrow> req de_i32 f ''completed'';
     x \<leftarrow> req de_i32 f ''failed'';
     Some \<lparr>brc_total = t, brc_completed = c, brc_failed = x\<rparr> }"

definition batch_fields :: "string list" where
  "batch_fields =
     [''id'', ''object'', ''endpoint'', ''errors'', ''input_file_id'', ''completion_window'', ''status'',
      ''output_file_id'', ''error_file_id'', ''created_at'', ''in_progress_at'', ''expires_at'',
      ''finalizing_at'', ''completed_at'', ''failed_at'', ''expired_at'', ''cancelling_at'',
      ''cancelled_at'', ''request_counts'', ''metadata'']"

definition de_batch :: "json \<Rightarrow> upstream_batch option" where
  "de_batch v = do {
     f \<leftarrow> de_struct batch_fields v;
     i \<leftarrow> req de_string f ''id'';
     ob \<leftarrow> req de_string f ''object'';
     endpoint \<leftarrow> req de_string f ''endpoint'';
     errors \<leftarrow> opt de_batch_errors f ''errors'';
     input_file_id \<leftarrow> req de_string f ''input_file_id'';
     completion_window \<leftarrow> req de_string f ''completion_window'';
     status \<leftarrow> req de_string f ''status'';
     output_file_id \<leftarrow> opt de_string f ''output_file_id'';
     error_file_id \<leftarrow> opt de_string f ''error_file_id'';
     created_at \<leftarrow> req de_i64 f ''created_at'';
     in_progress_at \<leftarrow> opt de_i64 f ''in_progress_at'';
     expires_at \<leftarrow> opt de_i64 f ''expires_at'';
     finalizing_at \<leftarrow> opt de_i64 f ''finalizing_at'';
     completed_at \<leftarrow> opt de_i64 f ''completed_at'';
     failed_at \<leftarrow> opt de_i64 f ''failed_at'';
     expired_at \<leftarrow> opt de_i64 f ''expired_at'';
     cancelling_at \<leftarrow> opt de_i64 f ''cancelling_at'';
     cancelled_at \<leftarrow> opt de_i64 f ''cancelled_at'';
     request_counts \<leftarrow> opt de_batch_request_counts f ''request_counts'';
     metadata \<leftarrow> opt de_value f ''metadata'';
     Some \<lparr>ub_id = i, ub_object = ob, ub_endpoint = endpoint, ub_errors = errors,
           ub_input_file_id = input_file_id, ub_completion_window = completion_window,
           ub_status = status, ub_output_file_id = output_file_id, ub_error_file_id = error_file_id,
           ub_created_at = created_at, ub_in_progress_at = in_progress_at,
           ub_expires_at = expires_at, ub_finalizing_at = finalizing_at,
           ub_completed_at = completed_at, ub_failed_at = failed_at, ub_expired_at = expired_at,
           ub_cancelling_at = cancelling_at, ub_cancelled_at = cancelled_at,
           ub_request_counts = request_counts, ub_metadata = metadata\<rparr> }"

section \<open>Reading back what is written\<close>

definition text_only :: "chat_message \<Rightarrow> bool" where
  "text_only m \<longleftrightarrow> list_all is_text_content (unwrap_or [] (cm_content m))"

lemma de_content_ser:
  "de_content (serialize_chat_content ser_content_part c) =
     (if list_all is_text_content (unwrap_or [] c) then Some c else None)"
proof (cases c)
  case (Some cs)
  show ?thesis
  proof (cases "\<exists>t. cs = [CC_Text t]")
    case False
    then have "serialize_chat_content ser_content_part (Some cs) =
        JArray (map (chat_content_ser ser_content_part) cs)"
      by (auto split: list.splits chat_content.splits)
    then have eq: "de_content (serialize_chat_content ser_content_part c) =
        (case deserialize_chat_content part_de (JArray (map (chat_content_ser ser_content_part) cs)) of
           Inr c \<Rightarrow> Some c | Inl _ \<Rightarrow> None)" (is "_ = (case ?d of Inr c \<Rightarrow> _ c | Inl x \<Rightarrow> _ x)")
      by (simp only: de_content_def Some)
    have iff: "?d = Ok r \<longleftrightarrow> r = Some cs \<and> list_all is_text_content cs" for r
      by (rule deserialize_array_Ok_iff)
    show ?thesis
    proof (cases ?d)
      case (Inr r)
      with iff [of r] show ?thesis unfolding eq by (simp add: Some)
    next
      case (Inl e)
      with iff [of "Some cs"] show ?thesis unfolding eq by (simp add: Some)
    qed
  qed (use Some in \<open>auto simp: de_content_def\<close>)
qed (simp add: de_content_def)

lemma de_message_ser: "de_chat_message (ser_chat_message m) = (if text_only m then Some m else None)"
  by (simp add: de_chat_message_def ser_chat_message_def base_wire tool_call_wire.opt_list_ser
      cache_control_wire.opt_ser de_content_ser text_only_def)

lemma de_messages_ser:
  "de_list de_chat_message (ser_list ser_chat_message ms) = (if list_all text_only ms then Some ms else None)"
proof -
  have "de_all de_chat_message (map ser_chat_message ms) = (if list_all text_only ms then Some ms else None)"
    by (induction ms) (simp_all add: de_message_ser)
  then show ?thesis by (simp add: ser_list_def)
qed

lemma ser_chat_message_value [simp]: "ser_chat_message m \<noteq> JNull"
  by (simp add: ser_chat_message_def)

interpretation message_wire: wire_codec ser_chat_message de_chat_message text_only
  by unfold_locales (simp_all add: de_message_ser)

interpretation function_definition_wire: wire_codec ser_function_definition de_function_definition
  "\<lambda>d :: function_definition. fd_parameters d \<noteq> Some JNull"
proof unfold_locales
  fix d :: function_definition assume "fd_parameters d \<noteq> Some JNull"
  then have "pred_option (\<lambda>v. v \<noteq> JNull) (fd_parameters d)" by (cases "fd_parameters d") auto
  then show "de_function_definition (ser_function_definition d) = Some d"
    by (simp add: ser_function_definition_def de_function_definition_def base_wire)
qed (simp add: ser_function_definition_def)

interpretation tool_wire: wire_codec ser_tool de_tool "\<lambda>t :: tool. fd_parameters (tool_function t) \<noteq> Some JNull"
  by unfold_locales (simp_all add: ser_tool_def de_tool_def base_wire function_definition_wire.de_ser)

interpretation tool_choice_wire: wire_codec ser_tool_choice de_tool_choice any
proof unfold_locales
  fix c
  show "de_tool_choice (ser_tool_choice c) = Some c"
    by (cases c) (simp_all add: de_tool_choice_def unit_tool_choice_def json_obj_def base_wire)
  show "ser_tool_choice c \<noteq> JNull" by (cases c) simp_all
qed

interpretation json_schema_wire: wire_codec ser_json_schema de_json_schema "\<lambda>s :: json_schema. js_schema s \<noteq> Some JNull"
proof unfold_locales
  fix s :: json_schema assume "js_schema s \<noteq> Some JNull"
  then have "pred_option (\<lambda>v. v \<noteq> JNull) (js_schema s)" by (cases "js_schema s") auto
  then show "de_json_schema (ser_json_schema s) = Some s"
    by (simp add: ser_json_schema_def de_json_schema_def base_wire)
qed (simp add: ser_json_schema_def)

fun format_ok :: "response_format \<Rightarrow> bool" where
  "format_ok (RF_JsonSchema s) \<longleftrightarrow> js_schema s \<noteq> Some JNull"
| "format_ok _ \<longleftrightarrow> True"

lemma split_tag_obj [simp]:
  "split_tag (json_obj kvs) =
     Option.bind (Option.bind (map_of (rev kvs) ''type'') as_str) (\<lambda>t. Some (t, json_obj kvs))"
  using json_obj_fold [of "[]" kvs] by (simp add: json_obj_def)

interpretation format_wire: wire_codec ser_response_format de_response_format format_ok
proof unfold_locales
  fix r
  show "format_ok r \<Longrightarrow> de_response_format (ser_response_format r) = Some r"
    by (cases r) (simp_all add: de_response_format_def base_wire json_schema_wire.de_ser)
  show "ser_response_format r \<noteq> JNull" by (cases r) simp_all
qed

interpretation stop_wire: wire_codec ser_stop de_stop any
proof unfold_locales
  fix s
  show "de_stop (ser_stop s) = Some s"
    by (cases s) (simp_all add: ser_list_def str_wire.de_all_ser)
  show "ser_stop s \<noteq> JNull" by (cases s) (simp_all add: ser_list_def)
qed

interpretation thinking_wire: wire_codec ser_thinking de_thinking any
  by unfold_locales (simp_all add: ser_thinking_def de_thinking_def base_wire)

interpretation reasoning_wire: wire_codec ser_reasoning de_reasoning any
  by unfold_locales (simp_all add: ser_reasoning_def de_reasoning_def base_wire thinking_wire.opt_ser)

lemma obj_insert_last:
  "list_all (\<lambda>kv. fst kv < k) m \<Longrightarrow> obj_insert k v m = m @ [(k, v)]"
  by (induction k v m rule: obj_insert.induct) auto

lemma json_obj_sorted: "obj_ok kvs \<Longrightarrow> json_obj kvs = JObject kvs"
proof -
  have "obj_ok (m @ kvs) \<Longrightarrow> foldl (\<lambda>m (k, v). obj_insert k v m) m kvs = m @ kvs" for m
  proof (induction kvs arbitrary: m)
    case (Cons kv kvs)
    obtain k v where kv: "kv = (k, v)" by (cases kv)
    have "list_all (\<lambda>kv. fst kv < k) m"
      using Cons.prems by (auto simp: kv obj_ok_def sorted_wrt_append list_all_iff)
    with Cons.IH [of "m @ [(k, v)]"] Cons.prems show ?case by (simp add: kv obj_insert_last)
  qed simp
  from this [of "[]"] show "obj_ok kvs \<Longrightarrow> json_obj kvs = JObject kvs" by (simp add: json_obj_def)
qed

text \<open>A map of biases is its members in key order.\<close>

interpretation bias_wire: wire_codec ser_bias de_bias "\<lambda>m. sorted_wrt (<) (map fst m)"
proof unfold_locales
  fix m :: "(string \<times> i32) list" assume "sorted_wrt (<) (map fst m)"
  then have "obj_ok (map (\<lambda>(k, w). (k, ser_i32 w)) m)"
    by (simp add: obj_ok_def comp_def case_prod_unfold)
  then have "ser_bias m = JObject (map (\<lambda>(k, w). (k, ser_i32 w)) m)"
    by (simp add: ser_bias_def json_obj_sorted)
  moreover have "de_all de_i32 (map ser_i32 (map snd m)) = Some (map snd m)"
    by (rule i32_wire.de_all_ser) simp
  ultimately show "de_bias (ser_bias m) = Some m"
    by (simp add: comp_def case_prod_unfold zip_map_fst_snd)
qed (simp add: ser_bias_def)

text \<open>What the request holds besides its messages can be written exactly: single-precision numbers,
  no explicit null behind an optional value, the bias map in key order.\<close>

definition single :: "f32 option \<Rightarrow> bool" where
  "single x = pred_option (\<lambda>x. f32_round x = x) x"

definition request_ok :: "chat_completion_request \<Rightarrow> bool" where
  "request_ok r \<longleftrightarrow>
     single (cr_temperature r) \<and> single (cr_top_p r) \<and> single (cr_frequency_penalty r) \<and>
     single (cr_presence_penalty r) \<and> single (cr_repetition_penalty r) \<and>
     pred_option (\<lambda>m. sorted_wrt (<) (map fst m)) (cr_logit_bias r) \<and>
     pred_option (list_all (\<lambda>t. fd_parameters (tool_function t) \<noteq> Some JNull)) (cr_tools r) \<and>
     pred_option format_ok (cr_response_format r)"

text \<open>
  C27. A chat request is written as JSON and read back unchanged exactly when every element of
  every message's content is plain text; a request with text or image parts is refused by the
  reader of the same type.
\<close>

theorem request_roundtrip_iff:
  assumes "request_ok r"
  shows "de_request (ser_request r) = (if list_all text_only (cr_messages r) then Some r else None)"
  using assms
  unfolding request_ok_def single_def
  by (simp add: de_request_def ser_request_def base_wire de_messages_ser stop_wire.opt_ser
      bias_wire.opt_ser tool_wire.opt_list_ser tool_choice_wire.opt_ser format_wire.opt_ser
      reasoning_wire.opt_ser)

definition sample_message :: "chat_content list \<Rightarrow> chat_message" where
  "sample_message c = \<lparr>cm_role = ''user'', cm_content = Some c, cm_name = None, cm_tool_calls = None,
     cm_tool_call_id = None, cm_cache_control = None\<rparr>"

definition sample_request :: "chat_content list \<Rightarrow> chat_completion_request" where
  "sample_request c = \<lparr>cr_model = ''gpt'', cr_messages = [sample_message c], cr_stream = None,
     cr_temperature = None, cr_max_tokens = Some 5, cr_top_p = None, cr_top_k = None,
     cr_frequency_penalty = None, cr_presence_penalty = None, cr_repetition_penalty = None,
     cr_stop = Some (Stop_String ''.''), cr_seed = None, cr_n = None, cr_logprobs = None,
     cr_top_logprobs = None, cr_logit_bias = None, cr_user = None, cr_tools = None,
     cr_tool_choice = Some TC_Auto, cr_parallel_tool_calls = None, cr_response_format = Some RF_Text,
     cr_reasoning = None\<rparr>"

lemma sample_request_ok: "request_ok (sample_request c)"
  by (simp add: request_ok_def sample_request_def single_def)

theorem request_roundtrip_iff_witness:
  "de_request (ser_request (sample_request [CC_Text ''hi''])) = Some (sample_request [CC_Text ''hi'']) \<and>
   de_request (ser_request (sample_request [CC_Parts [CP_Text ''hi'']])) = None"
  using request_roundtrip_iff [OF sample_request_ok, of "[CC_Text ''hi'']"]
    request_roundtrip_iff [OF sample_request_ok, of "[CC_Parts [CP_Text ''hi'']]"]
  by (simp add: sample_request_def sample_message_def text_only_def)

section \<open>The parts of the OpenAI format\<close>

text \<open>A content part as the OpenAI API writes it: an object with the member \<open>type\<close>.\<close>

definition openai_text_part :: "string \<Rightarrow> json" where
  "openai_text_part t = json_obj [(''type'', JString ''text''), (''text'', JString t)]"

lemma tagged_part_refused:
  assumes "json_get ''type'' v = Some t" shows "de_content_part v = None"
proof (cases "single_member v")
  case (Some kv)
  then obtain k w where "v = JObject [(k, w)]"
    by (cases v rule: single_member.cases) auto
  with assms show ?thesis by (auto simp: de_content_part_def split: if_splits)
qed (simp add: de_content_part_def)

lemma content_with_tag_refused:
  assumes "v \<in> set vs" "json_get ''type'' v = Some t"
  shows "de_content (JArray vs) = None"
proof -
  obtain m where v: "v = JObject m" using assms(2) by (cases v) simp_all
  have "content_element_de part_de v = Err ''invalid content part''"
    using tagged_part_refused [OF assms(2)] by (simp add: v part_de_def)
  then have "collect_results (map (content_element_de part_de) vs) \<noteq> Inr cs" for cs
    using collect_results_Inr_all [of "content_element_de part_de" vs cs] assms(1) by fastforce
  then show ?thesis
    by (cases "collect_results (map (content_element_de part_de) vs)") (auto simp: de_content_def)
qed

lemma de_all_None: "v \<in> set vs \<Longrightarrow> de v = None \<Longrightarrow> de_all de vs = None"
proof (induction vs)
  case (Cons w vs)
  then show ?case by (cases "de w") auto
qed simp

lemma json_get_struct: "json_get k v = Some w \<Longrightarrow> \<exists>m. v = JObject m \<and> map_of m k = Some w"
  by (cases v) auto

lemma message_with_tag_refused:
  assumes "json_get ''content'' m = Some (JArray vs)" "v \<in> set vs" "json_get ''type'' v = Some t"
  shows "de_chat_message m = None"
proof -
  obtain f where m: "m = JObject f" "map_of f ''content'' = Some (JArray vs)"
    using json_get_struct [OF assms(1)] by blast
  then show ?thesis
    by (cases "req de_string (map_of f) ''role''")
      (simp_all add: de_chat_message_def content_with_tag_refused [OF assms(2,3)])
qed

text \<open>
  A chat request in the format of the OpenAI API whose content holds a part with the member
  \<open>type\<close> (every text or image part of that API has it) is refused when it is read: no such
  request reaches a handler.
\<close>

lemma openai_parts_refused:
  assumes "json_get ''messages'' q = Some (JArray ms)" "m \<in> set ms"
    and "json_get ''content'' m = Some (JArray vs)" "v \<in> set vs"
    and "json_get ''type'' v = Some t"
  shows "de_request q = None"
proof -
  obtain f where q: "q = JObject f" "map_of f ''messages'' = Some (JArray ms)"
    using json_get_struct [OF assms(1)] by blast
  moreover have "de_list de_chat_message (JArray ms) = None"
    using de_all_None [of m ms de_chat_message, OF assms(2) message_with_tag_refused [OF assms(3-5)]]
    by simp
  ultimately show ?thesis
    by (cases "req de_string (map_of f) ''model''") (simp_all add: de_request_def req_def)
qed

definition openai_request_json :: json where
  "openai_request_json = json_obj
     [(''model'', JString ''gpt''),
      (''messages'', JArray [json_obj
         [(''role'', JString ''user''), (''content'', JArray [openai_text_part ''hi''])]])]"

theorem openai_parts_refused_witness: "de_request openai_request_json = None"
  by (rule openai_parts_refused [where vs = "[openai_text_part ''hi'']" and v = "openai_text_part ''hi''"
        and t = "JString ''text''" and ms = "[json_obj
         [(''role'', JString ''user''), (''content'', JArray [openai_text_part ''hi''])]]" and m = "json_obj
         [(''role'', JString ''user''), (''content'', JArray [openai_text_part ''hi''])]"])
    (simp_all add: openai_request_json_def openai_text_part_def json_get_obj)

end
