(* ===== verification/Provider_Http.thy ===== *)
theory Provider_Http
  imports Wire_Json Sse Modalities
begin

text \<open>
  What the provider adapters of \<open>crates/godwit-providers/src\<close> share: the request they hand to
  the HTTP client, what it answers, and the steps every adapter method repeats around
  \<open>send().await\<close>. The client (\<open>reqwest\<close>) and the JSON text parser are parameters: the client
  answers a request with an error or with a status, the content type and the body, whole and in the
  pieces in which it arrives.
\<close>

section \<open>The client\<close>

datatype form_value = FV_Text string | FV_File string string string

datatype http_body = HB_Empty | HB_Json json | HB_Form "(string \<times> form_value) list"

record client_request =
  hq_method :: http_method
  hq_url :: string
  hq_headers :: "(string \<times> string) list"
  hq_body :: http_body

text \<open>The body may fail while it is read; its pieces are read by the streaming methods.\<close>

record client_response =
  hs_status :: u16
  hs_content_type :: "string option"
  hs_body :: "(string, string) result"
  hs_chunks :: "(string, string) result list"

record 's client =
  cl_send :: "client_request \<Rightarrow> 's \<Rightarrow> (string, client_response) result \<times> 's"
  cl_parse :: "string \<Rightarrow> json option"
  cl_print :: "json \<Rightarrow> string"
  cl_de_error :: "string \<Rightarrow> string"
  cl_mime_ok :: "string \<Rightarrow> bool"
  cl_mime_error :: "string \<Rightarrow> string"
  cl_lossy :: "string \<Rightarrow> string"
  cl_now :: "'s \<Rightarrow> i64"

definition is_success :: "u16 \<Rightarrow> bool" where
  "is_success status \<longleftrightarrow> 200 \<le> unat status \<and> unat status < 300"

section \<open>The steps of an adapter method\<close>

type_synonym ('a, 's) provider_call = "'s \<Rightarrow> (provider_error, 'a) result \<times> 's"

definition post_json :: "string \<Rightarrow> (string \<times> string) list \<Rightarrow> json \<Rightarrow> client_request" where
  "post_json url headers body =
     \<lparr>hq_method = POST, hq_url = url, hq_headers = headers, hq_body = HB_Json body\<rparr>"

fun key_header :: "string \<Rightarrow> (string \<Rightarrow> string) \<Rightarrow> string option \<Rightarrow> (string \<times> string) list" where
  "key_header name render None = []"
| "key_header name render (Some key) = [(name, render key)]"

definition bearer :: "string option \<Rightarrow> (string \<times> string) list" where
  "bearer = key_header ''Authorization'' (\<lambda>key. ''Bearer '' @ key)"

text \<open>\<open>send\<close>, then the test of the status: a failed send has status 0, a failed status carries the
  text of the body.\<close>

definition send_checked :: "'s client \<Rightarrow> client_request \<Rightarrow> (client_response, 's) provider_call" where
  "send_checked cl rq s =
     (case cl_send cl rq s of
        (Inl e, s') \<Rightarrow> (Err (PErr_Http 0 e), s')
      | (Inr res, s') \<Rightarrow>
          if is_success (hs_status res) then (Ok res, s')
          else (Err (PErr_Http (hs_status res)
                  (case hs_body res of Inr t \<Rightarrow> t | Inl _ \<Rightarrow> [])), s'))"

text \<open>\<open>res.json::<T>()\<close>.\<close>

definition read_json :: "'s client \<Rightarrow> (json \<Rightarrow> 'a option) \<Rightarrow> client_response \<Rightarrow> (provider_error, 'a) result" where
  "read_json cl de res =
     (case hs_body res of
        Inl e \<Rightarrow> Err (PErr_Serialization e)
      | Inr t \<Rightarrow> ok_or (PErr_Serialization (cl_de_error cl t)) (Option.bind (cl_parse cl t) de))"

definition call_json ::
  "'s client \<Rightarrow> client_request \<Rightarrow> (json \<Rightarrow> 'a option) \<Rightarrow> ('a, 's) provider_call" where
  "call_json cl rq de s =
     (case send_checked cl rq s of (r, s') \<Rightarrow> (bind_result r (read_json cl de), s'))"

text \<open>\<open>bytes_stream().flat_map(...)\<close>: each piece is parsed on its own; a piece that fails is the
  empty text. \<open>cl_lossy\<close> is \<open>String::from_utf8_lossy\<close>.\<close>

definition chunk_events ::
  "'s client \<Rightarrow> (string \<Rightarrow> string list) \<Rightarrow> (string, string) result \<Rightarrow> (provider_error, string) result list" where
  "chunk_events cl translate chunk =
     map Inr (concat (map translate
       (parse_sse_events (case chunk of Inr b \<Rightarrow> cl_lossy cl b | Inl _ \<Rightarrow> []))))"

definition call_stream ::
  "'s client \<Rightarrow> client_request \<Rightarrow> (string \<Rightarrow> string list) \<Rightarrow>
     ((provider_error, string) result list, 's) provider_call" where
  "call_stream cl rq translate s =
     (case send_checked cl rq s of (r, s') \<Rightarrow>
        (map_sum id (\<lambda>res. concat (map (chunk_events cl translate) (hs_chunks res))) r, s'))"

definition not_supported :: "string \<Rightarrow> ('a, 's) provider_call" where
  "not_supported msg s = (Err (PErr_CapabilityNotSupported msg), s)"


section \<open>Outcomes\<close>

lemma send_checked_cases:
  obtains e s' where "cl_send cl rq s = (Inl e, s')" "send_checked cl rq s = (Err (PErr_Http 0 e), s')"
  | res s' t where "cl_send cl rq s = (Inr res, s')" "\<not> is_success (hs_status res)"
      "send_checked cl rq s = (Err (PErr_Http (hs_status res) t), s')"
  | res s' where "cl_send cl rq s = (Inr res, s')" "is_success (hs_status res)"
      "send_checked cl rq s = (Ok res, s')"
proof -
  obtain r s' where r: "cl_send cl rq s = (r, s')" by fastforce
  show thesis
  proof (cases r)
    case (Inl e)
    with r that(1) show thesis by (simp add: send_checked_def)
  next
    case (Inr res)
    with r that(2,3) show thesis by (cases "is_success (hs_status res)") (simp_all add: send_checked_def)
  qed
qed

lemma call_json_Ok:
  assumes "call_json cl rq de s = (Ok x, s')"
  shows "\<exists>res t v. cl_send cl rq s = (Ok res, s') \<and> is_success (hs_status res) \<and>
    hs_body res = Ok t \<and> cl_parse cl t = Some v \<and> de v = Some x"
proof (cases rule: send_checked_cases [of cl rq s])
  case (3 res s'')
  with assms have s: "s'' = s'" "read_json cl de res = Ok x" by (simp_all add: call_json_def)
  then obtain t where t: "hs_body res = Ok t"
    "ok_or (PErr_Serialization (cl_de_error cl t)) (Option.bind (cl_parse cl t) de) = Ok x"
    by (cases "hs_body res") (simp_all add: read_json_def)
  from t(2) obtain v where "cl_parse cl t = Some v" "de v = Some x"
    by (cases "cl_parse cl t"; cases "Option.bind (cl_parse cl t) de") auto
  with 3 s t(1) show ?thesis by blast
qed (use assms in \<open>simp_all add: call_json_def\<close>)

lemma call_json_state: "snd (call_json cl rq de s) = snd (cl_send cl rq s)"
  by (cases rule: send_checked_cases [of cl rq s]) (simp_all add: call_json_def)

lemma call_stream_state: "snd (call_stream cl rq f s) = snd (cl_send cl rq s)"
  by (cases rule: send_checked_cases [of cl rq s]) (simp_all add: call_stream_def)

section \<open>Pieces of a stream\<close>

lemma split_on_append: "split_on d (p @ d # q) = split_on d p @ split_on d q"
proof (induction p)
  case (Cons c p)
  then show ?case by (cases "split_on d p") auto
qed simp

lemma str_lines_append: "str_lines (p @ lf # q) = map strip_cr (split_on lf p) @ str_lines q"
  by (simp add: str_lines_def split_on_append Let_def butlast_append)

lemma parse_sse_append: "parse_sse_events (p @ lf # q) = parse_sse_events (p @ [lf]) @ parse_sse_events q"
proof -
  have "str_lines (p @ lf # q) = str_lines (p @ [lf]) @ str_lines q"
    using str_lines_append [of p "[]"] by (simp add: str_lines_append) (simp add: str_lines_def)
  then show ?thesis by (simp add: parse_sse_events_def map_filter_def)
qed

lemma parse_sse_whole_lines:
  assumes "p = [] \<or> last p = lf"
  shows "parse_sse_events (p @ q) = parse_sse_events p @ parse_sse_events q"
proof (cases "p = []")
  case True
  then show ?thesis by (simp add: parse_sse_events_def str_lines_def map_filter_simps)
next
  case False
  with assms obtain p' where "p = p' @ [lf]" by (metis append_butlast_last_id)
  then show ?thesis using parse_sse_append [of p' q] by simp
qed

lemma parse_sse_chunks:
  "list_all (\<lambda>c. c = [] \<or> last c = lf) cs \<Longrightarrow>
     concat (map parse_sse_events cs) @ parse_sse_events c = parse_sse_events (concat cs @ c)"
proof (induction cs)
  case (Cons d cs)
  then show ?case by (simp add: parse_sse_whole_lines [of d])
qed simp


text \<open>A client without a network, for the examples: it answers every request with the given
  response and counts the requests.\<close>

definition fixed_client :: "(string, client_response) result \<Rightarrow> nat client" where
  "fixed_client r = \<lparr>cl_send = (\<lambda>_ n. (r, Suc n)), cl_parse = coded_parse, cl_print = coded_print,
     cl_de_error = id, cl_mime_ok = (\<lambda>_. True), cl_mime_error = id, cl_lossy = id, cl_now = (\<lambda>_. 7)\<rparr>"


text \<open>A piece that ends inside an event: its first part is taken for the event and the rest, which
  does not begin with \<open>data: \<close>, is dropped.\<close>

lemma str_lines_single: "lf \<notin> set l \<Longrightarrow> l \<noteq> [] \<Longrightarrow> str_lines l = [l]"
proof -
  have "lf \<notin> set l \<Longrightarrow> split_on lf l = [l]" by (induction l) auto
  then show "lf \<notin> set l \<Longrightarrow> l \<noteq> [] \<Longrightarrow> str_lines l = [l]" by (simp add: str_lines_def)
qed

lemma parse_sse_one:
  assumes "lf \<notin> set a" "trim (''data: '' @ a) = ''data: '' @ a" "a \<noteq> ''[DONE]''"
  shows "parse_sse_events (''data: '' @ a) = [a]"
proof -
  have "str_lines (''data: '' @ a) = [''data: '' @ a]"
    using assms(1) by (intro str_lines_single) (simp_all add: lf_def)
  moreover have "sse_line (''data: '' @ a) = Some a"
    using assms(2,3) by (simp add: sse_line_def strip_prefix_def starts_with_def)
  ultimately show ?thesis by (simp add: parse_sse_events_def map_filter_simps)
qed

lemma trim_empty: "trim [] = []"
  by (simp add: trim_def trim_end_def)

lemma parse_sse_rest:
  assumes "lf \<notin> set b" "\<not> starts_with ''data: '' (trim (strip_cr b))"
  shows "parse_sse_events (b @ [lf, lf]) = []"
proof -
  have "split_on lf b = [b]" using assms(1) by (induction b) auto
  then have "str_lines (b @ [lf, lf]) = [strip_cr b, []]"
    using str_lines_append [of b "[lf]"] str_lines_append [of "[]" "[]"]
    by (simp add: str_lines_def strip_cr_def)
  with assms(2) show ?thesis
    by (simp add: parse_sse_events_def map_filter_simps sse_line_def strip_prefix_def trim_empty Let_def)
qed

lemma split_event_chunks:
  assumes "lf \<notin> set (a @ b)" "trim (''data: '' @ a) = ''data: '' @ a" "a \<noteq> ''[DONE]''"
    and "\<not> starts_with ''data: '' (trim (strip_cr b))"
    and "cl_lossy cl (''data: '' @ a) = ''data: '' @ a" "cl_lossy cl (b @ [lf, lf]) = b @ [lf, lf]"
  shows "concat (map (chunk_events cl translate) [Inr (''data: '' @ a), Inr (b @ [lf, lf])]) =
    map Inr (translate a)"
  using assms parse_sse_one [of a] parse_sse_rest [of b] by (simp add: chunk_events_def)

text \<open>\<open>s.chars().count()\<close>: the bytes of a UTF-8 string that begin a character.\<close>

definition chars_count :: "string \<Rightarrow> nat" where
  "chars_count s = length (filter (\<lambda>c. byte c div 64 \<noteq> 2) s)"

end
