(* ===== verification/Anthropic_Adapter.thy ===== *)
theory Anthropic_Adapter
  imports Provider_Http
begin

text \<open>
  \<open>crates/godwit-providers/src/anthropic.rs\<close>: the translation of a chat request into a Messages
  API request, of its answer into a chat completion and of its events into the canonical
  envelope, and the adapter methods.
\<close>

section \<open>Requests\<close>

record anthropic_image_source =
  ais_type :: string
  ais_media_type :: string
  ais_data :: string

datatype anthropic_content_block =
    AB_Text string "cache_control option"
  | AB_Image anthropic_image_source "cache_control option"

record anthropic_message =
  am_role :: string
  am_content :: "anthropic_content_block list"

definition png :: string where "png = ''image/png''"

definition media_type_of :: "string \<Rightarrow> string" where
  "media_type_of header =
     (if str_contains ''image/png'' header then png
      else if str_contains ''image/jpeg'' header \<or> str_contains ''image/jpg'' header then ''image/jpeg''
      else if str_contains ''image/gif'' header then ''image/gif''
      else if str_contains ''image/webp'' header then ''image/webp''
      else png)"

definition parse_image_url :: "string \<Rightarrow> string \<times> string" where
  "parse_image_url url =
     (if starts_with ''data:'' url then
        (case split_on (CHR '','') url of
           [header, data] \<Rightarrow> (media_type_of header, data)
         | _ \<Rightarrow> (png, url))
      else (png, url))"

fun block_of_part :: "cache_control option \<Rightarrow> chat_content_part \<Rightarrow> anthropic_content_block" where
  "block_of_part cc (CP_Text t) = AB_Text t cc"
| "block_of_part cc (CP_ImageUrl u) =
     (case parse_image_url (iu_url u) of (media_type, data) \<Rightarrow>
        AB_Image \<lparr>ais_type = ''base64'', ais_media_type = media_type, ais_data = data\<rparr> cc)"

fun blocks_of_content :: "cache_control option \<Rightarrow> chat_content \<Rightarrow> anthropic_content_block list" where
  "blocks_of_content cc (CC_Text t) = [AB_Text t cc]"
| "blocks_of_content cc (CC_Parts ps) = map (block_of_part cc) ps"

definition am_from_chat_message :: "chat_message \<Rightarrow> anthropic_message" where
  "am_from_chat_message msg =
     \<lparr>am_role = cm_role msg,
      am_content = concat (map (blocks_of_content (cm_cache_control msg)) (unwrap_or [] (cm_content msg)))\<rparr>"

record anthropic_tool =
  atl_name :: string
  atl_description :: "string option"
  atl_schema_name :: string
  atl_schema :: "json option"

datatype anthropic_tool_choice = ATC_Auto | ATC_Any | ATC_Tool string

record anthropic_chat_request =
  acr_model :: string
  acr_max_tokens :: i32
  acr_temperature :: "f32 option"
  acr_system :: "string option"
  acr_messages :: "anthropic_message list"
  acr_stream :: bool
  acr_stop_sequences :: "string list option"
  acr_top_p :: "f32 option"
  acr_top_k :: "i32 option"
  acr_repetition_penalty :: "f32 option"
  acr_tools :: "anthropic_tool list option"
  acr_tool_choice :: "anthropic_tool_choice option"

text \<open>The loop over the messages: \<open>system_parts\<close> and \<open>messages\<close> grow together.\<close>

fun split_messages ::
  "chat_message list \<Rightarrow> string list \<times> anthropic_message list \<Rightarrow> string list \<times> anthropic_message list" where
  "split_messages [] acc = acc"
| "split_messages (msg # msgs) (system_parts, messages) =
     (if cm_role msg = ''system'' then
        (case content_as_text msg of
           Some t \<Rightarrow> split_messages msgs (system_parts @ [t], messages)
         | None \<Rightarrow> split_messages msgs (system_parts, messages))
      else split_messages msgs (system_parts, messages @ [am_from_chat_message msg]))"

fun schema_tool :: "response_format option \<Rightarrow> anthropic_tool list \<times> anthropic_tool_choice option" where
  "schema_tool (Some (RF_JsonSchema s)) =
     ([\<lparr>atl_name = js_name s, atl_description = Some ''Output must conform to this schema'',
        atl_schema_name = js_name s, atl_schema = js_schema s\<rparr>], Some (ATC_Tool (js_name s)))"
| "schema_tool _ = ([], None)"

fun stop_list :: "stop \<Rightarrow> string list" where
  "stop_list (Stop_String s) = [s]"
| "stop_list (Stop_Array ss) = ss"

definition anthropic_from_chat_request ::
  "chat_completion_request \<Rightarrow> string \<Rightarrow> anthropic_chat_request" where
  "anthropic_from_chat_request r model_id =
     (let (system_parts, messages) = split_messages (cr_messages r) ([], []);
          (tools, tool_choice) = schema_tool (cr_response_format r)
      in \<lparr>acr_model = model_id, acr_max_tokens = unwrap_or 4096 (cr_max_tokens r),
          acr_temperature = cr_temperature r,
          acr_system = (if system_parts = [] then None else Some (join_with [lf, lf] system_parts)),
          acr_messages = messages, acr_stream = (cr_stream r = Some True),
          acr_stop_sequences = map_option stop_list (cr_stop r),
          acr_top_p = cr_top_p r, acr_top_k = cr_top_k r,
          acr_repetition_penalty = cr_repetition_penalty r,
          acr_tools = (if tools = [] then None else Some tools), acr_tool_choice = tool_choice\<rparr>)"

section \<open>Its JSON form\<close>

definition ser_image_source :: "anthropic_image_source \<Rightarrow> json" where
  "ser_image_source s = json_obj
     [(''type'', JString (ais_type s)), (''media_type'', JString (ais_media_type s)),
      (''data'', JString (ais_data s))]"

fun ser_block :: "anthropic_content_block \<Rightarrow> json" where
  "ser_block (AB_Text t cc) = json_obj
     ([(''type'', JString ''text''), (''text'', JString t)] @ skip_none ''cache_control'' ser_cache_control cc)"
| "ser_block (AB_Image src cc) = json_obj
     ([(''type'', JString ''image''), (''source'', ser_image_source src)] @
      skip_none ''cache_control'' ser_cache_control cc)"

definition ser_anthropic_message :: "anthropic_message \<Rightarrow> json" where
  "ser_anthropic_message m = json_obj
     [(''role'', JString (am_role m)), (''content'', ser_list ser_block (am_content m))]"

definition ser_anthropic_tool :: "anthropic_tool \<Rightarrow> json" where
  "ser_anthropic_tool t = json_obj
     [(''name'', JString (atl_name t)), (''description'', ser_opt JString (atl_description t)),
      (''input_schema'', json_obj ([(''name'', JString (atl_schema_name t))] @
         skip_none ''schema'' id (atl_schema t)))]"

fun ser_anthropic_tool_choice :: "anthropic_tool_choice \<Rightarrow> json" where
  "ser_anthropic_tool_choice ATC_Auto = JString ''auto''"
| "ser_anthropic_tool_choice ATC_Any = JString ''any''"
| "ser_anthropic_tool_choice (ATC_Tool n) = json_obj [(''tool'', json_obj [(''name'', JString n)])]"

definition ser_anthropic_request :: "anthropic_chat_request \<Rightarrow> json" where
  "ser_anthropic_request r = json_obj
     ([(''model'', JString (acr_model r)), (''max_tokens'', ser_i32 (acr_max_tokens r))] @
      skip_none ''temperature'' JFloat (acr_temperature r) @
      skip_none ''system'' JString (acr_system r) @
      [(''messages'', ser_list ser_anthropic_message (acr_messages r)),
       (''stream'', JBool (acr_stream r))] @
      skip_none ''stop_sequences'' (ser_list JString) (acr_stop_sequences r) @
      skip_none ''top_p'' JFloat (acr_top_p r) @
      skip_none ''top_k'' ser_i32 (acr_top_k r) @
      skip_none ''repetition_penalty'' JFloat (acr_repetition_penalty r) @
      skip_none ''tools'' (ser_list ser_anthropic_tool) (acr_tools r) @
      skip_none ''tool_choice'' ser_anthropic_tool_choice (acr_tool_choice r))"

section \<open>Answers\<close>

record anthropic_usage =
  au_input_tokens :: i32
  au_output_tokens :: i32
  au_cache_read_input_tokens :: "i32 option"
  au_cache_creation_input_tokens :: "i32 option"

record anthropic_message_response =
  amr_id :: string
  amr_type :: string
  amr_role :: string
  amr_model :: string
  amr_content :: "(string \<times> string option) list"
  amr_stop_reason :: "string option"
  amr_usage :: anthropic_usage

definition de_response_block :: "json \<Rightarrow> (string \<times> string option) option" where
  "de_response_block v = do {
     f \<leftarrow> de_struct [''type'', ''text''] v;
     t \<leftarrow> req de_string f ''type'';
     x \<leftarrow> opt de_string f ''text'';
     Some (t, x) }"

definition de_anthropic_usage :: "json \<Rightarrow> anthropic_usage option" where
  "de_anthropic_usage v = do {
     f \<leftarrow> de_struct [''input_tokens'', ''output_tokens'', ''cache_read_input_tokens'',
            ''cache_creation_input_tokens''] v;
     i \<leftarrow> req de_i32 f ''input_tokens'';
     t \<leftarrow> req de_i32 f ''output_tokens'';
     r \<leftarrow> opt de_i32 f ''cache_read_input_tokens'';
     w \<leftarrow> opt de_i32 f ''cache_creation_input_tokens'';
     Some \<lparr>au_input_tokens = i, au_output_tokens = t, au_cache_read_input_tokens = r,
           au_cache_creation_input_tokens = w\<rparr> }"

definition de_anthropic_response :: "json \<Rightarrow> anthropic_message_response option" where
  "de_anthropic_response v = do {
     f \<leftarrow> de_struct [''id'', ''type'', ''role'', ''model'', ''content'', ''stop_reason'', ''usage''] v;
     i \<leftarrow> req de_string f ''id'';
     t \<leftarrow> req de_string f ''type'';
     role \<leftarrow> req de_string f ''role'';
     model \<leftarrow> req de_string f ''model'';
     content \<leftarrow> req (de_list de_response_block) f ''content'';
     stop_reason \<leftarrow> opt de_string f ''stop_reason'';
     usage \<leftarrow> req de_anthropic_usage f ''usage'';
     Some \<lparr>amr_id = i, amr_type = t, amr_role = role, amr_model = model, amr_content = content,
           amr_stop_reason = stop_reason, amr_usage = usage\<rparr> }"

definition text_block :: "string \<times> string option \<Rightarrow> string option" where
  "text_block b = (if fst b = ''text'' then snd b else None)"

definition assistant_text :: "string \<Rightarrow> chat_message" where
  "assistant_text t = \<lparr>cm_role = ''assistant'', cm_content = Some [CC_Text t], cm_name = None,
     cm_tool_calls = None, cm_tool_call_id = None, cm_cache_control = None\<rparr>"

definition plain_usage :: "i32 \<Rightarrow> i32 \<Rightarrow> usage" where
  "plain_usage p c = \<lparr>us_prompt_tokens = p, us_completion_tokens = c, us_total_tokens = p + c,
     us_prompt_tokens_details = None, us_completion_tokens_details = None\<rparr>"

definition anthropic_response_to_chat_completion ::
  "i64 \<Rightarrow> anthropic_message_response \<Rightarrow> chat_completion_response" where
  "anthropic_response_to_chat_completion now r =
     \<lparr>cp_id = amr_id r, cp_object = ''chat.completion'', cp_created = now, cp_model = amr_model r,
      cp_choices = [\<lparr>ch_index = 0,
        ch_message = assistant_text (concat (List.map_filter text_block (amr_content r))),
        ch_finish_reason = amr_stop_reason r, ch_logprobs = None, ch_tool_calls = None\<rparr>],
      cp_usage = Some (plain_usage (au_input_tokens (amr_usage r)) (au_output_tokens (amr_usage r)))\<rparr>"

section \<open>Events\<close>

definition anthropic_sse_finish :: "(json \<Rightarrow> string) \<Rightarrow> json \<Rightarrow> string" where
  "anthropic_sse_finish print usage =
     (let prompt_tokens = (ucast (unwrap_or 0 (as_i64 (json_index ''input_tokens'' usage))) :: i32);
          completion_tokens = (ucast (unwrap_or 0 (as_i64 (json_index ''output_tokens'' usage))) :: i32)
      in print (json_obj [(''type'', JString ''finish''),
           (''usage'', json_obj [(''prompt_tokens'', JInt (sint prompt_tokens)),
              (''completion_tokens'', JInt (sint completion_tokens)),
              (''total_tokens'', JInt (sint (prompt_tokens + completion_tokens)))])]))"

definition normalize_anthropic_sse_event ::
  "(string \<Rightarrow> json option) \<Rightarrow> (json \<Rightarrow> string) \<Rightarrow> (string \<Rightarrow> string) \<Rightarrow> string \<Rightarrow> string list" where
  "normalize_anthropic_sse_event parse print de_error raw =
     (case parse raw of
        None \<Rightarrow> [build_sse_error print (''failed to parse anthropic sse event: '' @ de_error raw)]
      | Some parsed \<Rightarrow>
          (case Option.bind (json_get ''type'' parsed) as_str of
             Some t \<Rightarrow>
               if t = ''content_block_delta'' then
                 (case as_str (json_index ''text'' (json_index ''delta'' parsed)) of
                    Some x \<Rightarrow> [build_sse_delta print x]
                  | None \<Rightarrow> [])
               else if t = ''message_delta'' then
                 (case json_get ''usage'' parsed of
                    Some usage \<Rightarrow> [anthropic_sse_finish print usage]
                  | None \<Rightarrow> [])
               else []
           | None \<Rightarrow> [build_sse_error print ''anthropic sse event missing type field'']))"

section \<open>The adapter\<close>

definition anthropic_capabilities :: "capability list" where
  "anthropic_capabilities = [Chat]"

definition anthropic_headers :: "resolved_profile \<Rightarrow> (string \<times> string) list" where
  "anthropic_headers profile =
     (''anthropic-version'', ''2023-06-01'') # key_header ''x-api-key'' id (rp_api_key profile)"

definition anthropic_http ::
  "resolved_profile \<Rightarrow> model \<Rightarrow> chat_completion_request \<Rightarrow> client_request" where
  "anthropic_http profile m r =
     post_json (rp_base_url profile @ ''/v1/messages'') (anthropic_headers profile)
       (ser_anthropic_request (anthropic_from_chat_request r (m_provider_model_id m)))"

definition anthropic_usage_report :: "anthropic_usage \<Rightarrow> usage_report" where
  "anthropic_usage_report u = usage_report_default
     \<lparr>ur_prompt_tokens := Some (au_input_tokens u), ur_completion_tokens := Some (au_output_tokens u),
      ur_cache_read_tokens := au_cache_read_input_tokens u,
      ur_cache_write_tokens := au_cache_creation_input_tokens u\<rparr>"

definition anthropic_chat :: "'s client \<Rightarrow> (chat_completion_request, 's) adapter_call" where
  "anthropic_chat cl profile m r s =
     (case call_json cl (anthropic_http profile m r) de_anthropic_response s of (res, s') \<Rightarrow>
        (map_sum id (\<lambda>body.
           (PR_Chat (anthropic_response_to_chat_completion (cl_now cl s') body),
            anthropic_usage_report (amr_usage body))) res, s'))"

definition anthropic_chat_stream ::
  "'s client \<Rightarrow> resolved_profile \<Rightarrow> model \<Rightarrow> chat_completion_request \<Rightarrow>
     ((provider_error, string) result list, 's) provider_call" where
  "anthropic_chat_stream cl profile m r =
     call_stream cl (anthropic_http profile m (r\<lparr>cr_stream := Some True\<rparr>))
       (normalize_anthropic_sse_event (cl_parse cl) (cl_print cl) (cl_de_error cl))"

definition anthropic_adapter :: "'s client \<Rightarrow> 's adapter" where
  "anthropic_adapter cl =
     \<lparr>ad_chat = anthropic_chat cl,
      ad_chat_stream = anthropic_chat_stream cl,
      ad_image_generation = (\<lambda>_ _ _. not_supported ''image generation is not supported for Anthropic''),
      ad_image_edit = (\<lambda>_ _ _. not_supported ''image edit is not supported by anthropic''),
      ad_audio_tts = (\<lambda>_ _ _. not_supported ''audio TTS is not supported for Anthropic''),
      ad_audio_stt = (\<lambda>_ _ _. not_supported ''audio STT is not supported for Anthropic''),
      ad_embedding = (\<lambda>_ _ _. not_supported ''embedding is not supported for Anthropic'')\<rparr>"

definition anthropic_video_generation :: "(video_generation_request, 's) adapter_call" where
  "anthropic_video_generation _ _ _ = not_supported ''video generation is not supported for Anthropic''"

definition anthropic_create_batch ::
  "resolved_profile \<Rightarrow> model \<Rightarrow> upstream_batch_request \<Rightarrow> (upstream_batch, 's) provider_call" where
  "anthropic_create_batch _ _ _ = not_supported ''batch is not supported for Anthropic''"

definition anthropic_retrieve_batch ::
  "resolved_profile \<Rightarrow> string \<Rightarrow> (upstream_batch, 's) provider_call" where
  "anthropic_retrieve_batch _ _ = not_supported ''batch is not supported for Anthropic''"

definition anthropic_cancel_batch ::
  "resolved_profile \<Rightarrow> string \<Rightarrow> (upstream_batch, 's) provider_call" where
  "anthropic_cancel_batch _ _ = not_supported ''batch is not supported for Anthropic''"

section \<open>What the translation keeps\<close>

definition is_system :: "chat_message \<Rightarrow> bool" where
  "is_system m \<longleftrightarrow> cm_role m = ''system''"

lemma split_messages_eq:
  "split_messages msgs (sys, ms) =
     (sys @ List.map_filter content_as_text (filter is_system msgs),
      ms @ map am_from_chat_message (filter (\<lambda>m. \<not> is_system m) msgs))"
  by (induction msgs arbitrary: sys ms)
    (simp_all add: is_system_def map_filter_simps split: option.split)

lemma anthropic_request_fields:
  "acr_messages (anthropic_from_chat_request r mid) =
     map am_from_chat_message (filter (\<lambda>m. \<not> is_system m) (cr_messages r))"
  "acr_model (anthropic_from_chat_request r mid) = mid"
  "acr_tools (anthropic_from_chat_request r mid) =
     (case schema_tool (cr_response_format r) of (tools, _) \<Rightarrow> if tools = [] then None else Some tools)"
  by (simp_all add: anthropic_from_chat_request_def split_messages_eq case_prod_unfold Let_def)

fun block_text :: "anthropic_content_block \<Rightarrow> string option" where
  "block_text (AB_Text t _) = Some t"
| "block_text (AB_Image _ _) = None"

lemma block_text_part: "block_text (block_of_part cc p) = part_text p"
  by (cases p) (auto split: prod.split)

lemma blocks_text:
  "concat (List.map_filter block_text (blocks_of_content cc c)) = unwrap_or [] (as_text c)"
proof (cases c)
  case (CC_Parts ps)
  have "List.map_filter block_text (map (block_of_part cc) ps) = List.map_filter part_text ps"
    by (induction ps) (simp_all add: map_filter_simps block_text_part split: option.split)
  with CC_Parts show ?thesis by (simp add: Let_def)
qed (simp add: map_filter_simps)

definition message_text :: "anthropic_message \<Rightarrow> string" where
  "message_text m = concat (List.map_filter block_text (am_content m))"

lemma map_filter_append: "List.map_filter f (xs @ ys) = List.map_filter f xs @ List.map_filter f ys"
  by (simp add: map_filter_def)

lemma message_text_exact:
  "message_text (am_from_chat_message m) = unwrap_or [] (content_as_text m)"
proof -
  have "concat (List.map_filter block_text (concat (map (blocks_of_content cc) cs))) =
      concat (List.map_filter as_text cs)" for cc cs
    by (induction cs) (simp_all add: map_filter_append blocks_text map_filter_simps split: option.split)
  then show ?thesis
    by (cases "cm_content m")
      (simp_all add: message_text_def am_from_chat_message_def content_as_text_def map_filter_simps Let_def)
qed

text \<open>
  What the Messages API receives: the messages that are not from the system, in order, with
  their roles and their text; the texts of the system messages, joined by blank lines, as the
  system prompt; the provider's model id and the token limit, 4096 when the request has none.
\<close>

lemma anthropic_request_exact:
  "let q = anthropic_from_chat_request r mid;
       rest = filter (\<lambda>m. \<not> is_system m) (cr_messages r);
       system = List.map_filter content_as_text (filter is_system (cr_messages r))
   in map am_role (acr_messages q) = map cm_role rest \<and>
      map message_text (acr_messages q) = map (\<lambda>m. unwrap_or [] (content_as_text m)) rest \<and>
      acr_system q = (if system = [] then None else Some (join_with [lf, lf] system)) \<and>
      acr_model q = mid \<and> acr_max_tokens q = unwrap_or 4096 (cr_max_tokens r) \<and>
      acr_stop_sequences q = map_option stop_list (cr_stop r)"
  by (simp add: Let_def anthropic_request_fields comp_def message_text_exact)
    (simp add: anthropic_from_chat_request_def split_messages_eq am_from_chat_message_def
      case_prod_unfold Let_def)

text \<open>
  The tools of a request, the tool calls and the tool results of its messages are not sent: two
  requests that differ only there have the same translation.
\<close>

definition without_tools :: "chat_completion_request \<Rightarrow> chat_completion_request" where
  "without_tools r = r\<lparr>cr_tools := None, cr_tool_choice := None, cr_parallel_tool_calls := None,
     cr_messages := map (\<lambda>m. m\<lparr>cm_tool_calls := None, cm_tool_call_id := None\<rparr>) (cr_messages r)\<rparr>"

lemma split_messages_tools:
  "split_messages (map (\<lambda>m. m\<lparr>cm_tool_calls := None, cm_tool_call_id := None\<rparr>) ms) acc = split_messages ms acc"
proof (induction ms arbitrary: acc)
  case (Cons m ms)
  then show ?case
    by (cases acc) (simp add: content_as_text_def am_from_chat_message_def split: option.split)
qed simp

lemma anthropic_ignores_tools:
  "anthropic_from_chat_request (without_tools r) mid = anthropic_from_chat_request r mid"
  by (simp add: anthropic_from_chat_request_def without_tools_def split_messages_tools)

section \<open>The gateway's own Anthropic stream, read by the adapter\<close>

fun frame_data :: "server_sent_frame \<Rightarrow> string" where
  "frame_data (SF_Data d) = d"
| "frame_data (SF_Event _ d) = d"

definition ingest ::
  "(string \<Rightarrow> json option) \<Rightarrow> (json \<Rightarrow> string) \<Rightarrow> (string \<Rightarrow> string) \<Rightarrow> server_sent_frame list \<Rightarrow> string list" where
  "ingest parse print de_error frames =
     concat (map (\<lambda>f. normalize_anthropic_sse_event parse print de_error (frame_data f)) frames)"

lemma ingest_append: "ingest parse print e (xs @ ys) = ingest parse print e xs @ ingest parse print e ys"
  by (simp add: ingest_def)

lemma ingest_other:
  assumes "json_codec parse print" "json_wf (json_obj kvs)"
    and "map_of (rev kvs) ''type'' = Some (JString t)" "t \<noteq> ''content_block_delta''" "t \<noteq> ''message_delta''"
  shows "ingest parse print e [SF_Event n (print (json_obj kvs))] = []"
  using assms(3-) json_codecD [OF assms(1,2)]
  by (simp add: ingest_def normalize_anthropic_sse_event_def json_get_obj)

lemma ingest_opening:
  assumes "json_codec parse print"
  shows "ingest parse print e (anthropic_opening print t) = []"
proof -
  let ?start = "[(''type'', JString ''message_start''),
        (''message'', json_obj [(''id'', JString (at_id t)), (''type'', JString ''message''),
           (''role'', JString ''assistant''), (''model'', JString (at_model t)),
           (''content'', JArray []), (''stop_reason'', JNull), (''stop_sequence'', JNull),
           (''usage'', json_obj [(''input_tokens'', JInt 0), (''output_tokens'', JInt 0)])])]"
  have wf: "json_wf (json_obj ?start)" by (simp add: json_obj_wf)
  have "ingest parse print e (anthropic_opening print t) =
      ingest parse print e [SF_Event ''message_start'' (print (json_obj ?start))] @
      ingest parse print e [SF_Event ''content_block_start'' (print (json_obj
        [(''type'', JString ''content_block_start''), (''index'', JInt 0),
         (''content_block'', json_obj [(''type'', JString ''text''), (''text'', JString [])])]))]"
    by (simp add: anthropic_opening_def ingest_def)
  then show ?thesis
    by (simp add: ingest_other [OF assms wf] ingest_other [OF assms] json_obj_wf)
qed

lemma ingest_delta:
  assumes "json_codec parse print"
  shows "ingest parse print e (anthropic_body parse print (CE_Delta x)) = [build_sse_delta print x]"
proof -
  let ?v = "json_obj [(''type'', JString ''content_block_delta''), (''index'', JInt 0),
    (''delta'', json_obj [(''type'', JString ''text_delta''), (''text'', JString x)])]"
  have "parse (print ?v) = Some ?v" by (rule json_codecD [OF assms]) (simp add: json_obj_wf)
  then show ?thesis
    by (simp add: ingest_def block_delta_def normalize_anthropic_sse_event_def json_get_obj json_index_def)
qed

lemma i32_range: "- 2147483648 \<le> sint (w :: i32)" "sint (w :: i32) < 2147483648"
  using sint_ge [of w] sint_lt [of w] by simp_all

lemma as_i64_i32: "as_i64 (JInt (sint (w :: i32))) = Some (scast w)"
proof -
  have "- 9223372036854775808 \<le> sint w" "sint w < 9223372036854775808"
    using i32_range [of w] by linarith+
  then show ?thesis by simp
qed

lemma json_wf_i32 [simp]: "json_wf (JInt (sint (w :: i32)))"
proof -
  have "- 9223372036854775808 \<le> sint w" "sint w < 18446744073709551616"
    using i32_range [of w] by linarith+
  then show ?thesis by simp
qed

lemma sint_scast_i32: "sint (scast (w :: i32) :: i64) = sint w"
proof -
  have "- 9223372036854775808 \<le> sint w" "sint w < 9223372036854775808"
    using i32_range [of w] by linarith+
  then show ?thesis by (simp add: signed_scast_eq signed_take_bit_int_eq_self_iff)
qed

lemma ucast_scast_i32: "ucast (scast (w :: i32) :: i64) = w"
proof (rule bit_word_eqI)
  fix n assume "n < LENGTH(32)"
  then show "bit (ucast (scast w :: i64) :: i32) n = bit w n"
    by (cases "n = 31") (auto simp: bit_unsigned_iff bit_signed_iff min_def)
qed

lemma ingest_finish:
  assumes "json_codec parse print"
  shows "ingest parse print e (anthropic_body parse print (CE_Finish p c r)) =
    [build_sse_finish print 0 (scast c) None]"
proof -
  let ?v = "json_obj [(''type'', JString ''message_delta''),
        (''delta'', json_obj [(''stop_reason'', JString (canonical_to_anthropic_stop r)),
           (''stop_sequence'', JNull)]),
        (''usage'', json_obj [(''output_tokens'', JInt (sint c))])]"
  have "parse (print ?v) = Some ?v"
    by (rule json_codecD [OF assms]) (simp add: json_obj_wf del: json_wf.simps(1))
  then show ?thesis
    by (simp add: ingest_def normalize_anthropic_sse_event_def json_get_obj json_index_def
        anthropic_sse_finish_def build_sse_finish_def as_i64_i32 sint_scast_i32 ucast_scast_i32 Let_def
        del: as_i64.simps(1))
qed



end
