(* ===== verification/OpenAI_Adapter.thy ===== *)
theory OpenAI_Adapter
  imports Provider_Http Caches
begin

text \<open>
  \<open>crates/godwit-providers/src/openai.rs\<close>: the translation of a chat request into the OpenAI format,
  the local prompt cache in front of it, and the adapter methods. The provider object holds the
  cache, so the state of the adapter is the outside world together with it. The hash of the cache
  key (\<open>DefaultHasher\<close>) and the monotonic clock are parameters.
\<close>

section \<open>Requests\<close>

datatype openai_content_part = OP_Text string | OP_ImageUrl string "string option"

record openai_message =
  om_role :: string
  om_content :: "openai_content_part list option"
  om_name :: "string option"
  om_tool_calls :: "json option"
  om_tool_call_id :: "string option"

fun openai_part :: "chat_content_part \<Rightarrow> openai_content_part" where
  "openai_part (CP_Text t) = OP_Text t"
| "openai_part (CP_ImageUrl u) = OP_ImageUrl (iu_url u) (iu_detail u)"

fun openai_parts :: "chat_content \<Rightarrow> openai_content_part list" where
  "openai_parts (CC_Text t) = [OP_Text t]"
| "openai_parts (CC_Parts ps) = map openai_part ps"

definition om_from_chat_message :: "chat_message \<Rightarrow> openai_message" where
  "om_from_chat_message msg =
     \<lparr>om_role = cm_role msg,
      om_content = map_option (\<lambda>cs. concat (map openai_parts cs)) (cm_content msg),
      om_name = cm_name msg,
      om_tool_calls = map_option (ser_list ser_tool_call) (cm_tool_calls msg),
      om_tool_call_id = cm_tool_call_id msg\<rparr>"

fun ser_openai_part :: "openai_content_part \<Rightarrow> json" where
  "ser_openai_part (OP_Text t) = json_obj [(''type'', JString ''text''), (''text'', JString t)]"
| "ser_openai_part (OP_ImageUrl url detail) = json_obj [(''type'', JString ''image_url''),
     (''image_url'', json_obj ([(''url'', JString url)] @ skip_none ''detail'' JString detail))]"

definition ser_openai_message :: "openai_message \<Rightarrow> json" where
  "ser_openai_message m = json_obj
     ([(''role'', JString (om_role m)),
       (''content'', ser_opt (ser_list ser_openai_part) (om_content m))] @
      skip_none ''name'' JString (om_name m) @
      skip_none ''tool_calls'' id (om_tool_calls m) @
      skip_none ''tool_call_id'' JString (om_tool_call_id m))"

text \<open>A schema is strict unless the request says otherwise.\<close>

fun openai_response_format :: "response_format \<Rightarrow> json" where
  "openai_response_format RF_Text = json_obj [(''type'', JString ''text'')]"
| "openai_response_format RF_JsonObject = json_obj [(''type'', JString ''json_object'')]"
| "openai_response_format (RF_JsonSchema s) = json_obj [(''type'', JString ''json_schema''),
     (''json_schema'', json_obj ([(''name'', JString (js_name s))] @
        skip_none ''schema'' id (js_schema s) @
        [(''strict'', JBool (unwrap_or True (js_strict s)))]))]"

text \<open>\<open>OpenAiChatRequest\<close>, built by \<open>chat\<close> and \<open>chat_stream\<close> in the same way, as it is sent.\<close>

definition openai_chat_request :: "chat_completion_request \<Rightarrow> json" where
  "openai_chat_request r = json_obj
     ([(''model'', JString (cr_model r)),
       (''messages'', ser_list (\<lambda>m. ser_openai_message (om_from_chat_message m)) (cr_messages r))] @
      skip_none ''stream'' JBool (cr_stream r) @
      skip_none ''temperature'' JFloat (cr_temperature r) @
      skip_none ''max_tokens'' ser_i32 (cr_max_tokens r) @
      skip_none ''top_p'' JFloat (cr_top_p r) @
      skip_none ''top_k'' ser_i32 (cr_top_k r) @
      skip_none ''frequency_penalty'' JFloat (cr_frequency_penalty r) @
      skip_none ''presence_penalty'' JFloat (cr_presence_penalty r) @
      skip_none ''repetition_penalty'' JFloat (cr_repetition_penalty r) @
      skip_none ''stop'' ser_stop (cr_stop r) @
      skip_none ''seed'' ser_i64 (cr_seed r) @
      skip_none ''n'' ser_i32 (cr_n r) @
      skip_none ''logprobs'' JBool (cr_logprobs r) @
      skip_none ''top_logprobs'' ser_i32 (cr_top_logprobs r) @
      skip_none ''logit_bias'' ser_bias (cr_logit_bias r) @
      skip_none ''user'' JString (cr_user r) @
      skip_none ''tools'' (ser_list ser_tool) (cr_tools r) @
      skip_none ''tool_choice'' ser_tool_choice (cr_tool_choice r) @
      skip_none ''parallel_tool_calls'' JBool (cr_parallel_tool_calls r) @
      skip_none ''response_format'' openai_response_format (cr_response_format r) @
      skip_none ''reasoning'' ser_reasoning (cr_reasoning r))"

section \<open>The cache key\<close>

record prompt_cache_key =
  ck_model :: string
  ck_messages_hash :: u64
  ck_temperature :: "u32 option"
  ck_max_tokens :: "i32 option"
  ck_response_format_hash :: "u64 option"

text \<open>\<open>x as u32\<close> for a float: truncation, saturating at both ends.\<close>

definition f32_to_u32 :: "f32 \<Rightarrow> u32" where
  "f32_to_u32 x = (if x \<le> 0 then 0 else if 2 ^ 32 \<le> x then - 1 else word_of_int \<lfloor>x\<rfloor>)"

definition key_from_request ::
  "(string \<Rightarrow> u64) \<Rightarrow> (json \<Rightarrow> string) \<Rightarrow> chat_completion_request \<Rightarrow> prompt_cache_key" where
  "key_from_request hash print r =
     \<lparr>ck_model = cr_model r,
      ck_messages_hash = hash (print (ser_list ser_chat_message (cr_messages r))),
      ck_temperature = map_option (\<lambda>t. f32_to_u32 (f32_round (t * 100))) (cr_temperature r),
      ck_max_tokens = cr_max_tokens r,
      ck_response_format_hash = map_option (\<lambda>f. hash (print (ser_response_format f))) (cr_response_format r)\<rparr>"

type_synonym cached_chat_response = "chat_completion_response \<times> usage_report"

record 's openai_state =
  os_net :: 's
  os_cache :: "(prompt_cache_key, cached_chat_response) prompt_cache"

record 's openai_env =
  oe_client :: "'s client"
  oe_hash :: "string \<Rightarrow> u64"
  oe_instant :: "'s \<Rightarrow> instant"

definition openai_new :: "'s \<Rightarrow> 's openai_state" where
  "openai_new net = \<lparr>os_net = net, os_cache = pc_with_config 10000 (secs 3600)\<rparr>"

definition on_net :: "('a, 's) provider_call \<Rightarrow> ('a, 's openai_state) provider_call" where
  "on_net f st = (case f (os_net st) of (r, net) \<Rightarrow> (r, st\<lparr>os_net := net\<rparr>))"

section \<open>The adapter\<close>

definition openai_capabilities :: "capability list" where
  "openai_capabilities = [Chat, ImageGeneration, AudioTts, AudioStt, Embedding]"

definition openai_http ::
  "resolved_profile \<Rightarrow> model \<Rightarrow> chat_completion_request \<Rightarrow> client_request" where
  "openai_http profile m r =
     post_json (rp_base_url profile @ ''/chat/completions'') (bearer (rp_api_key profile))
       (openai_chat_request (r\<lparr>cr_model := m_provider_model_id m\<rparr>))"

definition cache_lookup ::
  "'s openai_env \<Rightarrow> chat_completion_request \<Rightarrow> 's openai_state \<Rightarrow>
     cached_chat_response option \<times> 's openai_state" where
  "cache_lookup oe r st =
     (if cr_stream r = Some True then (None, st)
      else (case pc_get (oe_instant oe (os_net st))
              (key_from_request (oe_hash oe) (cl_print (oe_client oe)) r) (os_cache st) of
              (hit, c) \<Rightarrow> (hit, st\<lparr>os_cache := c\<rparr>)))"

definition cache_store ::
  "'s openai_env \<Rightarrow> chat_completion_request \<Rightarrow> cached_chat_response \<Rightarrow> 's openai_state \<Rightarrow> 's openai_state" where
  "cache_store oe r v st =
     (if cr_stream r = Some True then st
      else st\<lparr>os_cache := pc_insert (oe_instant oe (os_net st))
              (key_from_request (oe_hash oe) (cl_print (oe_client oe)) r) v (os_cache st)\<rparr>)"

text \<open>The look-up uses the model name of the request, the insertion the id of the provider's model
  which has replaced it.\<close>

definition openai_chat :: "'s openai_env \<Rightarrow> (chat_completion_request, 's openai_state) adapter_call" where
  "openai_chat oe profile m r st =
     (case cache_lookup oe r st of
        (Some (response, usage), st) \<Rightarrow> (Ok (PR_Chat response, usage), st)
      | (None, st) \<Rightarrow>
          (case on_net (call_json (oe_client oe) (openai_http profile m r) de_chat_response) st of
             (Inl e, st) \<Rightarrow> (Err e, st)
           | (Inr body, st) \<Rightarrow>
               (let usage = chat_usage_report (cp_usage body)
                in (Ok (PR_Chat body, usage),
                    cache_store oe (r\<lparr>cr_model := m_provider_model_id m\<rparr>) (body, usage) st))))"

definition openai_chat_stream ::
  "'s client \<Rightarrow> resolved_profile \<Rightarrow> model \<Rightarrow> chat_completion_request \<Rightarrow>
     ((provider_error, string) result list, 's) provider_call" where
  "openai_chat_stream cl profile m r =
     call_stream cl (openai_http profile m (r\<lparr>cr_stream := Some True\<rparr>))
       (normalize_openai_sse_event (cl_parse cl) (cl_print cl))"

definition image_usage :: "image_generation_response \<Rightarrow> usage_report" where
  "image_usage body = usage_report_default\<lparr>ur_image_count := Some (of_nat (length (igp_data body)))\<rparr>"

text \<open>The steps after the request is built, which the Azure adapter repeats.\<close>

definition image_call :: "'s client \<Rightarrow> client_request \<Rightarrow> (provider_response \<times> usage_report, 's) provider_call" where
  "image_call cl rq s =
     (case call_json cl rq de_image_response s of
        (res, s') \<Rightarrow> (map_sum id (\<lambda>body. (PR_Image body, image_usage body)) res, s'))"

definition tts_call ::
  "'s client \<Rightarrow> client_request \<Rightarrow> string \<Rightarrow> (provider_response \<times> usage_report, 's) provider_call" where
  "tts_call cl rq input s =
     (case send_checked cl rq s of
        (res, s') \<Rightarrow>
          (bind_result res (\<lambda>res.
             (case hs_body res of
                Inl e \<Rightarrow> Err (PErr_Http 0 e)
              | Inr bytes \<Rightarrow>
                  Ok (PR_Bytes bytes (unwrap_or ''audio/mpeg'' (hs_content_type res)),
                      usage_report_default\<lparr>ur_tts_characters := Some (of_nat (chars_count input))\<rparr>))), s'))"

definition stt_call :: "'s client \<Rightarrow> client_request \<Rightarrow> (provider_response \<times> usage_report, 's) provider_call" where
  "stt_call cl rq s =
     (case call_json cl rq de_stt_response s of
        (res, s') \<Rightarrow>
          (map_sum id (\<lambda>text. (PR_AudioStt text, usage_report_default\<lparr>ur_audio_seconds := Some 0\<rparr>)) res, s'))"

definition embedding_call :: "'s client \<Rightarrow> client_request \<Rightarrow> (provider_response \<times> usage_report, 's) provider_call" where
  "embedding_call cl rq s =
     (case call_json cl rq de_embedding_response s of
        (res, s') \<Rightarrow>
          (map_sum id (\<lambda>body. (PR_Embedding body,
             usage_report_default\<lparr>ur_embedding_tokens := Some (scast (us_total_tokens (ep_usage body)))\<rparr>)) res, s'))"

definition openai_image_generation :: "'s client \<Rightarrow> (image_generation_request, 's) adapter_call" where
  "openai_image_generation cl profile m r =
     image_call cl (post_json (rp_base_url profile @ ''/images/generations'') (bearer (rp_api_key profile))
       (ser_image_generation_request (r\<lparr>igr_model := m_provider_model_id m\<rparr>)))"

definition file_part ::
  "'s client \<Rightarrow> string \<Rightarrow> string \<Rightarrow> string \<Rightarrow> (provider_error, form_value) result" where
  "file_part cl bytes name mime =
     (if cl_mime_ok cl mime then Ok (FV_File bytes name mime)
      else Err (PErr_Provider (cl_mime_error cl mime)))"

fun form_opt :: "string \<Rightarrow> string option \<Rightarrow> (string \<times> form_value) list" where
  "form_opt k None = []"
| "form_opt k (Some t) = [(k, FV_Text t)]"

definition post_form ::
  "resolved_profile \<Rightarrow> string \<Rightarrow> (string \<times> form_value) list \<Rightarrow> client_request" where
  "post_form profile path form =
     \<lparr>hq_method = POST, hq_url = rp_base_url profile @ path,
      hq_headers = bearer (rp_api_key profile), hq_body = HB_Form form\<rparr>"

definition edit_form_parts ::
  "'s client \<Rightarrow> string \<Rightarrow> image_edit_request \<Rightarrow> string \<Rightarrow> string \<Rightarrow> string option \<Rightarrow>
     (provider_error, (string \<times> form_value) list) result" where
  "edit_form_parts cl model_id r image_bytes image_filename mask_bytes =
     bind_result (file_part cl image_bytes image_filename ''image/png'') (\<lambda>image.
     bind_result (case mask_bytes of
          None \<Rightarrow> Ok []
        | Some mk \<Rightarrow> bind_result (file_part cl mk ''mask.png'' ''image/png'')
            (\<lambda>p. Ok [(''mask'', p)])) (\<lambda>mask_part.
     Ok ([(''image'', image), (''model'', FV_Text model_id), (''prompt'', FV_Text (ier_prompt r))] @ mask_part @
         form_opt ''n'' (map_option (\<lambda>n. show_int (sint n)) (ier_n r)) @
         form_opt ''size'' (ier_size r) @ form_opt ''response_format'' (ier_response_format r))))"

definition openai_image_edit ::
  "'s client \<Rightarrow> (image_edit_request \<times> string \<times> string \<times> string option, 's) adapter_call" where
  "openai_image_edit cl profile m q s =
     (case q of (r, image_bytes, image_filename, mask_bytes) \<Rightarrow>
        (case edit_form_parts cl (m_provider_model_id m) r image_bytes image_filename mask_bytes of
           Inl e \<Rightarrow> (Err e, s)
         | Inr form \<Rightarrow>
             image_call cl (post_form profile ''/images/edits'' form) s))"

definition openai_audio_tts :: "'s client \<Rightarrow> (audio_tts_request, 's) adapter_call" where
  "openai_audio_tts cl profile m r =
     tts_call cl (post_json (rp_base_url profile @ ''/audio/speech'') (bearer (rp_api_key profile))
       (ser_tts_request (r\<lparr>atr_model := m_provider_model_id m\<rparr>))) (atr_input r)"

definition stt_form_parts ::
  "'s client \<Rightarrow> string \<Rightarrow> audio_stt_request \<Rightarrow> string \<Rightarrow> string \<Rightarrow> string \<Rightarrow>
     (provider_error, (string \<times> form_value) list) result" where
  "stt_form_parts cl model_id r file_bytes filename content_type =
     bind_result (file_part cl file_bytes filename content_type) (\<lambda>file.
     Ok ([(''file'', file), (''model'', FV_Text model_id)] @
         form_opt ''language'' (asr_language r) @ form_opt ''response_format'' (asr_response_format r)))"

definition openai_audio_stt ::
  "'s client \<Rightarrow> (audio_stt_request \<times> string \<times> string \<times> string, 's) adapter_call" where
  "openai_audio_stt cl profile m q s =
     (case q of (r, file_bytes, filename, content_type) \<Rightarrow>
        (case stt_form_parts cl (m_provider_model_id m) r file_bytes filename content_type of
           Inl e \<Rightarrow> (Err e, s)
         | Inr form \<Rightarrow>
             stt_call cl (post_form profile ''/audio/transcriptions'' form) s))"

definition openai_embedding :: "'s client \<Rightarrow> (embedding_request, 's) adapter_call" where
  "openai_embedding cl profile m r =
     embedding_call cl (post_json (rp_base_url profile @ ''/embeddings'') (bearer (rp_api_key profile))
       (ser_embedding_request (r\<lparr>er_model := m_provider_model_id m\<rparr>)))"

definition openai_video_generation :: "(video_generation_request, 's) adapter_call" where
  "openai_video_generation _ _ _ = not_supported ''video generation is not supported for OpenAI''"

definition openai_create_batch ::
  "'s client \<Rightarrow> resolved_profile \<Rightarrow> model \<Rightarrow> upstream_batch_request \<Rightarrow> (upstream_batch, 's) provider_call" where
  "openai_create_batch cl profile _ r =
     call_json cl (post_json (rp_base_url profile @ ''/batches'') (bearer (rp_api_key profile))
       (ser_batch_request r)) de_batch"

definition openai_retrieve_batch ::
  "'s client \<Rightarrow> resolved_profile \<Rightarrow> string \<Rightarrow> (upstream_batch, 's) provider_call" where
  "openai_retrieve_batch cl profile batch_id =
     call_json cl \<lparr>hq_method = GET, hq_url = rp_base_url profile @ ''/batches/'' @ batch_id,
       hq_headers = bearer (rp_api_key profile), hq_body = HB_Empty\<rparr> de_batch"

definition openai_cancel_batch ::
  "'s client \<Rightarrow> resolved_profile \<Rightarrow> string \<Rightarrow> (upstream_batch, 's) provider_call" where
  "openai_cancel_batch cl profile batch_id =
     call_json cl \<lparr>hq_method = POST, hq_url = rp_base_url profile @ ''/batches/'' @ batch_id @ ''/cancel'',
       hq_headers = bearer (rp_api_key profile), hq_body = HB_Empty\<rparr> de_batch"

definition openai_adapter :: "'s openai_env \<Rightarrow> 's openai_state adapter" where
  "openai_adapter oe = (let cl = oe_client oe in
     \<lparr>ad_chat = openai_chat oe,
      ad_chat_stream = (\<lambda>p m r. on_net (openai_chat_stream cl p m r)),
      ad_image_generation = (\<lambda>p m r. on_net (openai_image_generation cl p m r)),
      ad_image_edit = (\<lambda>p m r. on_net (openai_image_edit cl p m r)),
      ad_audio_tts = (\<lambda>p m r. on_net (openai_audio_tts cl p m r)),
      ad_audio_stt = (\<lambda>p m r. on_net (openai_audio_stt cl p m r)),
      ad_embedding = (\<lambda>p m r. on_net (openai_embedding cl p m r))\<rparr>)"

section \<open>The cache\<close>

abbreviation request_key :: "'s openai_env \<Rightarrow> chat_completion_request \<Rightarrow> prompt_cache_key" where
  "request_key oe r \<equiv> key_from_request (oe_hash oe) (cl_print (oe_client oe)) r"

abbreviation cached :: "'s openai_state \<Rightarrow> prompt_cache_key \<Rightarrow> cached_chat_response cache_entry option" where
  "cached st k \<equiv> map_of (pc_cache (os_cache st)) k"

lemma key_model_ne:
  "ck_model k \<noteq> ck_model j \<Longrightarrow> k \<noteq> j"
  by auto

lemma openai_chat_miss:
  assumes "cr_stream r \<noteq> Some True" "cached st (request_key oe r) = None"
  shows "openai_chat oe profile m r st =
    (case call_json (oe_client oe) (openai_http profile m r) de_chat_response (os_net st) of
       (Inl e, n) \<Rightarrow> (Err e, st\<lparr>os_net := n\<rparr>)
     | (Inr body, n) \<Rightarrow>
         (Ok (PR_Chat body, chat_usage_report (cp_usage body)),
          cache_store oe (r\<lparr>cr_model := m_provider_model_id m\<rparr>)
            (body, chat_usage_report (cp_usage body)) (st\<lparr>os_net := n\<rparr>)))"
  using assms
  by (auto simp: openai_chat_def cache_lookup_def pc_get_def on_net_def Let_def split: prod.split sum.split)

lemma cached_insert:
  assumes "map_of (pc_cache (pc_insert now k v c)) j = Some e"
  shows "if j = k then e = \<lparr>ce_value = v, ce_expires_at = now + pc_default_ttl c\<rparr>
    else map_of (pc_cache c) j = Some e"
  using pc_insert_lookup [of now k v "pc_default_ttl c" c j e] assms by (simp add: pc_insert_def)

lemma cached_inserted:
  "map_of (pc_cache (pc_insert now k v c)) k =
     Some \<lparr>ce_value = v, ce_expires_at = now + pc_default_ttl c\<rparr>"
  by (simp add: pc_insert_def pc_insert_with_ttl_def Let_def AList.update_conv' evict_lru_def
      split: prod.split)

text \<open>
  The prompt cache never serves the request that filled it when the public name of the model
  differs from the provider's: a non-streaming request with no entry under its key goes to the
  provider, and leaves no entry under its key, so the next one goes there too.
\<close>

lemma openai_cache_misses_own_request:
  assumes "cr_stream r \<noteq> Some True" "cr_model r \<noteq> m_provider_model_id m"
    and "cached st (request_key oe r) = None"
  shows "case openai_chat oe profile m r st of (res, st') \<Rightarrow>
    os_net st' = snd (cl_send (oe_client oe) (openai_http profile m r) (os_net st)) \<and>
    cached st' (request_key oe r) = None"
proof -
  let ?call = "call_json (oe_client oe) (openai_http profile m r) de_chat_response (os_net st)"
  obtain res n where c: "?call = (res, n)" by fastforce
  have n: "n = snd (cl_send (oe_client oe) (openai_http profile m r) (os_net st))"
    using call_json_state [of "oe_client oe" "openai_http profile m r" de_chat_response "os_net st"] c by simp
  have ne: "request_key oe r \<noteq> request_key oe (r\<lparr>cr_model := m_provider_model_id m\<rparr>)"
    using assms(2) by (intro key_model_ne) (simp add: key_from_request_def)
  have keep: "map_of (pc_cache (pc_insert now (request_key oe (r\<lparr>cr_model := m_provider_model_id m\<rparr>)) v
      (os_cache st))) (request_key oe r) = None" for now v
    using cached_insert [of now "request_key oe (r\<lparr>cr_model := m_provider_model_id m\<rparr>)" v "os_cache st"
        "request_key oe r"] ne assms(3)
    by (cases "map_of (pc_cache (pc_insert now (request_key oe (r\<lparr>cr_model := m_provider_model_id m\<rparr>)) v
      (os_cache st))) (request_key oe r)") auto
  show ?thesis
  proof (cases res)
    case (Inl e)
    with c n assms show ?thesis by (simp add: openai_chat_miss)
  next
    case (Inr body)
    with c n assms keep show ?thesis by (simp add: openai_chat_miss cache_store_def)
  qed
qed

lemma openai_chat_hit:
  assumes "cr_stream r \<noteq> Some True" "cached st (request_key oe r) = Some e"
    and "oe_instant oe (os_net st) \<le> ce_expires_at e"
  shows "openai_chat oe profile m r st =
    (Ok (PR_Chat (fst (ce_value e)), snd (ce_value e)),
     st\<lparr>os_cache := update_lru_access (request_key oe r) (os_cache st)\<rparr>)"
  using assms by (simp add: openai_chat_def cache_lookup_def pc_get_def split: prod.split)

text \<open>
  Who gets a cached answer: after a miss that the provider answered, every request, for any
  model and any profile, whose model name is the id of the provider's model and whose messages,
  temperature class, token limit and response format are those of the first request, is answered
  from the cache for an hour, without a call. The tools, the seed, the number of choices and the
  credentials are not compared.
\<close>

lemma openai_cache_serves_any_profile:
  assumes "cr_stream r1 \<noteq> Some True" "cached st (request_key oe r1) = None"
    and "openai_chat oe p1 m1 r1 st = (Ok (PR_Chat body, u), st1)"
    and "cr_stream r2 \<noteq> Some True"
    and "request_key oe r2 = request_key oe (r1\<lparr>cr_model := m_provider_model_id m1\<rparr>)"
    and "os_cache st2 = os_cache st1"
    and "oe_instant oe (os_net st2) \<le> oe_instant oe (os_net st1) + pc_default_ttl (os_cache st)"
  shows "\<exists>c. openai_chat oe p2 m2 r2 st2 = (Ok (PR_Chat body, u), st2\<lparr>os_cache := c\<rparr>)"
proof -
  obtain res n where c: "call_json (oe_client oe) (openai_http p1 m1 r1) de_chat_response (os_net st) = (res, n)"
    by fastforce
  from assms(3) c obtain b where b: "res = Inr b" by (cases res) (simp_all add: openai_chat_miss [OF assms(1,2)])
  let ?k = "request_key oe (r1\<lparr>cr_model := m_provider_model_id m1\<rparr>)"
  from assms(3) have st1: "body = b" "u = chat_usage_report (cp_usage b)"
    "os_net st1 = n" "os_cache st1 = pc_insert (oe_instant oe n) ?k (b, u) (os_cache st)"
    using assms(1) by (auto simp: openai_chat_miss [OF assms(1,2)] c b cache_store_def)
  then have "cached st2 ?k = Some \<lparr>ce_value = (b, u), ce_expires_at = oe_instant oe n + pc_default_ttl (os_cache st)\<rparr>"
    by (simp add: assms(6) cached_inserted)
  then show ?thesis
    using openai_chat_hit [OF assms(4), of st2 oe] assms(5,7) st1(1,3) by (auto simp: assms(5))
qed

section \<open>An example\<close>

definition sample_answer :: chat_completion_response where
  "sample_answer = \<lparr>cp_id = ''1'', cp_object = ''chat.completion'', cp_created = 7, cp_model = ''gpt-4o'',
     cp_choices = [], cp_usage = None\<rparr>"

definition sample_model :: "string \<Rightarrow> string \<Rightarrow> model" where
  "sample_model public_id provider_id = \<lparr>m_id = 1, m_public_id = public_id, m_provider = ''openai'',
     m_provider_profile_id = 2, m_provider_model_id = provider_id, m_capabilities = [''chat''],
     m_pricing = JNull, m_config = JNull, m_created_at = 0\<rparr>"

definition sample_http :: "string \<Rightarrow> (string, client_response) result" where
  "sample_http body = Inr \<lparr>hs_status = 200, hs_content_type = None, hs_body = Inr body, hs_chunks = [Inr body]\<rparr>"

definition sample_env :: "nat openai_env" where
  "sample_env = \<lparr>oe_client = fixed_client (sample_http (coded_print (ser_chat_response sample_answer))),
     oe_hash = (\<lambda>_. 0), oe_instant = (\<lambda>_. 0)\<rparr>"

definition sample_creds :: "string \<Rightarrow> resolved_profile" where
  "sample_creds key = \<lparr>rp_base_url = ''https://api'', rp_api_key = Some key\<rparr>"

lemma de_sample_answer: "coded_parse (coded_print (ser_chat_response sample_answer)) =
    Some (ser_chat_response sample_answer)"
proof (rule json_codecD [OF coded_codec])
  show "json_wf (ser_chat_response sample_answer)"
    by (simp add: ser_chat_response_def sample_answer_def ser_i64_def ser_list_def json_obj_wf)
qed

lemma sample_answer_wire: "de_chat_response (ser_chat_response sample_answer) = Some sample_answer"
  by (simp add: de_chat_response_def ser_chat_response_def sample_answer_def base_wire ser_list_def de_opt_def)

lemma sample_answer_usage: "cp_usage sample_answer = None"
  by (simp add: sample_answer_def)

lemma sample_chat:
  assumes "cr_stream r \<noteq> Some True"
  shows "openai_chat sample_env p m r (openai_new n) =
    (Ok (PR_Chat sample_answer, usage_report_default),
     cache_store sample_env (r\<lparr>cr_model := m_provider_model_id m\<rparr>) (sample_answer, usage_report_default)
       (openai_new (Suc n)))"
  using assms
  by (subst openai_chat_miss)
    (simp_all add: openai_new_def pc_with_config_def call_json_def send_checked_def sample_env_def
      fixed_client_def sample_http_def is_success_def read_json_def de_sample_answer sample_answer_wire
      sample_answer_usage)

theorem openai_cache_misses_own_request_witness:
  "cached (snd (openai_chat sample_env (sample_creds ''k'') (sample_model ''gpt'' ''gpt-4o'')
     (sample_request []) (openai_new 0))) (request_key sample_env (sample_request [])) = None"
  using openai_cache_misses_own_request [of "sample_request []" "sample_model ''gpt'' ''gpt-4o''"
      "openai_new 0" sample_env "sample_creds ''k''"]
  by (simp add: sample_request_def sample_model_def openai_new_def pc_with_config_def split: prod.splits)

theorem openai_cache_serves_any_profile_witness:
  "\<exists>c. openai_chat sample_env (sample_creds ''other'') (sample_model ''gpt-4o'' ''my-model'')
     ((sample_request [])\<lparr>cr_model := ''gpt-4o'', cr_seed := Some 3\<rparr>)
     (snd (openai_chat sample_env (sample_creds ''k'') (sample_model ''gpt'' ''gpt-4o'')
       (sample_request []) (openai_new 0))) =
   (Ok (PR_Chat sample_answer, usage_report_default),
    (snd (openai_chat sample_env (sample_creds ''k'') (sample_model ''gpt'' ''gpt-4o'')
       (sample_request []) (openai_new 0)))\<lparr>os_cache := c\<rparr>)"
proof (rule openai_cache_serves_any_profile [where ?r1.0 = "sample_request []" and st = "openai_new 0" and
        ?p1.0 = "sample_creds ''k''" and ?m1.0 = "sample_model ''gpt'' ''gpt-4o''"])
  have plain: "cr_stream (sample_request []) \<noteq> Some True" by (simp add: sample_request_def)
  show "cr_stream (sample_request []) \<noteq> Some True" by (rule plain)
  show "openai_chat sample_env (sample_creds ''k'') (sample_model ''gpt'' ''gpt-4o'') (sample_request [])
      (openai_new 0) = (Ok (PR_Chat sample_answer, usage_report_default),
      snd (openai_chat sample_env (sample_creds ''k'') (sample_model ''gpt'' ''gpt-4o'')
        (sample_request []) (openai_new 0)))"
    by (simp add: sample_chat [OF plain])
  show "cr_stream ((sample_request [])\<lparr>cr_model := ''gpt-4o'', cr_seed := Some 3\<rparr>) \<noteq> Some True"
    using plain by simp
qed (simp_all add: key_from_request_def sample_model_def openai_new_def pc_with_config_def sample_env_def)

end
