(* ===== verification/Compat_Adapters.thy ===== *)
theory Compat_Adapters
  imports OpenAI_Adapter Agentic_Loop
begin

text \<open>
  The adapters for self-hosted servers that speak the OpenAI protocol:
  \<open>crates/godwit-providers/src/vllm.rs\<close>, \<open>sglang.rs\<close>, \<open>ollama.rs\<close> and \<open>llama_cpp.rs\<close>. The four
  differ in how they ask for structured output and in their messages; the shared steps are
  written once and the bodies one by one. \<open>web_search.rs\<close> strips the tools these servers do not have.
\<close>

section \<open>Tools that are not forwarded\<close>

definition has_native_web_search_tool :: "tool list \<Rightarrow> bool" where
  "has_native_web_search_tool tools = list_ex is_native_web_search_tool tools"

definition strip_native_web_search_tools :: "tool list \<Rightarrow> tool list" where
  "strip_native_web_search_tools tools = filter (\<lambda>t. \<not> is_native_web_search_tool t) tools"

definition strip_native_web_search_from_request :: "chat_completion_request \<Rightarrow> chat_completion_request" where
  "strip_native_web_search_from_request r =
     (case cr_tools r of
        None \<Rightarrow> r
      | Some tools \<Rightarrow>
          if has_native_web_search_tool tools
          then r\<lparr>cr_tools := Some (strip_native_web_search_tools tools)\<rparr> else r)"

section \<open>Bodies\<close>

fun json_remove :: "string \<Rightarrow> json \<Rightarrow> json" where
  "json_remove k (JObject m) = JObject (AList.delete k m)"
| "json_remove k v = v"

fun json_insert :: "string \<Rightarrow> json \<Rightarrow> json \<Rightarrow> json" where
  "json_insert k w (JObject m) = JObject (obj_insert k w m)"
| "json_insert k w v = v"

definition put_stop :: "chat_completion_request \<Rightarrow> json \<Rightarrow> json" where
  "put_stop r v = (case cr_stop r of None \<Rightarrow> v | Some s \<Rightarrow> json_insert ''stop'' (ser_stop s) v)"

definition put_seed :: "chat_completion_request \<Rightarrow> json \<Rightarrow> json" where
  "put_seed r v = (case cr_seed r of None \<Rightarrow> v | Some s \<Rightarrow> json_insert ''seed'' (ser_i64 s) v)"

text \<open>A schema replaces the response format by a member that the server understands.\<close>

definition structured :: "(json_schema \<Rightarrow> json \<Rightarrow> json) \<Rightarrow> chat_completion_request \<Rightarrow> json \<Rightarrow> json" where
  "structured put r v =
     (case cr_response_format r of
        Some (RF_JsonSchema s) \<Rightarrow> put s (json_remove ''response_format'' v)
      | _ \<Rightarrow> v)"

definition put_schema :: "string \<Rightarrow> (json \<Rightarrow> json) \<Rightarrow> json_schema \<Rightarrow> json \<Rightarrow> json" where
  "put_schema k f s v = (case js_schema s of None \<Rightarrow> v | Some schema \<Rightarrow> json_insert k (f schema) v)"

definition vllm_body :: "chat_completion_request \<Rightarrow> json" where
  "vllm_body r = put_seed r (put_stop r (structured (put_schema ''guided_json'' id) r (ser_request r)))"

definition sglang_body :: "chat_completion_request \<Rightarrow> json" where
  "sglang_body r = put_seed r (put_stop r (structured (put_schema ''json_schema'' id) r (ser_request r)))"

definition ollama_body :: "chat_completion_request \<Rightarrow> json" where
  "ollama_body r = put_seed r (put_stop r
     (structured (\<lambda>_. json_insert ''format'' (JString ''json'')) r (ser_request r)))"

text \<open>\<open>json_schema_to_gbnf\<close>: one rule per property of the schema between a fixed first rule and the
  fixed rules of JSON.\<close>

definition bsl :: string where "bsl = [CHR 0x5C]"

definition gbnf_type :: "string \<Rightarrow> string" where
  \<open>gbnf_type t =
     (if t = ''string'' then ''"'' @ bsl @ ''"" string "'' @ bsl @ ''""''
      else if t \<in> {''number'', ''integer'', ''boolean'', ''array'', ''object''} then t
      else ''string'')\<close>

definition gbnf_property :: "string \<times> json \<Rightarrow> string" where
  "gbnf_property kv =
     (case as_object (snd kv) of
        None \<Rightarrow> []
      | Some _ \<Rightarrow>
          fst kv @ '' ::= '' @
          gbnf_type (unwrap_or ''string'' (Option.bind (json_get ''type'' (snd kv)) as_str)) @ [lf])"

definition gbnf_rules :: string where
  \<open>gbnf_rules =
     ''object ::= "{" (ws string ws ":" ws value (ws "," ws string ws ":" ws value)*)? ws "}"'' @ [lf] @
     ''array ::= "["'' @ '' (ws value (ws "," ws value)*)? ws "]"'' @ [lf] @
     ''value ::= string | number | integer | boolean | object | array | null'' @ [lf] @
     ''string ::= "'' @ bsl @ ''"" ([^"'' @ bsl @ bsl @ ''] | "'' @ bsl @ bsl @ ''" ["'' @ bsl @ bsl @
       ''/bfnrt] | "'' @ bsl @ bsl @ ''" u [0-9a-fA-F] [0-9a-fA-F] [0-9a-fA-F] [0-9a-fA-F])* "'' @ bsl @ ''""'' @ [lf] @
     ''number ::= "-"? ([0-9] | [1-9] [0-9]*) ("." [0-9]+)? ([eE] [+-]? [0-9]+)?'' @ [lf] @
     ''integer ::= "-"? ([0-9] | [1-9] [0-9]*)'' @ [lf] @
     ''boolean ::= "true" | "false"'' @ [lf] @
     ''null ::= "null"'' @ [lf] @
     ''ws ::= ([ '' @ bsl @ ''t'' @ bsl @ ''n'' @ bsl @ ''r])*'' @ [lf]\<close>

definition json_schema_to_gbnf :: "json \<Rightarrow> string" where
  "json_schema_to_gbnf schema =
     ''root ::= object'' @ [lf] @
     (case Option.bind (json_get ''properties'' schema) as_object of
        None \<Rightarrow> []
      | Some properties \<Rightarrow> concat (map gbnf_property properties)) @ gbnf_rules"

definition llama_cpp_body :: "chat_completion_request \<Rightarrow> json" where
  "llama_cpp_body r = put_stop r
     (structured (put_schema ''grammar'' (\<lambda>s. JString (json_schema_to_gbnf s))) r (ser_request r))"

section \<open>Calls\<close>

definition compat_prepare :: "model \<Rightarrow> chat_completion_request \<Rightarrow> chat_completion_request" where
  "compat_prepare m r = strip_native_web_search_from_request (r\<lparr>cr_model := m_provider_model_id m\<rparr>)"

definition compat_http ::
  "(chat_completion_request \<Rightarrow> json) \<Rightarrow> resolved_profile \<Rightarrow> model \<Rightarrow> chat_completion_request \<Rightarrow> client_request" where
  "compat_http body profile m r =
     post_json (rp_base_url profile @ ''/chat/completions'') (bearer (rp_api_key profile))
       (body (compat_prepare m r))"

definition compat_chat ::
  "(chat_completion_request \<Rightarrow> json) \<Rightarrow> 's client \<Rightarrow> (chat_completion_request, 's) adapter_call" where
  "compat_chat body cl profile m r s =
     (case call_json cl (compat_http body profile m r) de_chat_response s of
        (res, s') \<Rightarrow> (map_sum id (\<lambda>b. (PR_Chat b, chat_usage_report (cp_usage b))) res, s'))"

definition compat_chat_stream ::
  "(chat_completion_request \<Rightarrow> json) \<Rightarrow> 's client \<Rightarrow> resolved_profile \<Rightarrow> model \<Rightarrow>
     chat_completion_request \<Rightarrow> ((provider_error, string) result list, 's) provider_call" where
  "compat_chat_stream body cl profile m r =
     call_stream cl (compat_http body profile m (r\<lparr>cr_stream := Some True\<rparr>))
       (normalize_openai_sse_event (cl_parse cl) (cl_print cl))"

definition compat_embedding :: "'s client \<Rightarrow> (embedding_request, 's) adapter_call" where
  "compat_embedding = openai_embedding"

definition compat_capabilities :: "capability list" where
  "compat_capabilities = [Chat, Embedding]"

definition compat_adapter ::
  "(chat_completion_request, 's) adapter_call \<Rightarrow>
   (resolved_profile \<Rightarrow> model \<Rightarrow> chat_completion_request \<Rightarrow>
      ((provider_error, string) result list, 's) provider_call) \<Rightarrow>
   (embedding_request, 's) adapter_call \<Rightarrow> string \<Rightarrow> 's adapter" where
  "compat_adapter chat stream emb name =
     \<lparr>ad_chat = chat,
      ad_chat_stream = stream,
      ad_image_generation = (\<lambda>_ _ _. not_supported (''image generation is not supported by '' @ name)),
      ad_image_edit = (\<lambda>_ _ _. not_supported (''image edit is not supported by '' @ name)),
      ad_audio_tts = (\<lambda>_ _ _. not_supported (''audio TTS is not supported by '' @ name)),
      ad_audio_stt = (\<lambda>_ _ _. not_supported (''audio STT is not supported by '' @ name)),
      ad_embedding = emb\<rparr>"

definition vllm_chat :: "'s client \<Rightarrow> (chat_completion_request, 's) adapter_call" where
  "vllm_chat = compat_chat vllm_body"

definition vllm_chat_stream ::
  "'s client \<Rightarrow> resolved_profile \<Rightarrow> model \<Rightarrow> chat_completion_request \<Rightarrow>
     ((provider_error, string) result list, 's) provider_call" where
  "vllm_chat_stream = compat_chat_stream vllm_body"

definition vllm_embedding :: "'s client \<Rightarrow> (embedding_request, 's) adapter_call" where
  "vllm_embedding = compat_embedding"

definition vllm_adapter :: "'s client \<Rightarrow> 's adapter" where
  "vllm_adapter cl = compat_adapter (vllm_chat cl) (vllm_chat_stream cl) (vllm_embedding cl) ''vllm''"

definition sglang_chat :: "'s client \<Rightarrow> (chat_completion_request, 's) adapter_call" where
  "sglang_chat = compat_chat sglang_body"

definition sglang_chat_stream ::
  "'s client \<Rightarrow> resolved_profile \<Rightarrow> model \<Rightarrow> chat_completion_request \<Rightarrow>
     ((provider_error, string) result list, 's) provider_call" where
  "sglang_chat_stream = compat_chat_stream sglang_body"

definition sglang_embedding :: "'s client \<Rightarrow> (embedding_request, 's) adapter_call" where
  "sglang_embedding = compat_embedding"

definition sglang_adapter :: "'s client \<Rightarrow> 's adapter" where
  "sglang_adapter cl = compat_adapter (sglang_chat cl) (sglang_chat_stream cl) (sglang_embedding cl) ''sglang''"

definition ollama_chat :: "'s client \<Rightarrow> (chat_completion_request, 's) adapter_call" where
  "ollama_chat = compat_chat ollama_body"

definition ollama_chat_stream ::
  "'s client \<Rightarrow> resolved_profile \<Rightarrow> model \<Rightarrow> chat_completion_request \<Rightarrow>
     ((provider_error, string) result list, 's) provider_call" where
  "ollama_chat_stream = compat_chat_stream ollama_body"

definition ollama_embedding :: "'s client \<Rightarrow> (embedding_request, 's) adapter_call" where
  "ollama_embedding = compat_embedding"

definition ollama_adapter :: "'s client \<Rightarrow> 's adapter" where
  "ollama_adapter cl = compat_adapter (ollama_chat cl) (ollama_chat_stream cl) (ollama_embedding cl) ''ollama''"

definition llama_cpp_chat :: "'s client \<Rightarrow> (chat_completion_request, 's) adapter_call" where
  "llama_cpp_chat = compat_chat llama_cpp_body"

definition llama_cpp_chat_stream ::
  "'s client \<Rightarrow> resolved_profile \<Rightarrow> model \<Rightarrow> chat_completion_request \<Rightarrow>
     ((provider_error, string) result list, 's) provider_call" where
  "llama_cpp_chat_stream = compat_chat_stream llama_cpp_body"

definition llama_cpp_embedding :: "'s client \<Rightarrow> (embedding_request, 's) adapter_call" where
  "llama_cpp_embedding = compat_embedding"

definition llama_cpp_adapter :: "'s client \<Rightarrow> 's adapter" where
  "llama_cpp_adapter cl = compat_adapter (llama_cpp_chat cl) (llama_cpp_chat_stream cl) (llama_cpp_embedding cl) ''llama.cpp''"

definition compat_video_generation :: "string \<Rightarrow> (video_generation_request, 's) adapter_call" where
  "compat_video_generation name _ _ _ = not_supported (''video generation is not supported by '' @ name)"

text \<open>\<open>create_batch\<close>, \<open>retrieve_batch\<close> and \<open>cancel_batch\<close>; the name is the server's own spelling.\<close>

definition compat_batch :: "string \<Rightarrow> (upstream_batch, 's) provider_call" where
  "compat_batch name = not_supported (''batch is not supported for '' @ name)"

definition vllm_batch :: "(upstream_batch, 's) provider_call" where
  "vllm_batch = compat_batch ''vLLM''"

definition sglang_batch :: "(upstream_batch, 's) provider_call" where
  "sglang_batch = compat_batch ''SGLang''"

definition ollama_batch :: "(upstream_batch, 's) provider_call" where
  "ollama_batch = compat_batch ''Ollama''"

definition llama_cpp_batch :: "(upstream_batch, 's) provider_call" where
  "llama_cpp_batch = compat_batch ''llama.cpp''"

section \<open>What the servers receive\<close>

lemma json_get_remove: "json_get k (json_remove j v) = (if k = j then None else json_get k v)"
  by (cases v) (auto simp: AList.delete_conv')

lemma json_get_insert_other: "k \<noteq> j \<Longrightarrow> json_get k (json_insert j w v) = json_get k v"
  by (cases v) auto

definition untouched :: "string \<Rightarrow> bool" where
  "untouched k \<longleftrightarrow>
     k \<notin> {''stop'', ''seed'', ''response_format'', ''guided_json'', ''json_schema'', ''format'', ''grammar''}"

lemma untouched_steps:
  assumes "untouched k"
  shows "json_get k (put_stop r v) = json_get k v" "json_get k (put_seed r v) = json_get k v"
    "(\<And>s w. json_get k (put s w) = json_get k w) \<Longrightarrow> json_get k (structured put r v) = json_get k v"
  using assms
  by (auto simp: untouched_def put_stop_def put_seed_def structured_def json_get_insert_other
      json_get_remove split: option.split response_format.split)

lemma untouched_schema:
  "untouched k \<Longrightarrow> j \<in> {''guided_json'', ''json_schema'', ''grammar''} \<Longrightarrow>
     json_get k (put_schema j f s v) = json_get k v"
  by (auto simp: untouched_def put_schema_def json_get_insert_other split: option.split)

text \<open>What all four bodies keep of the request.\<close>

locale compat_body =
  fixes body :: "chat_completion_request \<Rightarrow> json"
  assumes keeps: "untouched k \<Longrightarrow> json_get k (body r) = json_get k (ser_request r)"
begin

lemma model_sent:
  "json_get ''model'' (body (compat_prepare m r)) = Some (JString (m_provider_model_id m))"
  by (simp add: keeps untouched_def)
    (simp add: ser_request_def json_get_obj compat_prepare_def strip_native_web_search_from_request_def
      split: option.split)

lemma messages_sent:
  "json_get ''messages'' (body (compat_prepare m r)) = Some (ser_list ser_chat_message (cr_messages r))"
  by (simp add: keeps untouched_def)
    (simp add: ser_request_def json_get_obj compat_prepare_def strip_native_web_search_from_request_def
      split: option.split)

lemma tools_sent:
  "json_get ''tools'' (body (compat_prepare m r)) =
     Some (ser_opt (ser_list ser_tool)
       (map_option (filter (\<lambda>t. \<not> is_native_web_search_tool t)) (cr_tools r)))"
proof -
  have "\<not> has_native_web_search_tool ts \<Longrightarrow> filter (\<lambda>t. \<not> is_native_web_search_tool t) ts = ts" for ts
    by (auto simp: has_native_web_search_tool_def list_ex_iff intro: filter_True)
  then have "cr_tools (compat_prepare m r) =
      map_option (filter (\<lambda>t. \<not> is_native_web_search_tool t)) (cr_tools r)"
    by (auto simp: compat_prepare_def strip_native_web_search_from_request_def
        strip_native_web_search_tools_def split: option.split)
  then show ?thesis by (simp add: keeps untouched_def) (simp add: ser_request_def json_get_obj)
qed

end

interpretation vllm: compat_body vllm_body
  by unfold_locales (simp add: vllm_body_def untouched_steps untouched_schema)

interpretation sglang: compat_body sglang_body
  by unfold_locales (simp add: sglang_body_def untouched_steps untouched_schema)

interpretation ollama: compat_body ollama_body
proof unfold_locales
  fix k r assume k: "untouched k"
  have "json_get k (json_insert ''format'' (JString ''json'') v) = json_get k v" for v
    using k by (intro json_get_insert_other) (simp add: untouched_def)
  with k show "json_get k (ollama_body r) = json_get k (ser_request r)"
    by (simp add: ollama_body_def untouched_steps)
qed

interpretation llama_cpp: compat_body llama_cpp_body
  by unfold_locales (simp add: llama_cpp_body_def untouched_steps untouched_schema)

text \<open>
  The self-hosted servers receive the provider's model id, every message, and every tool of the
  request except the native web-search tools, which none of them is ever sent.
\<close>

lemma compat_request_exact:
  "list_all (\<lambda>body.
     json_get ''model'' (body (compat_prepare m r)) = Some (JString (m_provider_model_id m)) \<and>
     json_get ''messages'' (body (compat_prepare m r)) = Some (ser_list ser_chat_message (cr_messages r)) \<and>
     json_get ''tools'' (body (compat_prepare m r)) = Some (ser_opt (ser_list ser_tool)
       (map_option (filter (\<lambda>t. \<not> is_native_web_search_tool t)) (cr_tools r))))
   [vllm_body, sglang_body, ollama_body, llama_cpp_body]"
  by (simp add: vllm.model_sent vllm.messages_sent vllm.tools_sent sglang.model_sent sglang.messages_sent
      sglang.tools_sent ollama.model_sent ollama.messages_sent ollama.tools_sent llama_cpp.model_sent
      llama_cpp.messages_sent llama_cpp.tools_sent)

end
