(* ===== verification/Azure_Adapter.thy ===== *)
theory Azure_Adapter
  imports OpenAI_Adapter
begin

text \<open>
  \<open>crates/godwit-providers/src/azure_openai.rs\<close>: deployments of OpenAI models at Azure. The messages and
  the response format are translated as for OpenAI; the request has fewer members, the model is
  part of the path and the key has its own header.
\<close>

definition azure_chat_request :: "chat_completion_request \<Rightarrow> json" where
  "azure_chat_request r = json_obj
     ([(''model'', JString (cr_model r)),
       (''messages'', ser_list (\<lambda>m. ser_openai_message (om_from_chat_message m)) (cr_messages r))] @
      skip_none ''stream'' JBool (cr_stream r) @
      skip_none ''temperature'' JFloat (cr_temperature r) @
      skip_none ''max_tokens'' ser_i32 (cr_max_tokens r) @
      skip_none ''tools'' (ser_list ser_tool) (cr_tools r) @
      skip_none ''tool_choice'' ser_tool_choice (cr_tool_choice r) @
      skip_none ''response_format'' openai_response_format (cr_response_format r))"

definition azure_capabilities :: "capability list" where
  "azure_capabilities = [Chat, ImageGeneration, AudioTts, AudioStt, Embedding]"

definition api_version :: string where
  "api_version = ''?api-version=2024-02-15-preview''"

definition deployment_url :: "resolved_profile \<Rightarrow> model \<Rightarrow> string \<Rightarrow> string" where
  "deployment_url profile m path =
     rp_base_url profile @ ''/openai/deployments/'' @ m_provider_model_id m @ path @ api_version"

definition azure_key :: "resolved_profile \<Rightarrow> (string \<times> string) list" where
  "azure_key profile = key_header ''api-key'' id (rp_api_key profile)"

definition azure_chat :: "'s client \<Rightarrow> (chat_completion_request, 's) adapter_call" where
  "azure_chat cl profile m r s =
     (case call_json cl (post_json (deployment_url profile m ''/chat/completions'') (azure_key profile)
              (azure_chat_request (r\<lparr>cr_model := m_provider_model_id m\<rparr>))) de_chat_response s of
        (res, s') \<Rightarrow> (map_sum id (\<lambda>body. (PR_Chat body, chat_usage_report (cp_usage body))) res, s'))"

definition azure_chat_stream ::
  "'s client \<Rightarrow> resolved_profile \<Rightarrow> model \<Rightarrow> chat_completion_request \<Rightarrow>
     ((provider_error, string) result list, 's) provider_call" where
  "azure_chat_stream cl profile m r =
     call_stream cl
       (post_json (deployment_url profile m ''/chat/completions'' @ ''&stream=true'') (azure_key profile)
          (azure_chat_request (r\<lparr>cr_stream := Some True, cr_model := m_provider_model_id m\<rparr>)))
       (normalize_openai_sse_event (cl_parse cl) (cl_print cl))"

definition azure_image_generation :: "'s client \<Rightarrow> (image_generation_request, 's) adapter_call" where
  "azure_image_generation cl profile m r =
     image_call cl (post_json (deployment_url profile m ''/images/generations'') (azure_key profile)
       (ser_image_generation_request (r\<lparr>igr_model := m_provider_model_id m\<rparr>)))"

definition azure_form ::
  "resolved_profile \<Rightarrow> model \<Rightarrow> string \<Rightarrow> (string \<times> form_value) list \<Rightarrow> client_request" where
  "azure_form profile m path form =
     \<lparr>hq_method = POST, hq_url = deployment_url profile m path, hq_headers = azure_key profile,
      hq_body = HB_Form form\<rparr>"

definition azure_image_edit ::
  "'s client \<Rightarrow> (image_edit_request \<times> string \<times> string \<times> string option, 's) adapter_call" where
  "azure_image_edit cl profile m q s =
     (case q of (r, image_bytes, image_filename, mask_bytes) \<Rightarrow>
        (case edit_form_parts cl (m_provider_model_id m) r image_bytes image_filename mask_bytes of
           Inl e \<Rightarrow> (Err e, s)
         | Inr form \<Rightarrow> image_call cl (azure_form profile m ''/images/edits'' form) s))"

definition azure_video_generation :: "(video_generation_request, 's) adapter_call" where
  "azure_video_generation _ _ _ = not_supported ''video generation is not supported for Azure OpenAI''"

definition azure_audio_tts :: "'s client \<Rightarrow> (audio_tts_request, 's) adapter_call" where
  "azure_audio_tts cl profile m r =
     tts_call cl (post_json (deployment_url profile m ''/audio/speech'') (azure_key profile)
       (ser_tts_request (r\<lparr>atr_model := m_provider_model_id m\<rparr>))) (atr_input r)"

definition azure_audio_stt ::
  "'s client \<Rightarrow> (audio_stt_request \<times> string \<times> string \<times> string, 's) adapter_call" where
  "azure_audio_stt cl profile m q s =
     (case q of (r, file_bytes, filename, content_type) \<Rightarrow>
        (case stt_form_parts cl (m_provider_model_id m) r file_bytes filename content_type of
           Inl e \<Rightarrow> (Err e, s)
         | Inr form \<Rightarrow> stt_call cl (azure_form profile m ''/audio/transcriptions'' form) s))"

definition azure_embedding :: "'s client \<Rightarrow> (embedding_request, 's) adapter_call" where
  "azure_embedding cl profile m r =
     embedding_call cl (post_json (deployment_url profile m ''/embeddings'') (azure_key profile)
       (ser_embedding_request (r\<lparr>er_model := m_provider_model_id m\<rparr>)))"

definition azure_create_batch ::
  "'s client \<Rightarrow> resolved_profile \<Rightarrow> model \<Rightarrow> upstream_batch_request \<Rightarrow> (upstream_batch, 's) provider_call" where
  "azure_create_batch cl profile _ r =
     call_json cl (post_json (rp_base_url profile @ ''/openai/batches'' @ api_version) (azure_key profile)
       (ser_batch_request r)) de_batch"

definition azure_retrieve_batch ::
  "'s client \<Rightarrow> resolved_profile \<Rightarrow> string \<Rightarrow> (upstream_batch, 's) provider_call" where
  "azure_retrieve_batch cl profile batch_id =
     call_json cl \<lparr>hq_method = GET, hq_url = rp_base_url profile @ ''/openai/batches/'' @ batch_id @ api_version,
       hq_headers = azure_key profile, hq_body = HB_Empty\<rparr> de_batch"

definition azure_cancel_batch ::
  "'s client \<Rightarrow> resolved_profile \<Rightarrow> string \<Rightarrow> (upstream_batch, 's) provider_call" where
  "azure_cancel_batch cl profile batch_id =
     call_json cl \<lparr>hq_method = POST,
       hq_url = rp_base_url profile @ ''/openai/batches/'' @ batch_id @ ''/cancel'' @ api_version,
       hq_headers = azure_key profile, hq_body = HB_Empty\<rparr> de_batch"

definition azure_adapter :: "'s client \<Rightarrow> 's adapter" where
  "azure_adapter cl =
     \<lparr>ad_chat = azure_chat cl, ad_chat_stream = azure_chat_stream cl,
      ad_image_generation = azure_image_generation cl, ad_image_edit = azure_image_edit cl,
      ad_audio_tts = azure_audio_tts cl, ad_audio_stt = azure_audio_stt cl,
      ad_embedding = azure_embedding cl\<rparr>"

section \<open>Azure and OpenAI\<close>

text \<open>
  The members that the Azure request has are those of the OpenAI request; stop sequences, seed,
  sampling parameters, number of choices, log probabilities and reasoning are dropped.
\<close>

definition azure_members :: "string list" where
  "azure_members =
     [''model'', ''messages'', ''stream'', ''temperature'', ''max_tokens'', ''tools'', ''tool_choice'', ''response_format'']"

lemma json_get_members: "json_get k (json_obj kvs) = json_get k (json_obj (filter (\<lambda>x. fst x = k) kvs))"
proof -
  have "map_of (rev (filter (\<lambda>x. fst x = k) kvs)) k = map_of (rev kvs) k"
    by (induction kvs) (auto simp: map_add_def split: option.split)
  then show ?thesis by (simp add: json_get_obj)
qed

lemma skip_keys: "k \<in> S \<Longrightarrow> fst ` set (skip_none k f v) \<subseteq> S"
  by (cases v) simp_all

lemma filter_skip: "filter (\<lambda>x. fst x = k) (skip_none j f v) = (if j = k then skip_none j f v else [])"
  by (cases v) simp_all

text \<open>
  Azure receives exactly the members it knows of the request OpenAI would receive, with the same
  values: model, messages, stream flag, temperature, token limit, tools, tool choice and
  response format; every other parameter of the request is dropped.
\<close>

lemma azure_request_is_openai_part:
  "json_get k (azure_chat_request r) =
     (if k \<in> set azure_members then json_get k (openai_chat_request r) else None)"
proof (cases "k \<in> set azure_members")
  case True
  then have "k = ''model'' \<or> k = ''messages'' \<or> k = ''stream'' \<or> k = ''temperature'' \<or>
      k = ''max_tokens'' \<or> k = ''tools'' \<or> k = ''tool_choice'' \<or> k = ''response_format''"
    by (simp only: azure_members_def list.set insert_iff empty_iff simp_thms)
  then have "json_get k (azure_chat_request r) = json_get k (openai_chat_request r)"
    unfolding azure_chat_request_def openai_chat_request_def
    by (subst (1 2) json_get_members, elim disjE) (simp_all add: filter_skip)
  with True show ?thesis by (simp only: if_True)
next
  case False
  have none: "json_get k (json_obj kvs) = None" if "fst ` set kvs \<subseteq> set azure_members" for kvs
    using that False by (auto simp: json_get_obj map_of_eq_None_iff)
  show ?thesis unfolding azure_chat_request_def if_not_P [OF False]
    by (rule none) (simp add: image_Un skip_keys azure_members_def)
qed

end
