(* ===== verification/Gemini_Adapter.thy ===== *)
theory Gemini_Adapter
  imports Anthropic_Adapter Compat_Adapters
begin

text \<open>
  \<open>crates/godwit-providers/src/gemini.rs\<close>, \<open>gemini_cache.rs\<close> and \<open>gemini_stream.rs\<close>: translation to and
  from the Gemini API, the look-up of content cached on its servers, and the translator of its
  stream. The state of the adapter is the outside world with the local table of cached contents.
\<close>

section \<open>Requests\<close>

datatype gemini_part = GP_Text string | GP_InlineData string string | GP_FileData string string

record gemini_content =
  gc_role :: string
  gc_parts :: "gemini_part list"

definition parse_data_url :: "string \<Rightarrow> string \<times> string" where
  "parse_data_url url =
     (case split_once (CHR '','') url of
        Some (header, data) \<Rightarrow> (media_type_of header, data)
      | None \<Rightarrow> (png, url))"

fun gemini_part_of :: "chat_content_part \<Rightarrow> gemini_part" where
  "gemini_part_of (CP_Text t) = GP_Text t"
| "gemini_part_of (CP_ImageUrl u) =
     (if starts_with ''data:'' (iu_url u)
      then (case parse_data_url (iu_url u) of (media_type, data) \<Rightarrow> GP_InlineData media_type data)
      else GP_FileData png (iu_url u))"

fun gemini_parts_of :: "chat_content \<Rightarrow> gemini_part list" where
  "gemini_parts_of (CC_Text t) = [GP_Text t]"
| "gemini_parts_of (CC_Parts ps) = map gemini_part_of ps"

definition gemini_role :: "string \<Rightarrow> string" where
  "gemini_role role = (if role = ''assistant'' then ''model'' else role)"

definition gc_from_chat_message :: "chat_message \<Rightarrow> gemini_content" where
  "gc_from_chat_message msg =
     \<lparr>gc_role = gemini_role (cm_role msg),
      gc_parts = concat (map gemini_parts_of (unwrap_or [] (cm_content msg)))\<rparr>"

record gemini_generation_config =
  gg_max_output_tokens :: "i32 option"
  gg_temperature :: "f32 option"
  gg_top_p :: "f32 option"
  gg_top_k :: "i32 option"
  gg_stop_sequences :: "string list option"
  gg_seed :: "i64 option"
  gg_repetition_penalty :: "f32 option"

record gemini_chat_request =
  gr_system_instruction :: "string option"
  gr_contents :: "gemini_content list"
  gr_generation_config :: gemini_generation_config
  gr_web_search :: bool

fun split_system ::
  "chat_message list \<Rightarrow> string list \<times> gemini_content list \<Rightarrow> string list \<times> gemini_content list" where
  "split_system [] acc = acc"
| "split_system (msg # msgs) (system_parts, contents) =
     (if cm_role msg = ''system'' then
        (case content_as_text msg of
           Some t \<Rightarrow> split_system msgs (system_parts @ [t], contents)
         | None \<Rightarrow> split_system msgs (system_parts, contents))
      else split_system msgs (system_parts, contents @ [gc_from_chat_message msg]))"

text \<open>\<open>tools\<close> holds one grounding tool or is absent; \<open>gr_web_search\<close> tells which.\<close>

definition gemini_from_chat_request :: "chat_completion_request \<Rightarrow> gemini_chat_request" where
  "gemini_from_chat_request r =
     (let (system_parts, contents) = split_system (cr_messages r) ([], [])
      in \<lparr>gr_system_instruction =
            (if system_parts = [] then None else Some (join_with [lf, lf] system_parts)),
          gr_contents = contents,
          gr_generation_config =
            \<lparr>gg_max_output_tokens = Some (unwrap_or 4096 (cr_max_tokens r)),
             gg_temperature = cr_temperature r, gg_top_p = cr_top_p r, gg_top_k = cr_top_k r,
             gg_stop_sequences = map_option stop_list (cr_stop r), gg_seed = cr_seed r,
             gg_repetition_penalty = cr_repetition_penalty r\<rparr>,
          gr_web_search = (case cr_tools r of None \<Rightarrow> False | Some ts \<Rightarrow> has_native_web_search_tool ts)\<rparr>)"

fun ser_gemini_part :: "gemini_part \<Rightarrow> json" where
  "ser_gemini_part (GP_Text t) = json_obj [(''text'', JString t)]"
| "ser_gemini_part (GP_InlineData m d) =
     json_obj [(''inlineData'', json_obj [(''mimeType'', JString m), (''data'', JString d)])]"
| "ser_gemini_part (GP_FileData m u) =
     json_obj [(''fileData'', json_obj [(''mimeType'', JString m), (''fileUri'', JString u)])]"

definition ser_gemini_content :: "gemini_content \<Rightarrow> json" where
  "ser_gemini_content c = json_obj
     [(''role'', JString (gc_role c)), (''parts'', ser_list ser_gemini_part (gc_parts c))]"

definition ser_generation_config :: "gemini_generation_config \<Rightarrow> json" where
  "ser_generation_config g = json_obj
     (skip_none ''maxOutputTokens'' ser_i32 (gg_max_output_tokens g) @
      skip_none ''temperature'' JFloat (gg_temperature g) @
      skip_none ''topP'' JFloat (gg_top_p g) @
      skip_none ''topK'' ser_i32 (gg_top_k g) @
      skip_none ''stopSequences'' (ser_list JString) (gg_stop_sequences g) @
      skip_none ''seed'' ser_i64 (gg_seed g) @
      skip_none ''repetitionPenalty'' JFloat (gg_repetition_penalty g))"

definition ser_gemini_request :: "gemini_chat_request \<Rightarrow> json" where
  "ser_gemini_request r = json_obj
     (skip_none ''systemInstruction'' JString (gr_system_instruction r) @
      [(''contents'', ser_list ser_gemini_content (gr_contents r)),
       (''generationConfig'', ser_generation_config (gr_generation_config r))] @
      (if gr_web_search r
       then [(''tools'', JArray [json_obj [(''googleSearchGrounding'', JObject [])]])] else []))"

section \<open>Answers\<close>

text \<open>A field with \<open>default\<close> that is missing has its default; a null is not accepted for it.\<close>

definition dflt :: "'a \<Rightarrow> (json \<Rightarrow> 'a option) \<Rightarrow> fields \<Rightarrow> string \<Rightarrow> 'a option" where
  "dflt d de f k = (case f k of None \<Rightarrow> Some d | Some v \<Rightarrow> de v)"

record 'n gemini_usage =
  gu_prompt_token_count :: 'n
  gu_candidates_token_count :: 'n
  gu_total_token_count :: 'n
  gu_cached_content_token_count :: "'n option"

record gemini_candidate =
  gca_parts :: "string option list"
  gca_finish_reason :: "string option"

record 'n gemini_chat_response =
  gcr_candidates :: "gemini_candidate list"
  gcr_usage_metadata :: "'n gemini_usage option"

definition de_gemini_part :: "json \<Rightarrow> string option option" where
  "de_gemini_part v = do { f \<leftarrow> de_struct [''text''] v; opt de_string f ''text'' }"

definition de_gemini_content :: "json \<Rightarrow> string option list option" where
  "de_gemini_content v = do { f \<leftarrow> de_struct [''parts''] v; dflt [] (de_list de_gemini_part) f ''parts'' }"

definition de_gemini_candidate :: "json \<Rightarrow> gemini_candidate option" where
  "de_gemini_candidate v = do {
     f \<leftarrow> de_struct [''content'', ''finishReason''] v;
     parts \<leftarrow> req de_gemini_content f ''content'';
     finish_reason \<leftarrow> opt de_string f ''finishReason'';
     Some \<lparr>gca_parts = parts, gca_finish_reason = finish_reason\<rparr> }"

text \<open>The counts are \<open>i32\<close> in \<open>gemini.rs\<close> and \<open>i64\<close> in \<open>gemini_stream.rs\<close>.\<close>

definition de_gemini_usage :: "(json \<Rightarrow> ('n :: zero) option) \<Rightarrow> json \<Rightarrow> 'n gemini_usage option" where
  "de_gemini_usage num v = do {
     f \<leftarrow> de_struct [''promptTokenCount'', ''candidatesTokenCount'', ''totalTokenCount'',
            ''cachedContentTokenCount''] v;
     p \<leftarrow> dflt 0 num f ''promptTokenCount'';
     c \<leftarrow> dflt 0 num f ''candidatesTokenCount'';
     t \<leftarrow> dflt 0 num f ''totalTokenCount'';
     k \<leftarrow> opt num f ''cachedContentTokenCount'';
     Some \<lparr>gu_prompt_token_count = p, gu_candidates_token_count = c, gu_total_token_count = t,
           gu_cached_content_token_count = k\<rparr> }"

definition de_gemini_response ::
  "(json \<Rightarrow> ('n :: zero) option) \<Rightarrow> json \<Rightarrow> 'n gemini_chat_response option" where
  "de_gemini_response num v = do {
     f \<leftarrow> de_struct [''candidates'', ''usageMetadata''] v;
     candidates \<leftarrow> req (de_list de_gemini_candidate) f ''candidates'';
     usage \<leftarrow> opt (de_gemini_usage num) f ''usageMetadata'';
     Some \<lparr>gcr_candidates = candidates, gcr_usage_metadata = usage\<rparr> }"

definition gemini_usage_report :: "i32 gemini_usage option \<Rightarrow> usage_report" where
  "gemini_usage_report u =
     (case u of
        None \<Rightarrow> usage_report_default
      | Some m \<Rightarrow> usage_report_default
          \<lparr>ur_prompt_tokens := Some (gu_prompt_token_count m),
           ur_completion_tokens := Some (gu_candidates_token_count m),
           ur_cache_read_tokens := gu_cached_content_token_count m\<rparr>)"

definition gemini_usage :: "i32 gemini_usage \<Rightarrow> usage" where
  "gemini_usage m = \<lparr>us_prompt_tokens = gu_prompt_token_count m,
     us_completion_tokens = gu_candidates_token_count m, us_total_tokens = gu_total_token_count m,
     us_prompt_tokens_details = None, us_completion_tokens_details = None\<rparr>"

definition gemini_response_to_chat_completion ::
  "string \<Rightarrow> i64 \<Rightarrow> i32 gemini_chat_response \<Rightarrow> string \<Rightarrow> (provider_error, chat_completion_response) result" where
  "gemini_response_to_chat_completion uuid now r model_id =
     (case gcr_candidates r of
        [] \<Rightarrow> Err (PErr_Provider ''Gemini response contained no candidates'')
      | candidate # _ \<Rightarrow> Ok
          \<lparr>cp_id = uuid, cp_object = ''chat.completion'', cp_created = now, cp_model = model_id,
           cp_choices = [\<lparr>ch_index = 0,
             ch_message = assistant_text (concat (List.map_filter id (gca_parts candidate))),
             ch_finish_reason = gca_finish_reason candidate, ch_logprobs = None, ch_tool_calls = None\<rparr>],
           cp_usage = map_option gemini_usage (gcr_usage_metadata r)\<rparr>)"

section \<open>Cached contents\<close>

record cached_content =
  cc_id :: string
  cc_model :: string
  cc_messages_hash :: u64
  cc_created_at :: instant
  cc_ttl :: duration

definition cached_is_expired :: "instant \<Rightarrow> cached_content \<Rightarrow> bool" where
  "cached_is_expired now c \<longleftrightarrow> cc_ttl c < elapsed_since now (cc_created_at c)"

record gemini_cache_key =
  gk_model :: string
  gk_messages_hash :: u64
  gk_system_instruction_hash :: "u64 option"

definition gemini_key_new ::
  "(string \<Rightarrow> u64) \<Rightarrow> (json \<Rightarrow> string) \<Rightarrow> string \<Rightarrow> json list \<Rightarrow> string option \<Rightarrow> gemini_cache_key" where
  "gemini_key_new hash print model_id messages system_instruction =
     \<lparr>gk_model = model_id, gk_messages_hash = hash (print (JArray messages)),
      gk_system_instruction_hash = map_option hash system_instruction\<rparr>"

definition system_texts :: "chat_completion_request \<Rightarrow> string list" where
  "system_texts r = List.map_filter content_as_text (filter (\<lambda>m. cm_role m = ''system'') (cr_messages r))"

text \<open>The messages are hashed and the hash is dropped: the key is made from an empty list.\<close>

definition create_cache_key ::
  "(string \<Rightarrow> u64) \<Rightarrow> (json \<Rightarrow> string) \<Rightarrow> chat_completion_request \<Rightarrow> gemini_cache_key" where
  "create_cache_key hash print r =
     (let system_instruction = join_with [lf, lf] (system_texts r)
      in gemini_key_new hash print (cr_model r) []
           (if system_instruction = [] then None else Some system_instruction))"

record create_cached_content_response =
  cs_name :: string
  cs_display_name :: "string option"
  cs_create_time :: "string option"
  cs_expire_time :: "string option"
  cs_model :: string

definition cs_id :: "create_cached_content_response \<Rightarrow> string" where
  "cs_id r = unwrap_or (cs_name r) (strip_prefix ''cachedContents/'' (cs_name r))"

definition de_cached_response :: "json \<Rightarrow> create_cached_content_response option" where
  "de_cached_response v = do {
     f \<leftarrow> de_struct [''name'', ''displayName'', ''createTime'', ''expireTime'', ''model''] v;
     name \<leftarrow> req de_string f ''name'';
     display_name \<leftarrow> opt de_string f ''displayName'';
     create_time \<leftarrow> opt de_string f ''createTime'';
     expire_time \<leftarrow> opt de_string f ''expireTime'';
     model \<leftarrow> req de_string f ''model'';
     Some \<lparr>cs_name = name, cs_display_name = display_name, cs_create_time = create_time,
           cs_expire_time = expire_time, cs_model = model\<rparr> }"

record 's gemini_state =
  gs_net :: 's
  gs_cache :: "(gemini_cache_key, cached_content) prompt_cache"

record 's gemini_env =
  ge_client :: "'s client"
  ge_hash :: "string \<Rightarrow> u64"
  ge_instant :: "'s \<Rightarrow> instant"
  ge_uuid :: "'s \<Rightarrow> string"

definition gemini_new :: "'s \<Rightarrow> 's gemini_state" where
  "gemini_new net = \<lparr>gs_net = net, gs_cache = pc_with_config 10000 (secs 3600)\<rparr>"

definition gemini_url :: "resolved_profile \<Rightarrow> string \<Rightarrow> string" where
  "gemini_url profile path = rp_base_url profile @ path @ ''key='' @ unwrap_or [] (rp_api_key profile)"

definition gemini_model_url :: "resolved_profile \<Rightarrow> model \<Rightarrow> string \<Rightarrow> string" where
  "gemini_model_url profile m action =
     gemini_url profile (''/v1beta/models/'' @ m_provider_model_id m @ action)"

definition cached_contents :: "chat_completion_request \<Rightarrow> json" where
  "cached_contents r = ser_list (\<lambda>m. ser_gemini_content (gc_from_chat_message m))
     (filter (\<lambda>m. cm_role m \<noteq> ''system'') (cr_messages r))"

fun first_text :: "string list \<Rightarrow> string option" where
  "first_text [] = None"
| "first_text (x # _) = Some x"

definition create_cached_content ::
  "'s gemini_env \<Rightarrow> resolved_profile \<Rightarrow> model \<Rightarrow> chat_completion_request \<Rightarrow> duration option \<Rightarrow>
     (cached_content, 's) provider_call" where
  "create_cached_content ge profile m r ttl s =
     (case call_json (ge_client ge)
        (post_json (gemini_url profile ''/v1beta/cachedContents?'') []
          (json_obj ([(''contents'', cached_contents r)] @
             skip_none ''systemInstruction'' JString (first_text (system_texts r)) @
             [(''model'', JString (m_provider_model_id m))] @
             skip_none ''ttl'' (\<lambda>d. JString (show_nat (d div secs 1) @ ''s'')) ttl)))
        de_cached_response s of
        (res, s') \<Rightarrow>
          (map_sum id (\<lambda>body.
             \<lparr>cc_id = cs_id body, cc_model = m_provider_model_id m,
              cc_messages_hash = gk_messages_hash
                (create_cache_key (ge_hash ge) (cl_print (ge_client ge)) r),
              cc_created_at = ge_instant ge s', cc_ttl = unwrap_or (secs 3600) ttl\<rparr>) res, s'))"

section \<open>Calls\<close>

definition gemini_reply ::
  "'s gemini_env \<Rightarrow> model \<Rightarrow> 's \<Rightarrow> i32 gemini_chat_response \<Rightarrow>
     (provider_error, provider_response \<times> usage_report) result" where
  "gemini_reply ge m s body =
     bind_result (gemini_response_to_chat_completion (ge_uuid ge s) (cl_now (ge_client ge) s) body (m_public_id m))
       (\<lambda>resp. Ok (PR_Chat resp, gemini_usage_report (gcr_usage_metadata body)))"

definition gemini_generate ::
  "'s gemini_env \<Rightarrow> resolved_profile \<Rightarrow> model \<Rightarrow> json \<Rightarrow> (provider_response \<times> usage_report, 's) provider_call" where
  "gemini_generate ge profile m body s =
     (case call_json (ge_client ge) (post_json (gemini_model_url profile m '':generateContent?'') [] body)
        (de_gemini_response de_i32) s of
        (res, s') \<Rightarrow> (bind_result res (gemini_reply ge m s'), s'))"

definition generate_with_cache ::
  "'s gemini_env \<Rightarrow> resolved_profile \<Rightarrow> model \<Rightarrow> chat_completion_request \<Rightarrow> string \<Rightarrow>
     (provider_response \<times> usage_report, 's) provider_call" where
  "generate_with_cache ge profile m r cached_content_id =
     gemini_generate ge profile m
       (json_obj ([(''contents'', cached_contents r)] @
          skip_none ''systemInstruction'' JString (first_text (system_texts r)) @
          [(''generationConfig'', json_obj
             [(''maxOutputTokens'', ser_i32 (unwrap_or 4096 (cr_max_tokens r))),
              (''temperature'', ser_opt JFloat (cr_temperature r))]),
           (''cachedContent'', JString cached_content_id)]))"

definition chat_without_cache ::
  "'s gemini_env \<Rightarrow> resolved_profile \<Rightarrow> model \<Rightarrow> chat_completion_request \<Rightarrow>
     (provider_response \<times> usage_report, 's) provider_call" where
  "chat_without_cache ge profile m r =
     gemini_generate ge profile m (ser_gemini_request (gemini_from_chat_request r))"

definition gemini_net :: "('a, 's) provider_call \<Rightarrow> ('a, 's gemini_state) provider_call" where
  "gemini_net f st = (case f (gs_net st) of (r, net) \<Rightarrow> (r, st\<lparr>gs_net := net\<rparr>))"

definition gemini_chat :: "'s gemini_env \<Rightarrow> (chat_completion_request, 's gemini_state) adapter_call" where
  "gemini_chat ge profile m r st =
     (if cr_stream r = Some True then gemini_net (chat_without_cache ge profile m r) st
      else
        (let key = create_cache_key (ge_hash ge) (cl_print (ge_client ge)) r;
             now = ge_instant ge (gs_net st)
         in case pc_get now key (gs_cache st) of
              (Some hit, c) \<Rightarrow>
                if \<not> cached_is_expired now hit
                then gemini_net (generate_with_cache ge profile m r (cc_id hit)) (st\<lparr>gs_cache := c\<rparr>)
                else gemini_net (chat_without_cache ge profile m r)
                       (st\<lparr>gs_cache := snd (pc_remove key c)\<rparr>)
            | (None, c) \<Rightarrow> gemini_net (chat_without_cache ge profile m r) (st\<lparr>gs_cache := c\<rparr>)))"

section \<open>Embeddings\<close>

definition embed_request :: "model \<Rightarrow> embedding_request \<Rightarrow> json" where
  "embed_request m r = json_obj [(''requests'', ser_list (\<lambda>t. json_obj
     [(''model'', JString (m_provider_model_id m)),
      (''content'', json_obj [(''parts'', JArray [ser_gemini_part (GP_Text t)])])]) (er_input r))]"

definition de_embedding_value :: "json \<Rightarrow> f32 list option" where
  "de_embedding_value v = do { f \<leftarrow> de_struct [''values''] v; req (de_list de_f32) f ''values'' }"

definition de_batch_embed :: "json \<Rightarrow> f32 list list option" where
  "de_batch_embed v = do { f \<leftarrow> de_struct [''embeddings''] v; req (de_list de_embedding_value) f ''embeddings'' }"

definition gemini_embedding_response_to_embedding_response ::
  "f32 list list \<Rightarrow> string \<Rightarrow> embedding_response" where
  "gemini_embedding_response_to_embedding_response vectors model_id =
     \<lparr>ep_object = ''list'',
      ep_data = map (\<lambda>(i, e). \<lparr>ed_object = ''embedding'', ed_embedding = e, ed_index = of_nat i\<rparr>)
        (enumerate 0 vectors),
      ep_model = model_id, ep_usage = plain_usage 0 0\<rparr>"

definition gemini_embedding :: "'s client \<Rightarrow> (embedding_request, 's) adapter_call" where
  "gemini_embedding cl profile m r s =
     (case call_json cl (post_json (gemini_model_url profile m '':batchEmbedContents?'') [] (embed_request m r))
        de_batch_embed s of
        (res, s') \<Rightarrow>
          (map_sum id (\<lambda>es.
             (let e = gemini_embedding_response_to_embedding_response es (m_public_id m)
              in (PR_Embedding e, usage_report_default
                   \<lparr>ur_embedding_tokens := Some (sum_list (map (\<lambda>d. of_nat (length (ed_embedding d))) (ep_data e)))\<rparr>)))
             res, s'))"

section \<open>The stream\<close>

record gemini_translator =
  gt_accumulated_content :: string
  gt_finish_emitted :: bool

definition gt_new :: gemini_translator where
  "gt_new = \<lparr>gt_accumulated_content = [], gt_finish_emitted = False\<rparr>"

text \<open>What a chunk emits, and the event each of them becomes.\<close>

datatype gemini_emit = GE_Delta string | GE_Finish i64 i64 string | GE_Error string

fun emit_sse :: "(json \<Rightarrow> string) \<Rightarrow> gemini_emit \<Rightarrow> string" where
  "emit_sse print (GE_Delta t) = build_sse_delta print t"
| "emit_sse print (GE_Finish p c r) = build_sse_finish print p c (Some r)"
| "emit_sse print (GE_Error m) = build_sse_error print m"

fun translate_parts :: "string option list \<Rightarrow> gemini_translator \<Rightarrow> gemini_emit list \<times> gemini_translator" where
  "translate_parts [] t = ([], t)"
| "translate_parts (p # ps) t =
     (case p of
        Some text \<Rightarrow>
          if text \<noteq> [] then
            (case translate_parts ps (t\<lparr>gt_accumulated_content := gt_accumulated_content t @ text\<rparr>) of
               (es, t') \<Rightarrow> (GE_Delta text # es, t'))
          else translate_parts ps t
      | None \<Rightarrow> translate_parts ps t)"

definition translate_finish ::
  "i64 gemini_usage option \<Rightarrow> string option \<Rightarrow> gemini_translator \<Rightarrow> gemini_emit list \<times> gemini_translator" where
  "translate_finish usage finish_reason t =
     (case finish_reason of
        Some r \<Rightarrow>
          if r \<noteq> [] \<and> \<not> gt_finish_emitted t then
            (let (p, c) = (case usage of None \<Rightarrow> (0, 0)
                             | Some m \<Rightarrow> (gu_prompt_token_count m, gu_candidates_token_count m))
             in ([GE_Finish p c r], t\<lparr>gt_finish_emitted := True\<rparr>))
          else ([], t)
      | None \<Rightarrow> ([], t))"

fun translate_candidates ::
  "i64 gemini_usage option \<Rightarrow> gemini_candidate list \<Rightarrow> gemini_translator \<Rightarrow> gemini_emit list \<times> gemini_translator" where
  "translate_candidates usage [] t = ([], t)"
| "translate_candidates usage (c # cs) t =
     (case translate_parts (gca_parts c) t of (ds, t1) \<Rightarrow>
      case translate_finish usage (gca_finish_reason c) t1 of (fs, t2) \<Rightarrow>
      case translate_candidates usage cs t2 of (es, t3) \<Rightarrow> (ds @ fs @ es, t3))"

definition translate_emits ::
  "(string \<Rightarrow> json option) \<Rightarrow> (string \<Rightarrow> string) \<Rightarrow> string \<Rightarrow> gemini_translator \<Rightarrow>
     gemini_emit list \<times> gemini_translator" where
  "translate_emits parse err_text chunk t =
     (if trim chunk = [] then ([], t)
      else (case Option.bind (parse chunk) (de_gemini_response Wire_Json.de_i64) of
              None \<Rightarrow> ([GE_Error (''failed to parse gemini chunk: '' @ err_text chunk)], t)
            | Some parsed \<Rightarrow> translate_candidates (gcr_usage_metadata parsed) (gcr_candidates parsed) t))"

definition translate_chunk ::
  "'s client \<Rightarrow> string \<Rightarrow> gemini_translator \<Rightarrow> (provider_error, string) result list \<times> gemini_translator" where
  "translate_chunk cl chunk t =
     (case translate_emits (cl_parse cl) (cl_de_error cl) chunk t of
        (es, t') \<Rightarrow> (map (\<lambda>e. Inr (emit_sse (cl_print cl) e)) es, t'))"

text \<open>\<open>chat_stream\<close>: failed pieces are dropped, each other piece is parsed into events, each event
  goes through the translator.\<close>

fun run_translator ::
  "('c \<Rightarrow> 't \<Rightarrow> 'e list \<times> 't) \<Rightarrow> 'c list \<Rightarrow> 't \<Rightarrow> 'e list \<times> 't" where
  "run_translator f [] t = ([], t)"
| "run_translator f (c # cs) t =
     (case f c t of (es, t') \<Rightarrow> case run_translator f cs t' of (fs, t'') \<Rightarrow> (es @ fs, t''))"

fun ok_piece :: "('e, 'a) result \<Rightarrow> 'a option" where
  "ok_piece (Inr x) = Some x"
| "ok_piece (Inl _) = None"

definition gemini_events ::
  "'s client \<Rightarrow> (string, string) result list \<Rightarrow> (provider_error, string) result list" where
  "gemini_events cl chunks =
     fst (run_translator (translate_chunk cl)
       (concat (map (\<lambda>b. parse_sse_events (cl_lossy cl b)) (List.map_filter ok_piece chunks))) gt_new)"

definition gemini_chat_stream ::
  "'s client \<Rightarrow> resolved_profile \<Rightarrow> model \<Rightarrow> chat_completion_request \<Rightarrow>
     ((provider_error, string) result list, 's) provider_call" where
  "gemini_chat_stream cl profile m r s =
     (case send_checked cl (post_json (gemini_model_url profile m '':streamGenerateContent?alt=sse&'') []
        (ser_gemini_request (gemini_from_chat_request r))) s of
        (res, s') \<Rightarrow> (map_sum id (\<lambda>x. gemini_events cl (hs_chunks x)) res, s'))"

text \<open>\<open>GeminiStreamTranslator::into_stream\<close>, which takes each piece as one chunk.\<close>

definition into_stream_step ::
  "'s client \<Rightarrow> (string, string) result \<Rightarrow> gemini_translator \<Rightarrow>
     (provider_error, string) result list \<times> gemini_translator" where
  "into_stream_step cl piece t =
     (case piece of
        Inl e \<Rightarrow> ([Inr (build_sse_error (cl_print cl) (''utf8 decode error: '' @ e))], t)
      | Inr b \<Rightarrow> translate_chunk cl (cl_lossy cl b) t)"

definition gemini_into_stream ::
  "'s client \<Rightarrow> (string, string) result list \<Rightarrow> gemini_translator \<Rightarrow> (provider_error, string) result list" where
  "gemini_into_stream cl pieces t = fst (run_translator (into_stream_step cl) pieces t)"

section \<open>The adapter\<close>

definition gemini_capabilities :: "capability list" where
  "gemini_capabilities = [Chat, Embedding]"

definition gemini_adapter :: "'s gemini_env \<Rightarrow> 's gemini_state adapter" where
  "gemini_adapter ge = (let cl = ge_client ge in
     \<lparr>ad_chat = gemini_chat ge,
      ad_chat_stream = (\<lambda>p m r. gemini_net (gemini_chat_stream cl p m r)),
      ad_image_generation = (\<lambda>_ _ _. not_supported ''image generation is not supported for Gemini''),
      ad_image_edit = (\<lambda>_ _ _. not_supported ''image edit is not supported by gemini''),
      ad_audio_tts = (\<lambda>_ _ _. not_supported ''audio TTS is not supported for Gemini''),
      ad_audio_stt = (\<lambda>_ _ _. not_supported ''audio STT is not supported for Gemini''),
      ad_embedding = (\<lambda>p m r. gemini_net (gemini_embedding cl p m r))\<rparr>)"

definition gemini_video_generation :: "(video_generation_request, 's) adapter_call" where
  "gemini_video_generation _ _ _ = not_supported ''video generation is not supported for Gemini''"

definition gemini_batch :: "(upstream_batch, 's) provider_call" where
  "gemini_batch = not_supported ''batch is not supported for Gemini''"

section \<open>What the stream delivers\<close>

fun delta_of :: "gemini_emit \<Rightarrow> string option" where
  "delta_of (GE_Delta t) = Some t"
| "delta_of _ = None"

fun is_finish :: "gemini_emit \<Rightarrow> bool" where
  "is_finish (GE_Finish _ _ _) = True"
| "is_finish _ = False"

definition emitted_text :: "gemini_emit list \<Rightarrow> string" where
  "emitted_text es = concat (List.map_filter delta_of es)"

lemma emitted_text_simps [simp]:
  "emitted_text [] = []"
  "emitted_text (e # es) = (case delta_of e of None \<Rightarrow> [] | Some t \<Rightarrow> t) @ emitted_text es"
  "emitted_text (xs @ ys) = emitted_text xs @ emitted_text ys"
  by (simp_all add: emitted_text_def map_filter_simps map_filter_append split: option.split)

text \<open>
  The contract of one step of the translator: its log grows by the text it emits, a finish event is
  emitted exactly when the flag is raised, and never when it was up.
\<close>

definition step_ok :: "gemini_translator \<Rightarrow> gemini_emit list \<times> gemini_translator \<Rightarrow> bool" where
  "step_ok t r \<longleftrightarrow>
     gt_accumulated_content (snd r) = gt_accumulated_content t @ emitted_text (fst r) \<and>
     length (filter is_finish (fst r)) + (if gt_finish_emitted t then 1 else 0) =
       (if gt_finish_emitted (snd r) then 1 else 0)"

lemma step_ok_seq:
  assumes "step_ok t (es, t1)" "step_ok t1 (fs, t2)"
  shows "step_ok t (es @ fs, t2)"
  using assms by (auto simp: step_ok_def split: if_splits)

lemma step_ok_nil [simp]: "step_ok t ([], t)"
  by (simp add: step_ok_def)

lemma translate_parts_ok: "step_ok t (translate_parts ps t)"
proof (induction ps arbitrary: t)
  case (Cons p ps)
  show ?case
  proof (cases "p = None \<or> p = Some []")
    case True
    then show ?thesis using Cons.IH [of t] by auto
  next
    case False
    then obtain x where p: "p = Some x" "x \<noteq> []" by (cases p) auto
    let ?t = "t\<lparr>gt_accumulated_content := gt_accumulated_content t @ x\<rparr>"
    obtain es t' where r: "translate_parts ps ?t = (es, t')" by fastforce
    have "step_ok t ([GE_Delta x], ?t)" by (simp add: step_ok_def)
    then have "step_ok t ([GE_Delta x] @ es, t')"
      using Cons.IH [of ?t] unfolding r by (rule step_ok_seq)
    with p r show ?thesis by simp
  qed
qed simp

lemma translate_finish_ok: "step_ok t (translate_finish u r t)"
  by (auto simp: translate_finish_def step_ok_def Let_def split: option.split prod.split)

lemma translate_candidates_ok: "step_ok t (translate_candidates u cs t)"
proof (induction cs arbitrary: t)
  case (Cons c cs)
  obtain ds t1 where 1: "translate_parts (gca_parts c) t = (ds, t1)" by fastforce
  obtain fs t2 where 2: "translate_finish u (gca_finish_reason c) t1 = (fs, t2)" by fastforce
  obtain es t3 where 3: "translate_candidates u cs t2 = (es, t3)" by fastforce
  have "step_ok t (ds @ fs @ es, t3)"
    using translate_parts_ok [of t "gca_parts c"] translate_finish_ok [of t1 u "gca_finish_reason c"]
      Cons.IH [of t2] unfolding 1 2 3 by (blast intro: step_ok_seq)
  with 1 2 3 show ?case by simp
qed simp

lemma translate_emits_ok: "step_ok t (translate_emits parse err_text chunk t)"
  by (auto simp: translate_emits_def translate_candidates_ok step_ok_def [of t "([GE_Error m], t)" for m]
      split: option.split)

lemma run_emits_ok: "step_ok t (run_translator (translate_emits parse err_text) chunks t)"
proof (induction chunks arbitrary: t)
  case (Cons c cs)
  obtain es t1 where 1: "translate_emits parse err_text c t = (es, t1)" by fastforce
  obtain fs t2 where 2: "run_translator (translate_emits parse err_text) cs t1 = (fs, t2)" by fastforce
  have "step_ok t (es @ fs, t2)"
    using translate_emits_ok [of t parse err_text c] Cons.IH [of t1] unfolding 1 2 by (rule step_ok_seq)
  with 1 2 show ?case by simp
qed simp

lemma run_translate_chunk:
  "run_translator (translate_chunk cl) chunks t =
     (case run_translator (translate_emits (cl_parse cl) (cl_de_error cl)) chunks t of
        (es, t') \<Rightarrow> (map (\<lambda>e. Inr (emit_sse (cl_print cl) e)) es, t'))"
  by (induction chunks arbitrary: t) (simp_all add: translate_chunk_def split: prod.split)

text \<open>
  A Gemini stream, however many chunks and candidates it has: the adapter's events are the
  renderings of a list of deltas, errors and at most one finish event, and the translator's
  record of the content is the text of the deltas, in order.
\<close>

lemma gemini_stream_finishes_once:
  "\<exists>es t. run_translator (translate_emits (cl_parse cl) (cl_de_error cl)) chunks gt_new = (es, t) \<and>
     run_translator (translate_chunk cl) chunks gt_new =
       (map (\<lambda>e. Inr (emit_sse (cl_print cl) e)) es, t) \<and>
     length (filter is_finish es) \<le> 1 \<and>
     gt_accumulated_content t = emitted_text es \<and>
     gt_finish_emitted t = list_ex is_finish es"
proof -
  obtain es t where r: "run_translator (translate_emits (cl_parse cl) (cl_de_error cl)) chunks gt_new = (es, t)"
    by fastforce
  have ok: "step_ok gt_new (es, t)"
    using run_emits_ok [of gt_new "cl_parse cl" "cl_de_error cl" chunks] r by simp
  have "list_ex is_finish es \<longleftrightarrow> filter is_finish es \<noteq> []"
    by (auto simp: list_ex_iff filter_empty_conv)
  with ok r show ?thesis
    by (auto simp: run_translate_chunk step_ok_def gt_new_def split: if_splits)
qed

section \<open>The cache is never used\<close>

text \<open>
  The Gemini adapter never uses cached content: from a new provider object, after any requests, its
  table is empty, so a chat request is answered by the plain call; nothing in the adapter fills it.
\<close>

lemma gemini_cache_never_used:
  assumes "pc_cache (gs_cache st) = []"
  shows "gemini_chat ge profile m r st = gemini_net (chat_without_cache ge profile m r) st \<and>
    pc_cache (gs_cache (snd (gemini_chat ge profile m r st))) = []"
  using assms
  by (auto simp: gemini_chat_def pc_get_def Let_def gemini_net_def split: prod.split)

definition sample_gemini_env :: "nat gemini_env" where
  "sample_gemini_env = \<lparr>ge_client = fixed_client (Inl ''down''), ge_hash = (\<lambda>_. 0), ge_instant = (\<lambda>_. 0),
     ge_uuid = (\<lambda>_. ''u'')\<rparr>"

lemma gemini_cache_never_used_witness:
  "gemini_chat sample_gemini_env (sample_creds ''k'') (sample_model ''g'' ''gemini-pro'') (sample_request [])
     (gemini_new 0) =
   gemini_net (chat_without_cache sample_gemini_env (sample_creds ''k'') (sample_model ''g'' ''gemini-pro'')
     (sample_request [])) (gemini_new 0)"
  using gemini_cache_never_used [of "gemini_new 0" sample_gemini_env "sample_creds ''k''"
      "sample_model ''g'' ''gemini-pro''" "sample_request []"]
  by (simp add: gemini_new_def pc_with_config_def)

end
