(* ===== verification/Stream_Translators.thy ===== *)
theory Stream_Translators
  imports Gemini_Adapter
begin

text \<open>
  The stateful translators of provider streams, \<open>crates/godwit-providers/src/stream_translators\<close>:
  each keeps a flag, turns a chunk of JSON text into canonical events and lets one finish event
  through. The OpenAI, Azure, vLLM and SGLang translators are the same code up to the name in their
  error message, which is a parameter here. The locale \<open>finishing_translator\<close> is the contract they
  share with the Gemini translator; every translator is an interpretation of it.
\<close>

section \<open>Chunks\<close>

text \<open>Every field of these structures has a default, so that an array in place of an object may also
  end early.\<close>

fun de_struct_dflt :: "string list \<Rightarrow> json \<Rightarrow> fields option" where
  "de_struct_dflt names (JObject m) = Some (map_of m)"
| "de_struct_dflt names (JArray vs) =
     (if length vs \<le> length names then Some (map_of (zip names vs)) else None)"
| "de_struct_dflt names _ = None"

record openai_delta =
  od_content :: "string option"
  od_tool_calls :: "json list option"

record openai_choice =
  oc_delta :: "openai_delta option"
  oc_finish_reason :: "string option"

record stream_usage =
  su_prompt_tokens :: i64
  su_completion_tokens :: i64

record openai_stream_chunk =
  osc_choices :: "openai_choice list"
  osc_usage :: "stream_usage option"

definition de_openai_delta :: "json \<Rightarrow> openai_delta option" where
  "de_openai_delta v = do {
     f \<leftarrow> de_struct_dflt [''content'', ''tool_calls''] v;
     content \<leftarrow> opt de_string f ''content'';
     tool_calls \<leftarrow> opt (de_list Some) f ''tool_calls'';
     Some \<lparr>od_content = content, od_tool_calls = tool_calls\<rparr> }"

definition de_openai_choice :: "json \<Rightarrow> openai_choice option" where
  "de_openai_choice v = do {
     f \<leftarrow> de_struct_dflt [''delta'', ''finish_reason''] v;
     delta \<leftarrow> opt de_openai_delta f ''delta'';
     finish_reason \<leftarrow> opt de_string f ''finish_reason'';
     Some \<lparr>oc_delta = delta, oc_finish_reason = finish_reason\<rparr> }"

text \<open>The total is read and not used; a total that is no number is still refused.\<close>

definition de_openai_usage :: "json \<Rightarrow> stream_usage option" where
  "de_openai_usage v = do {
     f \<leftarrow> de_struct_dflt [''prompt_tokens'', ''completion_tokens'', ''total_tokens''] v;
     p \<leftarrow> dflt 0 Wire_Json.de_i64 f ''prompt_tokens'';
     c \<leftarrow> dflt 0 Wire_Json.de_i64 f ''completion_tokens'';
     t \<leftarrow> dflt 0 Wire_Json.de_i64 f ''total_tokens'';
     Some \<lparr>su_prompt_tokens = p, su_completion_tokens = c\<rparr> }"

definition de_openai_chunk :: "json \<Rightarrow> openai_stream_chunk option" where
  "de_openai_chunk v = do {
     f \<leftarrow> de_struct_dflt [''choices'', ''usage''] v;
     choices \<leftarrow> dflt [] (de_list de_openai_choice) f ''choices'';
     usage \<leftarrow> opt de_openai_usage f ''usage'';
     Some \<lparr>osc_choices = choices, osc_usage = usage\<rparr> }"

record ollama_stream_chunk =
  olc_content :: "string option"
  olc_done :: "bool option"
  olc_prompt_eval_count :: "i64 option"
  olc_eval_count :: "i64 option"

definition de_ollama_message :: "json \<Rightarrow> string option option" where
  "de_ollama_message v = do {
     f \<leftarrow> de_struct_dflt [''role'', ''content''] v;
     role \<leftarrow> opt de_string f ''role'';
     opt de_string f ''content'' }"

definition de_ollama_chunk :: "json \<Rightarrow> ollama_stream_chunk option" where
  "de_ollama_chunk v = do {
     f \<leftarrow> de_struct_dflt [''model'', ''created_at'', ''message'', ''done'', ''total_duration'', ''load_duration'',
            ''prompt_eval_count'', ''eval_count''] v;
     model \<leftarrow> opt de_string f ''model'';
     created_at \<leftarrow> opt de_string f ''created_at'';
     message \<leftarrow> opt de_ollama_message f ''message'';
     dne \<leftarrow> opt de_bool f ''done'';
     total \<leftarrow> opt Wire_Json.de_i64 f ''total_duration'';
     load \<leftarrow> opt Wire_Json.de_i64 f ''load_duration'';
     p \<leftarrow> opt Wire_Json.de_i64 f ''prompt_eval_count'';
     c \<leftarrow> opt Wire_Json.de_i64 f ''eval_count'';
     Some \<lparr>olc_content = Option.bind message id, olc_done = dne, olc_prompt_eval_count = p,
           olc_eval_count = c\<rparr> }"

record llama_cpp_stream_chunk =
  lcc_content :: "string option"
  lcc_stop :: "bool option"
  lcc_usage :: "stream_usage option"

definition de_llama_cpp_usage :: "json \<Rightarrow> stream_usage option" where
  "de_llama_cpp_usage v = do {
     f \<leftarrow> de_struct_dflt [''prompt_tokens'', ''completion_tokens''] v;
     p \<leftarrow> dflt 0 Wire_Json.de_i64 f ''prompt_tokens'';
     c \<leftarrow> dflt 0 Wire_Json.de_i64 f ''completion_tokens'';
     Some \<lparr>su_prompt_tokens = p, su_completion_tokens = c\<rparr> }"

definition de_llama_cpp_chunk :: "json \<Rightarrow> llama_cpp_stream_chunk option" where
  "de_llama_cpp_chunk v = do {
     f \<leftarrow> de_struct_dflt [''content'', ''stop'', ''usage''] v;
     content \<leftarrow> opt de_string f ''content'';
     stop \<leftarrow> opt de_bool f ''stop'';
     usage \<leftarrow> opt de_llama_cpp_usage f ''usage'';
     Some \<lparr>lcc_content = content, lcc_stop = stop, lcc_usage = usage\<rparr> }"

section \<open>The translators\<close>

record chunk_translator =
  ct_finish_emitted :: bool

definition ct_new :: chunk_translator where
  "ct_new = \<lparr>ct_finish_emitted = False\<rparr>"

text \<open>The lines the translators start with: a chunk that is blank or \<open>[DONE]\<close> is skipped, one that
  does not parse is one error event.\<close>

definition with_chunk ::
  "'s client \<Rightarrow> string \<Rightarrow> (json \<Rightarrow> 'c option) \<Rightarrow> ('c \<Rightarrow> 't \<Rightarrow> gemini_emit list \<times> 't) \<Rightarrow> string \<Rightarrow> 't \<Rightarrow>
     gemini_emit list \<times> 't" where
  "with_chunk cl label de body chunk t =
     (if trim chunk = [] \<or> trim chunk = ''[DONE]'' then ([], t)
      else (case Option.bind (cl_parse cl chunk) de of
              None \<Rightarrow> ([GE_Error (''failed to parse '' @ label @ '' chunk: '' @ cl_de_error cl chunk)], t)
            | Some parsed \<Rightarrow> body parsed t))"

fun content_delta :: "string option \<Rightarrow> gemini_emit list" where
  "content_delta None = []"
| "content_delta (Some content) = (if content \<noteq> [] then [GE_Delta content] else [])"

definition emit_finish ::
  "bool \<Rightarrow> i64 \<times> i64 \<Rightarrow> string \<Rightarrow> chunk_translator \<Rightarrow> gemini_emit list \<times> chunk_translator" where
  "emit_finish wanted tokens reason t =
     (if wanted \<and> \<not> ct_finish_emitted t
      then ([GE_Finish (fst tokens) (snd tokens) reason], t\<lparr>ct_finish_emitted := True\<rparr>)
      else ([], t))"

fun usage_tokens :: "stream_usage option \<Rightarrow> i64 \<times> i64" where
  "usage_tokens None = (0, 0)"
| "usage_tokens (Some u) = (su_prompt_tokens u, su_completion_tokens u)"

definition choice_deltas :: "(json \<Rightarrow> string) \<Rightarrow> openai_choice \<Rightarrow> gemini_emit list" where
  "choice_deltas print c =
     (case oc_delta c of
        None \<Rightarrow> []
      | Some d \<Rightarrow> content_delta (od_content d) @
          map (\<lambda>call. GE_Delta (print call)) (unwrap_or [] (od_tool_calls d)))"

definition choice_finish ::
  "stream_usage option \<Rightarrow> openai_choice \<Rightarrow> chunk_translator \<Rightarrow> gemini_emit list \<times> chunk_translator" where
  "choice_finish usage c t =
     (case oc_finish_reason c of
        None \<Rightarrow> ([], t)
      | Some r \<Rightarrow> emit_finish (r \<noteq> []) (usage_tokens usage) r t)"

fun translate_choices ::
  "(json \<Rightarrow> string) \<Rightarrow> stream_usage option \<Rightarrow> openai_choice list \<Rightarrow> chunk_translator \<Rightarrow>
     gemini_emit list \<times> chunk_translator" where
  "translate_choices print usage [] t = ([], t)"
| "translate_choices print usage (c # cs) t =
     (case choice_finish usage c t of (fs, t1) \<Rightarrow>
      case translate_choices print usage cs t1 of (es, t2) \<Rightarrow> (choice_deltas print c @ fs @ es, t2))"

definition openai_translate ::
  "'s client \<Rightarrow> string \<Rightarrow> string \<Rightarrow> chunk_translator \<Rightarrow> gemini_emit list \<times> chunk_translator" where
  "openai_translate cl label =
     with_chunk cl label de_openai_chunk
       (\<lambda>parsed. translate_choices (cl_print cl) (osc_usage parsed) (osc_choices parsed))"

text \<open>The translators for vLLM, SGLang and Azure are copies with names of their own in the error texts.\<close>

definition vllm_translate :: "'s client \<Rightarrow> string \<Rightarrow> chunk_translator \<Rightarrow> gemini_emit list \<times> chunk_translator" where
  "vllm_translate cl = openai_translate cl ''vllm''"

definition sglang_translate :: "'s client \<Rightarrow> string \<Rightarrow> chunk_translator \<Rightarrow> gemini_emit list \<times> chunk_translator" where
  "sglang_translate cl = openai_translate cl ''sglang''"

definition azure_translate :: "'s client \<Rightarrow> string \<Rightarrow> chunk_translator \<Rightarrow> gemini_emit list \<times> chunk_translator" where
  "azure_translate cl = openai_translate cl ''azure''"

definition ollama_translate ::
  "'s client \<Rightarrow> string \<Rightarrow> chunk_translator \<Rightarrow> gemini_emit list \<times> chunk_translator" where
  "ollama_translate cl =
     with_chunk cl ''ollama'' de_ollama_chunk (\<lambda>parsed t.
       case emit_finish (olc_done parsed = Some True)
              (unwrap_or 0 (olc_prompt_eval_count parsed), unwrap_or 0 (olc_eval_count parsed)) ''stop'' t of
         (fs, t') \<Rightarrow> (content_delta (olc_content parsed) @ fs, t'))"

definition llama_cpp_translate ::
  "'s client \<Rightarrow> string \<Rightarrow> chunk_translator \<Rightarrow> gemini_emit list \<times> chunk_translator" where
  "llama_cpp_translate cl =
     with_chunk cl ''llama.cpp'' de_llama_cpp_chunk (\<lambda>parsed t.
       case emit_finish (lcc_stop parsed = Some True) (usage_tokens (lcc_usage parsed)) ''stop'' t of
         (fs, t') \<Rightarrow> (content_delta (lcc_content parsed) @ fs, t'))"

text \<open>\<open>translate_chunk\<close> renders the events; \<open>into_stream\<close> takes the pieces of a byte stream as chunks.\<close>

definition rendered ::
  "'s client \<Rightarrow> (string \<Rightarrow> 't \<Rightarrow> gemini_emit list \<times> 't) \<Rightarrow> string \<Rightarrow> 't \<Rightarrow>
     (provider_error, string) result list \<times> 't" where
  "rendered cl f chunk t = (case f chunk t of (es, t') \<Rightarrow> (map (\<lambda>e. Inr (emit_sse (cl_print cl) e)) es, t'))"

definition piece_emits ::
  "'s client \<Rightarrow> (string \<Rightarrow> 't \<Rightarrow> gemini_emit list \<times> 't) \<Rightarrow> (string, string) result \<Rightarrow> 't \<Rightarrow>
     gemini_emit list \<times> 't" where
  "piece_emits cl f piece t =
     (case piece of
        Inl e \<Rightarrow> ([GE_Error (''utf8 decode error: '' @ e)], t)
      | Inr b \<Rightarrow> f (cl_lossy cl b) t)"

definition translator_into_stream ::
  "'s client \<Rightarrow> (string \<Rightarrow> chunk_translator \<Rightarrow> gemini_emit list \<times> chunk_translator) \<Rightarrow>
     (string, string) result list \<Rightarrow> chunk_translator \<Rightarrow> (provider_error, string) result list" where
  "translator_into_stream cl f pieces t =
     map (\<lambda>e. Inr (emit_sse (cl_print cl) e)) (fst (run_translator (piece_emits cl f) pieces t))"

section \<open>One finish event\<close>

text \<open>
  The contract: the number of finish events of a step is the change of the flag. A run then has at most
  one, and none once the flag is up.
\<close>

definition flag_step :: "('t \<Rightarrow> bool) \<Rightarrow> 't \<Rightarrow> gemini_emit list \<times> 't \<Rightarrow> bool" where
  "flag_step finished t r \<longleftrightarrow>
     length (filter is_finish (fst r)) + of_bool (finished t) = (of_bool (finished (snd r)) :: nat)"

lemma flag_step_seq:
  "flag_step finished t (es, t1) \<Longrightarrow> flag_step finished t1 (fs, t2) \<Longrightarrow>
     flag_step finished t (es @ fs, t2)"
  by (simp add: flag_step_def)

lemma flag_step_prepend:
  "filter is_finish es = [] \<Longrightarrow> flag_step finished t (es @ fs, t1) = flag_step finished t (fs, t1)"
  by (simp add: flag_step_def)

lemma flag_step_same: "flag_step finished t (es, t) \<longleftrightarrow> filter is_finish es = []"
  by (simp add: flag_step_def)

locale finishing_translator =
  fixes f :: "'c \<Rightarrow> 't \<Rightarrow> gemini_emit list \<times> 't"
    and finished :: "'t \<Rightarrow> bool"
  assumes step_flag: "flag_step finished t (f c t)"
begin

lemma run_flag: "flag_step finished t (run_translator f cs t)"
proof (induction cs arbitrary: t)
  case (Cons c cs)
  show ?case
    using step_flag [of t c] Cons.IH [of "snd (f c t)"]
    by (auto split: prod.split intro: flag_step_seq)
qed (simp add: flag_step_same)

lemma run_finishes_once:
  assumes "run_translator f cs t = (es, t')" "\<not> finished t"
  shows "length (filter is_finish es) \<le> 1 \<and> finished t' = list_ex is_finish es"
proof -
  have "list_ex is_finish es \<longleftrightarrow> filter is_finish es \<noteq> []"
    by (auto simp: list_ex_iff filter_empty_conv)
  with run_flag [of t cs] assms show ?thesis by (auto simp: flag_step_def)
qed

lemma run_after_finish:
  "run_translator f cs t = (es, t') \<Longrightarrow> finished t \<Longrightarrow> finished t' \<and> filter is_finish es = []"
  using run_flag [of t cs] by (cases "finished t'") (auto simp: flag_step_def)

end

text \<open>A translator of text is one of byte pieces.\<close>

locale text_translator = finishing_translator f finished
  for f :: "string \<Rightarrow> 't \<Rightarrow> gemini_emit list \<times> 't" and finished
begin

lemma piece_flag: "flag_step finished t (piece_emits cl f c t)"
  by (simp add: piece_emits_def step_flag flag_step_same split: sum.split)

end

sublocale text_translator \<subseteq> pieces: finishing_translator "piece_emits cl f" finished for cl
  by unfold_locales (rule piece_flag)

lemma content_delta_no_finish [simp]: "filter is_finish (content_delta c) = []"
  by (cases c) simp_all

lemma choice_deltas_no_finish [simp]: "filter is_finish (choice_deltas print c) = []"
  by (simp add: choice_deltas_def o_def split: option.split)

lemma emit_finish_flag: "flag_step ct_finish_emitted t (emit_finish w n r t)"
  by (simp add: emit_finish_def flag_step_def)

lemma choice_finish_flag: "flag_step ct_finish_emitted t (choice_finish u c t)"
  by (simp add: choice_finish_def emit_finish_flag flag_step_same split: option.split)

lemma translate_choices_flag: "flag_step ct_finish_emitted t (translate_choices print u cs t)"
proof (induction cs arbitrary: t)
  case (Cons c cs)
  show ?case
    using choice_finish_flag [of t u c] Cons.IH [of "snd (choice_finish u c t)"]
    by (auto simp: flag_step_prepend split: prod.split intro: flag_step_seq)
qed (simp add: flag_step_same)

lemma with_chunk_flag:
  "(\<And>p. flag_step ct_finish_emitted t (body p t)) \<Longrightarrow>
     flag_step ct_finish_emitted t (with_chunk cl label de body c t)"
  by (simp add: with_chunk_def flag_step_same split: option.split)

lemma content_then_finish_flag:
  "flag_step ct_finish_emitted t (case emit_finish w n r t of (fs, t') \<Rightarrow> (content_delta c @ fs, t'))"
  using emit_finish_flag [of t w n r] by (auto simp: flag_step_prepend split: prod.split)

interpretation openai_tr: text_translator "openai_translate cl label" ct_finish_emitted for cl label
  by unfold_locales (simp add: openai_translate_def with_chunk_flag translate_choices_flag)

interpretation ollama_tr: text_translator "ollama_translate cl" ct_finish_emitted for cl
  by unfold_locales (simp only: ollama_translate_def with_chunk_flag content_then_finish_flag)

interpretation llama_cpp_tr: text_translator "llama_cpp_translate cl" ct_finish_emitted for cl
  by unfold_locales (simp only: llama_cpp_translate_def with_chunk_flag content_then_finish_flag)

interpretation gemini_tr: text_translator "translate_emits parse err_text" gt_finish_emitted for parse err_text
proof
  show "flag_step gt_finish_emitted t (translate_emits parse err_text c t)" for t c
    using translate_emits_ok [of t parse err_text c] by (simp add: step_ok_def flag_step_def of_bool_def)
qed

section \<open>The OpenAI translator and the normaliser\<close>

text \<open>
  The adapters use the stateless \<open>normalize_openai_sse_event\<close> instead. On a chunk of objects (no array
  in the place of a structure) with one choice, whose finish reason is not empty, the two agree until a
  finish event went out.
\<close>

definition no_array :: "json option \<Rightarrow> bool" where
  "no_array v \<longleftrightarrow> Option.bind v as_array = None"

definition choice_shape :: "json \<Rightarrow> bool" where
  "choice_shape c \<longleftrightarrow> no_array (Some c) \<and> no_array (json_get ''delta'' c) \<and>
     json_get ''finish_reason'' c \<noteq> Some (JString [])"

definition one_choice_chunk :: "json \<Rightarrow> bool" where
  "one_choice_chunk v \<longleftrightarrow>
     no_array (Some v) \<and> no_array (json_get ''usage'' v) \<and>
     (case Option.bind (json_get ''choices'' v) as_array of
        None \<Rightarrow> True
      | Some cs \<Rightarrow> length cs \<le> 1 \<and> list_all choice_shape cs)"

lemma no_array_struct:
  "no_array (Some v) \<Longrightarrow> de_struct_dflt names v = Some f \<Longrightarrow> f = (\<lambda>k. json_get k v)"
  by (cases v) (auto simp: no_array_def)

lemma opt_string_get:
  "opt de_string f k = Some s \<Longrightarrow> Option.bind (f k) as_str = s"
  by (cases "f k") (auto simp: opt_def Wire_Json.de_opt_def de_string_def split: if_splits)

lemma usage_tokens_agree:
  assumes "no_array u" "(case u of None \<Rightarrow> Some None | Some w \<Rightarrow> Wire_Json.de_opt de_openai_usage w) = Some x"
  shows "usage_tokens x = (token_field ''prompt_tokens'' u, token_field ''completion_tokens'' u)"
proof (cases "u = None \<or> u = Some JNull")
  case True
  with assms(2) show ?thesis by (auto simp: token_field_def Wire_Json.de_opt_def)
next
  case False
  then obtain w where w: "u = Some w" "w \<noteq> JNull" by auto
  with assms(2) obtain y where y: "de_openai_usage w = Some y" "x = Some y"
    by (auto simp: Wire_Json.de_opt_def)
  from y(1) obtain f t where f: "de_struct_dflt [''prompt_tokens'', ''completion_tokens'', ''total_tokens''] w = Some f"
    "dflt 0 Wire_Json.de_i64 f ''prompt_tokens'' = Some (su_prompt_tokens y)"
    "dflt 0 Wire_Json.de_i64 f ''completion_tokens'' = Some (su_completion_tokens y)"
    unfolding de_openai_usage_def by (auto simp: bind_eq_Some_conv)
  have "f = (\<lambda>k. json_get k w)" using no_array_struct [OF _ f(1)] assms(1) w by simp
  with f y(2) w show ?thesis
    by (auto simp: token_field_def dflt_def Wire_Json.de_i64_def split: option.splits)
qed

lemma tool_calls_agree:
  assumes "opt (de_list Some) f k = Some x"
  shows "unwrap_or [] x = unwrap_or [] (Option.bind (f k) as_array)"
proof -
  have all: "de_all Some vs = Some vs" for vs :: "json list" by (induction vs) simp_all
  show ?thesis
    using assms by (cases "f k") (auto simp: opt_def Wire_Json.de_opt_def all split: if_splits elim!: de_list.elims)
qed

lemma choice_agrees:
  assumes c: "de_openai_choice c = Some x"
    and shape: "no_array (Some c)" "no_array (json_get ''delta'' c)"
      "json_get ''finish_reason'' c \<noteq> Some (JString [])"
    and usage: "usage_tokens ux = (token_field ''prompt_tokens'' u, token_field ''completion_tokens'' u)"
  shows "map (emit_sse print) (choice_deltas print x @ fst (choice_finish ux x ct_new)) =
    normalize_choice print u c"
proof -
  from c obtain f where f: "de_struct_dflt [''delta'', ''finish_reason''] c = Some f"
    "opt de_openai_delta f ''delta'' = Some (oc_delta x)"
    "opt de_string f ''finish_reason'' = Some (oc_finish_reason x)"
    unfolding de_openai_choice_def by (auto simp: bind_eq_Some_conv)
  have fg: "f = (\<lambda>k. json_get k c)" using no_array_struct [OF shape(1) f(1)] .
  let ?d = "json_get ''delta'' c"
  have reason: "Option.bind (json_get ''finish_reason'' c) as_str = oc_finish_reason x"
    using opt_string_get [OF f(3)] fg by simp
  have nonempty: "oc_finish_reason x \<noteq> Some []"
    using reason shape(3) by (auto simp: bind_eq_Some_conv elim!: as_str.elims)
  have fin: "map (emit_sse print) (fst (choice_finish ux x ct_new)) =
      (case oc_finish_reason x of
         Some r \<Rightarrow> [build_sse_finish print (token_field ''prompt_tokens'' u) (token_field ''completion_tokens'' u) (Some r)]
       | None \<Rightarrow> [])"
    using nonempty usage by (auto simp: choice_finish_def emit_finish_def ct_new_def split: option.split)
  show ?thesis
  proof (cases "oc_delta x")
    case None
    have "?d = None \<or> ?d = Some JNull"
      using f(2) None fg by (auto simp: opt_def Wire_Json.de_opt_def split: option.splits if_splits)
    then show ?thesis
      using None fin reason by (auto simp: normalize_choice_def choice_deltas_def)
  next
    case (Some d)
    then obtain w where w: "?d = Some w" "de_openai_delta w = Some d"
      using f(2) fg by (auto simp: opt_def Wire_Json.de_opt_def split: option.splits if_splits)
    then obtain g where g: "de_struct_dflt [''content'', ''tool_calls''] w = Some g"
      "opt de_string g ''content'' = Some (od_content d)"
      "opt (de_list Some) g ''tool_calls'' = Some (od_tool_calls d)"
      unfolding de_openai_delta_def by (auto simp: bind_eq_Some_conv)
    have gg: "g = (\<lambda>k. json_get k w)"
      using no_array_struct [OF _ g(1)] shape(2) w(1) by simp
    have content: "Option.bind (json_get ''content'' w) as_str = od_content d"
      using opt_string_get [OF g(2)] gg by simp
    have calls: "unwrap_or [] (od_tool_calls d) = unwrap_or [] (Option.bind (json_get ''tool_calls'' w) as_array)"
      using tool_calls_agree [OF g(3)] gg by simp
    have "map (emit_sse print) (content_delta (od_content d)) =
        (case od_content d of Some t \<Rightarrow> if t = [] then [] else [build_sse_delta print t] | None \<Rightarrow> [])"
      by (simp split: option.split)
    then show ?thesis
      using Some w(1) content calls fin reason
      by (simp add: normalize_choice_def choice_deltas_def Let_def o_def unwrap_or_case split: option.splits)
  qed
qed

lemma choices_agree:
  assumes de: "de_all de_openai_choice cs = Some xs" and len: "length cs \<le> 1"
    and shape: "list_all choice_shape cs"
    and usage: "usage_tokens ux = (token_field ''prompt_tokens'' u, token_field ''completion_tokens'' u)"
  shows "map (emit_sse print) (fst (translate_choices print ux xs ct_new)) =
    concat (map (normalize_choice print u) cs)"
proof (cases cs)
  case (Cons c rest)
  with len have [simp]: "rest = []" by simp
  from Cons de obtain y where y: "de_openai_choice c = Some y" "xs = [y]"
    by (auto simp: bind_eq_Some_conv)
  have "fst (translate_choices print ux [y] ct_new) = choice_deltas print y @ fst (choice_finish ux y ct_new)"
    by (simp split: prod.split)
  with choice_agrees [OF y(1) _ _ _ usage, of print] shape Cons y(2) show ?thesis
    by (simp add: choice_shape_def)
qed (use de in simp)

text \<open>
  The stateful OpenAI translator (also Azure, vLLM and SGLang) and the stateless normaliser the
  adapters use agree on a chunk of objects with at most one choice and a finish reason that is not
  empty: before a finish event went out, the same events come out, rendered identically.
\<close>

lemma openai_translator_normalizes:
  assumes "trim chunk \<noteq> []" "trim chunk \<noteq> ''[DONE]''"
    and parse: "cl_parse cl chunk = Some v" and valid: "de_openai_chunk v \<noteq> None"
    and shape: "one_choice_chunk v"
  shows "fst (rendered cl (openai_translate cl label) chunk ct_new) =
    map Inr (normalize_openai_sse_event (cl_parse cl) (cl_print cl) chunk)"
proof -
  from valid obtain x where x: "de_openai_chunk v = Some x" by blast
  then obtain f where f: "de_struct_dflt [''choices'', ''usage''] v = Some f"
    "dflt [] (de_list de_openai_choice) f ''choices'' = Some (osc_choices x)"
    "opt de_openai_usage f ''usage'' = Some (osc_usage x)"
    unfolding de_openai_chunk_def by (auto simp: bind_eq_Some_conv)
  have fg: "f = (\<lambda>k. json_get k v)"
    using no_array_struct [OF _ f(1)] shape by (simp add: one_choice_chunk_def)
  have usage: "usage_tokens (osc_usage x) =
      (token_field ''prompt_tokens'' (json_get ''usage'' v), token_field ''completion_tokens'' (json_get ''usage'' v))"
    using usage_tokens_agree [of "json_get ''usage'' v"] f(3) fg shape
    by (simp add: opt_def one_choice_chunk_def)
  define es where "es = fst (translate_choices (cl_print cl) (osc_usage x) (osc_choices x) ct_new)"
  have run: "fst (rendered cl (openai_translate cl label) chunk ct_new) = map Inr (map (emit_sse (cl_print cl)) es)"
    using assms(1,2) parse x
    by (simp add: es_def rendered_def openai_translate_def with_chunk_def split: prod.split)
  show ?thesis
  proof (cases "json_get ''choices'' v")
    case None
    then show ?thesis using run parse f(2) fg by (simp add: normalize_openai_sse_event_def dflt_def es_def)
  next
    case (Some w)
    then obtain cs where cs: "w = JArray cs" "de_all de_openai_choice cs = Some (osc_choices x)"
      using f(2) fg by (auto simp: dflt_def elim!: de_list.elims)
    have "map (emit_sse (cl_print cl)) es = concat (map (normalize_choice (cl_print cl) (json_get ''usage'' v)) cs)"
      unfolding es_def using choices_agree [OF cs(2) _ _ usage] shape Some cs(1)
      by (simp add: one_choice_chunk_def)
    then show ?thesis using run parse Some cs(1) by (simp add: normalize_openai_sse_event_def)
  qed
qed

definition sample_chunk :: json where
  "sample_chunk = JObject
     [(''choices'', JArray [JObject [(''delta'', JObject [(''content'', JString ''hi'')]),
                                 (''finish_reason'', JString ''stop'')]]),
      (''usage'', JObject [(''prompt_tokens'', JInt 3), (''completion_tokens'', JInt 4)])]"

definition sample_client :: "nat client" where
  "sample_client = (fixed_client (Inl []))\<lparr>cl_parse := (\<lambda>_. Some sample_chunk)\<rparr>"

lemma sample_client_sel [simp]:
  "cl_parse sample_client c = Some sample_chunk" "cl_print sample_client = coded_print"
  by (simp_all add: sample_client_def fixed_client_def)

lemma sample_chunk_valid: "de_openai_chunk sample_chunk \<noteq> None" "one_choice_chunk sample_chunk"
  by (simp_all add: sample_chunk_def one_choice_chunk_def choice_shape_def no_array_def de_openai_chunk_def
      de_openai_choice_def de_openai_delta_def de_openai_usage_def opt_def dflt_def Wire_Json.de_opt_def
      de_string_def Wire_Json.de_i64_def)

lemma sample_chunk_events:
  "normalize_openai_sse_event (cl_parse sample_client) coded_print c =
     [build_sse_delta coded_print ''hi'', build_sse_finish coded_print 3 4 (Some ''stop'')]"
  by (simp add: normalize_openai_sse_event_def normalize_choice_def token_field_def sample_chunk_def)

theorem openai_translator_normalizes_witness:
  "fst (rendered sample_client (openai_translate sample_client ''openai'') ''c'' ct_new) =
     map Inr [build_sse_delta coded_print ''hi'', build_sse_finish coded_print 3 4 (Some ''stop'')]"
proof -
  have "trim ''c'' = ''c''" by code_simp
  then show ?thesis
    using openai_translator_normalizes [of "''c''" sample_client sample_chunk "''openai''"] sample_chunk_valid
    by (simp only: sample_client_sel sample_chunk_events list.simps char.inject) simp
qed

text \<open>
  Each translator, whatever the pieces of the byte stream (chunks of any number of choices, text that
  does not parse, transport errors), lets at most one finish event through and keeps count of it in its
  flag; so a client never sees usage reported twice. \<open>label\<close> names any of the four OpenAI-like
  translators; the last line is the Gemini translator.
\<close>

lemma translators_finish_once:
  "length (filter is_finish (fst (run_translator (piece_emits cl (openai_translate cl label)) pieces ct_new))) \<le> 1 \<and>
   length (filter is_finish (fst (run_translator (piece_emits cl (vllm_translate cl)) pieces ct_new))) \<le> 1 \<and>
   length (filter is_finish (fst (run_translator (piece_emits cl (sglang_translate cl)) pieces ct_new))) \<le> 1 \<and>
   length (filter is_finish (fst (run_translator (piece_emits cl (azure_translate cl)) pieces ct_new))) \<le> 1 \<and>
   length (filter is_finish (fst (run_translator (piece_emits cl (ollama_translate cl)) pieces ct_new))) \<le> 1 \<and>
   length (filter is_finish (fst (run_translator (piece_emits cl (llama_cpp_translate cl)) pieces ct_new))) \<le> 1 \<and>
   length (filter is_finish (fst (run_translator
     (piece_emits cl (translate_emits (cl_parse cl) (cl_de_error cl))) pieces gt_new))) \<le> 1"
proof -
  have new: "\<not> ct_finish_emitted ct_new" "\<not> gt_finish_emitted gt_new" by (simp_all add: ct_new_def gt_new_def)
  show ?thesis
    using openai_tr.pieces.run_finishes_once [OF prod.collapse [symmetric] new(1)]
      ollama_tr.pieces.run_finishes_once [OF prod.collapse [symmetric] new(1)]
      llama_cpp_tr.pieces.run_finishes_once [OF prod.collapse [symmetric] new(1)]
      gemini_tr.pieces.run_finishes_once [OF prod.collapse [symmetric] new(2)]
    unfolding vllm_translate_def sglang_translate_def azure_translate_def by blast
qed

text \<open>
  The translators read a piece of the byte stream as bare JSON text. The pieces a provider sends are
  framed as server-sent events; a parser of JSON refuses such a piece, which then is an error event.
\<close>

lemma framed_piece_is_error:
  assumes "cl_parse cl (cl_lossy cl b) = None" "trim (cl_lossy cl b) \<noteq> []" "trim (cl_lossy cl b) \<noteq> ''[DONE]''"
  shows "translator_into_stream cl (openai_translate cl label) [Inr b] t =
    [Inr (build_sse_error (cl_print cl)
       (''failed to parse '' @ label @ '' chunk: '' @ cl_de_error cl (cl_lossy cl b)))]"
  using assms
  by (simp add: translator_into_stream_def piece_emits_def openai_translate_def with_chunk_def)

end
