(* ===== verification/Messages_Api.thy ===== *)
theory Messages_Api
  imports Chat_Proxy Wire_Json
begin

text \<open>
  The Anthropic endpoint, \<open>crates/godwit-api/src/anthropic_proxy.rs\<close>: the conversion of a Messages
  request into a chat request and of the answer back, and the handler of \<open>POST /v1/messages\<close> around
  them. The JSON text parser and the identifiers of streams are parameters, in \<open>messages_env\<close>.
\<close>

section \<open>Requests\<close>

record messages_message =
  mm_role :: string
  mm_content :: string

record messages_tool =
  mt_name :: string
  mt_description :: "string option"
  mt_input_schema :: "json option"

datatype messages_tool_choice = MC_Auto | MC_Any | MC_Tool string

record messages_request =
  mr_model :: string
  mr_messages :: "messages_message list"
  mr_max_tokens :: i32
  mr_stream :: bool
  mr_system :: "string option"
  mr_temperature :: "f32 option"
  mr_top_p :: "f32 option"
  mr_top_k :: "i32 option"
  mr_stop_sequences :: "string list option"
  mr_tools :: "messages_tool list option"
  mr_tool_choice :: "messages_tool_choice option"

definition de_messages_message :: "json \<Rightarrow> messages_message option" where
  "de_messages_message v = do {
     f \<leftarrow> de_struct [''role'', ''content''] v;
     role \<leftarrow> req de_string f ''role'';
     content \<leftarrow> req de_string f ''content'';
     Some \<lparr>mm_role = role, mm_content = content\<rparr> }"

definition de_messages_tool :: "json \<Rightarrow> messages_tool option" where
  "de_messages_tool v = do {
     f \<leftarrow> de_struct [''name'', ''description'', ''input_schema''] v;
     name \<leftarrow> req de_string f ''name'';
     description \<leftarrow> opt de_string f ''description'';
     input_schema \<leftarrow> opt de_value f ''input_schema'';
     Some \<lparr>mt_name = name, mt_description = description, mt_input_schema = input_schema\<rparr> }"

text \<open>The choice is externally tagged, as \<open>ToolChoice\<close> is.\<close>

definition de_messages_tool_choice :: "json \<Rightarrow> messages_tool_choice option" where
  "de_messages_tool_choice v =
     (let unit = (\<lambda>s. if s = ''auto'' then Some MC_Auto else if s = ''any'' then Some MC_Any else None)
      in case v of
           JString s \<Rightarrow> unit s
         | _ \<Rightarrow> do {
             (variant, body) \<leftarrow> single_member v;
             if variant = ''tool'' then do {
               f \<leftarrow> de_struct [''name''] body;
               map_option MC_Tool (req de_string f ''name'') }
             else if body = JNull then unit variant else None })"

definition de_messages_request :: "json \<Rightarrow> messages_request option" where
  "de_messages_request v = do {
     f \<leftarrow> de_struct [''model'', ''messages'', ''max_tokens'', ''stream'', ''system'', ''temperature'', ''top_p'',
            ''top_k'', ''stop_sequences'', ''tools'', ''tool_choice''] v;
     model \<leftarrow> req de_string f ''model'';
     messages \<leftarrow> req (de_list de_messages_message) f ''messages'';
     max_tokens \<leftarrow> req de_i32 f ''max_tokens'';
     stream \<leftarrow> (case f ''stream'' of None \<Rightarrow> Some False | Some b \<Rightarrow> de_bool b);
     system \<leftarrow> opt de_string f ''system'';
     temperature \<leftarrow> opt de_f32 f ''temperature'';
     top_p \<leftarrow> opt de_f32 f ''top_p'';
     top_k \<leftarrow> opt de_i32 f ''top_k'';
     stop_sequences \<leftarrow> opt (de_list de_string) f ''stop_sequences'';
     tools \<leftarrow> opt (de_list de_messages_tool) f ''tools'';
     tool_choice \<leftarrow> opt de_messages_tool_choice f ''tool_choice'';
     Some \<lparr>mr_model = model, mr_messages = messages, mr_max_tokens = max_tokens, mr_stream = stream,
           mr_system = system, mr_temperature = temperature, mr_top_p = top_p, mr_top_k = top_k,
           mr_stop_sequences = stop_sequences, mr_tools = tools, mr_tool_choice = tool_choice\<rparr> }"

definition text_message :: "string \<Rightarrow> string \<Rightarrow> chat_message" where
  "text_message role text =
     \<lparr>cm_role = role, cm_content = Some [CC_Text text], cm_name = None, cm_tool_calls = None,
      cm_tool_call_id = None, cm_cache_control = None\<rparr>"

definition anthropic_message_to_core :: "messages_message \<Rightarrow> chat_message" where
  "anthropic_message_to_core msg = text_message (mm_role msg) (mm_content msg)"

definition anthropic_tool_to_core :: "messages_tool \<Rightarrow> tool" where
  "anthropic_tool_to_core t =
     \<lparr>tool_type = ''function'',
      tool_function = \<lparr>fd_name = mt_name t, fd_description = mt_description t, fd_parameters = mt_input_schema t\<rparr>\<rparr>"

fun messages_choice_to_core :: "messages_tool_choice \<Rightarrow> tool_choice" where
  "messages_choice_to_core MC_Auto = TC_Auto"
| "messages_choice_to_core MC_Any = TC_Required"
| "messages_choice_to_core (MC_Tool name) = TC_Function name"

definition anthropic_request_to_core :: "messages_request \<Rightarrow> chat_completion_request" where
  "anthropic_request_to_core r =
     \<lparr>cr_model = mr_model r,
      cr_messages = (case mr_system r of None \<Rightarrow> [] | Some system \<Rightarrow> [text_message ''system'' system]) @
        map anthropic_message_to_core (mr_messages r),
      cr_stream = Some (mr_stream r), cr_temperature = mr_temperature r, cr_max_tokens = Some (mr_max_tokens r),
      cr_top_p = mr_top_p r, cr_top_k = mr_top_k r, cr_frequency_penalty = None, cr_presence_penalty = None,
      cr_repetition_penalty = None, cr_stop = map_option Stop_Array (mr_stop_sequences r), cr_seed = None,
      cr_n = None, cr_logprobs = None, cr_top_logprobs = None, cr_logit_bias = None, cr_user = None,
      cr_tools = map_option (map anthropic_tool_to_core) (mr_tools r),
      cr_tool_choice = map_option messages_choice_to_core (mr_tool_choice r), cr_parallel_tool_calls = None,
      cr_response_format = None, cr_reasoning = None\<rparr>"

section \<open>Answers\<close>

datatype content_block = CB_Text string | CB_ToolUse string string json

record messages_usage =
  mu_input_tokens :: i32
  mu_output_tokens :: i32

record messages_response =
  mp_id :: string
  mp_type :: string
  mp_role :: string
  mp_model :: string
  mp_content :: "content_block list"
  mp_stop_reason :: "string option"
  mp_usage :: messages_usage

definition core_finish_reason_to_anthropic :: "string option \<Rightarrow> string option" where
  "core_finish_reason_to_anthropic reason =
     map_option (\<lambda>s. if s = ''stop'' then ''end_turn'' else if s = ''length'' then ''max_tokens''
       else if s = ''tool_calls'' then ''tool_use'' else if s = ''content_filter'' then ''end_turn'' else s) reason"

fun core_usage_to_anthropic :: "usage option \<Rightarrow> messages_usage" where
  "core_usage_to_anthropic (Some u) =
     \<lparr>mu_input_tokens = us_prompt_tokens u, mu_output_tokens = us_completion_tokens u\<rparr>"
| "core_usage_to_anthropic None = \<lparr>mu_input_tokens = 0, mu_output_tokens = 0\<rparr>"

definition tool_use_block :: "(string \<Rightarrow> json option) \<Rightarrow> tool_call \<Rightarrow> content_block" where
  "tool_use_block parse call =
     CB_ToolUse (tc_id call) (fc_name (tc_function call))
       (unwrap_or (json_obj [(''arguments'', JString (fc_arguments (tc_function call)))])
          (parse (fc_arguments (tc_function call))))"

definition content_blocks :: "(string \<Rightarrow> json option) \<Rightarrow> chat_message \<Rightarrow> content_block list" where
  "content_blocks parse msg =
     map (tool_use_block parse) (unwrap_or [] (cm_tool_calls msg)) @
     (case content_as_text msg of
        None \<Rightarrow> []
      | Some text \<Rightarrow> if text \<noteq> [] then [CB_Text text] else [])"

definition core_response_to_anthropic ::
  "(string \<Rightarrow> json option) \<Rightarrow> chat_completion_response \<Rightarrow> messages_response" where
  "core_response_to_anthropic parse response =
     (let (blocks, stop_reason) =
            (case cp_choices response of
               [] \<Rightarrow> ([], None)
             | choice # _ \<Rightarrow> (content_blocks parse (ch_message choice),
                 core_finish_reason_to_anthropic (ch_finish_reason choice)))
      in \<lparr>mp_id = cp_id response, mp_type = ''message'', mp_role = ''assistant'', mp_model = cp_model response,
          mp_content = blocks, mp_stop_reason = stop_reason,
          mp_usage = core_usage_to_anthropic (cp_usage response)\<rparr>)"

section \<open>One attempt\<close>

record 's messages_env =
  mx_gateway :: "'s gateway_env"
  mx_parse :: "string \<Rightarrow> json option"
  mx_uuid :: "nat \<Rightarrow> string"

datatype messages_reply = MessagesJson messages_response | MessagesSse "string list"

type_synonym ('s, 'b) messages_call = "'s adapter resolved_model \<Rightarrow> 's \<Rightarrow> (provider_error, 'b) result \<times> 's"

definition attempt_anthropic_chat ::
  "'s messages_env \<Rightarrow> chat_completion_request \<Rightarrow> ('s, messages_response) messages_call" where
  "attempt_anthropic_chat env core_req rm s =
     (case with_retry retry_policy_default (ad_chat (rm_adapter rm) (rm_credentials rm) (rm_model rm) core_req) s of
        (r, _, s') \<Rightarrow>
          (bind_result r (\<lambda>(resp, _). case resp of
             PR_Chat completion \<Rightarrow> Ok (core_response_to_anthropic (mx_parse env) completion)
           | _ \<Rightarrow> Err unexpected_variant), s'))"

definition messages_error_payload :: "(json \<Rightarrow> string) \<Rightarrow> string" where
  "messages_error_payload print = print (json_obj [(''error'', json_obj
     [(''type'', JString ''error''), (''message'', JString ''upstream provider stream error'')])])"

text \<open>The payloads handed to the SSE response, event by event.\<close>

fun anthropic_wire_events ::
  "(string \<Rightarrow> json option) \<Rightarrow> (json \<Rightarrow> string) \<Rightarrow> (provider_error, string) result list \<Rightarrow> anthropic_translator \<Rightarrow>
     string list" where
  "anthropic_wire_events parse print [] t = []"
| "anthropic_wire_events parse print (Inl e # evs) t =
     messages_error_payload print # anthropic_wire_events parse print evs t"
| "anthropic_wire_events parse print (Inr ev # evs) t =
     (case anthropic_push parse print ev t of (frames, t') \<Rightarrow>
        map frame_render frames @ anthropic_wire_events parse print evs t')"

definition attempt_anthropic_stream ::
  "'s messages_env \<Rightarrow> nat \<Rightarrow> chat_completion_request \<Rightarrow> ('s, string list) messages_call" where
  "attempt_anthropic_stream env i core_req rm s =
     (case with_retry retry_policy_default (ad_chat_stream (rm_adapter rm) (rm_credentials rm) (rm_model rm) core_req) s of
        (r, _, s') \<Rightarrow>
          (bind_result r (\<lambda>evs.
             let stream_model = (if m_provider_model_id (rm_model rm) = [] then m_public_id (rm_model rm)
                                 else m_provider_model_id (rm_model rm))
             in Ok (anthropic_wire_events (mx_parse env) (ge_print (mx_gateway env)) evs
                     (at_new (''msg_'' @ mx_uuid env i) stream_model))), s'))"

section \<open>The handler\<close>

definition messages_limit ::
  "attempt_inputs \<Rightarrow> api_key \<Rightarrow> organization \<Rightarrow> model \<Rightarrow> u32 \<Rightarrow> ('s, 'm) gateway_scheme \<Rightarrow>
     (api_error, unit) result \<times> ('s, 'm) gateway_scheme" where
  "messages_limit ai key org m estimated_tokens gw =
     (case check_and_consume (map (at_check ai) [0..<4]) (map (at_commit ai) [0..<4]) (ak_id key)
             (ak_organization_id key) (m_public_id m) (ak_rpm key) (ak_tpm key) (og_rpm org) (og_tpm org)
             estimated_tokens (gw_limiter gw) of
        (Inl (_, retry_after), rl) \<Rightarrow> (Err (AE_RateLimited retry_after), gw\<lparr>gw_limiter := rl\<rparr>)
      | (Inr _, rl) \<Rightarrow> (Ok (), gw\<lparr>gw_limiter := rl\<rparr>))"

fun messages_fallbacks ::
  "'s messages_env \<Rightarrow> request_inputs \<Rightarrow> api_key \<Rightarrow> organization \<Rightarrow> u32 \<Rightarrow> (nat \<Rightarrow> ('s, 'b) messages_call) \<Rightarrow> nat \<Rightarrow>
   string list \<Rightarrow> api_error option \<Rightarrow> api_error \<Rightarrow> ('s, 'm) gateway_scheme \<Rightarrow>
     (api_error, 'b \<times> model) result \<times> ('s, 'm) gateway_scheme" where
  "messages_fallbacks env inp key org tokens call i [] rl_err last_err gw =
     (Err (unwrap_or last_err rl_err), gw)"
| "messages_fallbacks env inp key org tokens call i (fallback_id # rest) rl_err last_err gw =
     (case proxy_resolve (mx_gateway env) (in_attempt inp i) fallback_id Chat gw of
        (Inl _, gw) \<Rightarrow> messages_fallbacks env inp key org tokens call (Suc i) rest rl_err last_err gw
      | (Inr resolved, gw) \<Rightarrow>
          (case messages_limit (in_attempt inp i) key org (rm_model resolved) tokens gw of
             (Inl e, gw) \<Rightarrow>
               messages_fallbacks env inp key org tokens call (Suc i) rest (Some e) last_err (release resolved gw)
           | (Inr _, gw) \<Rightarrow>
               (case call i resolved (gw_world gw) of
                  (Inr resp, w) \<Rightarrow> (Ok (resp, rm_model resolved), release resolved (gw\<lparr>gw_world := w\<rparr>))
                | (Inl e, w) \<Rightarrow>
                    messages_fallbacks env inp key org tokens call (Suc i) rest rl_err (map_provider_error e)
                      (release resolved (gw\<lparr>gw_world := w\<rparr>)))))"

text \<open>The primary model, then the chain. A primary that fails gives up its in-flight slot first; the
  second component of the result is what is left of it.\<close>

definition messages_attempts ::
  "'s messages_env \<Rightarrow> request_inputs \<Rightarrow> api_key \<Rightarrow> organization \<Rightarrow> u32 \<Rightarrow> (nat \<Rightarrow> ('s, 'b) messages_call) \<Rightarrow>
   's adapter resolved_model \<Rightarrow> ('s, 'm) gateway_scheme \<Rightarrow>
     (api_error, 'b \<times> model) result \<times> 's adapter resolved_model \<times> ('s, 'm) gateway_scheme" where
  "messages_attempts env inp key org tokens call resolved gw =
     (case call 0 resolved (gw_world gw) of
        (Inr resp, w) \<Rightarrow> (Ok (resp, rm_model resolved), resolved, gw\<lparr>gw_world := w\<rparr>)
      | (Inl e, w) \<Rightarrow>
          (case messages_fallbacks env inp key org tokens call 1 (fallback_chain (rm_model resolved)) None
                  (map_provider_error e) (release resolved (gw\<lparr>gw_world := w\<rparr>)) of
             (r, gw) \<Rightarrow> (r, resolved\<lparr>rm_in_flight := None\<rparr>, gw)))"

text \<open>Cost, log row and latency; a cost that overflows panics.\<close>

definition messages_finish ::
  "'s messages_env \<Rightarrow> request_inputs \<Rightarrow> api_key \<Rightarrow> bool \<Rightarrow> model \<Rightarrow> usage_report \<Rightarrow> messages_reply \<Rightarrow>
   ('s, 'm) gateway_scheme \<Rightarrow> (api_error, messages_reply) result option \<times> ('s, 'm) gateway_scheme" where
  "messages_finish env inp key streamed m usage reply gw =
     (case compute_cost (ge_decimal (mx_gateway env)) (ge_print (mx_gateway env)) (m_pricing m) Chat usage of
        None \<Rightarrow> (None, gw)
      | Some cost_usd \<Rightarrow>
          (let gw = spawn_request_log ((log_entry inp key Chat m cost_usd)\<lparr>le_streamed := streamed\<rparr>) gw;
               gw = (if m_id m \<noteq> 0
                     then gw\<lparr>gw_balancer := router_record_latency (m_id m)
                       (of_nat (in_elapsed_latency inp)) (gw_balancer gw)\<rparr> else gw)
           in (Some (Ok reply), gw)))"

definition messages_stream ::
  "'s messages_env \<Rightarrow> request_inputs \<Rightarrow> api_key \<Rightarrow> organization \<Rightarrow> chat_completion_request \<Rightarrow>
   's adapter resolved_model \<Rightarrow> ('s, 'm) gateway_scheme \<Rightarrow>
     (api_error, messages_reply) result option \<times> ('s, 'm) gateway_scheme" where
  "messages_stream env inp key org core_req resolved gw =
     (case messages_attempts env inp key org (estimate_request_tokens core_req)
             (\<lambda>i. attempt_anthropic_stream env i core_req) resolved gw of
        (Inl e, resolved, gw) \<Rightarrow> (Some (Err e), release resolved gw)
      | (Inr (stream, _), resolved, gw) \<Rightarrow>
          (case messages_finish env inp key True (rm_model resolved) usage_report_default (MessagesSse stream) gw of
             (r, gw) \<Rightarrow> (r, release resolved gw)))"

definition messages_plain ::
  "'s messages_env \<Rightarrow> request_inputs \<Rightarrow> api_key \<Rightarrow> organization \<Rightarrow> chat_completion_request \<Rightarrow>
   's adapter resolved_model \<Rightarrow> ('s, 'm) gateway_scheme \<Rightarrow>
     (api_error, messages_reply) result option \<times> ('s, 'm) gateway_scheme" where
  "messages_plain env inp key org core_req resolved gw =
     (case messages_attempts env inp key org (estimate_request_tokens core_req)
             (\<lambda>_. attempt_anthropic_chat env core_req) resolved gw of
        (Inl e, resolved, gw) \<Rightarrow> (Some (Err e), release resolved gw)
      | (Inr (resp, used_model), resolved, gw) \<Rightarrow>
          (case messages_finish env inp key False used_model
                  (usage_report_default\<lparr>ur_prompt_tokens := Some (mu_input_tokens (mp_usage resp)),
                     ur_completion_tokens := Some (mu_output_tokens (mp_usage resp))\<rparr>)
                  (MessagesJson resp) gw of
             (r, gw) \<Rightarrow> (r, release resolved gw)))"

definition messages ::
  "'s messages_env \<Rightarrow> request_inputs \<Rightarrow> api_key \<Rightarrow> messages_request \<Rightarrow> ('s, 'm) gateway_scheme \<Rightarrow>
     (api_error, messages_reply) result option \<times> ('s, 'm) gateway_scheme" where
  "messages env inp key r gw =
     (let core_req = anthropic_request_to_core r
      in case proxy_resolve (mx_gateway env) (in_attempt inp 0) (cr_model core_req) Chat gw of
           (Inl e, gw) \<Rightarrow> (Some (Err (api_error_from e)), gw)
         | (Inr resolved, gw) \<Rightarrow>
             (case orgs_get_by_id (at_org (in_attempt inp 0)) (ak_organization_id key) (ge_accounts (mx_gateway env)) of
                Inl e \<Rightarrow> (Some (Err (AE_Core e)), release resolved gw)
              | Inr org \<Rightarrow>
                  (case messages_limit (in_attempt inp 0) key org (rm_model resolved)
                          (estimate_request_tokens core_req) gw of
                     (Inl e, gw) \<Rightarrow> (Some (Err e), release resolved gw)
                   | (Inr _, gw) \<Rightarrow>
                       (if mr_stream r then messages_stream else messages_plain) env inp key org core_req resolved gw)))"

section \<open>What a request leaves behind\<close>

lemma messages_limit_frame:
  assumes "messages_limit ai key org m n gw = (r, gw')"
  shows "flights gw' k = flights gw k" "gw_world gw' = gw_world gw" "gw_spawned gw' = gw_spawned gw"
  using assms by (auto simp: messages_limit_def split: sum.splits prod.splits)

lemma messages_fallbacks_frame:
  assumes "messages_fallbacks env inp key org tokens call i ids rl_err last_err gw = (r, gw')"
  shows "flights gw' k = flights gw k \<and> gw_spawned gw' = gw_spawned gw \<and>
    (\<forall>b m. r = Ok (b, m) \<longrightarrow> has_capability m Chat)"
  using assms
proof (induction ids arbitrary: i rl_err last_err gw)
  case (Cons fid rest)
  obtain r1 gw1 where r1: "proxy_resolve (mx_gateway env) (in_attempt inp i) fid Chat gw = (r1, gw1)" by fastforce
  note f1 = proxy_resolve_frame [OF r1]
  show ?case
  proof (cases r1)
    case (Inl e)
    then show ?thesis using Cons.IH [of "Suc i" rl_err last_err gw1] Cons.prems r1 f1(1-3) by simp
  next
    case rm: (Inr rm)
    obtain r2 gw2 where r2: "messages_limit (in_attempt inp i) key org (rm_model rm) tokens gw1 = (r2, gw2)" by fastforce
    note f2 = messages_limit_frame [OF r2]
    obtain r3 w where r3: "call i rm (gw_world gw2) = (r3, w)" by fastforce
    show ?thesis
    proof (cases r2)
      case (Inl e)
      then show ?thesis
        using Cons.IH [of "Suc i" "Some e" last_err "release rm gw2"] Cons.prems r1 rm r2 f1(1-3) f2 by simp
    next
      case ok: (Inr u)
      show ?thesis
      proof (cases r3)
        case (Inl e)
        then show ?thesis
          using Cons.IH [of "Suc i" rl_err "map_provider_error e" "release rm (gw2\<lparr>gw_world := w\<rparr>)"] Cons.prems
            r1 rm r2 ok r3 f1(1-3) f2 by simp
      next
        case (Inr v)
        then show ?thesis
          using Cons.prems r1 rm r2 ok r3 f1(1-3) f2 proxy_resolve_capable [OF r1 [unfolded rm]] by auto
      qed
    qed
  qed
qed auto

lemma messages_attempts_frame:
  assumes "messages_attempts env inp key org tokens call rm gw = (r, rm', gw')"
    and "has_capability (rm_model rm) Chat"
  shows "flights gw' k - held rm' k = flights gw k - held rm k \<and> gw_spawned gw' = gw_spawned gw \<and>
    rm_model rm' = rm_model rm \<and> (\<forall>b m. r = Ok (b, m) \<longrightarrow> has_capability m Chat)"
proof -
  obtain c w where c: "call 0 rm (gw_world gw) = (c, w)" by fastforce
  show ?thesis
  proof (cases c)
    case (Inr b)
    then show ?thesis using assms c by (auto simp: messages_attempts_def)
  next
    case (Inl e)
    obtain r1 gw1 where f: "messages_fallbacks env inp key org tokens call 1 (fallback_chain (rm_model rm)) None
        (map_provider_error e) (release rm (gw\<lparr>gw_world := w\<rparr>)) = (r1, gw1)" by fastforce
    have eqs: "r = r1" "rm' = rm\<lparr>rm_in_flight := None\<rparr>" "gw' = gw1"
      using assms(1) c Inl f by (simp_all add: messages_attempts_def)
    show ?thesis using messages_fallbacks_frame [OF f, of k] eqs by (simp add: held_def)
  qed
qed

text \<open>The rows queued by a request: one if it was answered, with the cost of a model that can chat.\<close>

definition messages_logged ::
  "'s messages_env \<Rightarrow> request_inputs \<Rightarrow> api_key \<Rightarrow> bool \<Rightarrow> (api_error, messages_reply) result option \<Rightarrow>
   request_log_entry list \<Rightarrow> request_log_entry list \<Rightarrow> bool" where
  "messages_logged env inp key streamed r before after \<longleftrightarrow>
     (case r of
        Some (Inr _) \<Rightarrow> (\<exists>m usage cost. has_capability m Chat \<and> (streamed \<longrightarrow> usage = usage_report_default) \<and>
          compute_cost (ge_decimal (mx_gateway env)) (ge_print (mx_gateway env)) (m_pricing m) Chat usage = Some cost \<and>
          after = before @ [(log_entry inp key Chat m cost)\<lparr>le_streamed := streamed\<rparr>])
      | _ \<Rightarrow> after = before)"

lemma messages_finish_frame:
  assumes "messages_finish env inp key streamed m usage reply gw = (r, gw')"
    and "has_capability m Chat" "streamed \<longrightarrow> usage = usage_report_default"
  shows "flights gw' k = flights gw k \<and> messages_logged env inp key streamed r (gw_spawned gw) (gw_spawned gw')"
proof -
  have "flights gw' k = flights gw k"
    using assms(1)
    by (auto simp: messages_finish_def spawn_request_log_def Let_def flights_def router_record_latency_def
        record_latency_view split: option.splits if_splits)
  moreover have "messages_logged env inp key streamed r (gw_spawned gw) (gw_spawned gw')"
  proof (cases "compute_cost (ge_decimal (mx_gateway env)) (ge_print (mx_gateway env)) (m_pricing m) Chat usage")
    case None
    then show ?thesis using assms(1) by (simp add: messages_finish_def messages_logged_def)
  next
    case (Some cost)
    then have "r = Some (Ok reply)"
        "gw_spawned gw' = gw_spawned gw @ [(log_entry inp key Chat m cost)\<lparr>le_streamed := streamed\<rparr>]"
      using assms(1) by (auto simp: messages_finish_def spawn_request_log_def Let_def split: if_splits)
    then show ?thesis using Some assms(2,3) unfolding messages_logged_def by auto
  qed
  ultimately show ?thesis by blast
qed

lemma messages_branch_frame:
  assumes "(if mr_stream q then messages_stream else messages_plain) env inp key org core_req rm gw = (r, gw')"
    and "has_capability (rm_model rm) Chat"
  shows "flights gw' k = flights gw k - held rm k \<and>
    messages_logged env inp key (mr_stream q) r (gw_spawned gw) (gw_spawned gw')"
proof (cases "mr_stream q")
  case True
  obtain r1 rm1 gw1 where a: "messages_attempts env inp key org (estimate_request_tokens core_req)
      (\<lambda>i. attempt_anthropic_stream env i core_req) rm gw = (r1, rm1, gw1)" by (rule prod_cases3)
  note f = messages_attempts_frame [OF a assms(2), of k]
  show ?thesis
  proof (cases r1)
    case (Inl e)
    then show ?thesis using assms(1) True a f by (auto simp: messages_stream_def messages_logged_def)
  next
    case (Inr v)
    obtain r2 gw2 where g: "messages_finish env inp key True (rm_model rm1) usage_report_default
        (MessagesSse (fst v)) gw1 = (r2, gw2)" by fastforce
    have "r = r2" "gw' = release rm1 gw2" using assms(1) True a Inr g by (auto simp: messages_stream_def split: prod.splits)
    with messages_finish_frame [OF g, of k] f assms(2) True show ?thesis by simp
  qed
next
  case False
  obtain r1 rm1 gw1 where a: "messages_attempts env inp key org (estimate_request_tokens core_req)
      (\<lambda>_. attempt_anthropic_chat env core_req) rm gw = (r1, rm1, gw1)" by (rule prod_cases3)
  note f = messages_attempts_frame [OF a assms(2), of k]
  show ?thesis
  proof (cases r1)
    case (Inl e)
    then show ?thesis using assms(1) False a f by (auto simp: messages_plain_def messages_logged_def)
  next
    case (Inr v)
    obtain resp m where v: "v = (resp, m)" by fastforce
    obtain r2 gw2 where g: "messages_finish env inp key False m
        (usage_report_default\<lparr>ur_prompt_tokens := Some (mu_input_tokens (mp_usage resp)),
           ur_completion_tokens := Some (mu_output_tokens (mp_usage resp))\<rparr>) (MessagesJson resp) gw1 = (r2, gw2)" by fastforce
    have "r = r2" "gw' = release rm1 gw2" using assms(1) False a Inr v g by (auto simp: messages_plain_def)
    with messages_finish_frame [OF g, of k] f Inr v False show ?thesis by simp
  qed
qed

text \<open>
  C35. Whatever becomes of a Messages request - refused, failed, answered by the primary or a fallback
  model, streamed or not, or lost in a panic - the in-flight counts are afterwards what they were, and
  the log has one more row exactly when the request was answered: the caller's, with the cost of a chat
  model. A streamed answer is priced as if it had used no tokens.
\<close>

theorem messages_balanced_and_logged:
  "flights (snd (messages env inp key q gw)) k = flights gw k \<and>
   messages_logged env inp key (mr_stream q) (fst (messages env inp key q gw)) (gw_spawned gw)
     (gw_spawned (snd (messages env inp key q gw)))"
proof -
  let ?core = "anthropic_request_to_core q"
  obtain r1 gw1 where r1: "proxy_resolve (mx_gateway env) (in_attempt inp 0) (cr_model ?core) Chat gw = (r1, gw1)"
    by fastforce
  note f1 = proxy_resolve_frame [OF r1]
  show ?thesis
  proof (cases r1)
    case (Inl e)
    then show ?thesis using r1 f1(1-3) by (simp add: messages_def messages_logged_def)
  next
    case rm: (Inr rm)
    let ?org = "orgs_get_by_id (at_org (in_attempt inp 0)) (ak_organization_id key) (ge_accounts (mx_gateway env))"
    show ?thesis
    proof (cases ?org)
      case (Inl e)
      then show ?thesis using r1 rm f1(1-3) by (simp add: messages_def messages_logged_def)
    next
      case org: (Inr org)
      obtain r2 gw2 where r2: "messages_limit (in_attempt inp 0) key org (rm_model rm)
          (estimate_request_tokens ?core) gw1 = (r2, gw2)" by fastforce
      note f2 = messages_limit_frame [OF r2]
      show ?thesis
      proof (cases r2)
        case (Inl e)
        then show ?thesis using r1 rm org r2 f1(1-3) f2 by (simp add: messages_def messages_logged_def)
      next
        case (Inr u)
        obtain r gw' where r3: "(if mr_stream q then messages_stream else messages_plain) env inp key org ?core rm gw2 = (r, gw')"
          by fastforce
        have "messages env inp key q gw = (r, gw')" using r1 rm org r2 Inr r3 by (simp add: messages_def)
        then show ?thesis
          using messages_branch_frame [OF r3 proxy_resolve_capable [OF r1 [unfolded rm]], of k] f1(1-3) f2 rm by simp
      qed
    qed
  qed
qed

section \<open>Budgets are not consulted\<close>

text \<open>The environment with other end users (and their budgets), teams and logged costs.\<close>

definition other_budgets ::
  "end_user list \<Rightarrow> team list \<Rightarrow> request_log list \<Rightarrow> 's messages_env \<Rightarrow> 's messages_env" where
  "other_budgets eus ts logs env =
     env\<lparr>mx_gateway := (mx_gateway env)\<lparr>ge_accounts := (ge_accounts (mx_gateway env))
       \<lparr>ac_end_users := eus, ac_teams := ts, ac_request_logs := logs\<rparr>\<rparr>\<rparr>"

lemma other_budgets_fields:
  "mx_parse (other_budgets eus ts logs env) = mx_parse env" "mx_uuid (other_budgets eus ts logs env) = mx_uuid env"
  "ge_router (mx_gateway (other_budgets eus ts logs env)) = ge_router (mx_gateway env)"
  "ge_catalog (mx_gateway (other_budgets eus ts logs env)) = ge_catalog (mx_gateway env)"
  "ge_decimal (mx_gateway (other_budgets eus ts logs env)) = ge_decimal (mx_gateway env)"
  "ge_print (mx_gateway (other_budgets eus ts logs env)) = ge_print (mx_gateway env)"
  "ac_organizations (ge_accounts (mx_gateway (other_budgets eus ts logs env))) =
     ac_organizations (ge_accounts (mx_gateway env))"
  by (simp_all add: other_budgets_def)

lemma other_budgets_sel [simp]:
  "proxy_resolve (mx_gateway (other_budgets eus ts logs env)) = proxy_resolve (mx_gateway env)"
  "attempt_anthropic_chat (other_budgets eus ts logs env) = attempt_anthropic_chat env"
  "attempt_anthropic_stream (other_budgets eus ts logs env) = attempt_anthropic_stream env"
  "messages_finish (other_budgets eus ts logs env) = messages_finish env"
  "orgs_get_by_id flt i (ge_accounts (mx_gateway (other_budgets eus ts logs env))) =
     orgs_get_by_id flt i (ge_accounts (mx_gateway env))"
  unfolding proxy_resolve_def attempt_anthropic_chat_def attempt_anthropic_stream_def
    messages_finish_def orgs_get_by_id_def other_budgets_fields by (rule refl)+

lemma other_budgets_fallbacks:
  "messages_fallbacks (other_budgets eus ts logs env) inp key org tokens call i ids rl_err last_err gw =
   messages_fallbacks env inp key org tokens call i ids rl_err last_err gw"
  by (induction ids arbitrary: i rl_err last_err gw) (simp_all split: prod.split sum.split)

lemma other_budgets_branches:
  "messages_stream (other_budgets eus ts logs env) = messages_stream env"
  "messages_plain (other_budgets eus ts logs env) = messages_plain env"
  unfolding messages_stream_def messages_plain_def messages_attempts_def other_budgets_fallbacks other_budgets_sel
  by (rule refl)+

text \<open>
  C34. The Messages endpoint does not enforce budgets: whatever the budgets of the end users and teams
  and whatever was already spent, a request has the same outcome. (The chat endpoint refuses a request
  whose end user or team has used up its budget.)
\<close>

theorem messages_ignores_budgets:
  "messages (other_budgets eus ts logs env) inp key q gw = messages env inp key q gw"
proof -
  have branch: "(if b then messages_stream else messages_plain) (other_budgets eus ts logs env) =
      (if b then messages_stream else messages_plain) env" for b
    by (simp add: other_budgets_branches)
  show ?thesis unfolding messages_def other_budgets_sel branch by (rule refl)
qed

section \<open>Requests that are refused\<close>

text \<open>
  Content blocks and the tool choice \<open>{"type": ...}\<close>, as Anthropic's API documents them, are not
  accepted.
\<close>

lemma content_blocks_refused:
  "de_messages_message (JObject [(''role'', JString role), (''content'', JArray blocks)]) = None"
  by (simp add: de_messages_message_def req_def de_string_def)

lemma typed_tool_choice_refused:
  "de_messages_tool_choice (JObject [(''type'', JString t)]) = None"
  by (simp add: de_messages_tool_choice_def Let_def)

end
