(* ===== verification/App_Config.thy ===== *)
theory App_Config
  imports Passwords Wire_Json Mcp_Registry Guardrails Circuit_Breaker Agentic_Loop
begin

text \<open>
  The configuration file: the structures of \<open>crates/godwit-core/src/lib.rs\<close> with the defaults of their
  fields, and what \<open>crates/godwit-bin/src/main.rs\<close> builds from them. The YAML text parser is outside;
  a mapping of the file is a function from keys to values, the scalars being those of JSON.
\<close>

section \<open>Readers\<close>

text \<open>The derived reader of a structure takes a mapping.\<close>

fun mapping_of :: "json \<Rightarrow> fields option" where
  "mapping_of (JObject m) = Some (map_of m)"
| "mapping_of _ = None"

definition de_section :: "(fields \<Rightarrow> 'a option) \<Rightarrow> json \<Rightarrow> 'a option" where
  "de_section de v = Option.bind (mapping_of v) de"

fun de_unsigned :: "nat \<Rightarrow> json \<Rightarrow> int option" where
  "de_unsigned w (JInt i) = (if 0 \<le> i \<and> i < 2 ^ w then Some i else None)"
| "de_unsigned w _ = None"

definition de_u16 :: "json \<Rightarrow> u16 option" where
  "de_u16 v = map_option word_of_int (de_unsigned 16 v)"

definition de_u32 :: "json \<Rightarrow> u32 option" where
  "de_u32 v = map_option word_of_int (de_unsigned 32 v)"

definition de_u64 :: "json \<Rightarrow> u64 option" where
  "de_u64 v = map_option word_of_int (de_unsigned 64 v)"

definition de_usize :: "json \<Rightarrow> usize option" where
  "de_usize v = map_option word_of_int (de_unsigned 64 v)"

text \<open>\<open>#[serde(default)]\<close> and \<open>#[serde(default = "...")]\<close>.\<close>

definition or_default :: "'a \<Rightarrow> (json \<Rightarrow> 'a option) \<Rightarrow> fields \<Rightarrow> string \<Rightarrow> 'a option" where
  "or_default d de f k = (case f k of None \<Rightarrow> Some d | Some v \<Rightarrow> de v)"

section \<open>Sections\<close>

record server_config =
  sv_host :: string
  sv_port :: u16
  sv_request_timeout_seconds :: u64

definition de_server :: "fields \<Rightarrow> server_config option" where
  "de_server f = do {
     host \<leftarrow> req de_string f ''host'';
     port \<leftarrow> req de_u16 f ''port'';
     timeout \<leftarrow> req de_u64 f ''request_timeout_seconds'';
     Some \<lparr>sv_host = host, sv_port = port, sv_request_timeout_seconds = timeout\<rparr> }"

definition de_database :: "fields \<Rightarrow> string option" where
  "de_database f = req de_string f ''url''"

definition de_password_policy :: "fields \<Rightarrow> password_policy option" where
  "de_password_policy f = do {
     min_length \<leftarrow> or_default 10 de_u32 f ''min_length'';
     upper \<leftarrow> or_default False de_bool f ''require_upper'';
     lower \<leftarrow> or_default False de_bool f ''require_lower'';
     digit \<leftarrow> or_default False de_bool f ''require_digit'';
     symbol \<leftarrow> or_default False de_bool f ''require_symbol'';
     max_reuse \<leftarrow> or_default 5 de_u32 f ''max_reuse'';
     days \<leftarrow> or_default 0 de_u64 f ''days_to_expire'';
     block_common \<leftarrow> or_default False de_bool f ''block_common'';
     Some \<lparr>pw_min_length = min_length, pw_require_upper = upper, pw_require_lower = lower,
           pw_require_digit = digit, pw_require_symbol = symbol, pw_max_reuse = max_reuse,
           pw_days_to_expire = days, pw_block_common = block_common\<rparr> }"

datatype mail_tls = Tls_None | Tls_StartTls | Tls_Tls

definition mail_tls_default :: mail_tls where
  "mail_tls_default = Tls_StartTls"

definition de_mail_tls :: "json \<Rightarrow> mail_tls option" where
  "de_mail_tls v = do {
     s \<leftarrow> as_str v;
     if s = ''none'' then Some Tls_None else if s = ''starttls'' then Some Tls_StartTls
     else if s = ''tls'' then Some Tls_Tls else None }"

record mail_config =
  ml_from :: string
  ml_host :: string
  ml_port :: u16
  ml_username :: "string option"
  ml_password :: "string option"
  ml_tls :: mail_tls
  ml_app_url :: string

definition de_mail :: "fields \<Rightarrow> mail_config option" where
  "de_mail f = do {
     sender \<leftarrow> req de_string f ''from'';
     host \<leftarrow> req de_string f ''host'';
     port \<leftarrow> or_default 587 de_u16 f ''port'';
     username \<leftarrow> opt de_string f ''username'';
     password \<leftarrow> opt de_string f ''password'';
     tls \<leftarrow> or_default mail_tls_default de_mail_tls f ''tls'';
     app_url \<leftarrow> req de_string f ''app_url'';
     Some \<lparr>ml_from = sender, ml_host = host, ml_port = port, ml_username = username, ml_password = password,
           ml_tls = tls, ml_app_url = app_url\<rparr> }"

record oidc_provider_config =
  oi_id :: string
  oi_issuer_url :: string
  oi_client_id :: string
  oi_client_secret :: string
  oi_redirect_uri :: string

definition de_oidc_provider :: "fields \<Rightarrow> oidc_provider_config option" where
  "de_oidc_provider f = do {
     i \<leftarrow> req de_string f ''id'';
     issuer \<leftarrow> req de_string f ''issuer_url'';
     client_id \<leftarrow> req de_string f ''client_id'';
     client_secret \<leftarrow> req de_string f ''client_secret'';
     redirect \<leftarrow> req de_string f ''redirect_uri'';
     Some \<lparr>oi_id = i, oi_issuer_url = issuer, oi_client_id = client_id, oi_client_secret = client_secret,
           oi_redirect_uri = redirect\<rparr> }"

record saml_provider_config =
  sa_id :: string
  sa_idp_metadata_url :: string
  sa_sp_entity_id :: string
  sa_acs_url :: string

definition de_saml_provider :: "fields \<Rightarrow> saml_provider_config option" where
  "de_saml_provider f = do {
     i \<leftarrow> req de_string f ''id'';
     url \<leftarrow> req de_string f ''idp_metadata_url'';
     entity \<leftarrow> req de_string f ''sp_entity_id'';
     acs \<leftarrow> req de_string f ''acs_url'';
     Some \<lparr>sa_id = i, sa_idp_metadata_url = url, sa_sp_entity_id = entity, sa_acs_url = acs\<rparr> }"

text \<open>The section \<open>auth\<close>, with the fields the session handlers read in \<open>auth_config\<close>.\<close>

record auth_section =
  as_auth :: auth_config
  as_allowed_cookie_origin :: string
  as_login_max_attempts_per_minute :: i64
  as_oidc :: "oidc_provider_config list"
  as_saml :: "saml_provider_config list"
  as_mail :: "mail_config option"

definition de_auth :: "fields \<Rightarrow> auth_section option" where
  "de_auth f = do {
     jwt_secret \<leftarrow> req de_string f ''jwt_secret'';
     access \<leftarrow> req Wire_Json.de_i64 f ''access_token_ttl_minutes'';
     refresh \<leftarrow> req Wire_Json.de_i64 f ''refresh_token_ttl_days'';
     secure \<leftarrow> or_default False de_bool f ''cookie_secure'';
     origin \<leftarrow> or_default [] de_string f ''allowed_cookie_origin'';
     attempts \<leftarrow> or_default 10 Wire_Json.de_i64 f ''login_max_attempts_per_minute'';
     trust \<leftarrow> or_default False de_bool f ''trust_proxy'';
     oidc \<leftarrow> req (de_list (de_section de_oidc_provider)) f ''oidc_providers'';
     saml \<leftarrow> req (de_list (de_section de_saml_provider)) f ''saml_providers'';
     mail \<leftarrow> opt (de_section de_mail) f ''mail'';
     policy \<leftarrow> or_default password_policy_default (de_section de_password_policy) f ''password_policy'';
     Some \<lparr>as_auth = \<lparr>ag_jwt_secret = jwt_secret, ag_access_token_ttl_minutes = access,
             ag_refresh_token_ttl_days = refresh, ag_cookie_secure = secure, ag_trust_proxy = trust,
             ag_oidc_providers = map oi_id oidc, ag_password_policy = policy\<rparr>,
           as_allowed_cookie_origin = origin, as_login_max_attempts_per_minute = attempts,
           as_oidc = oidc, as_saml = saml, as_mail = mail\<rparr> }"

record mcp_server_entry =
  sn_name :: string
  sn_command :: string
  sn_args :: "string list"
  sn_env :: "(string \<times> string) list"

text \<open>\<open>HashMap<String, String>\<close>.\<close>

fun de_string_map :: "json \<Rightarrow> (string \<times> string) list option" where
  "de_string_map (JObject m) = map_option (zip (map fst m)) (de_all de_string (map snd m))"
| "de_string_map _ = None"

definition de_mcp_server :: "fields \<Rightarrow> mcp_server_entry option" where
  "de_mcp_server f = do {
     name \<leftarrow> req de_string f ''name'';
     command \<leftarrow> req de_string f ''command'';
     args \<leftarrow> or_default [] (de_list de_string) f ''args'';
     env \<leftarrow> or_default [] de_string_map f ''env'';
     Some \<lparr>sn_name = name, sn_command = command, sn_args = args, sn_env = env\<rparr> }"

definition default_max_iterations :: usize where
  "default_max_iterations = 4"

record agentic_config =
  gn_mcp_servers :: "mcp_server_entry list"
  gn_searxng :: "string option"
  gn_max_iterations :: usize

definition agentic_config_default :: agentic_config where
  "agentic_config_default = \<lparr>gn_mcp_servers = [], gn_searxng = None, gn_max_iterations = default_max_iterations\<rparr>"

definition de_searxng :: "fields \<Rightarrow> string option" where
  "de_searxng f = req de_string f ''base_url''"

definition de_agentic :: "fields \<Rightarrow> agentic_config option" where
  "de_agentic f = do {
     servers \<leftarrow> or_default [] (de_list (de_section de_mcp_server)) f ''mcp_servers'';
     searxng \<leftarrow> opt (de_section de_searxng) f ''searxng'';
     iterations \<leftarrow> or_default default_max_iterations de_usize f ''max_iterations'';
     Some \<lparr>gn_mcp_servers = servers, gn_searxng = searxng, gn_max_iterations = iterations\<rparr> }"

definition de_compat :: "fields \<Rightarrow> bool option" where
  "de_compat f = req de_bool f ''openai_wire_streaming''"

record circuit_breaker_config =
  cc_failure_threshold :: usize
  cc_recovery_timeout_secs :: u64
  cc_half_open_max_requests :: usize

definition de_circuit_breaker :: "fields \<Rightarrow> circuit_breaker_config option" where
  "de_circuit_breaker f = do {
     threshold \<leftarrow> req de_usize f ''failure_threshold'';
     timeout \<leftarrow> req de_u64 f ''recovery_timeout_secs'';
     half_open \<leftarrow> req de_usize f ''half_open_max_requests'';
     Some \<lparr>cc_failure_threshold = threshold, cc_recovery_timeout_secs = timeout,
           cc_half_open_max_requests = half_open\<rparr> }"

definition default_moderation_provider_order :: "string list" where
  "default_moderation_provider_order = [''openai'', ''azure'', ''self-hosted'']"

definition de_moderation :: "fields \<Rightarrow> string list option" where
  "de_moderation f = or_default default_moderation_provider_order (de_list de_string) f ''provider_order''"

definition default_rerank_provider_order :: "string list" where
  "default_rerank_provider_order = [''cohere'', ''azure'', ''self-hosted'']"

definition de_rerank :: "fields \<Rightarrow> string list option" where
  "de_rerank f = or_default default_rerank_provider_order (de_list de_string) f ''provider_order''"

record batch_config =
  bc_max_concurrent :: usize
  bc_max_retries :: usize
  bc_webhook_url :: "string option"

definition batch_config_default :: batch_config where
  "batch_config_default = \<lparr>bc_max_concurrent = 10, bc_max_retries = 2, bc_webhook_url = None\<rparr>"

definition de_batch_config :: "fields \<Rightarrow> batch_config option" where
  "de_batch_config f = do {
     concurrent \<leftarrow> or_default 10 de_usize f ''max_concurrent'';
     retries \<leftarrow> or_default 2 de_usize f ''max_retries'';
     url \<leftarrow> opt de_string f ''webhook_url'';
     Some \<lparr>bc_max_concurrent = concurrent, bc_max_retries = retries, bc_webhook_url = url\<rparr> }"

record cache_config =
  kc_enabled :: bool
  kc_ttl_secs :: u64
  kc_max_size :: usize

definition cache_config_default :: cache_config where
  "cache_config_default = \<lparr>kc_enabled = True, kc_ttl_secs = 3600, kc_max_size = 10000\<rparr>"

definition de_cache :: "fields \<Rightarrow> cache_config option" where
  "de_cache f = do {
     enabled \<leftarrow> or_default True de_bool f ''enabled'';
     ttl \<leftarrow> or_default 3600 de_u64 f ''ttl_secs'';
     size \<leftarrow> or_default 10000 de_usize f ''max_size'';
     Some \<lparr>kc_enabled = enabled, kc_ttl_secs = ttl, kc_max_size = size\<rparr> }"

record pii_pattern_config =
  ppc_name :: string
  ppc_pattern :: string
  ppc_replacement :: string
  ppc_enabled :: bool

definition de_pii_pattern :: "fields \<Rightarrow> pii_pattern_config option" where
  "de_pii_pattern f = do {
     name \<leftarrow> req de_string f ''name'';
     pattern \<leftarrow> req de_string f ''pattern'';
     replacement \<leftarrow> req de_string f ''replacement'';
     enabled \<leftarrow> or_default True de_bool f ''enabled'';
     Some \<lparr>ppc_name = name, ppc_pattern = pattern, ppc_replacement = replacement, ppc_enabled = enabled\<rparr> }"

text \<open>The regular expressions of the default patterns; \<open>bs\<close> is a backslash.\<close>

definition bs :: string where
  "bs = [CHR 0x5C]"

definition default_pii_patterns :: "pii_pattern_config list" where
  "default_pii_patterns =
     [\<lparr>ppc_name = ''email'',
       ppc_pattern = ''[a-zA-Z0-9._%+-]+@[a-zA-Z0-9.-]+'' @ bs @ ''.[a-zA-Z]{2,}'',
       ppc_replacement = ''[EMAIL]'', ppc_enabled = True\<rparr>,
      \<lparr>ppc_name = ''phone'', ppc_pattern = bs @ ''+?['' @ bs @ ''d'' @ bs @ ''s-()]{10,}'',
       ppc_replacement = ''[PHONE]'', ppc_enabled = True\<rparr>,
      \<lparr>ppc_name = ''credit_card'',
       ppc_pattern = bs @ ''b'' @ concat (map (\<lambda>sep. bs @ ''d{4}'' @ sep)
         [''[-'' @ bs @ ''s]?'', ''[-'' @ bs @ ''s]?'', ''[-'' @ bs @ ''s]?'', []]) @ bs @ ''b'',
       ppc_replacement = ''[CARD]'', ppc_enabled = True\<rparr>,
      \<lparr>ppc_name = ''ssn'',
       ppc_pattern = bs @ ''b'' @ bs @ ''d{3}-'' @ bs @ ''d{2}-'' @ bs @ ''d{4}'' @ bs @ ''b'',
       ppc_replacement = ''[SSN]'', ppc_enabled = True\<rparr>]"

record pii_config =
  pi_enabled :: bool
  pi_mask_request :: bool
  pi_mask_response :: bool
  pi_patterns :: "pii_pattern_config list"

definition pii_config_default :: pii_config where
  "pii_config_default = \<lparr>pi_enabled = False, pi_mask_request = True, pi_mask_response = True,
     pi_patterns = default_pii_patterns\<rparr>"

definition de_pii :: "fields \<Rightarrow> pii_config option" where
  "de_pii f = do {
     enabled \<leftarrow> or_default False de_bool f ''enabled'';
     request \<leftarrow> or_default True de_bool f ''mask_request'';
     response \<leftarrow> or_default True de_bool f ''mask_response'';
     patterns \<leftarrow> or_default default_pii_patterns (de_list (de_section de_pii_pattern)) f ''patterns'';
     Some \<lparr>pi_enabled = enabled, pi_mask_request = request, pi_mask_response = response, pi_patterns = patterns\<rparr> }"

section \<open>The file\<close>

record app_config =
  ap_server :: server_config
  ap_database_url :: string
  ap_auth :: auth_section
  ap_agentic :: agentic_config
  ap_compat :: "bool option"
  ap_circuit_breaker :: "circuit_breaker_config option"
  ap_moderation :: "string list"
  ap_rerank :: "string list"
  ap_batch :: batch_config
  ap_cache :: cache_config
  ap_pii :: pii_config
  ap_moderation_pre :: "bool option"
  ap_moderation_post :: "bool option"
  ap_block_on_moderation_failure :: "bool option"

definition de_app_config :: "fields \<Rightarrow> app_config option" where
  "de_app_config f = do {
     server \<leftarrow> req (de_section de_server) f ''server'';
     database \<leftarrow> req (de_section de_database) f ''database'';
     auth \<leftarrow> req (de_section de_auth) f ''auth'';
     agentic \<leftarrow> or_default agentic_config_default (de_section de_agentic) f ''agentic'';
     compat \<leftarrow> opt (de_section de_compat) f ''compat'';
     breaker \<leftarrow> opt (de_section de_circuit_breaker) f ''circuit_breaker'';
     moderation \<leftarrow> or_default default_moderation_provider_order (de_section de_moderation) f ''moderation'';
     rerank \<leftarrow> or_default default_rerank_provider_order (de_section de_rerank) f ''rerank'';
     batch \<leftarrow> or_default batch_config_default (de_section de_batch_config) f ''batch'';
     cache \<leftarrow> or_default cache_config_default (de_section de_cache) f ''cache'';
     pii \<leftarrow> or_default pii_config_default (de_section de_pii) f ''pii'';
     pre \<leftarrow> opt de_bool f ''moderation_pre'';
     post \<leftarrow> opt de_bool f ''moderation_post'';
     block \<leftarrow> opt de_bool f ''block_on_moderation_failure'';
     Some \<lparr>ap_server = server, ap_database_url = database, ap_auth = auth, ap_agentic = agentic,
           ap_compat = compat, ap_circuit_breaker = breaker, ap_moderation = moderation, ap_rerank = rerank,
           ap_batch = batch, ap_cache = cache, ap_pii = pii, ap_moderation_pre = pre,
           ap_moderation_post = post, ap_block_on_moderation_failure = block\<rparr> }"

section \<open>Defaults\<close>

text \<open>
  A section of the configuration file that is present but empty means the same as one that is left
  out, for every section that has defaults but one: an empty \<open>password_policy\<close> requires no upper-case
  letter, lower-case letter, digit or symbol, while the policy of a file without the section requires all four.
\<close>

lemma empty_section_defaults:
  "de_agentic Map.empty = Some agentic_config_default \<and>
   de_moderation Map.empty = Some default_moderation_provider_order \<and>
   de_rerank Map.empty = Some default_rerank_provider_order \<and>
   de_batch_config Map.empty = Some batch_config_default \<and>
   de_cache Map.empty = Some cache_config_default \<and>
   de_pii Map.empty = Some pii_config_default \<and>
   de_password_policy Map.empty =
     Some (password_policy_default\<lparr>pw_require_upper := False, pw_require_lower := False,
       pw_require_digit := False, pw_require_symbol := False\<rparr>)"
  by (simp add: de_agentic_def agentic_config_default_def de_moderation_def de_rerank_def de_batch_config_def
      batch_config_default_def de_cache_def cache_config_default_def de_pii_def pii_config_default_def
      de_password_policy_def password_policy_default_def or_default_def opt_def)

definition policy_keys :: "string list" where
  "policy_keys = [''require_upper'', ''require_lower'', ''require_digit'', ''require_symbol'', ''block_common'']"

lemma lenient_policy:
  assumes "de_password_policy f = Some policy" "map f policy_keys = replicate 5 None"
  shows "\<not> pw_require_upper policy \<and> \<not> pw_require_lower policy \<and> \<not> pw_require_digit policy \<and>
    \<not> pw_require_symbol policy \<and> \<not> pw_block_common policy"
proof -
  have none: "f ''require_upper'' = None" "f ''require_lower'' = None" "f ''require_digit'' = None"
      "f ''require_symbol'' = None" "f ''block_common'' = None"
    using assms(2) by (simp_all add: policy_keys_def numeral_eq_Suc)
  obtain n r d where "policy = \<lparr>pw_min_length = n, pw_require_upper = False, pw_require_lower = False,
      pw_require_digit = False, pw_require_symbol = False, pw_max_reuse = r, pw_days_to_expire = d,
      pw_block_common = False\<rparr>"
    using assms(1) unfolding de_password_policy_def or_default_def none option.case Option.bind.bind_lunit
    by (auto simp: bind_eq_Some_conv)
  then show ?thesis by simp
qed

text \<open>
  A \<open>password_policy\<close> section that sets none of the character rules accepts every password
  that is long enough and new, whatever its characters; without the section such a password must have
  upper-case and lower-case letters, a digit and a symbol.
\<close>

lemma partial_policy_accepts:
  assumes "de_password_policy f = Some policy" "map f policy_keys = replicate 5 None"
    and "pw_min_length policy \<le> of_nat (length (utf8_chars password))"
    and "\<not> list_ex (verify password) history"
  shows "validate_password uc common verify policy password history = Ok ()"
proof -
  have rules: "\<not> pw_require_upper policy" "\<not> pw_require_lower policy" "\<not> pw_require_digit policy"
      "\<not> pw_require_symbol policy" "\<not> pw_block_common policy"
    using lenient_policy [OF assms(1,2)] by blast+
  have "\<not> of_nat (length (utf8_chars password)) < pw_min_length policy"
    using assms(3) by simp
  with rules assms(4) show ?thesis
    by (simp only: validate_password_def Let_def if_False simp_thms)
qed

lemma partial_policy_accepts_witness:
  "validate_password \<lparr>uc_uppercase = (\<lambda>_. False), uc_lowercase = (\<lambda>_. True), uc_alphanumeric = (\<lambda>_. True)\<rparr>
     [] (\<lambda>_ _. False) (password_policy_default\<lparr>pw_min_length := 3, pw_require_upper := False,
       pw_require_lower := False, pw_require_digit := False, pw_require_symbol := False\<rparr>) ''aaa'' [] = Ok () \<and>
   validate_password \<lparr>uc_uppercase = (\<lambda>_. False), uc_lowercase = (\<lambda>_. True), uc_alphanumeric = (\<lambda>_. True)\<rparr>
     [] (\<lambda>_ _. False) (password_policy_default\<lparr>pw_min_length := 3\<rparr>) ''aaa'' [] = Err NeedsUpper"
proof -
  let ?f = "map_of [(''min_length'', JInt 3)]"
  let ?p = "password_policy_default\<lparr>pw_min_length := 3, pw_require_upper := False, pw_require_lower := False,
      pw_require_digit := False, pw_require_symbol := False\<rparr>"
  have p: "de_password_policy ?f = Some ?p"
    by (simp add: de_password_policy_def or_default_def de_u32_def password_policy_default_def)
  have keys: "map ?f policy_keys = replicate 5 None"
    by (simp add: policy_keys_def numeral_eq_Suc)
  have chars: "utf8_chars ''aaa'' = [97, 97, 97]" by code_simp
  show ?thesis
    using partial_policy_accepts [OF p keys, of "''aaa''" "\<lambda>_ _. False" "[]"]
    by (simp add: chars validate_password_def password_policy_default_def del: utf8_chars.simps)
qed

section \<open>What is built from it\<close>

text \<open>\<open>LoginLimiter::new(login_max_attempts_per_minute.max(0) as u32)\<close>.\<close>

definition login_capacity :: "i64 \<Rightarrow> u32" where
  "login_capacity attempts = word_of_int (max (sint attempts) 0)"

definition build_login_limiter :: "app_config \<Rightarrow> login_limiter" where
  "build_login_limiter cfg = ll_new (login_capacity (as_login_max_attempts_per_minute (ap_auth cfg)))"

definition build_breakers :: "app_config \<Rightarrow> breaker_registry" where
  "build_breakers cfg =
     (let cb = ap_circuit_breaker cfg
      in reg_new (unwrap_or 5 (map_option cc_failure_threshold cb))
           (secs (unat (unwrap_or 60 (map_option cc_recovery_timeout_secs cb))))
           (unwrap_or 3 (map_option cc_half_open_max_requests cb)))"

definition build_agentic_loop :: "app_config \<Rightarrow> agentic_loop" where
  "build_agentic_loop cfg =
     \<lparr>al_max_iterations = unat (gn_max_iterations (ap_agentic cfg)), al_iteration_timeout_secs = 120\<rparr>"

definition build_guardrails ::
  "(string \<Rightarrow> string \<Rightarrow> (nat \<times> nat) list) \<Rightarrow> app_config \<Rightarrow> guardrails_orchestrator" where
  "build_guardrails regex cfg = go_new regex
     \<lparr>gc_pii_enabled = pi_enabled (ap_pii cfg), gc_moderation_pre = unwrap_or False (ap_moderation_pre cfg),
      gc_moderation_post = unwrap_or False (ap_moderation_post cfg),
      gc_block_on_moderation_failure = unwrap_or True (ap_block_on_moderation_failure cfg)\<rparr>"

definition build_mcp_registry :: "app_config \<Rightarrow> registry" where
  "build_mcp_registry cfg =
     registry_from_config (map (\<lambda>s. \<lparr>ms_name = sn_name s, ms_command = sn_command s, ms_args = sn_args s,
       ms_env = sn_env s\<rparr>) (gn_mcp_servers (ap_agentic cfg)))"

definition build_searxng :: "app_config \<Rightarrow> resolved_profile option" where
  "build_searxng cfg =
     map_option (\<lambda>url. \<lparr>rp_base_url = url, rp_api_key = None\<rparr>) (gn_searxng (ap_agentic cfg))"

lemma word_of_int_u32_zero: "(word_of_int i :: u32) = 0 \<longleftrightarrow> 2 ^ 32 dvd i"
  by (simp add: word_of_int_eq_0_iff)

text \<open>
  The number of login attempts per minute is cut to 32 bits: the login limiter is off, so that no
  attempt is ever delayed, exactly when the number is not positive, as documented, or a multiple of
  \<open>2 ^ 32\<close>.
\<close>

lemma login_limit_off_iff:
  "(\<forall>now0 now ip debit. attempt_allowed now0 now ip debit (build_login_limiter cfg) =
      (None, build_login_limiter cfg)) \<longleftrightarrow>
   sint (as_login_max_attempts_per_minute (ap_auth cfg)) \<le> 0 \<or>
   2 ^ 32 dvd sint (as_login_max_attempts_per_minute (ap_auth cfg))"
  (is "?off \<longleftrightarrow> ?a \<le> 0 \<or> 2 ^ 32 dvd ?a")
proof -
  let ?l = "build_login_limiter cfg"
  have "ll_capacity ?l = login_capacity (as_login_max_attempts_per_minute (ap_auth cfg))"
    by (simp add: build_login_limiter_def ll_new_def word_gt_0)
  moreover have "login_capacity (as_login_max_attempts_per_minute (ap_auth cfg)) = 0 \<longleftrightarrow> ?a \<le> 0 \<or> 2 ^ 32 dvd ?a"
    by (auto simp: login_capacity_def word_of_int_u32_zero max_def)
  moreover have "?off \<longleftrightarrow> ll_capacity ?l = 0"
  proof
    assume off: ?off
    show "ll_capacity ?l = 0"
    proof (rule ccontr)
      assume c: "ll_capacity ?l \<noteq> 0"
      have "ll_buckets (snd (attempt_allowed 0 0 [] False ?l)) [] \<noteq> None"
        using c by (simp add: attempt_allowed_def ll_put_def Let_def split: prod.split)
      moreover have "ll_buckets ?l [] = None" by (simp add: build_login_limiter_def ll_new_def)
      ultimately show False using off by simp
    qed
  qed (simp add: attempt_allowed_def)
  ultimately show ?thesis by simp
qed

end
