(* ===== verification/Gateway_Startup.thy ===== *)
theory Gateway_Startup
  imports App_Config Gemini_Adapter Azure_Adapter Provider_Fallback
begin

text \<open>
  What happens before the first request: the registry of adapters
  (\<open>crates/godwit-providers/src/registry.rs\<close>, filled in \<open>crates/godwit-bin/src/main.rs\<close>), the first rows
  of the database (\<open>crates/godwit-bin/src/bootstrap.rs\<close>), and the web-search client
  (\<open>crates/godwit-providers/src/searxng.rs\<close>) that the tool loop uses. The environment variables are a map;
  URL encoding is the HTTP client's.
\<close>

section \<open>The registry of adapters\<close>

type_synonym 'ad adapter_registry = "protocol \<rightharpoonup> 'ad"

definition adapters_new :: "'ad adapter_registry" where
  "adapters_new = Map.empty"

definition adapters_register :: "protocol \<Rightarrow> 'ad \<Rightarrow> 'ad adapter_registry \<Rightarrow> 'ad adapter_registry" where
  "adapters_register protocol adapter r = r(protocol \<mapsto> adapter)"

definition adapters_get :: "'ad adapter_registry \<Rightarrow> protocol \<Rightarrow> 'ad option" where
  "adapters_get r protocol = r protocol"

text \<open>The adapters the program creates; each is a provider object of its own.\<close>

datatype adapter_kind = OpenAiAdapter | AnthropicAdapter | GeminiAdapter | VllmAdapter | SglangAdapter | LlamaCppAdapter | OllamaAdapter

definition main_registry :: "adapter_kind adapter_registry" where
  "main_registry =
     adapters_register ''ollama'' OllamaAdapter
    (adapters_register ''llama_cpp'' LlamaCppAdapter
    (adapters_register ''sglang'' SglangAdapter
    (adapters_register ''vllm'' VllmAdapter
    (adapters_register ''gemini'' GeminiAdapter
    (adapters_register ''anthropic'' AnthropicAdapter
    (adapters_register ''openai'' OpenAiAdapter adapters_new))))))"

section \<open>Web search\<close>

definition de_searxng_result :: "json \<Rightarrow> search_result option" where
  "de_searxng_result v = do {
     f \<leftarrow> de_struct [''title'', ''url'', ''content''] v;
     title \<leftarrow> req de_string f ''title'';
     url \<leftarrow> req de_string f ''url'';
     content \<leftarrow> opt de_string f ''content'';
     Some \<lparr>sr_title = title, sr_url = url, sr_content = content\<rparr> }"

definition de_searxng_response :: "json \<Rightarrow> search_result list option" where
  "de_searxng_response v = do {
     f \<leftarrow> de_struct [''results''] v;
     dflt [] (de_list de_searxng_result) f ''results'' }"

definition searxng_search ::
  "'s client \<Rightarrow> ((string \<times> string) list \<Rightarrow> string) \<Rightarrow> resolved_profile \<Rightarrow> string \<Rightarrow> (search_result list, 's) provider_call" where
  "searxng_search cl url_encode profile query =
     call_json cl
       \<lparr>hq_method = GET,
        hq_url = trim_end_matches (CHR ''/'') (rp_base_url profile) @ ''/search?'' @
          url_encode [(''q'', query), (''format'', ''json'')],
        hq_headers = [], hq_body = HB_Empty\<rparr> de_searxng_response"

section \<open>The first profiles\<close>

record legacy_provider =
  lp_name :: string
  lp_protocol :: string
  lp_base_url :: string
  lp_api_key :: string

definition legacy_provider_from ::
  "(string \<rightharpoonup> string) \<Rightarrow> string \<Rightarrow> string \<Rightarrow> string \<Rightarrow> string \<Rightarrow> legacy_provider list" where
  "legacy_provider_from env key_var url_var name default_url =
     (case env key_var of
        None \<Rightarrow> []
      | Some key \<Rightarrow> [\<lparr>lp_name = name, lp_protocol = name, lp_base_url = unwrap_or default_url (env url_var),
                     lp_api_key = key\<rparr>])"

definition legacy_providers_from_env :: "(string \<rightharpoonup> string) \<Rightarrow> legacy_provider list" where
  "legacy_providers_from_env env =
     legacy_provider_from env ''OPENAI_API_KEY'' ''OPENAI_BASE_URL'' ''openai'' ''https://api.openai.com/v1'' @
     legacy_provider_from env ''ANTHROPIC_API_KEY'' ''ANTHROPIC_BASE_URL'' ''anthropic'' ''https://api.anthropic.com'' @
     legacy_provider_from env ''GEMINI_API_KEY'' ''GEMINI_BASE_URL'' ''gemini''
       ''https://generativelanguage.googleapis.com''"

text \<open>The faults, identifiers, times and nonces of the statements, per provider.\<close>

record profile_inputs =
  pf_create :: stmt
  pf_id :: uuid
  pf_now :: datetime
  pf_nonce :: string
  pf_set_auth :: stmt

fun create_profiles ::
  "crypto \<Rightarrow> string \<Rightarrow> (nat \<Rightarrow> profile_inputs) \<Rightarrow> nat \<Rightarrow> legacy_provider list \<Rightarrow> catalog \<Rightarrow>
     (pasteur_error, unit) result \<times> catalog" where
  "create_profiles c key inp i [] ct = (Ok (), ct)"
| "create_profiles c key inp i (p # ps) ct =
     (case profiles_create (fst (pf_create (inp i))) (snd (pf_create (inp i))) (pf_id (inp i)) (pf_now (inp i))
             (lp_name p) (lp_protocol p) (Some (lp_base_url p)) False ct of
        (Inl e, ct) \<Rightarrow> (Err e, ct)
      | (Inr profile, ct) \<Rightarrow>
          (case profiles_set_auth (fst (pf_set_auth (inp i))) (snd (pf_set_auth (inp i))) (pp_id profile)
                  (encrypt_api_key c key (pf_nonce (inp i)) (lp_api_key p)) ct of
             (Inl e, ct) \<Rightarrow> (Err e, ct)
           | (Inr _, ct) \<Rightarrow> create_profiles c key inp (Suc i) ps ct))"

definition bootstrap_provider_profiles ::
  "crypto \<Rightarrow> string \<Rightarrow> fault \<Rightarrow> (nat \<Rightarrow> profile_inputs) \<Rightarrow> legacy_provider list \<Rightarrow> catalog \<Rightarrow>
     (pasteur_error, unit) result \<times> catalog" where
  "bootstrap_provider_profiles c key flt inp legacy ct =
     (case profiles_list flt ct of
        Inl e \<Rightarrow> (Err e, ct)
      | Inr rows \<Rightarrow> if rows \<noteq> [] then (Ok (), ct) else create_profiles c key inp 0 legacy ct)"

section \<open>The first administrator\<close>

record admin_inputs =
  ai_lookup :: fault
  ai_orgs :: fault
  ai_org :: "stmt \<times> uuid \<times> datetime"
  ai_user :: "stmt \<times> uuid \<times> datetime"
  ai_salt :: string
  ai_hash :: stmt

definition first_organization :: "admin_inputs \<Rightarrow> accounts \<Rightarrow> (pasteur_error, organization) result \<times> accounts" where
  "first_organization ai ac =
     (case orgs_list (ai_orgs ai) ac of
        Inl e \<Rightarrow> (Err e, ac)
      | Inr (org # _) \<Rightarrow> (Ok org, ac)
      | Inr [] \<Rightarrow> (case ai_org ai of (st, i, now) \<Rightarrow> orgs_create st i now ''Default Organization'' None ac))"

definition set_password_hash :: "stmt \<Rightarrow> uuid \<Rightarrow> string \<Rightarrow> accounts \<Rightarrow> (pasteur_error, unit) result \<times> accounts" where
  "set_password_hash st i hash ac =
     exec_stmt st (ac\<lparr>ac_users := update_where (\<lambda>u. usr_id u = i) (\<lambda>u. u\<lparr>usr_password_hash := Some hash\<rparr>)
       (ac_users ac)\<rparr>) ac"

definition bootstrap_admin_user ::
  "auth_lib \<Rightarrow> admin_inputs \<Rightarrow> string \<Rightarrow> string \<Rightarrow> accounts \<Rightarrow> (pasteur_error, unit) result \<times> accounts" where
  "bootstrap_admin_user lib ai email password ac =
     (case users_get_by_email (ai_lookup ai) email ac of
        Inr _ \<Rightarrow> (Ok (), ac)
      | Inl _ \<Rightarrow>
          (case first_organization ai ac of
             (Inl e, ac) \<Rightarrow> (Err e, ac)
           | (Inr org, ac) \<Rightarrow>
               (case ai_user ai of (st, i, now) \<Rightarrow>
                  (case users_create st i now email (Some ''Admin'') SuperAdmin (Some (og_id org)) ac of
                     (Inl e, ac) \<Rightarrow> (Err e, ac)
                   | (Inr user, ac) \<Rightarrow>
                       set_password_hash (ai_hash ai) (usr_id user) (ab_hash_password lib (ai_salt ai) password) ac))))"

section \<open>Which models can be served\<close>

text \<open>
  C36. In the process that \<open>main\<close> starts, every model that resolves belongs to a profile of one of seven
  protocols and comes with the adapter of that protocol. (The protocol \<open>azure_openai\<close> has an adapter that
  is never registered, so that no model of an Azure profile resolves.)
\<close>

theorem resolved_adapter_of_protocol:
  assumes "ro_registry ro = adapters_get main_registry"
    and "resolve ro flt1 flt2 model_ref cap ct lb = (Ok rm, lb')"
  shows "(pp_protocol (rm_profile rm), rm_adapter rm) \<in>
    {(''openai'', OpenAiAdapter), (''anthropic'', AnthropicAdapter), (''gemini'', GeminiAdapter),
     (''vllm'', VllmAdapter), (''sglang'', SglangAdapter), (''llama_cpp'', LlamaCppAdapter), (''ollama'', OllamaAdapter)}"
proof -
  from assms(2) have "ro_registry ro (pp_protocol (rm_profile rm)) = Some (rm_adapter rm)"
  proof (cases rule: resolve_cases)
    case (finish m p lb1)
    then show ?thesis using resolve_finish_Ok [OF finish(3)] by simp
  qed simp
  then show ?thesis
    unfolding assms(1) adapters_get_def main_registry_def adapters_register_def adapters_new_def fun_upd_apply
    by (simp only: insert_iff prod.inject split: if_splits) simp_all
qed

definition started_router :: "adapter_kind router" where
  "started_router = \<lparr>ro_registry = adapters_get main_registry, ro_master_key = [], ro_crypto = plain_crypto,
     ro_de_secret = (\<lambda>_. Err ''none'')\<rparr>"

theorem resolved_adapter_of_protocol_witness:
  "\<exists>rm lb'. resolve started_router None None ''acme/gpt'' Chat sample_catalog lb_new = (Ok rm, lb') \<and>
     rm_adapter rm = OpenAiAdapter"
proof -
  have "\<exists>rm lb'. resolve started_router None None ''acme/gpt'' Chat sample_catalog lb_new = (Ok rm, lb') \<and>
      pp_protocol (rm_profile rm) = ''openai''"
    by (simp add: resolve_def resolve_qualified_def profiles_get_by_name_def fetch_one_def
        sample_catalog_def sample_profile_def ensure_enabled_def
        models_get_by_profile_and_public_id_def wildcard_model_def resolve_finish_def
        has_capability_def resolve_credentials_def started_router_def adapters_get_def main_registry_def
        adapters_register_def)
  then show ?thesis
    using resolved_adapter_of_protocol [of started_router] by (fastforce simp: started_router_def)
qed

section \<open>Starting again\<close>

lemma users_get_by_email_present:
  "email \<in> usr_email ` set (ac_users ac) \<Longrightarrow> \<exists>u. users_get_by_email None email ac = Ok u"
  by (auto simp: users_get_by_email_def fetch_one_def filter_empty_conv split: list.split)

lemma set_password_hash_emails:
  "map usr_email (ac_users (snd (set_password_hash st i hash ac))) = map usr_email (ac_users ac)"
  by (auto simp: set_password_hash_def exec_stmt_def map_update_where split: prod.split option.split)

lemma first_organization_users: "ac_users (snd (first_organization ai ac)) = ac_users ac"
  by (auto simp: first_organization_def orgs_create_def orgs_create_with_limits_def Let_def returning_def exec_stmt_def
      split: sum.split list.split prod.split option.split)

lemma first_organization_users': "first_organization ai ac = (r, ac') \<Longrightarrow> ac_users ac' = ac_users ac"
  using first_organization_users [of ai ac] by simp

lemma users_create_cases:
  assumes "users_create st i now email name role oid ac = (r, ac')"
  shows "(\<exists>e. r = Inl e \<and> ac_users ac' = ac_users ac) \<or>
    (\<exists>u. r = Inr u \<and> email \<in> usr_email ` set (ac_users ac'))"
  using returning_cases [OF assms [unfolded users_create_def Let_def]] by (auto simp: fetch_one_db_def)

text \<open>A run of the bootstrap that reports success or touched the table of users leaves the user there.\<close>

lemma bootstrap_admin_present:
  assumes "bootstrap_admin_user lib ai email password ac = (r, ac')"
    and "r = Ok () \<or> ac_users ac' \<noteq> ac_users ac"
  shows "email \<in> usr_email ` set (ac_users ac')"
proof (cases "users_get_by_email (ai_lookup ai) email ac")
  case (Inr u)
  then show ?thesis
    using assms(1) fetch_one_filter_Ok [OF Inr [unfolded users_get_by_email_def]]
    by (auto simp: bootstrap_admin_user_def)
next
  case (Inl e)
  obtain r1 ac1 where o1: "first_organization ai ac = (r1, ac1)" by fastforce
  note u1 = first_organization_users' [OF o1]
  show ?thesis
  proof (cases r1)
    case (Inl e')
    then show ?thesis using assms \<open>_ = Inl e\<close> o1 u1 by (auto simp: bootstrap_admin_user_def)
  next
    case org: (Inr org)
    obtain st i now where ui: "ai_user ai = (st, i, now)" by (rule prod_cases3)
    obtain r2 ac2 where o2: "users_create st i now email (Some ''Admin'') SuperAdmin (Some (og_id org)) ac1 = (r2, ac2)"
      by fastforce
    from users_create_cases [OF o2] show ?thesis
    proof (elim disjE exE conjE)
      fix e' assume "r2 = Inl e'" "ac_users ac2 = ac_users ac1"
      then show ?thesis using assms Inl o1 u1 org ui o2 by (auto simp: bootstrap_admin_user_def)
    next
      fix u assume u: "r2 = Inr u" "email \<in> usr_email ` set (ac_users ac2)"
      then have "ac' = snd (set_password_hash (ai_hash ai) (usr_id u) (ab_hash_password lib (ai_salt ai) password) ac2)"
        using assms(1) Inl o1 org ui o2 by (simp add: bootstrap_admin_user_def)
      then have "map usr_email (ac_users ac') = map usr_email (ac_users ac2)"
        by (simp add: set_password_hash_emails)
      then show ?thesis using u(2) by (metis image_set)
    qed
  qed
qed

text \<open>
  Creating the administrator happens once: when a start of the process reported success, or got as
  far as adding the user, every later start leaves the accounts alone, whatever password it is given. This
  also holds of a start that failed between adding the user and storing the password: the account then
  stays without a password.
\<close>

lemma bootstrap_admin_once:
  assumes "bootstrap_admin_user lib ai email password ac = (r, ac')"
    and "r = Ok () \<or> ac_users ac' \<noteq> ac_users ac"
    and "ai_lookup ai2 = None"
  shows "bootstrap_admin_user lib ai2 email password2 ac' = (Ok (), ac')"
  using users_get_by_email_present [OF bootstrap_admin_present [OF assms(1,2)]] assms(3)
  by (auto simp: bootstrap_admin_user_def)

definition no_accounts :: accounts where
  "no_accounts = \<lparr>ac_organizations = [], ac_users = [], ac_teams = [], ac_memberships = [], ac_api_keys = [],
     ac_end_users = [], ac_refresh_tokens = [], ac_reset_tokens = [], ac_password_history = [], ac_request_logs = []\<rparr>"

definition first_start :: "stmt \<Rightarrow> admin_inputs" where
  "first_start st = \<lparr>ai_lookup = None, ai_orgs = None, ai_org = ((None, []), 1, 0), ai_user = ((None, []), 2, 0),
     ai_salt = [], ai_hash = st\<rparr>"

lemmas bootstrap_eval = bootstrap_admin_user_def first_start_def users_get_by_email_def fetch_one_def
  first_organization_def orgs_list_def fetch_all_def orgs_create_def orgs_create_with_limits_def returning_def
  exec_stmt_def users_create_def fetch_one_db_def set_password_hash_def no_accounts_def accounts_ok_def
  users_ok_def user_rows_ok_def memberships_ok_def api_keys_ok_def refers_opt_def refers_def
  sso_identity_def update_where_def

theorem bootstrap_admin_once_witness:
  "\<exists>ac. bootstrap_admin_user plain_auth (first_start (Some ''lost'', [])) ''root'' ''secret'' no_accounts =
     (Err (PE_Database ''lost''), ac) \<and> map usr_password_hash (ac_users ac) = [None] \<and>
   bootstrap_admin_user plain_auth (first_start (None, [])) ''root'' ''secret'' ac = (Ok (), ac)"
proof -
  let ?run = "bootstrap_admin_user plain_auth (first_start (Some ''lost'', [])) ''root'' ''secret'' no_accounts"
  have run: "fst ?run = Err (PE_Database ''lost'')" "map usr_password_hash (ac_users (snd ?run)) = [None]"
    by (simp_all add: bootstrap_eval user_role_from_str_def Let_def map_filter_simps)
  then have "ac_users (snd ?run) \<noteq> ac_users no_accounts" by (auto simp: no_accounts_def)
  then have "bootstrap_admin_user plain_auth (first_start (None, [])) ''root'' ''secret'' (snd ?run) = (Ok (), snd ?run)"
    using bootstrap_admin_once [OF prod.collapse [symmetric], of plain_auth "first_start (Some ''lost'', [])" "''root''"
        "''secret''" no_accounts "first_start (None, [])"] by (simp add: first_start_def)
  with run show ?thesis by (metis prod.collapse)
qed

section \<open>The profiles of a first start\<close>

definition bootstrapped :: "crypto \<Rightarrow> string \<Rightarrow> (nat \<Rightarrow> profile_inputs) \<Rightarrow> nat \<times> legacy_provider \<Rightarrow> provider_profile" where
  "bootstrapped c key inp jp = (case jp of (j, p) \<Rightarrow>
     \<lparr>pp_id = pf_id (inp j), pp_name = lp_name p, pp_protocol = lp_protocol p, pp_base_url = Some (lp_base_url p),
      pp_allow_wildcard = False,
      pp_auth = encrypted_secret_to_value (encrypt_api_key c key (pf_nonce (inp j)) (lp_api_key p)),
      pp_config = JObject [], pp_enabled = True, pp_created_at = pf_now (inp j)\<rparr>)"

lemma catalog_ok_add_profile:
  assumes "catalog_ok ct" "pp_id row \<notin> pp_id ` set (ct_profiles ct)" "pp_name row \<notin> pp_name ` set (ct_profiles ct)"
  shows "catalog_ok (ct\<lparr>ct_profiles := ct_profiles ct @ [row]\<rparr>)"
  using assms by (auto simp: catalog_ok_def profiles_ok_def models_ok_def model_row_ok_def list_all_iff)

lemma create_one_profile:
  fixes c :: crypto and key :: string
  assumes "catalog_ok ct" "fst (pf_create (inp i)) = None" "fst (pf_set_auth (inp i)) = None"
    and "pf_id (inp i) \<notin> pp_id ` set (ct_profiles ct)" "lp_name p \<notin> pp_name ` set (ct_profiles ct)"
  defines "ct' \<equiv> ct\<lparr>ct_profiles := ct_profiles ct @ [bootstrapped c key inp (i, p)]\<rparr>"
  shows "create_profiles c key inp i (p # ps) ct = create_profiles c key inp (Suc i) ps ct'" "catalog_ok ct'"
proof -
  let ?new = "bootstrapped c key inp (i, p)"
  let ?row = "?new\<lparr>pp_auth := JObject []\<rparr>"
  let ?ct1 = "ct\<lparr>ct_profiles := ct_profiles ct @ [?row]\<rparr>"
  show ok: "catalog_ok ct'"
    unfolding ct'_def using assms(1,4,5) by (intro catalog_ok_add_profile) (simp_all add: bootstrapped_def)
  have ok1: "catalog_ok ?ct1"
    using assms(1,4,5) by (intro catalog_ok_add_profile) (simp_all add: bootstrapped_def)
  have create: "profiles_create (fst (pf_create (inp i))) (snd (pf_create (inp i))) (pf_id (inp i)) (pf_now (inp i))
      (lp_name p) (lp_protocol p) (Some (lp_base_url p)) False ct = (Ok ?row, ?ct1)"
    using ok1 assms(2) by (simp add: profiles_create_def run_stmt_def fetch_one_db_def bootstrapped_def Let_def)
  have others: "filter (\<lambda>q. pp_id q = pf_id (inp i)) (ct_profiles ct) = []"
    using assms(4) by (auto simp: filter_empty_conv image_iff)
  have "profile_rows_update (pf_id (inp i)) (\<lambda>q. q\<lparr>pp_auth := pp_auth ?new\<rparr>) ?ct1 = ct'"
  proof -
    have "map (\<lambda>q. if pp_id q = pf_id (inp i) then q\<lparr>pp_auth := a\<rparr> else q) (ct_profiles ct) = ct_profiles ct"
      for a
      using assms(4) by (intro map_idI) (auto simp: image_iff)
    then show ?thesis by (simp add: profile_rows_update_def ct'_def bootstrapped_def)
  qed
  then have "profiles_set_auth (fst (pf_set_auth (inp i))) (snd (pf_set_auth (inp i))) (pp_id ?row)
      (encrypt_api_key c key (pf_nonce (inp i)) (lp_api_key p)) ?ct1 = (Ok ?new, ct')"
    using ok assms(3) others
    by (simp add: profiles_set_auth_def run_stmt_def fetch_one_db_def bootstrapped_def Let_def)
  with create show "create_profiles c key inp i (p # ps) ct = create_profiles c key inp (Suc i) ps ct'" by simp
qed

lemma create_profiles_exact:
  assumes "catalog_ok ct" "\<forall>j. fst (pf_create (inp j)) = None \<and> fst (pf_set_auth (inp j)) = None"
    and "distinct (map pp_id (ct_profiles ct) @ map (\<lambda>j. pf_id (inp j)) [i..<i + length ps])"
    and "distinct (map pp_name (ct_profiles ct) @ map lp_name ps)"
  shows "create_profiles c key inp i ps ct =
    (Ok (), ct\<lparr>ct_profiles := ct_profiles ct @ map (bootstrapped c key inp) (enumerate i ps)\<rparr>)"
  using assms
proof (induction ps arbitrary: i ct)
  case (Cons p ps)
  let ?ct = "ct\<lparr>ct_profiles := ct_profiles ct @ [bootstrapped c key inp (i, p)]\<rparr>"
  have fresh: "pf_id (inp i) \<notin> pp_id ` set (ct_profiles ct)" "lp_name p \<notin> pp_name ` set (ct_profiles ct)"
    using Cons.prems(3,4) by (auto simp: upt_conv_Cons simp del: upt_Suc)
  have faults: "fst (pf_create (inp i)) = None" "fst (pf_set_auth (inp i)) = None" using Cons.prems(2) by simp_all
  note step = create_one_profile [where inp = inp and i = i and p = p, OF Cons.prems(1) faults fresh]
  have "distinct (map pp_id (ct_profiles ?ct) @ map (\<lambda>j. pf_id (inp j)) [Suc i..<Suc i + length ps])"
    using Cons.prems(3) by (simp add: bootstrapped_def upt_conv_Cons del: upt_Suc)
  moreover have "distinct (map pp_name (ct_profiles ?ct) @ map lp_name ps)"
    using Cons.prems(4) by (simp add: bootstrapped_def)
  ultimately show ?case
    using Cons.IH [of ?ct "Suc i"] step Cons.prems(2) by simp
qed simp

lemma legacy_names_distinct: "distinct (map lp_name (legacy_providers_from_env env))"
  by (simp add: legacy_providers_from_env_def legacy_provider_from_def split: option.split)

text \<open>
  A first start, with an empty table of profiles and a database that answers, creates one enabled
  profile per provider key in the environment, holding that key encrypted.
\<close>

lemma bootstrap_profiles_exact:
  assumes "catalog_ok ct" "ct_profiles ct = []"
    and "\<forall>j. fst (pf_create (inp j)) = None \<and> fst (pf_set_auth (inp j)) = None" "inj (\<lambda>j. pf_id (inp j))"
  shows "bootstrap_provider_profiles c key None inp (legacy_providers_from_env env) ct =
    (Ok (), ct\<lparr>ct_profiles := map (bootstrapped c key inp) (enumerate 0 (legacy_providers_from_env env))\<rparr>)"
proof -
  have "distinct (map (\<lambda>j. pf_id (inp j)) [0..<length (legacy_providers_from_env env)])"
    using assms(4) by (auto simp: distinct_map intro: inj_on_subset)
  then show ?thesis
    using create_profiles_exact [OF assms(1,3), of 0 "legacy_providers_from_env env" c key] assms(2)
      legacy_names_distinct [of env]
    by (simp add: bootstrap_provider_profiles_def profiles_list_def fetch_all_def)
qed

text \<open>A start that was interrupted after its first profile is never completed.\<close>

lemma bootstrap_profiles_partial:
  "ct_profiles ct \<noteq> [] \<Longrightarrow> bootstrap_provider_profiles c key None inp legacy ct = (Ok (), ct)"
proof -
  assume "ct_profiles ct \<noteq> []"
  then have "sort_key pp_name (ct_profiles ct) \<noteq> []" by (metis length_0_conv length_sort)
  then show ?thesis by (simp add: bootstrap_provider_profiles_def profiles_list_def fetch_all_def)
qed

end
