(* ===== verification/Spend_Reports.thy ===== *)
theory Spend_Reports
  imports Admin_Access
begin

text \<open>
  What the request log is read for: the repository \<open>crates/godwit-db/src/repositories/request_logs.rs\<close> and the
  reports of the admin API, \<open>admin/spend.rs\<close>, \<open>admin/spend_logs.rs\<close>, \<open>admin/spend_tags.rs\<close> and \<open>admin/stats.rs\<close>
  in \<open>crates/godwit-api/src\<close>. A query is a function of the rows of the table. Groups without
  \<open>ORDER BY\<close> come in the order of their first row. The clock arithmetic of \<open>chrono\<close>, the day of
  a time stamp and the two token columns, which no statement of the program writes, are parameters.
\<close>

section \<open>Queries\<close>

text \<open>\<open>($n IS NULL OR ...)\<close>.\<close>

fun unless_null :: "'a option \<Rightarrow> ('a \<Rightarrow> bool) \<Rightarrow> bool" where
  "unless_null None P = True"
| "unless_null (Some x) P = P x"

definition in_period :: "datetime option \<Rightarrow> datetime option \<Rightarrow> request_log \<Rightarrow> bool" where
  "in_period from_t to_t l \<longleftrightarrow>
     unless_null from_t (\<lambda>t. t \<le> lg_created_at l) \<and> unless_null to_t (\<lambda>t. lg_created_at l \<le> t)"

definition in_scope :: "uuid option \<Rightarrow> uuid option \<Rightarrow> uuid option \<Rightarrow> request_log \<Rightarrow> bool" where
  "in_scope oid tid uid l \<longleftrightarrow> unless_null oid (\<lambda>i. lg_organization_id l = i) \<and>
     unless_null tid (\<lambda>i. lg_team_id l = Some i) \<and> unless_null uid (\<lambda>i. lg_user_id l = Some i)"

text \<open>\<open>GROUP BY\<close> with an aggregate.\<close>

definition group_by :: "(request_log \<Rightarrow> 'k) \<Rightarrow> ('k \<Rightarrow> request_log list \<Rightarrow> 'r) \<Rightarrow> request_log list \<Rightarrow> 'r list" where
  "group_by key agg rows = map (\<lambda>k. agg k (filter (\<lambda>l. key l = k) rows)) (rev (remdups (rev (map key rows))))"

abbreviation sum_cost :: "request_log list \<Rightarrow> decimal" where
  "sum_cost \<equiv> logged_cost (\<lambda>_. True)"

definition db_rows :: "fault \<Rightarrow> 'r list \<Rightarrow> (api_error, 'r list) result" where
  "db_rows flt rows = map_err AE_Core (fetch_all flt rows)"

section \<open>The repository\<close>

definition logs_create_with_tags ::
  "stmt \<Rightarrow> uuid \<Rightarrow> datetime \<Rightarrow> uuid \<Rightarrow> uuid \<Rightarrow> uuid \<Rightarrow> uuid option \<Rightarrow> string \<Rightarrow> string \<Rightarrow> string \<Rightarrow> string \<Rightarrow> i32 \<Rightarrow> bool \<Rightarrow>
   string \<Rightarrow> decimal option \<Rightarrow> string list \<Rightarrow> accounts \<Rightarrow> (pasteur_error, request_log) result \<times> accounts" where
  "logs_create_with_tags st new_id now kid uid oid tid m provider pmid cap duration streamed status cost tags ac =
     (let row = \<lparr>lg_id = new_id, lg_api_key_id = Some kid, lg_user_id = Some uid, lg_organization_id = oid,
          lg_team_id = tid, lg_model = m, lg_provider = provider, lg_provider_model_id = pmid, lg_capability = cap,
          lg_duration_ms = duration, lg_streamed = streamed, lg_status = status, lg_cost_usd = map_option (numeric_round 6) cost, lg_tags = tags,
          lg_created_at = now, lg_tool_calls_count = None, lg_agentic_iteration = None\<rparr>
      in returning fetch_one_db (numeric_stmt 12 6 [cost] st) [row] (ac\<lparr>ac_request_logs := ac_request_logs ac @ [row]\<rparr>) ac)"

definition logs_find_by_tag ::
  "fault \<Rightarrow> string \<Rightarrow> datetime option \<Rightarrow> datetime option \<Rightarrow> uuid option \<Rightarrow> accounts \<Rightarrow>
     (pasteur_error, request_log list) result" where
  "logs_find_by_tag flt tag from_t to_t oid ac =
     fetch_all flt (sort_key (\<lambda>l. - lg_created_at l)
       (filter (\<lambda>l. tag \<in> set (lg_tags l) \<and> in_period from_t to_t l \<and> in_scope oid None None l)
          (ac_request_logs ac)))"

text \<open>\<open>SELECT UNNEST(tags) AS tag, COALESCE(SUM(cost_usd), 0) ... GROUP BY tag ORDER BY spend_usd DESC\<close>:
  a row counts once for each of its tags.\<close>

definition tag_totals :: "request_log list \<Rightarrow> (string \<times> decimal) list" where
  "tag_totals rows =
     (let tagged = concat (map (\<lambda>l. map (\<lambda>t. (t, l)) (lg_tags l)) rows);
          tags = rev (remdups (rev (map fst tagged)))
      in sort_key (\<lambda>(_, spend). - spend)
           (map (\<lambda>t. (t, sum_cost (map snd (filter (\<lambda>(u, _). u = t) tagged)))) tags))"

text \<open>Without a tag the statement has four parameters of other types than the five values that are bound:
  the database refuses it, with the message \<open>mismatch\<close>.\<close>

definition aggregate_spend_by_tag ::
  "fault \<Rightarrow> string \<Rightarrow> string option \<Rightarrow> datetime option \<Rightarrow> datetime option \<Rightarrow> uuid option \<Rightarrow> uuid option \<Rightarrow> accounts \<Rightarrow>
     (pasteur_error, (string \<times> decimal) list) result" where
  "aggregate_spend_by_tag flt mismatch tag from_t to_t oid uid ac =
     (case tag of
        None \<Rightarrow> Err (PE_Database (unwrap_or mismatch flt))
      | Some t \<Rightarrow> fetch_all flt (tag_totals (filter (\<lambda>l. t \<in> set (lg_tags l) \<and> in_period from_t to_t l \<and>
          in_scope oid None uid l) (ac_request_logs ac))))"

section \<open>Spend\<close>

record spend_query =
  sq_from :: "datetime option"
  sq_to :: "datetime option"
  sq_days :: "i64 option"
  sq_organization_id :: "uuid option"
  sq_team_id :: "uuid option"
  sq_user_id :: "uuid option"

definition scope_spend_query :: "claims \<Rightarrow> spend_query \<Rightarrow> uuid option \<times> uuid option \<times> uuid option" where
  "scope_spend_query c q =
     (case role_from_str (cl_role c) of
        Some SuperAdmin \<Rightarrow> (sq_organization_id q, sq_team_id q, sq_user_id q)
      | Some OrgAdmin \<Rightarrow> (Some (cl_organization_id c), sq_team_id q, sq_user_id q)
      | _ \<Rightarrow> (Some (cl_organization_id c), None, Some (cl_user_id c)))"

record spend_row =
  sw_organization_id :: uuid
  sw_team_id :: "uuid option"
  sw_user_id :: "uuid option"
  sw_total_cost_usd :: decimal
  sw_request_count :: nat
  sw_tokens_in :: int
  sw_tokens_out :: int

record report_env =
  re_tokens_in :: "request_log \<Rightarrow> int option"
  re_tokens_out :: "request_log \<Rightarrow> int option"
  re_minus_days :: "datetime \<Rightarrow> i64 \<Rightarrow> datetime option"
  re_day :: "datetime \<Rightarrow> int"

definition spend_group :: "request_log \<Rightarrow> uuid \<times> uuid option \<times> uuid option" where
  "spend_group l = (lg_organization_id l, lg_team_id l, lg_user_id l)"

definition fetch_spend_rows ::
  "report_env \<Rightarrow> datetime option \<Rightarrow> datetime option \<Rightarrow> uuid option \<Rightarrow> uuid option \<Rightarrow> uuid option \<Rightarrow> request_log list \<Rightarrow>
     spend_row list" where
  "fetch_spend_rows re from_t to_t oid tid uid logs =
     group_by spend_group (\<lambda>(o', t, u) rows.
       \<lparr>sw_organization_id = o', sw_team_id = t, sw_user_id = u, sw_total_cost_usd = sum_cost rows,
        sw_request_count = length rows, sw_tokens_in = sum_list (List.map_filter (re_tokens_in re) rows),
        sw_tokens_out = sum_list (List.map_filter (re_tokens_out re) rows)\<rparr>)
       (filter (\<lambda>l. in_period from_t to_t l \<and> in_scope oid tid uid l) logs)"

definition fetch_daily_spend_rows ::
  "report_env \<Rightarrow> datetime option \<Rightarrow> datetime option \<Rightarrow> uuid option \<Rightarrow> uuid option \<Rightarrow> uuid option \<Rightarrow> request_log list \<Rightarrow>
     (int \<times> decimal) list" where
  "fetch_daily_spend_rows re from_t to_t oid tid uid logs =
     sort_key fst (group_by (\<lambda>l. re_day re (lg_created_at l)) (\<lambda>d rows. (d, sum_cost rows))
       (filter (\<lambda>l. in_period from_t to_t l \<and> in_scope oid tid uid l) logs))"

datatype spend_reply = SpendRows "spend_row list" | SpendDays "(int \<times> decimal) list"

text \<open>\<open>None\<close> is a panic of the clock arithmetic.\<close>

definition spend_from :: "report_env \<Rightarrow> datetime \<Rightarrow> spend_query \<Rightarrow> datetime option option" where
  "spend_from re now q =
     (case (sq_from q, sq_days q) of
        (Some t, _) \<Rightarrow> Some (Some t)
      | (None, Some d) \<Rightarrow> map_option Some (re_minus_days re now d)
      | (None, None) \<Rightarrow> Some None)"

definition get_spend ::
  "report_env \<Rightarrow> fault \<Rightarrow> datetime \<Rightarrow> claims \<Rightarrow> spend_query \<Rightarrow> request_log list \<Rightarrow>
     (api_error, spend_reply) result option" where
  "get_spend re flt now c q logs =
     (case role_from_str (cl_role c) of
        None \<Rightarrow> Some (Err AE_Forbidden)
      | Some _ \<Rightarrow>
          (case spend_from re now q of
             None \<Rightarrow> None
           | Some from_t \<Rightarrow>
               (case scope_spend_query c q of (oid, tid, uid) \<Rightarrow>
                  Some (if sq_days q \<noteq> None
                    then bind_result (db_rows flt (fetch_daily_spend_rows re from_t (sq_to q) oid tid uid logs))
                           (\<lambda>rows. Ok (SpendDays rows))
                    else bind_result (db_rows flt (fetch_spend_rows re from_t (sq_to q) oid tid uid logs))
                           (\<lambda>rows. Ok (SpendRows rows))))))"

section \<open>Spend by tag\<close>

record spend_tags_query =
  st_from :: "datetime option"
  st_to :: "datetime option"
  st_organization_id :: "uuid option"
  st_tag :: "string option"

definition scope_spend_tags_query :: "claims \<Rightarrow> spend_tags_query \<Rightarrow> uuid option \<times> uuid option" where
  "scope_spend_tags_query c q =
     (case role_from_str (cl_role c) of
        Some SuperAdmin \<Rightarrow> (st_organization_id q, None)
      | Some OrgAdmin \<Rightarrow> (Some (cl_organization_id c), None)
      | _ \<Rightarrow> (Some (cl_organization_id c), Some (cl_user_id c)))"

definition fetch_team_spend ::
  "datetime option \<Rightarrow> datetime option \<Rightarrow> uuid option \<Rightarrow> uuid option \<Rightarrow> request_log list \<Rightarrow> (uuid option \<times> decimal) list" where
  "fetch_team_spend from_t to_t oid uid logs =
     sort_key (\<lambda>(_, spend). - spend) (group_by lg_team_id (\<lambda>t rows. (t, sum_cost rows))
       (filter (\<lambda>l. in_period from_t to_t l \<and> in_scope oid None uid l) logs))"

definition fetch_api_key_spend ::
  "datetime option \<Rightarrow> datetime option \<Rightarrow> uuid option \<Rightarrow> uuid option \<Rightarrow> request_log list \<Rightarrow> (uuid option \<times> decimal) list" where
  "fetch_api_key_spend from_t to_t oid uid logs =
     sort_key (\<lambda>(_, spend). - spend) (group_by lg_api_key_id (\<lambda>k rows. (k, sum_cost rows))
       (filter (\<lambda>l. in_period from_t to_t l \<and> in_scope oid None uid l) logs))"

definition fetch_custom_tag_spend ::
  "string option \<Rightarrow> datetime option \<Rightarrow> datetime option \<Rightarrow> uuid option \<Rightarrow> uuid option \<Rightarrow> request_log list \<Rightarrow>
     (string \<times> decimal) list" where
  "fetch_custom_tag_spend tag from_t to_t oid uid logs =
     tag_totals (filter (\<lambda>l. (case tag of Some t \<Rightarrow> t \<in> set (lg_tags l) | None \<Rightarrow> lg_tags l \<noteq> []) \<and>
       in_period from_t to_t l \<and> in_scope oid None uid l) logs)"

record spend_tags_response =
  sp_by_team :: "(uuid option \<times> decimal) list"
  sp_by_api_key :: "(uuid option \<times> decimal) list"
  sp_by_custom_tag :: "(string \<times> decimal) list"

definition get_spend_tags ::
  "fault \<Rightarrow> fault \<Rightarrow> fault \<Rightarrow> claims \<Rightarrow> spend_tags_query \<Rightarrow> request_log list \<Rightarrow> (api_error, spend_tags_response) result" where
  "get_spend_tags flt1 flt2 flt3 c q logs =
     bind_result (ok_or AE_Forbidden (role_from_str (cl_role c))) (\<lambda>_.
     case scope_spend_tags_query c q of (oid, uid) \<Rightarrow>
     bind_result (db_rows flt1 (fetch_team_spend (st_from q) (st_to q) oid uid logs)) (\<lambda>by_team.
     bind_result (db_rows flt2 (fetch_api_key_spend (st_from q) (st_to q) oid uid logs)) (\<lambda>by_api_key.
     bind_result (db_rows flt3 (fetch_custom_tag_spend (st_tag q) (st_from q) (st_to q) oid uid logs)) (\<lambda>by_custom_tag.
     Ok \<lparr>sp_by_team = by_team, sp_by_api_key = by_api_key, sp_by_custom_tag = by_custom_tag\<rparr>))))"

section \<open>The log itself\<close>

record spend_logs_query =
  sl_api_key_id :: "uuid option"
  sl_model :: "string option"
  sl_from :: "datetime option"
  sl_to :: "datetime option"
  sl_limit :: "i64 option"
  sl_offset :: "i64 option"

text \<open>\<open>LIMIT\<close> and \<open>OFFSET\<close> must not be negative; \<open>negative\<close> is the database's message.\<close>

definition fetch_spend_logs ::
  "fault \<Rightarrow> string \<Rightarrow> uuid option \<Rightarrow> string option \<Rightarrow> datetime option \<Rightarrow> datetime option \<Rightarrow> i64 \<Rightarrow> i64 \<Rightarrow> request_log list \<Rightarrow>
     (api_error, request_log list) result" where
  "fetch_spend_logs flt negative kid m from_t to_t limit offset logs =
     (if flt = None \<and> (sint limit < 0 \<or> sint offset < 0) then Err (AE_Core (PE_Database negative))
      else db_rows flt (take (nat (sint limit)) (drop (nat (sint offset)) (sort_key (\<lambda>l. - lg_created_at l)
        (filter (\<lambda>l. unless_null kid (\<lambda>k. lg_api_key_id l = Some k) \<and> unless_null m (\<lambda>x. lg_model l = x) \<and>
           in_period from_t to_t l) logs)))))"

definition get_spend_logs ::
  "fault \<Rightarrow> string \<Rightarrow> claims \<Rightarrow> spend_logs_query \<Rightarrow> request_log list \<Rightarrow>
     (api_error, request_log list \<times> i64 \<times> i64) result" where
  "get_spend_logs flt negative c q logs =
     bind_result (ok_or AE_Forbidden (role_from_str (cl_role c))) (\<lambda>role.
     let kid = (if role = SuperAdmin then sl_api_key_id q else None);
         limit = (let l = unwrap_or 50 (sl_limit q) in if sint l \<le> 100 then l else 100);
         offset = unwrap_or 0 (sl_offset q)
     in bind_result (fetch_spend_logs flt negative kid (sl_model q) (sl_from q) (sl_to q) limit offset logs)
          (\<lambda>rows. Ok (rows, limit, offset)))"

section \<open>The dashboard\<close>

definition require_dashboard_access :: "claims \<Rightarrow> (api_error, user_role) result" where
  "require_dashboard_access c =
     bind_result (ok_or AE_Forbidden (role_from_str (cl_role c))) (\<lambda>role.
     if role \<noteq> SuperAdmin \<and> role \<noteq> OrgAdmin then Err AE_Forbidden else Ok role)"

definition org_scope :: "claims \<Rightarrow> user_role \<Rightarrow> uuid option \<Rightarrow> uuid option" where
  "org_scope c role asked = (if role = SuperAdmin then asked else Some (cl_organization_id c))"

record dashboard_faults =
  df_orgs :: fault
  df_teams :: fault
  df_users :: fault
  df_keys :: fault

definition core_rows :: "(pasteur_error, 'a) result \<Rightarrow> ('a \<Rightarrow> (api_error, 'b) result) \<Rightarrow> (api_error, 'b) result" where
  "core_rows r f = bind_result (map_err AE_Core r) f"

definition scoped_rows ::
  "dashboard_faults \<Rightarrow> uuid option \<Rightarrow> accounts \<Rightarrow> (organization list \<Rightarrow> team list \<Rightarrow> user list \<Rightarrow> api_key list \<Rightarrow> 'b) \<Rightarrow>
     (api_error, 'b) result" where
  "scoped_rows df scope ac f =
     (case scope of
        None \<Rightarrow>
          core_rows (orgs_list (df_orgs df) ac) (\<lambda>orgs.
          core_rows (teams_list_all (df_teams df) ac) (\<lambda>teams.
          core_rows (users_list_all (df_users df) ac) (\<lambda>users.
          core_rows (keys_list_all (df_keys df) (ac_api_keys ac)) (\<lambda>keys. Ok (f orgs teams users keys)))))
      | Some oid \<Rightarrow>
          (let orgs = (case orgs_get_by_id (df_orgs df) oid ac of Inr org \<Rightarrow> [org] | Inl _ \<Rightarrow> [])
           in core_rows (teams_list_for_organization (df_teams df) oid ac) (\<lambda>teams.
              core_rows (users_list_for_organization (df_users df) oid ac) (\<lambda>users.
              core_rows (keys_list_for_organization (df_keys df) oid (ac_api_keys ac)) (\<lambda>keys.
              Ok (f orgs teams users keys))))))"

text \<open>\<open>get_stats\<close> counts one organization in a scope, whether or not it is there.\<close>

definition get_stats ::
  "dashboard_faults \<Rightarrow> claims \<Rightarrow> uuid option \<Rightarrow> accounts \<Rightarrow> (api_error, nat \<times> nat \<times> nat \<times> nat) result" where
  "get_stats df c organization_id ac =
     bind_result (require_dashboard_access c) (\<lambda>role.
     let scope = org_scope c role organization_id
     in scoped_rows df scope ac (\<lambda>orgs teams users keys.
          (if scope = None then length orgs else 1, length teams, length users, length keys)))"

record activity_item =
  av_id :: uuid
  av_kind :: string
  av_name :: string
  av_created_at :: datetime

definition activity_items :: "organization list \<Rightarrow> team list \<Rightarrow> user list \<Rightarrow> api_key list \<Rightarrow> activity_item list" where
  "activity_items orgs teams users keys =
     map (\<lambda>x. \<lparr>av_id = og_id x, av_kind = ''organization'', av_name = og_name x, av_created_at = og_created_at x\<rparr>) orgs @
     map (\<lambda>x. \<lparr>av_id = tm_id x, av_kind = ''team'', av_name = tm_name x, av_created_at = tm_created_at x\<rparr>) teams @
     map (\<lambda>x. \<lparr>av_id = usr_id x, av_kind = ''user'', av_name = usr_email x, av_created_at = usr_created_at x\<rparr>) users @
     map (\<lambda>x. \<lparr>av_id = ak_id x, av_kind = ''api_key'', av_name = ak_name x, av_created_at = ak_created_at x\<rparr>) keys"

definition activity_limit :: "i64 option \<Rightarrow> nat" where
  "activity_limit limit = nat (min 50 (max 1 (sint (unwrap_or 5 limit))))"

definition get_recent_activity ::
  "dashboard_faults \<Rightarrow> claims \<Rightarrow> i64 option \<Rightarrow> uuid option \<Rightarrow> accounts \<Rightarrow> (api_error, activity_item list) result" where
  "get_recent_activity df c limit organization_id ac =
     bind_result (require_dashboard_access c) (\<lambda>role.
     scoped_rows df (org_scope c role organization_id) ac (\<lambda>orgs teams users keys.
       take (activity_limit limit) (sort_key (\<lambda>x. - av_created_at x) (activity_items orgs teams users keys))))"

section \<open>No cost is lost or counted twice\<close>

lemma sum_cost_Cons: "sum_cost (l # rows) = unwrap_or 0 (lg_cost_usd l) + sum_cost rows"
  by (cases "lg_cost_usd l") (simp_all add: logged_cost_def map_filter_simps)

lemma sum_list_if_none: "k \<notin> set ks \<Longrightarrow> sum_list (map (\<lambda>j. if k = j then c else (0 :: rat)) ks) = 0"
  by (induction ks) auto

lemma sum_list_if_distinct:
  "distinct ks \<Longrightarrow> k \<in> set ks \<Longrightarrow> sum_list (map (\<lambda>j. if k = j then c else (0 :: rat)) ks) = c"
  by (induction ks) (auto simp: sum_list_if_none)

lemma sum_cost_groups:
  assumes "distinct ks" "key ` set rows \<subseteq> set ks"
  shows "(\<Sum>k\<leftarrow>ks. sum_cost (filter (\<lambda>l. key l = k) rows)) = sum_cost rows"
  using assms(2)
proof (induction rows)
  case Nil
  show ?case by (induction ks) (simp_all add: logged_cost_def map_filter_simps)
next
  case (Cons l rows)
  have "(\<Sum>k\<leftarrow>ks. sum_cost (filter (\<lambda>m. key m = k) (l # rows))) =
      (\<Sum>k\<leftarrow>ks. (if key l = k then unwrap_or 0 (lg_cost_usd l) else 0) + sum_cost (filter (\<lambda>m. key m = k) rows))"
    by (intro arg_cong [where f = sum_list] map_cong refl) (simp add: sum_cost_Cons)
  then show ?case
    using Cons sum_list_if_distinct [OF assms(1), of "key l"] by (simp add: sum_list_addf sum_cost_Cons)
qed

lemma group_by_total:
  assumes "\<And>k rows. cost (agg k rows) = sum_cost rows"
  shows "(\<Sum>r\<leftarrow>group_by key agg rows. cost r) = sum_cost rows"
  using sum_cost_groups [of "rev (remdups (rev (map key rows)))" key rows]
  by (simp add: group_by_def o_def assms rev_map)


section \<open>Who sees what\<close>

text \<open>The rows a caller without super-administrator rights may learn about.\<close>

definition visible :: "claims \<Rightarrow> request_log \<Rightarrow> bool" where
  "visible c l \<longleftrightarrow> lg_organization_id l = cl_organization_id c \<and>
     (role_from_str (cl_role c) = Some OrgAdmin \<or> lg_user_id l = Some (cl_user_id c))"

lemma scoped_visible:
  assumes "role_from_str (cl_role c) \<noteq> Some SuperAdmin" "scope_spend_query c q = (oid, tid, uid)" "in_scope oid tid uid l"
  shows "visible c l"
  using assms
  by (auto simp: scope_spend_query_def in_scope_def visible_def split: option.splits user_role.splits)

text \<open>
  C10. The spend report of a caller who is no super-administrator depends only on the requests of its own
  organization, and for everybody below an organization administrator only on its own requests, whatever
  filters it asks for.
\<close>

theorem spend_isolated:
  assumes "role_from_str (cl_role c) \<noteq> Some SuperAdmin"
  shows "get_spend re flt now c q logs = get_spend re flt now c q (filter (visible c) logs)"
proof -
  obtain oid tid uid where sc: "scope_spend_query c q = (oid, tid, uid)" by (rule prod_cases3)
  have "filter (\<lambda>l. in_period from_t (sq_to q) l \<and> in_scope oid tid uid l) (filter (visible c) logs) =
      filter (\<lambda>l. in_period from_t (sq_to q) l \<and> in_scope oid tid uid l) logs" for from_t
    using scoped_visible [OF assms sc] by (auto intro: filter_cong)
  then show ?thesis
    by (simp only: get_spend_def sc fetch_spend_rows_def fetch_daily_spend_rows_def prod.case)
qed

definition sample_log :: "uuid \<Rightarrow> uuid \<Rightarrow> request_log" where
  "sample_log i oid = \<lparr>lg_id = i, lg_api_key_id = None, lg_user_id = Some 5, lg_organization_id = oid, lg_team_id = None,
     lg_model = ''m'', lg_provider = ''p'', lg_provider_model_id = ''m'', lg_capability = ''chat'', lg_duration_ms = 1,
     lg_streamed = False, lg_status = ''success'', lg_cost_usd = Some 1, lg_tags = [], lg_created_at = 0,
     lg_tool_calls_count = None, lg_agentic_iteration = None\<rparr>"

definition sample_caller :: "string \<Rightarrow> claims" where
  "sample_caller role = \<lparr>cl_sub = ''u'', cl_user_id = 5, cl_organization_id = 1, cl_role = role, cl_exp = 0, cl_iat = 0\<rparr>"

definition all_spend :: spend_query where
  "all_spend = \<lparr>sq_from = None, sq_to = None, sq_days = None, sq_organization_id = None, sq_team_id = None, sq_user_id = None\<rparr>"

definition sample_report :: report_env where
  "sample_report = \<lparr>re_tokens_in = (\<lambda>_. None), re_tokens_out = (\<lambda>_. None), re_minus_days = (\<lambda>_ _. None), re_day = id\<rparr>"

theorem spend_isolated_witness:
  "get_spend sample_report None 0 (sample_caller ''user'') all_spend [sample_log 1 1, sample_log 2 2] =
   get_spend sample_report None 0 (sample_caller ''user'') all_spend [sample_log 1 1]"
  using spend_isolated [of "sample_caller ''user''" sample_report None 0 all_spend "[sample_log 1 1, sample_log 2 2]"]
  by (simp add: sample_caller_def role_from_str_def visible_def sample_log_def)

text \<open>
  The request log is not protected: whatever its role, a caller that is no super-administrator gets the
  rows a super-administrator gets without a filter by key, of every organization. (The comment above the code
  says that such callers see only their own logs.)
\<close>

lemma spend_logs_unscoped:
  assumes "role_from_str (cl_role c) = Some role" "role \<noteq> SuperAdmin"
  shows "get_spend_logs flt negative c q logs =
    get_spend_logs flt negative (c\<lparr>cl_role := ''super_admin''\<rparr>) (q\<lparr>sl_api_key_id := None\<rparr>) logs"
  using assms by (simp add: get_spend_logs_def role_from_str_def Let_def)

theorem spend_logs_unscoped_witness:
  "get_spend_logs None [] (sample_caller ''user'')
     \<lparr>sl_api_key_id = None, sl_model = None, sl_from = None, sl_to = None, sl_limit = None, sl_offset = None\<rparr>
     [sample_log 1 1, sample_log 2 2] = Ok ([sample_log 1 1, sample_log 2 2], 50, 0)"
  using spend_logs_unscoped [of "sample_caller ''user''" PlainUser None "[]"
      "\<lparr>sl_api_key_id = None, sl_model = None, sl_from = None, sl_to = None, sl_limit = None, sl_offset = None\<rparr>"
      "[sample_log 1 1, sample_log 2 2]"]
  by (simp add: sample_caller_def role_from_str_def get_spend_logs_def fetch_spend_logs_def db_rows_def fetch_all_def
      in_period_def sample_log_def Let_def)

text \<open>Recent activity: at most fifty items, the newest first.\<close>

lemma recent_activity_bounded:
  assumes "get_recent_activity df c limit oid ac = Ok items"
  shows "length items \<le> 50 \<and> sorted (map (\<lambda>x. - av_created_at x) items)"
proof -
  obtain xs where "items = take (activity_limit limit) (sort_key (\<lambda>x. - av_created_at x) xs)"
    using assms
    by (auto simp: get_recent_activity_def scoped_rows_def core_rows_def bind_result_ok_iff Let_def split: option.splits)
  then show ?thesis
    by (auto simp: activity_limit_def min_def simp flip: take_map intro: sorted_wrt_take)
qed

end
