(* ===== verification/Gateway_Routes.thy ===== *)
theory Gateway_Routes
  imports Gateway_Auth
begin

text \<open>
  Which handler answers at which address, and behind which middleware: \<open>build_app\<close> of
  \<open>crates/godwit-api/src/app.rs\<close> and the \<open>router\<close> function of every module it puts together. A router
  is the list of its routes; \<open>merge\<close> appends, \<open>route_layer\<close> puts a middleware in front of the routes there
  are, \<open>nest\<close> puts a prefix before their paths. Then the way of a request through the middleware to
  the handler, composed of the middleware of \<open>Gateway_Auth\<close>. Matching a path against the patterns is the
  routing library's.
\<close>

section \<open>Routers\<close>

datatype layer = ApiKeyAuth | JwtAuth | CookieCsrf | ModelScope

text \<open>A handler, by the request extension its signature extracts.\<close>

datatype handler = Plain string | WithKey string | WithClaims string

record route =
  rt_path :: string
  rt_method :: http_method
  rt_handler :: handler
  rt_layers :: "layer list"

definition routes :: "(string \<times> (http_method \<times> handler) list) list \<Rightarrow> route list" where
  "routes rs = concat (map (\<lambda>(path, ms). map (\<lambda>(m, h).
     \<lparr>rt_path = path, rt_method = m, rt_handler = h, rt_layers = []\<rparr>) ms) rs)"

definition route_layer :: "layer \<Rightarrow> route list \<Rightarrow> route list" where
  "route_layer l = map (rt_layers_update (\<lambda>ls. l # ls))"

definition nest_routes :: "string \<Rightarrow> route list \<Rightarrow> route list" where
  "nest_routes prefix = map (rt_path_update (\<lambda>p. prefix @ p))"

section \<open>The routers of the modules\<close>

definition health_router :: "route list" where
  "health_router = routes
     [(''/health'', [(GET, Plain ''health_check'')]), (''/health/ready'', [(GET, Plain ''health_ready'')])]"

definition metrics_router :: "route list" where
  "metrics_router = routes [(''/metrics'', [(GET, Plain ''metrics_handler'')])]"

definition utils_router :: "route list" where
  "utils_router = routes
     [(''/v1/utils/token_counter'', [(POST, Plain ''token_counter'')]),
      (''/v1/utils/model_info/:model_id'', [(GET, Plain ''model_info'')]),
      (''/v1/utils/health'', [(GET, Plain ''health'')])]"

definition model_info_router :: "route list" where
  "model_info_router = routes [(''/v1/model/info'', [(GET, WithClaims ''get_model_info'')])]"

definition proxy_router :: "route list" where
  "proxy_router =
     route_layer ModelScope (routes [(''/v1/chat/completions'', [(POST, WithKey ''chat_completions'')])]) @
     model_info_router @
     route_layer ModelScope (routes
       [(''/v1/batches'', [(POST, WithKey ''create_batch''), (GET, WithKey ''list_batches''),
          (DELETE, WithKey ''delete_batch'')]),
        (''/v1/batches/:id'', [(GET, WithKey ''get_batch'')]),
        (''/v1/batches/:id/cancel'', [(POST, WithKey ''cancel_batch'')]),
        (''/v1/batches/:id/results'', [(GET, WithKey ''get_batch_results'')])]) @
     routes
       [(''/v1/models'', [(GET, WithKey ''list_models'')]),
        (''/v1/embeddings'', [(POST, WithKey ''embeddings'')]),
        (''/v1/images/generations'', [(POST, WithKey ''image_generations'')]),
        (''/v1/audio/speech'', [(POST, WithKey ''audio_speech'')]),
        (''/v1/audio/transcriptions'', [(POST, WithKey ''audio_transcriptions'')]),
        (''/v1/images/edits'', [(POST, WithKey ''image_edits'')])]"

definition anthropic_router :: "route list" where
  "anthropic_router = route_layer ModelScope (routes [(''/v1/messages'', [(POST, WithKey ''messages'')])])"

definition moderation_router :: "route list" where
  "moderation_router = route_layer ModelScope (routes [(''/v1/moderations'', [(POST, WithKey ''moderations'')])])"

definition rerank_router :: "route list" where
  "rerank_router = route_layer ModelScope (routes [(''/v1/rerank'', [(POST, WithKey ''rerank'')])])"

definition api_keys_router :: "route list" where
  "api_keys_router = routes
     [(''/api-keys'', [(GET, WithClaims ''list_api_keys''), (POST, WithClaims ''create_api_key'')]),
      (''/api-keys/:id'', [(GET, WithClaims ''get_api_key''), (DELETE, WithClaims ''delete_api_key'')]),
      (''/api-keys/:id/block'', [(POST, WithClaims ''block_key'')]),
      (''/api-keys/:id/unblock'', [(POST, WithClaims ''unblock_key'')]),
      (''/api-keys/:id/regenerate'', [(POST, WithClaims ''regenerate_key'')]),
      (''/api-keys/:id/reset_spend'', [(POST, WithClaims ''reset_spend'')])]"

definition end_users_router :: "route list" where
  "end_users_router = routes
     [(''/end-users'', [(GET, WithClaims ''list_end_users''), (POST, WithClaims ''create_end_user'')]),
      (''/end-users/:user_id'', [(GET, WithClaims ''get_end_user''), (PATCH, WithClaims ''update_end_user''),
         (DELETE, WithClaims ''delete_end_user'')])]"

definition models_router :: "route list" where
  "models_router = routes
     [(''/models'', [(GET, WithClaims ''list_models''), (POST, WithClaims ''create_model'')]),
      (''/models/:id'', [(GET, WithClaims ''get_model''), (PATCH, WithClaims ''update_model''),
         (DELETE, WithClaims ''delete_model'')])]"

definition provider_profiles_router :: "route list" where
  "provider_profiles_router = routes
     [(''/provider-profiles'', [(GET, WithClaims ''list_profiles''), (POST, WithClaims ''create_profile'')]),
      (''/provider-profiles/:id'', [(PATCH, WithClaims ''update_profile'')])]"

definition organizations_router :: "route list" where
  "organizations_router = routes
     [(''/organizations'', [(GET, WithClaims ''list_organizations''), (POST, WithClaims ''create_organization'')]),
      (''/organizations/:id'', [(GET, WithClaims ''get_organization''), (PATCH, WithClaims ''update_organization''),
         (DELETE, WithClaims ''delete_organization'')])]"

definition teams_router :: "route list" where
  "teams_router = routes
     [(''/teams'', [(GET, WithClaims ''list_teams''), (POST, WithClaims ''create_team'')]),
      (''/teams/:id'', [(GET, WithClaims ''get_team''), (PATCH, WithClaims ''update_team''),
         (DELETE, WithClaims ''delete_team'')]),
      (''/teams/:id/members'', [(POST, WithClaims ''add_member'')]),
      (''/teams/:id/members/:user_id'', [(DELETE, WithClaims ''remove_member'')])]"

definition users_router :: "route list" where
  "users_router = routes
     [(''/users'', [(GET, WithClaims ''list_users''), (POST, WithClaims ''create_user'')]),
      (''/users/:id'', [(GET, WithClaims ''get_user''), (PATCH, WithClaims ''update_user''),
         (DELETE, WithClaims ''delete_user'')])]"

definition spend_router :: "route list" where
  "spend_router = routes [(''/spend'', [(GET, WithClaims ''get_spend'')])]"

definition spend_logs_router :: "route list" where
  "spend_logs_router = routes [(''/spend/logs'', [(GET, WithClaims ''get_spend_logs'')])]"

definition spend_tags_router :: "route list" where
  "spend_tags_router = routes [(''/spend/tags'', [(GET, WithClaims ''get_spend_tags'')])]"

definition stats_router :: "route list" where
  "stats_router = routes
     [(''/admin/stats'', [(GET, WithClaims ''get_stats'')]),
      (''/admin/recent-activity'', [(GET, WithClaims ''get_recent_activity'')])]"

definition circuit_breakers_router :: "route list" where
  "circuit_breakers_router = routes [(''/circuit-breakers'', [(GET, Plain ''list_circuit_breakers'')])]"

definition model_aliases_router :: "route list" where
  "model_aliases_router = routes
     [(''/model-aliases'', [(GET, WithClaims ''list_aliases''), (POST, WithClaims ''create_alias'')]),
      (''/model-aliases/:id'', [(DELETE, WithClaims ''delete_alias'')])]"

definition metrics_ws_router :: "route list" where
  "metrics_ws_router = routes [(''/ws/metrics'', [(GET, Plain ''ws_handler'')])]"

definition auth_router :: "route list" where
  "auth_router =
     route_layer CookieCsrf (routes
       [(''/auth/refresh'', [(POST, Plain ''refresh'')]), (''/auth/logout'', [(POST, Plain ''logout'')])]) @
     routes
       [(''/auth/login'', [(POST, Plain ''login'')]),
        (''/auth/oidc/:provider'', [(GET, Plain ''oidc_start'')]),
        (''/auth/oidc/:provider/callback'', [(GET, Plain ''oidc_callback'')]),
        (''/auth/saml/:provider/acs'', [(POST, Plain ''saml_acs'')]),
        (''/auth/forgot-password'', [(POST, Plain ''forgot_password'')]),
        (''/auth/reset-password'', [(POST, Plain ''reset_password'')])] @
     route_layer JwtAuth (routes
       [(''/auth/change-password'', [(POST, WithClaims ''change_password'')]),
        (''/auth/change-required'', [(POST, WithClaims ''change_required'')]),
        (''/auth/admin/reset-password'', [(POST, WithClaims ''admin_reset_password'')])])"

definition admin_router :: "route list" where
  "admin_router =
     auth_router @
     route_layer JwtAuth
       (api_keys_router @ end_users_router @ models_router @ provider_profiles_router @ organizations_router @
        teams_router @ users_router @ spend_router @ spend_logs_router @ spend_tags_router @ stats_router @
        circuit_breakers_router @ model_aliases_router @ metrics_ws_router @
        routes
          [(''/auth/me'', [(GET, WithClaims ''me'')]),
           (''/auth/sessions/revoke-all'', [(POST, WithClaims ''revoke_all_sessions'')])])"

definition build_app :: "route list" where
  "build_app =
     health_router @ metrics_router @ utils_router @
     route_layer ApiKeyAuth (proxy_router @ anthropic_router @ moderation_router @ rerank_router) @
     nest_routes ''/api/v1'' admin_router"

text \<open>\<open>batch::router\<close>, which \<open>build_app\<close> does not merge.\<close>

definition batch_router :: "route list" where
  "batch_router = route_layer ModelScope (routes
     [(''/v1/batches'', [(POST, WithKey ''create_batch''), (GET, WithKey ''list_batches'')]),
      (''/v1/batches/:id'', [(GET, WithKey ''get_batch'')]),
      (''/v1/batches/:id/cancel'', [(POST, WithKey ''cancel_batch'')])])"

lemmas router_defs = build_app_def health_router_def metrics_router_def utils_router_def proxy_router_def
  model_info_router_def anthropic_router_def moderation_router_def rerank_router_def admin_router_def auth_router_def
  api_keys_router_def end_users_router_def models_router_def provider_profiles_router_def organizations_router_def
  teams_router_def users_router_def spend_router_def spend_logs_router_def spend_tags_router_def stats_router_def
  circuit_breakers_router_def model_aliases_router_def metrics_ws_router_def routes_def route_layer_def nest_routes_def

section \<open>A request on its way to the handler\<close>

record extensions =
  ex_key :: "api_key option"
  ex_claims :: "claims option"

text \<open>
  What the middleware sees of the gateway: the check of a key against a stored hash, the clock and the
  table of keys, the decoder of session tokens with its secret, and the allowed origin. \<open>sv_missing\<close> is the
  status of a request whose extractor does not find its extension.
\<close>

record server =
  sv_verify :: "string \<Rightarrow> string \<Rightarrow> bool"
  sv_now0 :: datetime
  sv_now :: datetime
  sv_fault :: fault
  sv_keys :: "api_key list"
  sv_decode :: "string \<Rightarrow> string \<Rightarrow> (string, claims) result"
  sv_secret :: string
  sv_origin :: string
  sv_missing :: nat
  sv_debug :: "string list \<Rightarrow> string"

type_synonym key_cache = "(string, api_key) memory_cache"

fun map_outcome :: "('a \<Rightarrow> 'b) \<Rightarrow> 'a auth_outcome \<Rightarrow> 'b auth_outcome" where
  "map_outcome f (Authenticated x) = Authenticated (f x)"
| "map_outcome f (Rejected n) = Rejected n"
| "map_outcome f Panicked = Panicked"

fun run_layer ::
  "server \<Rightarrow> request_head \<Rightarrow> (string, json option) result \<Rightarrow> layer \<Rightarrow> extensions \<Rightarrow> key_cache \<Rightarrow>
     extensions auth_outcome \<times> key_cache" where
  "run_layer sv rq body ApiKeyAuth ext cache =
     (case api_key_auth (sv_verify sv) (sv_now0 sv) (sv_now sv) (sv_fault sv) (sv_keys sv) rq cache of
        (out, cache') \<Rightarrow> (map_outcome (\<lambda>key. ext\<lparr>ex_key := Some key\<rparr>) out, cache'))"
| "run_layer sv rq body JwtAuth ext cache =
     (map_outcome (\<lambda>c. ext\<lparr>ex_claims := Some c\<rparr>) (jwt_auth (sv_decode sv) (sv_secret sv) (sv_origin sv) rq), cache)"
| "run_layer sv rq body CookieCsrf ext cache = (map_outcome (\<lambda>_. ext) (cookie_csrf (sv_origin sv) rq), cache)"
| "run_layer sv rq body ModelScope ext cache =
     (case ex_key ext of
        None \<Rightarrow> (Rejected (sv_missing sv), cache)
      | Some key \<Rightarrow>
          (case model_scope key body of
             Inl e \<Rightarrow> (Rejected (he_status (into_response (sv_debug sv) e)), cache)
           | Inr _ \<Rightarrow> (Authenticated ext, cache)))"

fun run_layers ::
  "server \<Rightarrow> request_head \<Rightarrow> (string, json option) result \<Rightarrow> layer list \<Rightarrow> extensions \<Rightarrow> key_cache \<Rightarrow>
     extensions auth_outcome \<times> key_cache" where
  "run_layers sv rq body [] ext cache = (Authenticated ext, cache)"
| "run_layers sv rq body (l # ls) ext cache =
     (case run_layer sv rq body l ext cache of
        (Authenticated ext', cache') \<Rightarrow> run_layers sv rq body ls ext' cache'
      | out \<Rightarrow> out)"

fun extracts :: "handler \<Rightarrow> extensions \<Rightarrow> bool" where
  "extracts (Plain _) ext = True"
| "extracts (WithKey _) ext = (ex_key ext \<noteq> None)"
| "extracts (WithClaims _) ext = (ex_claims ext \<noteq> None)"

text \<open>Up to the call of the handler: the extensions it is called with.\<close>

definition dispatch ::
  "server \<Rightarrow> request_head \<Rightarrow> (string, json option) result \<Rightarrow> route \<Rightarrow> key_cache \<Rightarrow>
     extensions auth_outcome \<times> key_cache" where
  "dispatch sv rq body r cache =
     (case run_layers sv rq body (rt_layers r) \<lparr>ex_key = None, ex_claims = None\<rparr> cache of
        (Authenticated ext, cache') \<Rightarrow>
          (if extracts (rt_handler r) ext then Authenticated ext else Rejected (sv_missing sv), cache')
      | out \<Rightarrow> out)"

section \<open>The endpoints without authentication\<close>

definition open_endpoints :: "(http_method \<times> string) list" where
  "open_endpoints =
     [(GET, ''/health''), (GET, ''/health/ready''), (GET, ''/metrics''), (POST, ''/v1/utils/token_counter''),
      (GET, ''/v1/utils/model_info/:model_id''), (GET, ''/v1/utils/health''), (POST, ''/api/v1/auth/refresh''),
      (POST, ''/api/v1/auth/logout''), (POST, ''/api/v1/auth/login''), (GET, ''/api/v1/auth/oidc/:provider''),
      (GET, ''/api/v1/auth/oidc/:provider/callback''), (POST, ''/api/v1/auth/saml/:provider/acs''),
      (POST, ''/api/v1/auth/forgot-password''), (POST, ''/api/v1/auth/reset-password'')]"

definition unscoped_paths :: "string list" where
  "unscoped_paths =
     [''/v1/models'', ''/v1/embeddings'', ''/v1/images/generations'', ''/v1/audio/speech'', ''/v1/audio/transcriptions'',
      ''/v1/images/edits'']"

text \<open>What the table looks like, one route at a time.\<close>

definition route_ok :: "route \<Rightarrow> bool" where
  "route_ok r \<longleftrightarrow>
     (if (rt_method r, rt_path r) \<in> set open_endpoints
      then (rt_layers r = [] \<or> rt_layers r = [CookieCsrf]) \<and> (\<exists>h. rt_handler r = Plain h)
      else if rt_path r = ''/v1/model/info'' then rt_layers r = [ApiKeyAuth] \<and> (\<exists>h. rt_handler r = WithClaims h)
      else if rt_path r \<in> set unscoped_paths then rt_layers r = [ApiKeyAuth] \<and> (\<exists>h. rt_handler r = WithKey h)
      else rt_layers r = [ApiKeyAuth, ModelScope] \<and> (\<exists>h. rt_handler r = WithKey h) \<or>
        rt_layers r = [JwtAuth] \<and> (\<forall>h. rt_handler r \<noteq> WithKey h))"

lemma route_ok_build_app: "list_all route_ok build_app"
  by (simp add: router_defs route_ok_def open_endpoints_def unscoped_paths_def)

lemma route_ok_in: "r \<in> set build_app \<Longrightarrow> route_ok r"
  using route_ok_build_app by (simp add: list_all_iff)

lemma routes_distinct: "distinct (map (\<lambda>r. (rt_path r, rt_method r)) build_app)"
  by (simp add: router_defs)


lemma map_outcome_iff: "map_outcome f out = Authenticated y \<longleftrightarrow> (\<exists>x. out = Authenticated x \<and> y = f x)"
  by (cases out) auto

lemma run_api_key_auth:
  "run_layer sv rq body ApiKeyAuth ext cache = (Authenticated ext', cache') \<longleftrightarrow>
   (\<exists>key. api_key_auth (sv_verify sv) (sv_now0 sv) (sv_now sv) (sv_fault sv) (sv_keys sv) rq cache = (Authenticated key, cache') \<and>
      ext' = ext\<lparr>ex_key := Some key\<rparr>)"
  by (auto simp: map_outcome_iff split: prod.splits)

lemma run_model_scope:
  "run_layer sv rq body ModelScope ext cache = (Authenticated ext', cache') \<longleftrightarrow>
   (\<exists>key. ex_key ext = Some key \<and> model_scope key body = Ok () \<and> ext' = ext \<and> cache' = cache)"
  by (auto split: option.splits sum.splits)

lemma run_layers_Cons:
  "run_layers sv rq body (l # ls) ext cache = (Authenticated ext', cache') \<longleftrightarrow>
   (\<exists>ext1 cache1. run_layer sv rq body l ext cache = (Authenticated ext1, cache1) \<and>
      run_layers sv rq body ls ext1 cache1 = (Authenticated ext', cache'))"
  by (auto split: prod.splits auth_outcome.splits)

lemma dispatch_iff:
  "dispatch sv rq body r cache = (Authenticated ext, cache') \<longleftrightarrow>
   run_layers sv rq body (rt_layers r) \<lparr>ex_key = None, ex_claims = None\<rparr> cache = (Authenticated ext, cache') \<and>
   extracts (rt_handler r) ext"
  by (auto simp: dispatch_def split: prod.splits auth_outcome.splits)

lemma run_layers_Nil:
  "run_layers sv rq body [] ext cache = (Authenticated ext', cache') \<longleftrightarrow> ext' = ext \<and> cache' = cache"
  by auto

lemma run_jwt_auth:
  "run_layer sv rq body JwtAuth ext cache = (Authenticated ext', cache') \<longleftrightarrow>
   (\<exists>c. jwt_auth (sv_decode sv) (sv_secret sv) (sv_origin sv) rq = Authenticated c \<and> ext' = ext\<lparr>ex_claims := Some c\<rparr> \<and>
      cache' = cache)"
  by (auto simp: map_outcome_iff)

lemma run_cookie_csrf:
  "run_layer sv rq body CookieCsrf ext cache = (Authenticated ext', cache') \<longleftrightarrow>
   origin_allowed_from_config (sv_origin sv) rq \<and> ext' = ext \<and> cache' = cache"
  by (auto simp: map_outcome_iff cookie_csrf_def)

declare run_layer.simps [simp del] run_layers.simps [simp del]

lemmas run_iffs = dispatch_iff run_layers_Cons run_layers_Nil run_api_key_auth run_jwt_auth run_cookie_csrf run_model_scope

text \<open>
  C9. Exactly fourteen endpoints are served without authentication, with no identity attached. At every other
  one the handler runs only with the key or the claims that the authentication accepted for this very request.
\<close>

theorem endpoints_guarded:
  assumes "r \<in> set build_app" "dispatch sv rq body r cache = (Authenticated ext, cache')"
  shows "if (rt_method r, rt_path r) \<in> set open_endpoints then ex_key ext = None \<and> ex_claims ext = None
    else (\<exists>key. ex_key ext = Some key \<and>
        fst (api_key_auth (sv_verify sv) (sv_now0 sv) (sv_now sv) (sv_fault sv) (sv_keys sv) rq cache) = Authenticated key) \<or>
      (\<exists>c. ex_claims ext = Some c \<and> jwt_auth (sv_decode sv) (sv_secret sv) (sv_origin sv) rq = Authenticated c)"
proof -
  have "route_ok r" using assms(1) by (rule route_ok_in)
  moreover have "rt_layers r \<in> {[], [CookieCsrf]} \<Longrightarrow> ex_key ext = None \<and> ex_claims ext = None"
    using assms(2) by (auto simp: run_iffs)
  moreover have "rt_layers r \<in> {[ApiKeyAuth], [ApiKeyAuth, ModelScope]} \<Longrightarrow> \<exists>key. ex_key ext = Some key \<and>
        fst (api_key_auth (sv_verify sv) (sv_now0 sv) (sv_now sv) (sv_fault sv) (sv_keys sv) rq cache) = Authenticated key"
    using assms(2) by (auto simp: run_iffs)
  moreover have "rt_layers r = [JwtAuth] \<Longrightarrow> \<exists>c. ex_claims ext = Some c \<and>
        jwt_auth (sv_decode sv) (sv_secret sv) (sv_origin sv) rq = Authenticated c"
    using assms(2) by (auto simp: run_iffs)
  ultimately show ?thesis by (auto simp: route_ok_def split: if_splits)
qed


text \<open>
  A request that passes the middleware reaches its handler, everywhere but at \<open>/v1/model/info\<close>: its handler asks
  for the claims of a session, and only an API key is there. That endpoint answers with an error whatever is sent.
\<close>

lemma model_info_never_served:
  assumes "r \<in> set build_app"
    and "run_layers sv rq body (rt_layers r) \<lparr>ex_key = None, ex_claims = None\<rparr> cache = (Authenticated ext, cache')"
  shows "dispatch sv rq body r cache =
    (if rt_path r = ''/v1/model/info'' then Rejected (sv_missing sv) else Authenticated ext, cache')"
proof (cases "rt_path r = ''/v1/model/info''")
  case True
  then have "rt_layers r = [ApiKeyAuth]" "\<exists>h. rt_handler r = WithClaims h"
    using route_ok_in [OF assms(1)] by (simp_all add: route_ok_def open_endpoints_def)
  then have "\<not> extracts (rt_handler r) ext" using assms(2) by (auto simp: run_iffs)
  then show ?thesis using assms(2) True by (simp add: dispatch_def)
next
  case False
  have "rt_layers r \<noteq> [] \<Longrightarrow> rt_layers r \<noteq> [CookieCsrf] \<Longrightarrow> rt_layers r \<noteq> [JwtAuth] \<Longrightarrow> ex_key ext \<noteq> None"
    "rt_layers r = [JwtAuth] \<Longrightarrow> ex_claims ext \<noteq> None"
    using route_ok_in [OF assms(1)] assms(2) False by (auto simp: route_ok_def run_iffs split: if_splits)
  then have "extracts (rt_handler r) ext"
    using route_ok_in [OF assms(1)] False by (cases "rt_handler r") (auto simp: route_ok_def split: if_splits)
  then show ?thesis using assms(2) False by (simp add: dispatch_def)
qed

text \<open>A gateway with one key that may use one model, a request with it, and three routes.\<close>

definition sample_server :: server where
  "sample_server = \<lparr>sv_verify = sample_verify, sv_now0 = 0, sv_now = 0, sv_fault = None,
     sv_keys = [sample_key\<lparr>ak_allowed_models := [''m'']\<rparr>], sv_decode = (\<lambda>_ _. Err ''invalid''), sv_secret = ''s'', sv_origin = [],
     sv_missing = 500, sv_debug = concat\<rparr>"

definition guarded_route :: "string \<Rightarrow> http_method \<Rightarrow> handler \<Rightarrow> layer list \<Rightarrow> route" where
  "guarded_route path m h ls = \<lparr>rt_path = path, rt_method = m, rt_handler = h, rt_layers = ls\<rparr>"

lemma sample_routes:
  "guarded_route ''/v1/embeddings'' POST (WithKey ''embeddings'') [ApiKeyAuth] \<in> set build_app"
  "guarded_route ''/v1/chat/completions'' POST (WithKey ''chat_completions'') [ApiKeyAuth, ModelScope] \<in> set build_app"
  "guarded_route ''/v1/model/info'' GET (WithClaims ''get_model_info'') [ApiKeyAuth] \<in> set build_app"
  by (simp_all add: guarded_route_def router_defs)

lemma sample_key_accepted:
  "\<exists>cache'. api_key_auth (sv_verify sample_server) (sv_now0 sample_server) (sv_now sample_server) (sv_fault sample_server)
     (sv_keys sample_server) (sample_head ''sk-godwit-abcdef'') mc_new =
     (Authenticated (sample_key\<lparr>ak_allowed_models := [''m'']\<rparr>), cache')"
  by (simp add: sample_server_def auth_eval Let_def)


theorem endpoints_guarded_witness:
  "\<exists>ext. fst (dispatch sample_server (sample_head ''sk-godwit-abcdef'') (Ok None)
     (guarded_route ''/v1/embeddings'' POST (WithKey ''embeddings'') [ApiKeyAuth]) mc_new) = Authenticated ext \<and>
     ex_key ext \<noteq> None"
proof -
  let ?r = "guarded_route ''/v1/embeddings'' POST (WithKey ''embeddings'') [ApiKeyAuth]"
  obtain ext cache' where d: "dispatch sample_server (sample_head ''sk-godwit-abcdef'') (Ok None) ?r mc_new = (Authenticated ext, cache')"
    using sample_key_accepted by (auto simp: run_iffs guarded_route_def)
  from endpoints_guarded [OF sample_routes(1) d] have "ex_key ext \<noteq> None"
    by (auto simp: guarded_route_def open_endpoints_def jwt_auth_def jwt_verify_def sample_server_def
        split: if_splits option.splits)
  then show ?thesis using d by simp
qed

lemma model_info_never_served_witness:
  "fst (dispatch sample_server (sample_head ''sk-godwit-abcdef'') (Ok None)
     (guarded_route ''/v1/model/info'' GET (WithClaims ''get_model_info'') [ApiKeyAuth]) mc_new) = Rejected 500"
proof -
  let ?r = "guarded_route ''/v1/model/info'' GET (WithClaims ''get_model_info'') [ApiKeyAuth]"
  obtain ext cache' where "run_layers sample_server (sample_head ''sk-godwit-abcdef'') (Ok None) (rt_layers ?r)
      \<lparr>ex_key = None, ex_claims = None\<rparr> mc_new = (Authenticated ext, cache')"
    using sample_key_accepted by (auto simp: run_iffs guarded_route_def)
  from model_info_never_served [OF sample_routes(3) this] show ?thesis
    by (simp add: guarded_route_def sample_server_def)
qed

end
