(* ===== verification/Service_Endpoints.thy ===== *)
theory Service_Endpoints
  imports Chat_Proxy Provider_Fallback Admin_Access Gateway_Routes
begin

text \<open>
  The endpoints around the proxy in \<open>crates/godwit-api/src\<close>: the batch endpoints and the list of models of
  \<open>proxy.rs\<close>, the unused copy of the batch endpoints in \<open>batch.rs\<close>, token counter, model information and health of
  \<open>utils.rs\<close>, \<open>model_info.rs\<close> and \<open>health.rs\<close>, and what \<open>metrics.rs\<close> and \<open>admin/metrics_ws.rs\<close> report of the
  collected metrics. One HTTP exchange with a provider and the text of a time stamp are
  parameters. Sums of \<open>u32\<close> and \<open>u64\<close> wrap.
\<close>

section \<open>Forwarding to the provider\<close>

datatype upstream = UP_SendError string | UP_Reply nat string "(string, json) result"

type_synonym 's upstream_http = "http_method \<Rightarrow> string \<Rightarrow> string option \<Rightarrow> json option \<Rightarrow> 's \<Rightarrow> upstream \<times> 's"

definition trim_start_matches :: "char \<Rightarrow> string \<Rightarrow> string" where
  "trim_start_matches d s = dropWhile (\<lambda>c. c = d) s"

text \<open>The header \<open>Authorization\<close> carries the key as a bearer token.\<close>

definition forward_openai_passthrough ::
  "'s gateway_env \<Rightarrow> attempt_inputs \<Rightarrow> 's upstream_http \<Rightarrow> http_method \<Rightarrow> string \<Rightarrow> json option \<Rightarrow> string \<Rightarrow> capability \<Rightarrow>
   ('s, 'm) gateway_scheme \<Rightarrow> (api_error, json) result \<times> ('s, 'm) gateway_scheme" where
  "forward_openai_passthrough env ai http m path body model_ref cap gw =
     (case proxy_resolve env ai model_ref cap gw of
        (Inl e, gw) \<Rightarrow> (Err (api_error_from e), gw)
      | (Inr resolved, gw) \<Rightarrow>
          (case http m (rp_base_url (rm_credentials resolved) @ ''/'' @ trim_start_matches (CHR ''/'') path)
                  (map_option (\<lambda>key. ''Bearer '' @ key) (rp_api_key (rm_credentials resolved)))
                  (map_option (set_model (m_provider_model_id (rm_model resolved))) body) (gw_world gw) of
             (reply, w) \<Rightarrow>
               (case reply of
                  UP_SendError e \<Rightarrow> Err (AE_Core (PE_Provider e))
                | UP_Reply status text parsed \<Rightarrow>
                    if \<not> (200 \<le> status \<and> status < 300)
                    then Err (map_provider_error (PErr_Http (of_nat status) text))
                    else map_err (\<lambda>e. AE_Core (PE_Provider (''failed to deserialize upstream response: '' @ e))) parsed,
                release resolved (gw\<lparr>gw_world := w\<rparr>))))"

section \<open>The batch endpoints\<close>

text \<open>
  \<open>params\<close> are the values the route's pattern gives to its parameters; a handler that asks for one parameter
  is not called when there is not exactly one.
\<close>

datatype batch_reply = PathRejected | Answered "(api_error, nat \<times> json) result"

definition extract_model_of_body :: "json \<Rightarrow> (api_error, string) result" where
  "extract_model_of_body body =
     ok_or (AE_BadRequest (''missing '' @ [CHR 0x27] @ ''model'' @ [CHR 0x27] @ '' field''))
       (Option.bind (json_get ''model'' body) as_str)"

definition reply_with :: "nat \<Rightarrow> (api_error, json) result \<times> 'g \<Rightarrow> batch_reply \<times> 'g" where
  "reply_with status rg = (case rg of (r, gw) \<Rightarrow> (Answered (bind_result r (\<lambda>v. Ok (status, v))), gw))"

definition create_batch ::
  "'s gateway_env \<Rightarrow> attempt_inputs \<Rightarrow> 's upstream_http \<Rightarrow> json \<Rightarrow> ('s, 'm) gateway_scheme \<Rightarrow>
     batch_reply \<times> ('s, 'm) gateway_scheme" where
  "create_batch env ai http body gw =
     (case extract_model_of_body body of
        Inl e \<Rightarrow> (Answered (Err e), gw)
      | Inr model_ref \<Rightarrow>
          reply_with 201 (forward_openai_passthrough env ai http POST ''batches'' (Some body) model_ref Chat gw))"

definition list_batches ::
  "'s gateway_env \<Rightarrow> attempt_inputs \<Rightarrow> 's upstream_http \<Rightarrow> string \<Rightarrow> ('s, 'm) gateway_scheme \<Rightarrow>
     batch_reply \<times> ('s, 'm) gateway_scheme" where
  "list_batches env ai http model_ref gw =
     reply_with 200 (forward_openai_passthrough env ai http GET ''batches'' None model_ref Chat gw)"

definition get_batch ::
  "'s gateway_env \<Rightarrow> attempt_inputs \<Rightarrow> 's upstream_http \<Rightarrow> string list \<Rightarrow> string \<Rightarrow> ('s, 'm) gateway_scheme \<Rightarrow>
     batch_reply \<times> ('s, 'm) gateway_scheme" where
  "get_batch env ai http params model_ref gw =
     (case params of
        [batch_id] \<Rightarrow>
          reply_with 200 (forward_openai_passthrough env ai http GET (''batches/'' @ batch_id) None model_ref Chat gw)
      | _ \<Rightarrow> (PathRejected, gw))"

definition delete_batch ::
  "'s gateway_env \<Rightarrow> attempt_inputs \<Rightarrow> 's upstream_http \<Rightarrow> string list \<Rightarrow> string \<Rightarrow> ('s, 'm) gateway_scheme \<Rightarrow>
     batch_reply \<times> ('s, 'm) gateway_scheme" where
  "delete_batch env ai http params model_ref gw =
     (case params of
        [batch_id] \<Rightarrow>
          reply_with 200 (forward_openai_passthrough env ai http DELETE (''batches/'' @ batch_id) None model_ref Chat gw)
      | _ \<Rightarrow> (PathRejected, gw))"

definition cancel_batch ::
  "'s gateway_env \<Rightarrow> attempt_inputs \<Rightarrow> 's upstream_http \<Rightarrow> string list \<Rightarrow> string \<Rightarrow> ('s, 'm) gateway_scheme \<Rightarrow>
     batch_reply \<times> ('s, 'm) gateway_scheme" where
  "cancel_batch env ai http params model_ref gw =
     (case params of
        [batch_id] \<Rightarrow>
          reply_with 200 (forward_openai_passthrough env ai http POST (''batches/'' @ batch_id @ ''/cancel'') None model_ref
            Chat gw)
      | _ \<Rightarrow> (PathRejected, gw))"

definition get_batch_results ::
  "'s gateway_env \<Rightarrow> attempt_inputs \<Rightarrow> 's upstream_http \<Rightarrow> string list \<Rightarrow> string \<Rightarrow> ('s, 'm) gateway_scheme \<Rightarrow>
     batch_reply \<times> ('s, 'm) gateway_scheme" where
  "get_batch_results env ai http params model_ref gw =
     (case params of
        [batch_id] \<Rightarrow>
          reply_with 200 (forward_openai_passthrough env ai http GET (''batches/'' @ batch_id @ ''/results'') None model_ref
            Chat gw)
      | _ \<Rightarrow> (PathRejected, gw))"

section \<open>The list of models\<close>

definition filter_models_with_enabled_profiles :: "model list \<Rightarrow> provider_profile list \<Rightarrow> model list" where
  "filter_models_with_enabled_profiles models profiles =
     (let enabled = foldl (\<lambda>m p. m(pp_id p \<mapsto> pp_enabled p)) Map.empty profiles
      in filter (\<lambda>m. unwrap_or False (enabled (m_provider_profile_id m))) models)"

definition models_response :: "model list \<Rightarrow> json" where
  "models_response models = json_obj
     [(''object'', JString ''list''),
      (''data'', JArray (map (\<lambda>m. json_obj
         [(''id'', JString (m_public_id m)), (''object'', JString ''model''),
          (''created'', JInt (sint (timestamp (m_created_at m)))), (''owned_by'', JString (m_provider m))]) models))]"

definition list_models :: "fault \<Rightarrow> fault \<Rightarrow> catalog \<Rightarrow> (api_error, json) result" where
  "list_models flt1 flt2 ct =
     bind_result (map_err AE_Core (models_list flt1 ct)) (\<lambda>models.
     bind_result (map_err AE_Core (profiles_list flt2 ct)) (\<lambda>profiles.
     Ok (models_response (filter_models_with_enabled_profiles models profiles))))"

section \<open>The token counter\<close>

definition len_u32 :: "string \<Rightarrow> u32" where
  "len_u32 s = of_nat (length s)"

fun content_tokens :: "chat_content \<Rightarrow> u32" where
  "content_tokens (CC_Text text) = len_u32 text div 4"
| "content_tokens (CC_Parts parts) =
     sum_list (map (\<lambda>p. case p of CP_Text text \<Rightarrow> len_u32 text div 4 | CP_ImageUrl _ \<Rightarrow> 100) parts)"

definition message_tokens :: "chat_message \<Rightarrow> u32" where
  "message_tokens msg =
     4 + len_u32 (cm_role msg) +
     sum_list (map content_tokens (unwrap_or [] (cm_content msg))) +
     len_u32 (unwrap_or [] (cm_name msg)) div 4 +
     sum_list (map (\<lambda>tc. len_u32 (tc_id tc) div 4 + len_u32 (fc_name (tc_function tc)) div 4 +
       len_u32 (fc_arguments (tc_function tc)) div 4) (unwrap_or [] (cm_tool_calls msg))) +
     len_u32 (unwrap_or [] (cm_tool_call_id msg)) div 4"

definition count_tokens :: "string \<Rightarrow> chat_message list \<Rightarrow> u32" where
  "count_tokens model_name messages = sum_list (map message_tokens messages) + 2"

definition token_counter :: "string \<Rightarrow> chat_message list \<Rightarrow> (api_error, u32 \<times> string) result" where
  "token_counter model_name messages = Ok (count_tokens model_name messages, model_name)"

section \<open>Information on a model\<close>

record pricing_info =
  pi_input_cost_per_1k :: f64
  pi_output_cost_per_1k :: f64
  pi_cache_read_cost_per_1k :: f64
  pi_cache_write_cost_per_1k :: f64

definition extract_pricing :: "json \<Rightarrow> pricing_info" where
  "extract_pricing pricing =
     \<lparr>pi_input_cost_per_1k =
        f_div (unwrap_or 0 (Option.bind (json_get ''input_price_per_million'' pricing) as_f64)) 1000,
      pi_output_cost_per_1k =
        f_div (unwrap_or 0 (Option.bind (json_get ''output_price_per_million'' pricing) as_f64)) 1000,
      pi_cache_read_cost_per_1k = 0, pi_cache_write_cost_per_1k = 0\<rparr>"

record model_capabilities =
  mc_supports_tool_calling :: bool
  mc_supports_vision :: bool
  mc_supports_streaming :: bool
  mc_supports_prompt_cache :: bool
  mc_max_tokens :: u32

definition extract_capabilities :: "model \<Rightarrow> model_capabilities" where
  "extract_capabilities m =
     \<lparr>mc_supports_tool_calling = list_ex (\<lambda>c. c = ''tool_calling'' \<or> c = ''tools'') (m_capabilities m),
      mc_supports_vision = list_ex (\<lambda>c. c = ''vision'') (m_capabilities m),
      mc_supports_streaming = True,
      mc_supports_prompt_cache = list_ex (\<lambda>c. c = ''prompt_cache'') (m_capabilities m),
      mc_max_tokens = ucast (unwrap_or 4096 (Option.bind (json_get ''max_output_tokens'' (m_config m)) as_i64))\<rparr>"

record model_info =
  mi_id :: string
  mi_provider :: string
  mi_pricing :: pricing_info
  mi_capabilities :: model_capabilities

definition utils_model_info ::
  "'s gateway_env \<Rightarrow> attempt_inputs \<Rightarrow> string \<Rightarrow> ('s, 'm) gateway_scheme \<Rightarrow>
     (api_error, model_info) result \<times> ('s, 'm) gateway_scheme" where
  "utils_model_info env ai model_id gw =
     (case proxy_resolve env ai model_id Chat gw of
        (Inl e, gw) \<Rightarrow> (Err (AE_Core e), gw)
      | (Inr resolved, gw) \<Rightarrow>
          (Ok \<lparr>mi_id = m_public_id (rm_model resolved), mi_provider = pp_protocol (rm_profile resolved),
               mi_pricing = extract_pricing (m_pricing (rm_model resolved)),
               mi_capabilities = extract_capabilities (rm_model resolved)\<rparr>, release resolved gw))"

record model_info_response =
  mr_id :: string
  mr_provider_model_id :: string
  mr_provider :: string
  mr_capabilities :: "string list"
  mr_input_price_per_million :: "f64 option"
  mr_output_price_per_million :: "f64 option"
  mr_fallback_chain :: "string list"
  mr_context_window :: "i64 option"
  mr_max_output_tokens :: "i64 option"

definition get_model_info ::
  "'s gateway_env \<Rightarrow> attempt_inputs \<Rightarrow> claims \<Rightarrow> string \<Rightarrow> ('s, 'm) gateway_scheme \<Rightarrow>
     (api_error, model_info_response) result \<times> ('s, 'm) gateway_scheme" where
  "get_model_info env ai c model_id gw =
     (case require_super_admin c of
        Inl e \<Rightarrow> (Err e, gw)
      | Inr _ \<Rightarrow>
          (case proxy_resolve env ai model_id Chat gw of
             (Inl e, gw) \<Rightarrow> (Err (AE_Core e), gw)
           | (Inr resolved, gw) \<Rightarrow>
               (let m = rm_model resolved
                in (Ok \<lparr>mr_id = m_public_id m, mr_provider_model_id = m_provider_model_id m,
                        mr_provider = pp_protocol (rm_profile resolved), mr_capabilities = m_capabilities m,
                        mr_input_price_per_million = Option.bind (json_get ''input_price_per_million'' (m_pricing m)) as_f64,
                        mr_output_price_per_million = Option.bind (json_get ''output_price_per_million'' (m_pricing m)) as_f64,
                        mr_fallback_chain = fallback_chain m,
                        mr_context_window = Option.bind (json_get ''context_window'' (m_config m)) as_i64,
                        mr_max_output_tokens = Option.bind (json_get ''max_output_tokens'' (m_config m)) as_i64\<rparr>,
                    release resolved gw))))"

section \<open>Health\<close>

definition health_check :: json where
  "health_check = json_obj [(''status'', JString ''ok'')]"

definition not_ready :: "string \<Rightarrow> nat \<times> json" where
  "not_ready reason = (503, json_obj [(''status'', JString ''not_ready''), (''reason'', JString reason)])"

definition health_ready :: "fault \<Rightarrow> fault \<Rightarrow> catalog \<Rightarrow> (nat \<times> json, json) result" where
  "health_ready flt1 flt2 ct =
     (case flt1 of
        Some e \<Rightarrow> Err (not_ready (''database connection failed: '' @ e))
      | None \<Rightarrow>
          (case flt2 of
             Some e \<Rightarrow> Err (not_ready (''failed to query models: '' @ e))
           | None \<Rightarrow>
               if length (ct_models ct) = 0 then Err (not_ready ''no models configured in catalog'')
               else Ok (json_obj [(''status'', JString ''ok'')])))"

record health_status =
  hs_status :: string
  hs_version :: string
  hs_uptime_secs :: u64
  hs_database :: string
  hs_providers :: "(string \<times> string \<times> u32 option) list"

text \<open>\<open>START_TIME\<close>: a cell that is filled once.\<close>

definition get_start_time :: "u64 \<Rightarrow> u64 option \<Rightarrow> u64 \<times> u64 option" where
  "get_start_time now start_time =
     (case start_time of Some t \<Rightarrow> (t, Some t) | None \<Rightarrow> (now, Some now))"

definition check_database_health :: "fault \<Rightarrow> (api_error, string) result" where
  "check_database_health flt =
     (case flt of
        Some e \<Rightarrow> Err (AE_Database (''database connection failed: '' @ e))
      | None \<Rightarrow> Ok ''connected'')"

definition check_provider_health :: "(string \<times> string \<times> u32 option) list" where
  "check_provider_health = []"

text \<open>\<open>now0\<close> and \<open>now\<close> are the two readings of the clock.\<close>

definition health ::
  "string \<Rightarrow> u64 \<Rightarrow> u64 \<Rightarrow> fault \<Rightarrow> u64 option \<Rightarrow> (api_error, health_status) result \<times> u64 option" where
  "health version now0 now flt start_time =
     (case get_start_time now0 start_time of (start, start_time) \<Rightarrow>
        (bind_result (check_database_health flt) (\<lambda>database.
           Ok \<lparr>hs_status = ''healthy'', hs_version = version, hs_uptime_secs = now - start, hs_database = database,
               hs_providers = check_provider_health\<rparr>), start_time))"

section \<open>The metrics as they are reported\<close>

text \<open>
  The registry and the collectors: \<open>mr_registered\<close> are the names of the registered families, \<open>mr_children\<close> the
  values of a family by label values, in the order in which they are gathered. Gathering leaves out
  families without values. A family cannot be registered twice.
\<close>

type_synonym metric_children = "(string list \<times> f64) list"

record metric_registry =
  mg_registered :: "string list"
  mg_children :: "string \<Rightarrow> metric_children"

fun child_add :: "string list \<Rightarrow> f64 \<Rightarrow> metric_children \<Rightarrow> metric_children" where
  "child_add labels x [] = [(labels, x)]"
| "child_add labels x ((ls, v) # cs) = (if ls = labels then (ls, f_add v x) # cs else (ls, v) # child_add labels x cs)"

definition with_label_values :: "string \<Rightarrow> string list \<Rightarrow> f64 \<Rightarrow> metric_registry \<Rightarrow> metric_registry" where
  "with_label_values name labels x mr =
     mr\<lparr>mg_children := (mg_children mr)(name := child_add labels x (mg_children mr name))\<rparr>"

fun register_family :: "string \<Rightarrow> metric_registry \<Rightarrow> (string, metric_registry) result" where
  "register_family name mr =
     (if name \<in> set (mg_registered mr) then Err name else Ok (mr\<lparr>mg_registered := mg_registered mr @ [name]\<rparr>))"

definition family_names :: "string list" where
  "family_names = [''godwit_requests_total'', ''godwit_request_duration_seconds'', ''godwit_tokens_total'',
     ''godwit_cost_usd_total'', ''godwit_active_requests'']"

text \<open>\<open>register_metrics\<close> stops at the first error and keeps what was registered before it.\<close>

fun register_all :: "string list \<Rightarrow> metric_registry \<Rightarrow> (string, unit) result \<times> metric_registry" where
  "register_all [] mr = (Ok (), mr)"
| "register_all (n # ns) mr = (case register_family n mr of Inl e \<Rightarrow> (Err e, mr) | Inr mr' \<Rightarrow> register_all ns mr')"

definition register_metrics :: "metric_registry \<Rightarrow> (string, unit) result \<times> metric_registry" where
  "register_metrics mr = register_all family_names mr"

definition gathered :: "string \<Rightarrow> metric_registry \<Rightarrow> metric_children option" where
  "gathered name mr =
     (if name \<in> set (mg_registered mr) \<and> mg_children mr name \<noteq> [] then Some (mg_children mr name) else None)"

definition gather :: "metric_registry \<Rightarrow> (string \<times> metric_children) list" where
  "gather mr = List.map_filter (\<lambda>name. map_option (Pair name) (gathered name mr)) (sort (mg_registered mr))"

text \<open>\<open>encode\<close> is the text encoder of the metrics library.\<close>

definition get_metrics ::
  "((string \<times> metric_children) list \<Rightarrow> (string, string) result) \<Rightarrow> metric_registry \<Rightarrow> (string, string) result" where
  "get_metrics encode mr = encode (gather mr)"

definition metrics_handler ::
  "((string \<times> metric_children) list \<Rightarrow> (string, string) result) \<Rightarrow> metric_registry \<Rightarrow> (nat, string \<times> string) result" where
  "metrics_handler encode mr =
     (case get_metrics encode mr of
        Inr metrics_text \<Rightarrow> Ok (''text/plain; version=0.0.4'', metrics_text)
      | Inl _ \<Rightarrow> Err 500)"

definition sum_counter :: "string \<Rightarrow> metric_registry \<Rightarrow> f64" where
  "sum_counter name mr =
     unwrap_or 0 (map_option (\<lambda>metrics. foldl f_add 0 (map snd metrics)) (gathered name mr))"

definition sum_gauge :: "string \<Rightarrow> metric_registry \<Rightarrow> f64" where
  "sum_gauge name mr =
     unwrap_or 0 (map_option (\<lambda>metrics. foldl f_add 0 (map snd metrics)) (gathered name mr))"

record metrics_snapshot =
  ms_requests_total :: f64
  ms_tokens_total :: f64
  ms_cost_usd_total :: f64
  ms_active_requests :: f64
  ms_timestamp :: string

definition get_metric_snapshot :: "string \<Rightarrow> metric_registry \<Rightarrow> metrics_snapshot" where
  "get_metric_snapshot now mr =
     \<lparr>ms_requests_total = sum_counter ''godwit_requests_total'' mr, ms_tokens_total = sum_counter ''godwit_tokens_total'' mr,
      ms_cost_usd_total = sum_counter ''godwit_cost_usd_total'' mr,
      ms_active_requests = sum_gauge ''godwit_active_requests'' mr, ms_timestamp = now\<rparr>"

definition record_cost :: "string \<Rightarrow> string \<Rightarrow> string \<Rightarrow> f64 \<Rightarrow> metric_registry \<Rightarrow> metric_registry" where
  "record_cost org team api_key cost_usd mr =
     with_label_values ''godwit_cost_usd_total'' [org, team, api_key] cost_usd mr"

definition build_metrics_frame :: "metrics_snapshot \<Rightarrow> json" where
  "build_metrics_frame snap = json_obj
     [(''type'', JString ''metrics:update''),
      (''data'', json_obj
         [(''requestsTotal'', JFloat (ms_requests_total snap)), (''tokensTotal'', JFloat (ms_tokens_total snap)),
          (''costUsdTotal'', JFloat (ms_cost_usd_total snap)), (''activeRequests'', JFloat (ms_active_requests snap)),
          (''timestamp'', JString (ms_timestamp snap))])]"

text \<open>
  What the socket sees next: a message, its end, an error, or the tick of the interval with the time, the
  metrics at that moment and whether the frame can be sent. The frames that were sent.
\<close>

datatype ws_event = WsClose | WsEnd | WsError | WsMessage string | WsTick string metric_registry bool

fun handle_socket :: "ws_event list \<Rightarrow> json list" where
  "handle_socket [] = []"
| "handle_socket (WsClose # es) = []"
| "handle_socket (WsEnd # es) = []"
| "handle_socket (WsError # es) = []"
| "handle_socket (WsMessage m # es) = handle_socket es"
| "handle_socket (WsTick now mr sent # es) =
     (if sent then build_metrics_frame (get_metric_snapshot now mr) # handle_socket es else [])"

section \<open>The copy in batch.rs\<close>

definition mod_create_batch ::
  "'s gateway_env \<Rightarrow> attempt_inputs \<Rightarrow> 's upstream_http \<Rightarrow> json \<Rightarrow> ('s, 'm) gateway_scheme \<Rightarrow>
     batch_reply \<times> ('s, 'm) gateway_scheme" where
  "mod_create_batch env ai http body gw =
     (case extract_model body of
        Inl e \<Rightarrow> (Answered (Err e), gw)
      | Inr model_ref \<Rightarrow>
          reply_with 201 (forward_openai_passthrough env ai http POST ''batches'' (Some body) model_ref Chat gw))"

definition mod_list_batches ::
  "'s gateway_env \<Rightarrow> attempt_inputs \<Rightarrow> 's upstream_http \<Rightarrow> string \<Rightarrow> ('s, 'm) gateway_scheme \<Rightarrow>
     batch_reply \<times> ('s, 'm) gateway_scheme" where
  "mod_list_batches env ai http model_ref gw =
     reply_with 200 (forward_openai_passthrough env ai http GET ''batches'' None model_ref Chat gw)"

definition mod_get_batch ::
  "'s gateway_env \<Rightarrow> attempt_inputs \<Rightarrow> 's upstream_http \<Rightarrow> string list \<Rightarrow> string \<Rightarrow> ('s, 'm) gateway_scheme \<Rightarrow>
     batch_reply \<times> ('s, 'm) gateway_scheme" where
  "mod_get_batch env ai http params model_ref gw =
     (case params of
        [batch_id] \<Rightarrow>
          reply_with 200 (forward_openai_passthrough env ai http GET (''batches/'' @ batch_id) None model_ref Chat gw)
      | _ \<Rightarrow> (PathRejected, gw))"

definition mod_cancel_batch ::
  "'s gateway_env \<Rightarrow> attempt_inputs \<Rightarrow> 's upstream_http \<Rightarrow> string list \<Rightarrow> string \<Rightarrow> ('s, 'm) gateway_scheme \<Rightarrow>
     batch_reply \<times> ('s, 'm) gateway_scheme" where
  "mod_cancel_batch env ai http params model_ref gw =
     (case params of
        [batch_id] \<Rightarrow>
          reply_with 200 (forward_openai_passthrough env ai http POST (''batches/'' @ batch_id @ ''/cancel'') None model_ref
            Chat gw)
      | _ \<Rightarrow> (PathRejected, gw))"

lemma batch_module_is_a_copy:
  "mod_create_batch = create_batch \<and> mod_list_batches = list_batches \<and> mod_get_batch = get_batch \<and>
   mod_cancel_batch = cancel_batch"
  by (intro conjI ext) (simp_all add: mod_create_batch_def create_batch_def mod_list_batches_def list_batches_def
      mod_get_batch_def get_batch_def mod_cancel_batch_def cancel_batch_def extract_model_def extract_model_of_body_def)


section \<open>The routes of the batch endpoints\<close>

text \<open>The requests of \<open>proxy::router\<close> on batches: body or query parameter, and the parameters in the path.\<close>

datatype batch_request =
    POST_batches json
  | GET_batches string
  | DELETE_batches string
  | GET_batches_id string string
  | POST_batches_id_cancel string string
  | GET_batches_id_results string string

fun batch_endpoint ::
  "'s gateway_env \<Rightarrow> attempt_inputs \<Rightarrow> 's upstream_http \<Rightarrow> batch_request \<Rightarrow> ('s, 'm) gateway_scheme \<Rightarrow>
     batch_reply \<times> ('s, 'm) gateway_scheme" where
  "batch_endpoint env ai http (POST_batches body) = create_batch env ai http body"
| "batch_endpoint env ai http (GET_batches q) = list_batches env ai http q"
| "batch_endpoint env ai http (DELETE_batches q) = delete_batch env ai http [] q"
| "batch_endpoint env ai http (GET_batches_id i q) = get_batch env ai http [i] q"
| "batch_endpoint env ai http (POST_batches_id_cancel i q) = cancel_batch env ai http [i] q"
| "batch_endpoint env ai http (GET_batches_id_results i q) = get_batch_results env ai http [i] q"

lemma passthrough_frame:
  "gw_limiter (snd (forward_openai_passthrough env ai http m path body q cap gw)) = gw_limiter gw"
  "gw_spawned (snd (forward_openai_passthrough env ai http m path body q cap gw)) = gw_spawned gw"
  "flights (snd (forward_openai_passthrough env ai http m path body q cap gw)) k = flights gw k"
proof -
  obtain r gw1 where r: "proxy_resolve env ai q cap gw = (r, gw1)" by fastforce
  note f = proxy_resolve_frame [OF r]
  show "gw_limiter (snd (forward_openai_passthrough env ai http m path body q cap gw)) = gw_limiter gw"
    "gw_spawned (snd (forward_openai_passthrough env ai http m path body q cap gw)) = gw_spawned gw"
    "flights (snd (forward_openai_passthrough env ai http m path body q cap gw)) k = flights gw k"
    using r f(2-4) f(1) [of k] by (cases r; simp add: forward_openai_passthrough_def split: prod.splits)+
qed

lemma reply_with_state: "snd (reply_with status rg) = snd rg"
  by (simp add: reply_with_def split: prod.splits)

lemmas batch_defs = create_batch_def list_batches_def delete_batch_def get_batch_def cancel_batch_def get_batch_results_def

text \<open>
  No request on batches is limited, budgeted or logged: whatever the key, the provider's answer and the errors,
  the limiter and the rows handed to the log are afterwards as before, and the in-flight counts too.
\<close>

lemma batches_unmetered:
  "gw_limiter (snd (batch_endpoint env ai http br gw)) = gw_limiter gw \<and>
   gw_spawned (snd (batch_endpoint env ai http br gw)) = gw_spawned gw \<and>
   flights (snd (batch_endpoint env ai http br gw)) k = flights gw k"
  by (cases br) (auto simp: batch_defs reply_with_state passthrough_frame split: sum.split)

text \<open>The route that deletes a batch has no parameter for its handler, which is therefore never called.\<close>

definition path_params :: "string \<Rightarrow> string list" where
  "path_params pattern = filter (\<lambda>s. take 1 s = '':'') (split_on (CHR ''/'') pattern)"

lemma delete_batch_never_served:
  assumes "r \<in> set build_app" "rt_handler r = WithKey ''delete_batch''"
  shows "path_params (rt_path r) = [] \<and> batch_endpoint env ai http (DELETE_batches q) gw = (PathRejected, gw)"
proof -
  have "list_all (\<lambda>r. rt_handler r = WithKey ''delete_batch'' \<longrightarrow> rt_path r = ''/v1/batches'') build_app"
    by (simp add: router_defs)
  then have "rt_path r = ''/v1/batches''" using assms by (simp add: list_all_iff)
  then show ?thesis by (simp add: path_params_def delete_batch_def)
qed

section \<open>What is listed, counted and reported\<close>

abbreviation enabled_profiles :: "(uuid \<rightharpoonup> bool) \<Rightarrow> provider_profile list \<Rightarrow> uuid \<rightharpoonup> bool" where
  "enabled_profiles \<equiv> foldl (\<lambda>m p. m(pp_id p \<mapsto> pp_enabled p))"

lemma enabled_map_none: "i \<notin> set (map pp_id ps) \<Longrightarrow> enabled_profiles m0 ps i = m0 i"
  by (induction ps arbitrary: m0) simp_all

lemma enabled_map_find:
  assumes "distinct (map pp_id ps)"
  shows "enabled_profiles m0 ps i =
    (case find (\<lambda>p. pp_id p = i) ps of None \<Rightarrow> m0 i | Some p \<Rightarrow> Some (pp_enabled p))"
  using assms
proof (induction ps arbitrary: m0)
  case (Cons q ps)
  then show ?case
    using enabled_map_none [of i ps "m0(pp_id q \<mapsto> pp_enabled q)"]
    by (cases "pp_id q = i") (auto simp del: fun_upd_apply simp: fun_upd_same fun_upd_other split: option.split)
qed simp

lemma fetch_one_find:
  "fetch_one None (filter P xs) = (case find P xs of None \<Rightarrow> Err PE_NotFound | Some x \<Rightarrow> Ok x)"
  by (induction xs) (simp_all add: fetch_one_def)

text \<open>
  The models that are advertised are those whose profile the router would accept: the filter by the map of
  enabled profiles agrees with the router's look-up.
\<close>

lemma listed_iff_routable:
  assumes "distinct (map pp_id (ct_profiles ct))"
  shows "m \<in> set (filter_models_with_enabled_profiles models (ct_profiles ct)) \<longleftrightarrow>
    m \<in> set models \<and> (\<exists>p. bind_result (profiles_get None (m_provider_profile_id m) ct) ensure_enabled = Ok p)"
  by (auto simp: filter_models_with_enabled_profiles_def Let_def enabled_map_find [OF assms] profiles_get_def
      fetch_one_find ensure_enabled_def split: option.splits if_splits)

text \<open>The uptime counts from the first call of the health endpoint, not from the start of the process.\<close>

fun health_calls :: "string \<Rightarrow> (u64 \<times> u64 \<times> fault) list \<Rightarrow> u64 option \<Rightarrow> u64 option" where
  "health_calls version [] st = st"
| "health_calls version ((now0, now, flt) # cs) st = health_calls version cs (snd (health version now0 now flt st))"

lemma health_calls_keep: "health_calls version cs (Some t) = Some t"
  by (induction cs) (auto simp: health_def get_start_time_def)

lemma uptime_since_first_call:
  assumes "fst (health version now0 now None (health_calls version ((first, now1, flt1) # cs) None)) = Ok hs"
  shows "hs_uptime_secs hs = now - first"
proof -
  have "health_calls version ((first, now1, flt1) # cs) None = Some first"
    by (simp add: health_def get_start_time_def health_calls_keep)
  then show ?thesis using assms by (auto simp: health_def get_start_time_def check_database_health_def)
qed

text \<open>The operations of the collector, on the families they write; of the histogram its sum.\<close>

datatype metric_op =
    OpRequest string string string f64
  | OpTokens string string u32
  | OpCost string string string f64
  | OpActive string string
  | OpInactive string string

fun metric_step :: "metric_op \<Rightarrow> metric_registry \<Rightarrow> metric_registry" where
  "metric_step (OpRequest m p st d) mr =
     with_label_values ''godwit_request_duration_seconds'' [m, p] d
       (with_label_values ''godwit_requests_total'' [m, p, st] 1 mr)"
| "metric_step (OpTokens t m n) mr = with_label_values ''godwit_tokens_total'' [t, m] (f_of_nat (unat n)) mr"
| "metric_step (OpCost org team key c) mr = record_cost org team key c mr"
| "metric_step (OpActive m p) mr = with_label_values ''godwit_active_requests'' [m, p] 1 mr"
| "metric_step (OpInactive m p) mr = with_label_values ''godwit_active_requests'' [m, p] (- 1) mr"

text \<open>The registry when the process starts; \<open>main\<close> does not call \<open>register_metrics\<close>, nor does anything it calls.\<close>

definition fresh_registry :: metric_registry where
  "fresh_registry = \<lparr>mg_registered = [], mg_children = (\<lambda>_. [])\<rparr>"

lemma metric_steps_registered: "mg_registered (fold metric_step ops mr) = mg_registered mr"
proof (induction ops arbitrary: mr)
  case (Cons op ops)
  then show ?case by (cases op) (simp_all add: with_label_values_def record_cost_def)
qed simp


lemma register_metrics_once:
  "fst (register_metrics fresh_registry) = Ok () \<and>
   (\<exists>e. fst (register_metrics (snd (register_metrics fresh_registry))) = Err e)"
  by (simp add: register_metrics_def family_names_def fresh_registry_def)

end
