(* ===== verification/Sign_On.thy ===== *)
theory Sign_On
  imports App_Config
begin

text \<open>
  Single sign-on and mail: \<open>crates/godwit-auth/src/oidc.rs\<close> and \<open>crates/godwit-api/src/mail.rs\<close>. The OpenID Connect
  client library, the template engine and the SMTP library are parameters, one function for each of their
  calls; what the source makes of their answers is the model. A panic is \<open>None\<close>.
\<close>

section \<open>OpenID Connect\<close>

text \<open>
  \<open>ol_issuer\<close> and \<open>ol_redirect\<close> parse addresses, \<open>ol_discover\<close> fetches the metadata of a provider, \<open>ol_client\<close> puts
  a client together. \<open>ol_authorize\<close> makes the address of the authorization request with a state and a nonce of its
  own. \<open>ol_exchange\<close> is the token request, \<open>ol_id_token\<close> the ID token of its answer and \<open>ol_claims\<close> the verification of
  an ID token against a nonce.
\<close>

record ('c, 'm, 'r, 'i, 'k) oidc_lib =
  ol_issuer :: "string \<Rightarrow> (string, string) result"
  ol_discover :: "string \<Rightarrow> (string, 'm) result"
  ol_redirect :: "string \<Rightarrow> (string, string) result"
  ol_client :: "'m \<Rightarrow> string \<Rightarrow> string \<Rightarrow> string \<Rightarrow> 'c"
  ol_authorize :: "'c \<Rightarrow> string list \<Rightarrow> string \<times> string \<times> string"
  ol_exchange :: "'c \<Rightarrow> string \<Rightarrow> (string, 'r) result"
  ol_id_token :: "'r \<Rightarrow> 'i option"
  ol_claims :: "'c \<Rightarrow> 'i \<Rightarrow> string \<Rightarrow> (string, 'k) result"
  ol_email :: "'k \<Rightarrow> string option"
  ol_name :: "'k \<Rightarrow> string option"
  ol_subject :: "'k \<Rightarrow> string"

definition oidc_client_new ::
  "('c, 'm, 'r, 'i, 'k) oidc_lib \<Rightarrow> oidc_provider_config \<Rightarrow> (pasteur_error, 'c) result" where
  "oidc_client_new lib config =
     bind_result (map_err PE_Config (ol_issuer lib (oi_issuer_url config))) (\<lambda>issuer_url.
     bind_result (map_err PE_Auth (ol_discover lib issuer_url)) (\<lambda>metadata.
     bind_result (map_err PE_Config (ol_redirect lib (oi_redirect_uri config))) (\<lambda>redirect_uri.
     Ok (ol_client lib metadata (oi_client_id config) (oi_client_secret config) redirect_uri))))"

definition authorize_url ::
  "('c, 'm, 'r, 'i, 'k) oidc_lib \<Rightarrow> 'c \<Rightarrow> string list \<Rightarrow> string \<times> string \<times> string" where
  "authorize_url lib client scopes = ol_authorize lib client scopes"

definition exchange_code ::
  "('c, 'm, 'r, 'i, 'k) oidc_lib \<Rightarrow> 'c \<Rightarrow> string \<Rightarrow> string \<Rightarrow> string \<Rightarrow>
     (pasteur_error, string \<times> string \<times> string option) result" where
  "exchange_code lib client code csrf nonce =
     bind_result (map_err PE_Auth (ol_exchange lib client code)) (\<lambda>token_response.
     bind_result (ok_or (PE_Auth ''missing id_token'') (ol_id_token lib token_response)) (\<lambda>id_token.
     bind_result (map_err PE_Auth (ol_claims lib client id_token nonce)) (\<lambda>claims.
     bind_result (ok_or (PE_Auth ''missing email'') (ol_email lib claims)) (\<lambda>email.
     Ok (email, ol_subject lib claims, ol_name lib claims)))))"

text \<open>The two handlers of \<open>admin/auth.rs\<close> with this client.\<close>

definition oidc_connect ::
  "('c, 'm, 'r, 'i, 'k) oidc_lib \<Rightarrow> oidc_provider_config list \<Rightarrow> string \<Rightarrow> (string, 'c) result" where
  "oidc_connect lib providers provider_id =
     (case find (\<lambda>p. oi_id p = provider_id) providers of
        None \<Rightarrow> Err ''unknown provider''
      | Some config \<Rightarrow> map_err pasteur_error_display (oidc_client_new lib config))"

definition oidc_exchange ::
  "('c, 'm, 'r, 'i, 'k) oidc_lib \<Rightarrow> 'c \<Rightarrow> string \<Rightarrow> string \<Rightarrow> string \<Rightarrow> (string, string \<times> string option) result" where
  "oidc_exchange lib client code oidc_state nonce =
     bind_result (map_err pasteur_error_display (exchange_code lib client code oidc_state nonce))
       (\<lambda>(email, subject, name). Ok (email, name))"

section \<open>SAML\<close>

definition saml_service_new :: "saml_provider_config \<Rightarrow> (pasteur_error, string) result" where
  "saml_service_new config = Ok (sa_id config)"

definition parse_saml_response ::
  "string \<Rightarrow> string \<Rightarrow> (pasteur_error, string \<times> string \<times> string option) result" where
  "parse_saml_response provider_id encoded_response = Err (PE_Auth ''SAML not fully implemented in MVP'')"

section \<open>Mail\<close>

record smtp_transport =
  sm_tls :: mail_tls
  sm_host :: string
  sm_port :: u16
  sm_credentials :: "(string \<times> string) option"

datatype mail_error = ME_Build string | ME_Transport string

fun mail_error_display :: "mail_error \<Rightarrow> string" where
  "mail_error_display (ME_Build s) = ''mail build error: '' @ s"
| "mail_error_display (ME_Transport s) = ''mail transport error: '' @ s"

text \<open>
  \<open>sl_relay\<close> accepts a host name for an encrypted connection, \<open>sl_templates\<close> compiles the four templates,
  \<open>sl_mailbox\<close> and \<open>sl_address\<close> parse a sender and a recipient, \<open>sl_message\<close> builds the message, \<open>sl_render\<close> renders
  a template by its name, and \<open>sl_send\<close> delivers.
\<close>

record ('e, 'x, 's) smtp_lib =
  sl_relay :: "mail_tls \<Rightarrow> string \<Rightarrow> (string, unit) result"
  sl_templates :: "(string, unit) result"
  sl_mailbox :: "string \<Rightarrow> bool"
  sl_address :: "string \<Rightarrow> (string, unit) result"
  sl_message :: "string \<Rightarrow> string \<Rightarrow> string \<Rightarrow> string \<Rightarrow> string \<Rightarrow> (string, 'e) result"
  sl_render :: "string \<Rightarrow> 'x \<Rightarrow> string option"
  sl_send :: "smtp_transport \<Rightarrow> 'e \<Rightarrow> 's \<Rightarrow> (string, unit) result \<times> 's"

record mailer =
  mx_mail :: mail_config
  mx_transport :: smtp_transport

fun credentials_of :: "mail_config \<Rightarrow> (string \<times> string) option" where
  "credentials_of mail =
     (case (ml_username mail, ml_password mail) of (Some u, Some p) \<Rightarrow> Some (u, p) | _ \<Rightarrow> None)"

definition mailer_build ::
  "('e, 'x, 's) smtp_lib \<Rightarrow> app_config \<Rightarrow> (mail_error, mailer option) result" where
  "mailer_build lib config =
     (case as_mail (ap_auth config) of
        None \<Rightarrow> Ok None
      | Some mail \<Rightarrow>
          bind_result (if ml_tls mail = Tls_None then Ok () else map_err ME_Build (sl_relay lib (ml_tls mail) (ml_host mail))) (\<lambda>_.
          bind_result (map_err ME_Build (sl_templates lib)) (\<lambda>_.
          Ok (Some \<lparr>mx_mail = mail, mx_transport =
            \<lparr>sm_tls = ml_tls mail, sm_host = ml_host mail, sm_port = ml_port mail, sm_credentials = credentials_of mail\<rparr>\<rparr>))))"

definition mailer_from :: "('e, 'x, 's) smtp_lib \<Rightarrow> mailer \<Rightarrow> string option" where
  "mailer_from lib mailer =
     (let sender = ml_from (mx_mail mailer) in if sl_mailbox lib sender then Some sender else None)"

definition mailer_render :: "('e, 'x, 's) smtp_lib \<Rightarrow> string \<Rightarrow> 'x \<Rightarrow> string \<times> string" where
  "mailer_render lib name ctx =
     (unwrap_or [] (sl_render lib (name @ ''.html'') ctx), unwrap_or [] (sl_render lib (name @ ''.txt'') ctx))"

definition mailer_send ::
  "('e, 'x, 's) smtp_lib \<Rightarrow> mailer \<Rightarrow> string \<Rightarrow> string \<Rightarrow> string \<Rightarrow> string \<Rightarrow> 's \<Rightarrow> ((mail_error, unit) result \<times> 's) option" where
  "mailer_send lib mailer to_addr subject html text_of s =
     (case mailer_from lib mailer of
        None \<Rightarrow> None
      | Some sender \<Rightarrow>
          Some (case bind_result (map_err ME_Build (sl_address lib to_addr)) (\<lambda>_.
                  map_err ME_Build (sl_message lib sender to_addr subject text_of html)) of
             Inl e \<Rightarrow> (Err e, s)
           | Inr email \<Rightarrow>
               (case sl_send lib (mx_transport mailer) email s of (r, s') \<Rightarrow> (map_err ME_Transport r, s'))))"

section \<open>What follows\<close>

text \<open>
  The contract of the verification, and of a provider: an ID token is accepted only against the nonce it carries,
  and it carries the nonce of an authorization request. \<open>carried\<close> is the nonce in a token, \<open>sent\<close> the nonces that
  the authorization requests of the gateway were made with.
\<close>

definition verifies_nonce :: "('c, 'm, 'r, 'i, 'k) oidc_lib \<Rightarrow> ('i \<Rightarrow> string) \<Rightarrow> bool" where
  "verifies_nonce lib carried \<longleftrightarrow>
     (\<forall>client id_token nonce claims. ol_claims lib client id_token nonce = Ok claims \<longrightarrow> carried id_token = nonce)"

definition echoes_nonce :: "('c, 'm, 'r, 'i, 'k) oidc_lib \<Rightarrow> ('i \<Rightarrow> string) \<Rightarrow> string set \<Rightarrow> bool" where
  "echoes_nonce lib carried sent \<longleftrightarrow>
     (\<forall>client code reply id_token. ol_exchange lib client code = Ok reply \<longrightarrow> ol_id_token lib reply = Some id_token \<longrightarrow>
        carried id_token \<in> sent)"

lemma map_err_ok_iff: "map_err f r = Ok x \<longleftrightarrow> r = Ok x"
  by (cases r) auto

lemma ok_or_ok_iff: "ok_or e r = Ok x \<longleftrightarrow> r = Some x"
  by (cases r) auto

lemma exchange_code_nonce:
  assumes "exchange_code lib client code csrf nonce = Ok r" "verifies_nonce lib carried" "echoes_nonce lib carried sent"
  shows "nonce \<in> sent"
  using assms by (fastforce simp: exchange_code_def verifies_nonce_def echoes_nonce_def bind_result_ok_iff map_err_ok_iff ok_or_ok_iff)


definition sample_oidc :: "(unit, unit, string, string, string) oidc_lib" where
  "sample_oidc = \<lparr>ol_issuer = Ok, ol_discover = (\<lambda>_. Ok ()), ol_redirect = Ok, ol_client = (\<lambda>_ _ _ _. ()),
     ol_authorize = (\<lambda>_ _. (''url'', ''s1'', ''n1'')), ol_exchange = (\<lambda>_ _. Ok ''n1''), ol_id_token = Some,
     ol_claims = (\<lambda>_ tok n. if tok = n then Ok ''a@b.c'' else Err ''nonce mismatch''), ol_email = Some, ol_name = Some, ol_subject = id\<rparr>"

definition sample_provider :: oidc_provider_config where
  "sample_provider = \<lparr>oi_id = ''idp'', oi_issuer_url = ''i'', oi_client_id = ''c'', oi_client_secret = ''s'', oi_redirect_uri = ''r''\<rparr>"


text \<open>The state parameter of the callback is not looked at.\<close>

lemma exchange_ignores_state: "exchange_code lib client code csrf nonce = exchange_code lib client code csrf' nonce"
  by (simp add: exchange_code_def)

text \<open>
  A sender address that is no mailbox passes the construction of the mailer; every mail then panics, whatever the
  recipient. The password of the mail account is handed to an unencrypted connection as to any other.
\<close>

lemma bad_sender_found_late:
  assumes "mailer_build lib config = Ok (Some mailer)" "as_mail (ap_auth config) = Some mail"
  shows "(mailer_send lib mailer to_addr subject html text_of s = None \<longleftrightarrow> \<not> sl_mailbox lib (ml_from mail)) \<and>
    sm_credentials (mx_transport mailer) = credentials_of mail"
  using assms by (auto simp: mailer_build_def mailer_send_def mailer_from_def Let_def bind_result_ok_iff split: option.splits)

end
