(* ===== verification/Gateway_Service.thy ===== *)
theory Gateway_Service
  imports Gateway_Routes Chat_Proxy Wire_Json
begin

text \<open>
  The gateway as a whole. A request to \<open>/v1/chat/completions\<close> goes from the middleware of \<open>middleware.rs\<close> through the
  route table of \<open>lib.rs\<close> into the handler of \<open>proxy.rs\<close>: \<open>serve_chat\<close> composes the three, and
  \<open>chat_end_to_end\<close> is what holds of a request whose effects are seen at the other end. \<open>insert_request_log\<close> is the
  task that \<open>spawn_request_log\<close> starts, and \<open>live\<close> a gateway that serves requests concurrently while those tasks
  run: a request is checked against the tables of one moment, and its row arrives at a later one. Budgets are
  therefore bounded by the number of requests under way, the content of the two properties at the end.
\<close>

section \<open>A chat request from the socket to the provider\<close>

text \<open>
  The body arrives or not. \<open>model_scope\<close> reads it as JSON (\<open>parse\<close> is \<open>serde_json::from_slice\<close>) and hands the same
  bytes on to the handler.
\<close>

definition chat_route :: route where
  "chat_route = guarded_route ''/v1/chat/completions'' POST (WithKey ''chat_completions'') [ApiKeyAuth, ModelScope]"

definition serve_chat ::
  "server \<Rightarrow> (string \<Rightarrow> json option) \<Rightarrow> 's chat_env \<Rightarrow> chat_inputs \<Rightarrow> request_head \<Rightarrow> (string, string) result \<Rightarrow>
   key_cache \<Rightarrow> 's chat_gateway \<Rightarrow>
     (api_error, chat_reply) result option auth_outcome \<times> key_cache \<times> 's chat_gateway" where
  "serve_chat sv parse env inp rq body cache gw =
     (case dispatch sv rq (case body of Inl e \<Rightarrow> Err e | Inr bytes \<Rightarrow> Ok (parse bytes)) chat_route cache of
        (Rejected status, cache) \<Rightarrow> (Rejected status, cache, gw)
      | (Panicked, cache) \<Rightarrow> (Panicked, cache, gw)
      | (Authenticated ext, cache) \<Rightarrow>
          (case ex_key ext of
             None \<Rightarrow> (Rejected (sv_missing sv), cache, gw)
           | Some key \<Rightarrow>
               (case chat_completions env inp key body gw of (r, gw) \<Rightarrow> (Authenticated r, cache, gw))))"

lemma chat_route_in: "chat_route \<in> set build_app"
  unfolding chat_route_def by (rule sample_routes)

lemma dispatch_chat_route:
  "dispatch sv rq body chat_route cache = (Authenticated ext, cache') \<Longrightarrow>
   \<exists>key. ex_key ext = Some key \<and> model_scope key body = Ok () \<and>
     api_key_auth (sv_verify sv) (sv_now0 sv) (sv_now sv) (sv_fault sv) (sv_keys sv) rq cache = (Authenticated key, cache')"
  by (auto simp: run_iffs chat_route_def guarded_route_def)

lemma serve_chat_cases:
  assumes "serve_chat sv parse env inp rq body cache gw = (out, cache', gw')"
  obtains (turned_away) "gw' = gw"
  | (called) key where
      "api_key_auth (sv_verify sv) (sv_now0 sv) (sv_now sv) (sv_fault sv) (sv_keys sv) rq cache = (Authenticated key, cache')"
      "model_scope key (case body of Inl e \<Rightarrow> Err e | Inr bytes \<Rightarrow> Ok (parse bytes)) = Ok ()"
      "gw' = snd (chat_completions env inp key body gw)"
proof -
  let ?b = "case body of Inl e \<Rightarrow> Err e | Inr bytes \<Rightarrow> Ok (parse bytes)"
  obtain r c where d: "dispatch sv rq ?b chat_route cache = (r, c)" by fastforce
  show ?thesis
  proof (cases r)
    case (Authenticated ext)
    from dispatch_chat_route [OF d [unfolded this]] obtain key where "ex_key ext = Some key"
      "model_scope key ?b = Ok ()" "api_key_auth (sv_verify sv) (sv_now0 sv) (sv_now sv) (sv_fault sv) (sv_keys sv) rq cache =
        (Authenticated key, c)" by blast
    then show ?thesis using assms d Authenticated
      by (intro called) (auto simp: serve_chat_def split: prod.splits)
  qed (use assms d in \<open>auto intro: turned_away simp: serve_chat_def\<close>)
qed

subsection \<open>What the scope check sees of the body\<close>

lemma json_get_model:
  "de_request (JObject m) = Some creq \<Longrightarrow> Option.bind (json_get ''model'' (JObject m)) as_str = Some (cr_model creq)"
  by (auto simp: de_request_def req_def bind_eq_Some_conv de_string_def)

lemma model_scope_object:
  "model_scope key (Ok (Some (JObject m))) = Ok () \<Longrightarrow> de_request (JObject m) = Some creq \<Longrightarrow> is_model_allowed key (cr_model creq)"
  using json_get_model [of m creq]
  by (auto simp: model_scope_def extract_model_from_body_def split: if_splits)

text \<open>
  The body with the values of the fields in the order of the struct instead of their names, \<open>null\<close> for those left out.
  A derived deserializer reads either.
\<close>

definition positional :: "(string \<times> json) list \<Rightarrow> json" where
  "positional m = JArray (map (\<lambda>k. unwrap_or JNull (map_of m k)) request_fields)"

lemma de_struct_positional:
  "de_struct request_fields (positional m) =
     Some (\<lambda>k. if k \<in> set request_fields then Some (unwrap_or JNull (map_of m k)) else None)"
  by (simp add: positional_def map_of_zip_map)

lemma opt_positional:
  "k \<in> set request_fields \<Longrightarrow>
   opt de (\<lambda>k. if k \<in> set request_fields then Some (unwrap_or JNull (map_of m k)) else None) k = opt de (map_of m) k"
  by (cases "map_of m k") (simp_all add: opt_def Wire_Json.de_opt_def)

lemma req_positional:
  "k \<in> set request_fields \<Longrightarrow> req de (map_of m) k = Some x \<Longrightarrow>
   req de (\<lambda>k. if k \<in> set request_fields then Some (unwrap_or JNull (map_of m k)) else None) k = Some x"
  by (cases "map_of m k") (simp_all add: req_def)

lemma request_fields_in:
  "''model'' \<in> set request_fields" "''messages'' \<in> set request_fields"
  "''stream'' \<in> set request_fields" "''temperature'' \<in> set request_fields"
  "''max_tokens'' \<in> set request_fields" "''top_p'' \<in> set request_fields" "''top_k'' \<in> set request_fields"
  "''frequency_penalty'' \<in> set request_fields" "''presence_penalty'' \<in> set request_fields"
  "''repetition_penalty'' \<in> set request_fields" "''stop'' \<in> set request_fields" "''seed'' \<in> set request_fields"
  "''n'' \<in> set request_fields" "''logprobs'' \<in> set request_fields" "''top_logprobs'' \<in> set request_fields"
  "''logit_bias'' \<in> set request_fields" "''user'' \<in> set request_fields" "''tools'' \<in> set request_fields"
  "''tool_choice'' \<in> set request_fields" "''parallel_tool_calls'' \<in> set request_fields"
  "''response_format'' \<in> set request_fields" "''reasoning'' \<in> set request_fields"
  by (simp_all add: request_fields_def)

lemma de_request_positional:
  assumes "de_request (JObject m) = Some creq"
  shows "de_request (positional m) = Some creq"
proof -
  obtain model msgs where r: "req de_string (map_of m) ''model'' = Some model"
    "req (de_list de_chat_message) (map_of m) ''messages'' = Some msgs"
    using assms by (auto simp: de_request_def bind_eq_Some_conv)
  show ?thesis
    using assms r req_positional [OF request_fields_in(1) r(1)] req_positional [OF request_fields_in(2) r(2)]
    by (simp only: de_request_def de_struct_positional de_struct.simps Option.bind.simps opt_positional request_fields_in)
qed

section \<open>The row of the request log\<close>

text \<open>
  The task started by \<open>spawn_request_log\<close>. The database gives the row its identifier and time; the outcome of the
  statement is ignored. \<open>attempt_number\<close> and \<open>fallback_triggered\<close> are columns no query reads.
\<close>

definition log_row :: "uuid \<Rightarrow> datetime \<Rightarrow> request_log_entry \<Rightarrow> request_log" where
  "log_row new_id now e =
     \<lparr>lg_id = new_id, lg_api_key_id = Some (le_api_key_id e), lg_user_id = Some (le_user_id e),
      lg_organization_id = le_organization_id e, lg_team_id = le_team_id e, lg_model = le_model e,
      lg_provider = le_provider e, lg_provider_model_id = le_provider_model_id e, lg_capability = le_capability e,
      lg_duration_ms = le_duration_ms e, lg_streamed = le_streamed e, lg_status = le_status e,
      lg_cost_usd = map_option (numeric_round 6) (le_cost_usd e), lg_tags = le_tags e, lg_created_at = now,
      lg_tool_calls_count = map_option of_nat (le_tool_calls_count e),
      lg_agentic_iteration = map_option of_nat (le_agentic_iteration e)\<rparr>"

definition insert_request_log :: "stmt \<Rightarrow> uuid \<Rightarrow> datetime \<Rightarrow> request_log_entry \<Rightarrow> accounts \<Rightarrow> accounts" where
  "insert_request_log st new_id now e ac =
     snd (exec_stmt (numeric_stmt 12 6 [le_cost_usd e] st)
       (ac\<lparr>ac_request_logs := ac_request_logs ac @ [log_row new_id now e]\<rparr>) ac)"

lemma insert_request_log_cases:
  obtains (stored) "insert_request_log st new_id now e ac =
      ac\<lparr>ac_request_logs := ac_request_logs ac @ [log_row new_id now e]\<rparr>"
  | (lost) "insert_request_log st new_id now e ac = ac"
proof -
  obtain f v where "numeric_stmt 12 6 [le_cost_usd e] st = (f, v)" by fastforce
  then have "insert_request_log st new_id now e ac = ac\<lparr>ac_request_logs := ac_request_logs ac @ [log_row new_id now e]\<rparr> \<or>
      insert_request_log st new_id now e ac = ac"
    by (cases f) (simp_all add: insert_request_log_def exec_stmt_def)
  then show ?thesis using stored lost by blast
qed

lemma numeric_round_nonneg: "0 \<le> x \<Longrightarrow> 0 \<le> numeric_round s x"
  by (simp add: numeric_round_def sgn_if)

lemma numeric_round_pos: "0 \<le> x \<Longrightarrow> numeric_round s x = of_int \<lfloor>x * 10 ^ s + 1 / 2\<rfloor> / 10 ^ s"
  by (cases "x = 0") (simp_all add: numeric_round_def floor_eq_iff)

lemma numeric_round_mono: "0 \<le> x \<Longrightarrow> x \<le> y \<Longrightarrow> numeric_round s x \<le> numeric_round s y"
  by (simp add: numeric_round_pos divide_right_mono floor_mono mult_right_mono)

section \<open>Requests under way\<close>

text \<open>The endpoints whose handlers check the budgets, and what a call of one changes.\<close>

datatype gateway_call = ChatCall "(string, string) result" | ModalityCall modality_request

definition run_call :: "'s chat_env \<Rightarrow> chat_inputs \<Rightarrow> api_key \<Rightarrow> gateway_call \<Rightarrow> 's chat_gateway \<Rightarrow> 's chat_gateway" where
  "run_call env inp key c gw =
     (case c of
        ChatCall body \<Rightarrow> snd (chat_completions env inp key body gw)
      | ModalityCall rq \<Rightarrow>
          snd (modality_router (gateway_env.truncate env) (request_inputs.truncate inp) key rq gw))"

text \<open>The row names the caller, and only a caller within both budgets gets one.\<close>

definition charged_to :: "api_key \<Rightarrow> request_log_entry \<Rightarrow> bool" where
  "charged_to key e \<longleftrightarrow> le_user_id e = ak_user_id key \<and> le_organization_id e = ak_organization_id key \<and>
     le_team_id e = ak_team_id key"

definition budgets_admit :: "accounts \<Rightarrow> api_key \<Rightarrow> bool" where
  "budgets_admit ac key \<longleftrightarrow>
     check_end_user_budget None None (ak_user_id key) (ak_organization_id key) (ac_end_users ac) (ac_request_logs ac) = Ok () \<and>
     (\<forall>t. ak_team_id key = Some t \<longrightarrow> check_team_budget None None t (ac_teams ac) (ac_request_logs ac) = Ok ())"

lemma within_budget_fault: "within_budget l flt x = Ok () \<Longrightarrow> within_budget l None x = Ok ()"
  by (auto simp: within_budget_def split: option.splits if_splits)

lemma end_user_budget_fault:
  "check_end_user_budget f1 f2 u oid us logs = Ok () \<Longrightarrow> check_end_user_budget None None u oid us logs = Ok ()"
  by (auto simp: check_end_user_budget_def intro: within_budget_fault split: option.splits list.splits)

lemma team_budget_fault:
  "check_team_budget f1 f2 t ts logs = Ok () \<Longrightarrow> check_team_budget None None t ts logs = Ok ()"
  by (auto simp: check_team_budget_def intro: within_budget_fault split: option.splits list.splits)

lemma budgets_admitI:
  assumes "check_user_budget (gateway_env.truncate env) flts key = Ok ()"
    and "check_key_team_budget (gateway_env.truncate env) flts' key = Ok ()"
  shows "budgets_admit (ge_accounts env) key"
  using assms unfolding budgets_admit_def check_user_budget_def check_key_team_budget_def
  by (auto simp: gateway_env.truncate_def intro: end_user_budget_fault team_budget_fault)

lemma chat_queues:
  "gw_spawned (snd (chat_completions env inp key body gw)) = gw_spawned gw \<or>
   (\<exists>e. gw_spawned (snd (chat_completions env inp key body gw)) = gw_spawned gw @ [e] \<and> charged_to key e)"
  using chat_logged_row [of env inp key body gw]
  by (auto simp: charged_to_def chat_log_entry_def split: option.splits sum.splits)

lemma run_call_cases:
  obtains (none) "gw_spawned (run_call env inp key c gw) = gw_spawned gw"
  | (one) e where "gw_spawned (run_call env inp key c gw) = gw_spawned gw @ [e]" "charged_to key e"
      "budgets_admit (ge_accounts env) key"
proof (cases c)
  case (ChatCall body)
  consider "gw_spawned (run_call env inp key c gw) = gw_spawned gw" |
    e where "gw_spawned (run_call env inp key c gw) = gw_spawned gw @ [e]" "charged_to key e"
    using chat_queues [of env inp key body gw] ChatCall by (auto simp: run_call_def)
  then show ?thesis
  proof cases
    case (2 e)
    then have "budgets_admit (ge_accounts env) key"
      using chat_admission [of env inp key body gw] ChatCall by (auto simp: run_call_def intro: budgets_admitI)
    with 2 show ?thesis by (rule one)
  qed (rule none)
next
  case (ModalityCall rq)
  let ?h = "modality_router (gateway_env.truncate env) (request_inputs.truncate inp) key rq gw"
  have h: "handled (gateway_env.truncate env) (request_inputs.truncate inp) key gw ?h" by (rule modality_router_handled)
  consider "gw_spawned (snd ?h) = gw_spawned gw" | e where "gw_spawned (snd ?h) = gw_spawned gw @ [e]" "charged_to key e"
    using h by (auto simp: handled_def logged_def log_entry_def charged_to_def split: option.splits sum.splits)
  then show ?thesis
  proof cases
    case (2 e)
    then have "budgets_admit (ge_accounts env) key"
      using h by (auto simp: handled_def admitted_def intro: budgets_admitI)
    with 2 show ?thesis using ModalityCall by (intro one) (simp_all add: run_call_def)
  qed (use ModalityCall none in \<open>simp add: run_call_def\<close>)
qed

text \<open>
  The gateway while it serves: the tables, for each request under way the tables as its checks find them, and the
  rows whose insertion has not run yet. At most \<open>n\<close> requests and insertions are under way at a time, and a request
  costs at most \<open>c\<close>. Other statements may run at any time, on the tables other than the ones the budgets are read from.
\<close>

record live =
  lv_accounts :: accounts
  lv_open :: "accounts list"
  lv_queued :: "request_log_entry list"

definition cost_ok :: "decimal \<Rightarrow> request_log_entry \<Rightarrow> bool" where
  "cost_ok c e \<longleftrightarrow> (case le_cost_usd e of None \<Rightarrow> True | Some x \<Rightarrow> 0 \<le> x \<and> x \<le> c)"

inductive serving :: "'s itself \<Rightarrow> nat \<Rightarrow> decimal \<Rightarrow> accounts \<Rightarrow> live \<Rightarrow> bool" for ty n c ac0 where
  start: "serving ty n c ac0 \<lparr>lv_accounts = ac0, lv_open = [], lv_queued = []\<rparr>"
| arrive: "serving ty n c ac0 lv \<Longrightarrow> length (lv_open lv) + length (lv_queued lv) < n \<Longrightarrow>
     serving ty n c ac0 (lv\<lparr>lv_open := lv_open lv @ [lv_accounts lv]\<rparr>)"
| finish: "serving ty n c ac0 lv \<Longrightarrow> lv_open lv = xs @ ge_accounts env # ys \<Longrightarrow>
     gw_spawned (run_call (env :: 's chat_env) inp key call gw) = gw_spawned gw @ es \<Longrightarrow> list_all (cost_ok c) es \<Longrightarrow>
     serving ty n c ac0 (lv\<lparr>lv_open := xs @ ys, lv_queued := lv_queued lv @ es\<rparr>)"
| store: "serving ty n c ac0 lv \<Longrightarrow> lv_queued lv = xs @ e # ys \<Longrightarrow>
     serving ty n c ac0 (lv\<lparr>lv_accounts := insert_request_log st new_id now e (lv_accounts lv), lv_queued := xs @ ys\<rparr>)"
| other: "serving ty n c ac0 lv \<Longrightarrow> ac_request_logs ac = ac_request_logs (lv_accounts lv) \<Longrightarrow>
     ac_end_users ac = ac_end_users (lv_accounts lv) \<Longrightarrow> ac_teams ac = ac_teams (lv_accounts lv) \<Longrightarrow>
     serving ty n c ac0 (lv\<lparr>lv_accounts := ac\<rparr>)"

text \<open>
  A budget: the rows it counts, the keys it applies to, and its limit. The two laws say that a key's rows are counted
  by the budgets that apply to the key, and that the checks let a key pass only below the limit.
\<close>

definition entry_cost :: "request_log_entry \<Rightarrow> decimal" where
  "entry_cost e = unwrap_or 0 (map_option (numeric_round 6) (le_cost_usd e))"

lemma row_cost: "unwrap_or 0 (lg_cost_usd (log_row i t e)) = entry_cost e"
  by (simp add: log_row_def entry_cost_def)

lemma entry_cost_bounds: "cost_ok c e \<Longrightarrow> 0 \<le> c \<Longrightarrow> 0 \<le> entry_cost e \<and> entry_cost e \<le> numeric_round 6 c"
  by (auto simp: cost_ok_def entry_cost_def numeric_round_nonneg numeric_round_mono split: option.splits)

locale budget =
  fixes sel :: "request_log \<Rightarrow> bool" and applies :: "api_key \<Rightarrow> bool" and limit :: "end_user list \<Rightarrow> team list \<Rightarrow> decimal option"
  assumes counts: "charged_to key e \<Longrightarrow> sel (log_row new_id now e) \<longleftrightarrow> applies key"
    and gate: "budgets_admit ac key \<Longrightarrow> applies key \<Longrightarrow> limit (ac_end_users ac) (ac_teams ac) = Some b \<Longrightarrow>
      logged_cost sel (ac_request_logs ac) < b"
begin

definition spent :: "accounts \<Rightarrow> decimal" where
  "spent ac = logged_cost sel (ac_request_logs ac)"

definition due :: "request_log_entry \<Rightarrow> decimal" where
  "due e = (if sel (log_row 0 0 e) then entry_cost e else 0)"

text \<open>What has been spent, what the queued rows will add, and what the admitted requests may still add.\<close>

definition exposure :: "decimal \<Rightarrow> decimal \<Rightarrow> live \<Rightarrow> decimal" where
  "exposure b c lv = spent (lv_accounts lv) + sum_list (map due (lv_queued lv)) +
     of_nat (length (filter (\<lambda>ac. spent ac < b) (lv_open lv))) * numeric_round 6 c"

definition sound :: "nat \<Rightarrow> decimal \<Rightarrow> decimal \<Rightarrow> accounts \<Rightarrow> live \<Rightarrow> bool" where
  "sound n b c ac0 lv \<longleftrightarrow>
     list_all (\<lambda>ac. ac_end_users ac = ac_end_users ac0 \<and> ac_teams ac = ac_teams ac0) (lv_accounts lv # lv_open lv) \<and>
     list_all (cost_ok c) (lv_queued lv) \<and> exposure b c lv \<le> b + of_nat n * numeric_round 6 c"

lemma sel_row: "sel (log_row i t e) \<longleftrightarrow> sel (log_row 0 0 e)"
proof -
  have "charged_to (undefined\<lparr>ak_user_id := le_user_id e, ak_organization_id := le_organization_id e, ak_team_id := le_team_id e\<rparr>) e"
    by (simp add: charged_to_def)
  note k = this
  show ?thesis using counts [OF k, of i t] counts [OF k, of 0 0] by simp
qed

lemma due_bounds: "cost_ok c e \<Longrightarrow> 0 \<le> c \<Longrightarrow> 0 \<le> due e \<and> due e \<le> numeric_round 6 c"
  using entry_cost_bounds [of c e] numeric_round_nonneg [of c 6] by (auto simp: due_def)

lemma sum_due_bounds:
  assumes "list_all (cost_ok c) es" "0 \<le> c"
  shows "0 \<le> sum_list (map due es)" "sum_list (map due es) \<le> of_nat (length es) * numeric_round 6 c"
  using assms
proof (induction es)
  case (Cons e es)
  { case 1 then show ?case using Cons due_bounds [of c e] by simp }
  { case 2 then show ?case using Cons due_bounds [of c e] by (simp add: algebra_simps) }
qed simp_all

lemma spent_insert:
  assumes "cost_ok c e" "0 \<le> c"
  shows "spent (insert_request_log st i t e ac) \<le> spent ac + due e"
  using due_bounds [OF assms]
  by (cases rule: insert_request_log_cases [of st i t e ac])
    (simp_all add: spent_def logged_cost_snoc due_def sel_row [of i t] row_cost)

lemma insert_keeps:
  "ac_end_users (insert_request_log st i t e ac) = ac_end_users ac" "ac_teams (insert_request_log st i t e ac) = ac_teams ac"
  by (cases rule: insert_request_log_cases [of st i t e ac]; simp)+

lemma sound_arrive:
  assumes "sound n b c ac0 lv" "0 \<le> c" "length (lv_open lv) + length (lv_queued lv) < n"
  shows "sound n b c ac0 (lv\<lparr>lv_open := lv_open lv @ [lv_accounts lv]\<rparr>)"
proof (cases "spent (lv_accounts lv) < b")
  case True
  let ?r = "numeric_round 6 c"
  let ?k = "length (filter (\<lambda>ac. spent ac < b) (lv_open lv))"
  have "?k \<le> length (lv_open lv)" by (rule length_filter_le)
  then have "?k + 1 + length (lv_queued lv) \<le> n" using assms(3) by linarith
  then have "(of_nat (?k + 1 + length (lv_queued lv)) :: decimal) \<le> of_nat n" by (simp only: of_nat_le_iff)
  then have "of_nat (?k + 1 + length (lv_queued lv)) * ?r \<le> of_nat n * ?r"
    using numeric_round_nonneg [OF assms(2)] by (rule mult_right_mono)
  moreover have "sum_list (map due (lv_queued lv)) \<le> of_nat (length (lv_queued lv)) * ?r"
    using assms(1,2) by (intro sum_due_bounds) (auto simp: sound_def)
  ultimately have "exposure b c (lv\<lparr>lv_open := lv_open lv @ [lv_accounts lv]\<rparr>) \<le> b + of_nat n * ?r"
    using True by (simp add: exposure_def algebra_simps)
  then show ?thesis using assms(1) by (simp add: sound_def)
qed (use assms in \<open>simp add: sound_def exposure_def\<close>)

lemma due_applies: "charged_to key e \<Longrightarrow> \<not> applies key \<Longrightarrow> due e = 0"
  using counts [of key e 0 0] by (simp add: due_def)

lemma sound_finish:
  assumes "sound n b c ac0 lv" "0 \<le> c" "lv_open lv = xs @ ge_accounts env # ys"
    and "gw_spawned (run_call env inp key call gw) = gw_spawned gw @ es" "list_all (cost_ok c) es"
    and "limit (ac_end_users ac0) (ac_teams ac0) = Some b"
  shows "sound n b c ac0 (lv\<lparr>lv_open := xs @ ys, lv_queued := lv_queued lv @ es\<rparr>)"
proof -
  let ?r = "numeric_round 6 c"
  have r: "0 \<le> ?r" using assms(2) by (rule numeric_round_nonneg)
  have "sum_list (map due es) \<le> (if spent (ge_accounts env) < b then ?r else 0)"
  proof (cases rule: run_call_cases [of env inp key call gw])
    case none
    then show ?thesis using assms(4) r by simp
  next
    case (one e)
    then have es: "es = [e]" using assms(4) by simp
    show ?thesis
    proof (cases "applies key")
      case True
      then have "spent (ge_accounts env) < b"
        using gate [OF one(3)] assms(1,3,6) by (simp add: sound_def spent_def)
      then show ?thesis using es assms(2,5) due_bounds [of c e] by simp
    next
      case False
      then show ?thesis using es due_applies [OF one(2)] r by simp
    qed
  qed
  then have "exposure b c (lv\<lparr>lv_open := xs @ ys, lv_queued := lv_queued lv @ es\<rparr>) \<le> exposure b c lv"
    using assms(3) by (auto simp: exposure_def algebra_simps split: if_splits)
  then show ?thesis using assms(1,3,5) by (simp add: sound_def)
qed

lemma sound_store:
  assumes "sound n b c ac0 lv" "0 \<le> c" "lv_queued lv = xs @ e # ys"
  shows "sound n b c ac0 (lv\<lparr>lv_accounts := insert_request_log st i t e (lv_accounts lv), lv_queued := xs @ ys\<rparr>)"
proof -
  let ?lv = "lv\<lparr>lv_accounts := insert_request_log st i t e (lv_accounts lv), lv_queued := xs @ ys\<rparr>"
  have "cost_ok c e" using assms(1,3) by (simp add: sound_def)
  then have "exposure b c ?lv \<le> exposure b c lv"
    using spent_insert [OF _ assms(2), of e st i t "lv_accounts lv"] assms(3) by (simp add: exposure_def)
  then show ?thesis using assms(1,3) by (simp add: sound_def insert_keeps)
qed

lemma serving_sound:
  fixes ty :: "'s itself"
  assumes "serving ty n c ac0 lv" "0 \<le> c" "spent ac0 \<le> b" "limit (ac_end_users ac0) (ac_teams ac0) = Some b"
  shows "sound n b c ac0 lv"
  using assms(1)
proof induction
  case start
  have "0 \<le> of_nat n * numeric_round 6 c" using assms(2) by (simp add: numeric_round_nonneg)
  then show ?case using assms(3) by (simp add: sound_def exposure_def)
next
  case (arrive lv)
  then show ?case using assms(2) by (intro sound_arrive) 
next
  case (finish lv xs env ys inp key call gw es)
  then show ?case using assms(2,4) by (intro sound_finish)
next
  case (store lv xs e ys st new_id now)
  then show ?case using assms(2) by (intro sound_store)
next
  case (other lv ac)
  then show ?case by (simp add: sound_def exposure_def spent_def)
qed

lemma serving_bound:
  fixes ty :: "'s itself"
  assumes "serving ty n c ac0 lv" "0 \<le> c" "spent ac0 \<le> b" "limit (ac_end_users ac0) (ac_teams ac0) = Some b"
  shows "spent (lv_accounts lv) \<le> b + of_nat n * numeric_round 6 c"
proof -
  have s: "sound n b c ac0 lv" using assms by (rule serving_sound)
  then have "0 \<le> sum_list (map due (lv_queued lv))" using assms(2) by (intro sum_due_bounds) (simp_all add: sound_def)
  moreover have "0 \<le> of_nat (length (filter (\<lambda>ac. spent ac < b) (lv_open lv))) * numeric_round 6 c"
    using assms(2) by (simp add: numeric_round_nonneg)
  ultimately show ?thesis using s by (simp add: sound_def exposure_def)
qed

end

definition user_limit :: "uuid \<Rightarrow> uuid \<Rightarrow> end_user list \<Rightarrow> decimal option" where
  "user_limit u oid us =
     (case filter (\<lambda>x. eu_user_id x = u \<and> eu_organization_id x = oid) us of [] \<Rightarrow> None | x # _ \<Rightarrow> eu_max_budget_usd x)"

definition team_limit :: "uuid \<Rightarrow> team list \<Rightarrow> decimal option" where
  "team_limit t ts = (case filter (\<lambda>x. tm_id x = t) ts of [] \<Rightarrow> None | x # _ \<Rightarrow> tm_max_budget_usd x)"

lemma within_budget_below: "within_budget (Some b) None x = Ok () \<longleftrightarrow> x < b"
  by (simp add: within_budget_def not_le)

interpretation user_budget: budget "\<lambda>l. lg_user_id l = Some u \<and> lg_organization_id l = oid"
    "\<lambda>key. ak_user_id key = u \<and> ak_organization_id key = oid" "\<lambda>us ts. user_limit u oid us" for u oid
  by unfold_locales
    (auto simp: charged_to_def log_row_def budgets_admit_def check_end_user_budget_def user_limit_def within_budget_below
      split: list.splits)

interpretation team_budget: budget "\<lambda>l. lg_team_id l = Some t" "\<lambda>key. ak_team_id key = Some t" "\<lambda>us ts. team_limit t ts" for t
  by unfold_locales
    (auto simp: charged_to_def log_row_def budgets_admit_def check_team_budget_def team_limit_def within_budget_below
      split: list.splits)

section \<open>Properties\<close>


text \<open>
  C32. The restriction of a key to some models can be sidestepped. Sent as an array of the values in the order of the
  fields, the same chat request is read by the handler and not by the check: whatever models the key allows, the
  handler is called, exactly as for a key without the restriction.
\<close>

theorem array_body_skips_scope:
  assumes "api_key_auth (sv_verify sv) (sv_now0 sv) (sv_now sv) (sv_fault sv) (sv_keys sv) rq cache = (Authenticated key, cache')"
    and "de_request (JObject m) = Some creq" "parse bytes = Some (positional m)"
    and "chat_completions env inp key (Ok bytes) gw = (r, gw')"
  shows "de_request (positional m) = Some creq \<and>
    serve_chat sv parse env inp rq (Ok bytes) cache gw = (Authenticated r, cache', gw')"
proof -
  have "model_scope key (Ok (Some (positional m))) = Ok ()"
    by (simp add: model_scope_def extract_model_from_body_def positional_def)
  then have "dispatch sv rq (Ok (parse bytes)) chat_route cache =
      (Authenticated \<lparr>ex_key = Some key, ex_claims = None\<rparr>, cache')"
    using assms(1,3) by (simp add: run_iffs chat_route_def guarded_route_def)
  then show ?thesis using assms(4) de_request_positional [OF assms(2)] by (simp add: serve_chat_def)
qed


lemma team_budget_overlapping:
  assumes "serving (ty :: 's itself) n c ac0 lv" "0 \<le> c" "team_limit t (ac_teams ac0) = Some b"
    and "logged_cost (\<lambda>l. lg_team_id l = Some t) (ac_request_logs ac0) \<le> b"
  shows "logged_cost (\<lambda>l. lg_team_id l = Some t) (ac_request_logs (lv_accounts lv)) \<le> b + of_nat n * numeric_round 6 c"
  using team_budget.serving_bound [OF assms(1,2)] assms(3,4) unfolding team_budget.spent_def by blast

section \<open>An instance\<close>

text \<open>
  A gateway with one user, who has a budget of one dollar, one key of theirs, and a provider that embeds a million
  tokens at a time and answers a chat request with nothing; it counts the calls.
\<close>

definition embedding_adapter :: "nat adapter" where
  "embedding_adapter = counting_adapter\<lparr>
     ad_chat := (\<lambda>_ _ _ n. (Ok (PR_Chat \<lparr>cp_id = [], cp_object = [], cp_created = 0, cp_model = ''c'', cp_choices = [],
       cp_usage = None\<rparr>, usage_report_default), Suc n)),
     ad_embedding := (\<lambda>_ _ _ n. (Ok (PR_Embedding \<lparr>ep_object = ''list'', ep_data = [],
     ep_model = ''m'', ep_usage = \<lparr>us_prompt_tokens = 1000000, us_completion_tokens = 0, us_total_tokens = 1000000,
       us_prompt_tokens_details = None, us_completion_tokens_details = None\<rparr>\<rparr>,
     usage_report_default\<lparr>ur_embedding_tokens := Some 1000000\<rparr>), Suc n))\<rparr>"

definition spend_accounts :: accounts where
  "spend_accounts = (ge_accounts sample_env)
     \<lparr>ac_users := [\<lparr>usr_id = 1, usr_organization_id = Some 1, usr_email = ''u'', usr_name = None, usr_role = ''user'',
        usr_sso_provider = None, usr_sso_subject = None, usr_password_hash = None, usr_password_changed_at = None,
        usr_password_expires_at = None, usr_must_change_password = False, usr_created_at = 0\<rparr>],
      ac_api_keys := [Gateway_Auth.sample_key],
      ac_end_users := [\<lparr>eu_id = 2, eu_organization_id = 1, eu_user_id = 1, eu_budget_usd = None,
        eu_max_budget_usd = Some 1, eu_created_at = 0, eu_updated_at = 0\<rparr>]\<rparr>"

definition chat_body :: "(string \<times> json) list" where
  "chat_body = [(''model'', JString ''acme/c''), (''messages'', JArray [])]"

definition service_env :: "nat chat_env" where
  "service_env = gateway_env.extend
     (sample_env\<lparr>ge_router := (ge_router sample_env)\<lparr>ro_registry := (\<lambda>_. Some embedding_adapter)\<rparr>,
        ge_catalog := \<lparr>ct_profiles = [sample_profile],
          ct_models = [\<lparr>m_id = 4, m_public_id = ''e'', m_provider = ''openai'', m_provider_profile_id = 1,
            m_provider_model_id = ''e'', m_capabilities = [''embedding''], m_pricing = sample_prices, m_config = JObject [],
            m_created_at = 0\<rparr>], ct_aliases = []\<rparr>,
        ge_accounts := spend_accounts\<rparr>)
     (chat_env.fields sample_stream_env (\<lambda>_. Err ''no schema'') \<lparr>al_max_iterations = 1, al_iteration_timeout_secs = 1\<rparr>
        (\<lambda>_ _ s. Some s) False True (\<lambda>_. MX_SendError ''down'') (\<lambda>_. de_request (JObject chat_body)))"

definition service_inputs :: chat_inputs where
  "service_inputs = request_inputs.extend sample_inputs
     (chat_inputs.fields ''r'' None None (\<lambda>_. None) (\<lambda>_. None) (''id'', 0) 0)"

definition service_gateway :: "nat chat_gateway" where
  "service_gateway = gateway.extend idle_gateway
     (chat_gateway.fields registry_new \<lparr>go_pii_masker = None, go_config = guardrails_config_default\<rparr>
        \<lparr>mt_requests = (\<lambda>_. 0), mt_durations = [], mt_tokens = (\<lambda>_. 0), mt_active = (\<lambda>_. 0)\<rparr>)"

lemmas service_defs = service_env_def service_inputs_def service_gateway_def embedding_adapter_def spend_accounts_def
  gateway_env.defs chat_env.defs request_inputs.defs chat_inputs.defs gateway.defs chat_gateway.defs

definition embedding_call :: gateway_call where
  "embedding_call = ModalityCall (POST_embeddings \<lparr>er_model = ''acme/e'', er_input = [''x'']\<rparr>)"

lemma upto_four: "[0..<4] = [0, 1, 2, 3]"
  by (simp add: upt_rec)

lemma embedding_call_queues:
  "\<exists>e. gw_spawned (run_call service_env service_inputs Gateway_Auth.sample_key embedding_call service_gateway) = [e] \<and>
     charged_to Gateway_Auth.sample_key e \<and> le_cost_usd e = Some (5 / 2) \<and> le_api_key_id e = 5"
  by (simp add: run_call_def embedding_call_def service_defs embeddings_def call_embedding_def gateway_eval Let_def
      upto_four rl_new_def Gateway_Auth.sample_key_def increment_in_flight_def case_prod_beta within_budget_def
      logged_cost_def List.map_filter_def charged_to_def log_entry_def compute_embedding_cost_def decimal_field_def
      sample_prices_def json_get_obj INPUT_PRICE_PER_MILLION_def OUTPUT_PRICE_PER_MILLION_def exact_lib_def million_def)

lemma two_and_a_half: "numeric_round 6 (5 / 2) = 5 / 2"
  by (simp add: numeric_round_pos floor_eq_iff)

lemma spend_accounts_ok:
  "list_all (\<lambda>l. lg_user_id l = Some 1 \<and> lg_api_key_id l = Some 5 \<and> lg_organization_id l = 1 \<and> lg_team_id l = None) logs \<Longrightarrow>
   accounts_ok (spend_accounts\<lparr>ac_request_logs := logs\<rparr>)"
  by (auto simp: accounts_ok_def users_ok_def memberships_ok_def api_keys_ok_def user_rows_ok_def refers_def refers_opt_def
      spend_accounts_def sample_env_def Gateway_Auth.sample_key_def user_role_from_str_def List.map_filter_def sso_identity_def
      list_all_iff)

lemma spend_accounts_logs [simp]: "ac_request_logs spend_accounts = []" "ge_accounts service_env = spend_accounts"
    "spend_accounts\<lparr>ac_request_logs := []\<rparr> = spend_accounts"
  by (simp_all add: service_defs sample_env_def)

lemma spend_user_limit: "user_limit 1 1 (ac_end_users spend_accounts) = Some 1"
  by (simp add: user_limit_def spend_accounts_def)

lemma logged_cost_Nil: "logged_cost sel [] = 0"
  by (simp add: logged_cost_def List.map_filter_def)


text \<open>A request of the user for a model the provider does not answer for: the provider is called all the same.\<close>

definition service_server :: server where
  "service_server = sample_server\<lparr>sv_keys := [Gateway_Auth.sample_key]\<rparr>"

lemma de_chat_body: "\<exists>creq. de_request (JObject chat_body) = Some creq \<and> cr_model creq = ''acme/c'' \<and> cr_messages creq = [] \<and>
    cr_tools creq = None \<and> cr_stream creq = None \<and> cr_max_tokens creq = None \<and> cr_response_format creq = None"
  by (simp add: de_request_def chat_body_def req_def opt_def de_string_def)

lemma service_chat_calls:
  "gw_world (snd (chat_completions service_env service_inputs Gateway_Auth.sample_key (Ok []) service_gateway)) \<noteq> 0"
proof -
  obtain creq where creq: "de_request (JObject chat_body) = Some creq" "cr_model creq = ''acme/c''" "cr_messages creq = []"
    "cr_tools creq = None" "cr_stream creq = None" "cr_max_tokens creq = None"
    "cr_response_format creq = None" using de_chat_body by blast
  show ?thesis
    by (simp add: chat_completions_def service_defs creq gateway_eval Let_def
      upto_four rl_new_def Gateway_Auth.sample_key_def case_prod_beta within_budget_def logged_cost_def List.map_filter_def
      guarded_chat_def pre_call_def guardrails_config_default_def moderate_def active_chat_def chat_with_fallback_def
      call_chat_with_fallback_def get_fallback_chain_def call_chat_attempt_def call_chat_def call_chat_plain_def no_call_def
      on_metrics_def models_get_by_public_id_def check_response_format_def finish_chat_def
      token_metrics_def compute_chat_cost_def decimal_field_def)
qed


theorem array_body_skips_scope_witness:
  "\<forall>gw. fst (serve_chat sample_server (\<lambda>_. Some (positional chat_body)) service_env service_inputs
       (sample_head ''sk-godwit-abcdef'') (Ok []) mc_new gw) =
     Authenticated (fst (chat_completions service_env service_inputs (Gateway_Auth.sample_key\<lparr>ak_allowed_models := [''m'']\<rparr>) (Ok []) gw)) \<and>
     \<not> is_model_allowed (Gateway_Auth.sample_key\<lparr>ak_allowed_models := [''m'']\<rparr>) ''acme/c''"
proof -
  obtain cache' creq where a: "api_key_auth (sv_verify sample_server) (sv_now0 sample_server) (sv_now sample_server)
      (sv_fault sample_server) (sv_keys sample_server) (sample_head ''sk-godwit-abcdef'') mc_new =
      (Authenticated (Gateway_Auth.sample_key\<lparr>ak_allowed_models := [''m'']\<rparr>), cache')"
    and c: "de_request (JObject chat_body) = Some creq"
    using sample_key_accepted de_chat_body by blast
  have "fst (serve_chat sample_server (\<lambda>_. Some (positional chat_body)) service_env service_inputs
       (sample_head ''sk-godwit-abcdef'') (Ok []) mc_new gw) =
     Authenticated (fst (chat_completions service_env service_inputs (Gateway_Auth.sample_key\<lparr>ak_allowed_models := [''m'']\<rparr>) (Ok []) gw))"
    for gw
    using array_body_skips_scope [OF a c, of "\<lambda>_. Some (positional chat_body)" "[]" service_env service_inputs gw]
    by (metis fst_conv prod.exhaust)
  then show ?thesis by (simp add: is_model_allowed_def)
qed

end
