(* ===== verification/Process_Main.thy ===== *)
theory Process_Main
  imports Gateway_Startup Sign_On Gateway_Auth Rate_Limit
begin

text \<open>
  \<open>main\<close> of \<open>crates/godwit-bin/src/main.rs\<close>, up to the point where the process serves requests: each step in its order,
  with the error that ends the process there and what the database then holds. The file system, the environment, the
  database server and its migrations, the YAML parser and the socket are functions of \<open>outside\<close>; the identifiers,
  times and faults of the statements are its other fields. The result is the shared state of
  \<open>crates/godwit-api/src/state.rs\<close>, without the connection pool and the repositories, which are the database itself.
\<close>

section \<open>The steps\<close>

datatype start_error = SE_Io string | SE_Yaml string | SE_Core pasteur_error | SE_Mailer string

type_synonym database = "catalog \<times> accounts"

record outside =
  os_env :: "string \<rightharpoonup> string"
  os_open :: "string \<Rightarrow> (string, string) result"
  os_yaml :: "string \<Rightarrow> (string, json) result"
  os_mismatch :: "json \<Rightarrow> string"
  os_connect :: "string \<Rightarrow> fault"
  os_migrate :: "database \<Rightarrow> fault \<times> database"
  os_profiles_list :: fault
  os_profiles :: "nat \<Rightarrow> profile_inputs"
  os_admin :: admin_inputs
  os_bind :: "string \<Rightarrow> fault"

definition load_config :: "outside \<Rightarrow> (start_error, app_config) result" where
  "load_config os =
     bind_result (map_err SE_Io (os_open os (unwrap_or ''config.yaml'' (os_env os ''CONFIG_PATH'')))) (\<lambda>contents.
     bind_result (map_err SE_Yaml (os_yaml os contents)) (\<lambda>v.
     ok_or (SE_Yaml (os_mismatch os v)) (de_section de_app_config v)))"

definition connect :: "outside \<Rightarrow> string \<Rightarrow> (pasteur_error, unit) result" where
  "connect os url = (case os_connect os url of Some e \<Rightarrow> Err (PE_Database e) | None \<Rightarrow> Ok ())"

definition run_migrations :: "outside \<Rightarrow> database \<Rightarrow> (pasteur_error, unit) result \<times> database" where
  "run_migrations os db =
     (case os_migrate os db of (Some e, db) \<Rightarrow> (Err (PE_Database e), db) | (None, db) \<Rightarrow> (Ok (), db))"

text \<open>The administrator is created only when both variables are set.\<close>

definition bootstrap_admin :: "auth_lib \<Rightarrow> outside \<Rightarrow> accounts \<Rightarrow> (pasteur_error, unit) result \<times> accounts" where
  "bootstrap_admin lib os ac =
     (case (os_env os ''ADMIN_EMAIL'', os_env os ''ADMIN_PASSWORD'') of
        (Some email, Some password) \<Rightarrow> bootstrap_admin_user lib (os_admin os) email password ac
      | _ \<Rightarrow> (Ok (), ac))"

record app_state =
  st_config :: app_config
  st_adapter_registry :: "adapter_kind adapter_registry"
  st_model_router :: "adapter_kind router"
  st_mcp :: registry
  st_searxng_profile :: "resolved_profile option"
  st_mailer :: "mailer option"
  st_api_key_cache :: "(string, api_key) memory_cache"
  st_credential_master_key :: string
  st_rate_limiter :: rate_limiter
  st_login_limiter :: login_limiter
  st_circuit_breaker_registry :: breaker_registry
  st_agentic_loop :: agentic_loop
  st_guardrails :: guardrails_orchestrator

definition build_state ::
  "crypto \<Rightarrow> (string \<Rightarrow> string \<Rightarrow> (nat \<times> nat) list) \<Rightarrow> (json \<Rightarrow> (string, encrypted_secret) result) \<Rightarrow> app_config \<Rightarrow> string \<Rightarrow>
   mailer option \<Rightarrow> app_state" where
  "build_state c regex de_secret config master_key mailer =
     \<lparr>st_config = config, st_adapter_registry = main_registry,
      st_model_router = \<lparr>ro_registry = adapters_get main_registry, ro_master_key = master_key, ro_crypto = c,
        ro_de_secret = de_secret\<rparr>,
      st_mcp = build_mcp_registry config, st_searxng_profile = build_searxng config, st_mailer = mailer,
      st_api_key_cache = mc_new, st_credential_master_key = master_key, st_rate_limiter = rl_new,
      st_login_limiter = build_login_limiter config, st_circuit_breaker_registry = build_breakers config,
      st_agentic_loop = build_agentic_loop config, st_guardrails = build_guardrails regex config\<rparr>"

text \<open>The state the process serves with, or the error it ends with, and the database at that point.\<close>

definition main ::
  "crypto \<Rightarrow> auth_lib \<Rightarrow> ('e, 'x, 's) smtp_lib \<Rightarrow> (string \<Rightarrow> string \<Rightarrow> (nat \<times> nat) list) \<Rightarrow>
   (json \<Rightarrow> (string, encrypted_secret) result) \<Rightarrow> outside \<Rightarrow> database \<Rightarrow> (start_error, app_state) result \<times> database" where
  "main c lib smtp regex de_secret os db =
     (case load_config os of
        Inl e \<Rightarrow> (Err e, db)
      | Inr config \<Rightarrow>
     (case connect os (ap_database_url config) of
        Inl e \<Rightarrow> (Err (SE_Core e), db)
      | Inr _ \<Rightarrow>
     (case run_migrations os db of
        (Inl e, db) \<Rightarrow> (Err (SE_Core e), db)
      | (Inr _, ct, ac) \<Rightarrow>
     (case load_master_key_from_env c (os_env os) ''CREDENTIAL_ENCRYPTION_KEY'' of
        Inl e \<Rightarrow> (Err (SE_Core e), ct, ac)
      | Inr master_key \<Rightarrow>
     (case bootstrap_provider_profiles c master_key (os_profiles_list os) (os_profiles os)
             (legacy_providers_from_env (os_env os)) ct of
        (Inl e, ct) \<Rightarrow> (Err (SE_Core e), ct, ac)
      | (Inr _, ct) \<Rightarrow>
     (case bootstrap_admin lib os ac of
        (Inl e, ac) \<Rightarrow> (Err (SE_Core e), ct, ac)
      | (Inr _, ac) \<Rightarrow>
     (case mailer_build smtp config of
        Inl e \<Rightarrow> (Err (SE_Mailer (''failed to build mailer: '' @ mail_error_display e)), ct, ac)
      | Inr mailer \<Rightarrow>
     (case os_bind os (sv_host (ap_server config) @ '':'' @ show_nat (unat (sv_port (ap_server config)))) of
        Some e \<Rightarrow> (Err (SE_Io e), ct, ac)
      | None \<Rightarrow> (Ok (build_state c regex de_secret config master_key mailer), ct, ac)))))))))"

lemma main_cases:
  assumes "main c lib smtp regex de_secret os db = (Ok st, db')"
  obtains config master_key mailer ct ac ct' ac' where
    "load_config os = Ok config" "run_migrations os db = (Ok (), ct, ac)"
    "load_master_key_from_env c (os_env os) ''CREDENTIAL_ENCRYPTION_KEY'' = Ok master_key"
    "bootstrap_provider_profiles c master_key (os_profiles_list os) (os_profiles os)
       (legacy_providers_from_env (os_env os)) ct = (Ok (), ct')"
    "bootstrap_admin lib os ac = (Ok (), ac')" "mailer_build smtp config = Ok mailer"
    "st = build_state c regex de_secret config master_key mailer" "db' = (ct', ac')"
  using assms by (auto simp: main_def split: sum.splits prod.splits option.splits)

section \<open>What a start leaves in the database\<close>

lemma profiles_set_auth_keeps:
  "ct_profiles ct \<noteq> [] \<Longrightarrow> ct_profiles (snd (profiles_set_auth flt v i secret ct)) \<noteq> []"
  by (auto simp: profiles_set_auth_def run_stmt_def profile_rows_update_def Let_def split: option.split)

lemma profiles_create_adds:
  "profiles_create flt v i now name protocol url wild ct = (Ok row, ct') \<Longrightarrow> ct_profiles ct' \<noteq> []"
  by (auto simp: profiles_create_def run_stmt_def Let_def split: option.splits if_splits sum.splits prod.splits)

lemma profiles_create_keeps:
  "ct_profiles ct \<noteq> [] \<Longrightarrow> ct_profiles (snd (profiles_create flt v i now name protocol url wild ct)) \<noteq> []"
  by (auto simp: profiles_create_def run_stmt_def Let_def split: option.splits if_splits sum.splits prod.splits)

lemma create_profiles_keeps:
  "ct_profiles ct \<noteq> [] \<Longrightarrow> ct_profiles (snd (create_profiles c key inp i ps ct)) \<noteq> []"
proof (induction ps arbitrary: i ct)
  case (Cons p ps)
  then show ?case
    using profiles_create_keeps [OF Cons.prems] profiles_set_auth_keeps
    by (auto split: sum.split prod.split) (metis snd_conv)+
qed simp

lemma bootstrap_profiles_settled:
  assumes "bootstrap_provider_profiles c key flt inp legacy ct = (Ok (), ct')"
  shows "bootstrap_provider_profiles c' key' None inp' legacy ct' = (Ok (), ct')"
proof (cases "ct_profiles ct' = []")
  case True
  have "legacy = []"
  proof (rule ccontr)
    assume "legacy \<noteq> []"
    then obtain p ps where l: "legacy = p # ps" by (cases legacy) auto
    have "ct_profiles ct' \<noteq> []"
    proof (cases "ct_profiles ct = []")
      case True
      then have "create_profiles c key inp 0 (p # ps) ct = (Ok (), ct')"
        using assms l by (auto simp: bootstrap_provider_profiles_def profiles_list_def fetch_all_def split: option.splits)
      then obtain row ct1 r ct2 where
        "profiles_create (fst (pf_create (inp 0))) (snd (pf_create (inp 0))) (pf_id (inp 0)) (pf_now (inp 0))
           (lp_name p) (lp_protocol p) (Some (lp_base_url p)) False ct = (Ok row, ct1)"
        "profiles_set_auth (fst (pf_set_auth (inp 0))) (snd (pf_set_auth (inp 0))) (pp_id row)
           (encrypt_api_key c key (pf_nonce (inp 0)) (lp_api_key p)) ct1 = (r, ct2)"
        "create_profiles c key inp (Suc 0) ps ct2 = (Ok (), ct')"
        by (auto split: sum.splits prod.splits)
      then show ?thesis
        using profiles_set_auth_keeps [OF profiles_create_adds] create_profiles_keeps by (metis snd_conv)
    next
      case False
      then show ?thesis using assms
        by (auto simp: bootstrap_provider_profiles_def profiles_list_def fetch_all_def split: option.splits if_splits)
          (metis length_0_conv length_sort)
    qed
    then show False using True by simp
  qed
  then show ?thesis using True by (simp add: bootstrap_provider_profiles_def profiles_list_def fetch_all_def)
qed (rule bootstrap_profiles_partial)

lemma bootstrap_admin_settled:
  assumes "bootstrap_admin lib os ac = (Ok (), ac')" "os_env os' = os_env os" "ai_lookup (os_admin os') = None"
  shows "bootstrap_admin lib' os' ac' = (Ok (), ac')"
proof (cases "(os_env os ''ADMIN_EMAIL'', os_env os ''ADMIN_PASSWORD'')" rule: prod.exhaust)
  case (Pair e p)
  show ?thesis
  proof (cases "\<exists>email password. e = Some email \<and> p = Some password")
    case True
    then obtain email password where ep: "os_env os ''ADMIN_EMAIL'' = Some email" "os_env os ''ADMIN_PASSWORD'' = Some password"
      using Pair by auto
    then have "bootstrap_admin_user lib (os_admin os) email password ac = (Ok (), ac')"
      using assms(1) by (simp add: bootstrap_admin_def)
    then have "email \<in> usr_email ` set (ac_users ac')" by (auto intro: bootstrap_admin_present)
    then obtain u where "users_get_by_email None email ac' = Ok u" using users_get_by_email_present by blast
    then show ?thesis using ep assms(2,3) by (simp add: bootstrap_admin_def bootstrap_admin_user_def)
  next
    case False
    then show ?thesis using Pair assms(2) by (auto simp: bootstrap_admin_def split: option.split)
  qed
qed

section \<open>Properties\<close>


text \<open>
  C31. Starting again changes nothing: when one start got to serve, a later one with the same environment, on a database
  that has its migrations and answers, leaves the database as it is, whatever else has changed outside and
  wherever it may end.
\<close>

theorem restart_changes_nothing:
  assumes "main c lib smtp regex de_secret os db = (Ok st, db')"
    and "os_env os' = os_env os" "os_migrate os' db' = (None, db')" "os_profiles_list os' = None"
    and "ai_lookup (os_admin os') = None"
  shows "snd (main c' lib' smtp' regex' de_secret' os' db') = db'"
  using assms(1)
proof (cases rule: main_cases)
  case (1 config master_key mailer ct0 ac0 ct1 ac1)
  have "bootstrap_provider_profiles c' key None (os_profiles os') (legacy_providers_from_env (os_env os)) ct1 = (Ok (), ct1)" for key
    by (rule bootstrap_profiles_settled [OF 1(4)])
  moreover have "bootstrap_admin lib' os' ac1 = (Ok (), ac1)"
    by (rule bootstrap_admin_settled [OF 1(5) assms(2,5)])
  ultimately show ?thesis using assms(2-4) 1(8)
    by (auto simp: main_def run_migrations_def split: sum.split option.split)
qed

section \<open>An instance\<close>

text \<open>A smallest configuration file, an administrator and one provider key in the environment, and an empty database.\<close>

definition sample_file :: json where
  "sample_file = JObject
     [(''server'', JObject [(''host'', JString ''h''), (''port'', JInt 8080), (''request_timeout_seconds'', JInt 30)]),
      (''database'', JObject [(''url'', JString ''postgres'')]),
      (''auth'', JObject [(''jwt_secret'', JString ''s''), (''access_token_ttl_minutes'', JInt 15),
         (''refresh_token_ttl_days'', JInt 7), (''oidc_providers'', JArray []), (''saml_providers'', JArray [])])]"

definition sample_outside :: outside where
  "sample_outside = \<lparr>os_env = [''CREDENTIAL_ENCRYPTION_KEY'' \<mapsto> replicate 32 (CHR ''k''), ''ADMIN_EMAIL'' \<mapsto> ''root'',
       ''ADMIN_PASSWORD'' \<mapsto> ''secret'', ''OPENAI_API_KEY'' \<mapsto> ''sk''],
     os_open = (\<lambda>path. if path = ''config.yaml'' then Ok ''file'' else Err ''not found''), os_yaml = (\<lambda>_. Ok sample_file),
     os_mismatch = (\<lambda>_. ''mismatch''), os_connect = (\<lambda>_. None), os_migrate = (\<lambda>db. (None, db)), os_profiles_list = None,
     os_profiles = (\<lambda>i. \<lparr>pf_create = (None, []), pf_id = of_nat i + 1, pf_now = 0, pf_nonce = replicate 12 (CHR ''n''),
       pf_set_auth = (None, [])\<rparr>), os_admin = first_start (None, []), os_bind = (\<lambda>_. None)\<rparr>"

definition no_smtp :: "(unit, unit, unit) smtp_lib" where
  "no_smtp = \<lparr>sl_relay = (\<lambda>_ _. Ok ()), sl_templates = Ok (), sl_mailbox = (\<lambda>_. True), sl_address = (\<lambda>_. Ok ()), sl_message = (\<lambda>_ _ _ _ _. Ok ()),
     sl_render = (\<lambda>_ _. None), sl_send = (\<lambda>_ _ s. (Ok (), s))\<rparr>"

definition empty_catalog :: catalog where
  "empty_catalog = \<lparr>ct_profiles = [], ct_models = [], ct_aliases = []\<rparr>"

abbreviation sample_start :: "database \<Rightarrow> (start_error, app_state) result \<times> database" where
  "sample_start \<equiv> main plain_crypto plain_auth no_smtp (\<lambda>_ _. []) (\<lambda>_. Err ''none'') sample_outside"

lemma sample_config_loads: "\<exists>config. load_config sample_outside = Ok config \<and> as_mail (ap_auth config) = None"
  by (simp add: load_config_def sample_outside_def sample_file_def de_section_def de_app_config_def de_server_def de_database_def
      de_auth_def req_def opt_def or_default_def de_string_def de_u16_def de_u64_def Wire_Json.de_i64_def)

lemma sample_profiles:
  "\<exists>ct. bootstrap_provider_profiles plain_crypto key None (os_profiles sample_outside)
     (legacy_providers_from_env (os_env sample_outside)) empty_catalog = (Ok (), ct)"
  by (simp add: sample_outside_def legacy_providers_from_env_def legacy_provider_from_def bootstrap_provider_profiles_def
      profiles_list_def fetch_all_def empty_catalog_def profiles_create_def profiles_set_auth_def run_stmt_def fetch_one_db_def
      profile_rows_update_def catalog_ok_def profiles_ok_def models_ok_def aliases_ok_def Let_def)

lemma sample_admin:
  "\<exists>ac. bootstrap_admin plain_auth sample_outside no_accounts = (Ok (), ac)"
  by (simp add: bootstrap_admin_def sample_outside_def bootstrap_eval user_role_from_str_def Let_def map_filter_simps)

lemma sample_starts: "\<exists>st db. sample_start (empty_catalog, no_accounts) = (Ok st, db)"
proof -
  obtain config where c: "load_config sample_outside = Ok config" "as_mail (ap_auth config) = None" using sample_config_loads by blast
  have k: "load_master_key_from_env plain_crypto (os_env sample_outside) ''CREDENTIAL_ENCRYPTION_KEY'' = Ok (replicate 32 (CHR ''k''))"
    by (simp add: load_master_key_from_env_def sample_outside_def plain_crypto_def)
  obtain ct ac where b: "bootstrap_provider_profiles plain_crypto (replicate 32 (CHR ''k'')) None (os_profiles sample_outside)
     (legacy_providers_from_env (os_env sample_outside)) empty_catalog = (Ok (), ct)"
    "bootstrap_admin plain_auth sample_outside no_accounts = (Ok (), ac)" using sample_profiles sample_admin by blast
  have o: "connect sample_outside url = Ok ()" "run_migrations sample_outside db = (Ok (), db)" "os_profiles_list sample_outside = None"
    "os_bind sample_outside addr = None" for url db addr
    by (simp_all add: connect_def run_migrations_def sample_outside_def)
  show ?thesis using c(2) by (simp add: main_def c(1) o k b mailer_build_def)
qed


theorem restart_changes_nothing_witness:
  "\<exists>st db. sample_start (empty_catalog, no_accounts) = (Ok st, db) \<and> snd (sample_start db) = db"
proof -
  obtain st db where s: "sample_start (empty_catalog, no_accounts) = (Ok st, db)" using sample_starts by blast
  have "snd (sample_start db) = db"
    by (rule restart_changes_nothing [OF s]) (simp_all add: sample_outside_def first_start_def)
  with s show ?thesis by blast
qed

end
