(* ===== verification/Spec2Isabelle.thy ===== *)
theory Spec2Isabelle
  imports Circuit_Breaker Rate_Limit Resilience Provider_Fallback Caches Gateway_Auth Sse Guardrails
    Mcp_Rpc Mcp_Registry Agentic_Loop Batch_Jobs Alerting Admin_Access Chat_Proxy
    Anthropic_Adapter OpenAI_Adapter Compat_Adapters Azure_Adapter Gemini_Adapter Stream_Translators
    Messages_Api Gateway_Startup Spend_Reports Gateway_Routes Service_Endpoints Sign_On
    Gateway_Service Process_Main
begin

text \<open>
  \<^bold>\<open>Godwit\<close> is a gateway in front of model providers. A client sends a chat, embedding, image or
  audio request with an API key; the gateway authenticates the key, applies limits, budgets and
  guardrails, chooses a provider for the model, calls it through an adapter with retries and
  fallbacks, may run tools for the model, and streams or returns the answer and logs its cost. An
  admin interface manages organizations, users, teams, keys, models and provider profiles. This
  development models the Rust sources under \<open>src/crates\<close> as functions on explicit state and proves
  what they do.

  \<^bold>\<open>Foundations.\<close>
  \<^item> \<open>Godwit_Prelude\<close>: \<open>Result\<close>, machine integers as words, time, lists, UTF-8 byte strings,
    \<open>str\<close> functions (split, trim, join), the map entry API and the locale \<open>keyed_store\<close>.
  \<^item> \<open>F64_Rounding\<close>: \<open>f64\<close> arithmetic as exact rationals rounded to 53 bits, ties to even, and the
    locale \<open>f64_arith\<close> of the facts its clients use.
  \<^item> \<open>Json_Value\<close>: \<open>serde_json::Value\<close> with its accessors; text printer and parser are parameters.
  \<^item> \<open>Core_Types\<close> (\<open>godwit-core/src/lib.rs\<close>, \<open>godwit-api/src/error.rs\<close>, \<open>adapter.rs\<close>): requests,
    responses, errors and the HTTP responses they become.
  \<^item> \<open>Wire_Json\<close>: the JSON form of those types as the derived serialisers write and read it; the
    locale \<open>wire_codec\<close> with one interpretation per type.
  \<^item> \<open>Db_Models\<close>, \<open>Accounts\<close> (\<open>godwit-db\<close>): tables as lists of rows in a record, statements as
    functions that may fail, with the constraints and cascades of the migrations.

  \<^bold>\<open>Admission.\<close>
  \<^item> \<open>Gateway_Auth\<close> (\<open>middleware.rs\<close>, \<open>godwit-auth\<close>): key verification, cookies and CSRF.
  \<^item> \<open>Rate_Limit\<close> (\<open>rate_limit.rs\<close>, login limiter, budgets): token buckets on exact doubles.
  \<^item> \<open>Guardrails\<close> (\<open>pii_masking.rs\<close>, \<open>guardrails.rs\<close>): masking and moderation around a call.
  \<^item> \<open>Caches\<close> (\<open>prompt_cache.rs\<close>, \<open>godwit-cache\<close>): both implement the locale \<open>lossy_cache\<close>; the
    prompt cache refines a least-recently-used list.

  \<^bold>\<open>Routing.\<close>
  \<^item> \<open>Load_Balancer\<close>, \<open>Credentials\<close>, \<open>Model_Router\<close>: from a model name to an enabled model, profile,
    credential and adapter, with the in-flight counts.
  \<^item> \<open>Circuit_Breaker\<close>: the state machine, histories of calls and an interleaving semantics.
  \<^item> \<open>Failover\<close>, \<open>Resilience\<close> (\<open>resilience.rs\<close>, \<open>fallback.rs\<close>), \<open>Provider_Fallback\<close>
    (\<open>moderation_fallback.rs\<close>, \<open>rerank_fallback.rs\<close>): one abstract loop, the locale
    \<open>failover_loop\<close>, and its instances.

  \<^bold>\<open>Answering.\<close>
  \<^item> \<open>Usage_Cost\<close>: token and unit prices in exact decimals, where overflow panics.
  \<^item> \<open>Sse\<close> (\<open>streaming.rs\<close>, \<open>sse_egress.rs\<close>): chunk parsing, the canonical envelope, the OpenAI and
    Anthropic egress as instances of the locale \<open>stream_translator\<close>.
  \<^item> \<open>Provider_Http\<close>: what every adapter does around the HTTP client, which is a parameter.
  \<^item> \<open>Anthropic_Adapter\<close> (\<open>anthropic.rs\<close>): translation of requests, answers and events.
  \<^item> \<open>OpenAI_Adapter\<close> (\<open>openai.rs\<close>): the same with the local prompt cache, and all other methods.
  \<^item> \<open>Compat_Adapters\<close> (\<open>vllm.rs\<close>, \<open>sglang.rs\<close>, \<open>ollama.rs\<close>, \<open>llama_cpp.rs\<close>, \<open>web_search.rs\<close>): the
    self-hosted servers, instances of the locale \<open>compat_body\<close>.
  \<^item> \<open>Azure_Adapter\<close> (\<open>azure_openai.rs\<close>): deployments, the request as a part of the OpenAI one.
  \<^item> \<open>Gemini_Adapter\<close> (\<open>gemini.rs\<close>, \<open>gemini_stream.rs\<close>, \<open>gemini_cache.rs\<close>): the Gemini protocol.
  \<^item> \<open>Stream_Translators\<close> (\<open>stream_translators/\<close>): the translators of every protocol; the locales
    \<open>finishing_translator\<close> and \<open>text_translator\<close> with an interpretation for each of them.
  \<^item> \<open>Mcp_Rpc\<close>, \<open>Mcp_Registry\<close>, \<open>Agentic_Loop\<close>, \<open>Tool_Streams\<close>: tool servers over JSON-RPC, the tool
    loop, and tool calls inside a stream.
  \<^item> \<open>Modalities\<close>, \<open>Chat_Proxy\<close> (\<open>proxy.rs\<close>): the handlers, composed of all of the above.
  \<^item> \<open>Messages_Api\<close> (\<open>anthropic_proxy.rs\<close>): the same for clients of the Anthropic protocol.
  \<^item> \<open>Service_Endpoints\<close> (\<open>proxy.rs\<close>, \<open>batch.rs\<close>, \<open>utils.rs\<close>, \<open>model_info.rs\<close>, \<open>health.rs\<close>, \<open>metrics.rs\<close>): batches,
    models, token counter, health, and the metrics as they are reported.
  \<^item> \<open>Batch_Jobs\<close>, \<open>Alerting\<close>: batch files and budget alerts.

  \<^bold>\<open>Administration.\<close> \<open>Sessions\<close>, \<open>Passwords\<close>, \<open>Admin_Access\<close> (\<open>godwit-api/src/admin\<close>): login, refresh
  tokens, password policy, and the handlers over every table. \<open>Spend_Reports\<close> (\<open>request_logs.rs\<close>, \<open>spend*.rs\<close>,
  \<open>stats.rs\<close>): what the request log is read for. \<open>Sign_On\<close> (\<open>oidc.rs\<close>, \<open>saml.rs\<close>, \<open>mail.rs\<close>): the code around the
  client libraries of single sign-on and mail, which are parameters.

  \<^bold>\<open>The process.\<close> \<open>App_Config\<close> (\<open>godwit-core/src/lib.rs\<close>, \<open>main.rs\<close>): the configuration, its defaults and readers,
  and what is built from it. \<open>Gateway_Startup\<close> (\<open>main.rs\<close>, \<open>bootstrap.rs\<close>): the adapter registry and the first rows of
  the database. \<open>Process_Main\<close> (\<open>main.rs\<close>, \<open>state.rs\<close>): \<open>main\<close> step by step, with the error and the database each step
  may end with, and the state it serves with. \<open>Gateway_Routes\<close> (\<open>app.rs\<close> and every \<open>router\<close>): the table of routes with
  the middleware in front of each, and the way of a request to its handler. \<open>Gateway_Service\<close> puts the parts together:
  a chat request from the middleware to the provider, and a gateway that serves requests concurrently while the
  tasks that write the request log run; the locale \<open>budget\<close> is what an accounting rule has to satisfy, with the
  budgets of end users and of teams as its interpretations.

  \<^bold>\<open>What is proved.\<close> What has held of a chat request whose effect is seen at a provider, from its key to its budgets;
  by how much overlapping requests can exceed a budget; what a start of the process establishes, and that a restart
  changes nothing; bounds of the limiter and the breaker; soundness of key authentication and model
  resolution; which endpoints are guarded and by what; isolation of organizations under any sequence of
  admin requests and in the spend report; single use of refresh tokens; in-flight counts and log rows of every handler; exact behaviour of retries, fallbacks, tool
  loop, batches and stream translation; round trips of frames, names, masks and wire formats. Several
  theorems show where the code does not do what it means to (see the findings of the manifest).

  \<^bold>\<open>Conventions.\<close> An operation that may fail returns \<open>Inl\<close> of the error; a panic is \<open>None\<close>. An \<open>await\<close> on
  the outside world takes and returns a state \<open>'s\<close>; random choices, clocks, hashes, ciphers and the
  database's failures are arguments. Loops are structural recursion or carry a termination proof; the
  tool loop is bounded by its own \<open>max_iterations\<close> and the reader of frames by its buffer, so no fuel
  is used where the code has no bound. Signed overflow wraps, as in a release build. An amount written to the
  database is rounded to the digits of its column (\<open>NUMERIC\<close>), and refused when it has too many. A handler sees the
  tables of one moment; \<open>Gateway_Service\<close> lets the tables of later requests differ.

  \<^bold>\<open>Not modelled.\<close> The file system, sockets, the database server and its migrations, which are parameters of \<open>main\<close>; the
  matching of paths, the encoding of the metrics page and the protocols of single sign-on and mail, which are
  third-party crates; logging output; the text of SQL statements (their effect on rows is modelled); the builders of
  test states.
\<close>

end
